(* ===== verification/Prelude.thy ===== *)
theory Prelude
  imports Complex_Main "HOL-Library.Sublist"
begin

text \<open>
  Shared vocabulary of the development.

  \<^item> The values of the language: strings are lists of 8-bit code units, a parsed JSON document or
    an \<^verbatim>\<open>unknown\<close> value is a \<open>json\<close>, instants and durations are integers in milliseconds.
  \<^item> Errors as values: every exception class the services throw is a constructor of
    \<open>http_error\<close>, and a fallible operation returns a \<open>result\<close>.
  \<^item> The string functions of the standard library that the sources call.
  \<^item> Repositories: a database table is a list of rows in insertion order; \<open>tbl_find\<close>,
    \<open>tbl_save\<close> and \<open>tbl_delete\<close> are what TypeORM's \<^verbatim>\<open>findOne\<close>, \<^verbatim>\<open>save\<close> and \<^verbatim>\<open>delete\<close> do
    on the primary key, with their laws.
  \<^item> Interfaces shared by several components, as locales: \<open>invariant_system\<close> (a service's
    operations as steps on its state), \<open>tenant_scoped\<close> (a finder that is filtered by tenant).
\<close>

section \<open>Collections of facts\<close>

named_theorems scope_simps \<open>scope catalogue and scope arithmetic\<close>
named_theorems tbl_simps \<open>laws of the keyed tables\<close>
named_theorems guard_defs \<open>definitions of guards and access checks\<close>
named_theorems inv_intros \<open>invariant preservation, one rule per operation\<close>

section \<open>Values\<close>

text \<open>An instant or a duration, in milliseconds.\<close>

type_synonym time = int

text \<open>Values of type \<^verbatim>\<open>unknown\<close> (JWT claims, request bodies, JSONB columns). A JavaScript
  \<^verbatim>\<open>undefined\<close> is kept apart from \<^verbatim>\<open>null\<close>; numbers are exact rationals.\<close>

datatype json =
    JUndef
  | JNull
  | JBool bool
  | JNum rat
  | JStr string
  | JArr "json list"
  | JObj "(string \<times> json) list"

text \<open>Property access \<^verbatim>\<open>value.key\<close> on an object; anything else yields \<^verbatim>\<open>undefined\<close>.\<close>

fun jget :: "json \<Rightarrow> string \<Rightarrow> json" where
  "jget (JObj kvs) k = (case map_of kvs k of None \<Rightarrow> JUndef | Some v \<Rightarrow> v)"
| "jget _ _ = JUndef"

fun is_JStr :: "json \<Rightarrow> bool" where
  "is_JStr (JStr _) = True"
| "is_JStr _ = False"

text \<open>The string entries of an array, in order (\<^verbatim>\<open>filter(e => typeof e === 'string')\<close>).\<close>

fun jstrings :: "json list \<Rightarrow> string list" where
  "jstrings [] = []"
| "jstrings (JStr s # vs) = s # jstrings vs"
| "jstrings (_ # vs) = jstrings vs"

lemma set_jstrings: "set (jstrings vs) = {s. JStr s \<in> set vs}"
  by (induction vs rule: jstrings.induct) auto

section \<open>Errors as values\<close>

datatype http_error =
    BadRequest string
  | Unauthorized string
  | Forbidden string
  | NotFound string
  | Conflict string
  | UnprocessableEntity string
  | NotImplemented string
  | ServiceUnavailable string
  | InternalError string
  | AuthenticationRequired string string
  | InsufficientScope string "string list" "string list"
  | TenantAccessDenied string "string option" "string option option"
  | TenantNotActive string string
  | InsufficientTenantRole string "string list"
  | TooManyRequests nat

type_synonym 'a result = "http_error + 'a"

abbreviation Err :: "http_error \<Rightarrow> 'a result" where
  "Err \<equiv> Inl"

abbreviation Ok :: "'a \<Rightarrow> 'a result" where
  "Ok \<equiv> Inr"

text \<open>Sequencing of fallible calls: a thrown error leaves the rest unexecuted.\<close>

fun rbind :: "'a result \<Rightarrow> ('a \<Rightarrow> 'b result) \<Rightarrow> 'b result" where
  "rbind (Inl e) f = Inl e"
| "rbind (Inr x) f = f x"

definition is_ok :: "'a result \<Rightarrow> bool" where
  "is_ok r = (case r of Inl _ \<Rightarrow> False | Inr _ \<Rightarrow> True)"

lemma is_ok_simps [simp]: "is_ok (Inl e) = False" "is_ok (Inr x) = True"
  by (simp_all add: is_ok_def)

lemma is_ok_iff: "is_ok r \<longleftrightarrow> (\<exists>x. r = Inr x)"
  by (cases r) auto

lemma rbind_eq_Inr: "rbind r f = Inr y \<longleftrightarrow> (\<exists>x. r = Inr x \<and> f x = Inr y)"
  by (cases r) auto

lemma rbind_eq_Inl: "rbind r f = Inl e \<longleftrightarrow> r = Inl e \<or> (\<exists>x. r = Inr x \<and> f x = Inl e)"
  by (cases r) auto

lemma if_Err_eq_Ok: "(if b then Inl e else r) = Inr x \<longleftrightarrow> \<not> b \<and> r = Inr x"
  by simp

lemma opt_Err_eq_Ok:
  "(case x of None \<Rightarrow> Inl e | Some y \<Rightarrow> f y) = Inr z \<longleftrightarrow> (\<exists>y. x = Some y \<and> f y = Inr z)"
  by (cases x) auto

text \<open>Reading back a successful call, without splitting the cases inside its arguments.\<close>

lemmas ok_iffs = rbind_eq_Inr if_Err_eq_Ok opt_Err_eq_Ok

lemma rbind_is_ok: "is_ok (rbind r f) \<longleftrightarrow> (\<exists>x. r = Inr x \<and> is_ok (f x))"
  by (cases r) auto

section \<open>Strings\<close>

text \<open>Code units that \<^verbatim>\<open>trim()\<close> and \<^verbatim>\<open>\s\<close> take as white space, among the 8-bit ones.\<close>

definition is_ws :: "char \<Rightarrow> bool" where
  "is_ws c = ((of_char c :: nat) \<in> {9, 10, 11, 12, 13, 32, 160})"

definition js_trim :: "string \<Rightarrow> string" where
  "js_trim s = rev (dropWhile is_ws (rev (dropWhile is_ws s)))"

text \<open>\<^verbatim>\<open>toLowerCase()\<close> on 8-bit code units.\<close>

definition lower_char :: "char \<Rightarrow> char" where
  "lower_char c = (let n = (of_char c :: nat) in
     if 65 \<le> n \<and> n \<le> 90 \<or> 192 \<le> n \<and> n \<le> 222 \<and> n \<noteq> 215 then char_of (n + 32) else c)"

definition to_lower :: "string \<Rightarrow> string" where
  "to_lower = map lower_char"

fun js_join :: "string \<Rightarrow> string list \<Rightarrow> string" where
  "js_join sep [] = []"
| "js_join sep [x] = x"
| "js_join sep (x # xs) = x @ sep @ js_join sep xs"

text \<open>\<^verbatim>\<open>split(/\s+/)\<close>: a leading or trailing run of white space yields an empty piece.\<close>

function (sequential) split_ws :: "string \<Rightarrow> string list" where
  "split_ws s =
     (let tok = takeWhile (\<lambda>c. \<not> is_ws c) s; rest = dropWhile (\<lambda>c. \<not> is_ws c) s in
      if rest = [] then [tok] else tok # split_ws (dropWhile is_ws rest))"
  by pat_completeness auto
termination
proof (relation "measure length", goal_cases)
  case (2 s tok rest)
  then have "rest \<noteq> []" by simp
  moreover have "is_ws (hd rest)"
    using 2 hd_dropWhile [of "\<lambda>c. \<not> is_ws c" s] by blast
  ultimately
  have "length (dropWhile is_ws rest) < length rest"
    by (cases rest) (auto simp: le_imp_less_Suc length_dropWhile_le)
  also have "length rest \<le> length s" using 2 by (simp add: length_dropWhile_le)
  finally show ?case by simp
qed simp

declare split_ws.simps [simp del]

text \<open>\<^verbatim>\<open>split(sep)\<close> with a one-character separator.\<close>

fun split_on :: "char \<Rightarrow> string \<Rightarrow> string list" where
  "split_on c [] = [[]]"
| "split_on c (x # xs) =
     (if x = c then [] # split_on c xs
      else (case split_on c xs of [] \<Rightarrow> [[x]] | y # ys \<Rightarrow> (x # y) # ys))"

text \<open>\<^verbatim>\<open>hay.includes(needle)\<close>.\<close>

fun js_includes :: "string \<Rightarrow> string \<Rightarrow> bool" where
  "js_includes needle [] = (needle = [])"
| "js_includes needle (c # cs) = (prefix needle (c # cs) \<or> js_includes needle cs)"

definition is_digit :: "char \<Rightarrow> bool" where
  "is_digit c = (48 \<le> (of_char c :: nat) \<and> (of_char c :: nat) \<le> 57)"

definition is_hex :: "char \<Rightarrow> bool" where
  "is_hex c = (is_digit c \<or> (97 \<le> (of_char (lower_char c) :: nat) \<and> (of_char (lower_char c) :: nat) \<le> 102))"

text \<open>The value of a hexadecimal digit.\<close>

definition hex_val :: "char \<Rightarrow> nat" where
  "hex_val c = (if is_digit c then of_char c - 48 else of_char (lower_char c) - 87)"

text \<open>Decimal digits of a number (\<^verbatim>\<open>String(n)\<close> for a natural number).\<close>

fun show_nat :: "nat \<Rightarrow> string" where
  "show_nat n = (if n < 10 then [char_of (48 + n)] else show_nat (n div 10) @ [char_of (48 + n mod 10)])"

declare show_nat.simps [simp del]

definition show_int :: "int \<Rightarrow> string" where
  "show_int i = (if i < 0 then CHR ''-'' # show_nat (nat (- i)) else show_nat (nat i))"

lemma split_ws_not_Nil [simp]: "split_ws s \<noteq> []"
  by (subst split_ws.simps) (simp add: Let_def)

lemma split_ws_no_ws: "t \<in> set (split_ws s) \<Longrightarrow> c \<in> set t \<Longrightarrow> \<not> is_ws c"
proof (induction s rule: split_ws.induct)
  case (1 s)
  show ?case
  proof (cases "dropWhile (\<lambda>c. \<not> is_ws c) s = []")
    case True
    then have "split_ws s = [takeWhile (\<lambda>c. \<not> is_ws c) s]" by (subst split_ws.simps) simp
    then show ?thesis using "1.prems" by (auto dest: set_takeWhileD)
  next
    case False
    then have "split_ws s = takeWhile (\<lambda>c. \<not> is_ws c) s #
        split_ws (dropWhile is_ws (dropWhile (\<lambda>c. \<not> is_ws c) s))"
      by (subst split_ws.simps) (simp only: Let_def if_False)
    then show ?thesis using 1 False by (auto dest: set_takeWhileD)
  qed
qed

lemma split_ws_word: "\<forall>c\<in>set w. \<not> is_ws c \<Longrightarrow> split_ws w = [w]"
proof -
  assume w: "\<forall>c\<in>set w. \<not> is_ws c"
  then have "takeWhile (\<lambda>c. \<not> is_ws c) w = w" "dropWhile (\<lambda>c. \<not> is_ws c) w = []"
    by (simp_all add: takeWhile_eq_all_conv dropWhile_eq_Nil_conv)
  then show ?thesis by (subst split_ws.simps) simp
qed

lemma split_ws_append:
  assumes "\<forall>c\<in>set w. \<not> is_ws c" "is_ws b" "s = [] \<or> \<not> is_ws (hd s)"
  shows "split_ws (w @ b # s) = w # split_ws s"
proof -
  have "takeWhile (\<lambda>c. \<not> is_ws c) (w @ b # s) = w"
    using assms by (subst takeWhile_append2) auto
  moreover have "dropWhile (\<lambda>c. \<not> is_ws c) (w @ b # s) = b # s"
    using assms by (subst dropWhile_append2) auto
  moreover have "dropWhile is_ws (b # s) = s"
    using assms by (cases s) auto
  ultimately show ?thesis by (subst split_ws.simps) simp
qed

lemma js_trim_no_ws: "\<forall>c\<in>set s. \<not> is_ws c \<Longrightarrow> js_trim s = s"
proof -
  assume *: "\<forall>c\<in>set s. \<not> is_ws c"
  have id: "\<forall>c\<in>set xs. \<not> is_ws c \<Longrightarrow> dropWhile is_ws xs = xs" for xs by (cases xs) auto
  show ?thesis unfolding js_trim_def using id [OF *] id [of "rev s"] * by simp
qed

lemma js_trim_ends:
  assumes "js_trim s \<noteq> []"
  shows "\<not> is_ws (hd (js_trim s)) \<and> \<not> is_ws (last (js_trim s))"
proof -
  let ?u = "dropWhile is_ws s" and ?v = "dropWhile is_ws (rev (dropWhile is_ws s))"
  have v: "?v \<noteq> []" using assms by (simp add: js_trim_def)
  then have lastv: "\<not> is_ws (hd ?v)" by (rule hd_dropWhile)
  have u: "?u \<noteq> []" using v by (metis dropWhile.simps(1) rev.simps(1))
  then have hdu: "\<not> is_ws (hd ?u)" by (rule hd_dropWhile)
  obtain ys where ys: "rev ?u = ys @ ?v"
    by (metis takeWhile_dropWhile_id)
  then have "?u = rev ?v @ rev ys" by (metis rev_append rev_rev_ident)
  then have "hd ?u = hd (rev ?v)" using v by (metis hd_append2 rev_is_Nil_conv)
  then show ?thesis using hdu lastv v unfolding js_trim_def by (simp add: last_rev)
qed

lemma split_on_not_Nil [simp]: "split_on c s \<noteq> []"
  by (induction c s rule: split_on.induct) (auto split: list.splits)

lemma split_on_no_sep: "c \<notin> set s \<Longrightarrow> split_on c s = [s]"
  by (induction s) auto

lemma split_on_append: "c \<notin> set s \<Longrightarrow> split_on c (s @ c # t) = s # split_on c t"
  by (induction s) auto

lemma js_includes_sublist: "js_includes needle hay \<longleftrightarrow> sublist needle hay"
  by (induction hay) (auto simp: sublist_Cons_right)

text \<open>A value between single quotes, as the messages print identifiers.\<close>

definition quoted :: "string \<Rightarrow> string" where
  "quoted s = CHR 0x27 # s @ [CHR 0x27]"

section \<open>Tables\<close>

text \<open>Rows in insertion order, with a primary key \<open>key\<close>. \<open>tbl_save\<close> updates the row with the same
  key in place and appends otherwise.\<close>

definition tbl_find :: "('r \<Rightarrow> 'k) \<Rightarrow> 'k \<Rightarrow> 'r list \<Rightarrow> 'r option" where
  "tbl_find key k rows = List.find (\<lambda>r. key r = k) rows"

fun tbl_save :: "('r \<Rightarrow> 'k) \<Rightarrow> 'r \<Rightarrow> 'r list \<Rightarrow> 'r list" where
  "tbl_save key r [] = [r]"
| "tbl_save key r (x # xs) = (if key x = key r then r # xs else x # tbl_save key r xs)"

definition tbl_delete :: "('r \<Rightarrow> 'k) \<Rightarrow> 'k \<Rightarrow> 'r list \<Rightarrow> 'r list" where
  "tbl_delete key k rows = filter (\<lambda>r. key r \<noteq> k) rows"

text \<open>\<^verbatim>\<open>UPDATE ... SET ... WHERE p\<close>.\<close>

definition tbl_update :: "('r \<Rightarrow> bool) \<Rightarrow> ('r \<Rightarrow> 'r) \<Rightarrow> 'r list \<Rightarrow> 'r list" where
  "tbl_update p f rows = map (\<lambda>r. if p r then f r else r) rows"

definition tbl_keys :: "('r \<Rightarrow> 'k) \<Rightarrow> 'r list \<Rightarrow> bool" where
  "tbl_keys key rows = distinct (map key rows)"

lemma tbl_find_Some: "tbl_find key k rows = Some r \<Longrightarrow> r \<in> set rows \<and> key r = k"
  unfolding tbl_find_def by (metis (mono_tags, lifting) find_Some_iff nth_mem)

lemma tbl_find_Nil [tbl_simps, simp]: "tbl_find key k [] = None"
  by (simp add: tbl_find_def)

lemma tbl_find_Cons [tbl_simps, simp]:
  "tbl_find key k (r # rows) = (if key r = k then Some r else tbl_find key k rows)"
  by (simp add: tbl_find_def)

lemma tbl_find_None: "tbl_find key k rows = None \<longleftrightarrow> k \<notin> key ` set rows"
  by (induction rows) auto

lemma tbl_find_append [tbl_simps]:
  "tbl_find key k (xs @ ys) = (case tbl_find key k xs of None \<Rightarrow> tbl_find key k ys | Some r \<Rightarrow> Some r)"
  by (induction xs) auto

lemma tbl_find_mem: "tbl_keys key rows \<Longrightarrow> r \<in> set rows \<Longrightarrow> tbl_find key (key r) rows = Some r"
  by (induction rows) (auto simp: tbl_keys_def rev_image_eqI)

lemma tbl_find_save [tbl_simps]:
  "tbl_find key k (tbl_save key r rows) = (if k = key r then Some r else tbl_find key k rows)"
  by (induction key r rows rule: tbl_save.induct) auto

lemma tbl_find_delete [tbl_simps]:
  "tbl_find key k (tbl_delete key k' rows) = (if k = k' then None else tbl_find key k rows)"
  by (induction rows) (auto simp: tbl_delete_def)

lemma set_tbl_save: "set (tbl_save key r rows) \<subseteq> insert r (set rows)"
  by (induction key r rows rule: tbl_save.induct) auto

lemma set_tbl_save_keys:
  "tbl_keys key rows \<Longrightarrow> set (tbl_save key r rows) = insert r {x \<in> set rows. key x \<noteq> key r}"
  by (induction key r rows rule: tbl_save.induct) (auto simp: tbl_keys_def image_iff)

lemma tbl_save_mem [simp]: "r \<in> set (tbl_save key r rows)"
  by (induction key r rows rule: tbl_save.induct) auto

lemma set_tbl_delete [tbl_simps]: "set (tbl_delete key k rows) = {r \<in> set rows. key r \<noteq> k}"
  by (auto simp: tbl_delete_def)

lemma set_tbl_update [tbl_simps]:
  "set (tbl_update p f rows) = f ` {r \<in> set rows. p r} \<union> {r \<in> set rows. \<not> p r}"
  by (auto simp: tbl_update_def)

lemma tbl_update_closes: "(\<And>r. p r \<Longrightarrow> \<not> p (f r)) \<Longrightarrow> filter p (tbl_update p f rows) = []"
  by (auto simp: tbl_update_def filter_empty_conv)

lemma tbl_update_others:
  "(\<And>r. p r \<Longrightarrow> \<not> q r \<and> \<not> q (f r)) \<Longrightarrow> filter q (tbl_update p f rows) = filter q rows"
  by (induction rows) (auto simp: tbl_update_def)

lemma tbl_update_mem: "r \<in> set rows \<Longrightarrow> (if p r then f r else r) \<in> set (tbl_update p f rows)"
  by (auto simp: tbl_update_def)

lemma keys_tbl_save: "key ` set (tbl_save key r rows) = insert (key r) (key ` set rows)"
  by (induction key r rows rule: tbl_save.induct) auto

lemma tbl_save_length: "key r \<in> key ` set rows \<Longrightarrow> length (tbl_save key r rows) = length rows"
  by (induction key r rows rule: tbl_save.induct) auto

lemma tbl_keys_inj: "tbl_keys key rows \<Longrightarrow> a \<in> set rows \<Longrightarrow> b \<in> set rows \<Longrightarrow> key a = key b \<Longrightarrow> a = b"
  by (auto simp: tbl_keys_def distinct_map dest: inj_onD)

lemma tbl_find_filter:
  assumes "tbl_keys key rows"
  shows "tbl_find key k (filter p rows) =
     (case tbl_find key k rows of None \<Rightarrow> None | Some r \<Rightarrow> if p r then Some r else None)"
  using assms
proof (induction rows)
  case (Cons r rows)
  have "key r = k \<Longrightarrow> tbl_find key k rows = None" using Cons.prems by (auto simp: tbl_keys_def tbl_find_None)
  moreover have "tbl_keys key rows" using Cons.prems by (simp add: tbl_keys_def)
  ultimately show ?case using Cons.IH by auto
qed simp

lemma tbl_find_filter_None:
  assumes "tbl_keys key rows" "tbl_find key k rows = Some r" "\<not> P r"
  shows "tbl_find key k (filter P rows) = None"
  using assms by (induction rows) (auto simp: tbl_keys_def tbl_find_None split: if_splits)

lemma tbl_keys_save [inv_intros]: "tbl_keys key rows \<Longrightarrow> tbl_keys key (tbl_save key r rows)"
proof (induction key r rows rule: tbl_save.induct)
  case (2 key r x xs)
  then show ?case
    using keys_tbl_save [of key r xs] by (auto simp: tbl_keys_def)
qed (simp add: tbl_keys_def)

text \<open>A second unique column under an in-place update.\<close>

lemma tbl_keys_save_other:
  assumes "tbl_keys key2 rows" "\<forall>x\<in>set rows. key x = key r \<or> key2 x \<noteq> key2 r" "tbl_keys key rows"
  shows "tbl_keys key2 (tbl_save key r rows)"
  using assms
proof (induction key r rows rule: tbl_save.induct)
  case (2 key r x xs)
  show ?case
  proof (cases "key x = key r")
    case True
    then have "\<forall>y\<in>set xs. key y \<noteq> key r" using 2(4) by (auto simp: tbl_keys_def image_iff)
    then show ?thesis using 2(2-4) True by (auto simp: tbl_keys_def image_iff)
  next
    case False
    have "key2 ` set (tbl_save key r xs) \<subseteq> insert (key2 r) (key2 ` set xs)"
      using set_tbl_save [of key r xs] by auto
    then show ?thesis using 2 False by (auto simp: tbl_keys_def image_iff)
  qed
qed (simp add: tbl_keys_def)

lemma tbl_keys_delete [inv_intros]: "tbl_keys key rows \<Longrightarrow> tbl_keys key (tbl_delete key k rows)"
  by (simp add: tbl_keys_def tbl_delete_def distinct_map_filter)

lemma tbl_keys_update [inv_intros]:
  assumes "tbl_keys key rows" "\<And>r. key (f r) = key r"
  shows "tbl_keys key (tbl_update p f rows)"
proof -
  have "map key (tbl_update p f rows) = map key rows"
    using assms(2) by (simp add: tbl_update_def)
  then show ?thesis using assms(1) by (simp add: tbl_keys_def)
qed

lemma tbl_find_update:
  assumes "\<And>r. key (f r) = key r"
  shows "tbl_find key k (tbl_update p f rows)
       = map_option (\<lambda>r. if p r then f r else r) (tbl_find key k rows)"
  using assms by (induction rows) (auto simp: tbl_update_def)

section \<open>Interfaces\<close>

text \<open>A service whose operations are steps on its state. \<open>apply_op\<close> is what one call does to the
  state (whether or not it throws); an invariant that holds initially and that every operation
  keeps holds after every sequence of calls.\<close>

locale invariant_system =
  fixes init :: "'s \<Rightarrow> bool"
    and apply_op :: "'op \<Rightarrow> 's \<Rightarrow> 's"
    and inv :: "'s \<Rightarrow> bool"
  assumes init_inv: "init s \<Longrightarrow> inv s"
    and step_inv: "inv s \<Longrightarrow> inv (apply_op oper s)"
begin

lemma run_inv: "inv s \<Longrightarrow> inv (fold apply_op ops s)"
  by (induction ops arbitrary: s) (auto intro: step_inv)

lemma reachable_inv: "init s \<Longrightarrow> inv (fold apply_op ops s)"
  by (rule run_inv) (rule init_inv)

end

text \<open>A finder filtered by tenant: what it returns belongs to the tenant asked for, and it finds
  exactly the rows of that tenant with the key asked for.\<close>

locale tenant_scoped =
  fixes find :: "'t \<Rightarrow> 'k \<Rightarrow> 'r list \<Rightarrow> 'r option"
    and key :: "'r \<Rightarrow> 'k"
    and tenant :: "'r \<Rightarrow> 't"
  assumes find_sound: "find t k rows = Some r \<Longrightarrow> r \<in> set rows \<and> key r = k \<and> tenant r = t"
    and find_complete: "tbl_keys key rows \<Longrightarrow> r \<in> set rows \<Longrightarrow> find (tenant r) (key r) rows = Some r"
begin

lemma foreign_hidden:
  assumes "tbl_keys key rows" "r \<in> set rows" "tenant r \<noteq> t"
  shows "find t (key r) rows = None"
proof (rule ccontr)
  assume "find t (key r) rows \<noteq> None"
  then obtain r' where r': "find t (key r) rows = Some r'" by auto
  then have "r' \<in> set rows" "key r' = key r" "tenant r' = t" by (auto dest: find_sound)
  moreover have "r' = r"
    using assms(1,2) calculation by (auto simp: tbl_keys_def distinct_map dest: inj_onD)
  ultimately show False using assms(3) by simp
qed

lemma find_iff:
  "tbl_keys key rows \<Longrightarrow> find t k rows = Some r \<longleftrightarrow> r \<in> set rows \<and> key r = k \<and> tenant r = t"
  using find_sound find_complete by metis

end

end
