(* ===== verification/Uri.thy ===== *)
theory Uri
  imports Prelude
begin

text \<open>
  \<^verbatim>\<open>encodeURIComponent\<close> and \<^verbatim>\<open>decodeURIComponent\<close> on strings of 8-bit code units, with their round trip.
  Both the rate-limit keys and the Traction token URL rest on them. A percent sequence that decodes to a
  code point above 255 is outside the alphabet of the model and is reported like a malformed one.
\<close>

definition hex_digit :: "nat \<Rightarrow> char" where
  "hex_digit n = char_of (if n < 10 then 48 + n else 55 + n)"

definition pct :: "nat \<Rightarrow> string" where
  "pct n = [CHR ''%'', hex_digit (n div 16), hex_digit (n mod 16)]"

definition uri_unreserved :: "char \<Rightarrow> bool" where
  "uri_unreserved c =
     (let n = (of_char c :: nat) in
      48 \<le> n \<and> n \<le> 57 \<or> 65 \<le> n \<and> n \<le> 90 \<or> 97 \<le> n \<and> n \<le> 122 \<or>
      n \<in> {45, 95, 46, 33, 126, 42, 39, 40, 41})"

definition encode_char :: "char \<Rightarrow> string" where
  "encode_char c =
     (let n = of_char c in
      if uri_unreserved c then [c]
      else if n < 128 then pct n
      else pct (192 + n div 64) @ pct (128 + n mod 64))"

definition encodeURIComponent :: "string \<Rightarrow> string" where
  "encodeURIComponent s = concat (map encode_char s)"

definition hex_byte :: "char \<Rightarrow> char \<Rightarrow> nat option" where
  "hex_byte a b = (if is_hex a \<and> is_hex b then Some (hex_val a * 16 + hex_val b) else None)"

fun decodeURIComponent :: "string \<Rightarrow> string option" where
  "decodeURIComponent [] = Some []"
| "decodeURIComponent (c # cs) =
     (if c \<noteq> CHR ''%'' then map_option (\<lambda>r. c # r) (decodeURIComponent cs)
      else (case cs of
          a # b # rest \<Rightarrow>
            (case hex_byte a b of
               None \<Rightarrow> None
             | Some n \<Rightarrow>
                 if n < 128 then map_option (\<lambda>r. char_of n # r) (decodeURIComponent rest)
                 else if n \<noteq> 194 \<and> n \<noteq> 195 then None
                 else (case rest of
                     p # x # y # rest' \<Rightarrow>
                       (case hex_byte x y of
                          None \<Rightarrow> None
                        | Some m \<Rightarrow>
                            if p = CHR ''%'' \<and> 128 \<le> m \<and> m < 192
                            then map_option (\<lambda>r. char_of ((n - 192) * 64 + (m - 128)) # r) (decodeURIComponent rest')
                            else None)
                   | _ \<Rightarrow> None))
        | _ \<Rightarrow> None))"

lemma hex_digit_val: "n < 16 \<Longrightarrow> is_hex (hex_digit n) \<and> hex_val (hex_digit n) = n"
  by (auto simp: hex_digit_def is_hex_def hex_val_def is_digit_def lower_char_def Let_def)

lemma hex_byte_pct: "n < 256 \<Longrightarrow> hex_byte (hex_digit (n div 16)) (hex_digit (n mod 16)) = Some n"
  using hex_digit_val [of "n div 16"] hex_digit_val [of "n mod 16"] by (simp add: hex_byte_def)

lemma pct_not_unreserved: "\<not> uri_unreserved CHR ''%''"
  by (simp add: uri_unreserved_def)

lemma decode_encode_char:
  "decodeURIComponent (encode_char c @ t) = map_option (\<lambda>r. c # r) (decodeURIComponent t)"
proof -
  let ?n = "of_char c :: nat"
  have n: "?n < 256" by (rule nat_of_char_less_256)
  consider "uri_unreserved c" | "\<not> uri_unreserved c" "?n < 128" | "\<not> uri_unreserved c" "128 \<le> ?n" by linarith
  then show ?thesis
  proof cases
    case 1
    then have "c \<noteq> CHR ''%''" using pct_not_unreserved by metis
    then show ?thesis using 1 by (simp add: encode_char_def)
  next
    case 2
    then show ?thesis using n by (simp add: encode_char_def pct_def Let_def hex_byte_pct)
  next
    case 3
    have "128 \<le> k \<Longrightarrow> k < 256 \<Longrightarrow> k div 64 = 2 \<or> k div 64 = 3" for k :: nat by auto
    from this [OF 3(2) n] have d: "?n div 64 = 2 \<or> ?n div 64 = 3" .
    have "hex_byte (hex_digit ((192 + ?n div 64) div 16)) (hex_digit ((192 + ?n div 64) mod 16)) = Some (192 + ?n div 64)"
      by (rule hex_byte_pct) (use d in auto)
    moreover have "hex_byte (hex_digit ((128 + ?n mod 64) div 16)) (hex_digit ((128 + ?n mod 64) mod 16)) = Some (128 + ?n mod 64)"
      by (rule hex_byte_pct) (simp add: less_trans [OF mod_less_divisor])
    moreover have "?n mod 64 < 64" by simp
    moreover have "char_of (?n div 64 * 64 + ?n mod 64) = c" unfolding div_mult_mod_eq by simp
    ultimately show ?thesis using 3 d by (auto simp: encode_char_def pct_def Let_def)
  qed
qed

lemma decode_encode_append:
  "decodeURIComponent (encodeURIComponent s @ t) = map_option (\<lambda>r. s @ r) (decodeURIComponent t)"
  by (induction s) (simp_all add: encodeURIComponent_def decode_encode_char option.map_comp comp_def option.map_ident)

lemma decode_encode [simp]: "decodeURIComponent (encodeURIComponent s) = Some s"
  using decode_encode_append [of s "[]"] by simp

lemma hex_digit_unreserved: "n < 16 \<Longrightarrow> uri_unreserved (hex_digit n)"
  by (auto simp: hex_digit_def uri_unreserved_def Let_def)

lemma encode_alphabet: "c \<in> set (encodeURIComponent s) \<Longrightarrow> uri_unreserved c \<or> c = CHR ''%''"
proof -
  have pct: "n < 256 \<Longrightarrow> x \<in> set (pct n) \<Longrightarrow> uri_unreserved x \<or> x = CHR ''%''" for n x
    by (auto simp: pct_def intro!: hex_digit_unreserved)
  have "x \<in> set (encode_char a) \<Longrightarrow> uri_unreserved x \<or> x = CHR ''%''" for a x
  proof -
    assume x: "x \<in> set (encode_char a)"
    have n: "(of_char a :: nat) < 256" by (rule nat_of_char_less_256)
    have "k < 256 \<Longrightarrow> 192 + k div 64 < 256 \<and> 128 + k mod 64 < 256" for k :: nat by auto
    from this [OF n] have "192 + (of_char a :: nat) div 64 < 256" "128 + (of_char a :: nat) mod 64 < 256" by auto
    note b = n this
    show ?thesis using x pct [OF b(1)] pct [OF b(2)] pct [OF b(3)]
      by (auto simp: encode_char_def Let_def split: if_splits)
  qed
  then show "c \<in> set (encodeURIComponent s) \<Longrightarrow> ?thesis" by (auto simp: encodeURIComponent_def)
qed

end
