(* ===== verification/Scopes.thy ===== *)
theory Scopes
  imports Prelude
begin

text \<open>
  \<^verbatim>\<open>libs/auth\<close>: the scope catalogue (\<^verbatim>\<open>scopes.constants.ts\<close>), the scope and role arithmetic
  (\<^verbatim>\<open>ScopeAuthorizationService\<close>) and the allow/deny split of requested scopes
  (\<^verbatim>\<open>partition-requested-scopes.ts\<close>). Expansion of \<^verbatim>\<open>tenants:admin\<close> is shown to be a closure
  operator, the fact every subset comparison of scopes in the program rests on.
\<close>

section \<open>Catalogue\<close>

definition TENANT_SUPERUSER_SCOPE :: string where
  "TENANT_SUPERUSER_SCOPE = ''tenants:admin''"

definition PLATFORM_ADMIN_ROLE :: string where
  "PLATFORM_ADMIN_ROLE = ''platform-admin''"

definition OAUTH_CLIENT_PLATFORM_ROLES :: "string list" where
  "OAUTH_CLIENT_PLATFORM_ROLES = [PLATFORM_ADMIN_ROLE]"

definition USERS_MANAGE_SCOPE :: string where
  "USERS_MANAGE_SCOPE = ''users:manage''"

definition CONNECTIONS_MANAGE_SCOPE :: string where
  "CONNECTIONS_MANAGE_SCOPE = ''connections:manage''"

definition CLIENTS_MANAGE_SCOPE :: string where
  "CLIENTS_MANAGE_SCOPE = ''clients:manage''"

definition AUDIT_READ_SCOPE :: string where
  "AUDIT_READ_SCOPE = ''audit:read''"

definition LEVEL2_SCOPES :: "string list" where
  "LEVEL2_SCOPES =
     [''credentials:offer'', ''credentials:verify'', ''credentials:hold'', ''credentials:revoke'',
      CONNECTIONS_MANAGE_SCOPE, ''profiles:manage'', USERS_MANAGE_SCOPE, CLIENTS_MANAGE_SCOPE]"

definition LEVEL3_SCOPES :: "string list" where
  "LEVEL3_SCOPES = [''logs:read'', AUDIT_READ_SCOPE]"

definition ALL_TENANT_SCOPES :: "string list" where
  "ALL_TENANT_SCOPES = LEVEL2_SCOPES @ LEVEL3_SCOPES"

definition ASSIGNABLE_OAUTH_CLIENT_SCOPES :: "string list" where
  "ASSIGNABLE_OAUTH_CLIENT_SCOPES = TENANT_SUPERUSER_SCOPE # ALL_TENANT_SCOPES"

definition OIDC_SCOPE_ALLOWLIST :: "string list" where
  "OIDC_SCOPE_ALLOWLIST = ''openid'' # TENANT_SUPERUSER_SCOPE # ALL_TENANT_SCOPES"

record scope_catalog_entry =
  sce_name :: string
  sce_description :: string
  sce_level :: nat

abbreviation sce :: "string \<Rightarrow> string \<Rightarrow> nat \<Rightarrow> scope_catalog_entry" where
  "sce n d l \<equiv> \<lparr>sce_name = n, sce_description = d, sce_level = l\<rparr>"

definition SCOPE_CATALOG :: "scope_catalog_entry list" where
  "SCOPE_CATALOG =
     [sce TENANT_SUPERUSER_SCOPE
        ''Tenant superuser. Implicitly grants every Level 2 and Level 3 scope.'' 1,
      sce ''credentials:offer'' ''Issue credential offers.'' 2,
      sce ''credentials:verify'' ''Request and verify presentations.'' 2,
      sce ''credentials:hold'' ''Accept or reject credential offers.'' 2,
      sce ''credentials:revoke'' ''Revoke issued credentials.'' 2,
      sce CONNECTIONS_MANAGE_SCOPE ''Create, list, and delete connections.'' 2,
      sce ''profiles:manage'' ''Manage issuance and verification profiles.'' 2,
      sce ''users:manage'' ''Invite, update, and remove tenant users.'' 2,
      sce CLIENTS_MANAGE_SCOPE ''Register and revoke API clients.'' 2,
      sce ''logs:read'' ''View tenant observability logs.'' 3,
      sce AUDIT_READ_SCOPE ''Read the tenant audit log API.'' 3]"

definition isKnownScope :: "string \<Rightarrow> bool" where
  "isKnownScope scope = (scope \<in> set (map sce_name SCOPE_CATALOG))"

definition ROLE_HIERARCHY :: "string list" where
  "ROLE_HIERARCHY = [''owner'', ''admin'', ''member'', ''readonly'']"

definition OAUTH_CLIENT_TENANT_ROLES :: "string list" where
  "OAUTH_CLIENT_TENANT_ROLES = ROLE_HIERARCHY"

definition OAUTH_CLIENT_ALLOWED_ROLES :: "string list" where
  "OAUTH_CLIENT_ALLOWED_ROLES = OAUTH_CLIENT_TENANT_ROLES @ OAUTH_CLIENT_PLATFORM_ROLES"

lemmas scope_consts =
  TENANT_SUPERUSER_SCOPE_def PLATFORM_ADMIN_ROLE_def OAUTH_CLIENT_PLATFORM_ROLES_def
  USERS_MANAGE_SCOPE_def CONNECTIONS_MANAGE_SCOPE_def CLIENTS_MANAGE_SCOPE_def AUDIT_READ_SCOPE_def
  LEVEL2_SCOPES_def LEVEL3_SCOPES_def ALL_TENANT_SCOPES_def ASSIGNABLE_OAUTH_CLIENT_SCOPES_def
  OIDC_SCOPE_ALLOWLIST_def ROLE_HIERARCHY_def OAUTH_CLIENT_TENANT_ROLES_def
  OAUTH_CLIENT_ALLOWED_ROLES_def

section \<open>ScopeAuthorizationService\<close>

definition isPlatformAdmin :: "string list \<Rightarrow> bool" where
  "isPlatformAdmin roles = (PLATFORM_ADMIN_ROLE \<in> set roles)"

definition hasRequiredRoles :: "string list \<Rightarrow> string list \<Rightarrow> bool" where
  "hasRequiredRoles tokenRoles requiredRoles =
     (if requiredRoles = [] then True
      else list_all (\<lambda>role. role \<in> set tokenRoles) requiredRoles)"

definition expandEffectiveScopes :: "string list \<Rightarrow> string set" where
  "expandEffectiveScopes tokenScopes =
     (let effective = set tokenScopes in
      if TENANT_SUPERUSER_SCOPE \<in> effective then effective \<union> set ALL_TENANT_SCOPES else effective)"

definition hasRequiredScopes :: "string list \<Rightarrow> string list \<Rightarrow> bool" where
  "hasRequiredScopes tokenScopes requiredScopes =
     (if requiredScopes = [] then True
      else let effective = expandEffectiveScopes tokenScopes in
           list_all (\<lambda>scope. scope \<in> effective) requiredScopes)"

section \<open>Allow/deny split of requested scopes\<close>

record partition_input =
  requestedScopes :: "string list"
  allowedScopes :: "string set"
  actorScopes :: "string set"
  pi_isPlatformAdmin :: bool

record partition_result =
  grantedScopes :: "string list"
  deniedScopes :: "string list"

definition scope_permitted :: "partition_input \<Rightarrow> string \<Rightarrow> bool" where
  "scope_permitted inp scope =
     (scope \<in> allowedScopes inp \<and> (pi_isPlatformAdmin inp \<or> scope \<in> actorScopes inp))"

text \<open>The \<^verbatim>\<open>for\<close> loop, with the two accumulators it pushes to.\<close>

fun partition_loop :: "partition_input \<Rightarrow> string list \<Rightarrow> string list \<Rightarrow> string list \<Rightarrow> partition_result" where
  "partition_loop inp granted denied [] = \<lparr>grantedScopes = granted, deniedScopes = denied\<rparr>"
| "partition_loop inp granted denied (scope # rest) =
     (if scope_permitted inp scope
      then partition_loop inp (granted @ [scope]) denied rest
      else partition_loop inp granted (denied @ [scope]) rest)"

definition partitionRequestedScopes :: "partition_input \<Rightarrow> partition_result" where
  "partitionRequestedScopes inp = partition_loop inp [] [] (requestedScopes inp)"

section \<open>Facts\<close>

lemma superuser_not_tenant_scope [scope_simps, simp]: "TENANT_SUPERUSER_SCOPE \<notin> set ALL_TENANT_SCOPES"
  by (simp add: scope_consts)

lemma isKnownScope_iff [scope_simps]:
  "isKnownScope s \<longleftrightarrow> s = TENANT_SUPERUSER_SCOPE \<or> s \<in> set ALL_TENANT_SCOPES"
  by (auto simp: isKnownScope_def SCOPE_CATALOG_def scope_consts)

lemma hasRequiredRoles_iff [scope_simps]: "hasRequiredRoles tr rr \<longleftrightarrow> set rr \<subseteq> set tr"
  by (auto simp: hasRequiredRoles_def list_all_iff)

lemma hasRequiredScopes_iff [scope_simps]:
  "hasRequiredScopes ts rs \<longleftrightarrow> set rs \<subseteq> expandEffectiveScopes ts"
  by (auto simp: hasRequiredScopes_def list_all_iff Let_def)

text \<open>Expansion on sets: the closure that \<open>expandEffectiveScopes\<close> computes.\<close>

definition scope_closure :: "string set \<Rightarrow> string set" where
  "scope_closure S = (if TENANT_SUPERUSER_SCOPE \<in> S then S \<union> set ALL_TENANT_SCOPES else S)"

lemma expandEffectiveScopes_closure [scope_simps]: "expandEffectiveScopes xs = scope_closure (set xs)"
  by (simp add: expandEffectiveScopes_def scope_closure_def Let_def)

text \<open>A closure operator, and what a client can conclude about comparisons of closed sets.\<close>

locale closure_operator =
  fixes cl :: "'a set \<Rightarrow> 'a set"
  assumes ext: "S \<subseteq> cl S"
    and mono: "S \<subseteq> T \<Longrightarrow> cl S \<subseteq> cl T"
    and idem: "cl (cl S) = cl S"
begin

lemma cl_subset_iff: "cl S \<subseteq> cl T \<longleftrightarrow> S \<subseteq> cl T"
proof
  assume "S \<subseteq> cl T"
  then have "cl S \<subseteq> cl (cl T)" by (rule mono)
  then show "cl S \<subseteq> cl T" by (simp add: idem)
qed (use ext in blast)

lemma cl_trans: "S \<subseteq> cl T \<Longrightarrow> T \<subseteq> cl U \<Longrightarrow> S \<subseteq> cl U"
  using cl_subset_iff by blast

end

interpretation sc: closure_operator scope_closure
  by unfold_locales (auto simp: scope_closure_def)

lemma partition_loop_filter:
  "partition_loop inp g d xs =
     \<lparr>grantedScopes = g @ filter (scope_permitted inp) xs,
      deniedScopes = d @ filter (\<lambda>s. \<not> scope_permitted inp s) xs\<rparr>"
  by (induction inp g d xs rule: partition_loop.induct) auto

lemma partitionRequestedScopes_filter [scope_simps]:
  "partitionRequestedScopes inp =
     \<lparr>grantedScopes = filter (scope_permitted inp) (requestedScopes inp),
      deniedScopes = filter (\<lambda>s. \<not> scope_permitted inp s) (requestedScopes inp)\<rparr>"
  by (simp add: partitionRequestedScopes_def partition_loop_filter)

lemma partition_denied_Nil:
  "deniedScopes (partitionRequestedScopes inp) = [] \<longleftrightarrow>
     (\<forall>s\<in>set (requestedScopes inp). scope_permitted inp s)"
  by (simp add: partitionRequestedScopes_filter filter_empty_conv)

text \<open>The scope arithmetic is transitive: when every scope a second list asks for is covered by
  what a first list effectively grants, then whatever the second list effectively grants (with
  \<^verbatim>\<open>tenants:admin\<close> expanded) is covered by the first. In particular a caller can never obtain more by
  passing through an intermediate scope set that it holds itself.\<close>

theorem hasRequiredScopes_trans:
  assumes "hasRequiredScopes holder granted" and "hasRequiredScopes granted needed"
  shows "hasRequiredScopes holder needed"
  using assms sc.cl_trans by (simp add: scope_simps)

theorem hasRequiredScopes_trans_witness:
  "hasRequiredScopes [''tenants:admin''] [''credentials:offer'']"
  by (rule hasRequiredScopes_trans [of _ "[''tenants:admin'', ''audit:read'']"]) code_simp+

text \<open>\<^verbatim>\<open>partitionRequestedScopes\<close> splits the request: the granted list is the requested list,
  in order, restricted to the scopes that are allowed on the path and held by the actor (or requested
  by a platform administrator); the denied list is exactly the rest; nothing is lost or duplicated.\<close>

theorem partitionRequestedScopes_split:
  "grantedScopes (partitionRequestedScopes inp) =
     filter (\<lambda>s. s \<in> allowedScopes inp \<and> (pi_isPlatformAdmin inp \<or> s \<in> actorScopes inp))
       (requestedScopes inp)
   \<and> length (grantedScopes (partitionRequestedScopes inp))
     + length (deniedScopes (partitionRequestedScopes inp)) = length (requestedScopes inp)
   \<and> set (deniedScopes (partitionRequestedScopes inp)) =
     set (requestedScopes inp) - set (grantedScopes (partitionRequestedScopes inp))"
proof -
  have "length (filter P xs) + length (filter (\<lambda>s. \<not> P s) xs) = length xs" for P and xs :: "string list"
    by (induction xs) auto
  moreover have "filter (\<lambda>s. s \<in> allowedScopes inp \<and> (pi_isPlatformAdmin inp \<or> s \<in> actorScopes inp)) =
    filter (scope_permitted inp)"
    by (rule arg_cong [where f = filter]) (simp add: scope_permitted_def fun_eq_iff)
  ultimately show ?thesis by (auto simp: partitionRequestedScopes_filter)
qed

end
