(* ===== verification/Jwt_Auth.thy ===== *)
theory Jwt_Auth
  imports Scopes
begin

text \<open>
  \<^verbatim>\<open>libs/auth\<close>: bearer-token authentication. The JWKS cache (\<^verbatim>\<open>jwks-cache.service.ts\<close>), the JWT
  validation service (\<^verbatim>\<open>jwt-validation.service.ts\<close>) and the \<^verbatim>\<open>WWW-Authenticate\<close> header of
  \<^verbatim>\<open>AuthenticationRequiredException\<close>.

  The \<^verbatim>\<open>jose\<close> package is a parameter: \<open>jose_header\<close> reads the protected header of a token and
  \<open>jose_verify\<close> checks the signature and the registered claims with an imported key. The HTTP fetch of
  the JWKS document is a parameter as well: \<open>net_fetch n\<close> is the outcome of the n-th fetch of the
  process and \<open>net_clock n\<close> the time that \<^verbatim>\<open>Date.now()\<close> reads while n fetches have completed (time
  passes only while the code awaits the network).
\<close>

section \<open>Authentication context\<close>

datatype token_type = UserToken | ClientToken

datatype audience = AudOne string | AudMany "string list"

record auth_context =
  ac_sub :: string
  ac_tokenType :: token_type
  ac_clientId :: "string option"
  ac_tenantId :: "string option"
  ac_roles :: "string list"
  ac_scope :: string
  ac_scopes :: "string list"
  ac_iss :: string
  ac_aud :: audience
  ac_exp :: rat
  ac_iat :: rat
  ac_jti :: "string option"

text \<open>The registered claims of \<^verbatim>\<open>JWTPayload\<close> with their declared types; the private claims are
  \<^verbatim>\<open>unknown\<close>.\<close>

record jwt_payload =
  pl_sub :: "string option"
  pl_iss :: "string option"
  pl_aud :: "audience option"
  pl_exp :: "rat option"
  pl_iat :: "rat option"
  pl_jti :: json
  pl_client_id :: json
  pl_scope :: json
  pl_roles :: json
  pl_tenant_id :: json

section \<open>Payload normalisation\<close>

definition CLIENT_SUB_PREFIX :: string where
  "CLIENT_SUB_PREFIX = ''client:''"

text \<open>\<^verbatim>\<open>UUID_PATTERN\<close>, one character class per position (the regular expression is anchored and has
  no repetition other than counted ones).\<close>

definition UUID_PATTERN :: "(char \<Rightarrow> bool) list" where
  "UUID_PATTERN =
     replicate 8 is_hex @ [\<lambda>c. c = CHR ''-''] @ replicate 4 is_hex @ [\<lambda>c. c = CHR ''-''] @
     [\<lambda>c. c \<in> set ''12345678''] @ replicate 3 is_hex @ [\<lambda>c. c = CHR ''-''] @
     [\<lambda>c. lower_char c \<in> set ''89ab''] @ replicate 3 is_hex @ [\<lambda>c. c = CHR ''-''] @
     replicate 12 is_hex"

definition pattern_test :: "(char \<Rightarrow> bool) list \<Rightarrow> string \<Rightarrow> bool" where
  "pattern_test pat s = list_all2 (\<lambda>p c. p c) pat s"

definition resolveTokenType :: "string \<Rightarrow> string option \<Rightarrow> token_type" where
  "resolveTokenType sub explicitClientId =
     (if prefix CLIENT_SUB_PREFIX sub then ClientToken
      else if pattern_test UUID_PATTERN sub then UserToken
      else if explicitClientId \<noteq> None then ClientToken
      else ClientToken)"

definition deriveClientIdFromSub :: "string \<Rightarrow> string" where
  "deriveClientIdFromSub sub =
     (if prefix CLIENT_SUB_PREFIX sub then drop (length CLIENT_SUB_PREFIX) sub else sub)"

fun readOptionalString :: "json \<Rightarrow> string option" where
  "readOptionalString (JStr s) = (if s \<noteq> [] then Some s else None)"
| "readOptionalString _ = None"

fun readScope :: "json \<Rightarrow> string" where
  "readScope (JStr s) = s"
| "readScope (JArr vs) = js_join '' '' (jstrings vs)"
| "readScope _ = []"

fun readRoles :: "json \<Rightarrow> string list" where
  "readRoles (JArr vs) = jstrings vs"
| "readRoles _ = []"

definition invalid_token :: "string \<Rightarrow> http_error" where
  "invalid_token d = AuthenticationRequired ''invalid_token'' d"

definition normalizeAuthPayload :: "jwt_payload \<Rightarrow> auth_context result" where
  "normalizeAuthPayload payload =
     (let sub = (case pl_sub payload of None \<Rightarrow> [] | Some s \<Rightarrow> s) in
      if sub = [] then Err (invalid_token ''Token is missing sub claim'')
      else
        let explicitClientId = readOptionalString (pl_client_id payload);
            tokenType = resolveTokenType sub explicitClientId;
            clientId = (case explicitClientId of
                Some c \<Rightarrow> Some c
              | None \<Rightarrow> if tokenType = ClientToken then Some (deriveClientIdFromSub sub) else None);
            scope = readScope (pl_scope payload)
        in Ok \<lparr>ac_sub = sub, ac_tokenType = tokenType, ac_clientId = clientId,
               ac_tenantId = readOptionalString (pl_tenant_id payload),
               ac_roles = readRoles (pl_roles payload),
               ac_scope = scope,
               ac_scopes = (if scope \<noteq> [] then filter (\<lambda>s. s \<noteq> []) (split_ws scope) else []),
               ac_iss = (case pl_iss payload of None \<Rightarrow> [] | Some i \<Rightarrow> i),
               ac_aud = (case pl_aud payload of None \<Rightarrow> AudOne [] | Some a \<Rightarrow> a),
               ac_exp = (case pl_exp payload of None \<Rightarrow> 0 | Some e \<Rightarrow> e),
               ac_iat = (case pl_iat payload of None \<Rightarrow> 0 | Some i \<Rightarrow> i),
               ac_jti = readOptionalString (pl_jti payload)\<rparr>)"

definition extractBearerToken :: "string option \<Rightarrow> string result" where
  "extractBearerToken authorizationHeader =
     (case authorizationHeader of
        None \<Rightarrow> Err (AuthenticationRequired ''invalid_request'' ''Authorization header is required'')
      | Some h \<Rightarrow>
          if h = [] then Err (AuthenticationRequired ''invalid_request'' ''Authorization header is required'')
          else (case split_ws (js_trim h) of
              [scheme, token] \<Rightarrow>
                if to_lower scheme \<noteq> ''bearer'' \<or> token = []
                then Err (AuthenticationRequired ''invalid_request'' ''Authorization header must use Bearer scheme'')
                else Ok token
            | _ \<Rightarrow> Err (AuthenticationRequired ''invalid_request'' ''Authorization header must use Bearer scheme'')))"

section \<open>JWKS cache\<close>

definition DEFAULT_JWKS_CACHE_TTL_SECONDS :: int where
  "DEFAULT_JWKS_CACHE_TTL_SECONDS = 5 * 60"

text \<open>Outcome of one fetch: a network error with its message, or a response with its status and its
  parsed body (or the message of the parse error).\<close>

datatype fetch_outcome = FetchFailed string | Fetched nat "string + json"

definition response_ok :: "nat \<Rightarrow> bool" where
  "response_ok status = (200 \<le> status \<and> status < 300)"

record jwks_cache_entry =
  keysByKid :: "(string \<times> json) list"
  fetchedAtMs :: time

record jwks_service =
  js_cache :: "jwks_cache_entry option"
  js_fetches :: nat

record jwks_env =
  net_fetch :: "nat \<Rightarrow> fetch_outcome"
  net_clock :: "nat \<Rightarrow> time"
  cfg_ttl_seconds :: "int option"
  cfg_jwks_uri :: "string option"
  cfg_issuer :: string

text \<open>Errors inside the validation service: its own exception, a missing key, an error of \<^verbatim>\<open>jose\<close>
  with its code and message, and any other \<^verbatim>\<open>Error\<close> with its message.\<close>

datatype jwt_error =
    JAuth http_error
  | JwksKeyNotFound string
  | JoseError string string
  | OtherError string

definition strip_slashes :: "string \<Rightarrow> string" where
  "strip_slashes s = rev (dropWhile (\<lambda>c. c = CHR ''/'') (rev s))"

definition getJwksUri :: "jwks_env \<Rightarrow> string" where
  "getJwksUri env =
     (case cfg_jwks_uri env of
        Some u \<Rightarrow> if u \<noteq> [] then strip_slashes u else strip_slashes (cfg_issuer env) @ ''/jwks''
      | None \<Rightarrow> strip_slashes (cfg_issuer env) @ ''/jwks'')"

definition isExpired :: "jwks_env \<Rightarrow> time \<Rightarrow> time \<Rightarrow> bool" where
  "isExpired env now fetchedAt =
     (let ttlSeconds = (case cfg_ttl_seconds env of None \<Rightarrow> DEFAULT_JWKS_CACHE_TTL_SECONDS | Some t \<Rightarrow> t) in
      now - fetchedAt \<ge> ttlSeconds * 1000)"

definition getCachedKey :: "jwks_env \<Rightarrow> jwks_service \<Rightarrow> string \<Rightarrow> json option" where
  "getCachedKey env st kid =
     (case js_cache st of
        None \<Rightarrow> None
      | Some e \<Rightarrow>
          if isExpired env (net_clock env (js_fetches st)) (fetchedAtMs e) then None
          else map_of (keysByKid e) kid)"

text \<open>The loop over \<^verbatim>\<open>body.keys\<close>: a key with a non-empty string \<^verbatim>\<open>kid\<close> is stored, a later one
  with the same \<^verbatim>\<open>kid\<close> replaces an earlier one.\<close>

fun index_keys :: "json list \<Rightarrow> (string \<times> json) list \<Rightarrow> (string \<times> json) list" where
  "index_keys [] acc = acc"
| "index_keys (key # rest) acc =
     (case jget key ''kid'' of
        JStr kid \<Rightarrow> index_keys rest (if kid \<noteq> [] then (kid, key) # acc else acc)
      | _ \<Rightarrow> index_keys rest acc)"

definition refresh :: "jwks_env \<Rightarrow> jwks_service \<Rightarrow> (jwt_error + unit) \<times> jwks_service" where
  "refresh env st =
     (let n = js_fetches st; st' = st\<lparr>js_fetches := n + 1\<rparr> in
      case net_fetch env n of
        FetchFailed m \<Rightarrow> (Inl (OtherError m), st')
      | Fetched status parsed \<Rightarrow>
          if \<not> response_ok status
          then (Inl (OtherError (''JWKS fetch failed with status '' @ show_nat status @
                                '' from '' @ getJwksUri env)), st')
          else (case parsed of
              Inl m \<Rightarrow> (Inl (OtherError m), st')
            | Inr body \<Rightarrow>
                (case jget body ''keys'' of
                   JArr ks \<Rightarrow>
                     (Inr (), st'\<lparr>js_cache := Some \<lparr>keysByKid = index_keys ks [],
                                                  fetchedAtMs = net_clock env (n + 1)\<rparr>\<rparr>)
                 | _ \<Rightarrow> (Inl (OtherError ''JWKS response is missing a keys array''), st'))))"

definition clearCache :: "jwks_service \<Rightarrow> jwks_service" where
  "clearCache st = st\<lparr>js_cache := None\<rparr>"

definition resolveKey :: "jwks_env \<Rightarrow> jwks_service \<Rightarrow> string \<Rightarrow> (jwt_error + json) \<times> jwks_service" where
  "resolveKey env st kid =
     (case getCachedKey env st kid of
        Some key \<Rightarrow> (Inr key, st)
      | None \<Rightarrow>
          (case refresh env st of
             (Inl e, st') \<Rightarrow> (Inl e, st')
           | (Inr _, st') \<Rightarrow>
               (case getCachedKey env st' kid of
                  Some key \<Rightarrow> (Inr key, st')
                | None \<Rightarrow> (Inl (JwksKeyNotFound kid), st'))))"

text \<open>One retry for a failed fetch, none when the key is confirmed missing.\<close>

definition resolveKeyWithRefresh ::
  "jwks_env \<Rightarrow> jwks_service \<Rightarrow> string \<Rightarrow> (jwt_error + json) \<times> jwks_service" where
  "resolveKeyWithRefresh env st kid =
     (case resolveKey env st kid of
        (Inr key, st1) \<Rightarrow> (Inr key, st1)
      | (Inl (JwksKeyNotFound k), st1) \<Rightarrow> (Inl (JwksKeyNotFound k), st1)
      | (Inl _, st1) \<Rightarrow>
          (case refresh env st1 of
             (Inl e, st2) \<Rightarrow> (Inl e, st2)
           | (Inr _, st2) \<Rightarrow> resolveKey env st2 kid))"

section \<open>Verification\<close>

text \<open>The operations of \<^verbatim>\<open>jose\<close> fail with a code and a message.\<close>

record jose_lib =
  jose_header :: "string \<Rightarrow> (string \<times> string) + (string \<times> string option)"
  jose_verify :: "string \<Rightarrow> json \<Rightarrow> string \<Rightarrow> string \<Rightarrow> (string \<times> string) + jwt_payload"

definition verifyAccessToken ::
  "jose_lib \<Rightarrow> jwks_env \<Rightarrow> jwks_service \<Rightarrow> string \<Rightarrow> string \<Rightarrow> string
     \<Rightarrow> (jwt_error + jwt_payload) \<times> jwks_service" where
  "verifyAccessToken lib env st token issuer aud =
     (case jose_header lib token of
        Inl (code, m) \<Rightarrow> (Inl (JoseError code m), st)
      | Inr (alg, kid) \<Rightarrow>
          if alg \<noteq> ''RS256'' then (Inl (JAuth (invalid_token ''Unsupported signing algorithm'')), st)
          else (case kid of
              None \<Rightarrow> (Inl (JAuth (invalid_token ''Token header missing kid'')), st)
            | Some k \<Rightarrow>
                if k = [] then (Inl (JAuth (invalid_token ''Token header missing kid'')), st)
                else (case resolveKeyWithRefresh env st k of
                    (Inl e, st') \<Rightarrow> (Inl e, st')
                  | (Inr jwk, st') \<Rightarrow>
                      (case jose_verify lib token jwk issuer aud of
                         Inl (code, m) \<Rightarrow> (Inl (JoseError code m), st')
                       | Inr payload \<Rightarrow> (Inr payload, st')))))"

definition jwt_error_message :: "jwt_error \<Rightarrow> string" where
  "jwt_error_message e =
     (case e of
        JAuth _ \<Rightarrow> []
      | JwksKeyNotFound kid \<Rightarrow> ''Signing key \"'' @ kid @ ''\" not found in JWKS''
      | JoseError _ m \<Rightarrow> m
      | OtherError m \<Rightarrow> m)"

fun mapJoseError :: "jwt_error \<Rightarrow> http_error" where
  "mapJoseError (JAuth e) = e"
| "mapJoseError (JoseError code m) =
     (if code = ''ERR_JWT_EXPIRED'' then invalid_token ''Token has expired''
      else if js_includes ''signature'' (to_lower m) \<or> js_includes ''invalid'' (to_lower m)
              \<or> js_includes ''jws'' (to_lower m)
           then invalid_token m else invalid_token ''Token validation failed'')"
| "mapJoseError e =
     (let m = jwt_error_message e in
      if js_includes ''signature'' (to_lower m) \<or> js_includes ''invalid'' (to_lower m)
         \<or> js_includes ''jws'' (to_lower m)
      then invalid_token m else invalid_token ''Token validation failed'')"

definition validateAuthorizationHeader ::
  "jose_lib \<Rightarrow> jwks_env \<Rightarrow> string \<Rightarrow> string \<Rightarrow> jwks_service \<Rightarrow> string option
     \<Rightarrow> auth_context result \<times> jwks_service" where
  "validateAuthorizationHeader lib env issuer aud st authorizationHeader =
     (case extractBearerToken authorizationHeader of
        Inl e \<Rightarrow> (Inl e, st)
      | Inr token \<Rightarrow>
          (case verifyAccessToken lib env st token issuer aud of
             (Inl e, st') \<Rightarrow> (Inl (mapJoseError e), st')
           | (Inr payload, st') \<Rightarrow> (normalizeAuthPayload payload, st')))"

section \<open>WWW-Authenticate header\<close>

definition escapeWwwAuthenticateQuotedString :: "string \<Rightarrow> string" where
  "escapeWwwAuthenticateQuotedString v =
     concat (map (\<lambda>c. if c = CHR ''\"'' then [CHR 0x5C, CHR ''\"''] else [c])
       (concat (map (\<lambda>c. if c = CHR 0x5C then [CHR 0x5C, CHR 0x5C] else [c])
         (filter (\<lambda>c. c \<noteq> CHR 0x0D \<and> c \<noteq> CHR 0x0A) v))))"

definition getWwwAuthenticateHeader :: "string \<Rightarrow> string \<Rightarrow> string" where
  "getWwwAuthenticateHeader err desc =
     ''Bearer error=\"'' @ escapeWwwAuthenticateQuotedString err @
     ''\", error_description=\"'' @ escapeWwwAuthenticateQuotedString desc @ ''\"''"

section \<open>Facts: the JWKS cache\<close>

text \<open>Every cached entry is indexed by its own, non-empty \<^verbatim>\<open>kid\<close>.\<close>

definition jwks_inv :: "jwks_service \<Rightarrow> bool" where
  "jwks_inv st = (case js_cache st of None \<Rightarrow> True
     | Some e \<Rightarrow> list_all (\<lambda>(kid, key). kid \<noteq> [] \<and> jget key ''kid'' = JStr kid) (keysByKid e))"

lemma index_keys_inv:
  "list_all (\<lambda>(kid, key). kid \<noteq> [] \<and> jget key ''kid'' = JStr kid) acc \<Longrightarrow>
   list_all (\<lambda>(kid, key). kid \<noteq> [] \<and> jget key ''kid'' = JStr kid) (index_keys ks acc)"
  by (induction ks acc rule: index_keys.induct) (auto split: json.splits)

lemma refresh_inv: "jwks_inv st \<Longrightarrow> jwks_inv (snd (refresh env st))"
  by (auto simp: refresh_def Let_def jwks_inv_def index_keys_inv
      split: fetch_outcome.splits sum.splits json.splits)

lemma refresh_fetches: "js_fetches (snd (refresh env st)) = js_fetches st + 1"
  by (auto simp: refresh_def Let_def split: fetch_outcome.splits sum.splits json.splits)

lemma getCachedKey_kid: "jwks_inv st \<Longrightarrow> getCachedKey env st kid = Some key \<Longrightarrow> jget key ''kid'' = JStr kid"
  by (auto simp: getCachedKey_def jwks_inv_def list_all_iff split: option.splits if_splits dest!: map_of_SomeD)

lemma resolveKey_inv: "jwks_inv st \<Longrightarrow> jwks_inv (snd (resolveKey env st kid))"
  using refresh_inv [of st env]
  by (auto simp: resolveKey_def split: option.splits prod.splits sum.splits)

lemma resolveKey_kid:
  "jwks_inv st \<Longrightarrow> resolveKey env st kid = (Inr key, st') \<Longrightarrow> jget key ''kid'' = JStr kid"
  using refresh_inv [of st env]
  by (auto simp: resolveKey_def split: option.splits prod.splits sum.splits dest: getCachedKey_kid)

lemma resolveKey_fetches: "js_fetches (snd (resolveKey env st kid)) \<le> js_fetches st + 1"
  using refresh_fetches [of env st]
  by (auto simp: resolveKey_def split: option.splits prod.splits sum.splits)

lemma resolveKeyWithRefresh_kid:
  assumes "jwks_inv st" "resolveKeyWithRefresh env st kid = (Inr key, st')"
  shows "jget key ''kid'' = JStr kid"
proof (cases "resolveKey env st kid")
  case (Pair r st1)
  have inv1: "jwks_inv st1" using resolveKey_inv [OF assms(1), of env kid] Pair by simp
  have inv2: "jwks_inv (snd (refresh env st1))" using refresh_inv [OF inv1] .
  show ?thesis
    using assms Pair inv2
    by (auto simp: resolveKeyWithRefresh_def split: sum.splits jwt_error.splits prod.splits
        dest: resolveKey_kid)
qed

lemma resolveKeyWithRefresh_inv:
  assumes "jwks_inv st"
  shows "jwks_inv (snd (resolveKeyWithRefresh env st kid))"
proof (cases "resolveKey env st kid")
  case (Pair r st1)
  have inv1: "jwks_inv st1" using resolveKey_inv [OF assms(1), of env kid] Pair by simp
  have inv2: "jwks_inv (snd (refresh env st1))" using refresh_inv [OF inv1] .
  have inv3: "jwks_inv (snd (resolveKey env (snd (refresh env st1)) kid))"
    using resolveKey_inv [OF inv2] .
  show ?thesis using Pair inv1 inv2 inv3
    by (auto simp: resolveKeyWithRefresh_def split: sum.splits jwt_error.splits prod.splits)
qed

lemma resolveKeyWithRefresh_fetches:
  "js_fetches (snd (resolveKeyWithRefresh env st kid)) \<le> js_fetches st + 3"
proof (cases "resolveKey env st kid")
  case (Pair r st1)
  have "js_fetches st1 \<le> js_fetches st + 1" using resolveKey_fetches [of env st kid] Pair by simp
  moreover have "js_fetches (snd (resolveKey env (snd (refresh env st1)) kid)) \<le> js_fetches st1 + 2"
    using resolveKey_fetches [of env "snd (refresh env st1)" kid] refresh_fetches [of env st1] by simp
  ultimately show ?thesis using Pair refresh_fetches [of env st1]
    by (auto simp: resolveKeyWithRefresh_def split: sum.splits jwt_error.splits prod.splits)
qed

section \<open>Facts: bearer tokens and scopes\<close>

lemma jwt_error_is_auth: "(\<exists>h. e = JAuth h) \<or> (\<exists>d. mapJoseError e = invalid_token d)"
  by (cases e) (auto simp: Let_def)

lemma normalize_Err: "normalizeAuthPayload p = Inl e \<Longrightarrow> e = invalid_token ''Token is missing sub claim''"
  by (auto simp: normalizeAuthPayload_def Let_def split: if_splits)

lemma normalize_Ok:
  "normalizeAuthPayload p = Inr auth \<Longrightarrow>
     ac_iss auth = (case pl_iss p of None \<Rightarrow> [] | Some i \<Rightarrow> i) \<and> ac_sub auth \<noteq> []
     \<and> ac_aud auth = (case pl_aud p of None \<Rightarrow> AudOne [] | Some a \<Rightarrow> a)"
  by (auto simp: normalizeAuthPayload_def Let_def split: if_splits)

lemma refresh_Err: "fst (refresh env st) = Inl e \<Longrightarrow> \<exists>m. e = OtherError m"
  by (auto simp: refresh_def Let_def split: fetch_outcome.splits sum.splits json.splits if_splits)

lemma resolveKey_Err: "resolveKey env st kid = (Inl e, st') \<Longrightarrow> (\<exists>m. e = OtherError m) \<or> e = JwksKeyNotFound kid"
  using refresh_Err [of env st]
  by (auto simp: resolveKey_def split: option.splits prod.splits sum.splits)

lemma resolveKeyWithRefresh_Err:
  "resolveKeyWithRefresh env st kid = (Inl e, st') \<Longrightarrow> (\<exists>m. e = OtherError m) \<or> e = JwksKeyNotFound kid"
  using refresh_Err [of env "snd (resolveKey env st kid)"]
  by (auto simp: resolveKeyWithRefresh_def split: option.splits prod.splits sum.splits jwt_error.splits
      dest: resolveKey_Err)

lemma verifyAccessToken_Err:
  assumes "verifyAccessToken lib env st token issuer aud = (Inl e, st')"
  shows "\<exists>k d. mapJoseError e = AuthenticationRequired k d"
  using assms resolveKeyWithRefresh_Err [of env st _ e st'] jwt_error_is_auth [of e]
  by (auto simp: verifyAccessToken_def invalid_token_def
      split: sum.splits prod.splits if_splits option.splits)

lemma extractBearerToken_Err:
  "extractBearerToken h = Inl e \<Longrightarrow> \<exists>d. e = AuthenticationRequired ''invalid_request'' d"
  by (auto simp: extractBearerToken_def split: option.splits if_splits list.splits)

lemma js_join_words:
  assumes "\<forall>w\<in>set ws. w \<noteq> [] \<and> (\<forall>c\<in>set w. \<not> is_ws c)" "ws \<noteq> []"
  shows "split_ws (js_join '' '' ws) = ws \<and> js_join '' '' ws \<noteq> [] \<and> \<not> is_ws (hd (js_join '' '' ws))"
  using assms
proof (induction "'' ''" ws rule: js_join.induct)
  case (2 x)
  then show ?case by (cases x) (auto simp: split_ws_word)
next
  case (3 x y zs)
  have sp: "is_ws CHR '' ''" by (simp add: is_ws_def)
  have IH: "split_ws (js_join '' '' (y # zs)) = y # zs \<and> js_join '' '' (y # zs) \<noteq> []
      \<and> \<not> is_ws (hd (js_join '' '' (y # zs)))"
    using 3 by simp
  moreover have "split_ws (x @ CHR '' '' # js_join '' '' (y # zs)) = x # split_ws (js_join '' '' (y # zs))"
    by (rule split_ws_append) (use 3 IH sp in auto)
  ultimately show ?case using 3 by (cases x) auto
qed simp

lemma jstrings_map [simp]: "jstrings (map JStr ss) = ss"
  by (induction ss) auto

lemma lower_char_ws: "is_ws c \<Longrightarrow> lower_char c = c"
  by (auto simp: is_ws_def lower_char_def Let_def)

lemma js_trim_decomp: "\<exists>a b. h = a @ js_trim h @ b \<and> (\<forall>c\<in>set a. is_ws c) \<and> (\<forall>c\<in>set b. is_ws c)"
proof (intro exI conjI)
  let ?u = "dropWhile is_ws h"
  have "rev ?u = takeWhile is_ws (rev ?u) @ dropWhile is_ws (rev ?u)" by simp
  then have "?u = js_trim h @ rev (takeWhile is_ws (rev ?u))"
    unfolding js_trim_def by (metis rev_append rev_rev_ident)
  then show "h = takeWhile is_ws h @ js_trim h @ rev (takeWhile is_ws (rev ?u))"
    by (metis takeWhile_dropWhile_id)
qed (auto dest: set_takeWhileD)

lemma js_trim_padded:
  assumes "\<forall>c\<in>set a. is_ws c" "\<forall>c\<in>set b. is_ws c" "m \<noteq> []" "\<not> is_ws (hd m)" "\<not> is_ws (last m)"
  shows "js_trim (a @ m @ b) = m"
proof -
  have drop: "dropWhile is_ws (xs @ ys) = ys" if "\<forall>c\<in>set xs. is_ws c" "ys \<noteq> []" "\<not> is_ws (hd ys)"
    for xs ys using that by (subst dropWhile_append2) (auto simp: dropWhile_eq_self_iff)
  have "dropWhile is_ws (a @ m @ b) = m @ b" using assms by (intro drop) auto
  moreover have "dropWhile is_ws (rev b @ rev m) = rev m" using assms by (intro drop) (auto simp: hd_rev)
  ultimately show ?thesis by (simp add: js_trim_def)
qed

lemma split_ws_two_decomp:
  assumes "split_ws u = [s, t]"
  shows "\<exists>w. u = s @ w @ t \<and> w \<noteq> [] \<and> (\<forall>c\<in>set w. is_ws c)"
proof -
  define rest where "rest = dropWhile (\<lambda>c. \<not> is_ws c) u"
  have r: "rest \<noteq> []" "s = takeWhile (\<lambda>c. \<not> is_ws c) u" "split_ws (dropWhile is_ws rest) = [t]"
    using assms unfolding rest_def by (subst (asm) split_ws.simps; simp add: Let_def split: if_splits)+
  have "dropWhile (\<lambda>c. \<not> is_ws c) (dropWhile is_ws rest) = []" "t = takeWhile (\<lambda>c. \<not> is_ws c) (dropWhile is_ws rest)"
    using r(3) by (subst (asm) split_ws.simps; simp add: Let_def split: if_splits)+
  then have "t = dropWhile is_ws rest" by (metis append_Nil2 takeWhile_dropWhile_id)
  then have "u = s @ takeWhile is_ws rest @ t"
    unfolding r(2) rest_def by (metis takeWhile_dropWhile_id)
  moreover have "is_ws (hd rest)" using r(1) hd_dropWhile [of "\<lambda>c. \<not> is_ws c" u] unfolding rest_def by blast
  then have "takeWhile is_ws rest \<noteq> []" using r(1) by (cases rest) auto
  moreover have "\<forall>c\<in>set (takeWhile is_ws rest). is_ws c" by (auto dest: set_takeWhileD)
  ultimately show ?thesis by blast
qed

lemma split_ws_two:
  assumes "\<forall>c\<in>set s. \<not> is_ws c" "w \<noteq> []" "\<forall>c\<in>set w. is_ws c" "\<forall>c\<in>set t. \<not> is_ws c" "t \<noteq> []"
  shows "split_ws (s @ w @ t) = [s, t]"
proof -
  obtain b w' where w: "w = b # w'" using assms(2) by (cases w) auto
  have "takeWhile (\<lambda>c. \<not> is_ws c) (s @ w @ t) = s" "dropWhile (\<lambda>c. \<not> is_ws c) (s @ w @ t) = w @ t"
    using assms w by (auto simp: takeWhile_append2 dropWhile_append2)
  moreover have "dropWhile is_ws (w @ t) = t"
    using assms by (subst dropWhile_append2) (auto simp: dropWhile_eq_self_iff)
  ultimately have "split_ws (s @ w @ t) = s # split_ws t"
    using w by (subst split_ws.simps) (simp only: Let_def, simp)
  then show ?thesis using assms by (simp add: split_ws_word)
qed

lemma extractBearerToken_eq:
  "extractBearerToken (Some h) = Inr tok \<longleftrightarrow>
     (\<exists>s. split_ws (js_trim h) = [s, tok] \<and> to_lower s = ''bearer'' \<and> tok \<noteq> [])"
proof (cases "h = []")
  case True
  have "split_ws (js_trim []) = [[]]" by code_simp
  then show ?thesis using True by (simp add: extractBearerToken_def)
next
  case False
  then show ?thesis by (auto simp: extractBearerToken_def split: list.splits if_splits)
qed

section \<open>Properties\<close>

text \<open>\<^verbatim>\<open>extractBearerToken\<close> accepts exactly the headers of the form: optional white space, the word
  \<^verbatim>\<open>bearer\<close> in any capitalisation, white space, a non-empty token without white space, optional
  white space; and it returns that token.\<close>

theorem extractBearerToken_iff:
  "extractBearerToken (Some h) = Ok tok \<longleftrightarrow>
     (\<exists>a s w b. h = a @ s @ w @ tok @ b \<and> list_all is_ws (a @ w @ b) \<and> w \<noteq> []
        \<and> to_lower s = ''bearer'' \<and> tok \<noteq> [] \<and> \<not> list_ex is_ws tok)"
proof
  assume "extractBearerToken (Some h) = Ok tok"
  then obtain s where s: "split_ws (js_trim h) = [s, tok]" "to_lower s = ''bearer''" "tok \<noteq> []"
    by (auto simp: extractBearerToken_eq)
  obtain w where w: "js_trim h = s @ w @ tok" "w \<noteq> []" "\<forall>c\<in>set w. is_ws c"
    using split_ws_two_decomp [OF s(1)] by blast
  obtain a b where "h = a @ js_trim h @ b" "\<forall>c\<in>set a. is_ws c" "\<forall>c\<in>set b. is_ws c"
    using js_trim_decomp by blast
  moreover have "\<forall>c\<in>set tok. \<not> is_ws c" using s(1) split_ws_no_ws [of tok "js_trim h"] by simp
  ultimately show "\<exists>a s w b. h = a @ s @ w @ tok @ b \<and> list_all is_ws (a @ w @ b) \<and> w \<noteq> []
        \<and> to_lower s = ''bearer'' \<and> tok \<noteq> [] \<and> \<not> list_ex is_ws tok"
    using w s by (intro exI [of _ a] exI [of _ s] exI [of _ w] exI [of _ b]) (simp add: list_all_iff list_ex_iff ball_Un)
next
  assume "\<exists>a s w b. h = a @ s @ w @ tok @ b \<and> list_all is_ws (a @ w @ b) \<and> w \<noteq> []
        \<and> to_lower s = ''bearer'' \<and> tok \<noteq> [] \<and> \<not> list_ex is_ws tok"
  then obtain a s w b where *: "h = a @ s @ w @ tok @ b" "list_all is_ws (a @ w @ b)" "w \<noteq> []"
    "to_lower s = ''bearer''" "tok \<noteq> []" "\<not> list_ex is_ws tok" by blast
  have nws: "\<not> is_ws c" if "c \<in> set s" for c
  proof
    assume "is_ws c"
    moreover have "lower_char c \<in> set ''bearer''" using that *(4) by (metis imageI list.set_map to_lower_def)
    ultimately show False by (auto simp: lower_char_ws is_ws_def)
  qed
  have "s \<noteq> []" using *(4) by (auto simp: to_lower_def)
  then have "js_trim h = s @ w @ tok"
    using js_trim_padded [of a b "s @ w @ tok"] * nws by (auto simp: list_all_iff list_ex_iff)
  then have "split_ws (js_trim h) = [s, tok]"
    using * nws by (auto intro!: split_ws_two simp: list_all_iff list_ex_iff)
  then show "extractBearerToken (Some h) = Ok tok" using * by (auto simp: extractBearerToken_eq)
qed


text \<open>A concrete \<^verbatim>\<open>jose\<close> for the witness: one token, one key, one payload.\<close>

definition demo_jwk :: json where
  "demo_jwk = JObj [(''kid'', JStr ''k1''), (''kty'', JStr ''RSA'')]"

definition demo_payload :: jwt_payload where
  "demo_payload = \<lparr>pl_sub = Some ''client:app'', pl_iss = Some ''iss'', pl_aud = Some (AudOne ''api''),
     pl_exp = Some 10, pl_iat = Some 1, pl_jti = JUndef, pl_client_id = JUndef,
     pl_scope = JStr ''openid users:manage'', pl_roles = JArr [], pl_tenant_id = JStr ''t1''\<rparr>"

definition demo_jose :: jose_lib where
  "demo_jose = \<lparr>jose_header = (\<lambda>t. if t = ''tok'' then Inr (''RS256'', Some ''k1'') else Inl (''ERR'', ''bad'')),
     jose_verify = (\<lambda>t k i a. if t = ''tok'' \<and> k = demo_jwk \<and> i = ''iss'' \<and> a = ''api'' then Inr demo_payload
                             else Inl (''ERR'', ''signature verification failed''))\<rparr>"

definition demo_net :: jwks_env where
  "demo_net = \<lparr>net_fetch = (\<lambda>n. if n = 0 then FetchFailed ''timeout''
                               else Fetched 200 (Inr (JObj [(''keys'', JArr [demo_jwk])]))),
     net_clock = (\<lambda>n. int n), cfg_ttl_seconds = None, cfg_jwks_uri = None, cfg_issuer = ''iss''\<rparr>"

lemma demo_validates:
  "validateAuthorizationHeader demo_jose demo_net ''iss'' ''api'' \<lparr>js_cache = None, js_fetches = 0\<rparr>
     (Some ''Bearer tok'')
   = (normalizeAuthPayload demo_payload,
      \<lparr>js_cache = Some \<lparr>keysByKid = [(''k1'', demo_jwk)], fetchedAtMs = 2\<rparr>, js_fetches = 2\<rparr>)"
  by code_simp


text \<open>Every failure of bearer authentication is an \<^verbatim>\<open>AuthenticationRequiredException\<close> (401 with a
  \<^verbatim>\<open>WWW-Authenticate\<close> challenge), whatever \<^verbatim>\<open>jose\<close> and the network do, and one validation never
  performs more than three JWKS fetches.\<close>

theorem validateAuthorizationHeader_errors:
  "(case fst (validateAuthorizationHeader lib env issuer aud st header) of
      Inl e \<Rightarrow> \<exists>k d. e = AuthenticationRequired k d
    | Inr _ \<Rightarrow> True)
   \<and> js_fetches (snd (validateAuthorizationHeader lib env issuer aud st header)) \<le> js_fetches st + 3"
proof (cases "extractBearerToken header")
  case (Inl e)
  then show ?thesis by (auto simp: validateAuthorizationHeader_def dest: extractBearerToken_Err)
next
  case (Inr token)
  let ?v = "verifyAccessToken lib env st token issuer aud"
  have "js_fetches (snd ?v) \<le> js_fetches st + 3"
    using resolveKeyWithRefresh_fetches [of env st]
    by (auto simp: verifyAccessToken_def split: sum.splits prod.splits option.splits)
      (metis snd_conv)+
  moreover have "fst ?v = Inl e \<Longrightarrow> \<exists>k d. mapJoseError e = AuthenticationRequired k d" for e
    using verifyAccessToken_Err [of lib env st token issuer aud e "snd ?v"] by (metis prod.collapse)
  moreover have "normalizeAuthPayload p = Inl e \<Longrightarrow> \<exists>k d. e = AuthenticationRequired k d" for p e
    using normalize_Err [of p e] by (auto simp: invalid_token_def)
  ultimately show ?thesis using Inr
    by (auto simp: validateAuthorizationHeader_def split: sum.splits prod.splits)
qed

text \<open>The scope claim may be an array or a space-delimited string: for scopes that are non-empty
  words, a token carrying the array and a token carrying the joined string yield the same scope list,
  namely the array itself; and whatever the claim is, no scope in the context is empty or contains white
  space.\<close>

theorem normalizeAuthPayload_scopes:
  "(\<forall>w\<in>set ss. w \<noteq> [] \<and> \<not> list_ex is_ws w) \<longrightarrow>
     map_sum id ac_scopes (normalizeAuthPayload (p\<lparr>pl_sub := Some sub, pl_scope := JArr (map JStr ss)\<rparr>))
       = (if sub = [] then Inl (invalid_token ''Token is missing sub claim'') else Inr ss)
     \<and> normalizeAuthPayload (p\<lparr>pl_sub := Some sub, pl_scope := JStr (js_join '' '' ss)\<rparr>)
       = normalizeAuthPayload (p\<lparr>pl_sub := Some sub, pl_scope := JArr (map JStr ss)\<rparr>)"
proof (intro impI conjI)
  assume *: "\<forall>w\<in>set ss. w \<noteq> [] \<and> \<not> list_ex is_ws w"
  have "ss \<noteq> [] \<Longrightarrow> split_ws (js_join '' '' ss) = ss \<and> js_join '' '' ss \<noteq> []"
    using js_join_words [of ss] * by (auto simp: list_ex_iff)
  moreover have "filter (\<lambda>s. s \<noteq> []) ss = ss" using * by (simp add: filter_id_conv)
  ultimately show "map_sum id ac_scopes (normalizeAuthPayload (p\<lparr>pl_sub := Some sub, pl_scope := JArr (map JStr ss)\<rparr>))
       = (if sub = [] then Inl (invalid_token ''Token is missing sub claim'') else Inr ss)"
    by (cases "ss = []") (auto simp: normalizeAuthPayload_def Let_def)
qed (simp add: normalizeAuthPayload_def)

theorem normalizeAuthPayload_scopes_witness:
  "map_sum id ac_scopes (normalizeAuthPayload
     (demo_payload\<lparr>pl_sub := Some ''u'', pl_scope := JArr (map JStr [''openid'', ''audit:read''])\<rparr>))
   = Inr [''openid'', ''audit:read'']"
  using normalizeAuthPayload_scopes [of "[''openid'', ''audit:read'']" "''u''" demo_payload]
  by (simp add: is_ws_def)

section \<open>The challenge header\<close>

text \<open>A quoted-string as RFC 7230 reads it: \<open>unquote\<close> consumes up to the closing quote, undoing the
  backslash escapes, and returns the value with the rest of the header.\<close>

fun unquote :: "string \<Rightarrow> (string \<times> string) option" where
  "unquote [] = None"
| "unquote (c # cs) =
     (if c = CHR 0x22 then Some ([], cs)
      else if c = CHR 0x5C then (case cs of [] \<Rightarrow> None
        | d # ds \<Rightarrow> map_option (\<lambda>(v, r). (d # v, r)) (unquote ds))
      else map_option (\<lambda>(v, r). (c # v, r)) (unquote cs))"

text \<open>No header injection: whatever the error description is, the escaped value contains no CR or
  LF, and a reader of the quoted string gets back exactly the description without its CR and LF, ending
  at the quote that the exception wrote.\<close>

theorem escape_unquote:
  "\<not> list_ex (\<lambda>c. c = CHR 0x0D \<or> c = CHR 0x0A) (escapeWwwAuthenticateQuotedString v)
   \<and> unquote (escapeWwwAuthenticateQuotedString v @ CHR 0x22 # rest)
     = Some (filter (\<lambda>c. c \<noteq> CHR 0x0D \<and> c \<noteq> CHR 0x0A) v, rest)"
  unfolding escapeWwwAuthenticateQuotedString_def by (induction v) auto

end
