(* ===== verification/Database.thy ===== *)
theory Database
  imports Jwt_Auth "HOL-Library.Product_Lexorder" "HOL-Library.List_Lexorder" "HOL-Library.Char_ord"
begin

text \<open>
  The PostgreSQL database the services share: one record per entity class, with the enums as datatypes,
  and \<open>db\<close>, one list of rows per table plus the pg-boss queues the services publish to.

  Columns filled by the database clock (\<^verbatim>\<open>created_at\<close>) are in microseconds, the precision of
  \<^verbatim>\<open>timestamptz\<close>; instants taken in the program (\<^verbatim>\<open>new Date()\<close>) are in milliseconds. \<open>to_js_date\<close> is
  the loss of precision when a row is read into a JavaScript \<^verbatim>\<open>Date\<close>.
\<close>

type_synonym micros = int

definition to_js_date :: "micros \<Rightarrow> time" where
  "to_js_date us = us div 1000"

definition from_js_date :: "time \<Rightarrow> micros" where
  "from_js_date ms = ms * 1000"

section \<open>Tenants and their users\<close>

datatype tenant_status = T_ACTIVE | T_PENDING_APPROVAL | T_REJECTED | T_SUSPENDED | T_DEACTIVATED

fun tenant_status_str :: "tenant_status \<Rightarrow> string" where
  "tenant_status_str T_ACTIVE = ''active''"
| "tenant_status_str T_PENDING_APPROVAL = ''pending_approval''"
| "tenant_status_str T_REJECTED = ''rejected''"
| "tenant_status_str T_SUSPENDED = ''suspended''"
| "tenant_status_str T_DEACTIVATED = ''deactivated''"

record tenant =
  t_id :: string
  t_name :: string
  t_slug :: string
  t_description :: "string option"
  t_status :: tenant_status
  t_config :: "(string \<times> json) list"
  t_createdAt :: micros
  t_updatedAt :: time
  t_deletedAt :: "time option"
  t_deactivatedAt :: "time option"

datatype tenant_user_role = OWNER | ADMIN | MEMBER | READONLY

fun role_str :: "tenant_user_role \<Rightarrow> string" where
  "role_str OWNER = ''owner''"
| "role_str ADMIN = ''admin''"
| "role_str MEMBER = ''member''"
| "role_str READONLY = ''readonly''"

datatype tenant_user_status = U_ACTIVE | U_INVITED | U_DISABLED

record tenant_user =
  u_id :: string
  u_tenantId :: string
  u_externalUserId :: "string option"
  u_email :: string
  u_displayName :: "string option"
  u_role :: tenant_user_role
  u_status :: tenant_user_status
  u_createdAt :: micros
  u_updatedAt :: time

section \<open>OAuth clients\<close>

datatype revoked_reason = TENANT_DEACTIVATION

record oauth_client =
  oc_id :: string
  oc_tenantId :: string
  oc_clientId :: string
  oc_clientSecretHash :: "string option"
  oc_isPublic :: bool
  oc_name :: string
  oc_scopes :: "string list"
  oc_roles :: "string list"
  oc_redirectUris :: "string list"
  oc_postLogoutRedirectUris :: "string list"
  oc_grantTypes :: "string list"
  oc_createdBy :: "string option"
  oc_createdAt :: micros
  oc_refreshTokenTtlSeconds :: "int option"
  oc_revokedAt :: "time option"
  oc_revokedReason :: "revoked_reason option"

section \<open>Connections and connector credentials\<close>

datatype connector_type = TRACTION | CREDO

datatype connection_state = C_INVITED | C_REQUESTED | C_RESPONDED | C_ACTIVE | C_COMPLETED | C_ABANDONED

datatype connection_protocol = DIDCOMM_V1 | DIDCOMM_V2 | OPENID4VC

record connection =
  cn_id :: string
  cn_tenantId :: string
  cn_externalConnectionId :: string
  cn_theirLabel :: "string option"
  cn_theirDid :: "string option"
  cn_state :: connection_state
  cn_connectorType :: connector_type
  cn_protocol :: connection_protocol
  cn_metadata :: "(string \<times> json) list"
  cn_createdAt :: micros
  cn_updatedAt :: time

record connector_credential =
  cc_id :: string
  cc_tenantId :: string
  cc_connectorType :: connector_type
  cc_credentialsEncrypted :: string
  cc_endpointUrl :: string
  cc_active :: bool
  cc_keyVersion :: rat
  cc_createdAt :: micros
  cc_updatedAt :: time

section \<open>Credential definitions, credentials, operations\<close>

datatype cd_format = F_ANONCREDS | F_SD_JWT | F_MDL | F_W3C_VC

fun cd_format_str :: "cd_format \<Rightarrow> string" where
  "cd_format_str F_ANONCREDS = ''anoncreds''"
| "cd_format_str F_SD_JWT = ''sd-jwt''"
| "cd_format_str F_MDL = ''mdl''"
| "cd_format_str F_W3C_VC = ''w3c-vc''"

record credential_definition =
  cd_id :: string
  cd_tenantId :: string
  cd_name :: string
  cd_format :: cd_format
  cd_schemaDefinition :: json
  cd_externalId :: string
  cd_connectorType :: connector_type
  cd_metadata :: "json option"
  cd_isActive :: bool
  cd_createdAt :: micros
  cd_updatedAt :: time

datatype credential_state = CR_OFFERED | CR_ISSUED | CR_REVOKED | CR_EXPIRED

record credential =
  cr_id :: string
  cr_tenantId :: string
  cr_issuanceProfileId :: "string option"
  cr_connectionId :: "string option"
  cr_connectorId :: string
  cr_externalId :: "string option"
  cr_format :: cd_format
  cr_state :: credential_state
  cr_operationId :: string
  cr_metadata :: "(string \<times> json) list"
  cr_issuedAt :: "time option"
  cr_revokedAt :: "time option"
  cr_createdAt :: micros
  cr_updatedAt :: time

datatype operation_state = OP_PENDING | OP_PROCESSING | OP_COMPLETED | OP_FAILED

record operation =
  op_id :: string
  op_tenantId :: string
  op_batchId :: "string option"
  op_type :: string
  op_state :: operation_state
  op_request :: "(string \<times> json) list"
  op_result :: "json option"
  op_externalId :: "string option"
  op_viewedAt :: "time option"
  op_expiresAt :: time
  op_createdAt :: micros
  op_updatedAt :: time

section \<open>Rate limiting, OIDC storage, role scopes, audit\<close>

record rate_limit_hit =
  rh_id :: string
  rh_tracker :: string
  rh_routeKey :: string
  rh_hitAt :: micros

record oidc_model =
  om_id :: string
  om_modelName :: string
  om_oidcId :: string
  om_payload :: "(string \<times> json) list"
  om_grantId :: "string option"
  om_userCode :: "string option"
  om_uid :: "string option"
  om_accountId :: "string option"
  om_expiresAt :: "time option"
  om_consumedAt :: "time option"
  om_createdAt :: micros

record tenant_role_scope =
  trs_tenantId :: string
  trs_role :: string
  trs_scopes :: "string list"

datatype audit_actor_type = AA_USER | AA_SYSTEM | AA_CLIENT

datatype audit_action =
  A_ISSUE | A_VERIFY | A_HOLD | A_REVOKE | A_CREATE | A_UPDATE | A_DELETE | A_LOGIN | A_TOKEN_GRANT

text \<open>The payload of an \<^verbatim>\<open>audit.write\<close> job (\<^verbatim>\<open>AuditWriteJobData\<close>).\<close>

record audit_event =
  ae_tenantId :: string
  ae_actorId :: string
  ae_actorType :: audit_actor_type
  ae_action :: audit_action
  ae_resourceType :: string
  ae_resourceId :: string
  ae_operationId :: "string option"
  ae_metadata :: "(string \<times> json) list"

record audit_log =
  al_id :: string
  al_event :: audit_event
  al_ipAddress :: "string option"
  al_createdAt :: micros

record status_change_job =
  sj_tenantId :: string
  sj_previousStatus :: tenant_status
  sj_status :: tenant_status

section \<open>The database\<close>

record db =
  tenants :: "tenant list"
  tenant_users :: "tenant_user list"
  oauth_clients :: "oauth_client list"
  connections :: "connection list"
  connector_credentials :: "connector_credential list"
  credential_definitions :: "credential_definition list"
  credentials :: "credential list"
  operations :: "operation list"
  rate_limit_hits :: "rate_limit_hit list"
  oidc_models :: "oidc_model list"
  role_scope_defaults :: "(string \<times> string) list"
  tenant_role_scopes :: "tenant_role_scope list"
  audit_jobs :: "audit_event list"
  audit_logs :: "audit_log list"
  status_jobs :: "status_change_job list"

text \<open>The rows that migration 000013 seeds into \<^verbatim>\<open>role_scope\<close>.\<close>

definition role_scope_seed :: "(string \<times> string) list" where
  "role_scope_seed =
     [(''owner'', ''tenants:admin''),
      (''admin'', ''credentials:offer''), (''admin'', ''credentials:verify''),
      (''admin'', ''credentials:hold''), (''admin'', ''credentials:revoke''),
      (''admin'', ''connections:manage''), (''admin'', ''profiles:manage''),
      (''admin'', ''users:manage''), (''admin'', ''clients:manage''),
      (''admin'', ''logs:read''), (''admin'', ''audit:read''),
      (''member'', ''credentials:offer''), (''member'', ''credentials:verify'')]"

text \<open>The database after the migrations.\<close>

definition empty_db :: db where
  "empty_db = \<lparr>tenants = [], tenant_users = [], oauth_clients = [], connections = [],
     connector_credentials = [], credential_definitions = [], credentials = [], operations = [],
     rate_limit_hits = [], oidc_models = [], role_scope_defaults = role_scope_seed,
     tenant_role_scopes = [], audit_jobs = [], audit_logs = [], status_jobs = []\<rparr>"

text \<open>\<^verbatim>\<open>DomainAuditService.emit\<close>: fail-open, actor is the system. The queue accepts the job here.\<close>

definition domain_audit_emit ::
  "string \<Rightarrow> audit_action \<Rightarrow> string \<Rightarrow> string \<Rightarrow> (string \<times> json) list \<Rightarrow> db \<Rightarrow> db" where
  "domain_audit_emit tenantId action resourceType resourceId metadata d =
     d\<lparr>audit_jobs := audit_jobs d @
        [\<lparr>ae_tenantId = tenantId, ae_actorId = ''system'', ae_actorType = AA_SYSTEM, ae_action = action,
          ae_resourceType = resourceType, ae_resourceId = resourceId, ae_operationId = None,
          ae_metadata = metadata\<rparr>]\<rparr>"

lemma domain_audit_emit_frame [simp]:
  "tenants (domain_audit_emit t a rt r m d) = tenants d"
  "tenant_users (domain_audit_emit t a rt r m d) = tenant_users d"
  "oauth_clients (domain_audit_emit t a rt r m d) = oauth_clients d"
  "connections (domain_audit_emit t a rt r m d) = connections d"
  "connector_credentials (domain_audit_emit t a rt r m d) = connector_credentials d"
  "credential_definitions (domain_audit_emit t a rt r m d) = credential_definitions d"
  "credentials (domain_audit_emit t a rt r m d) = credentials d"
  "operations (domain_audit_emit t a rt r m d) = operations d"
  "rate_limit_hits (domain_audit_emit t a rt r m d) = rate_limit_hits d"
  "oidc_models (domain_audit_emit t a rt r m d) = oidc_models d"
  "role_scope_defaults (domain_audit_emit t a rt r m d) = role_scope_defaults d"
  "tenant_role_scopes (domain_audit_emit t a rt r m d) = tenant_role_scopes d"
  "audit_logs (domain_audit_emit t a rt r m d) = audit_logs d"
  "status_jobs (domain_audit_emit t a rt r m d) = status_jobs d"
  by (simp_all add: domain_audit_emit_def)

text \<open>An \<^verbatim>\<open>INSERT\<close> fails on a primary key that is taken.\<close>

definition tbl_insert :: "('r \<Rightarrow> 'k) \<Rightarrow> 'r \<Rightarrow> 'r list \<Rightarrow> 'r list option" where
  "tbl_insert key r rows = (if key r \<in> key ` set rows then None else Some (rows @ [r]))"

lemma tbl_insert_keys [inv_intros]: "tbl_keys key rows \<Longrightarrow> tbl_insert key r rows = Some rows' \<Longrightarrow> tbl_keys key rows'"
  by (auto simp: tbl_insert_def tbl_keys_def split: if_splits)

lemma set_tbl_insert: "tbl_insert key r rows = Some rows' \<Longrightarrow> set rows' = insert r (set rows)"
  by (auto simp: tbl_insert_def split: if_splits)

lemma tbl_insert_append: "tbl_insert key r rows = Some rows' \<Longrightarrow> rows' = rows @ [r] \<and> key r \<notin> key ` set rows"
  by (auto simp: tbl_insert_def split: if_splits)

text \<open>The database after a call: unchanged when the call fails.\<close>

fun exec :: "('a \<times> db) result \<Rightarrow> db \<Rightarrow> db" where
  "exec (Inl _) d = d"
| "exec (Inr (_, d')) d = d'"

abbreviation db_error :: http_error where
  "db_error \<equiv> InternalError ''QueryFailedError''"

end
