(* ===== verification/Keyset_Pagination.thy ===== *)
theory Keyset_Pagination
  imports Database
begin

text \<open>
  Keyset pagination, as \<^verbatim>\<open>TenantRepository.findPage\<close>, \<^verbatim>\<open>TenantUserRepository.findPageForTenant\<close> and
  \<^verbatim>\<open>AuditLogRepository.findPageForTenant\<close> implement it: rows ordered by (created_at, id), a cursor that
  names the last row of the previous page, one row more than the limit fetched to learn whether there
  is a next page. The cursor is made from a JavaScript \<^verbatim>\<open>Date\<close>, so its timestamp is the row's timestamp
  cut to milliseconds; \<open>crop\<close> stands for that.

  The locale \<open>keyset_source\<close> is the contract of a page query. Its client lemmas say what a caller that
  follows the cursors sees: with timestamps that survive the cut every row exactly once, in order; in
  ascending order never a lost row, whatever the timestamps.
\<close>

type_synonym 'k cursor_page = "'k option \<times> bool"

definition after_cursor :: "('r \<Rightarrow> 'k::linorder) \<Rightarrow> 'k option \<Rightarrow> 'r list \<Rightarrow> 'r list" where
  "after_cursor key c rows =
     sort_key key (case c of None \<Rightarrow> rows | Some k \<Rightarrow> filter (\<lambda>r. k < key r) rows)"

definition page_of :: "('r \<Rightarrow> 'k) \<Rightarrow> ('k \<Rightarrow> 'k) \<Rightarrow> nat \<Rightarrow> 'r list \<Rightarrow> 'r list \<times> 'k option \<times> bool" where
  "page_of key crop limit ordered =
     (let rows = take (limit + 1) ordered;
          hasMore = length rows > limit;
          items = (if hasMore then take limit rows else rows);
          nextCursor = (if hasMore \<and> items \<noteq> [] then Some (crop (key (last items))) else None)
      in (items, nextCursor, hasMore))"

text \<open>A caller that follows \<^verbatim>\<open>next_cursor\<close> for at most \<open>n\<close> requests; \<^const>\<open>None\<close> when the listing
  has not ended by then.\<close>

fun follow :: "nat \<Rightarrow> ('k option \<Rightarrow> 'r list \<times> 'k option \<times> bool) \<Rightarrow> 'k option \<Rightarrow> 'r list option" where
  "follow 0 fetch c = None"
| "follow (Suc n) fetch c =
     (case fetch c of
        (items, None, _) \<Rightarrow> Some items
      | (items, Some c', _) \<Rightarrow> map_option (\<lambda>rest. items @ rest) (follow n fetch (Some c')))"

lemma page_of_short: "length ordered \<le> limit \<Longrightarrow> page_of key crop limit ordered = (ordered, None, False)"
  by (simp add: page_of_def Let_def)

lemma page_of_long:
  "limit > 0 \<Longrightarrow> length ordered > limit \<Longrightarrow>
   page_of key crop limit ordered =
     (take limit ordered, Some (crop (key (ordered ! (limit - 1)))), True)"
  by (auto simp: page_of_def Let_def min_absorb1 min_def last_conv_nth)

text \<open>The rows after a row of a strictly sorted list are its suffix.\<close>

lemma sorted_suffix:
  fixes key :: "'r \<Rightarrow> 'k::linorder"
  assumes "sorted_wrt (\<lambda>a b. key a < key b) xs" "n < length xs"
  shows "filter (\<lambda>r. key (xs ! n) < key r) xs = drop (Suc n) xs"
proof -
  have split: "xs = take (Suc n) xs @ drop (Suc n) xs" by simp
  have lt: "i < j \<Longrightarrow> j < length xs \<Longrightarrow> key (xs ! i) < key (xs ! j)" for i j
    using assms(1) by (simp add: sorted_wrt_iff_nth_less)
  have "filter (\<lambda>r. key (xs ! n) < key r) (take (Suc n) xs) = []"
  proof (clarsimp simp: filter_empty_conv in_set_conv_nth)
    fix i assume "i < length xs" "i < Suc n" "key (xs ! n) < key (xs ! i)"
    then show False using lt [of i n] assms(2) by (cases "i = n") auto
  qed
  moreover have "filter (\<lambda>r. key (xs ! n) < key r) (drop (Suc n) xs) = drop (Suc n) xs"
    unfolding filter_id_conv by (auto simp: in_set_conv_nth intro!: lt) linarith
  ultimately show ?thesis by (metis append_Nil filter_append split)
qed

lemma after_cursor_sorted: "sorted (map key (after_cursor key c rows))"
  by (simp add: after_cursor_def)

lemma after_cursor_strict:
  assumes "distinct (map key rows)"
  shows "sorted_wrt (\<lambda>a b. key a < key b) (after_cursor key c rows)"
proof -
  have "distinct (map key (after_cursor key c rows))"
    using assms unfolding after_cursor_def
    by (cases c) (auto simp: distinct_map filter_sort intro: inj_on_subset)
  then have "sorted_wrt (<) (map key (after_cursor key c rows))"
    using after_cursor_sorted strict_sorted_iff by blast
  then show ?thesis by (simp add: sorted_wrt_map)
qed

text \<open>The rows after row \<open>n\<close> of the rows after a cursor.\<close>

lemma after_cursor_step:
  assumes "distinct (map key rows)" "n < length (after_cursor key c rows)"
  shows "after_cursor key (Some (key (after_cursor key c rows ! n))) rows = drop (Suc n) (after_cursor key c rows)"
proof -
  let ?o = "after_cursor key c rows"
  have mem: "?o ! n \<in> set ?o" using assms(2) by simp
  have "filter (\<lambda>r. key (?o ! n) < key r) (sort_key key rows)
      = filter (\<lambda>r. key (?o ! n) < key r) ?o"
  proof (cases c)
    case (Some k)
    have "k < key (?o ! n)" using mem Some by (simp add: after_cursor_def)
    then show ?thesis using Some
      by (auto simp: after_cursor_def filter_sort intro!: arg_cong [where f = "sort_key key"] filter_cong)
  qed (simp add: after_cursor_def)
  then have "after_cursor key (Some (key (?o ! n))) rows = filter (\<lambda>r. key (?o ! n) < key r) ?o"
    by (simp add: after_cursor_def filter_sort)
  also have "\<dots> = drop (Suc n) ?o" using sorted_suffix [OF after_cursor_strict [OF assms(1)] assms(2)] .
  finally show ?thesis .
qed

section \<open>The contract of a page query\<close>

locale keyset_source =
  fixes fetch :: "nat \<Rightarrow> 'k::linorder option \<Rightarrow> 's \<Rightarrow> 'r list \<times> 'k option \<times> bool"
    and visible :: "'s \<Rightarrow> 'r list"
    and key :: "'r \<Rightarrow> 'k"
    and crop :: "'k \<Rightarrow> 'k"
  assumes fetch_page: "fetch limit c s = page_of key crop limit (after_cursor key c (visible s))"
begin

text \<open>Timestamps that survive the cut: the caller sees every row once, in order, after finitely many
  requests.\<close>

lemma follow_exact:
  assumes "limit > 0" "distinct (map key (visible s))" "\<forall>r\<in>set (visible s). crop (key r) = key r"
    and "length (after_cursor key c (visible s)) < n"
  shows "follow n (\<lambda>c. fetch limit c s) c = Some (after_cursor key c (visible s))"
  using assms(4)
proof (induction n arbitrary: c)
  case (Suc n)
  let ?o = "after_cursor key c (visible s)"
  show ?case
  proof (cases "length ?o \<le> limit")
    case True
    then show ?thesis by (simp add: fetch_page page_of_short)
  next
    case False
    let ?k = "key (?o ! (limit - 1))"
    have i: "limit - 1 < length ?o" using False assms(1) by simp
    then have "?o ! (limit - 1) \<in> set (visible s)"
      using nth_mem [OF i] by (cases c) (auto simp: after_cursor_def)
    then have crop: "crop ?k = ?k" using assms(3) by blast
    have next_o: "after_cursor key (Some ?k) (visible s) = drop limit ?o"
      using after_cursor_step [OF assms(2) i] assms(1) by simp
    have "length (after_cursor key (Some ?k) (visible s)) < n"
      using Suc.prems next_o assms(1) False by simp
    then have IH: "follow n (\<lambda>c. fetch limit c s) (Some ?k) = Some (drop limit ?o)"
      using Suc.IH next_o by metis
    have "fetch limit c s = (take limit ?o, Some ?k, True)"
      using page_of_long [of limit ?o key crop] assms(1) False crop by (simp add: fetch_page)
    then show ?thesis using IH by simp
  qed
qed simp

text \<open>Whatever the cut loses, a cursor below the last row cannot skip a row: the rest of the listing
  is still ahead of the next cursor.\<close>

lemma next_page_keeps:
  assumes crop: "\<And>k. crop k \<le> k" and dist: "distinct (map key (visible s))"
    and pg: "fetch limit c s = (items, Some c', hasMore)"
    and r: "r \<in> set (after_cursor key c (visible s))"
  shows "r \<in> set items \<or> r \<in> set (after_cursor key (Some c') (visible s))"
proof (rule disjCI)
  let ?o = "after_cursor key c (visible s)"
  assume notin: "r \<notin> set (after_cursor key (Some c') (visible s))"
  have items: "items = take limit ?o" "items \<noteq> []" "c' = crop (key (last items))"
    using pg by (auto simp: fetch_page page_of_def Let_def split: if_splits)
  have vis: "r \<in> set (visible s)" using r by (auto simp: after_cursor_def split: option.splits)
  show "r \<in> set items"
  proof (rule ccontr)
    assume "r \<notin> set items"
    then have "r \<in> set (drop limit ?o)"
      using r items(1) by (metis Un_iff append_take_drop_id set_append)
    moreover have "sorted_wrt (\<lambda>a b. key a < key b) (take limit ?o @ drop limit ?o)"
      using after_cursor_strict [OF dist, of c] by simp
    ultimately have "key (last items) < key r"
      using items last_in_set by (fastforce simp: sorted_wrt_append simp del: append_take_drop_id)
    then have "c' < key r" using crop items(3) order.strict_trans1 by blast
    then show False using notin vis by (simp add: after_cursor_def)
  qed
qed

text \<open>A cursor cut below the first row of its own page leads back to that page, for ever.\<close>

lemma follow_stuck:
  assumes "limit > 0" and len: "length (visible s) > limit"
    and below: "crop (key (after_cursor key None (visible s) ! (limit - 1)))
                  < key (after_cursor key None (visible s) ! 0)"
  shows "follow n (\<lambda>c. fetch limit c s) None = None"
proof -
  let ?o = "after_cursor key None (visible s)"
  let ?c = "crop (key (?o ! (limit - 1)))"
  have len_o: "length ?o > limit" using len by (simp add: after_cursor_def)
  have "sorted (map key ?o)" by (rule after_cursor_sorted)
  then have min: "\<forall>r\<in>set (visible s). ?c < key r"
  proof (intro ballI)
    fix r assume "r \<in> set (visible s)"
    then obtain i where "i < length ?o" "?o ! i = r" 
      unfolding after_cursor_def option.case by (metis in_set_conv_nth set_sort)
    moreover have "key (?o ! 0) \<le> key (?o ! i)"
      using \<open>sorted (map key ?o)\<close> calculation(1) by (cases "i = 0") (auto simp: sorted_iff_nth_mono)
    ultimately show "?c < key r" using below by (metis order.strict_trans2)
  qed
  then have same: "after_cursor key (Some ?c) (visible s) = ?o"
    by (simp add: after_cursor_def filter_id_conv)
  have page: "fetch limit c s = (take limit ?o, Some ?c, True)" if "c = None \<or> c = Some ?c" for c
    using that page_of_long [of limit ?o key crop] assms(1) len_o same by (auto simp: fetch_page)
  have "follow n (\<lambda>c. fetch limit c s) c = None" if "c = None \<or> c = Some ?c" for c
    using that
  proof (induction n arbitrary: c)
    case (Suc n)
    then show ?case using page [of c] by simp
  qed simp
  then show ?thesis by blast
qed

text \<open>A cursor that is never before the last row shown: the listing ends, and shows only rows after the
  cursor it started from.\<close>

lemma follow_ends:
  assumes "limit > 0" and crop: "\<And>k. k \<le> crop k" and "length (after_cursor key c (visible s)) < n"
  shows "\<exists>rows. follow n (\<lambda>c. fetch limit c s) c = Some rows \<and> set rows \<subseteq> set (after_cursor key c (visible s))"
  using assms(3)
proof (induction n arbitrary: c)
  case (Suc n)
  let ?o = "after_cursor key c (visible s)"
  show ?case
  proof (cases "length ?o \<le> limit")
    case True
    then show ?thesis by (simp add: fetch_page page_of_short)
  next
    case False
    let ?l = "?o ! (limit - 1)"
    let ?o' = "after_cursor key (Some (crop (key ?l))) (visible s)"
    have l: "?l \<in> set ?o" using False assms(1) by simp
    have "\<forall>k. c = Some k \<longrightarrow> k < key ?l" using l by (auto simp: after_cursor_def)
    then have sub: "\<forall>r\<in>set ?o'. r \<in> set ?o \<and> key ?l < key r"
      using crop [of "key ?l"] by (cases c) (auto simp: after_cursor_def)
    have "length ?o' < length ?o"
    proof -
      have "length ?o' = length (filter (\<lambda>r. crop (key ?l) < key r) (visible s))" by (simp add: after_cursor_def)
      also have "\<dots> = length (filter (\<lambda>r. crop (key ?l) < key r) ?o)"
      proof (cases c)
        case (Some k)
        have "k < key r" if "crop (key ?l) < key r" for r
          using that crop [of "key ?l"] \<open>\<forall>k. c = Some k \<longrightarrow> k < key ?l\<close> Some by auto
        then have "filter (\<lambda>r. crop (key ?l) < key r) (visible s) = filter (\<lambda>r. crop (key ?l) < key r) (filter (\<lambda>r. k < key r) (visible s))"
          by (auto intro!: filter_cong)
        then show ?thesis using Some by (simp add: after_cursor_def filter_sort)
      qed (simp add: after_cursor_def filter_sort)
      also have "\<dots> < length ?o" using crop [of "key ?l"] by (intro length_filter_less [OF l]) simp
      finally show ?thesis .
    qed
    then have "length ?o' < n" using Suc.prems by simp
    then obtain rows where rows: "follow n (\<lambda>c. fetch limit c s) (Some (crop (key ?l))) = Some rows" "set rows \<subseteq> set ?o'"
      using Suc.IH by blast
    have "fetch limit c s = (take limit ?o, Some (crop (key ?l)), True)"
      using page_of_long [of limit ?o key crop] assms(1) False by (simp add: fetch_page)
    then have "follow (Suc n) (\<lambda>c. fetch limit c s) c = Some (take limit ?o @ rows)" using rows(1) by simp
    moreover have "set (take limit ?o @ rows) \<subseteq> set ?o" using rows(2) sub set_take_subset by fastforce
    ultimately show ?thesis by blast
  qed
qed simp

text \<open>A cursor cut beyond rows that were not delivered loses them.\<close>

lemma next_page_drops:
  assumes "fetch limit c s = (items, Some c', more_rows)"
    and "key (last items) < key r" "key r \<le> crop (key (last items))"
  shows "r \<notin> set items \<and> r \<notin> set (after_cursor key (Some c') (visible s))"
proof -
  let ?o = "after_cursor key c (visible s)"
  have items: "items = take limit ?o" "items \<noteq> []" "c' = crop (key (last items))"
    using assms(1) by (auto simp: fetch_page page_of_def Let_def split: if_splits)
  have "sorted (map key items)"
    using after_cursor_sorted [of key c "visible s"] items(1) sorted_wrt_take take_map by metis
  then have "\<forall>x\<in>set items. key x \<le> key (last items)"
    using items(2) by (auto simp: in_set_conv_nth last_conv_nth sorted_iff_nth_mono)
  then show ?thesis using assms(2,3) items(3) by (auto simp: after_cursor_def)
qed

end

section \<open>Descending order\<close>

text \<open>Keys compared in the opposite order, for \<^verbatim>\<open>ORDER BY ... DESC\<close> with \<^verbatim>\<open><\<close> on the cursor.\<close>

datatype 'a desc = Desc (undesc: 'a)

instantiation desc :: (linorder) linorder
begin

definition less_eq_desc :: "'a desc \<Rightarrow> 'a desc \<Rightarrow> bool" where
  "less_eq_desc a b = (undesc b \<le> undesc a)"

definition less_desc :: "'a desc \<Rightarrow> 'a desc \<Rightarrow> bool" where
  "less_desc a b = (undesc b < undesc a)"

instance
  by standard (auto simp: less_eq_desc_def less_desc_def desc.expand)

end

lemma desc_less [simp]: "Desc a < Desc b \<longleftrightarrow> b < a" "Desc a \<le> Desc b \<longleftrightarrow> b \<le> a"
  by (simp_all add: less_desc_def less_eq_desc_def)

text \<open>The cursor of a row: its timestamp as an ISO string of a \<^verbatim>\<open>Date\<close>, cast back to
  \<^verbatim>\<open>timestamptz\<close>.\<close>

definition cursor_cut :: "micros \<times> string \<Rightarrow> micros \<times> string" where
  "cursor_cut k = (from_js_date (to_js_date (fst k)), snd k)"

lemma cursor_cut_le: "cursor_cut k \<le> k"
proof -
  have "fst k div 1000 * 1000 \<le> fst k" by (simp add: div_mult_mod_eq minus_mod_eq_div_mult [symmetric])
  then show ?thesis
    by (cases k) (auto simp: cursor_cut_def from_js_date_def to_js_date_def less_eq_prod_def)
qed

definition desc_cut :: "(micros \<times> string) desc \<Rightarrow> (micros \<times> string) desc" where
  "desc_cut k = Desc (cursor_cut (undesc k))"

lemma desc_cut_ge: "k \<le> desc_cut k"
  using cursor_cut_le [of "undesc k"] by (cases k) (simp add: desc_cut_def)

lemma cursor_cut_exact: "fst k mod 1000 = 0 \<Longrightarrow> cursor_cut k = k"
  by (cases k) (auto simp: cursor_cut_def from_js_date_def to_js_date_def)

end
