(* ===== verification/Tenant_User.thy ===== *)
theory Tenant_User
  imports Keyset_Pagination
begin

text \<open>
  \<^verbatim>\<open>tenant-user\<close>: the repository and the service of tenant memberships. The table constraints of the
  entity (primary key, unique (tenant, external user) and (tenant, e-mail), foreign key to the tenant)
  are part of the model: a write that violates one fails.
\<close>

section \<open>TenantUserRepository\<close>

definition tu_findById :: "string \<Rightarrow> db \<Rightarrow> tenant_user option" where
  "tu_findById uid d = tbl_find u_id uid (tenant_users d)"

definition tu_rows_findByTenantAndId :: "string \<Rightarrow> string \<Rightarrow> tenant_user list \<Rightarrow> tenant_user option" where
  "tu_rows_findByTenantAndId tenantId uid rows = List.find (\<lambda>u. u_id u = uid \<and> u_tenantId u = tenantId) rows"

definition tu_findByTenantAndId :: "string \<Rightarrow> string \<Rightarrow> db \<Rightarrow> tenant_user option" where
  "tu_findByTenantAndId tenantId uid d = tu_rows_findByTenantAndId tenantId uid (tenant_users d)"

definition countByTenantAndRole :: "string \<Rightarrow> tenant_user_role \<Rightarrow> db \<Rightarrow> nat" where
  "countByTenantAndRole tenantId role d =
     length (filter (\<lambda>u. u_tenantId u = tenantId \<and> u_role u = role) (tenant_users d))"

definition tu_key :: "tenant_user \<Rightarrow> micros \<times> string" where
  "tu_key u = (u_createdAt u, u_id u)"

definition tu_findPageForTenant ::
  "string \<Rightarrow> nat \<Rightarrow> (micros \<times> string) option \<Rightarrow> db \<Rightarrow> tenant_user list \<times> (micros \<times> string) option \<times> bool" where
  "tu_findPageForTenant tenantId limit cursor d =
     page_of tu_key cursor_cut limit
       (after_cursor tu_key cursor (filter (\<lambda>u. u_tenantId u = tenantId) (tenant_users d)))"

definition tu_findByExternalUserId :: "string \<Rightarrow> db \<Rightarrow> tenant_user list" where
  "tu_findByExternalUserId ext d =
     sort_key u_createdAt (filter (\<lambda>u. u_externalUserId u = Some ext) (tenant_users d))"

text \<open>Inner join with the tenants that are not soft-deleted; each membership with its tenant.\<close>

definition tu_findActiveByExternalUserId :: "string \<Rightarrow> db \<Rightarrow> (tenant_user \<times> tenant) list" where
  "tu_findActiveByExternalUserId ext d =
     concat (map (\<lambda>u. map (\<lambda>t. (u, t))
         (filter (\<lambda>t. t_id t = u_tenantId u \<and> t_deletedAt t = None) (tenants d)))
       (sort_key tu_key (filter (\<lambda>u. u_externalUserId u = Some ext \<and> u_status u = U_ACTIVE) (tenant_users d))))"

definition tu_findByTenantAndExternalUserId :: "string \<Rightarrow> string \<Rightarrow> db \<Rightarrow> tenant_user option" where
  "tu_findByTenantAndExternalUserId tenantId ext d =
     List.find (\<lambda>u. u_tenantId u = tenantId \<and> u_externalUserId u = Some ext) (tenant_users d)"

definition tu_findByTenantAndEmail :: "string \<Rightarrow> string \<Rightarrow> db \<Rightarrow> tenant_user option" where
  "tu_findByTenantAndEmail tenantId email d =
     List.find (\<lambda>u. u_tenantId u = tenantId \<and> u_email u = email) (tenant_users d)"

text \<open>\<^verbatim>\<open>uq_tenant_user_external_user\<close> (a null never collides) and \<^verbatim>\<open>uq_tenant_user_tenant_email\<close>
  between two different rows.\<close>

definition tu_conflict :: "tenant_user \<Rightarrow> tenant_user \<Rightarrow> bool" where
  "tu_conflict a b = (u_tenantId a = u_tenantId b \<and>
     (u_email a = u_email b \<or> (u_externalUserId a \<noteq> None \<and> u_externalUserId a = u_externalUserId b)))"

definition tu_admissible :: "tenant_user \<Rightarrow> db \<Rightarrow> bool" where
  "tu_admissible u d =
     (u_tenantId u \<in> t_id ` set (tenants d)
      \<and> list_all (\<lambda>v. u_id v = u_id u \<or> \<not> tu_conflict v u) (tenant_users d))"

definition tu_create :: "tenant_user \<Rightarrow> db \<Rightarrow> db option" where
  "tu_create u d =
     (if tu_admissible u d
      then map_option (\<lambda>rows. d\<lparr>tenant_users := rows\<rparr>) (tbl_insert u_id u (tenant_users d))
      else None)"

definition tu_update :: "time \<Rightarrow> tenant_user \<Rightarrow> db \<Rightarrow> db option" where
  "tu_update now u d =
     (if tu_admissible u d
      then Some (d\<lparr>tenant_users := tbl_save u_id (u\<lparr>u_updatedAt := now\<rparr>) (tenant_users d)\<rparr>)
      else None)"

definition tu_delete :: "string \<Rightarrow> db \<Rightarrow> db" where
  "tu_delete uid d = d\<lparr>tenant_users := tbl_delete u_id uid (tenant_users d)\<rparr>"

definition claimable :: "string \<Rightarrow> string \<Rightarrow> tenant_user \<Rightarrow> bool" where
  "claimable tenantId normalizedEmail u =
     (u_tenantId u = tenantId \<and> to_lower (u_email u) = normalizedEmail
      \<and> u_externalUserId u = None \<and> u_status u = U_INVITED)"

definition claim_row :: "string \<Rightarrow> tenant_user \<Rightarrow> tenant_user" where
  "claim_row ext u = u\<lparr>u_externalUserId := Some ext, u_status := U_ACTIVE\<rparr>"

text \<open>The single \<^verbatim>\<open>UPDATE\<close>; it fails as a whole when the updated table would violate
  \<^verbatim>\<open>uq_tenant_user_external_user\<close>. \<^const>\<open>Inl\<close> is that failure, \<open>Inr (None, _)\<close> no affected row.\<close>

definition tu_claimInvitedByEmail ::
  "string \<Rightarrow> string \<Rightarrow> string \<Rightarrow> db \<Rightarrow> (tenant_user option \<times> db) result" where
  "tu_claimInvitedByEmail tenantId email ext d =
     (let normalizedEmail = to_lower (js_trim email);
          affected = filter (claimable tenantId normalizedEmail) (tenant_users d);
          d' = d\<lparr>tenant_users := tbl_update (claimable tenantId normalizedEmail) (claim_row ext) (tenant_users d)\<rparr>
      in if affected = [] then Ok (None, d)
         else if length affected > 1 \<or>
                 list_ex (\<lambda>u. u_tenantId u = tenantId \<and> u_externalUserId u = Some ext) (tenant_users d)
         then Err db_error
         else Ok (tu_findByTenantAndExternalUserId tenantId ext d', d'))"

section \<open>TenantUserService\<close>

record invite_dto =
  inv_email :: string
  inv_role :: tenant_user_role

record create_tu_dto =
  ctu_tenantId :: string
  ctu_externalUserId :: string
  ctu_email :: string
  ctu_displayName :: "string option"
  ctu_role :: tenant_user_role
  ctu_status :: tenant_user_status

record update_tu_dto =
  utu_email :: "string option"
  utu_displayName :: "string option"
  utu_role :: "tenant_user_role option"
  utu_status :: "tenant_user_status option"

text \<open>\<open>newid\<close>, \<open>created\<close> and \<open>now\<close> are what the database and the clock supply: the generated uuid, the
  transaction timestamp and the time of the write. \<open>in_tx\<close> says that the caller passed its transaction
  manager (then the caller emits the audit event).\<close>

definition tus_invite ::
  "string \<Rightarrow> micros \<Rightarrow> time \<Rightarrow> bool \<Rightarrow> string \<Rightarrow> invite_dto \<Rightarrow> db \<Rightarrow> (tenant_user \<times> db) result" where
  "tus_invite newid created now in_tx tenantId dto d =
     (if tu_findByTenantAndEmail tenantId (inv_email dto) d \<noteq> None
      then Err (Conflict ''A tenant user with this email already exists for this tenant.'')
      else
        let u = \<lparr>u_id = newid, u_tenantId = tenantId, u_externalUserId = None, u_email = inv_email dto,
                 u_displayName = None, u_role = inv_role dto, u_status = U_INVITED,
                 u_createdAt = created, u_updatedAt = now\<rparr>
        in case tu_create u d of
             None \<Rightarrow> Err db_error
           | Some d' \<Rightarrow> Ok (u, if in_tx then d'
                             else domain_audit_emit tenantId A_CREATE ''tenant_user'' newid [] d'))"

definition tus_create :: "string \<Rightarrow> micros \<Rightarrow> time \<Rightarrow> create_tu_dto \<Rightarrow> db \<Rightarrow> (tenant_user \<times> db) result" where
  "tus_create newid created now dto d =
     (if tu_findByTenantAndExternalUserId (ctu_tenantId dto) (ctu_externalUserId dto) d \<noteq> None
      then Err (Conflict ''User already belongs to this tenant.'')
      else
        let u = \<lparr>u_id = newid, u_tenantId = ctu_tenantId dto, u_externalUserId = Some (ctu_externalUserId dto),
                 u_email = ctu_email dto, u_displayName = ctu_displayName dto, u_role = ctu_role dto,
                 u_status = ctu_status dto, u_createdAt = created, u_updatedAt = now\<rparr>
        in case tu_create u d of
             None \<Rightarrow> Err db_error
           | Some d' \<Rightarrow> Ok (u, domain_audit_emit (ctu_tenantId dto) A_CREATE ''tenant_user'' newid [] d'))"

definition tu_not_found :: "string \<Rightarrow> http_error" where
  "tu_not_found uid = NotFound (''Tenant user '' @ quoted uid @ '' was not found.'')"

definition tus_findById :: "string \<Rightarrow> db \<Rightarrow> tenant_user result" where
  "tus_findById uid d = (case tu_findById uid d of None \<Rightarrow> Err (tu_not_found uid) | Some u \<Rightarrow> Ok u)"

definition tus_list ::
  "string \<Rightarrow> nat option \<Rightarrow> (micros \<times> string) option \<Rightarrow> db \<Rightarrow> tenant_user list \<times> (micros \<times> string) option \<times> bool" where
  "tus_list tenantId limit cursor d =
     tu_findPageForTenant tenantId (case limit of None \<Rightarrow> 20 | Some l \<Rightarrow> l) cursor d"

definition tus_claimInvitedByEmail ::
  "string \<Rightarrow> string \<Rightarrow> string \<Rightarrow> db \<Rightarrow> (tenant_user option \<times> db) result" where
  "tus_claimInvitedByEmail tenantId email ext d =
     rbind (tu_claimInvitedByEmail tenantId email ext d) (\<lambda>(claimed, d').
       case claimed of
         None \<Rightarrow> Ok (None, d')
       | Some u \<Rightarrow> Ok (Some u, domain_audit_emit (u_tenantId u) A_UPDATE ''tenant_user'' (u_id u) [] d'))"

text \<open>The checks of \<^verbatim>\<open>update\<close> and \<^verbatim>\<open>delete\<close> (reads), apart from their writes: the service does not hold
  a lock between the two.\<close>

definition tus_update_check ::
  "string \<Rightarrow> string \<Rightarrow> update_tu_dto \<Rightarrow> string option \<Rightarrow> db \<Rightarrow> tenant_user result" where
  "tus_update_check tenantId uid dto caller d =
     (case tu_findByTenantAndId tenantId uid d of
        None \<Rightarrow> Err (tu_not_found uid)
      | Some u \<Rightarrow>
          if utu_role dto \<noteq> None \<and> caller = Some uid
          then Err (Forbidden ''Cannot change your own role; ask another tenant owner or admin to do this.'')
          else if utu_role dto \<noteq> None \<and> utu_role dto \<noteq> Some (u_role u) \<and> u_role u = OWNER
                  \<and> countByTenantAndRole tenantId OWNER d \<le> 1
          then Err (Conflict ''Cannot change the role of the tenant's last owner.'')
          else Ok u)"

definition update_fields :: "update_tu_dto \<Rightarrow> tenant_user \<Rightarrow> tenant_user" where
  "update_fields dto u =
     u\<lparr>u_email := (case utu_email dto of None \<Rightarrow> u_email u | Some e \<Rightarrow> e),
       u_displayName := (case utu_displayName dto of None \<Rightarrow> u_displayName u | Some n \<Rightarrow> Some n),
       u_role := (case utu_role dto of None \<Rightarrow> u_role u | Some r \<Rightarrow> r),
       u_status := (case utu_status dto of None \<Rightarrow> u_status u | Some s \<Rightarrow> s)\<rparr>"

definition tus_update_write :: "time \<Rightarrow> update_tu_dto \<Rightarrow> tenant_user \<Rightarrow> db \<Rightarrow> (tenant_user \<times> db) result" where
  "tus_update_write now dto u d =
     (let v = update_fields dto u in
      case tu_update now v d of
        None \<Rightarrow> Err db_error
      | Some d' \<Rightarrow> Ok (v\<lparr>u_updatedAt := now\<rparr>,
                     domain_audit_emit (u_tenantId v) A_UPDATE ''tenant_user'' (u_id v) [] d'))"

definition tus_update ::
  "time \<Rightarrow> string \<Rightarrow> string \<Rightarrow> update_tu_dto \<Rightarrow> string option \<Rightarrow> db \<Rightarrow> (tenant_user \<times> db) result" where
  "tus_update now tenantId uid dto caller d =
     rbind (tus_update_check tenantId uid dto caller d) (\<lambda>u. tus_update_write now dto u d)"

definition tus_delete_check :: "string \<Rightarrow> string \<Rightarrow> db \<Rightarrow> tenant_user result" where
  "tus_delete_check tenantId uid d =
     (case tu_findByTenantAndId tenantId uid d of
        None \<Rightarrow> Err (tu_not_found uid)
      | Some u \<Rightarrow>
          if u_role u = OWNER \<and> countByTenantAndRole tenantId OWNER d \<le> 1
          then Err (Conflict ''Cannot remove the tenant's last owner.'')
          else Ok u)"

definition tus_delete_write :: "tenant_user \<Rightarrow> db \<Rightarrow> db" where
  "tus_delete_write u d = domain_audit_emit (u_tenantId u) A_DELETE ''tenant_user'' (u_id u) [] (tu_delete (u_id u) d)"

definition tus_delete :: "string \<Rightarrow> string \<Rightarrow> db \<Rightarrow> (unit \<times> db) result" where
  "tus_delete tenantId uid d =
     rbind (tus_delete_check tenantId uid d) (\<lambda>u. Ok ((), tus_delete_write u d))"

section \<open>Operations as steps\<close>

datatype tu_op =
    TU_invite string micros time string invite_dto
  | TU_create string micros time create_tu_dto
  | TU_claim string string string
  | TU_update time string string update_tu_dto "string option"
  | TU_delete string string

fun tu_step :: "tu_op \<Rightarrow> db \<Rightarrow> db" where
  "tu_step (TU_invite newid created now t dto) d = exec (tus_invite newid created now False t dto d) d"
| "tu_step (TU_create newid created now dto) d = exec (tus_create newid created now dto d) d"
| "tu_step (TU_claim t email ext) d = exec (tus_claimInvitedByEmail t email ext d) d"
| "tu_step (TU_update now t uid dto caller) d = exec (tus_update now t uid dto caller d) d"
| "tu_step (TU_delete t uid) d = exec (tus_delete t uid d) d"

section \<open>Table invariant\<close>

text \<open>Primary key, both unique constraints and the foreign key.\<close>

definition tu_unique :: "tenant_user list \<Rightarrow> bool" where
  "tu_unique rows = (\<forall>a\<in>set rows. \<forall>b\<in>set rows. u_id a \<noteq> u_id b \<longrightarrow> \<not> tu_conflict a b)"

definition tu_inv :: "db \<Rightarrow> bool" where
  "tu_inv d = (tbl_keys u_id (tenant_users d) \<and> tu_unique (tenant_users d)
     \<and> (\<forall>u\<in>set (tenant_users d). u_tenantId u \<in> t_id ` set (tenants d)))"

lemma tu_conflict_sym: "tu_conflict a b \<longleftrightarrow> tu_conflict b a"
  unfolding tu_conflict_def by metis

lemma tu_unique_write:
  assumes "tu_unique rows" "\<forall>v\<in>set rows. u_id v = u_id u \<or> \<not> tu_conflict v u"
    and "set rows' \<subseteq> insert u (set rows)"
  shows "tu_unique rows'"
  unfolding tu_unique_def
proof (intro ballI impI)
  fix a b assume "a \<in> set rows'" "b \<in> set rows'" "u_id a \<noteq> u_id b"
  then consider "a = u" "b \<in> set rows" | "b = u" "a \<in> set rows" | "a \<in> set rows" "b \<in> set rows"
    using assms(3) by auto
  then show "\<not> tu_conflict a b"
    using assms(1,2) \<open>u_id a \<noteq> u_id b\<close> tu_conflict_sym by cases (auto simp: tu_unique_def)
qed

lemma tu_conflict_updatedAt [simp]: "tu_conflict (a\<lparr>u_updatedAt := n\<rparr>) b = tu_conflict a b"
  by (simp add: tu_conflict_def)

lemma tu_inv_frame: "tenant_users d' = tenant_users d \<Longrightarrow> tenants d' = tenants d \<Longrightarrow> tu_inv d' = tu_inv d"
  by (simp add: tu_inv_def)

lemma tu_inv_audit [simp]: "tu_inv (domain_audit_emit t a rt r m d) = tu_inv d"
  by (rule tu_inv_frame) simp_all

lemma tu_create_users:
  "tu_create u d = Some d' \<Longrightarrow> tenant_users d' = tenant_users d @ [u] \<and> tenants d' = tenants d"
  by (auto simp: tu_create_def split: if_splits dest: tbl_insert_append)

lemma tu_create_inv [inv_intros]:
  assumes "tu_inv d" "tu_create u d = Some d'"
  shows "tu_inv d'"
proof -
  obtain rows where ins: "tbl_insert u_id u (tenant_users d) = Some rows" "d' = d\<lparr>tenant_users := rows\<rparr>"
    and adm: "tu_admissible u d" using assms(2) by (auto simp: tu_create_def split: if_splits)
  have "tu_unique rows"
    using tu_unique_write [of "tenant_users d" u rows] assms(1) adm set_tbl_insert [OF ins(1)]
    by (simp add: tu_inv_def tu_admissible_def list_all_iff)
  moreover have "tbl_keys u_id rows" using assms(1) ins(1) by (auto simp: tu_inv_def intro: tbl_insert_keys)
  ultimately show ?thesis
    using assms(1) adm ins(2) set_tbl_insert [OF ins(1)] by (simp add: tu_inv_def tu_admissible_def)
qed

lemma tu_update_inv [inv_intros]:
  assumes "tu_inv d" "tu_update now u d = Some d'"
  shows "tu_inv d'"
proof -
  let ?u = "u\<lparr>u_updatedAt := now\<rparr>"
  let ?rows = "tbl_save u_id ?u (tenant_users d)"
  have d': "d' = d\<lparr>tenant_users := ?rows\<rparr>" and adm: "tu_admissible u d"
    using assms(2) by (auto simp: tu_update_def split: if_splits)
  have sub: "set ?rows \<subseteq> insert ?u (set (tenant_users d))" by (rule set_tbl_save)
  have "tu_conflict v ?u = tu_conflict v u" for v by (simp add: tu_conflict_def)
  then have "tu_unique ?rows"
    using tu_unique_write [of "tenant_users d" ?u ?rows] assms(1) adm sub
    by (simp add: tu_inv_def tu_admissible_def list_all_iff)
  moreover have "tbl_keys u_id ?rows" using assms(1) by (auto simp: tu_inv_def intro: tbl_keys_save)
  moreover have "\<forall>v\<in>set ?rows. u_tenantId v \<in> t_id ` set (tenants d)"
    using assms(1) adm sub by (auto simp: tu_inv_def tu_admissible_def)
  ultimately show ?thesis using d' by (simp add: tu_inv_def)
qed

lemma tu_delete_inv [inv_intros]: "tu_inv d \<Longrightarrow> tu_inv (tu_delete uid d)"
  by (auto simp: tu_inv_def tu_delete_def tu_unique_def set_tbl_delete intro: tbl_keys_delete)

lemma claim_row_simps [simp]:
  "u_id (claim_row ext u) = u_id u" "u_tenantId (claim_row ext u) = u_tenantId u"
  "u_role (claim_row ext u) = u_role u" "u_email (claim_row ext u) = u_email u"
  "u_externalUserId (claim_row ext u) = Some ext" "u_status (claim_row ext u) = U_ACTIVE"
  by (simp_all add: claim_row_def)

lemma length_filter_gt1:
  "a \<in> set xs \<Longrightarrow> b \<in> set xs \<Longrightarrow> a \<noteq> b \<Longrightarrow> P a \<Longrightarrow> P b \<Longrightarrow> length (filter P xs) > 1"
  by (induction xs) (auto simp: filter_empty_conv)

lemma tu_claim_inv [inv_intros]:
  assumes "tu_inv d" "tu_claimInvitedByEmail t email ext d = Inr (r, d')"
  shows "tu_inv d'"
proof (cases "d' = d")
  case False
  let ?p = "claimable t (to_lower (js_trim email))"
  have d': "d' = d\<lparr>tenant_users := tbl_update ?p (claim_row ext) (tenant_users d)\<rparr>"
    and one: "length (filter ?p (tenant_users d)) \<le> 1"
    and free: "\<And>u. u \<in> set (tenant_users d) \<Longrightarrow> u_tenantId u = t \<Longrightarrow> u_externalUserId u \<noteq> Some ext"
    using assms(2) False by (auto simp: tu_claimInvitedByEmail_def Let_def list_ex_iff split: if_splits)
  have same: "a = b" if "a \<in> set (tenant_users d)" "b \<in> set (tenant_users d)" "?p a" "?p b" for a b
    using that one length_filter_gt1 [of a "tenant_users d" b ?p] by force
  have "tu_unique (tenant_users d')"
    unfolding tu_unique_def
  proof (intro ballI impI)
    fix a b assume a: "a \<in> set (tenant_users d')" and b: "b \<in> set (tenant_users d')" and ne: "u_id a \<noteq> u_id b"
    obtain a0 b0 where 0: "a0 \<in> set (tenant_users d)" "b0 \<in> set (tenant_users d)"
      "a = (if ?p a0 then claim_row ext a0 else a0)" "b = (if ?p b0 then claim_row ext b0 else b0)"
      using a b d' by (auto simp: tbl_update_def)
    have "\<not> tu_conflict a0 b0" using assms(1) 0 ne by (auto simp: tu_inv_def tu_unique_def split: if_splits)
    then show "\<not> tu_conflict a b"
      using 0 ne same [of a0 b0] free [of a0] free [of b0]
      by (auto simp: tu_conflict_def claimable_def split: if_splits)
  qed
  moreover have "tbl_keys u_id (tenant_users d')"
    using assms(1) d' by (auto simp: tu_inv_def intro!: tbl_keys_update)
  moreover have "\<forall>u\<in>set (tenant_users d'). u_tenantId u \<in> t_id ` set (tenants d')"
    using assms(1) d' by (auto simp: tu_inv_def set_tbl_update)
  ultimately show ?thesis by (simp add: tu_inv_def)
qed (use assms(1) in simp)

lemma tu_step_tenants: "tenants (tu_step oper d) = tenants d"
proof (cases oper)
  case (TU_invite newid created now t dto)
  then show ?thesis by (auto simp: tus_invite_def Let_def split: option.splits dest: tu_create_users)
next
  case (TU_create newid created now dto)
  then show ?thesis by (auto simp: tus_create_def Let_def split: option.splits dest: tu_create_users)
next
  case (TU_claim t email ext)
  then show ?thesis
    by (auto simp: tus_claimInvitedByEmail_def tu_claimInvitedByEmail_def Let_def split: option.splits)
next
  case (TU_update now t uid dto caller)
  then show ?thesis
    by (cases "tus_update_check t uid dto caller d")
      (auto simp: tus_update_def tus_update_write_def tu_update_def Let_def split: option.splits if_splits)
next
  case (TU_delete t uid)
  then show ?thesis
    by (cases "tus_delete_check t uid d") (auto simp: tus_delete_def tus_delete_write_def tu_delete_def)
qed

lemma tu_step_inv: "tu_inv d \<Longrightarrow> tu_inv (tu_step oper d)"
proof (cases oper)
  case (TU_invite newid created now t dto)
  then show "tu_inv d \<Longrightarrow> ?thesis"
    by (auto simp: tus_invite_def Let_def split: option.splits intro: tu_create_inv)
next
  case (TU_create newid created now dto)
  then show "tu_inv d \<Longrightarrow> ?thesis"
    by (auto simp: tus_create_def Let_def split: option.splits intro: tu_create_inv)
next
  case (TU_claim t email ext)
  then show "tu_inv d \<Longrightarrow> ?thesis"
    by (cases "tu_claimInvitedByEmail t email ext d")
      (auto simp: tus_claimInvitedByEmail_def split: option.splits dest: tu_claim_inv)
next
  case (TU_update now t uid dto caller)
  then show "tu_inv d \<Longrightarrow> ?thesis"
    by (cases "tus_update_check t uid dto caller d")
      (auto simp: tus_update_def tus_update_write_def Let_def split: option.splits intro: tu_update_inv)
next
  case (TU_delete t uid)
  then show "tu_inv d \<Longrightarrow> ?thesis"
    by (cases "tus_delete_check t uid d") (auto simp: tus_delete_def tus_delete_write_def intro: tu_delete_inv)
qed

interpretation tu: invariant_system "\<lambda>d. d = empty_db" tu_step tu_inv
proof unfold_locales
  fix d assume "d = empty_db"
  then show "tu_inv d" by (simp add: tu_inv_def empty_db_def tbl_keys_def tu_unique_def)
qed (rule tu_step_inv)

section \<open>Interfaces\<close>

interpretation tu_scoped: tenant_scoped tu_rows_findByTenantAndId u_id u_tenantId
proof unfold_locales
  fix t k rows r assume "tu_rows_findByTenantAndId t k rows = Some r"
  then show "r \<in> set rows \<and> u_id r = k \<and> u_tenantId r = t"
    unfolding tu_rows_findByTenantAndId_def by (auto simp: find_Some_iff)
next
  fix rows and r :: tenant_user assume "tbl_keys u_id rows" "r \<in> set rows"
  then show "tu_rows_findByTenantAndId (u_tenantId r) (u_id r) rows = Some r"
    by (induction rows) (auto simp: tu_rows_findByTenantAndId_def tbl_keys_def rev_image_eqI)
qed

interpretation tu_pages: keyset_source "tu_findPageForTenant t"
  "\<lambda>d. filter (\<lambda>u. u_tenantId u = t) (tenant_users d)" tu_key cursor_cut for t
  by unfold_locales (simp add: tu_findPageForTenant_def)

section \<open>Owners\<close>

definition has_owner :: "string \<Rightarrow> db \<Rightarrow> bool" where
  "has_owner t d = list_ex (\<lambda>u. u_tenantId u = t \<and> u_role u = OWNER) (tenant_users d)"

lemma has_owner_iff: "has_owner t d \<longleftrightarrow> (\<exists>u\<in>set (tenant_users d). u_tenantId u = t \<and> u_role u = OWNER)"
  by (auto simp: has_owner_def list_ex_iff)

lemma has_owner_audit [simp]: "has_owner t (domain_audit_emit t' a rt r m d) = has_owner t d"
  by (simp add: has_owner_def)

lemma other_match:
  assumes "tbl_keys key rows" "length (filter P rows) > 1"
  shows "\<exists>v\<in>set rows. P v \<and> key v \<noteq> k"
proof -
  let ?xs = "filter P rows"
  have "distinct (map key ?xs)" using assms(1) by (simp add: tbl_keys_def distinct_map_filter)
  then have "key (?xs ! 0) \<noteq> key (?xs ! 1)" using assms(2) by (force simp: distinct_conv_nth)
  moreover have "?xs ! 0 \<in> set ?xs" "?xs ! 1 \<in> set ?xs" using assms(2) by (intro nth_mem, linarith)+
  ultimately show ?thesis unfolding set_filter by (metis (no_types, lifting) mem_Collect_eq)
qed

lemma other_owner:
  "tu_inv d \<Longrightarrow> countByTenantAndRole t OWNER d > 1 \<Longrightarrow>
     \<exists>v\<in>set (tenant_users d). u_tenantId v = t \<and> u_role v = OWNER \<and> u_id v \<noteq> k"
  using other_match [of u_id "tenant_users d" "\<lambda>u. u_tenantId u = t \<and> u_role u = OWNER" k]
  by (simp add: tu_inv_def countByTenantAndRole_def)

lemma tu_findByTenantAndId_Some:
  "tu_findByTenantAndId t uid d = Some u \<Longrightarrow> u \<in> set (tenant_users d) \<and> u_id u = uid \<and> u_tenantId u = t"
  unfolding tu_findByTenantAndId_def by (rule tu_scoped.find_sound)

lemma tu_create_owner: "has_owner t d \<Longrightarrow> tu_create u d = Some d' \<Longrightarrow> has_owner t d'"
  using tu_create_users [of u d d'] by (auto simp: has_owner_iff)

lemma tu_claim_owner:
  assumes "has_owner t d" "tu_claimInvitedByEmail t' email ext d = Inr (r, d')"
  shows "has_owner t d'"
proof -
  let ?p = "claimable t' (to_lower (js_trim email))"
  obtain u where u: "u \<in> set (tenant_users d)" "u_tenantId u = t" "u_role u = OWNER"
    using assms(1) by (auto simp: has_owner_iff)
  have "d' = d \<or> tenant_users d' = tbl_update ?p (claim_row ext) (tenant_users d)"
    using assms(2) by (auto simp: tu_claimInvitedByEmail_def Let_def split: if_splits)
  then show ?thesis
  proof
    assume "tenant_users d' = tbl_update ?p (claim_row ext) (tenant_users d)"
    then have "(if ?p u then claim_row ext u else u) \<in> set (tenant_users d')"
      using tbl_update_mem [OF u(1)] by metis
    then show ?thesis using u unfolding has_owner_iff
      by (intro bexI [of _ "if ?p u then claim_row ext u else u"]) simp_all
  qed (use assms(1) in simp)
qed

lemma tu_delete_owner:
  assumes "tu_inv d" "has_owner t d" "tus_delete_check t' uid d = Inr u"
  shows "has_owner t (tus_delete_write u d)"
proof -
  have u: "u \<in> set (tenant_users d)" "u_id u = uid" "u_tenantId u = t'"
    and cnt: "u_role u = OWNER \<Longrightarrow> countByTenantAndRole t' OWNER d > 1"
    using assms(3) by (auto simp: tus_delete_check_def split: option.splits if_splits dest: tu_findByTenantAndId_Some)
  obtain v where v: "v \<in> set (tenant_users d)" "u_tenantId v = t" "u_role v = OWNER" "u_id v \<noteq> uid"
  proof (cases "t = t' \<and> u_role u = OWNER")
    case True
    then show ?thesis using other_owner [OF assms(1), of t uid] cnt that by auto
  next
    case False
    then obtain w where w: "w \<in> set (tenant_users d)" "u_tenantId w = t" "u_role w = OWNER"
      using assms(2) by (auto simp: has_owner_iff)
    then have "w \<noteq> u" using False u by auto
    then have "u_id w \<noteq> uid"
      using assms(1) u w by (auto simp: tu_inv_def tbl_keys_def distinct_map dest: inj_onD)
    then show ?thesis using w that by blast
  qed
  then show ?thesis using u by (auto simp: tus_delete_write_def tu_delete_def has_owner_iff set_tbl_delete)
qed

lemma tu_update_owner:
  assumes "tu_inv d" "has_owner t d" "tus_update_check t' uid dto caller d = Inr u"
    and "tus_update_write now dto u d = Inr (v, d')"
  shows "has_owner t d'"
proof -
  have u: "u \<in> set (tenant_users d)" "u_id u = uid" "u_tenantId u = t'"
    and cnt: "u_role u = OWNER \<Longrightarrow> u_role (update_fields dto u) = OWNER \<or> countByTenantAndRole t' OWNER d > 1"
    using assms(3)
    by (auto simp: tus_update_check_def update_fields_def split: option.splits if_splits
        dest: tu_findByTenantAndId_Some)
  let ?v = "(update_fields dto u)\<lparr>u_updatedAt := now\<rparr>"
  have d': "set (tenant_users d') = insert ?v {x \<in> set (tenant_users d). u_id x \<noteq> uid}"
  proof -
    have "tenant_users d' = tbl_save u_id ?v (tenant_users d)"
      using assms(4) by (auto simp: tus_update_write_def tu_update_def Let_def split: option.splits if_splits)
    then show ?thesis using assms(1) u set_tbl_save_keys [of u_id "tenant_users d" ?v] by (simp add: tu_inv_def update_fields_def)
  qed
  obtain w where w: "w \<in> set (tenant_users d)" "u_tenantId w = t" "u_role w = OWNER"
    using assms(2) by (auto simp: has_owner_iff)
  show ?thesis
  proof (cases "u_id w = uid")
    case False
    then show ?thesis using w d' by (auto simp: has_owner_iff)
  next
    case True
    then have "w = u" using assms(1) u w by (auto simp: tu_inv_def tbl_keys_def distinct_map dest: inj_onD)
    then have t: "t = t'" "u_role u = OWNER" using w u by auto
    show ?thesis
    proof (cases "u_role (update_fields dto u) = OWNER")
      case True
      then show ?thesis using d' u t by (auto simp: has_owner_iff update_fields_def)
    next
      case False
      then obtain x where "x \<in> set (tenant_users d)" "u_tenantId x = t" "u_role x = OWNER" "u_id x \<noteq> uid"
        using other_owner [OF assms(1), of t uid] cnt t by auto
      then show ?thesis using d' by (auto simp: has_owner_iff)
    qed
  qed
qed

lemma tu_step_owner: "tu_inv d \<Longrightarrow> has_owner t d \<Longrightarrow> has_owner t (tu_step oper d)"
proof (cases oper)
  case (TU_invite newid created now t' dto)
  then show "tu_inv d \<Longrightarrow> has_owner t d \<Longrightarrow> ?thesis"
    by (auto simp: tus_invite_def Let_def split: option.splits dest: tu_create_owner)
next
  case (TU_create newid created now dto)
  then show "tu_inv d \<Longrightarrow> has_owner t d \<Longrightarrow> ?thesis"
    by (auto simp: tus_create_def Let_def split: option.splits dest: tu_create_owner)
next
  case (TU_claim t' email ext)
  then show "tu_inv d \<Longrightarrow> has_owner t d \<Longrightarrow> ?thesis"
    by (cases "tu_claimInvitedByEmail t' email ext d")
      (auto simp: tus_claimInvitedByEmail_def split: option.splits dest: tu_claim_owner)
next
  case (TU_update now t' uid dto caller)
  then show "tu_inv d \<Longrightarrow> has_owner t d \<Longrightarrow> ?thesis"
    by (cases "tus_update_check t' uid dto caller d"; cases "tus_update now t' uid dto caller d")
      (auto simp: tus_update_def dest: tu_update_owner)
next
  case (TU_delete t' uid)
  then show "tu_inv d \<Longrightarrow> has_owner t d \<Longrightarrow> ?thesis"
    by (cases "tus_delete_check t' uid d") (auto simp: tus_delete_def dest: tu_delete_owner)
qed

interpretation tu_owner: invariant_system "\<lambda>d. tu_inv d \<and> has_owner t d" tu_step
  "\<lambda>d. tu_inv d \<and> has_owner t d" for t
  by unfold_locales (auto intro: tu_step_inv tu_step_owner)

section \<open>Properties\<close>

text \<open>C8. The last owner cannot be lost: from a database whose membership table satisfies its constraints
  and in which a tenant has an owner, every sequence of the service's operations (invitations, creations,
  claims, updates and removals, of any tenant, failing ones included), executed one after the other,
  leaves the tenant with an owner and the constraints intact.\<close>

theorem last_owner_kept:
  assumes "tu_inv d" and "has_owner t d"
  shows "tu_inv (fold tu_step ops d) \<and> has_owner t (fold tu_step ops d)"
  using tu_owner.run_inv [of d t ops] assms by simp

definition demo_tenant :: tenant where
  "demo_tenant = \<lparr>t_id = ''t1'', t_name = ''Acme'', t_slug = ''acme'', t_description = None,
     t_status = T_ACTIVE, t_config = [], t_createdAt = 1000, t_updatedAt = 1, t_deletedAt = None,
     t_deactivatedAt = None\<rparr>"

definition demo_user :: "string \<Rightarrow> tenant_user_role \<Rightarrow> micros \<Rightarrow> tenant_user" where
  "demo_user uid role created = \<lparr>u_id = uid, u_tenantId = ''t1'', u_externalUserId = Some (''kc-'' @ uid),
     u_email = uid @ ''@x.ca'', u_displayName = None, u_role = role, u_status = U_ACTIVE,
     u_createdAt = created, u_updatedAt = 1\<rparr>"

definition demo_db :: db where
  "demo_db = empty_db\<lparr>tenants := [demo_tenant],
     tenant_users := [demo_user ''a'' OWNER 1000, demo_user ''b'' OWNER 2000, demo_user ''c'' MEMBER 3000]\<rparr>"

lemma demo_db_inv: "tu_inv demo_db"
  by (simp add: tu_inv_def demo_db_def empty_db_def demo_user_def demo_tenant_def tbl_keys_def tu_unique_def
      tu_conflict_def)

theorem last_owner_kept_witness:
  "has_owner ''t1'' (fold tu_step [TU_delete ''t1'' ''a'', TU_delete ''t1'' ''b''] demo_db)"
proof -
  have "has_owner ''t1'' demo_db" by (simp add: has_owner_def demo_db_def empty_db_def demo_user_def)
  then show ?thesis using last_owner_kept [OF demo_db_inv] by blast
qed

text \<open>The owner check is not atomic: \<^verbatim>\<open>delete\<close> counts the owners and removes the row without a lock
  or a transaction around the two. In a tenant with exactly two owners, two removals whose checks both
  run before either write both succeed, and the tenant is left without an owner.\<close>

theorem concurrent_delete_loses_owners:
  assumes "tu_inv d" and "a \<in> set (tenant_users d)" and "b \<in> set (tenant_users d)" and "u_id a \<noteq> u_id b"
    and "\<forall>u\<in>set (tenant_users d). u_tenantId u = t \<and> u_role u = OWNER \<longleftrightarrow> u = a \<or> u = b"
  shows "tus_delete_check t (u_id a) d = Ok a \<and> tus_delete_check t (u_id b) d = Ok b
         \<and> \<not> has_owner t (tus_delete_write b (tus_delete_write a d))"
proof -
  have o: "u_tenantId a = t" "u_role a = OWNER" "u_tenantId b = t" "u_role b = OWNER"
    using assms(2,3,5) by auto
  have keys: "tbl_keys u_id (tenant_users d)" using assms(1) by (simp add: tu_inv_def)
  have "length (filter (\<lambda>u. u_tenantId u = t \<and> u_role u = OWNER) (tenant_users d)) > 1"
    by (rule length_filter_gt1 [OF assms(2,3)]) (use assms(4) o in auto)
  then have cnt: "countByTenantAndRole t OWNER d > 1" by (simp add: countByTenantAndRole_def)
  have find: "tu_findByTenantAndId t (u_id a) d = Some a" "tu_findByTenantAndId t (u_id b) d = Some b"
    using tu_scoped.find_complete [OF keys assms(2)] tu_scoped.find_complete [OF keys assms(3)] o
    by (simp_all add: tu_findByTenantAndId_def)
  have "\<not> has_owner t (tus_delete_write b (tus_delete_write a d))"
    using assms(5) by (auto simp: has_owner_iff tus_delete_write_def tu_delete_def set_tbl_delete)
  then show ?thesis using find cnt by (simp add: tus_delete_check_def)
qed

theorem concurrent_delete_loses_owners_witness:
  "\<not> has_owner ''t1'' (tus_delete_write (demo_user ''b'' OWNER 2000) (tus_delete_write (demo_user ''a'' OWNER 1000) demo_db))"
proof -
  have "demo_user ''a'' OWNER 1000 \<in> set (tenant_users demo_db)" "demo_user ''b'' OWNER 2000 \<in> set (tenant_users demo_db)"
    "u_id (demo_user ''a'' OWNER 1000) \<noteq> u_id (demo_user ''b'' OWNER 2000)"
    "\<forall>u\<in>set (tenant_users demo_db). u_tenantId u = ''t1'' \<and> u_role u = OWNER \<longleftrightarrow>
       u = demo_user ''a'' OWNER 1000 \<or> u = demo_user ''b'' OWNER 2000"
    by (simp_all add: demo_db_def empty_db_def demo_user_def)
  then show ?thesis using concurrent_delete_loses_owners [OF demo_db_inv] by blast
qed

text \<open>The last-owner guard looks at roles only: the only owner of a tenant can be disabled. The call
  succeeds whoever the caller is, the owner itself included, and afterwards the tenant has no owner that
  is active, although it still has one that counts as owner.\<close>

theorem disable_last_owner:
  assumes "tu_inv d" and "u \<in> set (tenant_users d)" and "u_tenantId u = t" and "u_role u = OWNER"
    and "\<forall>v\<in>set (tenant_users d). u_tenantId v = t \<and> u_role v = OWNER \<longrightarrow> v = u"
  shows "\<exists>v d'. tus_update now t (u_id u)
            \<lparr>utu_email = None, utu_displayName = None, utu_role = None, utu_status = Some U_DISABLED\<rparr> caller d = Ok (v, d')
          \<and> has_owner t d' \<and> \<not> (\<exists>w\<in>set (tenant_users d'). u_tenantId w = t \<and> u_role w = OWNER \<and> u_status w = U_ACTIVE)"
proof -
  let ?dto = "\<lparr>utu_email = None, utu_displayName = None, utu_role = None, utu_status = Some U_DISABLED\<rparr>"
  let ?v = "u\<lparr>u_status := U_DISABLED\<rparr>"
  have keys: "tbl_keys u_id (tenant_users d)" using assms(1) by (simp add: tu_inv_def)
  have "tu_findByTenantAndId t (u_id u) d = Some u"
    using tu_scoped.find_complete [OF keys assms(2)] assms(3) by (simp add: tu_findByTenantAndId_def)
  then have chk: "tus_update_check t (u_id u) ?dto caller d = Ok u" by (simp add: tus_update_check_def)
  have "\<not> tu_conflict w ?v" if "w \<in> set (tenant_users d)" "u_id w \<noteq> u_id u" for w
    using assms(1,2) that by (auto simp: tu_inv_def tu_unique_def tu_conflict_def)
  then have adm: "tu_admissible ?v d"
    using assms(1,2) by (auto simp: tu_admissible_def list_all_iff tu_inv_def)
  have upd: "update_fields ?dto u = ?v" by (simp add: update_fields_def)
  define d' where "d' = domain_audit_emit t A_UPDATE ''tenant_user'' (u_id u) []
    (d\<lparr>tenant_users := tbl_save u_id (?v\<lparr>u_updatedAt := now\<rparr>) (tenant_users d)\<rparr>)"
  have "tus_update now t (u_id u) ?dto caller d = Ok (?v\<lparr>u_updatedAt := now\<rparr>, d')"
    using chk adm upd assms(3) by (simp add: tus_update_def tus_update_write_def tu_update_def d'_def Let_def)
  moreover have users: "set (tenant_users d') = insert (?v\<lparr>u_updatedAt := now\<rparr>) {x \<in> set (tenant_users d). u_id x \<noteq> u_id u}"
    using set_tbl_save_keys [OF keys, of "?v\<lparr>u_updatedAt := now\<rparr>"] by (simp add: d'_def)
  ultimately show ?thesis using assms(3-5) unfolding has_owner_iff
    by (intro exI [of _ "?v\<lparr>u_updatedAt := now\<rparr>"] exI [of _ d'] conjI) auto
qed

theorem disable_last_owner_witness:
  "\<exists>v d'. tus_update 5 ''t1'' ''a''
     \<lparr>utu_email = None, utu_displayName = None, utu_role = None, utu_status = Some U_DISABLED\<rparr> (Some ''a'')
     (demo_db\<lparr>tenant_users := [demo_user ''a'' OWNER 1000]\<rparr>) = Ok (v, d') \<and> has_owner ''t1'' d'"
proof -
  let ?d = "demo_db\<lparr>tenant_users := [demo_user ''a'' OWNER 1000]\<rparr>" and ?u = "demo_user ''a'' OWNER 1000"
  have "tu_inv ?d" "?u \<in> set (tenant_users ?d)" "u_tenantId ?u = ''t1''" "u_role ?u = OWNER"
    "\<forall>v\<in>set (tenant_users ?d). u_tenantId v = ''t1'' \<and> u_role v = OWNER \<longrightarrow> v = ?u"
    by (simp_all add: tu_inv_def demo_db_def empty_db_def demo_user_def demo_tenant_def tbl_keys_def tu_unique_def
      tu_conflict_def)
  from disable_last_owner [OF this, of 5 "Some ''a''"] show ?thesis by (auto simp: demo_user_def)
qed

text \<open>Claiming an invitation. When exactly one invited, unlinked membership of the tenant has the
  e-mail (compared without case and surrounding white space) and the external user has none there yet, the
  claim links and activates that membership, keeps its role, and changes no other row; when there is none,
  nothing changes and no audit event is emitted.\<close>

theorem claim_invited_exact:
  assumes "tu_inv d" and "u \<in> set (tenant_users d)"
    and "filter (claimable t (to_lower (js_trim email))) (tenant_users d) = [u]"
    and "\<forall>v\<in>set (tenant_users d). u_tenantId v = t \<longrightarrow> u_externalUserId v \<noteq> Some ext"
  shows "\<exists>d'. tus_claimInvitedByEmail t email ext d = Ok (Some (claim_row ext u), d')
          \<and> set (tenant_users d') = insert (claim_row ext u) (set (tenant_users d) - {u})
          \<and> u_role (claim_row ext u) = u_role u"
proof -
  let ?p = "claimable t (to_lower (js_trim email))"
  let ?rows = "tbl_update ?p (claim_row ext) (tenant_users d)"
  have p: "?p u" "\<And>v. v \<in> set (tenant_users d) \<Longrightarrow> ?p v \<longleftrightarrow> v = u"
  proof -
    have "set (filter ?p (tenant_users d)) = {u}" using assms(3) by simp
    then show "?p u" "\<And>v. v \<in> set (tenant_users d) \<Longrightarrow> ?p v \<longleftrightarrow> v = u" by auto
  qed
  then have ut: "u_tenantId u = t" by (simp add: claimable_def)
  have rows: "set ?rows = insert (claim_row ext u) (set (tenant_users d) - {u})"
    using p assms(2) by (auto simp: set_tbl_update)
  have "\<not> list_ex (\<lambda>v. u_tenantId v = t \<and> u_externalUserId v = Some ext) (tenant_users d)"
    using assms(4) by (auto simp: list_ex_iff)
  moreover have "List.find (\<lambda>v. u_tenantId v = t \<and> u_externalUserId v = Some ext) ?rows = Some (claim_row ext u)"
  proof -
    have "List.find (\<lambda>v. u_tenantId v = t \<and> u_externalUserId v = Some ext) ?rows \<noteq> None"
      unfolding find_None_iff using rows ut by (metis claim_row_simps(2,5) insertI1)
    then obtain w where w: "List.find (\<lambda>v. u_tenantId v = t \<and> u_externalUserId v = Some ext) ?rows = Some w"
      by auto
    then have "w \<in> set ?rows" "u_tenantId w = t" "u_externalUserId w = Some ext"
      by (auto simp: find_Some_iff)
    then have "w = claim_row ext u" using rows assms(4) by auto
    then show ?thesis using w by simp
  qed
  ultimately have "tus_claimInvitedByEmail t email ext d = Ok (Some (claim_row ext u),
      domain_audit_emit t A_UPDATE ''tenant_user'' (u_id u) [] (d\<lparr>tenant_users := ?rows\<rparr>))"
    using assms(3) ut
    by (simp add: tus_claimInvitedByEmail_def tu_claimInvitedByEmail_def tu_findByTenantAndExternalUserId_def Let_def)
  then show ?thesis using rows by auto
qed

definition demo_invited :: tenant_user where
  "demo_invited = \<lparr>u_id = ''i'', u_tenantId = ''t1'', u_externalUserId = None, u_email = ''Ann@X.ca'',
     u_displayName = None, u_role = ADMIN, u_status = U_INVITED, u_createdAt = 4000, u_updatedAt = 1\<rparr>"

theorem claim_invited_exact_witness:
  "\<exists>d'. tus_claimInvitedByEmail ''t1'' '' ann@x.CA '' ''kc-9'' (demo_db\<lparr>tenant_users := [demo_invited]\<rparr>)
     = Ok (Some (claim_row ''kc-9'' demo_invited), d')"
proof -
  let ?d = "demo_db\<lparr>tenant_users := [demo_invited]\<rparr>"
  have e: "to_lower (js_trim '' ann@x.CA '') = ''ann@x.ca''" "to_lower ''Ann@X.ca'' = ''ann@x.ca''" by code_simp+
  have "tu_inv ?d" "demo_invited \<in> set (tenant_users ?d)"
    "filter (claimable ''t1'' (to_lower (js_trim '' ann@x.CA ''))) (tenant_users ?d) = [demo_invited]"
    "\<forall>v\<in>set (tenant_users ?d). u_tenantId v = ''t1'' \<longrightarrow> u_externalUserId v \<noteq> Some ''kc-9''"
    by (simp_all add: tu_inv_def demo_db_def empty_db_def demo_invited_def demo_tenant_def tbl_keys_def
        tu_unique_def tu_conflict_def claimable_def e)
  from claim_invited_exact [OF this] show ?thesis by blast
qed

text \<open>Listing tenant users. With a positive limit and creation times that are whole milliseconds, a
  client that follows \<^verbatim>\<open>next_cursor\<close> gets every user of the tenant exactly once, ordered by creation time
  and id, after at most one request per user and one more.\<close>

theorem tenant_user_listing_exact:
  assumes "tu_inv d" and "limit > 0"
    and "\<forall>u\<in>set (tenant_users d). u_tenantId u = t \<longrightarrow> u_createdAt u mod 1000 = 0"
  shows "follow (length (tenant_users d) + 1) (\<lambda>c. tus_list t (Some limit) c d) None
       = Some (sort_key tu_key (filter (\<lambda>u. u_tenantId u = t) (tenant_users d)))"
proof -
  let ?v = "filter (\<lambda>u. u_tenantId u = t) (tenant_users d)"
  have "distinct (map u_id ?v)" using assms(1) by (simp add: tu_inv_def tbl_keys_def distinct_map_filter)
  then have "distinct (map tu_key ?v)"
    by (auto simp: distinct_map tu_key_def inj_on_def)
  moreover have "\<forall>u\<in>set ?v. cursor_cut (tu_key u) = tu_key u"
    using assms(3) by (auto simp: tu_key_def intro!: cursor_cut_exact)
  moreover have "length (after_cursor tu_key None ?v) < length (tenant_users d) + 1"
    by (simp add: after_cursor_def le_imp_less_Suc)
  ultimately show ?thesis
    using tu_pages.follow_exact [OF assms(2), of t d None "length (tenant_users d) + 1"]
    by (simp add: tus_list_def after_cursor_def del: follow.simps)
qed

theorem tenant_user_listing_exact_witness:
  "follow 4 (\<lambda>c. tus_list ''t1'' (Some 2) c demo_db) None
     = Some (sort_key tu_key (filter (\<lambda>u. u_tenantId u = ''t1'') (tenant_users demo_db)))"
proof -
  have l: "length (tenant_users demo_db) + 1 = 4" by (simp add: demo_db_def)
  have "\<forall>u\<in>set (tenant_users demo_db). u_tenantId u = ''t1'' \<longrightarrow> u_createdAt u mod 1000 = 0"
    by (simp add: demo_db_def demo_user_def)
  from tenant_user_listing_exact [OF demo_db_inv, of 2 "''t1''", OF _ this] show ?thesis unfolding l by simp
qed

text \<open>With the microsecond timestamps the database really assigns the listing need not end: when the
  users of a first page were all created within one millisecond, not at its very start, and there are more
  users than the limit, the cursor of that page points before the page and every further request returns
  the same page again.\<close>

theorem tenant_user_listing_stuck:
  assumes "limit > 0" and "length (filter (\<lambda>u. u_tenantId u = t) (tenant_users d)) > limit"
    and "from_js_date (to_js_date (u_createdAt (sort_key tu_key (filter (\<lambda>u. u_tenantId u = t) (tenant_users d)) ! (limit - 1))))
          < u_createdAt (sort_key tu_key (filter (\<lambda>u. u_tenantId u = t) (tenant_users d)) ! 0)"
  shows "follow n (\<lambda>c. tus_list t (Some limit) c d) None = None"
proof -
  have "cursor_cut (tu_key (after_cursor tu_key None (filter (\<lambda>u. u_tenantId u = t) (tenant_users d)) ! (limit - 1)))
      < tu_key (after_cursor tu_key None (filter (\<lambda>u. u_tenantId u = t) (tenant_users d)) ! 0)"
    using assms(3) by (simp add: after_cursor_def tu_key_def cursor_cut_def less_prod_def')
  from tu_pages.follow_stuck [OF assms(1,2) this] show ?thesis by (simp add: tus_list_def)
qed

theorem tenant_user_listing_stuck_witness:
  "\<forall>n. follow n (\<lambda>c. tus_list ''t1'' (Some 1) c
     (demo_db\<lparr>tenant_users := [demo_user ''a'' OWNER 1500, demo_user ''b'' OWNER 2500]\<rparr>)) None = None"
proof
  fix n
  let ?d = "demo_db\<lparr>tenant_users := [demo_user ''a'' OWNER 1500, demo_user ''b'' OWNER 2500]\<rparr>"
  have s: "sort_key tu_key (filter (\<lambda>u. u_tenantId u = ''t1'') (tenant_users ?d))
      = [demo_user ''a'' OWNER 1500, demo_user ''b'' OWNER 2500]"
    by (simp add: demo_user_def tu_key_def less_eq_prod_def)
  show "follow n (\<lambda>c. tus_list ''t1'' (Some 1) c ?d) None = None"
    by (rule tenant_user_listing_stuck) (unfold s, simp_all add: demo_user_def from_js_date_def to_js_date_def)
qed

end
