(* ===== verification/Access.thy ===== *)
theory Access
  imports Tenant_User
begin

text \<open>
  Access control of a request. The guards of \<^verbatim>\<open>libs/auth\<close> (\<^verbatim>\<open>JwtGuard\<close>, \<^verbatim>\<open>ScopeGuard\<close>,
  \<^verbatim>\<open>TenantGuard\<close>), of \<^verbatim>\<open>tenant\<close> (\<^verbatim>\<open>TenantStatusGuard\<close> with \<^verbatim>\<open>assertTenantActive\<close>) and of
  \<^verbatim>\<open>tenant-user\<close> (\<^verbatim>\<open>TenantMembershipGuard\<close>), the claim checks of \<^verbatim>\<open>common/assert-tenant-access.ts\<close>, and
  the guard chains the controllers declare.

  A guard is a function from the request to a result: it throws, or lets the request pass, possibly
  with fields stamped on it.
\<close>

section \<open>Requests\<close>

record request =
  rq_authorization :: "string list"
  rq_paramTenantId :: "string option"
  rq_auth :: "auth_context option"
  rq_user :: "auth_context option"
  rq_client :: "auth_context option"
  rq_tenantId :: "string option"
  rq_callerTenantUser :: "tenant_user option"

text \<open>What the decorators of a route declare; \<^const>\<open>None\<close> where the decorator is absent.\<close>

record route_meta =
  rm_roles :: "string list option"
  rm_scopes :: "string list option"
  rm_tenantRoles :: "tenant_user_role list option"

definition missing_auth :: http_error where
  "missing_auth = AuthenticationRequired ''invalid_token'' ''Authenticated request context is missing''"

section \<open>JwtGuard\<close>

text \<open>\<open>rq_authorization\<close> lists the values of the header (none, one, or several).\<close>

definition JwtGuard ::
  "jose_lib \<Rightarrow> jwks_env \<Rightarrow> string \<Rightarrow> string \<Rightarrow> jwks_service \<Rightarrow> request \<Rightarrow> request result \<times> jwks_service" where
  "JwtGuard lib env issuer aud st rq =
     (let headerValue = (case rq_authorization rq of [] \<Rightarrow> None | h # _ \<Rightarrow> Some h) in
      case validateAuthorizationHeader lib env issuer aud st headerValue of
        (Inr auth, st') \<Rightarrow>
          (Ok (if ac_tokenType auth = UserToken
               then rq\<lparr>rq_auth := Some auth, rq_user := Some auth\<rparr>
               else rq\<lparr>rq_auth := Some auth, rq_client := Some auth\<rparr>), st')
      | (Inl (AuthenticationRequired k d), st') \<Rightarrow> (Err (AuthenticationRequired k d), st')
      | (Inl _, st') \<Rightarrow> (Err (invalid_token ''Token validation failed''), st'))"

section \<open>ScopeGuard\<close>

definition ScopeGuard :: "route_meta \<Rightarrow> request \<Rightarrow> request result" where
  "ScopeGuard meta rq =
     (case rq_auth rq of
        None \<Rightarrow> Err missing_auth
      | Some auth \<Rightarrow>
          if isPlatformAdmin (ac_roles auth) then Ok rq
          else
            let roles = (case rm_roles meta of None \<Rightarrow> [] | Some r \<Rightarrow> r);
                scopes = (case rm_scopes meta of None \<Rightarrow> [] | Some s \<Rightarrow> s)
            in if roles = [] \<and> scopes = [] then Ok rq
               else if roles \<noteq> [] \<and> \<not> hasRequiredRoles (ac_roles auth) roles
               then Err (InsufficientScope (''Token missing required role: '' @ js_join '', '' roles) [] roles)
               else if scopes \<noteq> [] \<and> \<not> hasRequiredScopes (ac_scopes auth) scopes
               then Err (InsufficientScope (''Token missing required scope: '' @ js_join '', '' scopes) scopes [])
               else Ok rq)"

section \<open>TenantGuard\<close>

definition resolveRouteTenantId :: "request \<Rightarrow> string option" where
  "resolveRouteTenantId rq =
     (case rq_paramTenantId rq of
        None \<Rightarrow> None
      | Some raw \<Rightarrow> let trimmed = js_trim raw in if trimmed \<noteq> [] then Some trimmed else None)"

definition TenantGuard :: "request \<Rightarrow> request result" where
  "TenantGuard rq =
     (case rq_auth rq of
        None \<Rightarrow> Err missing_auth
      | Some auth \<Rightarrow>
          (case resolveRouteTenantId rq of
             None \<Rightarrow> Ok rq
           | Some routeTenantId \<Rightarrow>
               if isPlatformAdmin (ac_roles auth) then Ok (rq\<lparr>rq_tenantId := Some routeTenantId\<rparr>)
               else (case ac_tenantId auth of
                   None \<Rightarrow> Err (TenantAccessDenied ''Token is missing a tenant_id claim'' (Some routeTenantId) (Some None))
                 | Some tokenTenant \<Rightarrow>
                     if tokenTenant = []
                     then Err (TenantAccessDenied ''Token is missing a tenant_id claim'' (Some routeTenantId) (Some None))
                     else if tokenTenant \<noteq> routeTenantId
                     then Err (TenantAccessDenied ''Token tenant_id does not match the requested tenant''
                                 (Some routeTenantId) (Some (Some tokenTenant)))
                     else Ok (rq\<lparr>rq_tenantId := Some routeTenantId\<rparr>))))"

section \<open>Claim checks inside services\<close>

definition assertTenantAccess :: "auth_context option \<Rightarrow> string \<Rightarrow> unit result" where
  "assertTenantAccess auth tenantId =
     (case auth of
        None \<Rightarrow> Err (TenantAccessDenied ''Authenticated request context is missing'' (Some tenantId) (Some None))
      | Some a \<Rightarrow>
          if PLATFORM_ADMIN_ROLE \<in> set (ac_roles a) then Ok ()
          else (case ac_tenantId a of
              None \<Rightarrow> Err (TenantAccessDenied ''Token is missing a tenant_id claim'' (Some tenantId) (Some None))
            | Some t \<Rightarrow>
                if t = [] then Err (TenantAccessDenied ''Token is missing a tenant_id claim'' (Some tenantId) (Some None))
                else if t \<noteq> tenantId
                then Err (TenantAccessDenied ''Token tenant_id does not match the requested tenant''
                            (Some tenantId) (Some (Some t)))
                else Ok ()))"

definition assertResourceTenantOrNotFound :: "auth_context option \<Rightarrow> string \<Rightarrow> string \<Rightarrow> unit result" where
  "assertResourceTenantOrNotFound auth resourceTenantId notFoundMessage =
     (case auth of
        None \<Rightarrow> Err (NotFound notFoundMessage)
      | Some a \<Rightarrow>
          if PLATFORM_ADMIN_ROLE \<in> set (ac_roles a) then Ok ()
          else (case ac_tenantId a of
              None \<Rightarrow> Err (NotFound notFoundMessage)
            | Some t \<Rightarrow> if t = [] \<or> t \<noteq> resourceTenantId then Err (NotFound notFoundMessage) else Ok ()))"

definition auth_isPlatformAdmin :: "auth_context option \<Rightarrow> bool" where
  "auth_isPlatformAdmin auth = (case auth of None \<Rightarrow> False | Some a \<Rightarrow> PLATFORM_ADMIN_ROLE \<in> set (ac_roles a))"

section \<open>TenantStatusGuard\<close>

definition assertTenantActive :: "tenant option \<Rightarrow> tenant result" where
  "assertTenantActive tn =
     (case tn of
        None \<Rightarrow> Err (TenantNotActive ''Tenant could not be found and cannot perform this action''
                      (tenant_status_str T_DEACTIVATED))
      | Some t \<Rightarrow>
          if t_status t \<noteq> T_ACTIVE
          then Err (TenantNotActive (''Tenant is '' @ tenant_status_str (t_status t) @ '' and cannot perform this action'')
                      (tenant_status_str (t_status t)))
          else Ok t)"

text \<open>\<^verbatim>\<open>TenantRepository.findById\<close>: soft-deleted rows are invisible.\<close>

definition tn_findById :: "string \<Rightarrow> db \<Rightarrow> tenant option" where
  "tn_findById tid d = List.find (\<lambda>t. t_id t = tid \<and> t_deletedAt t = None) (tenants d)"

definition TenantStatusGuard :: "db \<Rightarrow> request \<Rightarrow> request result" where
  "TenantStatusGuard d rq =
     (case rq_auth rq of
        None \<Rightarrow> Err missing_auth
      | Some auth \<Rightarrow>
          if isPlatformAdmin (ac_roles auth) then Ok rq
          else (case ac_tenantId auth of
              None \<Rightarrow> Ok rq
            | Some t \<Rightarrow>
                if t = [] then Ok rq
                else rbind (assertTenantActive (tn_findById t d)) (\<lambda>_. Ok rq)))"

section \<open>TenantMembershipGuard\<close>

definition TenantMembershipGuard :: "route_meta \<Rightarrow> db \<Rightarrow> request \<Rightarrow> request result" where
  "TenantMembershipGuard meta d rq =
     (case rq_auth rq of
        None \<Rightarrow> Err missing_auth
      | Some auth \<Rightarrow>
          if isPlatformAdmin (ac_roles auth) then Ok rq
          else
            let roles = (case rm_tenantRoles meta of None \<Rightarrow> [] | Some r \<Rightarrow> r) in
            if roles = [] then Ok rq
            else (case resolveRouteTenantId rq of
                None \<Rightarrow> Ok rq
              | Some tenantId \<Rightarrow>
                  (case tu_findByTenantAndExternalUserId tenantId (ac_sub auth) d of
                     None \<Rightarrow> Err (InsufficientTenantRole
                        ''Caller does not have a sufficient tenant role for this action'' (map role_str roles))
                   | Some caller \<Rightarrow>
                       if u_status caller \<noteq> U_ACTIVE \<or> u_role caller \<notin> set roles
                       then Err (InsufficientTenantRole
                          ''Caller does not have a sufficient tenant role for this action'' (map role_str roles))
                       else Ok (rq\<lparr>rq_callerTenantUser := Some caller\<rparr>))))"

section \<open>Guard chains\<close>

text \<open>The guards after \<open>JwtGuard\<close>, in the order of the \<^verbatim>\<open>@UseGuards\<close> lists of the tenant-scoped
  controllers and of the tenant-user controller.\<close>

definition tenant_route :: "route_meta \<Rightarrow> db \<Rightarrow> request \<Rightarrow> request result" where
  "tenant_route meta d rq =
     rbind (ScopeGuard meta rq) (\<lambda>rq. rbind (TenantGuard rq) (TenantStatusGuard d))"

definition tenant_user_route :: "route_meta \<Rightarrow> db \<Rightarrow> request \<Rightarrow> request result" where
  "tenant_user_route meta d rq = rbind (tenant_route meta d rq) (TenantMembershipGuard meta d)"

section \<open>Facts\<close>

lemma isPlatformAdmin_iff [simp]: "isPlatformAdmin roles \<longleftrightarrow> PLATFORM_ADMIN_ROLE \<in> set roles"
  by (simp add: isPlatformAdmin_def)

lemma assertTenantAccess_ok:
  "assertTenantAccess (Some a) t = Ok () \<longleftrightarrow>
     PLATFORM_ADMIN_ROLE \<in> set (ac_roles a) \<or> (ac_tenantId a = Some t \<and> t \<noteq> [])"
  by (auto simp: assertTenantAccess_def split: option.splits)

lemma assertTenantAccess_None [simp]: "assertTenantAccess None t \<noteq> Inr ()"
  by (simp add: assertTenantAccess_def)

lemma assertResourceTenant_ok:
  "assertResourceTenantOrNotFound (Some a) t m = Ok () \<longleftrightarrow>
     PLATFORM_ADMIN_ROLE \<in> set (ac_roles a) \<or> (ac_tenantId a = Some t \<and> t \<noteq> [])"
  by (auto simp: assertResourceTenantOrNotFound_def split: option.splits)

lemma assertResourceTenant_Err:
  "assertResourceTenantOrNotFound auth t m = Inl e \<Longrightarrow> e = NotFound m"
  by (auto simp: assertResourceTenantOrNotFound_def split: option.splits if_splits)

lemma assertTenantActive_ok: "assertTenantActive tn = Ok t \<longleftrightarrow> tn = Some t \<and> t_status t = T_ACTIVE"
  by (auto simp: assertTenantActive_def split: option.splits)

lemma ScopeGuard_Ok:
  "ScopeGuard meta rq = Ok rq' \<Longrightarrow> rq' = rq \<and> (\<exists>auth. rq_auth rq = Some auth \<and>
     (PLATFORM_ADMIN_ROLE \<in> set (ac_roles auth) \<or>
      (set (case rm_roles meta of None \<Rightarrow> [] | Some r \<Rightarrow> r) \<subseteq> set (ac_roles auth)
       \<and> set (case rm_scopes meta of None \<Rightarrow> [] | Some s \<Rightarrow> s) \<subseteq> expandEffectiveScopes (ac_scopes auth))))"
  by (auto simp: ScopeGuard_def Let_def hasRequiredRoles_iff hasRequiredScopes_iff
      split: option.splits if_splits)

lemma TenantGuard_Ok:
  "TenantGuard rq = Ok rq' \<Longrightarrow> rq_auth rq' = rq_auth rq \<and> rq_paramTenantId rq' = rq_paramTenantId rq \<and>
     (\<forall>t. resolveRouteTenantId rq = Some t \<longrightarrow> rq_tenantId rq' = Some t \<and>
       (\<exists>auth. rq_auth rq = Some auth \<and>
         (PLATFORM_ADMIN_ROLE \<in> set (ac_roles auth) \<or> ac_tenantId auth = Some t)))"
  by (auto simp: TenantGuard_def split: option.splits if_splits)

lemma TenantStatusGuard_Ok:
  "TenantStatusGuard d rq = Ok rq' \<Longrightarrow> rq' = rq \<and> (\<exists>auth. rq_auth rq = Some auth \<and>
     (PLATFORM_ADMIN_ROLE \<in> set (ac_roles auth) \<or>
      (\<forall>t. ac_tenantId auth = Some t \<longrightarrow> t \<noteq> [] \<longrightarrow> (\<exists>tn. tn_findById t d = Some tn \<and> t_status tn = T_ACTIVE))))"
  by (auto simp: TenantStatusGuard_def rbind_eq_Inr assertTenantActive_ok split: option.splits if_splits)

lemma tn_findById_Some: "tn_findById t d = Some tn \<Longrightarrow> tn \<in> set (tenants d) \<and> t_id tn = t \<and> t_deletedAt tn = None"
  unfolding tn_findById_def by (auto simp: find_Some_iff)

lemma resolveRoute_nonempty: "resolveRouteTenantId rq = Some t \<Longrightarrow> t \<noteq> []"
  by (auto simp: resolveRouteTenantId_def Let_def split: option.splits if_splits)

lemma tu_findByTenantAndExternalUserId_Some:
  "tu_findByTenantAndExternalUserId t ext d = Some u \<Longrightarrow>
     u \<in> set (tenant_users d) \<and> u_tenantId u = t \<and> u_externalUserId u = Some ext"
  unfolding tu_findByTenantAndExternalUserId_def by (auto simp: find_Some_iff)

section \<open>Properties\<close>

text \<open>C4. Tenant isolation of the tenant-scoped routes. When the guard chain of such a route lets a
  request for tenant \<open>t\<close> pass and the caller is not a platform administrator, then the caller's token is
  issued for exactly this tenant, the token's roles and effective scopes cover what the route declares,
  the tenant exists, is not soft-deleted and is active, and the request is stamped with this tenant.\<close>

theorem tenant_route_isolation:
  assumes "tenant_route meta d rq = Ok rq'" and "resolveRouteTenantId rq = Some t"
    and "rq_auth rq = Some auth" and "PLATFORM_ADMIN_ROLE \<notin> set (ac_roles auth)"
  shows "ac_tenantId auth = Some t \<and> rq_tenantId rq' = Some t
       \<and> set (case rm_roles meta of None \<Rightarrow> [] | Some r \<Rightarrow> r) \<subseteq> set (ac_roles auth)
       \<and> set (case rm_scopes meta of None \<Rightarrow> [] | Some s \<Rightarrow> s) \<subseteq> expandEffectiveScopes (ac_scopes auth)
       \<and> (\<exists>tn\<in>set (tenants d). t_id tn = t \<and> t_deletedAt tn = None \<and> t_status tn = T_ACTIVE)"
proof -
  obtain rq1 rq2 where g: "ScopeGuard meta rq = Ok rq1" "TenantGuard rq1 = Ok rq2" "TenantStatusGuard d rq2 = Ok rq'"
    using assms(1) by (auto simp: tenant_route_def rbind_eq_Inr)
  have 1: "rq1 = rq" using ScopeGuard_Ok [OF g(1)] by simp
  have ten: "ac_tenantId auth = Some t" "rq_tenantId rq2 = Some t" "rq_auth rq2 = Some auth"
    using TenantGuard_Ok [OF g(2)] 1 assms(2-4) by auto
  have "t \<noteq> []" using resolveRoute_nonempty [OF assms(2)] .
  then obtain tn where "tn_findById t d = Some tn" "t_status tn = T_ACTIVE"
    using TenantStatusGuard_Ok [OF g(3)] ten assms(4) by auto
  then show ?thesis
    using ten ScopeGuard_Ok [OF g(1)] TenantStatusGuard_Ok [OF g(3)] assms(3,4) by (auto dest: tn_findById_Some)
qed

definition demo_auth :: auth_context where
  "demo_auth = \<lparr>ac_sub = ''kc-a'', ac_tokenType = UserToken, ac_clientId = Some ''spa'', ac_tenantId = Some ''t1'',
     ac_roles = [], ac_scope = ''tenants:admin'', ac_scopes = [''tenants:admin''], ac_iss = ''iss'',
     ac_aud = AudOne ''api'', ac_exp = 10, ac_iat = 1, ac_jti = None\<rparr>"

definition demo_request :: request where
  "demo_request = \<lparr>rq_authorization = [], rq_paramTenantId = Some '' t1 '', rq_auth = Some demo_auth,
     rq_user = Some demo_auth, rq_client = None, rq_tenantId = None, rq_callerTenantUser = None\<rparr>"

definition demo_route :: route_meta where
  "demo_route = \<lparr>rm_roles = None, rm_scopes = Some [''users:manage''], rm_tenantRoles = Some [OWNER, ADMIN]\<rparr>"

lemma demo_route_passes:
  "tenant_route demo_route demo_db demo_request = Ok (demo_request\<lparr>rq_tenantId := Some ''t1''\<rparr>)"
  "resolveRouteTenantId demo_request = Some ''t1''"
  "tenant_user_route demo_route demo_db demo_request =
     Ok (demo_request\<lparr>rq_tenantId := Some ''t1'', rq_callerTenantUser := Some (demo_user ''a'' OWNER 1000)\<rparr>)"
  by code_simp+

theorem tenant_route_isolation_witness:
  "ac_tenantId demo_auth = Some ''t1'' \<and> PLATFORM_ADMIN_ROLE \<notin> set (ac_roles demo_auth)
   \<and> (\<exists>tn\<in>set (tenants demo_db). t_id tn = ''t1'' \<and> t_status tn = T_ACTIVE)"
proof -
  have a: "rq_auth demo_request = Some demo_auth" "PLATFORM_ADMIN_ROLE \<notin> set (ac_roles demo_auth)"
    by (simp_all add: demo_request_def demo_auth_def)
  from tenant_route_isolation [OF demo_route_passes(1,2) a] a show ?thesis by auto
qed

text \<open>C5. Role gate of the tenant-user routes. When the chain with \<^verbatim>\<open>TenantMembershipGuard\<close> lets a
  request of a caller that is not a platform administrator pass and the route demands tenant roles, then
  the caller has an active membership in the route's tenant with one of these roles, and that membership
  is the one handed to the handler.\<close>

theorem tenant_user_route_role:
  assumes "tenant_user_route meta d rq = Ok rq'" and "resolveRouteTenantId rq = Some t"
    and "rq_auth rq = Some auth" and "PLATFORM_ADMIN_ROLE \<notin> set (ac_roles auth)"
    and "rm_tenantRoles meta = Some roles" and "roles \<noteq> []"
  shows "\<exists>u\<in>set (tenant_users d). u_tenantId u = t \<and> u_externalUserId u = Some (ac_sub auth)
           \<and> u_status u = U_ACTIVE \<and> u_role u \<in> set roles \<and> rq_callerTenantUser rq' = Some u"
proof -
  obtain rq1 rq2 rq3 where g: "ScopeGuard meta rq = Ok rq1" "TenantGuard rq1 = Ok rq2"
    "TenantStatusGuard d rq2 = Ok rq3" "TenantMembershipGuard meta d rq3 = Ok rq'"
    using assms(1) by (auto simp: tenant_user_route_def tenant_route_def rbind_eq_Inr)
  have "rq1 = rq" using ScopeGuard_Ok [OF g(1)] by simp
  moreover have "rq_auth rq2 = Some auth" "rq_paramTenantId rq2 = rq_paramTenantId rq"
    using TenantGuard_Ok [OF g(2)] assms(3) calculation by auto
  moreover have "rq3 = rq2" using TenantStatusGuard_Ok [OF g(3)] by simp
  ultimately have 3: "rq_auth rq3 = Some auth" "resolveRouteTenantId rq3 = Some t"
    using assms(2) by (auto simp: resolveRouteTenantId_def)
  then show ?thesis
    using g(4) assms(4-6)
    by (auto simp: TenantMembershipGuard_def Let_def split: option.splits if_splits
        dest!: tu_findByTenantAndExternalUserId_Some)
qed

theorem tenant_user_route_role_witness:
  "\<exists>u\<in>set (tenant_users demo_db). u_tenantId u = ''t1'' \<and> u_externalUserId u = Some (ac_sub demo_auth)
     \<and> u_role u \<in> {OWNER, ADMIN}"
proof -
  have a: "rq_auth demo_request = Some demo_auth" "PLATFORM_ADMIN_ROLE \<notin> set (ac_roles demo_auth)"
    "rm_tenantRoles demo_route = Some [OWNER, ADMIN]" "[OWNER, ADMIN] \<noteq> []"
    by (simp_all add: demo_request_def demo_auth_def demo_route_def)
  from tenant_user_route_role [OF demo_route_passes(3,2) a] show ?thesis by auto
qed

text \<open>No probing of other tenants' resources: after a resource was loaded by id, the claim check
  passes exactly for platform administrators and for tokens of the resource's tenant, and otherwise fails
  with the very error that a missing resource gives.\<close>

theorem assertResourceTenant_hides:
  "assertResourceTenantOrNotFound auth t m =
     (if auth_isPlatformAdmin auth \<or> (\<exists>a. auth = Some a \<and> ac_tenantId a = Some t \<and> t \<noteq> [])
      then Ok () else Err (NotFound m))"
  by (auto simp: assertResourceTenantOrNotFound_def auth_isPlatformAdmin_def split: option.splits)

end
