(* ===== verification/OAuth_Client.thy ===== *)
theory OAuth_Client
  imports Access
begin

text \<open>
  \<^verbatim>\<open>oauth-client\<close>: registration and life cycle of API clients, the bulk revocation and restoration that
  the tenant life cycle triggers, and the lookup port that the OIDC provider uses. The table constraints
  (primary key, unique \<^verbatim>\<open>client_id\<close>, foreign key, and the check that exactly the public clients have no
  secret) are part of the model.

  Parameters: \<open>argon_hash salt secret\<close> and \<open>argon_verify hash secret\<close> of the \<^verbatim>\<open>argon2\<close> package, and the
  random values of a call (\<open>newid\<close>, \<open>clientId\<close>, \<open>secret\<close>, \<open>salt\<close>).
\<close>

section \<open>Configuration and repository\<close>

record oidc_cfg =
  cfg_grantTypes :: "string list"
  cfg_scopes :: "string list"

record argon2 =
  argon_hash :: "string \<Rightarrow> string \<Rightarrow> string"
  argon_verify :: "string \<Rightarrow> string \<Rightarrow> bool"

definition MACHINE_GRANT_TYPE :: string where
  "MACHINE_GRANT_TYPE = ''client_credentials''"

definition OAUTH_CLIENT_ID_PREFIX :: string where
  "OAUTH_CLIENT_ID_PREFIX = ''dtcs_''"

definition oc_findById :: "string \<Rightarrow> db \<Rightarrow> oauth_client option" where
  "oc_findById cid d = tbl_find oc_id cid (oauth_clients d)"

definition oc_findByClientId :: "string \<Rightarrow> db \<Rightarrow> oauth_client option" where
  "oc_findByClientId clientId d = tbl_find oc_clientId clientId (oauth_clients d)"

definition oc_findByTenant :: "string \<Rightarrow> db \<Rightarrow> oauth_client list" where
  "oc_findByTenant tenantId d = sort_key oc_createdAt (filter (\<lambda>c. oc_tenantId c = tenantId) (oauth_clients d))"

definition oc_rows_findByTenantAndClientId :: "string \<Rightarrow> string \<Rightarrow> oauth_client list \<Rightarrow> oauth_client option" where
  "oc_rows_findByTenantAndClientId tenantId clientId rows =
     List.find (\<lambda>c. oc_clientId c = clientId \<and> oc_tenantId c = tenantId) rows"

definition oc_findByTenantAndClientId :: "string \<Rightarrow> string \<Rightarrow> db \<Rightarrow> oauth_client option" where
  "oc_findByTenantAndClientId tenantId clientId d = oc_rows_findByTenantAndClientId tenantId clientId (oauth_clients d)"

text \<open>\<^verbatim>\<open>chk_oauth_client_secret_matches_kind\<close>, the unique client id and the foreign key.\<close>

definition secret_matches_kind :: "oauth_client \<Rightarrow> bool" where
  "secret_matches_kind c = (oc_isPublic c = (oc_clientSecretHash c = None))"

definition oc_admissible :: "oauth_client \<Rightarrow> db \<Rightarrow> bool" where
  "oc_admissible c d =
     (secret_matches_kind c \<and> oc_tenantId c \<in> t_id ` set (tenants d)
      \<and> list_all (\<lambda>x. oc_id x = oc_id c \<or> oc_clientId x \<noteq> oc_clientId c) (oauth_clients d))"

definition oc_create :: "oauth_client \<Rightarrow> db \<Rightarrow> db option" where
  "oc_create c d =
     (if oc_admissible c d
      then map_option (\<lambda>rows. d\<lparr>oauth_clients := rows\<rparr>) (tbl_insert oc_id c (oauth_clients d))
      else None)"

definition oc_update :: "oauth_client \<Rightarrow> db \<Rightarrow> db option" where
  "oc_update c d =
     (if oc_admissible c d then Some (d\<lparr>oauth_clients := tbl_save oc_id c (oauth_clients d)\<rparr>) else None)"

definition oc_revoke :: "time \<Rightarrow> string \<Rightarrow> db \<Rightarrow> db" where
  "oc_revoke now cid d =
     d\<lparr>oauth_clients := tbl_update (\<lambda>c. oc_id c = cid)
         (\<lambda>c. c\<lparr>oc_revokedAt := Some now, oc_revokedReason := None\<rparr>) (oauth_clients d)\<rparr>"

definition oc_revokeAllForTenant :: "time \<Rightarrow> string \<Rightarrow> db \<Rightarrow> nat \<times> db" where
  "oc_revokeAllForTenant now tenantId d =
     (let p = (\<lambda>c. oc_tenantId c = tenantId \<and> oc_revokedAt c = None) in
      (length (filter p (oauth_clients d)),
       d\<lparr>oauth_clients := tbl_update p
           (\<lambda>c. c\<lparr>oc_revokedAt := Some now, oc_revokedReason := Some TENANT_DEACTIVATION\<rparr>) (oauth_clients d)\<rparr>))"

definition oc_restoreAllForTenant :: "string \<Rightarrow> db \<Rightarrow> nat \<times> db" where
  "oc_restoreAllForTenant tenantId d =
     (let p = (\<lambda>c. oc_tenantId c = tenantId \<and> oc_revokedReason c = Some TENANT_DEACTIVATION) in
      (length (filter p (oauth_clients d)),
       d\<lparr>oauth_clients := tbl_update p
           (\<lambda>c. c\<lparr>oc_revokedAt := None, oc_revokedReason := None\<rparr>) (oauth_clients d)\<rparr>))"

section \<open>Checks of the service\<close>

definition requireCaller :: "auth_context option \<Rightarrow> auth_context result" where
  "requireCaller auth = (case auth of None \<Rightarrow> Err missing_auth | Some a \<Rightarrow> Ok a)"

definition requireTenantClient :: "string \<Rightarrow> string \<Rightarrow> bool \<Rightarrow> db \<Rightarrow> oauth_client result" where
  "requireTenantClient tenantId clientId active d =
     (case oc_findByTenantAndClientId tenantId clientId d of
        None \<Rightarrow> Err (NotFound (''OAuth client '' @ quoted clientId @ '' was not found.''))
      | Some c \<Rightarrow>
          if active \<and> oc_revokedAt c \<noteq> None
          then Err (NotFound (''OAuth client '' @ quoted clientId @ '' was not found.''))
          else Ok c)"

definition assertSupportedGrantTypes :: "oidc_cfg \<Rightarrow> string list option \<Rightarrow> unit result" where
  "assertSupportedGrantTypes cfg grantTypes =
     (case grantTypes of
        None \<Rightarrow> Ok ()
      | Some gs \<Rightarrow>
          let unsupported = filter (\<lambda>g. g \<notin> set (cfg_grantTypes cfg)) gs in
          if unsupported \<noteq> []
          then Err (BadRequest (''Unsupported grant type(s): '' @ js_join '', '' unsupported @
                 ''. Supported grant type(s): '' @ js_join '', '' (cfg_grantTypes cfg) @ ''.''))
          else Ok ())"

definition hasPlatformRole :: "string list \<Rightarrow> bool" where
  "hasPlatformRole roles = list_ex (\<lambda>role. role \<in> set OAUTH_CLIENT_PLATFORM_ROLES) roles"

definition assertRoleConstraints ::
  "string list \<Rightarrow> string list \<Rightarrow> auth_context \<Rightarrow> bool \<Rightarrow> string list \<Rightarrow> unit result" where
  "assertRoleConstraints roles grantTypes caller checkAssignment previousRoles =
     (let unknown = filter (\<lambda>role. role \<notin> set OAUTH_CLIENT_ALLOWED_ROLES) roles in
      if unknown \<noteq> []
      then Err (BadRequest (''Unsupported role(s): '' @ js_join '', '' unknown @ ''. Allowed role(s): '' @
             js_join '', '' OAUTH_CLIENT_ALLOWED_ROLES @ ''.''))
      else if checkAssignment \<and> hasPlatformRole previousRoles \<noteq> hasPlatformRole roles
              \<and> \<not> isPlatformAdmin (ac_roles caller)
      then Err (Forbidden ''Only platform-admin callers may assign or clear platform-level roles on OAuth clients.'')
      else if roles = [] then Ok ()
      else if remdups grantTypes \<noteq> [MACHINE_GRANT_TYPE]
      then Err (BadRequest (''Roles may only be assigned to clients restricted to the '' @ MACHINE_GRANT_TYPE @ '' grant.''))
      else Ok ())"

definition assertAssignableScopes :: "oidc_cfg \<Rightarrow> string list \<Rightarrow> auth_context \<Rightarrow> unit result" where
  "assertAssignableScopes cfg scopes caller =
     (if scopes = [] then Err (BadRequest ''At least one scope is required.'')
      else
        let configured = set (cfg_scopes cfg);
            allowed = filter (\<lambda>s. s \<in> configured) ASSIGNABLE_OAUTH_CLIENT_SCOPES;
            denied = deniedScopes (partitionRequestedScopes
              \<lparr>requestedScopes = scopes, allowedScopes = set allowed,
               actorScopes = expandEffectiveScopes (ac_scopes caller),
               pi_isPlatformAdmin = isPlatformAdmin (ac_roles caller)\<rparr>);
            unknown = filter (\<lambda>s. s \<notin> set ASSIGNABLE_OAUTH_CLIENT_SCOPES) denied;
            notConfigured = filter (\<lambda>s. s \<notin> configured) denied
        in if denied = [] then Ok ()
           else if unknown \<noteq> []
           then Err (BadRequest (''Unsupported scope(s): '' @ js_join '', '' unknown @ ''. Allowed scope(s): '' @
                  js_join '', '' ASSIGNABLE_OAUTH_CLIENT_SCOPES @ ''.''))
           else if notConfigured \<noteq> []
           then Err (BadRequest (''Scope(s) not enabled on this deployment: '' @ js_join '', '' notConfigured @ ''.''))
           else Err (Forbidden (''Cannot assign scope(s) not held by the caller: '' @ js_join '', '' denied @ ''.'')))"

section \<open>OAuthClientService\<close>

record create_oc_dto =
  coc_name :: string
  coc_scopes :: "string list"
  coc_roles :: "string list option"
  coc_redirectUris :: "string list option"
  coc_grantTypes :: "string list option"
  coc_refreshTokenTtlSeconds :: "int option"

text \<open>In an update the refresh token TTL may be absent, \<^verbatim>\<open>null\<close> or a number.\<close>

record update_oc_dto =
  uoc_name :: "string option"
  uoc_scopes :: "string list option"
  uoc_roles :: "string list option"
  uoc_redirectUris :: "string list option"
  uoc_grantTypes :: "string list option"
  uoc_refreshTokenTtlSeconds :: "int option option"

definition createClient ::
  "oidc_cfg \<Rightarrow> argon2 \<Rightarrow> string \<Rightarrow> string \<Rightarrow> string \<Rightarrow> string \<Rightarrow> micros \<Rightarrow> string \<Rightarrow> create_oc_dto \<Rightarrow> auth_context option \<Rightarrow> db
     \<Rightarrow> ((oauth_client \<times> string) \<times> db) result" where
  "createClient cfg argon newid randomHex secret salt created tenantId dto auth d =
     rbind (requireCaller auth) (\<lambda>caller.
       let grantTypes = (case coc_grantTypes dto of None \<Rightarrow> [MACHINE_GRANT_TYPE] | Some g \<Rightarrow> g);
           roles = (case coc_roles dto of None \<Rightarrow> [] | Some r \<Rightarrow> r)
       in rbind (assertSupportedGrantTypes cfg (Some grantTypes)) (\<lambda>_.
          rbind (assertRoleConstraints roles grantTypes caller (coc_roles dto \<noteq> None) []) (\<lambda>_.
          rbind (assertAssignableScopes cfg (coc_scopes dto) caller) (\<lambda>_.
            let c = \<lparr>oc_id = newid, oc_tenantId = tenantId, oc_clientId = OAUTH_CLIENT_ID_PREFIX @ randomHex,
                     oc_clientSecretHash = Some (argon_hash argon salt secret), oc_isPublic = False,
                     oc_name = coc_name dto, oc_scopes = coc_scopes dto, oc_roles = roles,
                     oc_redirectUris = (case coc_redirectUris dto of None \<Rightarrow> [] | Some u \<Rightarrow> u),
                     oc_postLogoutRedirectUris = [], oc_grantTypes = grantTypes,
                     oc_createdBy = (if ac_tokenType caller = UserToken then Some (ac_sub caller) else None),
                     oc_createdAt = created, oc_refreshTokenTtlSeconds = coc_refreshTokenTtlSeconds dto,
                     oc_revokedAt = None, oc_revokedReason = None\<rparr>
            in case oc_create c d of
                 None \<Rightarrow> Err db_error
               | Some d' \<Rightarrow> Ok ((c, secret), d')))))"

definition ocs_findByClientId :: "string \<Rightarrow> db \<Rightarrow> oauth_client result" where
  "ocs_findByClientId clientId d =
     (case oc_findByClientId clientId d of
        None \<Rightarrow> Err (NotFound (''OAuth client with ID '' @ quoted clientId @ '' was not found.''))
      | Some c \<Rightarrow> Ok c)"

definition ocs_update ::
  "oidc_cfg \<Rightarrow> string \<Rightarrow> string \<Rightarrow> update_oc_dto \<Rightarrow> auth_context option \<Rightarrow> db \<Rightarrow> (oauth_client \<times> db) result" where
  "ocs_update cfg tenantId clientId dto auth d =
     rbind (requireCaller auth) (\<lambda>caller.
     rbind (assertSupportedGrantTypes cfg (uoc_grantTypes dto)) (\<lambda>_.
     rbind (requireTenantClient tenantId clientId True d) (\<lambda>client.
       let nextRoles = (case uoc_roles dto of None \<Rightarrow> oc_roles client | Some r \<Rightarrow> r);
           nextGrantTypes = (case uoc_grantTypes dto of None \<Rightarrow> oc_grantTypes client | Some g \<Rightarrow> g)
       in rbind (assertRoleConstraints nextRoles nextGrantTypes caller (uoc_roles dto \<noteq> None) (oc_roles client)) (\<lambda>_.
          rbind (case uoc_scopes dto of None \<Rightarrow> Ok () | Some s \<Rightarrow> assertAssignableScopes cfg s caller) (\<lambda>_.
            let c = client\<lparr>oc_name := (case uoc_name dto of None \<Rightarrow> oc_name client | Some n \<Rightarrow> n),
                           oc_scopes := (case uoc_scopes dto of None \<Rightarrow> oc_scopes client | Some s \<Rightarrow> s),
                           oc_roles := nextRoles,
                           oc_redirectUris := (case uoc_redirectUris dto of None \<Rightarrow> oc_redirectUris client | Some u \<Rightarrow> u),
                           oc_grantTypes := nextGrantTypes,
                           oc_refreshTokenTtlSeconds := (case uoc_refreshTokenTtlSeconds dto of
                              None \<Rightarrow> oc_refreshTokenTtlSeconds client | Some t \<Rightarrow> t)\<rparr>
            in case oc_update c d of
                 None \<Rightarrow> Err db_error
               | Some d' \<Rightarrow> Ok (c, d'))))))"

definition revokeClient :: "time \<Rightarrow> string \<Rightarrow> string \<Rightarrow> db \<Rightarrow> (unit \<times> db) result" where
  "revokeClient now tenantId clientId d =
     rbind (requireTenantClient tenantId clientId False d) (\<lambda>client.
       if oc_revokedAt client \<noteq> None then Ok ((), d) else Ok ((), oc_revoke now (oc_id client) d))"

definition rotateSecret ::
  "argon2 \<Rightarrow> string \<Rightarrow> string \<Rightarrow> string \<Rightarrow> string \<Rightarrow> db \<Rightarrow> ((oauth_client \<times> string) \<times> db) result" where
  "rotateSecret argon secret salt tenantId clientId d =
     rbind (requireTenantClient tenantId clientId True d) (\<lambda>client.
       let c = client\<lparr>oc_clientSecretHash := Some (argon_hash argon salt secret)\<rparr>
       in case oc_update c d of
            None \<Rightarrow> Err db_error
          | Some d' \<Rightarrow> Ok ((c, secret), d'))"

definition verifyClientSecret :: "argon2 \<Rightarrow> string \<Rightarrow> string \<Rightarrow> db \<Rightarrow> bool result" where
  "verifyClientSecret argon clientId clientSecret d =
     rbind (ocs_findByClientId clientId d) (\<lambda>client.
       if oc_revokedAt client \<noteq> None then Ok False
       else (case oc_clientSecretHash client of
           None \<Rightarrow> Ok False
         | Some h \<Rightarrow> if h = [] then Ok False else Ok (argon_verify argon h clientSecret)))"

text \<open>The record the provider's client adapter works with (\<^verbatim>\<open>OidcClientRecord\<close>).\<close>

record oidc_client_record =
  ocr_clientId :: string
  ocr_clientSecretHash :: "string option"
  ocr_name :: string
  ocr_tenantId :: string
  ocr_scopes :: "string list"
  ocr_redirectUris :: "string list"
  ocr_postLogoutRedirectUris :: "string list"
  ocr_grantTypes :: "string list"
  ocr_isPublic :: bool
  ocr_roles :: "string list"
  ocr_refreshTokenTtlSeconds :: "int option"

definition findActiveClient :: "string \<Rightarrow> db \<Rightarrow> oidc_client_record option" where
  "findActiveClient clientId d =
     (case ocs_findByClientId clientId d of
        Inl _ \<Rightarrow> None
      | Inr c \<Rightarrow>
          if oc_revokedAt c \<noteq> None then None
          else Some \<lparr>ocr_clientId = oc_clientId c, ocr_clientSecretHash = oc_clientSecretHash c,
                     ocr_name = oc_name c, ocr_tenantId = oc_tenantId c, ocr_scopes = oc_scopes c,
                     ocr_redirectUris = oc_redirectUris c,
                     ocr_postLogoutRedirectUris = oc_postLogoutRedirectUris c,
                     ocr_grantTypes = oc_grantTypes c, ocr_isPublic = oc_isPublic c,
                     ocr_roles = oc_roles c, ocr_refreshTokenTtlSeconds = oc_refreshTokenTtlSeconds c\<rparr>)"

section \<open>Invariant\<close>

text \<open>What holds of every stored client: the table constraints; only known roles, and roles only on
  machine clients; a revocation reason only on a revoked client.\<close>

definition oc_row_ok :: "oauth_client \<Rightarrow> bool" where
  "oc_row_ok c =
     (secret_matches_kind c
      \<and> set (oc_roles c) \<subseteq> set OAUTH_CLIENT_ALLOWED_ROLES
      \<and> (oc_roles c = [] \<or> set (oc_grantTypes c) = {MACHINE_GRANT_TYPE})
      \<and> (oc_revokedReason c = None \<or> oc_revokedAt c \<noteq> None))"

definition oc_inv :: "db \<Rightarrow> bool" where
  "oc_inv d =
     (tbl_keys oc_id (oauth_clients d) \<and> tbl_keys oc_clientId (oauth_clients d)
      \<and> (\<forall>c\<in>set (oauth_clients d). oc_row_ok c))"

datatype oc_op =
    OC_create string string string string micros string create_oc_dto "auth_context option"
  | OC_update string string update_oc_dto "auth_context option"
  | OC_revoke time string string
  | OC_rotate string string string string
  | OC_revokeAll time string
  | OC_restoreAll string

fun oc_step :: "oidc_cfg \<Rightarrow> argon2 \<Rightarrow> oc_op \<Rightarrow> db \<Rightarrow> db" where
  "oc_step cfg ar (OC_create newid hex secret salt created t dto auth) d =
     exec (createClient cfg ar newid hex secret salt created t dto auth d) d"
| "oc_step cfg ar (OC_update t cid dto auth) d = exec (ocs_update cfg t cid dto auth d) d"
| "oc_step cfg ar (OC_revoke now t cid) d = exec (revokeClient now t cid d) d"
| "oc_step cfg ar (OC_rotate secret salt t cid) d = exec (rotateSecret ar secret salt t cid d) d"
| "oc_step cfg ar (OC_revokeAll now t) d = snd (oc_revokeAllForTenant now t d)"
| "oc_step cfg ar (OC_restoreAll t) d = snd (oc_restoreAllForTenant t d)"

section \<open>Facts\<close>

interpretation oc_scoped: tenant_scoped oc_rows_findByTenantAndClientId oc_clientId oc_tenantId
proof unfold_locales
  fix t k rows r assume "oc_rows_findByTenantAndClientId t k rows = Some r"
  then show "r \<in> set rows \<and> oc_clientId r = k \<and> oc_tenantId r = t"
    unfolding oc_rows_findByTenantAndClientId_def by (auto simp: find_Some_iff)
next
  fix rows and r :: oauth_client assume "tbl_keys oc_clientId rows" "r \<in> set rows"
  then show "oc_rows_findByTenantAndClientId (oc_tenantId r) (oc_clientId r) rows = Some r"
    by (induction rows) (auto simp: oc_rows_findByTenantAndClientId_def tbl_keys_def rev_image_eqI)
qed

lemma requireTenantClient_ok:
  "requireTenantClient t cid act d = Inr c \<Longrightarrow>
     c \<in> set (oauth_clients d) \<and> oc_clientId c = cid \<and> oc_tenantId c = t \<and> (act \<longrightarrow> oc_revokedAt c = None)"
  using oc_scoped.find_sound [of t cid "oauth_clients d" c]
  by (auto simp: requireTenantClient_def oc_findByTenantAndClientId_def split: option.splits if_splits)

lemma assertRoleConstraints_ok:
  assumes "assertRoleConstraints roles gs caller chk prev = Inr ()"
  shows "set roles \<subseteq> set OAUTH_CLIENT_ALLOWED_ROLES \<and> (roles = [] \<or> set gs = {MACHINE_GRANT_TYPE})
    \<and> (chk \<longrightarrow> hasPlatformRole prev = hasPlatformRole roles \<or> PLATFORM_ADMIN_ROLE \<in> set (ac_roles caller))"
proof -
  have "remdups gs = [MACHINE_GRANT_TYPE] \<Longrightarrow> set gs = {MACHINE_GRANT_TYPE}"
    by (metis empty_set list.simps(15) set_remdups)
  then show ?thesis
    using assms by (auto simp: assertRoleConstraints_def Let_def filter_empty_conv split: if_splits)
qed

lemma assertAssignableScopes_ok:
  assumes "assertAssignableScopes cfg scopes caller = Inr ()"
  shows "scopes \<noteq> [] \<and> set scopes \<subseteq> set ASSIGNABLE_OAUTH_CLIENT_SCOPES \<inter> set (cfg_scopes cfg)
    \<and> (PLATFORM_ADMIN_ROLE \<in> set (ac_roles caller) \<or> set scopes \<subseteq> expandEffectiveScopes (ac_scopes caller))"
  using assms
  by (auto simp: assertAssignableScopes_def Let_def partition_denied_Nil scope_permitted_def split: if_splits)

lemma oc_keys_update:
  assumes "tbl_keys oc_id (oauth_clients d)" "tbl_keys oc_clientId (oauth_clients d)"
    and "\<And>c. oc_id (f c) = oc_id c" "\<And>c. oc_clientId (f c) = oc_clientId c"
  shows "tbl_keys oc_id (tbl_update p f (oauth_clients d)) \<and> tbl_keys oc_clientId (tbl_update p f (oauth_clients d))"
  using assms by (auto intro!: tbl_keys_update)

lemma oc_create_inv:
  assumes "oc_inv d" "oc_row_ok c" "oc_create c d = Some d'"
  shows "oc_inv d'"
proof -
  obtain rows where r: "tbl_insert oc_id c (oauth_clients d) = Some rows" "d' = d\<lparr>oauth_clients := rows\<rparr>"
    and adm: "oc_admissible c d" using assms(3) by (auto simp: oc_create_def split: if_splits)
  have rows: "rows = oauth_clients d @ [c]" "oc_id c \<notin> oc_id ` set (oauth_clients d)"
    using tbl_insert_append [OF r(1)] by auto
  then have "oc_clientId c \<notin> oc_clientId ` set (oauth_clients d)"
    using adm by (auto simp: oc_admissible_def list_all_iff image_iff) metis
  then show ?thesis using assms(1,2) r(2) rows by (auto simp: oc_inv_def tbl_keys_def)
qed

lemma oc_update_inv:
  assumes "oc_inv d" "oc_row_ok c" "oc_update c d = Some d'"
  shows "oc_inv d'"
proof -
  have d': "d' = d\<lparr>oauth_clients := tbl_save oc_id c (oauth_clients d)\<rparr>" and adm: "oc_admissible c d"
    using assms(3) by (auto simp: oc_update_def split: if_splits)
  have "tbl_keys oc_clientId (tbl_save oc_id c (oauth_clients d))"
    using assms(1) adm by (intro tbl_keys_save_other) (auto simp: oc_inv_def oc_admissible_def list_all_iff)
  moreover have "\<forall>x\<in>set (tbl_save oc_id c (oauth_clients d)). oc_row_ok x"
    using set_tbl_save [of oc_id c "oauth_clients d"] assms(1,2) by (auto simp: oc_inv_def)
  ultimately show ?thesis using assms(1) d' by (auto simp: oc_inv_def intro: tbl_keys_save)
qed

lemma oc_bulk_inv:
  assumes "oc_inv d" "\<And>c. oc_id (f c) = oc_id c" "\<And>c. oc_clientId (f c) = oc_clientId c"
    and "\<And>c. oc_row_ok c \<Longrightarrow> oc_row_ok (f c)"
  shows "oc_inv (d\<lparr>oauth_clients := tbl_update p f (oauth_clients d)\<rparr>)"
  using oc_keys_update [of d f p] assms by (auto simp: oc_inv_def set_tbl_update)

lemma createClient_ok:
  assumes "createClient cfg ar newid hex secret salt created t dto auth d = Inr ((c, s), d')"
  shows "oc_row_ok c \<and> oc_create c d = Some d' \<and> s = secret \<and> oc_clientSecretHash c = Some (argon_hash ar salt secret)
    \<and> oc_tenantId c = t \<and> oc_clientId c = OAUTH_CLIENT_ID_PREFIX @ hex \<and> oc_scopes c = coc_scopes dto \<and> oc_revokedAt c = None
    \<and> (\<exists>caller. auth = Some caller \<and> assertAssignableScopes cfg (coc_scopes dto) caller = Ok ()
        \<and> assertRoleConstraints (oc_roles c) (oc_grantTypes c) caller (coc_roles dto \<noteq> None) [] = Ok ()
        \<and> set (oc_grantTypes c) \<subseteq> set (cfg_grantTypes cfg) \<and> (coc_roles dto = None \<longrightarrow> oc_roles c = []))"
proof -
  obtain caller where g: "auth = Some caller" "assertSupportedGrantTypes cfg (Some (oc_grantTypes c)) = Ok ()"
    "assertRoleConstraints (oc_roles c) (oc_grantTypes c) caller (coc_roles dto \<noteq> None) [] = Ok ()"
    "assertAssignableScopes cfg (coc_scopes dto) caller = Ok ()" "oc_create c d = Some d'" "s = secret"
    and c: "oc_clientSecretHash c = Some (argon_hash ar salt secret)" "oc_isPublic c = False" "oc_tenantId c = t"
      "oc_clientId c = OAUTH_CLIENT_ID_PREFIX @ hex" "oc_scopes c = coc_scopes dto" "oc_revokedAt c = None"
      "oc_revokedReason c = None" "oc_roles c = (case coc_roles dto of None \<Rightarrow> [] | Some r \<Rightarrow> r)"
    using assms by (auto simp: createClient_def requireCaller_def Let_def ok_iffs simp del: not_None_eq)
  have "set (oc_grantTypes c) \<subseteq> set (cfg_grantTypes cfg)"
    using g(2) by (auto simp: assertSupportedGrantTypes_def Let_def filter_empty_conv split: if_splits)
  moreover have "oc_row_ok c"
    using assertRoleConstraints_ok [OF g(3)] c by (auto simp: oc_row_ok_def secret_matches_kind_def)
  ultimately show ?thesis using g c by auto
qed

lemma ocs_update_ok:
  assumes "ocs_update cfg t cid dto auth d = Inr (c, d')" "oc_inv d"
  shows "oc_row_ok c \<and> oc_update c d = Some d' \<and> (\<exists>caller client. auth = Some caller
    \<and> requireTenantClient t cid True d = Ok client \<and> oc_id c = oc_id client \<and> oc_tenantId c = t
    \<and> assertRoleConstraints (oc_roles c) (oc_grantTypes c) caller (uoc_roles dto \<noteq> None) (oc_roles client) = Ok ()
    \<and> (case uoc_scopes dto of None \<Rightarrow> oc_scopes c = oc_scopes client
        | Some s \<Rightarrow> oc_scopes c = s \<and> assertAssignableScopes cfg s caller = Ok ())
    \<and> (uoc_roles dto = None \<longrightarrow> oc_roles c = oc_roles client))"
proof -
  obtain caller client where g: "auth = Some caller" "requireTenantClient t cid True d = Ok client"
    "assertRoleConstraints (oc_roles c) (oc_grantTypes c) caller (uoc_roles dto \<noteq> None) (oc_roles client) = Ok ()"
    "(case uoc_scopes dto of None \<Rightarrow> Ok () | Some s \<Rightarrow> assertAssignableScopes cfg s caller) = Ok ()"
    "oc_update c d = Some d'"
    "c = client\<lparr>oc_name := oc_name c, oc_scopes := (case uoc_scopes dto of None \<Rightarrow> oc_scopes client | Some s \<Rightarrow> s),
       oc_roles := (case uoc_roles dto of None \<Rightarrow> oc_roles client | Some r \<Rightarrow> r), oc_redirectUris := oc_redirectUris c,
       oc_grantTypes := oc_grantTypes c, oc_refreshTokenTtlSeconds := oc_refreshTokenTtlSeconds c\<rparr>"
    using assms(1) by (auto simp: ocs_update_def requireCaller_def Let_def rbind_eq_Inr if_Err_eq_Ok opt_Err_eq_Ok simp del: not_None_eq)
  have client: "client \<in> set (oauth_clients d)" "oc_tenantId client = t" using requireTenantClient_ok [OF g(2)] by auto
  have fields: "oc_id c = oc_id client" "oc_tenantId c = oc_tenantId client" "oc_isPublic c = oc_isPublic client"
    "oc_clientSecretHash c = oc_clientSecretHash client" "oc_revokedAt c = oc_revokedAt client"
    "oc_revokedReason c = oc_revokedReason client"
    "oc_scopes c = (case uoc_scopes dto of None \<Rightarrow> oc_scopes client | Some s \<Rightarrow> s)"
    "oc_roles c = (case uoc_roles dto of None \<Rightarrow> oc_roles client | Some r \<Rightarrow> r)"
    by (subst g(6), simp)+
  have "oc_row_ok c"
    using client assms(2) assertRoleConstraints_ok [OF g(3)] fields(3-6)
    by (auto simp: oc_inv_def oc_row_ok_def secret_matches_kind_def)
  then show ?thesis using g client fields by (auto split: option.splits)
qed

lemma rotateSecret_ok:
  assumes "rotateSecret ar secret salt t cid d = Inr ((c, s), d')" "oc_inv d"
  shows "oc_row_ok c \<and> oc_update c d = Some d' \<and> s = secret \<and> oc_clientSecretHash c = Some (argon_hash ar salt secret)
    \<and> oc_clientId c = cid \<and> oc_revokedAt c = None"
proof -
  obtain client where g: "requireTenantClient t cid True d = Ok client" "oc_update c d = Some d'" "s = secret"
    and c: "c = client\<lparr>oc_clientSecretHash := Some (argon_hash ar salt secret)\<rparr>"
    using assms(1) by (auto simp: rotateSecret_def Let_def ok_iffs)
  have "oc_row_ok client" using requireTenantClient_ok [OF g(1)] assms(2) by (auto simp: oc_inv_def)
  moreover have "secret_matches_kind c" using g(2) by (auto simp: oc_update_def oc_admissible_def split: if_splits)
  ultimately show ?thesis using g c requireTenantClient_ok [OF g(1)] by (simp add: oc_row_ok_def)
qed

lemma oc_step_inv: "oc_inv d \<Longrightarrow> oc_inv (oc_step cfg ar oper d)"
proof (cases oper)
  case (OC_create newid hex secret salt created t dto auth)
  then show "oc_inv d \<Longrightarrow> ?thesis"
    by (cases "createClient cfg ar newid hex secret salt created t dto auth d")
      (auto dest!: createClient_ok intro: oc_create_inv)
next
  case (OC_update t cid dto auth)
  then show "oc_inv d \<Longrightarrow> ?thesis"
    by (cases "ocs_update cfg t cid dto auth d") (auto dest!: ocs_update_ok intro: oc_update_inv)
next
  case (OC_revoke now t cid)
  then show "oc_inv d \<Longrightarrow> ?thesis"
    by (cases "requireTenantClient t cid False d")
      (auto simp: revokeClient_def oc_revoke_def oc_row_ok_def secret_matches_kind_def intro!: oc_bulk_inv)
next
  case (OC_rotate secret salt t cid)
  then show "oc_inv d \<Longrightarrow> ?thesis"
    by (cases "rotateSecret ar secret salt t cid d") (auto dest!: rotateSecret_ok intro: oc_update_inv)
qed (auto simp: oc_revokeAllForTenant_def oc_restoreAllForTenant_def Let_def oc_row_ok_def secret_matches_kind_def
    intro!: oc_bulk_inv)

interpretation oc: invariant_system "\<lambda>d. d = empty_db" "oc_step cfg ar" oc_inv for cfg ar
proof unfold_locales
  fix d assume "d = empty_db"
  then show "oc_inv d" by (simp add: oc_inv_def empty_db_def tbl_keys_def)
qed (rule oc_step_inv)

section \<open>Revocation for cause\<close>

text \<open>The client with primary key \<open>k\<close> is revoked with no reason recorded, that is, for cause.\<close>

definition revoked_for_cause :: "string \<Rightarrow> db \<Rightarrow> bool" where
  "revoked_for_cause k d =
     (case oc_findById k d of None \<Rightarrow> False | Some c \<Rightarrow> oc_revokedAt c \<noteq> None \<and> oc_revokedReason c = None)"

lemma cause_insert: "revoked_for_cause k d \<Longrightarrow> oc_create c d = Some d' \<Longrightarrow> revoked_for_cause k d'"
proof -
  assume *: "revoked_for_cause k d" "oc_create c d = Some d'"
  obtain x where x: "tbl_find oc_id k (oauth_clients d) = Some x" "oc_revokedAt x \<noteq> None" "oc_revokedReason x = None"
    using *(1) by (auto simp: revoked_for_cause_def oc_findById_def split: option.splits)
  have "oauth_clients d' = oauth_clients d @ [c]"
    using *(2) by (auto simp: oc_create_def split: if_splits dest: tbl_insert_append)
  moreover have "tbl_find oc_id k (oauth_clients d @ [c]) = Some x"
    using x(1) by (simp add: tbl_find_append)
  ultimately show ?thesis using x by (simp add: revoked_for_cause_def oc_findById_def)
qed

lemma cause_save_active:
  assumes "revoked_for_cause k d" "oc_inv d" "requireTenantClient t cid True d = Inr client"
    and "oc_id c = oc_id client" "oc_update c d = Some d'"
  shows "revoked_for_cause k d'"
proof -
  have "client \<in> set (oauth_clients d)" "oc_revokedAt client = None" using requireTenantClient_ok [OF assms(3)] by auto
  then have "oc_findById (oc_id client) d = Some client"
    using assms(2) by (simp add: oc_findById_def oc_inv_def tbl_find_mem)
  then have "k \<noteq> oc_id c" using assms(1,4) \<open>oc_revokedAt client = None\<close> by (auto simp: revoked_for_cause_def)
  then show ?thesis using assms(1,5)
    by (auto simp: revoked_for_cause_def oc_findById_def oc_update_def tbl_find_save split: if_splits)
qed

lemma cause_bulk:
  assumes "revoked_for_cause k d" "\<And>c. oc_id (f c) = oc_id c"
    and "\<And>c. p c \<Longrightarrow> oc_revokedAt c \<noteq> None \<Longrightarrow> oc_revokedReason c = None \<Longrightarrow>
           oc_revokedAt (f c) \<noteq> None \<and> oc_revokedReason (f c) = None"
  shows "revoked_for_cause k (d\<lparr>oauth_clients := tbl_update p f (oauth_clients d)\<rparr>)"
  using assms by (auto simp: revoked_for_cause_def oc_findById_def tbl_find_update split: option.splits)

lemma oc_step_cause:
  assumes "revoked_for_cause k d" "oc_inv d"
  shows "revoked_for_cause k (oc_step cfg ar oper d)"
proof (cases oper)
  case (OC_create newid hex secret salt created t dto auth)
  then show ?thesis using assms
    by (cases "createClient cfg ar newid hex secret salt created t dto auth d")
      (auto dest!: createClient_ok intro: cause_insert)
next
  case (OC_update t cid dto auth)
  then show ?thesis using assms
    by (cases "ocs_update cfg t cid dto auth d") (auto dest!: ocs_update_ok intro: cause_save_active)
next
  case (OC_revoke now t cid)
  then show ?thesis using assms
    by (cases "requireTenantClient t cid False d") (auto simp: revokeClient_def oc_revoke_def intro!: cause_bulk)
next
  case (OC_rotate secret salt t cid)
  show ?thesis
  proof (cases "rotateSecret ar secret salt t cid d")
    case (Inr r)
    then obtain c client where "requireTenantClient t cid True d = Ok client" "oc_id c = oc_id client"
      "oc_update c d = Some (snd r)"
      by (auto simp: rotateSecret_def Let_def ok_iffs intro: that [rotated 2])
    then show ?thesis using assms Inr OC_rotate by (cases r) (auto intro: cause_save_active)
  qed (use assms OC_rotate in simp)
next
  case (OC_revokeAll now t)
  show ?thesis unfolding OC_revokeAll oc_step.simps oc_revokeAllForTenant_def Let_def snd_conv
    by (rule cause_bulk [OF assms(1)]) auto
next
  case (OC_restoreAll t)
  show ?thesis unfolding OC_restoreAll oc_step.simps oc_restoreAllForTenant_def Let_def snd_conv
    by (rule cause_bulk [OF assms(1)]) auto
qed

interpretation oc_cause: invariant_system "\<lambda>d. oc_inv d \<and> revoked_for_cause k d" "oc_step cfg ar"
  "\<lambda>d. oc_inv d \<and> revoked_for_cause k d" for k cfg ar
  by unfold_locales (auto intro: oc_step_inv oc_step_cause)

section \<open>Properties\<close>


text \<open>C10. No privilege escalation through client registration. A client created by a caller that is not
  a platform administrator carries no platform role, and everything its scopes effectively grant is
  effectively granted to the caller; its scopes are published, enabled on the deployment, and its grant
  types are served.\<close>

theorem createClient_no_escalation:
  assumes "createClient cfg ar newid hex secret salt created t dto (Some caller) d = Ok ((c, s), d')"
    and "PLATFORM_ADMIN_ROLE \<notin> set (ac_roles caller)"
  shows "PLATFORM_ADMIN_ROLE \<notin> set (oc_roles c)
       \<and> expandEffectiveScopes (oc_scopes c) \<subseteq> expandEffectiveScopes (ac_scopes caller)
       \<and> oc_scopes c \<noteq> [] \<and> set (oc_scopes c) \<subseteq> set ASSIGNABLE_OAUTH_CLIENT_SCOPES \<inter> set (cfg_scopes cfg)
       \<and> set (oc_grantTypes c) \<subseteq> set (cfg_grantTypes cfg) \<and> oc_tenantId c = t"
proof -
  note ok = createClient_ok [OF assms(1)]
  have scopes: "set (oc_scopes c) \<subseteq> expandEffectiveScopes (ac_scopes caller)"
    and sc: "oc_scopes c \<noteq> []" "set (oc_scopes c) \<subseteq> set ASSIGNABLE_OAUTH_CLIENT_SCOPES \<inter> set (cfg_scopes cfg)"
    using ok assertAssignableScopes_ok [of cfg "coc_scopes dto" caller] assms(2) by auto
  have "expandEffectiveScopes (oc_scopes c) \<subseteq> expandEffectiveScopes (ac_scopes caller)"
    using scopes sc.cl_subset_iff by (simp add: expandEffectiveScopes_closure)
  moreover have "\<not> hasPlatformRole (oc_roles c)"
    using ok assms(2) assertRoleConstraints_ok [of "oc_roles c" "oc_grantTypes c" caller _ "[]"]
    by (cases "coc_roles dto = None") (auto simp: hasPlatformRole_def)
  then have "PLATFORM_ADMIN_ROLE \<notin> set (oc_roles c)"
    by (auto simp: hasPlatformRole_def list_ex_iff OAUTH_CLIENT_PLATFORM_ROLES_def)
  ultimately show ?thesis using ok sc by simp
qed

definition demo_cfg :: oidc_cfg where
  "demo_cfg = \<lparr>cfg_grantTypes = [''client_credentials'', ''authorization_code''],
     cfg_scopes = [''openid'', ''tenants:admin'', ''credentials:offer'', ''users:manage'']\<rparr>"

definition demo_argon :: argon2 where
  "demo_argon = \<lparr>argon_hash = (\<lambda>salt s. ''h:'' @ s), argon_verify = (\<lambda>h s. h = ''h:'' @ s)\<rparr>"

definition demo_coc :: create_oc_dto where
  "demo_coc = \<lparr>coc_name = ''svc'', coc_scopes = [''credentials:offer''], coc_roles = Some [''admin''],
     coc_redirectUris = None, coc_grantTypes = None, coc_refreshTokenTtlSeconds = None\<rparr>"

definition demo_client :: oauth_client where
  "demo_client = \<lparr>oc_id = ''c1'', oc_tenantId = ''t1'', oc_clientId = ''dtcs_ab'', oc_clientSecretHash = Some ''h:sec'',
     oc_isPublic = False, oc_name = ''svc'', oc_scopes = [''credentials:offer''], oc_roles = [''admin''],
     oc_redirectUris = [], oc_postLogoutRedirectUris = [], oc_grantTypes = [''client_credentials''],
     oc_createdBy = Some ''kc-a'', oc_createdAt = 5, oc_refreshTokenTtlSeconds = None, oc_revokedAt = None,
     oc_revokedReason = None\<rparr>"

lemma demo_create:
  "createClient demo_cfg demo_argon ''c1'' ''ab'' ''sec'' ''salt'' 5 ''t1'' demo_coc (Some demo_auth) demo_db
   = Ok ((demo_client, ''sec''), demo_db\<lparr>oauth_clients := [demo_client]\<rparr>)"
  by code_simp

theorem createClient_no_escalation_witness:
  "expandEffectiveScopes (oc_scopes demo_client) \<subseteq> expandEffectiveScopes (ac_scopes demo_auth)
   \<and> PLATFORM_ADMIN_ROLE \<notin> set (oc_roles demo_client)"
proof -
  have "PLATFORM_ADMIN_ROLE \<notin> set (ac_roles demo_auth)" by (simp add: demo_auth_def)
  from createClient_no_escalation [OF demo_create this] show ?thesis by blast
qed

text \<open>A client that was revoked for cause stays revoked for cause, whatever the service does
  afterwards: updates, rotations, revocations, deactivation and reactivation of its tenant.\<close>

theorem revoked_for_cause_stable:
  assumes "oc_inv d" and "revoked_for_cause k d"
  shows "revoked_for_cause k (fold (oc_step cfg ar) ops d)"
  using oc_cause.run_inv [of d k cfg ar ops] assms by simp

definition demo_oc_db :: db where
  "demo_oc_db = demo_db\<lparr>oauth_clients := [demo_client]\<rparr>"

lemma demo_oc_inv: "oc_inv demo_oc_db"
  by (simp add: oc_inv_def demo_oc_db_def demo_db_def tbl_keys_def oc_row_ok_def secret_matches_kind_def demo_client_def
      OAUTH_CLIENT_ALLOWED_ROLES_def OAUTH_CLIENT_TENANT_ROLES_def ROLE_HIERARCHY_def MACHINE_GRANT_TYPE_def)

theorem revoked_for_cause_stable_witness:
  "revoked_for_cause ''c1'' (fold (oc_step demo_cfg demo_argon)
     [OC_revokeAll 8 ''t1'', OC_restoreAll ''t1''] (oc_step demo_cfg demo_argon (OC_revoke 7 ''t1'' ''dtcs_ab'') demo_oc_db))"
proof -
  have "oc_inv (oc_step demo_cfg demo_argon (OC_revoke 7 ''t1'' ''dtcs_ab'') demo_oc_db)"
    using demo_oc_inv by (rule oc_step_inv)
  moreover have "revoked_for_cause ''c1'' (oc_step demo_cfg demo_argon (OC_revoke 7 ''t1'' ''dtcs_ab'') demo_oc_db)"
    by (simp add: revoked_for_cause_def revokeClient_def requireTenantClient_def oc_findByTenantAndClientId_def
        oc_rows_findByTenantAndClientId_def oc_revoke_def oc_findById_def demo_oc_db_def demo_client_def tbl_update_def)
  ultimately show ?thesis by (rule revoked_for_cause_stable)
qed

text \<open>The order matters: a client that is revoked for cause while its tenant is deactivated is not
  protected. For an active client of a tenant, deactivating the tenant, revoking the client for cause and
  reactivating the tenant leaves the client active again, with its credentials accepted, although the
  revocation call succeeded.\<close>

theorem revoke_after_deactivation_lost:
  assumes "oc_inv d" and "c \<in> set (oauth_clients d)" and "oc_revokedAt c = None"
  shows "is_ok (revokeClient now2 (oc_tenantId c) (oc_clientId c) (snd (oc_revokeAllForTenant now1 (oc_tenantId c) d)))
       \<and> oc_findByClientId (oc_clientId c)
           (fold (oc_step cfg ar) [OC_revokeAll now1 (oc_tenantId c), OC_revoke now2 (oc_tenantId c) (oc_clientId c),
              OC_restoreAll (oc_tenantId c)] d) = Some c"
proof -
  let ?t = "oc_tenantId c"
  let ?r = "\<lambda>c. c\<lparr>oc_revokedAt := Some now1, oc_revokedReason := Some TENANT_DEACTIVATION\<rparr>"
  let ?p = "\<lambda>c. oc_tenantId c = ?t \<and> oc_revokedAt c = None"
  define d1 where "d1 = snd (oc_revokeAllForTenant now1 ?t d)"
  have rows1: "oauth_clients d1 = tbl_update ?p ?r (oauth_clients d)"
    by (simp add: d1_def oc_revokeAllForTenant_def Let_def)
  have inv1: "oc_inv d1" using oc_step_inv [OF assms(1), of cfg ar "OC_revokeAll now1 ?t"] by (simp add: d1_def)
  have keys: "tbl_keys oc_clientId (oauth_clients d)" using assms(1) by (simp add: oc_inv_def)
  have find1: "oc_findByClientId (oc_clientId c) d1 = Some (?r c)"
    using tbl_find_mem [OF keys assms(2)] assms(3) by (simp add: oc_findByClientId_def rows1 tbl_find_update)
  then have mem: "?r c \<in> set (oauth_clients d1)" by (auto simp: oc_findByClientId_def dest: tbl_find_Some)
  have "requireTenantClient ?t (oc_clientId c) False d1 = Ok (?r c)"
    using oc_scoped.find_complete [OF _ mem] inv1
    by (simp add: requireTenantClient_def oc_findByTenantAndClientId_def oc_inv_def)
  then have rev: "revokeClient now2 ?t (oc_clientId c) d1 = Ok ((), d1)" by (simp add: revokeClient_def)
  have restored: "(?r c)\<lparr>oc_revokedAt := None, oc_revokedReason := None\<rparr> = c"
    using assms(1-3) by (cases c) (auto simp: oc_inv_def oc_row_ok_def)
  have "oc_findByClientId (oc_clientId c) (snd (oc_restoreAllForTenant ?t d1)) = Some c"
    using find1 restored by (simp add: oc_findByClientId_def oc_restoreAllForTenant_def Let_def tbl_find_update)
  then show ?thesis using rev by (simp add: d1_def)
qed

theorem revoke_after_deactivation_lost_witness:
  "oc_findByClientId ''dtcs_ab''
     (fold (oc_step demo_cfg demo_argon) [OC_revokeAll 6 ''t1'', OC_revoke 7 ''t1'' ''dtcs_ab'', OC_restoreAll ''t1''] demo_oc_db)
   = Some demo_client"
proof -
  have "demo_client \<in> set (oauth_clients demo_oc_db)" "oc_revokedAt demo_client = None"
    by (simp_all add: demo_oc_db_def demo_client_def)
  from revoke_after_deactivation_lost [OF demo_oc_inv this, of 7 6 demo_cfg demo_argon]
  show ?thesis by (simp add: demo_client_def)
qed

text \<open>Client secrets. When \<^verbatim>\<open>argon2\<close> verifies exactly the secret that was hashed, the secret returned
  by a registration authenticates the client and no other secret does; after a rotation the new secret
  authenticates and every other one, the previous included, is refused.\<close>

theorem client_secret_verifies:
  assumes argon: "\<forall>salt s s'. argon_verify ar (argon_hash ar salt s) s' = (s = s') \<and> argon_hash ar salt s \<noteq> []"
    and "oc_inv d"
    and "createClient cfg ar newid hex secret salt created t dto auth d = Ok ((c, s), d')
       \<or> rotateSecret ar secret salt t cid d = Ok ((c, s), d')"
  shows "verifyClientSecret ar (oc_clientId c) s' d' = Ok (s' = s)"
proof -
  have "s = secret \<and> oc_clientSecretHash c = Some (argon_hash ar salt secret) \<and> oc_revokedAt c = None
      \<and> c \<in> set (oauth_clients d') \<and> oc_inv d'"
    using assms(3)
  proof
    assume "createClient cfg ar newid hex secret salt created t dto auth d = Ok ((c, s), d')"
    note ok = createClient_ok [OF this]
    then have "c \<in> set (oauth_clients d')" by (auto simp: oc_create_def split: if_splits dest: set_tbl_insert)
    then show ?thesis using ok oc_create_inv [OF assms(2)] by auto
  next
    assume "rotateSecret ar secret salt t cid d = Ok ((c, s), d')"
    note ok = rotateSecret_ok [OF this assms(2)]
    then have "c \<in> set (oauth_clients d')" by (auto simp: oc_update_def split: if_splits)
    then show ?thesis using ok oc_update_inv [OF assms(2)] by auto
  qed
  then show ?thesis using argon
    by (auto simp: verifyClientSecret_def ocs_findByClientId_def oc_findByClientId_def oc_inv_def tbl_find_mem)
qed

theorem client_secret_verifies_witness:
  "verifyClientSecret demo_argon ''dtcs_ab'' ''sec'' demo_oc_db = Ok True
   \<and> verifyClientSecret demo_argon ''dtcs_ab'' ''other'' demo_oc_db = Ok False"
proof -
  have a: "\<forall>salt s s'. argon_verify demo_argon (argon_hash demo_argon salt s) s' = (s = s') \<and> argon_hash demo_argon salt s \<noteq> []"
    by (auto simp: demo_argon_def)
  have i: "oc_inv demo_db" by (simp add: oc_inv_def demo_db_def empty_db_def tbl_keys_def)
  have "oc_clientId demo_client = ''dtcs_ab''" by (simp add: demo_client_def)
  then show ?thesis
    using client_secret_verifies [OF a i disjI1 [OF demo_create]] by (simp add: demo_oc_db_def)
qed

text \<open>\<^verbatim>\<open>rotateSecret\<close> does not look at the kind of the client: for an active public client it always
  fails in the database, because a public client with a secret violates the check constraint.\<close>

theorem rotateSecret_public_fails:
  assumes "oc_inv d" and "c \<in> set (oauth_clients d)" and "oc_isPublic c" and "oc_revokedAt c = None"
  shows "rotateSecret ar secret salt (oc_tenantId c) (oc_clientId c) d = Err db_error"
proof -
  have "requireTenantClient (oc_tenantId c) (oc_clientId c) True d = Ok c"
    using oc_scoped.find_complete [OF _ assms(2)] assms(1,4)
    by (simp add: requireTenantClient_def oc_findByTenantAndClientId_def oc_inv_def)
  then show ?thesis using assms(3) by (simp add: rotateSecret_def oc_update_def oc_admissible_def secret_matches_kind_def)
qed

theorem rotateSecret_public_fails_witness:
  "rotateSecret demo_argon ''n'' ''salt'' ''t1'' ''dtcs_ab''
     (demo_db\<lparr>oauth_clients := [demo_client\<lparr>oc_isPublic := True, oc_clientSecretHash := None, oc_roles := []\<rparr>]\<rparr>) = Err db_error"
proof -
  let ?c = "demo_client\<lparr>oc_isPublic := True, oc_clientSecretHash := None, oc_roles := []\<rparr>"
  let ?d = "demo_db\<lparr>oauth_clients := [?c]\<rparr>"
  have "oc_inv ?d" "?c \<in> set (oauth_clients ?d)" "oc_isPublic ?c" "oc_revokedAt ?c = None"
    by (simp_all add: oc_inv_def tbl_keys_def oc_row_ok_def secret_matches_kind_def demo_client_def)
  from rotateSecret_public_fails [OF this] show ?thesis by (simp add: demo_client_def)
qed

end
