(* ===== verification/Connection.thy ===== *)
theory Connection
  imports Access
begin

text \<open>
  \<^verbatim>\<open>connection\<close>: agent connections of a tenant, the service with its tenant checks, and the bulk
  abandonment used when a tenant is deactivated.
\<close>

section \<open>ConnectionRepository\<close>

definition cn_findById :: "string \<Rightarrow> db \<Rightarrow> connection option" where
  "cn_findById cid d = tbl_find cn_id cid (connections d)"

definition cn_findByExternalConnectionId :: "string \<Rightarrow> db \<Rightarrow> connection option" where
  "cn_findByExternalConnectionId ext d = tbl_find cn_externalConnectionId ext (connections d)"

definition cn_findByTenantId :: "string \<Rightarrow> db \<Rightarrow> connection list" where
  "cn_findByTenantId tenantId d = sort_key cn_createdAt (filter (\<lambda>c. cn_tenantId c = tenantId) (connections d))"

definition cn_findByTenantIdAndState :: "string \<Rightarrow> connection_state \<Rightarrow> db \<Rightarrow> connection list" where
  "cn_findByTenantIdAndState tenantId state d =
     sort_key cn_createdAt (filter (\<lambda>c. cn_tenantId c = tenantId \<and> cn_state c = state) (connections d))"

text \<open>The primary key, the unique external id and the foreign key to the tenant.\<close>

definition cn_create :: "connection \<Rightarrow> db \<Rightarrow> db option" where
  "cn_create c d =
     (if cn_externalConnectionId c \<in> cn_externalConnectionId ` set (connections d)
         \<or> cn_tenantId c \<notin> t_id ` set (tenants d)
      then None
      else map_option (\<lambda>rows. d\<lparr>connections := rows\<rparr>) (tbl_insert cn_id c (connections d)))"

definition cn_update :: "time \<Rightarrow> connection \<Rightarrow> db \<Rightarrow> db" where
  "cn_update now c d = d\<lparr>connections := tbl_save cn_id (c\<lparr>cn_updatedAt := now\<rparr>) (connections d)\<rparr>"

definition cn_delete :: "string \<Rightarrow> db \<Rightarrow> db" where
  "cn_delete cid d = d\<lparr>connections := tbl_delete cn_id cid (connections d)\<rparr>"

definition cn_open :: "connection \<Rightarrow> bool" where
  "cn_open c = (cn_state c \<notin> {C_COMPLETED, C_ABANDONED})"

definition cn_abandonAllForTenant :: "string \<Rightarrow> db \<Rightarrow> nat \<times> db" where
  "cn_abandonAllForTenant tenantId d =
     (length (filter (\<lambda>c. cn_tenantId c = tenantId \<and> cn_open c) (connections d)),
      d\<lparr>connections := tbl_update (\<lambda>c. cn_tenantId c = tenantId \<and> cn_open c)
          (\<lambda>c. c\<lparr>cn_state := C_ABANDONED\<rparr>) (connections d)\<rparr>)"

section \<open>ConnectionService\<close>

record create_cn_dto =
  ccn_tenantId :: string
  ccn_externalConnectionId :: string
  ccn_theirLabel :: "string option"
  ccn_theirDid :: "string option"
  ccn_state :: connection_state
  ccn_connectorType :: connector_type
  ccn_protocol :: connection_protocol
  ccn_metadata :: "(string \<times> json) list option"

record update_cn_dto =
  ucn_theirLabel :: "string option"
  ucn_theirDid :: "string option"
  ucn_state :: "connection_state option"
  ucn_protocol :: "connection_protocol option"
  ucn_metadata :: "(string \<times> json) list option"

definition cns_create ::
  "string \<Rightarrow> micros \<Rightarrow> time \<Rightarrow> create_cn_dto \<Rightarrow> auth_context option \<Rightarrow> db \<Rightarrow> (connection \<times> db) result" where
  "cns_create newid created now dto auth d =
     rbind (assertTenantAccess auth (ccn_tenantId dto)) (\<lambda>_.
       if cn_findByExternalConnectionId (ccn_externalConnectionId dto) d \<noteq> None
       then Err (Conflict ''Connection with this external ID already exists.'')
       else
         let c = \<lparr>cn_id = newid, cn_tenantId = ccn_tenantId dto,
                  cn_externalConnectionId = ccn_externalConnectionId dto, cn_theirLabel = ccn_theirLabel dto,
                  cn_theirDid = ccn_theirDid dto, cn_state = ccn_state dto,
                  cn_connectorType = ccn_connectorType dto, cn_protocol = ccn_protocol dto,
                  cn_metadata = (case ccn_metadata dto of None \<Rightarrow> [] | Some m \<Rightarrow> m),
                  cn_createdAt = created, cn_updatedAt = now\<rparr>
         in case cn_create c d of
              None \<Rightarrow> Err db_error
            | Some d' \<Rightarrow> Ok (c, domain_audit_emit (cn_tenantId c) A_CREATE ''connection'' newid [] d'))"

definition cns_findById :: "string \<Rightarrow> auth_context option \<Rightarrow> db \<Rightarrow> connection result" where
  "cns_findById cid auth d =
     (let notFound = ''Connection '' @ quoted cid @ '' was not found.'' in
      case cn_findById cid d of
        None \<Rightarrow> Err (NotFound notFound)
      | Some c \<Rightarrow> rbind (assertResourceTenantOrNotFound auth (cn_tenantId c) notFound) (\<lambda>_. Ok c))"

definition cns_findByExternalConnectionId :: "string \<Rightarrow> auth_context option \<Rightarrow> db \<Rightarrow> connection result" where
  "cns_findByExternalConnectionId ext auth d =
     (let notFound = ''Connection with external ID '' @ quoted ext @ '' was not found.'' in
      case cn_findByExternalConnectionId ext d of
        None \<Rightarrow> Err (NotFound notFound)
      | Some c \<Rightarrow> rbind (assertResourceTenantOrNotFound auth (cn_tenantId c) notFound) (\<lambda>_. Ok c))"

definition cns_update ::
  "time \<Rightarrow> string \<Rightarrow> update_cn_dto \<Rightarrow> auth_context option \<Rightarrow> db \<Rightarrow> (connection \<times> db) result" where
  "cns_update now cid dto auth d =
     rbind (cns_findById cid auth d) (\<lambda>c.
       let c' = c\<lparr>cn_theirLabel := (case ucn_theirLabel dto of None \<Rightarrow> cn_theirLabel c | Some l \<Rightarrow> Some l),
                  cn_theirDid := (case ucn_theirDid dto of None \<Rightarrow> cn_theirDid c | Some l \<Rightarrow> Some l),
                  cn_state := (case ucn_state dto of None \<Rightarrow> cn_state c | Some s \<Rightarrow> s),
                  cn_protocol := (case ucn_protocol dto of None \<Rightarrow> cn_protocol c | Some p \<Rightarrow> p),
                  cn_metadata := (case ucn_metadata dto of None \<Rightarrow> cn_metadata c | Some m \<Rightarrow> m)\<rparr>
       in Ok (c'\<lparr>cn_updatedAt := now\<rparr>,
              domain_audit_emit (cn_tenantId c') A_UPDATE ''connection'' (cn_id c') [] (cn_update now c' d)))"

definition cns_delete :: "string \<Rightarrow> auth_context option \<Rightarrow> db \<Rightarrow> (unit \<times> db) result" where
  "cns_delete cid auth d =
     rbind (cns_findById cid auth d) (\<lambda>c.
       Ok ((), domain_audit_emit (cn_tenantId c) A_DELETE ''connection'' cid [] (cn_delete cid d)))"

section \<open>Operations as steps, invariant\<close>

datatype cn_op =
    CN_create string micros time create_cn_dto "auth_context option"
  | CN_update time string update_cn_dto "auth_context option"
  | CN_delete string "auth_context option"

fun cn_step :: "cn_op \<Rightarrow> db \<Rightarrow> db" where
  "cn_step (CN_create newid created now dto auth) d = exec (cns_create newid created now dto auth d) d"
| "cn_step (CN_update now cid dto auth) d = exec (cns_update now cid dto auth d) d"
| "cn_step (CN_delete cid auth) d = exec (cns_delete cid auth d) d"

definition cn_inv :: "db \<Rightarrow> bool" where
  "cn_inv d = (tbl_keys cn_id (connections d) \<and> tbl_keys cn_externalConnectionId (connections d)
     \<and> (\<forall>c\<in>set (connections d). cn_tenantId c \<in> t_id ` set (tenants d)))"

lemma cns_findById_ok:
  "cns_findById cid auth d = Inr c \<Longrightarrow> c \<in> set (connections d) \<and> cn_id c = cid
     \<and> (\<exists>a. auth = Some a \<and> (PLATFORM_ADMIN_ROLE \<in> set (ac_roles a) \<or> ac_tenantId a = Some (cn_tenantId c)))"
  by (auto simp: cns_findById_def Let_def ok_iffs cn_findById_def assertResourceTenantOrNotFound_def
      split: option.splits if_splits dest: tbl_find_Some)

lemma cns_create_ok:
  assumes "cns_create newid created now dto auth d = Inr (c, d')"
  shows "\<exists>d1. cn_create c d = Some d1 \<and> d' = domain_audit_emit (cn_tenantId c) A_CREATE ''connection'' newid [] d1
    \<and> (\<exists>a. auth = Some a \<and> (PLATFORM_ADMIN_ROLE \<in> set (ac_roles a) \<or> ac_tenantId a = Some (cn_tenantId c)))"
proof -
  have "assertTenantAccess auth (cn_tenantId c) = Ok ()"
    and "\<exists>d1. cn_create c d = Some d1 \<and> d' = domain_audit_emit (cn_tenantId c) A_CREATE ''connection'' newid [] d1"
    using assms by (auto simp: cns_create_def Let_def ok_iffs)
  then show ?thesis by (cases auth) (auto simp: assertTenantAccess_ok)
qed

lemma cn_update_inv:
  assumes "cn_inv d" "c \<in> set (connections d)" "cn_id c' = cn_id c" "cn_tenantId c' = cn_tenantId c"
    "cn_externalConnectionId c' = cn_externalConnectionId c"
  shows "cn_inv (cn_update now c' d)"
proof -
  let ?rows = "tbl_save cn_id (c'\<lparr>cn_updatedAt := now\<rparr>) (connections d)"
  have "\<forall>x\<in>set (connections d). cn_id x = cn_id c \<or> cn_externalConnectionId x \<noteq> cn_externalConnectionId c"
    using assms(1,2) by (auto simp: cn_inv_def tbl_keys_def distinct_map dest: inj_onD)
  then have "tbl_keys cn_externalConnectionId ?rows"
    using assms by (intro tbl_keys_save_other) (auto simp: cn_inv_def)
  moreover have "\<forall>x\<in>set ?rows. cn_tenantId x \<in> t_id ` set (tenants d)"
    using set_tbl_save [of cn_id "c'\<lparr>cn_updatedAt := now\<rparr>" "connections d"] assms by (auto simp: cn_inv_def)
  ultimately show ?thesis using assms(1) by (auto simp: cn_update_def cn_inv_def intro: tbl_keys_save)
qed

lemma cn_inv_audit [simp]: "cn_inv (domain_audit_emit t a rt r m d) = cn_inv d"
  by (simp add: cn_inv_def)

lemma cn_step_inv:
  assumes "cn_inv d"
  shows "cn_inv (cn_step oper d)"
proof (cases oper)
  case (CN_create newid created now dto auth)
  have "cn_inv d'" if "cn_create c d = Some d'" for c d'
    using that assms
    by (auto simp: cn_create_def cn_inv_def tbl_keys_def split: if_splits dest!: tbl_insert_append)
  then show ?thesis using CN_create assms
    by (cases "cns_create newid created now dto auth d") (auto dest!: cns_create_ok)
next
  case (CN_update now cid dto auth)
  then show ?thesis using assms
    by (cases "cns_findById cid auth d")
      (auto simp: cns_update_def Let_def dest!: cns_findById_ok intro!: cn_update_inv)
next
  case (CN_delete cid auth)
  then show ?thesis using assms
    by (cases "cns_findById cid auth d")
      (auto simp: cns_delete_def cn_delete_def cn_inv_def set_tbl_delete tbl_keys_def tbl_delete_def distinct_map_filter)
qed

interpretation cn: invariant_system "\<lambda>d. d = empty_db" cn_step cn_inv
proof unfold_locales
  fix d assume "d = empty_db"
  then show "cn_inv d" by (simp add: cn_inv_def empty_db_def tbl_keys_def)
qed (rule cn_step_inv)

section \<open>Frame of another tenant's rows\<close>

text \<open>The rows of tenant \<open>t\<close>.\<close>

definition cn_rows :: "string \<Rightarrow> db \<Rightarrow> connection set" where
  "cn_rows t d = {c \<in> set (connections d). cn_tenantId c = t}"

text \<open>The authentication context a call carries.\<close>

fun cn_op_auth :: "cn_op \<Rightarrow> auth_context option" where
  "cn_op_auth (CN_create _ _ _ _ auth) = auth"
| "cn_op_auth (CN_update _ _ _ auth) = auth"
| "cn_op_auth (CN_delete _ auth) = auth"

lemma cn_step_frame:
  assumes "cn_inv d" "cn_op_auth oper = Some a" "PLATFORM_ADMIN_ROLE \<notin> set (ac_roles a)" "ac_tenantId a \<noteq> Some t"
  shows "cn_rows t (cn_step oper d) = cn_rows t d"
proof (cases oper)
  case (CN_create newid created now dto auth)
  have "cn_rows t d' = cn_rows t d" if "cn_create c d = Some d'" "cn_tenantId c \<noteq> t" for c d'
    using that by (auto simp: cn_create_def cn_rows_def split: if_splits dest!: set_tbl_insert)
  moreover have "cn_rows t (domain_audit_emit t' x rt r m e) = cn_rows t e" for t' x rt r m e by (simp add: cn_rows_def)
  ultimately show ?thesis using CN_create assms
    by (cases "cns_create newid created now dto auth d") (auto dest!: cns_create_ok)
next
  case (CN_update now cid dto auth)
  have "cn_rows t (domain_audit_emit t' x rt r m (cn_update now c' d)) = cn_rows t d"
    if "c \<in> set (connections d)" "cn_tenantId c \<noteq> t" "cn_id c' = cn_id c" "cn_tenantId c' = cn_tenantId c" for c c' t' x rt r m
    using that assms(1) set_tbl_save_keys [of cn_id "connections d" "c'\<lparr>cn_updatedAt := now\<rparr>"]
    by (auto simp: cn_rows_def cn_update_def cn_inv_def tbl_keys_def distinct_map dest: inj_onD)
  then show ?thesis using CN_update assms
    by (cases "cns_findById cid auth d") (auto simp: cns_update_def Let_def dest!: cns_findById_ok)
next
  case (CN_delete cid auth)
  have "cn_rows t (domain_audit_emit t' x rt r m (cn_delete (cn_id c) d)) = cn_rows t d"
    if "c \<in> set (connections d)" "cn_tenantId c \<noteq> t" for c t' x rt r m
    using that assms(1) by (auto simp: cn_rows_def cn_delete_def cn_inv_def set_tbl_delete tbl_keys_def distinct_map dest: inj_onD)
  then show ?thesis using CN_delete assms
    by (cases "cns_findById cid auth d") (auto simp: cns_delete_def dest!: cns_findById_ok)
qed

section \<open>Properties\<close>

text \<open>Connections of other tenants are out of reach. Along any sequence of creations, updates and
  removals whose callers are neither platform administrators nor of tenant \<open>t\<close>, from a database that
  satisfies the table constraints, the connections of \<open>t\<close> are exactly what they were.\<close>

theorem connections_isolated:
  assumes "cn_inv d"
    and "\<forall>oper\<in>set ops. \<exists>a. cn_op_auth oper = Some a \<and> PLATFORM_ADMIN_ROLE \<notin> set (ac_roles a) \<and> ac_tenantId a \<noteq> Some t"
  shows "cn_rows t (fold cn_step ops d) = cn_rows t d"
  using assms
proof (induction ops arbitrary: d)
  case (Cons oper ops)
  have "cn_rows t (fold cn_step ops (cn_step oper d)) = cn_rows t (cn_step oper d)"
    using Cons.prems by (intro Cons.IH cn_step_inv) auto
  then show ?case using cn_step_frame [of d oper _ t] Cons.prems by auto
qed simp

definition demo_connection :: connection where
  "demo_connection = \<lparr>cn_id = ''n1'', cn_tenantId = ''t1'', cn_externalConnectionId = ''x1'', cn_theirLabel = None,
     cn_theirDid = None, cn_state = C_ACTIVE, cn_connectorType = TRACTION, cn_protocol = DIDCOMM_V2,
     cn_metadata = [], cn_createdAt = 1, cn_updatedAt = 1\<rparr>"

theorem connections_isolated_witness:
  "cn_rows ''t1'' (fold cn_step [CN_delete ''n1'' (Some (demo_auth\<lparr>ac_tenantId := Some ''t2''\<rparr>))]
      (demo_db\<lparr>connections := [demo_connection]\<rparr>))
   = cn_rows ''t1'' (demo_db\<lparr>connections := [demo_connection]\<rparr>)"
proof -
  have i: "cn_inv (demo_db\<lparr>connections := [demo_connection]\<rparr>)"
    by (simp add: cn_inv_def demo_db_def demo_connection_def demo_tenant_def tbl_keys_def)
  have "\<forall>oper\<in>set [CN_delete ''n1'' (Some (demo_auth\<lparr>ac_tenantId := Some ''t2''\<rparr>))].
      \<exists>a. cn_op_auth oper = Some a \<and> PLATFORM_ADMIN_ROLE \<notin> set (ac_roles a) \<and> ac_tenantId a \<noteq> Some ''t1''"
    by (simp add: demo_auth_def)
  from connections_isolated [OF i this] show ?thesis .
qed

end
