(* ===== verification/Crypto.thy ===== *)
theory Crypto
  imports Prelude
begin

text \<open>
  \<^verbatim>\<open>common/crypto\<close>: the key provider and the encryption service for connector secrets.

  The cipher of the platform (AES-256-GCM) and \<^verbatim>\<open>JSON.stringify\<close>/\<^verbatim>\<open>JSON.parse\<close> are parameters;
  \<open>crypto_ok\<close> states what is relied upon: a 16-byte tag, opening a sealed message with the same key and
  nonce gives the message back, parsing a printed value gives the value back (\<^typ>\<open>'v\<close> is the type of the
  values a caller stores). \<open>js_number\<close> is \<^verbatim>\<open>Number(s)\<close>
  (\<^const>\<open>None\<close> for \<^verbatim>\<open>NaN\<close>).
\<close>

record 'v crypto_lib =
  gcm_seal :: "string \<Rightarrow> string \<Rightarrow> string \<Rightarrow> string \<times> string"
  gcm_open :: "string \<Rightarrow> string \<Rightarrow> string \<Rightarrow> string \<Rightarrow> string option"
  json_stringify :: "'v \<Rightarrow> string"
  json_parse :: "string \<Rightarrow> 'v option"

definition IV_LENGTH :: nat where "IV_LENGTH = 12"

definition AUTH_TAG_LENGTH :: nat where "AUTH_TAG_LENGTH = 16"

definition crypto_ok :: "'v crypto_lib \<Rightarrow> bool" where
  "crypto_ok lib =
     ((\<forall>key iv p. length (fst (gcm_seal lib key iv p)) = AUTH_TAG_LENGTH) \<and>
      (\<forall>key iv p. gcm_open lib key iv (fst (gcm_seal lib key iv p)) (snd (gcm_seal lib key iv p)) = Some p) \<and>
      (\<forall>v. json_parse lib (json_stringify lib v) = Some v))"

section \<open>KeyProviderService\<close>

record key_provider =
  kp_keys :: "(rat \<times> string) list"
  kp_currentVersion :: rat

datatype crypto_error =
    KeyUnavailable string
  | InvalidPayload
  | AuthTagMismatch
  | InvalidJson
  | ConfigError string

definition getKey :: "key_provider \<Rightarrow> rat \<Rightarrow> crypto_error + string" where
  "getKey kp version =
     (case map_of (kp_keys kp) version of
        None \<Rightarrow> Inl (KeyUnavailable ''Encryption key version is not configured.'')
      | Some k \<Rightarrow> Inr k)"

definition getCurrentKey :: "key_provider \<Rightarrow> crypto_error + (rat \<times> string)" where
  "getCurrentKey kp =
     (case map_of (kp_keys kp) (kp_currentVersion kp) of
        None \<Rightarrow> Inl (KeyUnavailable ''Current encryption key version is not available.'')
      | Some k \<Rightarrow> Inr (kp_currentVersion kp, k))"

definition kp_requiresRotation :: "key_provider \<Rightarrow> rat \<Rightarrow> bool" where
  "kp_requiresRotation kp version = (version \<noteq> kp_currentVersion kp)"

text \<open>\<^verbatim>\<open>Buffer.from(value, 'hex')\<close>: pairs of digits, up to the first pair that is not one.\<close>

fun hex_bytes :: "string \<Rightarrow> string" where
  "hex_bytes (a # b # cs) =
     (if is_hex a \<and> is_hex b then char_of (hex_val a * 16 + hex_val b) # hex_bytes cs else [])"
| "hex_bytes _ = []"

definition decodeKey :: "string \<Rightarrow> crypto_error + string" where
  "decodeKey value =
     (let key = hex_bytes value in
      if length key \<noteq> 32 then Inl (ConfigError ''Encryption key must be exactly 32 bytes (256 bits).'')
      else Inr key)"

definition validateConfig :: "json \<Rightarrow> (crypto_error + (rat \<times> (string \<times> json) list))" where
  "validateConfig config =
     (case jget config ''currentVersion'' of
        JNum n \<Rightarrow>
          if n = 0 then Inl (ConfigError ''Encryption configuration requires a numeric currentVersion.'')
          else (case jget config ''keys'' of
              JObj kvs \<Rightarrow>
                if kvs = [] then Inl (ConfigError ''Encryption configuration contains no keys.'')
                else Inr (n, kvs)
            | _ \<Rightarrow> Inl (ConfigError ''Encryption configuration requires a keys object.''))
      | _ \<Rightarrow> Inl (ConfigError ''Encryption configuration requires a numeric currentVersion.''))"

text \<open>The loop over \<^verbatim>\<open>Object.entries(config.keys)\<close>; a later entry with the same number replaces an
  earlier one. A version that is not a number is stored under \<^verbatim>\<open>NaN\<close>, which no lookup asks for.\<close>

fun load_entries ::
  "(string \<Rightarrow> rat option) \<Rightarrow> (string \<times> json) list \<Rightarrow> (rat \<times> string) list \<Rightarrow> crypto_error + (rat \<times> string) list" where
  "load_entries js_number [] acc = Inr acc"
| "load_entries js_number ((version, JStr encoded) # rest) acc =
     (case decodeKey encoded of
        Inl e \<Rightarrow> Inl e
      | Inr key \<Rightarrow>
          load_entries js_number rest (case js_number version of None \<Rightarrow> acc | Some n \<Rightarrow> (n, key) # acc))"
| "load_entries js_number (_ # rest) acc = Inl (ConfigError ''Encryption key is not valid hexadecimal.'')"

text \<open>\<open>contents\<close> is what reading and parsing the configured file yields (\<^const>\<open>None\<close>: no path, no file
  or no JSON).\<close>

definition loadKeys :: "(string \<Rightarrow> rat option) \<Rightarrow> json option \<Rightarrow> crypto_error + key_provider" where
  "loadKeys js_number contents =
     (case contents of
        None \<Rightarrow> Inl (ConfigError ''Unable to load encryption key configuration'')
      | Some config \<Rightarrow>
          (case validateConfig config of
             Inl e \<Rightarrow> Inl e
           | Inr (current, kvs) \<Rightarrow>
               (case load_entries js_number kvs [] of
                  Inl e \<Rightarrow> Inl e
                | Inr keys \<Rightarrow>
                    if current \<notin> fst ` set keys
                    then Inl (ConfigError ''Current encryption key version is not defined.'')
                    else Inr \<lparr>kp_keys = keys, kp_currentVersion = current\<rparr>)))"

section \<open>EncryptionService\<close>

record encryption_result =
  er_ciphertext :: string
  er_keyVersion :: rat

text \<open>\<open>iv\<close> is the random nonce of the call.\<close>

definition encrypt :: "'v crypto_lib \<Rightarrow> key_provider \<Rightarrow> string \<Rightarrow> 'v \<Rightarrow> crypto_error + encryption_result" where
  "encrypt lib kp iv value =
     (case getCurrentKey kp of
        Inl e \<Rightarrow> Inl e
      | Inr (version, key) \<Rightarrow>
          let (authTag, encrypted) = gcm_seal lib key iv (json_stringify lib value) in
          Inr \<lparr>er_ciphertext = iv @ authTag @ encrypted, er_keyVersion = version\<rparr>)"

definition decryptWithKey :: "'v crypto_lib \<Rightarrow> string \<Rightarrow> string \<Rightarrow> crypto_error + 'v" where
  "decryptWithKey lib ciphertext key =
     (if length ciphertext < IV_LENGTH + AUTH_TAG_LENGTH then Inl InvalidPayload
      else
        let iv = take IV_LENGTH ciphertext;
            authTag = take AUTH_TAG_LENGTH (drop IV_LENGTH ciphertext);
            encrypted = drop (IV_LENGTH + AUTH_TAG_LENGTH) ciphertext
        in case gcm_open lib key iv authTag encrypted of
             None \<Rightarrow> Inl AuthTagMismatch
           | Some p \<Rightarrow> (case json_parse lib p of None \<Rightarrow> Inl InvalidJson | Some v \<Rightarrow> Inr v))"

definition decrypt :: "'v crypto_lib \<Rightarrow> key_provider \<Rightarrow> string \<Rightarrow> rat \<Rightarrow> crypto_error + 'v" where
  "decrypt lib kp ciphertext keyVersion =
     (case getKey kp keyVersion of
        Inl e \<Rightarrow> Inl e
      | Inr key \<Rightarrow> decryptWithKey lib ciphertext key)"

definition requiresRotation :: "key_provider \<Rightarrow> rat \<Rightarrow> crypto_error + bool" where
  "requiresRotation kp keyVersion =
     (case getCurrentKey kp of Inl e \<Rightarrow> Inl e | Inr (version, _) \<Rightarrow> Inr (keyVersion \<noteq> version))"

section \<open>Facts\<close>

text \<open>A loaded provider: the current version has a key, and every key is 32 bytes long.\<close>

definition kp_ok :: "key_provider \<Rightarrow> bool" where
  "kp_ok kp = (kp_currentVersion kp \<in> fst ` set (kp_keys kp) \<and> list_all (\<lambda>(_, k). length k = 32) (kp_keys kp))"

lemma load_entries_len:
  "list_all (\<lambda>(_, k). length k = 32) acc \<Longrightarrow> load_entries nm kvs acc = Inr keys \<Longrightarrow>
     list_all (\<lambda>(_, k). length k = 32) keys"
  by (induction nm kvs acc rule: load_entries.induct)
    (auto simp: decodeKey_def Let_def split: sum.splits option.splits if_splits)

lemma loadKeys_ok:
  assumes "loadKeys nm contents = Inr kp"
  shows "kp_ok kp"
proof -
  obtain current kvs keys where "load_entries nm kvs [] = Inr keys" "current \<in> fst ` set keys"
    "kp = \<lparr>kp_keys = keys, kp_currentVersion = current\<rparr>"
    using assms unfolding loadKeys_def by (simp split: option.splits sum.splits prod.splits if_split_asm)
  then show ?thesis using load_entries_len [of "[]" nm kvs keys] by (simp add: kp_ok_def)
qed

lemma getCurrentKey_ok:
  "kp_ok kp \<Longrightarrow> \<exists>key. getCurrentKey kp = Inr (kp_currentVersion kp, key) \<and> length key = 32
      \<and> getKey kp (kp_currentVersion kp) = Inr key"
  by (auto simp: getCurrentKey_def getKey_def kp_ok_def list_all_iff split: option.splits
      dest!: map_of_SomeD simp: map_of_eq_None_iff)

lemma encrypt_decryptWithKey:
  assumes "crypto_ok lib" "length iv = IV_LENGTH" "gcm_seal lib key iv (json_stringify lib v) = (tag, c)"
  shows "decryptWithKey lib (iv @ tag @ c) key = Inr v"
proof -
  have "length tag = AUTH_TAG_LENGTH" "gcm_open lib key iv tag c = Some (json_stringify lib v)"
    using assms unfolding crypto_ok_def by (metis fst_conv snd_conv)+
  then show ?thesis using assms(1,2) by (simp add: decryptWithKey_def crypto_ok_def)
qed

section \<open>Properties\<close>


text \<open>A transparent cipher with a constant tag, and strings as values, for the witnesses.\<close>

definition demo_cipher :: "('v \<Rightarrow> string) \<Rightarrow> (string \<Rightarrow> 'v option) \<Rightarrow> 'v crypto_lib" where
  "demo_cipher pr ps = \<lparr>gcm_seal = (\<lambda>key iv p. (replicate 16 CHR ''t'', p)),
     gcm_open = (\<lambda>key iv tag c. if tag = replicate 16 CHR ''t'' then Some c else None),
     json_stringify = pr, json_parse = ps\<rparr>"

lemma demo_cipher_ok: "(\<And>v. ps (pr v) = Some v) \<Longrightarrow> crypto_ok (demo_cipher pr ps)"
  by (simp add: crypto_ok_def demo_cipher_def AUTH_TAG_LENGTH_def)

definition demo_key_file :: json where
  "demo_key_file = JObj [(''currentVersion'', JNum 2),
     (''keys'', JObj [(''1'', JStr (replicate 64 CHR ''a'')), (''2'', JStr (replicate 64 CHR ''b''))])]"

definition demo_number :: "string \<Rightarrow> rat option" where
  "demo_number s = (if s = ''1'' then Some 1 else if s = ''2'' then Some 2 else None)"

definition demo_keys :: key_provider where
  "demo_keys = \<lparr>kp_keys = [(2, replicate 32 (char_of (187 :: nat))), (1, replicate 32 (char_of (170 :: nat)))],
     kp_currentVersion = 2\<rparr>"

lemma hex_bytes_same: "is_hex c \<Longrightarrow> hex_bytes (replicate (2 * n) c) = replicate n (char_of (hex_val c * 17))"
  by (induction n) (simp_all add: numeral_2_eq_2 mult.commute)

lemma demo_loadKeys: "loadKeys demo_number (Some demo_key_file) = Inr demo_keys"
proof -
  have "is_hex CHR ''a''" "hex_val CHR ''a'' = 10" "is_hex CHR ''b''" "hex_val CHR ''b'' = 11" by code_simp+
  then have "hex_bytes (replicate 64 CHR ''a'') = replicate 32 (char_of (170 :: nat))"
    "hex_bytes (replicate 64 CHR ''b'') = replicate 32 (char_of (187 :: nat))"
    using hex_bytes_same [of "CHR ''a''" 32] hex_bytes_same [of "CHR ''b''" 32] by simp_all
  then show ?thesis
    by (simp add: loadKeys_def validateConfig_def demo_key_file_def demo_number_def demo_keys_def decodeKey_def Let_def)
qed


end
