(* ===== verification/Connector_Credential.thy ===== *)
theory Connector_Credential
  imports Access Crypto Uri "HOL-Library.Word"
begin

text \<open>
  \<^verbatim>\<open>connector-credential\<close> with \<^verbatim>\<open>common/assert-safe-connector-url.ts\<close>,
  \<^verbatim>\<open>common/traction-token-request.ts\<close> and \<^verbatim>\<open>connector-health-check.service.ts\<close>: the encrypted secrets of a
  tenant's agents, their lazy re-encryption under the current key, and the check that a tenant-supplied
  endpoint does not point into the internal network.

  Parameters: the URL parser, DNS, the HTTP client, and the address classifiers of the \<^verbatim>\<open>ip-address\<close>
  package. \<open>ip_ok\<close> states which ranges these classifiers cover, as their documentation and the comments
  of the source say.
\<close>

section \<open>Endpoint addresses\<close>

datatype ip = IPv4 "32 word" | IPv6 "128 word"

record ip_lib =
  a4_isPrivate :: "32 word \<Rightarrow> bool"
  a4_isLoopback :: "32 word \<Rightarrow> bool"
  a4_isLinkLocal :: "32 word \<Rightarrow> bool"
  a4_isUnspecified :: "32 word \<Rightarrow> bool"
  a4_isBroadcast :: "32 word \<Rightarrow> bool"
  a4_isMulticast :: "32 word \<Rightarrow> bool"
  a4_isCGNAT :: "32 word \<Rightarrow> bool"
  a4_isHostInSubnet :: "32 word \<Rightarrow> 32 word \<times> nat \<Rightarrow> bool"
  a6_isLoopback :: "128 word \<Rightarrow> bool"
  a6_isUnspecified :: "128 word \<Rightarrow> bool"
  a6_isLinkLocal :: "128 word \<Rightarrow> bool"
  a6_isMulticast :: "128 word \<Rightarrow> bool"
  a6_isPrivate :: "128 word \<Rightarrow> bool"
  a6_isCGNAT :: "128 word \<Rightarrow> bool"
  a6_isBroadcast :: "128 word \<Rightarrow> bool"
  a6_isDocumentation :: "128 word \<Rightarrow> bool"

record net_lib =
  url_parse :: "string \<Rightarrow> (string \<times> string) option"
  ip_parse :: "string \<Rightarrow> ip option"
  dns_lookup :: "string \<Rightarrow> string list option"
  net_ip :: ip_lib
  http_status :: "string \<Rightarrow> string + nat"

definition ip4 :: "nat \<Rightarrow> nat \<Rightarrow> nat \<Rightarrow> nat \<Rightarrow> 32 word" where
  "ip4 a b c d = word_of_nat (((a * 256 + b) * 256 + c) * 256 + d)"

definition IPV4_DISALLOWED_SUBNETS :: "(32 word \<times> nat) list" where
  "IPV4_DISALLOWED_SUBNETS =
     [(ip4 0 0 0 0, 8), (ip4 192 0 0 0, 24), (ip4 192 0 2 0, 24), (ip4 198 18 0 0, 15),
      (ip4 198 51 100 0, 24), (ip4 203 0 113 0, 24), (ip4 240 0 0 0, 4)]"

definition isDisallowedIPv4 :: "ip_lib \<Rightarrow> 32 word \<Rightarrow> bool" where
  "isDisallowedIPv4 lib a =
     (a4_isPrivate lib a \<or> a4_isLoopback lib a \<or> a4_isLinkLocal lib a \<or> a4_isUnspecified lib a
      \<or> a4_isBroadcast lib a \<or> a4_isMulticast lib a \<or> a4_isCGNAT lib a
      \<or> list_ex (\<lambda>subnet. a4_isHostInSubnet lib a subnet) IPV4_DISALLOWED_SUBNETS)"

definition isDisallowedIPv6 :: "ip_lib \<Rightarrow> 128 word \<Rightarrow> bool" where
  "isDisallowedIPv6 lib a =
     (a6_isLoopback lib a \<or> a6_isUnspecified lib a \<or> a6_isLinkLocal lib a \<or> a6_isMulticast lib a
      \<or> a6_isPrivate lib a \<or> a6_isCGNAT lib a \<or> a6_isBroadcast lib a \<or> a6_isDocumentation lib a)"

definition isDisallowedAddress :: "net_lib \<Rightarrow> string \<Rightarrow> bool" where
  "isDisallowedAddress net address =
     (case ip_parse net address of
        Some (IPv4 a) \<Rightarrow> isDisallowedIPv4 (net_ip net) a
      | Some (IPv6 a) \<Rightarrow> isDisallowedIPv6 (net_ip net) a
      | None \<Rightarrow> True)"

definition resolveHostnameAddresses :: "net_lib \<Rightarrow> string \<Rightarrow> string list result" where
  "resolveHostnameAddresses net hostname =
     (case dns_lookup net hostname of
        None \<Rightarrow> Err (UnprocessableEntity ''Connector endpoint hostname could not be resolved.'')
      | Some addrs \<Rightarrow> Ok addrs)"

text \<open>\<^verbatim>\<open>replace(/^\[|\]$/g, '')\<close>: the brackets of an IPv6 literal.\<close>

definition strip_brackets :: "string \<Rightarrow> string" where
  "strip_brackets s =
     (let s1 = (if s \<noteq> [] \<and> hd s = CHR ''['' then tl s else s) in
      if s1 \<noteq> [] \<and> last s1 = CHR '']'' then butlast s1 else s1)"

definition assertSafeConnectorUrl :: "net_lib \<Rightarrow> string \<Rightarrow> unit result" where
  "assertSafeConnectorUrl net rawUrl =
     (case url_parse net rawUrl of
        None \<Rightarrow> Err (UnprocessableEntity ''Connector endpoint URL is not a valid URL.'')
      | Some (protocol, host) \<Rightarrow>
          if protocol \<noteq> ''https:'' then Err (UnprocessableEntity ''Connector endpoint URL must use https.'')
          else
            let hostname = strip_brackets host in
            rbind (if ip_parse net hostname \<noteq> None then Ok [hostname] else resolveHostnameAddresses net hostname)
              (\<lambda>addresses.
                 if addresses = []
                 then Err (UnprocessableEntity ''Connector endpoint hostname could not be resolved.'')
                 else if list_ex (isDisallowedAddress net) addresses
                 then Err (UnprocessableEntity
                        ''Connector endpoint resolves to a private, loopback, or reserved network address.'')
                 else Ok ()))"

section \<open>Health check\<close>

record connector_credentials_dto =
  cred_apiKey :: string
  cred_tractionTenantId :: "string option"

definition buildTractionTokenUrl :: "string \<Rightarrow> string \<Rightarrow> string" where
  "buildTractionTokenUrl endpointUrl tractionTenantId =
     endpointUrl @ ''/multitenancy/tenant/'' @ encodeURIComponent tractionTenantId @ ''/token''"

text \<open>Status and message of a check; the latency is not modelled.\<close>

datatype health = Healthy | Unhealthy string

definition toResult :: "string + nat \<Rightarrow> health" where
  "toResult response =
     (case response of
        Inl message \<Rightarrow> Unhealthy message
      | Inr status \<Rightarrow>
          if response_ok status then Healthy else Unhealthy (''Unexpected response status '' @ show_nat status))"

definition checkTraction :: "net_lib \<Rightarrow> string \<Rightarrow> connector_credentials_dto \<Rightarrow> health result" where
  "checkTraction net endpointUrl creds =
     rbind (assertSafeConnectorUrl net endpointUrl) (\<lambda>_.
       case cred_tractionTenantId creds of
         None \<Rightarrow> Ok (Unhealthy ''Traction connectors require traction_tenant_id.'')
       | Some t \<Rightarrow>
           if t = [] then Ok (Unhealthy ''Traction connectors require traction_tenant_id.'')
           else Ok (toResult (http_status net (buildTractionTokenUrl endpointUrl t))))"

definition checkCredo :: "net_lib \<Rightarrow> string \<Rightarrow> connector_credentials_dto \<Rightarrow> health result" where
  "checkCredo net endpointUrl creds =
     rbind (assertSafeConnectorUrl net endpointUrl) (\<lambda>_.
       Ok (toResult (http_status net (endpointUrl @ ''/health''))))"

definition health_check :: "net_lib \<Rightarrow> connector_type \<Rightarrow> string \<Rightarrow> connector_credentials_dto \<Rightarrow> health result" where
  "health_check net connectorType endpointUrl creds =
     (case connectorType of
        TRACTION \<Rightarrow> checkTraction net endpointUrl creds
      | CREDO \<Rightarrow> checkCredo net endpointUrl creds)"

section \<open>ConnectorCredentialRepository\<close>

definition cc_find :: "string \<Rightarrow> db \<Rightarrow> connector_credential option" where
  "cc_find cid d = tbl_find cc_id cid (connector_credentials d)"

definition cc_findWhere :: "(connector_credential \<Rightarrow> bool) \<Rightarrow> db \<Rightarrow> connector_credential list" where
  "cc_findWhere p d = sort_key (\<lambda>c. - cc_createdAt c) (filter p (connector_credentials d))"

definition cc_update ::
  "time \<Rightarrow> string \<Rightarrow> (connector_credential \<Rightarrow> connector_credential) \<Rightarrow> db \<Rightarrow> connector_credential option \<times> db" where
  "cc_update now cid f d =
     (let d' = d\<lparr>connector_credentials :=
                   tbl_update (\<lambda>c. cc_id c = cid) (\<lambda>c. (f c)\<lparr>cc_updatedAt := now\<rparr>) (connector_credentials d)\<rparr>
      in (cc_find cid d', d'))"

definition cc_delete :: "string \<Rightarrow> db \<Rightarrow> db" where
  "cc_delete cid d = d\<lparr>connector_credentials := tbl_delete cc_id cid (connector_credentials d)\<rparr>"

definition cc_deactivateAllForTenant :: "string \<Rightarrow> db \<Rightarrow> nat \<times> db" where
  "cc_deactivateAllForTenant tenantId d =
     (length (filter (\<lambda>c. cc_tenantId c = tenantId \<and> cc_active c) (connector_credentials d)),
      d\<lparr>connector_credentials :=
          tbl_update (\<lambda>c. cc_tenantId c = tenantId \<and> cc_active c) (\<lambda>c. c\<lparr>cc_active := False\<rparr>) (connector_credentials d)\<rparr>)"

definition existsByConnectorId :: "string \<Rightarrow> db \<Rightarrow> bool" where
  "existsByConnectorId cid d = list_ex (\<lambda>c. cr_connectorId c = cid) (credentials d)"

section \<open>ConnectorCredentialService\<close>

record cc_env =
  ce_crypto :: "connector_credentials_dto crypto_lib"
  ce_keys :: key_provider
  ce_net :: net_lib

abbreviation crypto_failure :: http_error where
  "crypto_failure \<equiv> InternalError ''Encryption service error''"

definition assertHealthy ::
  "cc_env \<Rightarrow> connector_type \<Rightarrow> string \<Rightarrow> connector_credentials_dto \<Rightarrow> unit result" where
  "assertHealthy env connectorType endpointUrl creds =
     rbind (health_check (ce_net env) connectorType endpointUrl creds) (\<lambda>h.
       case h of
         Healthy \<Rightarrow> Ok ()
       | Unhealthy m \<Rightarrow> Err (UnprocessableEntity
           (''Could not verify connectivity to the connector endpoint: '' @ m)))"

definition lazyRotateKeyIfNeeded ::
  "cc_env \<Rightarrow> string \<Rightarrow> time \<Rightarrow> connector_credential \<Rightarrow> db \<Rightarrow> (connector_credential \<times> db) result" where
  "lazyRotateKeyIfNeeded env iv now c d =
     (case requiresRotation (ce_keys env) (cc_keyVersion c) of
        Inl _ \<Rightarrow> Err crypto_failure
      | Inr False \<Rightarrow> Ok (c, d)
      | Inr True \<Rightarrow>
          (case decrypt (ce_crypto env) (ce_keys env) (cc_credentialsEncrypted c) (cc_keyVersion c) of
             Inl _ \<Rightarrow> Err crypto_failure
           | Inr secret \<Rightarrow>
               (case encrypt (ce_crypto env) (ce_keys env) iv secret of
                  Inl _ \<Rightarrow> Err crypto_failure
                | Inr r \<Rightarrow>
                    Ok (c\<lparr>cc_credentialsEncrypted := er_ciphertext r, cc_keyVersion := er_keyVersion r\<rparr>,
                        snd (cc_update now (cc_id c)
                          (\<lambda>x. x\<lparr>cc_credentialsEncrypted := er_ciphertext r, cc_keyVersion := er_keyVersion r\<rparr>) d)))))"

definition cc_not_found :: "string \<Rightarrow> string" where
  "cc_not_found cid = ''Connector credential with ID '' @ quoted cid @ '' was not found.''"

definition ccs_findById ::
  "cc_env \<Rightarrow> string \<Rightarrow> time \<Rightarrow> string \<Rightarrow> auth_context option \<Rightarrow> db \<Rightarrow> (connector_credential \<times> db) result" where
  "ccs_findById env iv now cid auth d =
     (case cc_find cid d of
        None \<Rightarrow> Err (NotFound (cc_not_found cid))
      | Some c \<Rightarrow>
          rbind (assertResourceTenantOrNotFound auth (cc_tenantId c) (cc_not_found cid)) (\<lambda>_.
            lazyRotateKeyIfNeeded env iv now c d))"

text \<open>\<^verbatim>\<open>Promise.all\<close> over the rows: every rotation runs, the call fails when one failed. \<open>ivs\<close> gives the
  nonce used for each row.\<close>

fun rotate_all ::
  "cc_env \<Rightarrow> (string \<Rightarrow> string) \<Rightarrow> time \<Rightarrow> connector_credential list \<Rightarrow> db
     \<Rightarrow> connector_credential list result \<times> db" where
  "rotate_all env ivs now [] d = (Ok [], d)"
| "rotate_all env ivs now (c # cs) d =
     (case lazyRotateKeyIfNeeded env (ivs (cc_id c)) now c d of
        Inl e \<Rightarrow> (Err e, snd (rotate_all env ivs now cs d))
      | Inr (c', d') \<Rightarrow>
          (case rotate_all env ivs now cs d' of
             (Inl e, d'') \<Rightarrow> (Err e, d'')
           | (Inr cs', d'') \<Rightarrow> (Ok (c' # cs'), d'')))"

definition ccs_findByTenant ::
  "cc_env \<Rightarrow> (string \<Rightarrow> string) \<Rightarrow> time \<Rightarrow> string \<Rightarrow> db \<Rightarrow> connector_credential list result \<times> db" where
  "ccs_findByTenant env ivs now tenantId d =
     rotate_all env ivs now (cc_findWhere (\<lambda>c. cc_tenantId c = tenantId) d) d"

definition ccs_findByTenantAndConnectorType ::
  "cc_env \<Rightarrow> (string \<Rightarrow> string) \<Rightarrow> time \<Rightarrow> string \<Rightarrow> connector_type \<Rightarrow> db \<Rightarrow> connector_credential list result \<times> db" where
  "ccs_findByTenantAndConnectorType env ivs now tenantId ty d =
     rotate_all env ivs now (cc_findWhere (\<lambda>c. cc_tenantId c = tenantId \<and> cc_connectorType c = ty) d) d"

definition ccs_findByTenantAndConnectorTypeAndActive ::
  "cc_env \<Rightarrow> (string \<Rightarrow> string) \<Rightarrow> time \<Rightarrow> string \<Rightarrow> connector_type \<Rightarrow> bool \<Rightarrow> db
     \<Rightarrow> connector_credential list result \<times> db" where
  "ccs_findByTenantAndConnectorTypeAndActive env ivs now tenantId ty active d =
     rotate_all env ivs now
       (cc_findWhere (\<lambda>c. cc_tenantId c = tenantId \<and> cc_connectorType c = ty \<and> cc_active c = active) d) d"

definition ccs_create ::
  "cc_env \<Rightarrow> string \<Rightarrow> string \<Rightarrow> micros \<Rightarrow> time \<Rightarrow> string \<Rightarrow> connector_type \<Rightarrow> string \<Rightarrow> connector_credentials_dto
     \<Rightarrow> auth_context option \<Rightarrow> db \<Rightarrow> (connector_credential \<times> db) result" where
  "ccs_create env iv newid created now tenantId ty endpointUrl creds auth d =
     rbind (assertTenantAccess auth tenantId) (\<lambda>_.
       if tn_findById tenantId d = None then Err (NotFound ''Tenant not found'')
       else rbind (assertHealthy env ty endpointUrl creds) (\<lambda>_.
         case encrypt (ce_crypto env) (ce_keys env) iv creds of
           Inl _ \<Rightarrow> Err crypto_failure
         | Inr r \<Rightarrow>
             let c = \<lparr>cc_id = newid, cc_tenantId = tenantId, cc_connectorType = ty,
                      cc_credentialsEncrypted = er_ciphertext r, cc_endpointUrl = endpointUrl, cc_active = True,
                      cc_keyVersion = er_keyVersion r, cc_createdAt = created, cc_updatedAt = now\<rparr>
             in case tbl_insert cc_id c (connector_credentials d) of
                  None \<Rightarrow> Err db_error
                | Some rows \<Rightarrow> Ok (c, d\<lparr>connector_credentials := rows\<rparr>)))"

record update_cc_dto =
  ucc_endpointUrl :: "string option"
  ucc_credentials :: "connector_credentials_dto option"

definition cc_updates :: "update_cc_dto \<Rightarrow> encryption_result option \<Rightarrow> connector_credential \<Rightarrow> connector_credential" where
  "cc_updates dto enc c =
     (let c1 = (case ucc_endpointUrl dto of None \<Rightarrow> c | Some u \<Rightarrow> c\<lparr>cc_endpointUrl := u\<rparr>) in
      case enc of
        None \<Rightarrow> c1
      | Some r \<Rightarrow> c1\<lparr>cc_credentialsEncrypted := er_ciphertext r, cc_keyVersion := er_keyVersion r\<rparr>)"

text \<open>\<open>iv\<close>, \<open>iv2\<close>, \<open>iv3\<close> are the nonces of the up to three encryptions of one call. The two \<^verbatim>\<open>findById\<close> and
  the final read may each rotate.\<close>

definition ccs_update ::
  "cc_env \<Rightarrow> string \<Rightarrow> string \<Rightarrow> string \<Rightarrow> time \<Rightarrow> string \<Rightarrow> update_cc_dto \<Rightarrow> auth_context option \<Rightarrow> db
     \<Rightarrow> (connector_credential result) \<times> db" where
  "ccs_update env iv iv2 iv3 now cid dto auth d =
     (case ccs_findById env iv now cid auth d of
        Inl e \<Rightarrow> (Err e, d)
      | Inr (existing, d1) \<Rightarrow>
          let endpointUrl = (case ucc_endpointUrl dto of None \<Rightarrow> cc_endpointUrl existing | Some u \<Rightarrow> u);
              prepared =
                (case ucc_credentials dto of
                   Some creds \<Rightarrow>
                     rbind (assertHealthy env (cc_connectorType existing) endpointUrl creds) (\<lambda>_.
                       case encrypt (ce_crypto env) (ce_keys env) iv2 creds of
                         Inl _ \<Rightarrow> Err crypto_failure
                       | Inr r \<Rightarrow> Ok (Some r))
                 | None \<Rightarrow>
                     if ucc_endpointUrl dto \<noteq> None then
                       (case decrypt (ce_crypto env) (ce_keys env) (cc_credentialsEncrypted existing) (cc_keyVersion existing) of
                          Inl _ \<Rightarrow> Err crypto_failure
                        | Inr secret \<Rightarrow>
                            rbind (assertHealthy env (cc_connectorType existing) endpointUrl secret) (\<lambda>_. Ok None))
                     else Err (BadRequest ''At least one of endpoint_url or credentials must be provided.''))
          in case prepared of
               Inl e \<Rightarrow> (Err e, d1)
             | Inr enc \<Rightarrow>
                 (case cc_update now cid (cc_updates dto enc) d1 of
                    (None, d2) \<Rightarrow> (Err (NotFound (cc_not_found cid)), d2)
                  | (Some updated, d2) \<Rightarrow>
                      (case lazyRotateKeyIfNeeded env iv3 now updated d2 of
                         Inl e \<Rightarrow> (Err e, d2)
                       | Inr (c, d3) \<Rightarrow> (Ok c, d3))))"

definition ccs_delete ::
  "cc_env \<Rightarrow> string \<Rightarrow> time \<Rightarrow> string \<Rightarrow> auth_context option \<Rightarrow> db \<Rightarrow> unit result \<times> db" where
  "ccs_delete env iv now cid auth d =
     (case ccs_findById env iv now cid auth d of
        Inl e \<Rightarrow> (Err e, d)
      | Inr (c, d1) \<Rightarrow>
          if existsByConnectorId cid d1
          then (Err (Conflict ''Cannot delete connector: credential records still reference it.''), d1)
          else (Ok (), cc_delete cid d1))"

definition ccs_testConnectivity ::
  "cc_env \<Rightarrow> string \<Rightarrow> time \<Rightarrow> string \<Rightarrow> auth_context option \<Rightarrow> db \<Rightarrow> health result \<times> db" where
  "ccs_testConnectivity env iv now cid auth d =
     (case ccs_findById env iv now cid auth d of
        Inl e \<Rightarrow> (Err e, d)
      | Inr (c, d1) \<Rightarrow>
          (case decrypt (ce_crypto env) (ce_keys env) (cc_credentialsEncrypted c) (cc_keyVersion c) of
             Inl _ \<Rightarrow> (Err crypto_failure, d1)
           | Inr secret \<Rightarrow> (health_check (ce_net env) (cc_connectorType c) (cc_endpointUrl c) secret, d1)))"

section \<open>What is relied upon of the address classifiers\<close>

definition in_subnet :: "32 word \<Rightarrow> 32 word \<times> nat \<Rightarrow> bool" where
  "in_subnet a s = (drop_bit (32 - snd s) a = drop_bit (32 - snd s) (fst s))"

definition private4 :: "(32 word \<times> nat) list" where
  "private4 = [(ip4 10 0 0 0, 8), (ip4 172 16 0 0, 12), (ip4 192 168 0 0, 16)]"

definition reserved4 :: "(32 word \<times> nat) list" where
  "reserved4 = private4 @ [(ip4 127 0 0 0, 8), (ip4 169 254 0 0, 16), (ip4 0 0 0 0, 32), (ip4 255 255 255 255, 32),
     (ip4 224 0 0 0, 4), (ip4 100 64 0 0, 10)] @ IPV4_DISALLOWED_SUBNETS"

definition ip_ok :: "ip_lib \<Rightarrow> bool" where
  "ip_ok lib =
     (\<forall>a. (list_ex (in_subnet a) private4 \<longrightarrow> a4_isPrivate lib a)
        \<and> (in_subnet a (ip4 127 0 0 0, 8) \<longrightarrow> a4_isLoopback lib a)
        \<and> (in_subnet a (ip4 169 254 0 0, 16) \<longrightarrow> a4_isLinkLocal lib a)
        \<and> (in_subnet a (ip4 0 0 0 0, 32) \<longrightarrow> a4_isUnspecified lib a)
        \<and> (in_subnet a (ip4 255 255 255 255, 32) \<longrightarrow> a4_isBroadcast lib a)
        \<and> (in_subnet a (ip4 224 0 0 0, 4) \<longrightarrow> a4_isMulticast lib a)
        \<and> (in_subnet a (ip4 100 64 0 0, 10) \<longrightarrow> a4_isCGNAT lib a)
        \<and> (\<forall>s. in_subnet a s \<longrightarrow> a4_isHostInSubnet lib a s))"

lemma allowed4:
  assumes "ip_ok lib" "\<not> isDisallowedIPv4 lib a"
  shows "\<not> list_ex (in_subnet a) reserved4"
proof -
  note cover = assms(1) [unfolded ip_ok_def, rule_format, of a]
  show ?thesis using assms(2) cover
    by (auto simp: reserved4_def isDisallowedIPv4_def list_ex_iff)
qed

lemma assertSafeConnectorUrl_Ok:
  assumes "assertSafeConnectorUrl net url = Inr ()"
  shows "\<exists>host addresses. url_parse net url = Some (''https:'', host) \<and> addresses \<noteq> []
    \<and> (addresses = [strip_brackets host] \<or> dns_lookup net (strip_brackets host) = Some addresses)
    \<and> \<not> list_ex (isDisallowedAddress net) addresses"
proof -
  obtain protocol host where u: "url_parse net url = Some (protocol, host)"
    using assms by (cases "url_parse net url") (auto simp: assertSafeConnectorUrl_def)
  have pr: "protocol = ''https:''"
    using assms u by (simp add: assertSafeConnectorUrl_def split: if_split_asm)
  obtain addresses where ad: "(if ip_parse net (strip_brackets host) \<noteq> None then Ok [strip_brackets host]
      else resolveHostnameAddresses net (strip_brackets host)) = Inr addresses"
    "addresses \<noteq> []" "\<not> list_ex (isDisallowedAddress net) addresses"
    using assms u pr by (auto simp: assertSafeConnectorUrl_def Let_def rbind_eq_Inr if_Err_eq_Ok simp del: not_None_eq)
  then have "addresses = [strip_brackets host] \<or> dns_lookup net (strip_brackets host) = Some addresses"
    by (simp add: resolveHostnameAddresses_def split: if_split_asm option.splits)
  then show ?thesis using u pr ad(2,3) by blast
qed

section \<open>Facts: rotation\<close>

definition secret_of :: "cc_env \<Rightarrow> connector_credential \<Rightarrow> crypto_error + connector_credentials_dto" where
  "secret_of env c = decrypt (ce_crypto env) (ce_keys env) (cc_credentialsEncrypted c) (cc_keyVersion c)"

lemma encrypt_current:
  assumes "crypto_ok lib" "kp_ok kp" "length iv = 12"
  shows "\<exists>r. encrypt lib kp iv v = Inr r \<and> er_keyVersion r = kp_currentVersion kp
           \<and> decrypt lib kp (er_ciphertext r) (er_keyVersion r) = Inr v"
proof -
  obtain key where k: "getCurrentKey kp = Inr (kp_currentVersion kp, key)" "getKey kp (kp_currentVersion kp) = Inr key"
    using getCurrentKey_ok [OF assms(2)] by blast
  obtain tag c where s: "gcm_seal lib key iv (json_stringify lib v) = (tag, c)" by fastforce
  then have "decryptWithKey lib (iv @ tag @ c) key = Inr v"
    using encrypt_decryptWithKey assms(1,3) by (simp add: IV_LENGTH_def)
  then show ?thesis using k s by (simp add: encrypt_def decrypt_def)
qed

lemma cc_find_update:
  "(\<And>c. cc_id (f c) = cc_id c) \<Longrightarrow> cc_find k (snd (cc_update now cid f d)) =
     map_option (\<lambda>c. if cc_id c = cid then (f c)\<lparr>cc_updatedAt := now\<rparr> else c) (cc_find k d)"
  by (simp add: cc_find_def cc_update_def Let_def tbl_find_update)

lemma lazyRotate_current:
  assumes "crypto_ok (ce_crypto env)" "kp_ok (ce_keys env)" "length iv = 12"
    and "cc_find (cc_id c) d = Some c" "secret_of env c = Inr v"
  shows "\<exists>c' d'. lazyRotateKeyIfNeeded env iv now c d = Ok (c', d') \<and> secret_of env c' = Inr v
           \<and> cc_keyVersion c' = kp_currentVersion (ce_keys env)
           \<and> (\<exists>row. cc_find (cc_id c) d' = Some row \<and> c' = row\<lparr>cc_updatedAt := cc_updatedAt c\<rparr>)
           \<and> (\<forall>k. k \<noteq> cc_id c \<longrightarrow> cc_find k d' = cc_find k d)"
proof -
  obtain key where k: "getCurrentKey (ce_keys env) = Inr (kp_currentVersion (ce_keys env), key)"
    using getCurrentKey_ok [OF assms(2)] by blast
  show ?thesis
  proof (cases "cc_keyVersion c = kp_currentVersion (ce_keys env)")
    case True
    then show ?thesis using k assms(4,5) by (simp add: lazyRotateKeyIfNeeded_def requiresRotation_def)
  next
    case False
    obtain r where r: "encrypt (ce_crypto env) (ce_keys env) iv v = Inr r"
      "er_keyVersion r = kp_currentVersion (ce_keys env)"
      "decrypt (ce_crypto env) (ce_keys env) (er_ciphertext r) (er_keyVersion r) = Inr v"
      using encrypt_current [OF assms(1-3)] by blast
    have find: "cc_find k d' = (if k = cc_id c then map_option (\<lambda>x. x\<lparr>cc_credentialsEncrypted := er_ciphertext r,
          cc_keyVersion := er_keyVersion r, cc_updatedAt := now\<rparr>) (cc_find k d) else cc_find k d)"
      if "d' = snd (cc_update now (cc_id c) (\<lambda>x. x\<lparr>cc_credentialsEncrypted := er_ciphertext r,
          cc_keyVersion := er_keyVersion r\<rparr>) d)" for k d'
      unfolding that by (subst cc_find_update, simp)
        (cases "cc_find k d", auto simp: cc_find_def dest: tbl_find_Some)
    show ?thesis
      using False k r assms(4,5) find [OF refl]
      by (auto simp: lazyRotateKeyIfNeeded_def requiresRotation_def secret_of_def)
  qed
qed

section \<open>Properties\<close>


text \<open>Classifiers computed from the ranges, and a network with one public host.\<close>

definition demo_ip :: ip_lib where
  "demo_ip = \<lparr>a4_isPrivate = (\<lambda>a. list_ex (in_subnet a) private4), a4_isLoopback = (\<lambda>a. in_subnet a (ip4 127 0 0 0, 8)),
     a4_isLinkLocal = (\<lambda>a. in_subnet a (ip4 169 254 0 0, 16)), a4_isUnspecified = (\<lambda>a. in_subnet a (ip4 0 0 0 0, 32)),
     a4_isBroadcast = (\<lambda>a. in_subnet a (ip4 255 255 255 255, 32)), a4_isMulticast = (\<lambda>a. in_subnet a (ip4 224 0 0 0, 4)),
     a4_isCGNAT = (\<lambda>a. in_subnet a (ip4 100 64 0 0, 10)), a4_isHostInSubnet = in_subnet,
     a6_isLoopback = (\<lambda>a. a = 1), a6_isUnspecified = (\<lambda>a. a = 0), a6_isLinkLocal = (\<lambda>a. False),
     a6_isMulticast = (\<lambda>a. False), a6_isPrivate = (\<lambda>a. False), a6_isCGNAT = (\<lambda>a. False),
     a6_isBroadcast = (\<lambda>a. False), a6_isDocumentation = (\<lambda>a. False)\<rparr>"

definition demo_netlib :: net_lib where
  "demo_netlib = \<lparr>url_parse = (\<lambda>u. if u = ''https://agent.x'' then Some (''https:'', ''agent.x'') else None),
     ip_parse = (\<lambda>s. if s = ''8.8.8.8'' then Some (IPv4 (ip4 8 8 8 8)) else None),
     dns_lookup = (\<lambda>h. if h = ''agent.x'' then Some [''8.8.8.8''] else None),
     net_ip = demo_ip, http_status = (\<lambda>u. Inr 200)\<rparr>"

lemma demo_ip_ok: "ip_ok demo_ip"
  by (simp add: ip_ok_def demo_ip_def)

lemma demo_url_safe: "assertSafeConnectorUrl demo_netlib ''https://agent.x'' = Ok ()"
  by (simp add: assertSafeConnectorUrl_def demo_netlib_def demo_ip_def strip_brackets_def resolveHostnameAddresses_def
      isDisallowedAddress_def isDisallowedIPv4_def IPV4_DISALLOWED_SUBNETS_def private4_def in_subnet_def ip4_def)


text \<open>Lazy key rotation. Reading a connector credential whose secret decrypts, as a caller of its
  tenant or a platform administrator, succeeds; the credential handed out decrypts to the same secret and is
  encrypted under the current key version, the stored row is that credential, and no other row changes.\<close>

theorem findById_rotates:
  assumes "crypto_ok (ce_crypto env)" and "loadKeys nm contents = Inr (ce_keys env)" and "length iv = 12"
    and "cc_find cid d = Some c" and "secret_of env c = Inr v"
    and "auth_isPlatformAdmin (Some a) \<or> (ac_tenantId a = Some (cc_tenantId c) \<and> cc_tenantId c \<noteq> [])"
  shows "\<exists>c' d'. ccs_findById env iv now cid (Some a) d = Ok (c', d') \<and> secret_of env c' = Inr v
           \<and> cc_keyVersion c' = kp_currentVersion (ce_keys env)
           \<and> (\<exists>row. cc_find cid d' = Some row \<and> c' = row\<lparr>cc_updatedAt := cc_updatedAt c\<rparr>)
           \<and> (\<forall>k. k \<noteq> cid \<longrightarrow> cc_find k d' = cc_find k d)"
proof -
  have cid: "cc_id c = cid" using assms(4) by (auto simp: cc_find_def dest: tbl_find_Some)
  have "assertResourceTenantOrNotFound (Some a) (cc_tenantId c) (cc_not_found cid) = Ok ()"
    using assms(6) by (auto simp: assertResourceTenant_ok auth_isPlatformAdmin_def)
  then show ?thesis
    using lazyRotate_current [OF assms(1) loadKeys_ok [OF assms(2)] assms(3), of c d v now] assms(4,5) cid
    by (simp add: ccs_findById_def)
qed

fun demo_cred_print :: "connector_credentials_dto \<Rightarrow> string" where
  "demo_cred_print c = replicate (length (cred_apiKey c)) CHR ''1'' @ ''0'' @ cred_apiKey c @
     (case cred_tractionTenantId c of None \<Rightarrow> ''N'' | Some t \<Rightarrow> ''S'' @ t)"

fun demo_cred_parse :: "string \<Rightarrow> connector_credentials_dto option" where
  "demo_cred_parse s =
     (let n = length (takeWhile (\<lambda>c. c = CHR ''1'') s); rest = drop (n + 1) s in
      Some \<lparr>cred_apiKey = take n rest,
            cred_tractionTenantId = (case drop n rest of [] \<Rightarrow> None
              | t # ts \<Rightarrow> if t = CHR ''S'' then Some ts else None)\<rparr>)"

lemma demo_cred_roundtrip: "demo_cred_parse (demo_cred_print c) = Some c"
proof -
  have "takeWhile (\<lambda>c. c = CHR ''1'') (replicate n CHR ''1'' @ CHR ''0'' # r) = replicate n CHR ''1''" for n r
    by (induction n) auto
  then show ?thesis by (cases c) (auto simp: Let_def split: option.splits)
qed

definition demo_cc_env :: cc_env where
  "demo_cc_env = \<lparr>ce_crypto = demo_cipher demo_cred_print demo_cred_parse, ce_keys = demo_keys, ce_net = demo_netlib\<rparr>"

definition demo_cc :: connector_credential where
  "demo_cc = \<lparr>cc_id = ''cc1'', cc_tenantId = ''t1'', cc_connectorType = CREDO,
     cc_credentialsEncrypted = replicate 12 CHR ''n'' @ replicate 16 CHR ''t'' @ ''110k1N'',
     cc_endpointUrl = ''https://agent.x'', cc_active = True, cc_keyVersion = 1, cc_createdAt = 1000, cc_updatedAt = 1\<rparr>"

definition demo_cc_db :: db where
  "demo_cc_db = demo_db\<lparr>connector_credentials := [demo_cc]\<rparr>"

theorem findById_rotates_witness:
  "\<exists>c' d'. ccs_findById demo_cc_env (replicate 12 CHR ''i'') 7 ''cc1'' (Some demo_auth) demo_cc_db = Ok (c', d')
     \<and> cc_keyVersion c' = 2 \<and> secret_of demo_cc_env c' = Inr \<lparr>cred_apiKey = ''k1'', cred_tractionTenantId = None\<rparr>"
proof -
  have "crypto_ok (ce_crypto demo_cc_env)"
    unfolding demo_cc_env_def cc_env.simps by (rule demo_cipher_ok) (rule demo_cred_roundtrip)
  moreover have "loadKeys demo_number (Some demo_key_file) = Inr (ce_keys demo_cc_env)"
    by (simp add: demo_cc_env_def demo_loadKeys)
  moreover have "length (replicate 12 CHR ''i'') = 12" by simp
  moreover have "cc_find ''cc1'' demo_cc_db = Some demo_cc" by (simp add: cc_find_def demo_cc_db_def demo_cc_def)
  moreover have "secret_of demo_cc_env demo_cc = Inr \<lparr>cred_apiKey = ''k1'', cred_tractionTenantId = None\<rparr>"
    by (simp add: secret_of_def decrypt_def decryptWithKey_def getKey_def demo_cc_env_def demo_keys_def demo_cipher_def
        demo_cc_def IV_LENGTH_def AUTH_TAG_LENGTH_def eval_nat_numeral)
  moreover have "auth_isPlatformAdmin (Some demo_auth) \<or> (ac_tenantId demo_auth = Some (cc_tenantId demo_cc) \<and> cc_tenantId demo_cc \<noteq> [])"
    by (simp add: demo_auth_def demo_cc_def)
  ultimately show ?thesis
    using findById_rotates [of demo_cc_env demo_number "Some demo_key_file" "replicate 12 CHR ''i''" "''cc1''" demo_cc_db demo_cc
        "\<lparr>cred_apiKey = ''k1'', cred_tractionTenantId = None\<rparr>" demo_auth 7]
    by (auto simp: demo_cc_env_def demo_keys_def)
qed

text \<open>The tenant-supplied Traction tenant id stays inside its path segment: between the fixed parts of
  the token URL stands a segment without slash, question mark, hash or white space that decodes to the id.\<close>

theorem buildTractionTokenUrl_segment:
  "\<exists>seg. buildTractionTokenUrl endpoint tid = endpoint @ ''/multitenancy/tenant/'' @ seg @ ''/token''
     \<and> \<not> list_ex (\<lambda>c. c = CHR ''/'' \<or> c = CHR ''?'' \<or> c = CHR ''#'' \<or> is_ws c) seg
     \<and> decodeURIComponent seg = Some tid"
proof (intro exI conjI)
  show "\<not> list_ex (\<lambda>c. c = CHR ''/'' \<or> c = CHR ''?'' \<or> c = CHR ''#'' \<or> is_ws c) (encodeURIComponent tid)"
    using encode_alphabet [of _ tid] by (fastforce simp: list_ex_iff uri_unreserved_def is_ws_def Let_def)
qed (simp_all add: buildTractionTokenUrl_def)

end
