(* ===== verification/Tenant.thy ===== *)
theory Tenant
  imports OAuth_Client Connection Connector_Credential
begin

text \<open>
  \<^verbatim>\<open>tenant\<close>: the tenant repository and service (creation with its initial owner, updates, configuration,
  soft deletion, the status life cycle) and the worker that applies the consequences of a status change to
  API clients, connector credentials and connections.
\<close>

section \<open>TenantRepository\<close>

definition tn_key :: "tenant \<Rightarrow> micros \<times> string" where
  "tn_key t = (t_createdAt t, t_id t)"

definition tn_findPage ::
  "nat \<Rightarrow> (micros \<times> string) option \<Rightarrow> db \<Rightarrow> tenant list \<times> (micros \<times> string) option \<times> bool" where
  "tn_findPage limit cursor d =
     page_of tn_key cursor_cut limit
       (after_cursor tn_key cursor (filter (\<lambda>t. t_deletedAt t = None) (tenants d)))"

definition tn_findBySlug :: "string \<Rightarrow> bool \<Rightarrow> db \<Rightarrow> tenant option" where
  "tn_findBySlug slug includeDeleted d =
     List.find (\<lambda>t. t_slug t = slug \<and> (includeDeleted \<or> t_deletedAt t = None)) (tenants d)"

text \<open>\<^verbatim>\<open>save\<close> under the unique index on the slug.\<close>

definition tn_update :: "time \<Rightarrow> tenant \<Rightarrow> db \<Rightarrow> db option" where
  "tn_update now t d =
     (if list_ex (\<lambda>x. t_id x \<noteq> t_id t \<and> t_slug x = t_slug t) (tenants d) then None
      else Some (d\<lparr>tenants := tbl_save t_id (t\<lparr>t_updatedAt := now\<rparr>) (tenants d)\<rparr>))"

definition tn_delete :: "time \<Rightarrow> string \<Rightarrow> db \<Rightarrow> db" where
  "tn_delete now tid d =
     d\<lparr>tenants := tbl_update (\<lambda>t. t_id t = tid) (\<lambda>t. t\<lparr>t_deletedAt := Some now, t_updatedAt := now\<rparr>) (tenants d)\<rparr>"

definition tn_restore :: "time \<Rightarrow> string \<Rightarrow> db \<Rightarrow> db" where
  "tn_restore now tid d =
     d\<lparr>tenants := tbl_update (\<lambda>t. t_id t = tid) (\<lambda>t. t\<lparr>t_deletedAt := None, t_updatedAt := now\<rparr>) (tenants d)\<rparr>"

section \<open>TenantService\<close>

fun ALLOWED_STATUS_TRANSITIONS :: "tenant_status \<Rightarrow> tenant_status list" where
  "ALLOWED_STATUS_TRANSITIONS T_ACTIVE = [T_SUSPENDED, T_DEACTIVATED]"
| "ALLOWED_STATUS_TRANSITIONS T_SUSPENDED = [T_ACTIVE, T_DEACTIVATED]"
| "ALLOWED_STATUS_TRANSITIONS T_DEACTIVATED = [T_ACTIVE]"
| "ALLOWED_STATUS_TRANSITIONS T_PENDING_APPROVAL = []"
| "ALLOWED_STATUS_TRANSITIONS T_REJECTED = []"

record create_tenant_dto =
  ct_name :: string
  ct_slug :: string
  ct_description :: "string option"
  ct_config :: "(string \<times> json) list option"
  ct_ownerEmail :: string

record update_tenant_dto =
  ut_name :: "string option"
  ut_description :: "string option"
  ut_config :: "(string \<times> json) list option"

text \<open>\<^verbatim>\<open>default_connector\<close> may be absent, \<^verbatim>\<open>null\<close> or an id.\<close>

record update_config_dto =
  uc_allowedFormats :: "cd_format list option"
  uc_defaultConnector :: "string option option"
  uc_features :: "(string \<times> json) list option"

definition resolveCreateStatus :: "string list option \<Rightarrow> tenant_status" where
  "resolveCreateStatus actorRoles =
     (case actorRoles of
        None \<Rightarrow> T_PENDING_APPROVAL
      | Some roles \<Rightarrow> if PLATFORM_ADMIN_ROLE \<in> set roles then T_ACTIVE else T_PENDING_APPROVAL)"

text \<open>\<open>newid\<close> and \<open>ownerid\<close> are the generated ids; both inserts run in one transaction, the audit events
  follow its commit.\<close>

definition tns_create ::
  "string \<Rightarrow> string \<Rightarrow> micros \<Rightarrow> time \<Rightarrow> create_tenant_dto \<Rightarrow> string list option \<Rightarrow> db \<Rightarrow> (tenant \<times> db) result" where
  "tns_create newid ownerid created now dto actorRoles d =
     (if tn_findBySlug (ct_slug dto) True d \<noteq> None then Err (Conflict ''Tenant slug already exists'')
      else if newid \<in> t_id ` set (tenants d) then Err db_error
      else
        let t = \<lparr>t_id = newid, t_name = ct_name dto, t_slug = ct_slug dto, t_description = ct_description dto,
                 t_status = resolveCreateStatus actorRoles,
                 t_config = (case ct_config dto of None \<Rightarrow> [] | Some c \<Rightarrow> c),
                 t_createdAt = created, t_updatedAt = now, t_deletedAt = None, t_deactivatedAt = None\<rparr>
        in case tn_update now t d of
             None \<Rightarrow> Err db_error
           | Some d1 \<Rightarrow>
               rbind (tus_invite ownerid created now True newid \<lparr>inv_email = ct_ownerEmail dto, inv_role = OWNER\<rparr> d1)
                 (\<lambda>(owner, d2).
                    Ok (t, domain_audit_emit (u_tenantId owner) A_CREATE ''tenant_user'' (u_id owner) []
                             (domain_audit_emit newid A_CREATE ''tenant'' newid [] d2))))"

definition tns_list ::
  "nat option \<Rightarrow> (micros \<times> string) option \<Rightarrow> db \<Rightarrow> tenant list \<times> (micros \<times> string) option \<times> bool" where
  "tns_list limit cursor d = tn_findPage (case limit of None \<Rightarrow> 20 | Some l \<Rightarrow> l) cursor d"

text \<open>\<^verbatim>\<open>decodeCursor\<close> on the value that base64url decoding and \<^verbatim>\<open>JSON.parse\<close> yield (\<^const>\<open>None\<close>: not JSON).
  A falsy \<^verbatim>\<open>createdAt\<close> or \<^verbatim>\<open>id\<close> is refused.\<close>

definition js_truthy :: "json \<Rightarrow> bool" where
  "js_truthy v = (case v of JUndef \<Rightarrow> False | JNull \<Rightarrow> False | JBool b \<Rightarrow> b | JNum n \<Rightarrow> n \<noteq> 0 | JStr s \<Rightarrow> s \<noteq> [] | _ \<Rightarrow> True)"

definition decodeCursor :: "json option \<Rightarrow> (json \<times> json) result" where
  "decodeCursor parsed =
     (case parsed of
        None \<Rightarrow> Err (BadRequest ''Invalid pagination cursor.'')
      | Some v \<Rightarrow>
          if \<not> js_truthy (jget v ''createdAt'') \<or> \<not> js_truthy (jget v ''id'')
          then Err (BadRequest ''Invalid pagination cursor.'')
          else Ok (jget v ''createdAt'', jget v ''id''))"

definition tns_findById :: "string \<Rightarrow> db \<Rightarrow> tenant result" where
  "tns_findById tid d = (case tn_findById tid d of None \<Rightarrow> Err (NotFound ''Tenant not found'') | Some t \<Rightarrow> Ok t)"

definition tns_findBySlug :: "string \<Rightarrow> db \<Rightarrow> tenant result" where
  "tns_findBySlug slug d = (case tn_findBySlug slug False d of None \<Rightarrow> Err (NotFound ''Tenant not found'') | Some t \<Rightarrow> Ok t)"

definition tns_update :: "time \<Rightarrow> string \<Rightarrow> update_tenant_dto \<Rightarrow> db \<Rightarrow> (tenant \<times> db) result" where
  "tns_update now tid dto d =
     rbind (tns_findById tid d) (\<lambda>t.
       let t' = t\<lparr>t_name := (case ut_name dto of None \<Rightarrow> t_name t | Some n \<Rightarrow> n),
                  t_description := (case ut_description dto of None \<Rightarrow> t_description t | Some x \<Rightarrow> Some x),
                  t_config := (case ut_config dto of None \<Rightarrow> t_config t | Some c \<Rightarrow> c)\<rparr>
       in case tn_update now t' d of
            None \<Rightarrow> Err db_error
          | Some d' \<Rightarrow> Ok (t'\<lparr>t_updatedAt := now\<rparr>, domain_audit_emit tid A_UPDATE ''tenant'' tid [] d'))"

text \<open>Setting a key of a configuration object.\<close>

fun config_set :: "string \<Rightarrow> json \<Rightarrow> (string \<times> json) list \<Rightarrow> (string \<times> json) list" where
  "config_set k v [] = [(k, v)]"
| "config_set k v ((k', v') # rest) = (if k' = k then (k, v) # rest else (k', v') # config_set k v rest)"

definition merge_config :: "update_config_dto \<Rightarrow> (string \<times> json) list \<Rightarrow> (string \<times> json) list" where
  "merge_config dto config =
     (let c1 = (case uc_allowedFormats dto of None \<Rightarrow> config
                | Some fs \<Rightarrow> config_set ''allowed_formats'' (JArr (map (\<lambda>f. JStr (cd_format_str f)) fs)) config);
          c2 = (case uc_defaultConnector dto of None \<Rightarrow> c1
                | Some None \<Rightarrow> config_set ''default_connector'' JNull c1
                | Some (Some i) \<Rightarrow> config_set ''default_connector'' (JStr i) c1)
      in case uc_features dto of None \<Rightarrow> c2 | Some f \<Rightarrow> config_set ''features'' (JObj f) c2)"

text \<open>Reading the connector may rotate its key, so the state changes even when the call then fails.\<close>

definition tns_updateConfig ::
  "cc_env \<Rightarrow> string \<Rightarrow> time \<Rightarrow> string \<Rightarrow> update_config_dto \<Rightarrow> auth_context option \<Rightarrow> db \<Rightarrow> tenant result \<times> db" where
  "tns_updateConfig env iv now tid dto auth d =
     (case tn_findById tid d of
        None \<Rightarrow> (Err (NotFound ''Tenant not found''), d)
      | Some t \<Rightarrow>
          (let checked =
             (case uc_defaultConnector dto of
                Some (Some connectorId) \<Rightarrow>
                  (case ccs_findById env iv now connectorId auth d of
                     Inl e \<Rightarrow> (Err e, d)
                   | Inr (c, d1) \<Rightarrow>
                       if cc_tenantId c \<noteq> t_id t
                       then (Err (Conflict ''default_connector does not belong to this tenant''), d1)
                       else if \<not> cc_active c then (Err (Conflict ''default_connector is not active''), d1)
                       else (Ok (), d1))
              | _ \<Rightarrow> (Ok (), d))
           in case checked of
                (Inl e, d1) \<Rightarrow> (Err e, d1)
              | (Inr _, d1) \<Rightarrow>
                  (let t' = t\<lparr>t_config := merge_config dto (t_config t)\<rparr> in
                   case tn_update now t' d1 of
                     None \<Rightarrow> (Err db_error, d1)
                   | Some d2 \<Rightarrow> (Ok (t'\<lparr>t_updatedAt := now\<rparr>),
                                domain_audit_emit tid A_UPDATE ''tenant'' tid [(''config_change'', JBool True)] d2))))"

definition tns_delete :: "time \<Rightarrow> string \<Rightarrow> db \<Rightarrow> (unit \<times> db) result" where
  "tns_delete now tid d =
     rbind (tns_findById tid d) (\<lambda>t.
       Ok ((), domain_audit_emit tid A_DELETE ''tenant'' tid [] (tn_delete now tid d)))"

definition tns_restore :: "time \<Rightarrow> string \<Rightarrow> db \<Rightarrow> (unit \<times> db) result" where
  "tns_restore now tid d =
     (let d1 = tn_restore now tid d in
      case tn_findById tid d1 of
        None \<Rightarrow> Err (NotFound ''Restore failed: Tenant not found after restore'')
      | Some t \<Rightarrow> Ok ((), domain_audit_emit tid A_UPDATE ''tenant'' tid [(''restored'', JBool True)] d1))"

text \<open>The status write and the job are one transaction.\<close>

definition tns_updateStatus :: "time \<Rightarrow> string \<Rightarrow> tenant_status \<Rightarrow> db \<Rightarrow> (tenant \<times> db) result" where
  "tns_updateStatus now tid status d =
     rbind (tns_findById tid d) (\<lambda>t.
       let previousStatus = t_status t in
       if status \<notin> set (ALLOWED_STATUS_TRANSITIONS previousStatus)
       then Err (Conflict (''Cannot transition tenant from '' @ quoted (tenant_status_str previousStatus) @
                           '' to '' @ quoted (tenant_status_str status)))
       else
         let t' = t\<lparr>t_status := status, t_deactivatedAt := (if status = T_DEACTIVATED then Some now else None)\<rparr>
         in case tn_update now t' d of
              None \<Rightarrow> Err db_error
            | Some d1 \<Rightarrow>
                let d2 = d1\<lparr>status_jobs := status_jobs d1 @
                      [\<lparr>sj_tenantId = tid, sj_previousStatus = previousStatus, sj_status = status\<rparr>]\<rparr>
                in Ok (t'\<lparr>t_updatedAt := now\<rparr>,
                       domain_audit_emit tid A_UPDATE ''tenant'' tid
                         [(''status_change'', JObj [(''from'', JStr (tenant_status_str previousStatus)),
                                                   (''to'', JStr (tenant_status_str status))])] d2))"

section \<open>TenantStatusChangeWorker\<close>

definition status_change_handle :: "time \<Rightarrow> status_change_job \<Rightarrow> db \<Rightarrow> db" where
  "status_change_handle now job d =
     (if sj_status job = T_DEACTIVATED
      then snd (cn_abandonAllForTenant (sj_tenantId job)
             (snd (cc_deactivateAllForTenant (sj_tenantId job)
               (snd (oc_revokeAllForTenant now (sj_tenantId job) d)))))
      else if sj_previousStatus job = T_DEACTIVATED \<and> sj_status job = T_ACTIVE
      then snd (oc_restoreAllForTenant (sj_tenantId job) d)
      else d)"

text \<open>A worker takes one of the queued jobs: the queue is served by several workers at a time
  (\<^verbatim>\<open>localConcurrency\<close>), and a job that failed is tried again later, so any of them may be next.\<close>

definition status_worker_step :: "time \<Rightarrow> nat \<Rightarrow> db \<Rightarrow> db" where
  "status_worker_step now i d =
     (if i < length (status_jobs d)
      then status_change_handle now (status_jobs d ! i)
             (d\<lparr>status_jobs := take i (status_jobs d) @ drop (Suc i) (status_jobs d)\<rparr>)
      else d)"

section \<open>Operations as steps\<close>

datatype tn_op =
    TN_create string string micros time create_tenant_dto "string list option"
  | TN_update time string update_tenant_dto
  | TN_updateConfig string time string update_config_dto "auth_context option"
  | TN_delete time string
  | TN_restore time string
  | TN_updateStatus time string tenant_status
  | TN_worker time nat
  | TN_users tu_op

fun tn_step :: "cc_env \<Rightarrow> tn_op \<Rightarrow> db \<Rightarrow> db" where
  "tn_step env (TN_create newid ownerid created now dto roles) d = exec (tns_create newid ownerid created now dto roles d) d"
| "tn_step env (TN_update now tid dto) d = exec (tns_update now tid dto d) d"
| "tn_step env (TN_updateConfig iv now tid dto auth) d = snd (tns_updateConfig env iv now tid dto auth d)"
| "tn_step env (TN_delete now tid) d = exec (tns_delete now tid d) d"
| "tn_step env (TN_restore now tid) d = exec (tns_restore now tid d) d"
| "tn_step env (TN_updateStatus now tid s) d = exec (tns_updateStatus now tid s d) d"
| "tn_step env (TN_worker now i) d = status_worker_step now i d"
| "tn_step env (TN_users oper) d = tu_step oper d"

section \<open>Invariant\<close>

text \<open>Keys and slugs are unique, a deactivation time is recorded exactly for deactivated tenants, and
  every tenant, soft-deleted or not, has an owner.\<close>

definition deactivation_ok :: "tenant \<Rightarrow> bool" where
  "deactivation_ok t = ((t_deactivatedAt t \<noteq> None) = (t_status t = T_DEACTIVATED))"

definition tn_inv :: "db \<Rightarrow> bool" where
  "tn_inv d = (tbl_keys t_id (tenants d) \<and> tbl_keys t_slug (tenants d)
     \<and> (\<forall>t\<in>set (tenants d). deactivation_ok t \<and> has_owner (t_id t) d) \<and> tu_inv d)"

lemma tn_inv_audit [simp]: "tn_inv (domain_audit_emit t a rt r m d) = tn_inv d"
  by (simp add: tn_inv_def)

lemma tn_inv_frame: "tenants d' = tenants d \<Longrightarrow> tenant_users d' = tenant_users d \<Longrightarrow> tn_inv d' = tn_inv d"
  by (simp add: tn_inv_def has_owner_def tu_inv_def)

lemma tn_update_Some:
  "tn_update now t d = Some d' \<Longrightarrow> d' = d\<lparr>tenants := tbl_save t_id (t\<lparr>t_updatedAt := now\<rparr>) (tenants d)\<rparr>
     \<and> (\<forall>x\<in>set (tenants d). t_id x = t_id t \<or> t_slug x \<noteq> t_slug t)"
  by (auto simp: tn_update_def list_ex_iff split: if_splits)

lemma tn_update_jobs: "tn_update now t d = Some d' \<Longrightarrow> status_jobs d' = status_jobs d"
  by (auto simp: tn_update_def split: if_splits)

lemma tn_save_inv:
  assumes "tn_inv d" "t_id t \<in> t_id ` set (tenants d)" "deactivation_ok t" "tn_update now t d = Some d'"
  shows "tn_inv d'"
proof -
  let ?t = "t\<lparr>t_updatedAt := now\<rparr>"
  note u = tn_update_Some [OF assms(4)]
  have d': "tenants d' = tbl_save t_id ?t (tenants d)" "tenant_users d' = tenant_users d" using u by auto
  have keys: "tbl_keys t_id (tenants d')" "tbl_keys t_slug (tenants d')"
    using assms(1) u by (auto simp: d' tn_inv_def intro!: tbl_keys_save tbl_keys_save_other)
  have sub: "set (tenants d') \<subseteq> insert ?t (set (tenants d))" unfolding d' by (rule set_tbl_save)
  have ids: "t_id ` set (tenants d') = t_id ` set (tenants d)"
    using keys_tbl_save [of t_id ?t "tenants d"] assms(2) by (auto simp: d')
  have "deactivation_ok x \<and> has_owner (t_id x) d'" if "x \<in> set (tenants d')" for x
  proof -
    have "t_id x \<in> t_id ` set (tenants d)" using that ids by blast
    then have "has_owner (t_id x) d" using assms(1) by (auto simp: tn_inv_def)
    moreover have "deactivation_ok x"
    proof (cases "x = ?t")
      case True
      then show ?thesis using assms(3) by (simp add: deactivation_ok_def)
    next
      case False
      then have "x \<in> set (tenants d)" using that sub by blast
      then show ?thesis using assms(1) by (simp add: tn_inv_def)
    qed
    ultimately show ?thesis by (simp add: has_owner_def d')
  qed
  moreover have "tu_inv d'" using assms(1) ids by (auto simp: tu_inv_def tn_inv_def d'(2))
  ultimately show ?thesis using keys by (auto simp: tn_inv_def)
qed

lemma tn_bulk_inv:
  assumes "tn_inv d" "\<And>t. t_id (f t) = t_id t" "\<And>t. t_slug (f t) = t_slug t"
    "\<And>t. deactivation_ok (f t) = deactivation_ok t"
  shows "tn_inv (d\<lparr>tenants := tbl_update p f (tenants d)\<rparr>)"
proof -
  have "map t_id (tbl_update p f (tenants d)) = map t_id (tenants d)" using assms(2) by (simp add: tbl_update_def)
  then have "t_id ` set (tbl_update p f (tenants d)) = t_id ` set (tenants d)" by (metis set_map)
  then show ?thesis using assms
    by (auto simp: tn_inv_def tu_inv_def has_owner_def set_tbl_update intro!: tbl_keys_update)
qed

lemma tns_findById_ok: "tns_findById tid d = Inr t \<Longrightarrow> t \<in> set (tenants d) \<and> t_id t = tid \<and> t_deletedAt t = None"
  by (auto simp: tns_findById_def split: option.splits dest: tn_findById_Some)

lemma tbl_save_new: "key r \<notin> key ` set rows \<Longrightarrow> tbl_save key r rows = rows @ [r]"
  by (induction key r rows rule: tbl_save.induct) auto

lemma resolveCreateStatus_live [simp]: "resolveCreateStatus roles \<noteq> T_DEACTIVATED"
  by (simp add: resolveCreateStatus_def split: option.splits)

lemma tns_create_inv:
  assumes "tn_inv d" "tns_create newid ownerid created now dto roles d = Inr (t, d')"
  shows "tn_inv d'"
proof -
  obtain d1 owner d2 where g: "tn_findBySlug (ct_slug dto) True d = None" "newid \<notin> t_id ` set (tenants d)"
    "tn_update now t d = Some d1"
    "tus_invite ownerid created now True newid \<lparr>inv_email = ct_ownerEmail dto, inv_role = OWNER\<rparr> d1 = Inr (owner, d2)"
    "tn_inv d' = tn_inv d2"
    and t: "t_id t = newid" "deactivation_ok t"
    using assms(2)
    by (auto simp: tns_create_def Let_def ok_iffs deactivation_ok_def)
  have d1: "tenants d1 = tenants d @ [t\<lparr>t_updatedAt := now\<rparr>]" "tenant_users d1 = tenant_users d"
    using tn_update_Some [OF g(3)] g(2) t(1) by (simp_all add: tbl_save_new)
  have slug: "\<forall>x\<in>set (tenants d). t_slug x \<noteq> t_slug t"
    using tn_update_Some [OF g(3)] g(2) t(1) by (metis image_eqI)
  have "tu_inv d1" using assms(1) d1 by (auto simp: tn_inv_def tu_inv_def)
  moreover obtain u where u: "tu_create u d1 = Some d2" "u_tenantId u = newid" "u_role u = OWNER"
    using g(4) by (auto simp: tus_invite_def Let_def ok_iffs split: if_splits)
  ultimately have "tu_inv d2" by (blast intro: tu_create_inv)
  moreover have d2: "tenant_users d2 = tenant_users d @ [u]" "tenants d2 = tenants d @ [t\<lparr>t_updatedAt := now\<rparr>]"
    using tu_create_users [OF u(1)] d1 by auto
  moreover have "has_owner (t_id x) d2" if "x \<in> set (tenants d2)" for x
    using that assms(1) u t(1) d2 by (auto simp: tn_inv_def has_owner_iff)
  ultimately have "tn_inv d2"
    using assms(1) g(2) t slug by (auto simp: tn_inv_def tbl_keys_def deactivation_ok_def image_iff)
  then show ?thesis using g(5) by simp
qed

lemma lazyRotate_frame:
  assumes "lazyRotateKeyIfNeeded env iv now c d = Inr (c', d')"
  shows "tenants d' = tenants d \<and> tenant_users d' = tenant_users d"
proof -
  have "d' = d \<or> (\<exists>f. d' = snd (cc_update now (cc_id c) f d))"
  proof (cases "requiresRotation (ce_keys env) (cc_keyVersion c)")
    case (Inr b)
    then show ?thesis using assms by (cases b) (auto simp: lazyRotateKeyIfNeeded_def split: sum.splits)
  qed (use assms in \<open>simp add: lazyRotateKeyIfNeeded_def\<close>)
  then show ?thesis by (auto simp: cc_update_def Let_def)
qed

lemma ccs_findById_frame:
  "ccs_findById env iv now cid auth d = Inr (c, d') \<Longrightarrow> tenants d' = tenants d \<and> tenant_users d' = tenant_users d"
  by (auto simp: ccs_findById_def ok_iffs dest: lazyRotate_frame)

lemma tns_updateConfig_inv:
  assumes "tn_inv d"
  shows "tn_inv (snd (tns_updateConfig env iv now tid dto auth d))"
proof (cases "tn_findById tid d")
  case (Some t)
  define checked where "checked = (case uc_defaultConnector dto of
      Some (Some connectorId) \<Rightarrow>
        (case ccs_findById env iv now connectorId auth d of
           Inl e \<Rightarrow> (Err e, d)
         | Inr (c, d1) \<Rightarrow>
             if cc_tenantId c \<noteq> t_id t then (Err (Conflict ''default_connector does not belong to this tenant''), d1)
             else if \<not> cc_active c then (Err (Conflict ''default_connector is not active''), d1) else (Ok (), d1))
    | _ \<Rightarrow> (Ok (), d))"
  have fr: "tenants (snd checked) = tenants d" "tenant_users (snd checked) = tenant_users d"
    by (auto simp: checked_def split: option.splits sum.splits prod.splits dest: ccs_findById_frame)
  then have inv: "tn_inv (snd checked)" using assms tn_inv_frame by blast
  have t: "t \<in> set (tenants d)" using tn_findById_Some [OF Some] by simp
  then have upd: "tn_inv d2" if "tn_update now (t\<lparr>t_config := c\<rparr>) (snd checked) = Some d2" for c d2
    using tn_save_inv [OF inv _ _ that] fr assms by (auto simp: tn_inv_def deactivation_ok_def)
  have "tns_updateConfig env iv now tid dto auth d = (case checked of
      (Inl e, d1) \<Rightarrow> (Err e, d1)
    | (Inr _, d1) \<Rightarrow>
        (let t' = t\<lparr>t_config := merge_config dto (t_config t)\<rparr> in
         case tn_update now t' d1 of
           None \<Rightarrow> (Err db_error, d1)
         | Some d2 \<Rightarrow> (Ok (t'\<lparr>t_updatedAt := now\<rparr>),
                      domain_audit_emit tid A_UPDATE ''tenant'' tid [(''config_change'', JBool True)] d2)))"
    unfolding tns_updateConfig_def Some option.case checked_def Let_def ..
  then show ?thesis using inv upd by (auto simp: Let_def split: prod.splits sum.splits option.splits)
qed (simp add: tns_updateConfig_def assms)

lemma status_handle_frame:
  "tenants (status_change_handle now job d) = tenants d \<and> tenant_users (status_change_handle now job d) = tenant_users d"
  by (simp add: status_change_handle_def oc_revokeAllForTenant_def oc_restoreAllForTenant_def
      cc_deactivateAllForTenant_def cn_abandonAllForTenant_def Let_def)

lemma status_worker_frame:
  "tenants (status_worker_step now i d) = tenants d \<and> tenant_users (status_worker_step now i d) = tenant_users d"
  using status_handle_frame by (auto simp: status_worker_step_def)

lemma tns_update_ok:
  "tns_update now tid dto d = Inr (t', d') \<Longrightarrow> \<exists>t d1 v. tns_findById tid d = Ok t \<and> tn_update now v d = Some d1
     \<and> t_id v = t_id t \<and> t_slug v = t_slug t \<and> t_status v = t_status t \<and> t_deactivatedAt v = t_deactivatedAt t \<and> t_deletedAt v = t_deletedAt t
     \<and> d' = domain_audit_emit tid A_UPDATE ''tenant'' tid [] d1"
  by (force simp: tns_update_def Let_def ok_iffs)

lemma tns_updateStatus_ok:
  "tns_updateStatus now tid s d = Inr (t', d') \<Longrightarrow> \<exists>t d1. tns_findById tid d = Ok t
     \<and> s \<in> set (ALLOWED_STATUS_TRANSITIONS (t_status t))
     \<and> tn_update now (t\<lparr>t_status := s, t_deactivatedAt := (if s = T_DEACTIVATED then Some now else None)\<rparr>) d = Some d1
     \<and> tenants d' = tenants d1 \<and> tenant_users d' = tenant_users d1
     \<and> status_jobs d' = status_jobs d @ [\<lparr>sj_tenantId = tid, sj_previousStatus = t_status t, sj_status = s\<rparr>]"
  by (auto simp: tns_updateStatus_def Let_def ok_iffs dest: tn_update_jobs)

lemma tn_step_inv:
  assumes "tn_inv d"
  shows "tn_inv (tn_step env oper d)"
proof (cases oper)
  case (TN_create newid ownerid created now dto roles)
  then show ?thesis using assms
    by (cases "tns_create newid ownerid created now dto roles d") (auto dest: tns_create_inv)
next
  case (TN_update now tid dto)
  show ?thesis
  proof (cases "tns_update now tid dto d")
    case (Inr r)
    then obtain t d1 v where g: "tns_findById tid d = Ok t" "tn_update now v d = Some d1" "t_id v = t_id t"
      "t_status v = t_status t" "t_deactivatedAt v = t_deactivatedAt t" "tn_inv (snd r) = tn_inv d1"
      using tns_update_ok [of now tid dto d "fst r" "snd r"] by auto
    have t: "t \<in> set (tenants d)" using tns_findById_ok [OF g(1)] by simp
    then have "deactivation_ok v" using assms g(4,5) by (auto simp: tn_inv_def deactivation_ok_def)
    then have "tn_inv d1" using tn_save_inv [OF assms _ _ g(2)] t g(3) by simp
    then show ?thesis using g(6) Inr TN_update by (cases r) simp
  qed (use assms TN_update in simp)
next
  case (TN_updateConfig iv now tid dto auth)
  then show ?thesis using tns_updateConfig_inv [OF assms] by simp
next
  case (TN_delete now tid)
  then show ?thesis using assms
    by (cases "tns_findById tid d") (auto simp: tns_delete_def tn_delete_def deactivation_ok_def intro!: tn_bulk_inv)
next
  case (TN_restore now tid)
  have "tn_inv (tn_restore now tid d)"
    unfolding tn_restore_def by (rule tn_bulk_inv [OF assms]) (simp_all add: deactivation_ok_def)
  then show ?thesis using assms TN_restore by (auto simp: tns_restore_def Let_def split: option.splits)
next
  case (TN_updateStatus now tid s)
  show ?thesis
  proof (cases "tns_updateStatus now tid s d")
    case (Inr r)
    then obtain t d1 where g: "tns_findById tid d = Ok t"
      "tn_update now (t\<lparr>t_status := s, t_deactivatedAt := (if s = T_DEACTIVATED then Some now else None)\<rparr>) d = Some d1"
      "tenants (snd r) = tenants d1" "tenant_users (snd r) = tenant_users d1"
      using tns_updateStatus_ok [of now tid s d "fst r" "snd r"] by auto
    have t: "t \<in> set (tenants d)" using tns_findById_ok [OF g(1)] by simp
    then have "tn_inv d1" using tn_save_inv [OF assms _ _ g(2)] by (simp add: deactivation_ok_def)
    then show ?thesis using tn_inv_frame [OF g(3,4)] Inr TN_updateStatus by (cases r) simp
  qed (use assms TN_updateStatus in simp)
next
  case (TN_worker now i)
  then show ?thesis using assms tn_inv_frame [of "status_worker_step now i d" d] status_worker_frame by simp
next
  case (TN_users tuop)
  have "tenants (tu_step tuop d) = tenants d" by (rule tu_step_tenants)
  then show ?thesis using assms TN_users tu_step_inv [of d tuop] tu_step_owner [of d _ tuop]
    by (auto simp: tn_inv_def)
qed

interpretation tn: invariant_system "\<lambda>d. d = empty_db" "tn_step env" tn_inv for env
proof unfold_locales
  fix d assume "d = empty_db"
  then show "tn_inv d" by (simp add: tn_inv_def tu_inv_def empty_db_def tbl_keys_def tu_unique_def)
qed (rule tn_step_inv)

section \<open>Life cycle of a tenant\<close>

inductive status_step :: "tenant_status \<Rightarrow> tenant_status \<Rightarrow> bool" where
  allowed: "s' \<in> set (ALLOWED_STATUS_TRANSITIONS s) \<Longrightarrow> status_step s s'"

inductive_simps status_step_iff: "status_step s s'"

text \<open>The tenant \<open>tid\<close> exists, keeps its slug, and its status was reached from \<open>s0\<close> by allowed transitions.\<close>

definition tenant_life :: "string \<Rightarrow> string \<Rightarrow> tenant_status \<Rightarrow> db \<Rightarrow> bool" where
  "tenant_life tid slug s0 d =
     (\<exists>t. tbl_find t_id tid (tenants d) = Some t \<and> t_slug t = slug \<and> status_step\<^sup>*\<^sup>* s0 (t_status t))"

lemma life_frame: "tenants d' = tenants d \<Longrightarrow> tenant_life tid slug s0 d' = tenant_life tid slug s0 d"
  by (simp add: tenant_life_def)

lemma life_save:
  assumes "tenant_life tid slug s0 d" "tn_inv d" "t \<in> set (tenants d)" "tn_update now v d = Some d'"
    and "t_id v = t_id t" "t_slug v = t_slug t" "status_step\<^sup>*\<^sup>* (t_status t) (t_status v)"
  shows "tenant_life tid slug s0 d'"
proof -
  have d': "tenants d' = tbl_save t_id (v\<lparr>t_updatedAt := now\<rparr>) (tenants d)" using tn_update_Some [OF assms(4)] by simp
  have "tbl_find t_id (t_id t) (tenants d) = Some t" using assms(2,3) by (simp add: tn_inv_def tbl_find_mem)
  then show ?thesis using assms(1,5-7)
    by (cases "tid = t_id t") (auto simp: tenant_life_def d' tbl_find_save)
qed

lemma life_bulk:
  assumes "tenant_life tid slug s0 d" "\<And>t. t_id (f t) = t_id t" "\<And>t. t_slug (f t) = t_slug t"
    "\<And>t. t_status (f t) = t_status t"
  shows "tenant_life tid slug s0 (d\<lparr>tenants := tbl_update p f (tenants d)\<rparr>)"
proof -
  obtain t where t: "tbl_find t_id tid (tenants d) = Some t" "t_slug t = slug" "status_step\<^sup>*\<^sup>* s0 (t_status t)"
    using assms(1) by (auto simp: tenant_life_def)
  have "tbl_find t_id tid (tbl_update p f (tenants d)) = Some (if p t then f t else t)"
    using t(1) assms(2) by (simp add: tbl_find_update)
  then show ?thesis using t assms(3,4) by (simp add: tenant_life_def)
qed

lemma tns_create_life:
  assumes "tenant_life tid slug s0 d" "tns_create newid ownerid created now dto roles d = Inr (t, d')"
  shows "tenant_life tid slug s0 d'"
proof -
  obtain d1 owner d2 where g: "newid \<notin> t_id ` set (tenants d)" "tn_update now t d = Some d1" "t_id t = newid"
    "tus_invite ownerid created now True newid \<lparr>inv_email = ct_ownerEmail dto, inv_role = OWNER\<rparr> d1 = Inr (owner, d2)"
    "tenants d' = tenants d2"
    using assms(2) by (auto simp: tns_create_def Let_def ok_iffs)
  have "tenants d1 = tenants d @ [t\<lparr>t_updatedAt := now\<rparr>]"
    using tn_update_Some [OF g(2)] g(1,3) by (simp add: tbl_save_new)
  moreover have "tenants d2 = tenants d1"
    using g(4) by (auto simp: tus_invite_def Let_def ok_iffs dest: tu_create_users split: if_splits)
  ultimately show ?thesis using assms(1) g(5) by (auto simp: tenant_life_def tbl_find_append)
qed

lemma tns_updateConfig_saves:
  "tenants (snd (tns_updateConfig env iv now tid dto auth d)) = tenants d \<or>
   (\<exists>t c d1 d2. t \<in> set (tenants d) \<and> tenants d1 = tenants d \<and> tenant_users d1 = tenant_users d
      \<and> tn_update now (t\<lparr>t_config := c\<rparr>) d1 = Some d2
      \<and> tenants (snd (tns_updateConfig env iv now tid dto auth d)) = tenants d2)"
  by (auto simp: tns_updateConfig_def Let_def split: option.splits sum.splits prod.splits
      dest!: tn_findById_Some ccs_findById_frame)

lemma tn_step_life:
  assumes "tenant_life tid slug s0 d" "tn_inv d"
  shows "tenant_life tid slug s0 (tn_step env oper d)"
proof (cases oper)
  case (TN_create newid ownerid created now dto roles)
  then show ?thesis using assms(1)
    by (cases "tns_create newid ownerid created now dto roles d") (auto dest: tns_create_life)
next
  case (TN_update now i dto)
  show ?thesis
  proof (cases "tns_update now i dto d")
    case (Inr r)
    then obtain t d1 v where g: "tns_findById i d = Ok t" "tn_update now v d = Some d1" "t_id v = t_id t"
      "t_slug v = t_slug t" "t_status v = t_status t" "tenants (snd r) = tenants d1"
      using tns_update_ok [of now i dto d "fst r" "snd r"] by auto
    then have "tenant_life tid slug s0 d1" using life_save [OF assms _ g(2), of t] tns_findById_ok [OF g(1)] by simp
    then show ?thesis using life_frame [OF g(6)] Inr TN_update by (cases r) simp
  qed (use assms TN_update in simp)
next
  case (TN_updateConfig iv now i dto auth)
  let ?d' = "snd (tns_updateConfig env iv now i dto auth d)"
  consider "tenants ?d' = tenants d" | t c d1 d2 where "t \<in> set (tenants d)" "tenants d1 = tenants d"
    "tenant_users d1 = tenant_users d" "tn_update now (t\<lparr>t_config := c\<rparr>) d1 = Some d2" "tenants ?d' = tenants d2"
    using tns_updateConfig_saves [of env iv now i dto auth d] by blast
  then have "tenant_life tid slug s0 ?d'"
  proof cases
    case 1
    then show ?thesis using life_frame [OF 1] assms(1) by simp
  next
    case 2
    have "tenant_life tid slug s0 d1" "tn_inv d1"
      using assms life_frame [OF 2(2)] tn_inv_frame [OF 2(2,3)] by auto
    then have "tenant_life tid slug s0 d2" using life_save [OF _ _ _ 2(4), of tid slug s0 t] 2(1,2) by simp
    then show ?thesis using life_frame [OF 2(5)] by simp
  qed
  then show ?thesis using TN_updateConfig by simp
next
  case (TN_delete now i)
  have "tenant_life tid slug s0 (tn_delete now i d)" unfolding tn_delete_def by (rule life_bulk [OF assms(1)]) simp_all
  then show ?thesis using assms TN_delete life_frame
    by (cases "tns_findById i d") (simp_all add: tns_delete_def tenant_life_def)
next
  case (TN_restore now i)
  have "tenant_life tid slug s0 (tn_restore now i d)" unfolding tn_restore_def by (rule life_bulk [OF assms(1)]) simp_all
  then show ?thesis using assms TN_restore by (auto simp: tns_restore_def tenant_life_def Let_def split: option.splits)
next
  case (TN_updateStatus now i s)
  show ?thesis
  proof (cases "tns_updateStatus now i s d")
    case (Inr r)
    then obtain t d1 where g: "tns_findById i d = Ok t" "s \<in> set (ALLOWED_STATUS_TRANSITIONS (t_status t))"
      "tn_update now (t\<lparr>t_status := s, t_deactivatedAt := (if s = T_DEACTIVATED then Some now else None)\<rparr>) d = Some d1"
      "tenants (snd r) = tenants d1"
      using tns_updateStatus_ok [of now i s d "fst r" "snd r"] by auto
    have "tenant_life tid slug s0 d1"
      by (rule life_save [OF assms _ g(3)]) (use g(2) tns_findById_ok [OF g(1)] in \<open>auto intro: status_step.intros\<close>)
    then show ?thesis using life_frame [OF g(4)] Inr TN_updateStatus by (cases r) simp
  qed (use assms TN_updateStatus in simp)
next
  case (TN_worker now i)
  then show ?thesis using assms life_frame [of "status_worker_step now i d" d] status_worker_frame by simp
next
  case (TN_users tuop)
  then show ?thesis using assms life_frame [OF tu_step_tenants] by simp
qed

interpretation tn_life: invariant_system "\<lambda>d. tenant_life tid slug s0 d \<and> tn_inv d" "tn_step env"
  "\<lambda>d. tenant_life tid slug s0 d \<and> tn_inv d" for env tid slug s0
  by unfold_locales (auto intro: tn_step_inv tn_step_life)

lemma status_final:
  assumes "status_step\<^sup>*\<^sup>* s s'" "s \<in> {T_PENDING_APPROVAL, T_REJECTED}"
  shows "s' = s"
  using assms by (induction rule: converse_rtranclp_induct) (auto simp: status_step_iff)

section \<open>Properties\<close>

text \<open>C6. In every state the tenant operations, the status worker and the operations on tenant users can
  produce from the empty database, in any order and with any arguments: tenant ids and slugs are unique, a
  tenant has a deactivation time exactly while it is deactivated, every tenant (soft-deleted ones included)
  has an owner, and the user table satisfies its constraints.\<close>

theorem tenants_owned: "tn_inv (fold (tn_step env) ops empty_db)"
  using tn.run_inv [OF tn.init_inv, of empty_db env ops] by simp

text \<open>C7. A tenant's life cycle: whatever operations run, an existing tenant is never removed, keeps its
  slug, and its status only moves along the allowed transitions; a tenant that is pending approval or
  rejected keeps that status (no operation approves a pending tenant).\<close>

theorem tenant_lifecycle:
  assumes "tn_inv d" and "tbl_find t_id tid (tenants d) = Some t"
  shows "\<exists>t'. tbl_find t_id tid (tenants (fold (tn_step env) ops d)) = Some t' \<and> t_slug t' = t_slug t
           \<and> status_step\<^sup>*\<^sup>* (t_status t) (t_status t')
           \<and> (t_status t \<in> {T_PENDING_APPROVAL, T_REJECTED} \<longrightarrow> t_status t' = t_status t)"
proof -
  have "tenant_life tid (t_slug t) (t_status t) d" using assms(2) by (simp add: tenant_life_def)
  then have "tenant_life tid (t_slug t) (t_status t) (fold (tn_step env) ops d)"
    using tn_life.run_inv [of tid "t_slug t" "t_status t" d env ops] assms(1) by blast
  then show ?thesis using status_final unfolding tenant_life_def by blast
qed

lemma demo_db_tn_inv: "tn_inv demo_db"
proof -
  have "tbl_keys t_id (tenants demo_db)" "tbl_keys t_slug (tenants demo_db)" by (simp_all add: demo_db_def tbl_keys_def)
  moreover have "\<forall>t\<in>set (tenants demo_db). deactivation_ok t \<and> has_owner (t_id t) demo_db"
    by (simp add: demo_db_def demo_tenant_def deactivation_ok_def has_owner_def demo_user_def empty_db_def)
  ultimately show ?thesis using demo_db_inv by (simp add: tn_inv_def)
qed

theorem tenant_lifecycle_witness:
  "\<exists>t'. tbl_find t_id ''t1'' (tenants (fold (tn_step demo_cc_env) [TN_updateStatus 5 ''t1'' T_SUSPENDED, TN_delete 6 ''t1''] demo_db))
       = Some t' \<and> t_slug t' = ''acme'' \<and> status_step\<^sup>*\<^sup>* T_ACTIVE (t_status t')"
proof -
  have "tbl_find t_id ''t1'' (tenants demo_db) = Some demo_tenant" by (simp add: demo_db_def demo_tenant_def)
  from tenant_lifecycle [OF demo_db_tn_inv this, of demo_cc_env] show ?thesis
    by (fastforce simp: demo_tenant_def)
qed

text \<open>C29. The job of a deactivation leaves the tenant with no client able to authenticate, no active
  connector credential and no open connection, and touches no row of another tenant.\<close>

theorem deactivation_job_closes:
  "let d' = status_change_handle now \<lparr>sj_tenantId = tid, sj_previousStatus = s, sj_status = T_DEACTIVATED\<rparr> d in
     filter (\<lambda>c. oc_tenantId c = tid \<and> oc_revokedAt c = None) (oauth_clients d') = []
   \<and> filter (\<lambda>c. cc_tenantId c = tid \<and> cc_active c) (connector_credentials d') = []
   \<and> filter (\<lambda>c. cn_tenantId c = tid \<and> cn_open c) (connections d') = []
   \<and> filter (\<lambda>c. oc_tenantId c \<noteq> tid) (oauth_clients d') = filter (\<lambda>c. oc_tenantId c \<noteq> tid) (oauth_clients d)
   \<and> filter (\<lambda>c. cc_tenantId c \<noteq> tid) (connector_credentials d') = filter (\<lambda>c. cc_tenantId c \<noteq> tid) (connector_credentials d)
   \<and> filter (\<lambda>c. cn_tenantId c \<noteq> tid) (connections d') = filter (\<lambda>c. cn_tenantId c \<noteq> tid) (connections d)"
  unfolding Let_def
  by (intro conjI)
    (auto simp: status_change_handle_def oc_revokeAllForTenant_def cc_deactivateAllForTenant_def
      cn_abandonAllForTenant_def Let_def cn_open_def intro!: tbl_update_closes tbl_update_others)

text \<open>The jobs of one tenant are not ordered. When a tenant has been deactivated and reactivated
  and the two jobs are handled in the opposite order, the tenant is left active with every one of its API
  clients revoked and its connectors deactivated, and no job remains that would restore them.\<close>

theorem status_jobs_reordered:
  assumes "status_jobs d = [\<lparr>sj_tenantId = tid, sj_previousStatus = T_ACTIVE, sj_status = T_DEACTIVATED\<rparr>,
                            \<lparr>sj_tenantId = tid, sj_previousStatus = T_DEACTIVATED, sj_status = T_ACTIVE\<rparr>]"
  shows "let d' = status_worker_step now 0 (status_worker_step now 1 d) in
     tenants d' = tenants d \<and> status_jobs d' = []
     \<and> filter (\<lambda>c. oc_tenantId c = tid \<and> oc_revokedAt c = None) (oauth_clients d') = []
     \<and> filter (\<lambda>c. cc_tenantId c = tid \<and> cc_active c) (connector_credentials d') = []"
  unfolding Let_def
  by (intro conjI)
    (auto simp: assms status_worker_step_def status_change_handle_def oc_revokeAllForTenant_def
      cc_deactivateAllForTenant_def cn_abandonAllForTenant_def oc_restoreAllForTenant_def Let_def
      intro!: tbl_update_closes)

theorem status_jobs_reordered_witness:
  "\<exists>d d1 d2. tns_updateStatus 5 ''t1'' T_DEACTIVATED demo_oc_db = Ok (d1, d2)
     \<and> (\<exists>t. tns_updateStatus 6 ''t1'' T_ACTIVE d2 = Ok (t, d) \<and> t_status t = T_ACTIVE)
     \<and> filter (\<lambda>c. oc_revokedAt c = None) (oauth_clients d) = [demo_client]
     \<and> filter (\<lambda>c. oc_tenantId c = ''t1'' \<and> oc_revokedAt c = None)
         (oauth_clients (status_worker_step 7 0 (status_worker_step 7 1 d))) = []"
proof -
  let ?d2 = "snd (projr (tns_updateStatus 5 ''t1'' T_DEACTIVATED demo_oc_db))"
  let ?d = "snd (projr (tns_updateStatus 6 ''t1'' T_ACTIVE ?d2))"
  note ev = tns_updateStatus_def tns_findById_def tn_findById_def tn_update_def Let_def demo_oc_db_def demo_db_def
    demo_tenant_def empty_db_def domain_audit_emit_def
  have "status_jobs ?d = [\<lparr>sj_tenantId = ''t1'', sj_previousStatus = T_ACTIVE, sj_status = T_DEACTIVATED\<rparr>,
      \<lparr>sj_tenantId = ''t1'', sj_previousStatus = T_DEACTIVATED, sj_status = T_ACTIVE\<rparr>]"
    by (simp add: ev)
  from status_jobs_reordered [OF this, of 7]
  have "filter (\<lambda>c. oc_tenantId c = ''t1'' \<and> oc_revokedAt c = None)
         (oauth_clients (status_worker_step 7 0 (status_worker_step 7 1 ?d))) = []"
    by (simp add: Let_def)
  moreover have "filter (\<lambda>c. oc_revokedAt c = None) (oauth_clients ?d) = [demo_client]"
    by (simp add: ev demo_client_def)
  moreover have "\<exists>d1. tns_updateStatus 5 ''t1'' T_DEACTIVATED demo_oc_db = Ok (d1, ?d2)" by (simp add: ev)
  moreover have "\<exists>t. tns_updateStatus 6 ''t1'' T_ACTIVE ?d2 = Ok (t, ?d) \<and> t_status t = T_ACTIVE" by (simp add: ev)
  ultimately show ?thesis by blast
qed

text \<open>Deactivating and then reactivating a tenant gives its API clients back exactly as they were, when
  none carried the deactivation tag before; its connector credentials and connections stay closed.\<close>

theorem reactivation_restores_clients:
  assumes "oc_inv d" and "\<forall>c\<in>set (oauth_clients d). oc_tenantId c = tid \<longrightarrow> oc_revokedReason c \<noteq> Some TENANT_DEACTIVATION"
  shows "let d1 = status_change_handle now \<lparr>sj_tenantId = tid, sj_previousStatus = s, sj_status = T_DEACTIVATED\<rparr> d;
             d2 = status_change_handle later \<lparr>sj_tenantId = tid, sj_previousStatus = T_DEACTIVATED, sj_status = T_ACTIVE\<rparr> d1
         in oauth_clients d2 = oauth_clients d \<and> connector_credentials d2 = connector_credentials d1
            \<and> connections d2 = connections d1"
proof -
  have idem: "c\<lparr>oc_revokedAt := None, oc_revokedReason := None\<rparr> = c"
    if "c \<in> set (oauth_clients d)" "oc_revokedAt c = None" for c
  proof -
    have "oc_revokedReason c = None" using that assms(1) by (auto simp: oc_inv_def oc_row_ok_def)
    then show ?thesis using that(2) by simp
  qed
  have "oauth_clients (snd (oc_restoreAllForTenant tid (snd (oc_revokeAllForTenant now tid d)))) = oauth_clients d"
    unfolding oc_revokeAllForTenant_def oc_restoreAllForTenant_def Let_def tbl_update_def
    by (simp, rule map_idI) (use assms(2) idem in \<open>auto split: if_splits\<close>)
  then show ?thesis
    by (simp add: status_change_handle_def Let_def cc_deactivateAllForTenant_def cn_abandonAllForTenant_def
        oc_restoreAllForTenant_def)
qed

theorem reactivation_restores_clients_witness:
  "oauth_clients (status_change_handle 9 \<lparr>sj_tenantId = ''t1'', sj_previousStatus = T_DEACTIVATED, sj_status = T_ACTIVE\<rparr>
     (status_change_handle 8 \<lparr>sj_tenantId = ''t1'', sj_previousStatus = T_ACTIVE, sj_status = T_DEACTIVATED\<rparr> demo_oc_db))
   = [demo_client]"
proof -
  have "\<forall>c\<in>set (oauth_clients demo_oc_db). oc_tenantId c = ''t1'' \<longrightarrow> oc_revokedReason c \<noteq> Some TENANT_DEACTIVATION"
    by (simp add: demo_oc_db_def demo_client_def)
  from reactivation_restores_clients [OF demo_oc_inv this, of 8 T_ACTIVE 9] show ?thesis
    by (simp add: Let_def demo_oc_db_def)
qed

end
