(* ===== verification/Js_Date.thy ===== *)
theory Js_Date
  imports Prelude
begin

text \<open>
  The part of the \<^verbatim>\<open>Date\<close> object the program uses (\<^verbatim>\<open>Date.UTC\<close>, \<^verbatim>\<open>getUTCFullYear\<close>, \<^verbatim>\<open>getUTCMonth\<close>,
  \<^verbatim>\<open>toISOString\<close>), from the definitions of the language standard, and the monthly partitions of the audit log.
\<close>

section \<open>Calendar\<close>

definition MS_PER_DAY :: int where
  "MS_PER_DAY = 86400000"

definition day_from_year :: "int \<Rightarrow> int" where
  "day_from_year y = 365 * (y - 1970) + (y - 1969) div 4 - (y - 1901) div 100 + (y - 1601) div 400"

definition leap_year :: "int \<Rightarrow> bool" where
  "leap_year y = (day_from_year (y + 1) - day_from_year y = 366)"

lemma div_succ:
  fixes x k :: int
  assumes "k > 0"
  shows "(x + 1) div k = x div k + (if k dvd x + 1 then 1 else 0)"
proof (cases "k dvd x + 1")
  case True
  then obtain q where q: "x + 1 = k * q" by blast
  then have "x = k * (q - 1) + (k - 1)" by (simp add: algebra_simps)
  then have "x div k = q - 1" by (rule int_div_pos_eq) (use assms in simp_all)
  then show ?thesis using True q assms by simp
next
  case False
  have x: "x + 1 = k * (x div k) + (x mod k + 1)" by simp
  have "x mod k + 1 \<noteq> k" using False x by (metis dvd_add dvd_triv_left dvd_refl)
  then have "x mod k + 1 < k" using pos_mod_bound [OF assms, of x] by linarith
  then have "(x + 1) div k = x div k" by (intro int_div_pos_eq [OF x]) (use pos_mod_sign [OF assms, of x] in simp_all)
  then show ?thesis using False by simp
qed

lemma year_length: "day_from_year y + 365 \<le> day_from_year (y + 1)" "day_from_year (y + 1) \<le> day_from_year y + 366"
proof -
  have e: "day_from_year (y + 1) = day_from_year y + 365 + (if 4 dvd y - 1968 then 1 else 0)
      - (if 100 dvd y - 1900 then 1 else 0) + (if 400 dvd y - 1600 then 1 else 0)"
    using div_succ [of 4 "y - 1969"] div_succ [of 100 "y - 1901"] div_succ [of 400 "y - 1601"]
    by (simp add: day_from_year_def algebra_simps)
  have d: "100 dvd y - 1900 \<Longrightarrow> 4 dvd y - 1968" "400 dvd y - 1600 \<Longrightarrow> 100 dvd y - 1900"
  proof -
    assume "100 dvd y - 1900"
    then obtain k where "y = 100 * k + 1900" by (metis add.commute diff_add_cancel dvdE)
    then have "y - 1968 = 4 * (25 * k - 17)" by simp
    then show "4 dvd y - 1968" by (rule dvdI)
  next
    assume "400 dvd y - 1600"
    then obtain k where "y = 400 * k + 1600" by (metis add.commute diff_add_cancel dvdE)
    then have "y - 1900 = 100 * (4 * k - 3)" by simp
    then show "100 dvd y - 1900" by (rule dvdI)
  qed
  show "day_from_year y + 365 \<le> day_from_year (y + 1)" unfolding e using d(1) by (cases "100 dvd y - 1900") simp_all
  show "day_from_year (y + 1) \<le> day_from_year y + 366" unfolding e using d(2) by (cases "400 dvd y - 1600") simp_all
qed

text \<open>The year of a day: search upwards from an estimate that is never too late.\<close>

function year_search :: "int \<Rightarrow> int \<Rightarrow> int" where
  "year_search day y = (if day_from_year (y + 1) \<le> day then year_search day (y + 1) else y)"
  by auto
termination
proof (relation "measure (\<lambda>(day, y). nat (day - day_from_year y))")
  fix day y assume "day_from_year (y + 1) \<le> day"
  then show "((day, y + 1), (day, y)) \<in> measure (\<lambda>(day, y). nat (day - day_from_year y))"
    using year_length(1) [of y] by simp
qed simp

declare year_search.simps [simp del]

definition year_from_day :: "int \<Rightarrow> int" where
  "year_from_day day = year_search day (if day \<ge> 0 then 1970 + day div 366 else 1969 + day div 365)"

definition month_starts :: "bool \<Rightarrow> int list" where
  "month_starts leap =
     (if leap then [0, 31, 60, 91, 121, 152, 182, 213, 244, 274, 305, 335]
      else [0, 31, 59, 90, 120, 151, 181, 212, 243, 273, 304, 334])"

definition month_from_day :: "int \<Rightarrow> nat" where
  "month_from_day day =
     (let y = year_from_day day
      in length (takeWhile (\<lambda>s. s \<le> day - day_from_year y) (month_starts (leap_year y))) - 1)"

definition getUTCFullYear :: "time \<Rightarrow> int" where
  "getUTCFullYear t = year_from_day (t div MS_PER_DAY)"

definition getUTCMonth :: "time \<Rightarrow> nat" where
  "getUTCMonth t = month_from_day (t div MS_PER_DAY)"

text \<open>\<^verbatim>\<open>Date.UTC(year, month, 1)\<close>; a month outside 0..11 carries into the year.\<close>

definition month_day :: "int \<Rightarrow> int" where
  "month_day n = day_from_year (n div 12) + month_starts (leap_year (n div 12)) ! nat (n mod 12)"

definition date_UTC :: "int \<Rightarrow> int \<Rightarrow> time" where
  "date_UTC year month = month_day (12 * year + month) * MS_PER_DAY"

section \<open>Laws\<close>

lemma year_search_found:
  "day_from_year y \<le> day \<Longrightarrow>
   day_from_year (year_search day y) \<le> day \<and> day < day_from_year (year_search day y + 1)"
proof (induction day y rule: year_search.induct)
  case (1 day y)
  then show ?case by (subst (1 2) year_search.simps) auto
qed

lemma year_estimate: "day_from_year (if day \<ge> 0 then 1970 + day div 366 else 1969 + day div 365) \<le> day"
proof -
  have up: "day_from_year (1970 + int n) \<le> 366 * int n" for n
  proof (induction n)
    case (Suc n)
    then show ?case using year_length(2) [of "1970 + int n"] by (simp add: algebra_simps)
  qed (simp add: day_from_year_def)
  have down: "day_from_year (1970 - int n) \<le> - 365 * int n" for n
  proof (induction n)
    case (Suc n)
    then show ?case using year_length(1) [of "1970 - int (Suc n)"] by (simp add: algebra_simps)
  qed (simp add: day_from_year_def)
  show ?thesis
  proof (cases "day \<ge> 0")
    case True
    moreover have "366 * (day div 366) \<le> day" by presburger
    ultimately show ?thesis using up [of "nat (day div 366)"] by (simp add: pos_imp_zdiv_nonneg_iff)
  next
    case False
    then have "day div 365 \<le> 1" by presburger
    then have "day_from_year (1969 + day div 365) \<le> - 365 * (1 - day div 365)"
      using down [of "nat (1 - day div 365)"] by (simp add: algebra_simps)
    also have "\<dots> \<le> day" by presburger
    finally show ?thesis using False by simp
  qed
qed

lemma year_from_day: "day_from_year (year_from_day day) \<le> day" "day < day_from_year (year_from_day day + 1)"
  unfolding year_from_day_def using year_search_found [OF year_estimate] by blast+

lemma year_length_leap: "day_from_year (y + 1) = day_from_year y + (if leap_year y then 366 else 365)"
  using year_length [of y] by (auto simp: leap_year_def)

text \<open>Where the months of a year begin and end.\<close>

lemma month_day_in_year:
  "m < 12 \<Longrightarrow> month_day (12 * y + int m) = day_from_year y + month_starts (leap_year y) ! m"
  by (simp add: month_day_def)

lemma month_ends:
  "m < 12 \<Longrightarrow> month_day (12 * y + int m + 1)
     = day_from_year y + (if m = 11 then if leap_year y then 366 else 365 else month_starts (leap_year y) ! Suc m)"
proof (cases "m = 11")
  case True
  then have "month_day (12 * y + int m + 1) = month_day (12 * (y + 1) + int 0)" by (simp add: algebra_simps)
  also have "\<dots> = day_from_year (y + 1)" by (subst month_day_in_year) (simp_all add: month_starts_def)
  finally show ?thesis using True by (simp add: year_length_leap)
next
  case False
  assume "m < 12"
  then have "month_day (12 * y + int m + 1) = month_day (12 * y + int (Suc m))" by (simp add: algebra_simps)
  then show ?thesis using False \<open>m < 12\<close> by (subst (asm) month_day_in_year) simp_all
qed

lemma length_month_starts [simp]: "length (month_starts l) = 12"
  by (simp add: month_starts_def)

lemma month_lt_all:
  "list_all (\<lambda>m. month_starts l ! m < (if m = 11 then if l then 366 else 365 else month_starts l ! Suc m)) [0..<12]"
  by (cases l) (simp_all add: month_starts_def upt_rec)

lemma month_lt: "m < 12 \<Longrightarrow>
   month_starts l ! m < (if m = 11 then if l then 366 else 365 else month_starts l ! Suc m)"
  using month_lt_all [of l] unfolding list_all_iff by simp

lemma month_day_step: "month_day n < month_day (n + 1)"
proof -
  define y m where "y = n div 12" and "m = nat (n mod 12)"
  have n: "n = 12 * y + int m" and m: "m < 12" by (simp_all add: y_def m_def)
  show ?thesis using month_ends [OF m, of y] month_day_in_year [OF m, of y] month_lt [OF m, of "leap_year y"]
    by (simp add: n)
qed

lemma month_day_mono: "a \<le> b \<Longrightarrow> month_day a \<le> month_day b"
proof (induction "nat (b - a)" arbitrary: b)
  case (Suc k)
  then have "month_day a \<le> month_day (b - 1)" by simp
  then show ?case using month_day_step [of "b - 1"] by simp
qed simp

text \<open>The month of a day contains it.\<close>

lemma takeWhile_sorted_pos:
  assumes "sorted xs" "xs \<noteq> []" "hd xs \<le> v"
  defines "k \<equiv> length (takeWhile (\<lambda>s. s \<le> v) xs) - 1"
  shows "k < length xs \<and> xs ! k \<le> v \<and> (Suc k < length xs \<longrightarrow> v < xs ! Suc k)"
proof -
  let ?t = "takeWhile (\<lambda>s. s \<le> v) xs"
  have t: "?t \<noteq> []" "length ?t \<le> length xs" using assms(2,3) by (cases xs; simp add: length_takeWhile_le)+
  then have k: "k < length ?t" by (simp add: k_def)
  then have "xs ! k = ?t ! k" by (simp add: takeWhile_nth)
  moreover have "?t ! k \<in> set ?t" using k by simp
  ultimately have "xs ! k \<le> v" using set_takeWhileD by fastforce
  moreover have "v < xs ! Suc k" if "Suc k < length xs"
    using nth_length_takeWhile [of "\<lambda>s. s \<le> v" xs] that t(1) k by (simp add: k_def not_le)
  ultimately show ?thesis using k t(2) by simp
qed

lemma month_from_day:
  "month_day (12 * year_from_day day + int (month_from_day day)) \<le> day"
  "day < month_day (12 * year_from_day day + int (month_from_day day) + 1)"
proof -
  let ?y = "year_from_day day"
  let ?l = "leap_year ?y"
  let ?m = "month_from_day day"
  have "sorted (month_starts ?l)" "month_starts ?l \<noteq> []" "hd (month_starts ?l) \<le> day - day_from_year ?y"
    using year_from_day(1) [of day] by (auto simp: month_starts_def)
  from takeWhile_sorted_pos [OF this]
  have "?m < length (month_starts ?l)" "month_starts ?l ! ?m \<le> day - day_from_year ?y"
    "Suc ?m < length (month_starts ?l) \<longrightarrow> day - day_from_year ?y < month_starts ?l ! Suc ?m"
    unfolding month_from_day_def Let_def by blast+
  then have m: "?m < 12" "month_starts ?l ! ?m \<le> day - day_from_year ?y"
    "?m \<noteq> 11 \<longrightarrow> day - day_from_year ?y < month_starts ?l ! Suc ?m"
    by auto
  show "month_day (12 * ?y + int ?m) \<le> day" using m(2) by (simp add: month_day_in_year [OF m(1)])
  show "day < month_day (12 * ?y + int ?m + 1)"
    using m(3) year_from_day(2) [of day] unfolding month_ends [OF m(1)] year_length_leap by auto
qed

lemma date_UTC_next: "date_UTC y m < date_UTC y (m + 1)"
  using month_day_step [of "12 * y + m"] by (simp add: date_UTC_def MS_PER_DAY_def algebra_simps)

lemma date_UTC_carry: "date_UTC y (12 * k + m) = date_UTC (y + k) m"
  by (simp add: date_UTC_def algebra_simps)

lemma date_UTC_contains:
  "date_UTC (getUTCFullYear t) (int (getUTCMonth t)) \<le> t"
  "t < date_UTC (getUTCFullYear t) (int (getUTCMonth t) + 1)"
proof -
  let ?d = "t div MS_PER_DAY"
  have "?d * MS_PER_DAY \<le> t" "t < (?d + 1) * MS_PER_DAY" by (simp_all add: MS_PER_DAY_def)
  moreover note month_from_day [of ?d]
  ultimately show "date_UTC (getUTCFullYear t) (int (getUTCMonth t)) \<le> t"
    "t < date_UTC (getUTCFullYear t) (int (getUTCMonth t) + 1)"
    unfolding date_UTC_def getUTCFullYear_def getUTCMonth_def MS_PER_DAY_def by (simp_all add: algebra_simps)
qed

section \<open>toISOString\<close>

definition pad :: "nat \<Rightarrow> int \<Rightarrow> string" where
  "pad w n = (let s = show_nat (nat n) in replicate (w - length s) CHR ''0'' @ s)"

definition toISOString :: "time \<Rightarrow> string" where
  "toISOString t =
     (let y = getUTCFullYear t; m = int (getUTCMonth t);
          date = t div MS_PER_DAY - date_UTC y m div MS_PER_DAY + 1;
          ms = t mod MS_PER_DAY;
          year = (if 0 \<le> y \<and> y \<le> 9999 then pad 4 y
                  else (if y < 0 then ''-'' else ''+'') @ pad 6 (abs y))
      in year @ ''-'' @ pad 2 (m + 1) @ ''-'' @ pad 2 date @ ''T'' @ pad 2 (ms div 3600000) @ '':'' @
         pad 2 (ms div 60000 mod 60) @ '':'' @ pad 2 (ms div 1000 mod 60) @ ''.'' @ pad 3 (ms mod 1000) @ ''Z'')"

section \<open>Monthly partitions\<close>

text \<open>The bounds are kept as instants; the statement that creates a partition prints them with
  \<^const>\<open>toISOString\<close>.\<close>

record partition_spec =
  ps_name :: string
  ps_from :: time
  ps_to :: time

definition buildMonthlyPartitionSpecs :: "time \<Rightarrow> nat \<Rightarrow> partition_spec list" where
  "buildMonthlyPartitionSpecs start monthsAhead =
     (let cursor = date_UTC (getUTCFullYear start) (int (getUTCMonth start)) in
      map (\<lambda>i. let from = date_UTC (getUTCFullYear cursor) (int (getUTCMonth cursor) + int i);
                   to = date_UTC (getUTCFullYear cursor) (int (getUTCMonth cursor) + int i + 1)
               in \<lparr>ps_name = ''audit_log_'' @ show_int (getUTCFullYear from) @ ''_'' @ pad 2 (int (getUTCMonth from) + 1),
                   ps_from = from, ps_to = to\<rparr>)
        [0..<Suc monthsAhead])"

text \<open>The first instant of a month lies in that month.\<close>

lemma month_unique:
  assumes "month_day a \<le> day" "day < month_day (a + 1)" "month_day b \<le> day" "day < month_day (b + 1)"
  shows "a = b"
  using assms month_day_mono [of "a + 1" b] month_day_mono [of "b + 1" a] by linarith

lemma date_UTC_fixed:
  fixes start
  defines "c \<equiv> date_UTC (getUTCFullYear start) (int (getUTCMonth start))"
  shows "date_UTC (getUTCFullYear c) (int (getUTCMonth c) + k) = date_UTC (getUTCFullYear start) (int (getUTCMonth start) + k)"
proof -
  let ?n = "\<lambda>t. 12 * getUTCFullYear t + int (getUTCMonth t)"
  have day: "c div MS_PER_DAY = month_day (?n start)" by (simp add: c_def date_UTC_def MS_PER_DAY_def)
  have "?n c = ?n start"
    by (rule month_unique [of _ "month_day (?n start)"])
      (use month_from_day [of "month_day (?n start)"] month_day_step [of "?n start"] day in
        \<open>simp_all add: getUTCFullYear_def getUTCMonth_def\<close>)
  then show ?thesis by (simp add: date_UTC_def add.assoc [symmetric])
qed

lemma partition_bounds:
  "i \<le> monthsAhead \<Longrightarrow>
     ps_from (buildMonthlyPartitionSpecs start monthsAhead ! i) = date_UTC (getUTCFullYear start) (int (getUTCMonth start) + int i)
   \<and> ps_to (buildMonthlyPartitionSpecs start monthsAhead ! i) = date_UTC (getUTCFullYear start) (int (getUTCMonth start) + int i + 1)"
  using date_UTC_fixed [of start "int i"] date_UTC_fixed [of start "int i + 1"]
  by (simp add: buildMonthlyPartitionSpecs_def Let_def nth_append add.assoc del: upt_Suc)

lemma date_UTC_mono: "a \<le> b \<Longrightarrow> date_UTC y a \<le> date_UTC y b"
  using month_day_mono [of "12 * y + a" "12 * y + b"] by (simp add: date_UTC_def MS_PER_DAY_def)

lemma find_interval:
  fixes f :: "nat \<Rightarrow> int"
  assumes "f 0 \<le> t" "t < f n"
  shows "\<exists>i<n. f i \<le> t \<and> t < f (Suc i)"
  using assms(2)
proof (induction n)
  case (Suc n)
  then show ?case by (cases "t < f n") (use less_Suc_eq in \<open>auto simp: not_less\<close>)
qed (use assms(1) in simp)

section \<open>Properties\<close>

text \<open>The partitions created for \<open>monthsAhead\<close> months leave no gap and do not overlap: every instant
  from the beginning of the current month (so in particular the current instant) up to the end of the last
  month falls into exactly one of the \<open>monthsAhead + 1\<close> partitions.\<close>

theorem partitions_tile:
  assumes "ps_from (hd (buildMonthlyPartitionSpecs start monthsAhead)) \<le> t"
    and "t < ps_to (last (buildMonthlyPartitionSpecs start monthsAhead))"
  shows "length (buildMonthlyPartitionSpecs start monthsAhead) = monthsAhead + 1
    \<and> (\<exists>!i. i < monthsAhead + 1 \<and> ps_from (buildMonthlyPartitionSpecs start monthsAhead ! i) \<le> t
          \<and> t < ps_to (buildMonthlyPartitionSpecs start monthsAhead ! i))
    \<and> ps_from (hd (buildMonthlyPartitionSpecs start monthsAhead)) \<le> start
    \<and> start < ps_to (hd (buildMonthlyPartitionSpecs start monthsAhead))"
proof -
  let ?s = "buildMonthlyPartitionSpecs start monthsAhead"
  let ?f = "\<lambda>i. date_UTC (getUTCFullYear start) (int (getUTCMonth start) + int i)"
  have len: "length ?s = monthsAhead + 1" by (simp add: buildMonthlyPartitionSpecs_def Let_def)
  then have ends: "hd ?s = ?s ! 0" "last ?s = ?s ! monthsAhead" by (simp_all add: hd_conv_nth last_conv_nth flip: length_greater_0_conv)
  have b: "ps_from (?s ! i) = ?f i \<and> ps_to (?s ! i) = ?f (Suc i)" if "i < monthsAhead + 1" for i
    using partition_bounds [of i monthsAhead start] that by (simp add: algebra_simps)
  obtain i where i: "i < monthsAhead + 1" "?f i \<le> t" "t < ?f (Suc i)"
    using find_interval [of ?f t "monthsAhead + 1"] assms b [of 0] b [of monthsAhead] ends by auto
  have mono: "?f a \<le> ?f b" if "a \<le> b" for a b using that by (simp add: date_UTC_mono)
  have uniq: "j = i" if j: "?f j \<le> t" "t < ?f (Suc j)" for j
  proof (rule linorder_cases [of j i])
    assume "j < i"
    then show ?thesis using mono [of "Suc j" i] i(2) j(2) by simp
  next
    assume "i < j"
    then show ?thesis using mono [of "Suc i" j] i(3) j(1) by simp
  qed simp
  have "\<exists>!i. i < monthsAhead + 1 \<and> ps_from (?s ! i) \<le> t \<and> t < ps_to (?s ! i)"
  proof (intro ex1I [of _ i] conjI)
    fix j assume "j < monthsAhead + 1 \<and> ps_from (?s ! j) \<le> t \<and> t < ps_to (?s ! j)"
    then show "j = i" using uniq [of j] b [of j] by simp
  qed (use i b [of i] in simp_all)
  then show ?thesis using len date_UTC_contains [of start] b [of 0] ends by simp
qed

theorem partitions_tile_witness:
  "\<exists>!i. i < 2 + 1 \<and> ps_from (buildMonthlyPartitionSpecs 1700000000000 2 ! i) \<le> 1703000000000
          \<and> 1703000000000 < ps_to (buildMonthlyPartitionSpecs 1700000000000 2 ! i)"
proof -
  let ?s = "buildMonthlyPartitionSpecs 1700000000000 2"
  have y: "getUTCFullYear 1700000000000 = 2023" by code_simp
  have m: "getUTCMonth 1700000000000 = 10" by code_simp
  have len: "length ?s = 3" by (simp add: buildMonthlyPartitionSpecs_def Let_def)
  then have ends: "hd ?s = ?s ! 0" "last ?s = ?s ! 2" by (simp_all add: hd_conv_nth last_conv_nth flip: length_greater_0_conv)
  have d: "date_UTC 2023 10 = 1698796800000" "date_UTC 2023 13 = 1706745600000" by code_simp+
  have "ps_from (hd ?s) \<le> 1703000000000" using partition_bounds [of 0 2 1700000000000] by (simp add: ends y m d)
  moreover have "1703000000000 < ps_to (last ?s)" using partition_bounds [of 2 2 1700000000000] by (simp add: ends y m d)
  ultimately show ?thesis using partitions_tile [of 1700000000000 2 1703000000000] by blast
qed

end
