(* ===== verification/Audit_Log.thy ===== *)
theory Audit_Log
  imports Keyset_Pagination Js_Date
begin

text \<open>
  \<^verbatim>\<open>audit-log\<close>: the insert-only repository, the service with its paged listing and CSV export, the worker that
  turns queued events into rows, the automatic interceptor, and the monthly partitions.
\<close>

section \<open>AuditLogRepository\<close>

fun action_str :: "audit_action \<Rightarrow> string" where
  "action_str A_ISSUE = ''issue''"
| "action_str A_VERIFY = ''verify''"
| "action_str A_HOLD = ''hold''"
| "action_str A_REVOKE = ''revoke''"
| "action_str A_CREATE = ''create''"
| "action_str A_UPDATE = ''update''"
| "action_str A_DELETE = ''delete''"
| "action_str A_LOGIN = ''login''"
| "action_str A_TOKEN_GRANT = ''token_grant''"

fun actor_type_str :: "audit_actor_type \<Rightarrow> string" where
  "actor_type_str AA_USER = ''user''"
| "actor_type_str AA_SYSTEM = ''system''"
| "actor_type_str AA_CLIENT = ''client''"

text \<open>The pattern of \<^verbatim>\<open>UUID_RE\<close>; a \<^verbatim>\<open>uuid\<close> column accepts the same strings.\<close>

definition UUID_RE :: "(char \<Rightarrow> bool) list" where
  "UUID_RE =
     replicate 8 is_hex @ [\<lambda>c. c = CHR ''-''] @ replicate 4 is_hex @ [\<lambda>c. c = CHR ''-''] @ replicate 4 is_hex @
     [\<lambda>c. c = CHR ''-''] @ replicate 4 is_hex @ [\<lambda>c. c = CHR ''-''] @ replicate 12 is_hex"

definition is_uuid :: "string \<Rightarrow> bool" where
  "is_uuid s = pattern_test UUID_RE s"

text \<open>The insert, refused by the \<^verbatim>\<open>uuid\<close> columns and by the foreign keys on the tenant and the operation.\<close>

definition al_admissible :: "audit_event \<Rightarrow> db \<Rightarrow> bool" where
  "al_admissible ev d =
     (is_uuid (ae_tenantId ev) \<and> is_uuid (ae_resourceId ev)
      \<and> list_ex (\<lambda>t. t_id t = ae_tenantId ev) (tenants d)
      \<and> (case ae_operationId ev of None \<Rightarrow> True | Some o_id \<Rightarrow> list_ex (\<lambda>x. op_id x = o_id) (operations d)))"

definition al_insert :: "string \<Rightarrow> micros \<Rightarrow> audit_event \<Rightarrow> string option \<Rightarrow> db \<Rightarrow> (audit_log \<times> db) result" where
  "al_insert newid created ev ip d =
     (if al_admissible ev d
      then let row = \<lparr>al_id = newid, al_event = ev, al_ipAddress = ip, al_createdAt = created\<rparr>
           in Ok (row, d\<lparr>audit_logs := audit_logs d @ [row]\<rparr>)
      else Err db_error)"

definition al_findByIdForTenant :: "string \<Rightarrow> string \<Rightarrow> db \<Rightarrow> audit_log option" where
  "al_findByIdForTenant tenantId i d =
     List.find (\<lambda>a. ae_tenantId (al_event a) = tenantId \<and> al_id a = i) (audit_logs d)"

record audit_filters =
  af_action :: "audit_action option"
  af_actorId :: "string option"
  af_resourceType :: "string option"
  af_resourceId :: "string option"
  af_operationId :: "string option"
  af_since :: "time option"
  af_until :: "time option"

text \<open>A filter string that is absent or empty does not restrict.\<close>

definition str_filter :: "string option \<Rightarrow> string \<Rightarrow> bool" where
  "str_filter f v = (case f of None \<Rightarrow> True | Some s \<Rightarrow> s = [] \<or> v = s)"

definition baseFilterQuery :: "string \<Rightarrow> audit_filters \<Rightarrow> db \<Rightarrow> audit_log list" where
  "baseFilterQuery tenantId f d =
     filter (\<lambda>a. ae_tenantId (al_event a) = tenantId
         \<and> (case af_action f of None \<Rightarrow> True | Some x \<Rightarrow> ae_action (al_event a) = x)
         \<and> str_filter (af_actorId f) (ae_actorId (al_event a))
         \<and> str_filter (af_resourceType f) (ae_resourceType (al_event a))
         \<and> str_filter (af_resourceId f) (ae_resourceId (al_event a))
         \<and> (case af_operationId f of None \<Rightarrow> True | Some s \<Rightarrow> s = [] \<or> ae_operationId (al_event a) = Some s)
         \<and> (case af_since f of None \<Rightarrow> True | Some t \<Rightarrow> from_js_date t \<le> al_createdAt a)
         \<and> (case af_until f of None \<Rightarrow> True | Some t \<Rightarrow> al_createdAt a \<le> from_js_date t))
       (audit_logs d)"

definition al_key :: "audit_log \<Rightarrow> (micros \<times> string) desc" where
  "al_key a = Desc (al_createdAt a, al_id a)"

definition al_findPageForTenant ::
  "string \<Rightarrow> audit_filters \<Rightarrow> nat \<Rightarrow> (micros \<times> string) desc option \<Rightarrow> db
     \<Rightarrow> audit_log list \<times> (micros \<times> string) desc option \<times> bool" where
  "al_findPageForTenant tenantId f limit cursor d =
     page_of al_key desc_cut limit (after_cursor al_key cursor (baseFilterQuery tenantId f d))"

definition AUDIT_LOG_EXPORT_MAX_ROWS :: nat where
  "AUDIT_LOG_EXPORT_MAX_ROWS = 10000"

definition al_findForExport :: "string \<Rightarrow> audit_filters \<Rightarrow> nat \<Rightarrow> db \<Rightarrow> audit_log list" where
  "al_findForExport tenantId f maxRows d =
     take maxRows (sort_key al_key (baseFilterQuery tenantId
       (f\<lparr>af_actorId := None, af_resourceType := None, af_resourceId := None, af_operationId := None\<rparr>) d))"

section \<open>AuditLogService\<close>

definition als_findById :: "string \<Rightarrow> string \<Rightarrow> db \<Rightarrow> audit_log result" where
  "als_findById tenantId i d =
     (case al_findByIdForTenant tenantId i d of
        None \<Rightarrow> Err (NotFound (''Audit log '' @ quoted i @ '' was not found.''))
      | Some a \<Rightarrow> Ok a)"

definition als_list ::
  "string \<Rightarrow> audit_filters \<Rightarrow> nat option \<Rightarrow> (micros \<times> string) desc option \<Rightarrow> db
     \<Rightarrow> audit_log list \<times> (micros \<times> string) desc option \<times> bool" where
  "als_list tenantId f limit cursor d =
     al_findPageForTenant tenantId f (case limit of None \<Rightarrow> 20 | Some l \<Rightarrow> l) cursor d"

definition csv_neutralize :: "string \<Rightarrow> string" where
  "csv_neutralize v = (case v of c # _ \<Rightarrow> if c \<in> set ''=+-@'' then CHR 0x27 # v else v | [] \<Rightarrow> v)"

definition csvEscape :: "string \<Rightarrow> string" where
  "csvEscape value =
     (let safe = csv_neutralize value in
      if list_ex (\<lambda>c. c = CHR 0x22 \<or> c = CHR '','' \<or> c = CHR 0x0A) safe
      then CHR 0x22 # concat (map (\<lambda>c. if c = CHR 0x22 then [CHR 0x22, CHR 0x22] else [c]) safe) @ [CHR 0x22]
      else safe)"

text \<open>\<^verbatim>\<open>JSON.stringify\<close>; the printing of a number is the argument \<open>num\<close>.\<close>

definition json_char :: "char \<Rightarrow> string" where
  "json_char c =
     (if c = CHR 0x22 then [CHR 0x5C, CHR 0x22]
      else if c = CHR 0x5C then [CHR 0x5C, CHR 0x5C]
      else if c = CHR 0x08 then [CHR 0x5C, CHR ''b'']
      else if c = CHR 0x0C then [CHR 0x5C, CHR ''f'']
      else if c = CHR 0x0A then [CHR 0x5C, CHR ''n'']
      else if c = CHR 0x0D then [CHR 0x5C, CHR ''r'']
      else if c = CHR 0x09 then [CHR 0x5C, CHR ''t'']
      else if of_char c < (0x20::nat)
      then CHR 0x5C # ''u00'' @ [''0123456789abcdef'' ! (of_char c div 16), ''0123456789abcdef'' ! (of_char c mod 16)]
      else [c])"

definition json_string :: "string \<Rightarrow> string" where
  "json_string s = CHR 0x22 # concat (map json_char s) @ [CHR 0x22]"

fun json_stringify :: "(rat \<Rightarrow> string) \<Rightarrow> json \<Rightarrow> string" where
  "json_stringify num JUndef = ''null''"
| "json_stringify num JNull = ''null''"
| "json_stringify num (JBool b) = (if b then ''true'' else ''false'')"
| "json_stringify num (JNum n) = num n"
| "json_stringify num (JStr s) = json_string s"
| "json_stringify num (JArr vs) = ''['' @ js_join '','' (map (json_stringify num) vs) @ '']''"
| "json_stringify num (JObj kvs) =
     ''{'' @ js_join '','' (map (\<lambda>(k, v). json_string k @ '':'' @ json_stringify num v)
              (filter (\<lambda>(k, v). v \<noteq> JUndef) kvs)) @ ''}''"

definition export_header :: "string list" where
  "export_header = [''id'', ''tenant_id'', ''actor_id'', ''actor_type'', ''action'', ''resource_type'', ''resource_id'',
     ''operation_id'', ''ip_address'', ''created_at'', ''metadata'']"

definition export_cells :: "(rat \<Rightarrow> string) \<Rightarrow> audit_log \<Rightarrow> string list" where
  "export_cells num a =
     (let ev = al_event a in
      [al_id a, ae_tenantId ev, ae_actorId ev, actor_type_str (ae_actorType ev), action_str (ae_action ev),
       ae_resourceType ev, ae_resourceId ev, (case ae_operationId ev of None \<Rightarrow> [] | Some s \<Rightarrow> s),
       (case al_ipAddress a of None \<Rightarrow> [] | Some s \<Rightarrow> s), toISOString (to_js_date (al_createdAt a)),
       json_stringify num (JObj (ae_metadata ev))])"

definition exportCsv :: "(rat \<Rightarrow> string) \<Rightarrow> string \<Rightarrow> audit_filters \<Rightarrow> db \<Rightarrow> string" where
  "exportCsv num tenantId f d =
     (let rows = al_findForExport tenantId f AUDIT_LOG_EXPORT_MAX_ROWS d;
          header = js_join '','' export_header;
          lines = map (\<lambda>row. js_join '','' (map csvEscape (export_cells num row))) rows
      in js_join [CHR 0x0A] (header # lines))"

section \<open>AuditWriteWorker\<close>

text \<open>Job payloads are typed here, so the two enumeration checks of the source hold by construction.\<close>

definition assertValidPayload :: "audit_event \<Rightarrow> audit_event result" where
  "assertValidPayload ev =
     (if ae_tenantId ev = [] \<or> ae_actorId ev = [] \<or> ae_resourceType ev = [] \<or> ae_resourceId ev = []
      then Err (InternalError ''Invalid audit.write payload'')
      else
        let operationId = (case ae_operationId ev of None \<Rightarrow> None | Some s \<Rightarrow> if s = [] then None else Some s) in
        if \<not> is_uuid (ae_tenantId ev) \<or> \<not> is_uuid (ae_resourceId ev)
           \<or> (case operationId of None \<Rightarrow> False | Some s \<Rightarrow> \<not> is_uuid s)
        then Err (InternalError ''Invalid audit.write payload'')
        else Ok (ev\<lparr>ae_operationId := operationId\<rparr>))"

definition audit_handle :: "string \<Rightarrow> micros \<Rightarrow> audit_event \<Rightarrow> db \<Rightarrow> db result" where
  "audit_handle newid created ev d =
     rbind (assertValidPayload ev) (\<lambda>data. rbind (al_insert newid created data None d) (\<lambda>(row, d'). Ok d'))"

text \<open>A worker takes a queued event; one that is refused ends in the dead-letter queue.\<close>

definition audit_worker_step :: "string \<Rightarrow> micros \<Rightarrow> nat \<Rightarrow> db \<Rightarrow> db" where
  "audit_worker_step newid created i d =
     (if i < length (audit_jobs d)
      then let d1 = d\<lparr>audit_jobs := take i (audit_jobs d) @ drop (Suc i) (audit_jobs d)\<rparr>
           in (case audit_handle newid created (audit_jobs d ! i) d1 of Inl _ \<Rightarrow> d1 | Inr d2 \<Rightarrow> d2)
      else d)"

section \<open>AuditAutoInterceptor\<close>

record http_request =
  hr_method :: string
  hr_path :: string
  hr_params :: "(string \<times> string) list"
  hr_body :: json

definition MUTATING_METHODS :: "string list" where
  "MUTATING_METHODS = [''POST'', ''PUT'', ''PATCH'', ''DELETE'']"

definition SKIP_PATH_PREFIXES :: "string list" where
  "SKIP_PATH_PREFIXES = [''/health'', ''/api/docs'', ''/api/docs/'']"

definition to_upper :: "string \<Rightarrow> string" where
  "to_upper = map (\<lambda>c. if CHR ''a'' \<le> c \<and> c \<le> CHR ''z'' then char_of (of_char c - 32 :: nat) else c)"

definition shouldSkipPath :: "string \<Rightarrow> bool" where
  "shouldSkipPath path = (sublist ''/audit-logs'' path \<or> list_ex (\<lambda>p. path = p \<or> prefix p path) SKIP_PATH_PREFIXES)"

definition param :: "string \<Rightarrow> http_request \<Rightarrow> string option" where
  "param k rq = (case map_of (hr_params rq) k of Some v \<Rightarrow> if v = [] then None else Some v | None \<Rightarrow> None)"

definition auto_resolveTenantId :: "http_request \<Rightarrow> string option" where
  "auto_resolveTenantId rq =
     (case param ''tenantId'' rq of
        Some t \<Rightarrow> Some t
      | None \<Rightarrow> (case jget (hr_body rq) ''tenantId'' of JStr t \<Rightarrow> if t = [] then None else Some t | _ \<Rightarrow> None))"

definition auto_resolveResourceId :: "http_request \<Rightarrow> string option" where
  "auto_resolveResourceId rq = param ''id'' rq"

definition mapAction :: "string \<Rightarrow> audit_action" where
  "mapAction m = (if m = ''POST'' then A_CREATE else if m = ''DELETE'' then A_DELETE else A_UPDATE)"

definition mapResourceType :: "string \<Rightarrow> string" where
  "mapResourceType path =
     (let segment = (case filter (\<lambda>s. s \<noteq> []) (split_on CHR ''/'' path) of [] \<Rightarrow> ''unknown'' | s # _ \<Rightarrow> s)
      in map (\<lambda>c. if c = CHR ''-'' then CHR ''_'' else c) segment)"

text \<open>\<open>skip\<close> is the decorator of the route; \<open>handled\<close> tells whether the handler completed.\<close>

definition intercept :: "bool \<Rightarrow> bool \<Rightarrow> bool \<Rightarrow> http_request \<Rightarrow> db \<Rightarrow> db" where
  "intercept enabled skip handled rq d =
     (let m = to_upper (hr_method rq); path = hr_path rq in
      if \<not> enabled \<or> skip \<or> m \<notin> set MUTATING_METHODS \<or> shouldSkipPath path \<or> \<not> handled then d
      else (case (auto_resolveTenantId rq, auto_resolveResourceId rq) of
          (Some tenantId, Some resourceId) \<Rightarrow>
            d\<lparr>audit_jobs := audit_jobs d @
               [\<lparr>ae_tenantId = tenantId, ae_actorId = ''system'', ae_actorType = AA_SYSTEM, ae_action = mapAction m,
                 ae_resourceType = mapResourceType path, ae_resourceId = resourceId, ae_operationId = None,
                 ae_metadata = [(''source'', JStr ''auto-interceptor''), (''method'', JStr m), (''path'', JStr path)]\<rparr>]\<rparr>
        | _ \<Rightarrow> d))"

section \<open>Listing\<close>

interpretation al_pages: keyset_source "al_findPageForTenant t f" "baseFilterQuery t f" al_key desc_cut for t f
  by unfold_locales (simp add: al_findPageForTenant_def)

text \<open>Two rows of one millisecond: the cursor of the later one is not before the earlier one.\<close>

lemma same_ms_cut:
  assumes "al_createdAt r div 1000 = al_createdAt a div 1000" "al_createdAt r mod 1000 \<noteq> 0"
  shows "al_key r \<le> desc_cut (al_key a)"
proof -
  have "al_createdAt a div 1000 * 1000 < al_createdAt r"
    using assms div_mult_mod_eq [of "al_createdAt r" 1000] pos_mod_sign [of 1000 "al_createdAt r"] by linarith
  then show ?thesis by (simp add: al_key_def desc_cut_def cursor_cut_def from_js_date_def to_js_date_def less_eq_prod_def)
qed

section \<open>CSV\<close>

text \<open>A reader of comma-separated records: quoted cells may hold separators and doubled quotes.\<close>

datatype csv_mode = AtStart | Raw | InQuotes | AfterQuote

fun csv_read :: "csv_mode \<Rightarrow> string \<Rightarrow> string list \<Rightarrow> string \<Rightarrow> string list list" where
  "csv_read m cell row [] = [row @ [cell]]"
| "csv_read InQuotes cell row (c # cs) =
     (if c = CHR 0x22 then csv_read AfterQuote cell row cs else csv_read InQuotes (cell @ [c]) row cs)"
| "csv_read m cell row (c # cs) =
     (if c = CHR '','' then csv_read AtStart [] (row @ [cell]) cs
      else if c = CHR 0x0A then (row @ [cell]) # csv_read AtStart [] [] cs
      else if c = CHR 0x22 \<and> m = AtStart then csv_read InQuotes cell row cs
      else if c = CHR 0x22 \<and> m = AfterQuote then csv_read InQuotes (cell @ [c]) row cs
      else csv_read Raw (cell @ [c]) row cs)"

definition csv_parse :: "string \<Rightarrow> string list list" where
  "csv_parse s = csv_read AtStart [] [] s"

text \<open>What follows a cell: the end, a comma or a line feed.\<close>

definition cell_end :: "string \<Rightarrow> bool" where
  "cell_end rest = (rest = [] \<or> hd rest = CHR '','' \<or> hd rest = CHR 0x0A)"

lemma csv_read_end: "cell_end rest \<Longrightarrow> m \<noteq> InQuotes \<Longrightarrow> csv_read m cell row rest = csv_read Raw cell row rest"
  by (cases rest; cases m) (auto simp: cell_end_def)

lemma csv_read_raw:
  "\<not> list_ex (\<lambda>c. c = CHR 0x22 \<or> c = CHR '','' \<or> c = CHR 0x0A) v \<Longrightarrow> m = Raw \<or> m = AtStart \<Longrightarrow> cell_end rest \<Longrightarrow>
   csv_read m cell row (v @ rest) = csv_read Raw (cell @ v) row rest"
proof (induction v arbitrary: m cell)
  case Nil
  then show ?case using csv_read_end [of rest m cell row] by auto
next
  case (Cons c v)
  then show ?case by (cases m) auto
qed

lemma csv_read_quoted:
  "csv_read InQuotes cell row (concat (map (\<lambda>c. if c = CHR 0x22 then [CHR 0x22, CHR 0x22] else [c]) v) @ CHR 0x22 # rest)
   = csv_read AfterQuote (cell @ v) row rest"
  by (induction v arbitrary: cell) auto

lemma csv_read_cell:
  assumes "cell_end rest"
  shows "csv_read AtStart [] row (csvEscape v @ rest) = csv_read Raw (csv_neutralize v) row rest"
  using csv_read_raw [of "csv_neutralize v" AtStart rest "[]" row] assms
    csv_read_end [of rest AfterQuote "csv_neutralize v" row]
  by (simp add: csvEscape_def Let_def csv_read_quoted)

lemma map_butlast_last: "xs \<noteq> [] \<Longrightarrow> map g (butlast xs) @ [g (last xs)] = map g xs"
  by (induction xs) auto

lemma csv_read_row:
  assumes "cells \<noteq> []" "rest = [] \<or> hd rest = CHR 0x0A"
  shows "csv_read AtStart [] row (js_join '','' (map csvEscape cells) @ rest)
       = csv_read Raw (csv_neutralize (last cells)) (row @ map csv_neutralize (butlast cells)) rest"
  using assms(1)
proof (induction cells arbitrary: row rule: induct_list012)
  case (2 x)
  then show ?case using csv_read_cell [of rest row x] assms(2) by (auto simp: cell_end_def)
next
  case (3 x y zs)
  have "csv_read AtStart [] row (csvEscape x @ CHR '','' # js_join '','' (map csvEscape (y # zs)) @ rest)
      = csv_read AtStart [] (row @ [csv_neutralize x]) (js_join '','' (map csvEscape (y # zs)) @ rest)"
    by (subst csv_read_cell) (simp_all add: cell_end_def)
  then show ?case using "3.IH"(2) [of "row @ [csv_neutralize x]"] by simp
qed simp

lemma csv_parse_rows:
  "rows \<noteq> [] \<Longrightarrow> \<forall>r\<in>set rows. r \<noteq> [] \<Longrightarrow>
   csv_parse (js_join [CHR 0x0A] (map (\<lambda>r. js_join '','' (map csvEscape r)) rows)) = map (map csv_neutralize) rows"
  unfolding csv_parse_def
proof (induction rows rule: induct_list012)
  case (2 r)
  then show ?case using csv_read_row [of r "[]" "[]"] by (simp add: map_butlast_last)
next
  case (3 r q rows)
  have "csv_read AtStart [] [] (js_join '','' (map csvEscape r) @ CHR 0x0A # rest)
     = map csv_neutralize r # csv_read AtStart [] [] rest" for rest
    using csv_read_row [of r "CHR 0x0A # rest" "[]"] "3.prems"(2) by (simp add: map_butlast_last)
  then show ?case using 3 by simp
qed simp

lemma header_plain: "map csvEscape export_header = export_header" "map csv_neutralize export_header = export_header"
  by (simp_all add: export_header_def csvEscape_def csv_neutralize_def Let_def)

section \<open>Draining the queue\<close>

definition normalize_event :: "audit_event \<Rightarrow> audit_event" where
  "normalize_event ev = ev\<lparr>ae_operationId := (case ae_operationId ev of Some [] \<Rightarrow> None | x \<Rightarrow> x)\<rparr>"

text \<open>The events that become rows: all ids are UUIDs, tenant and operation exist, nothing is empty.\<close>

definition deliverable :: "db \<Rightarrow> audit_event \<Rightarrow> bool" where
  "deliverable d ev =
     (is_uuid (ae_tenantId ev) \<and> is_uuid (ae_resourceId ev) \<and> ae_actorId ev \<noteq> [] \<and> ae_resourceType ev \<noteq> []
      \<and> list_ex (\<lambda>t. t_id t = ae_tenantId ev) (tenants d)
      \<and> (case ae_operationId (normalize_event ev) of
           None \<Rightarrow> True | Some s \<Rightarrow> is_uuid s \<and> list_ex (\<lambda>x. op_id x = s) (operations d)))"

lemma not_uuid_Nil [simp]: "\<not> is_uuid []"
  by (simp add: is_uuid_def pattern_test_def UUID_RE_def)

lemmas audit_handle_defs = audit_handle_def assertValidPayload_def al_insert_def al_admissible_def deliverable_def
  normalize_event_def Let_def

lemma audit_handle_stored:
  assumes "deliverable d ev"
  shows "audit_handle newid created ev d = Ok (d\<lparr>audit_logs := audit_logs d @
    [\<lparr>al_id = newid, al_event = normalize_event ev, al_ipAddress = None, al_createdAt = created\<rparr>]\<rparr>)"
proof (cases "ae_operationId ev")
  case (Some s)
  then show ?thesis using assms by (cases s) (auto simp: audit_handle_defs)
qed (use assms in \<open>auto simp: audit_handle_defs\<close>)

lemma audit_handle_refused:
  assumes "\<not> deliverable d ev"
  shows "\<exists>e. audit_handle newid created ev d = Err e"
proof (cases "ae_operationId ev")
  case (Some s)
  then show ?thesis using assms by (cases s) (auto simp: audit_handle_defs)
qed (use assms in \<open>auto simp: audit_handle_defs\<close>)

lemma audit_worker_head:
  assumes "audit_jobs d = ev # rest"
  shows "audit_worker_step newid created 0 d =
     (if deliverable d ev
      then d\<lparr>audit_jobs := rest, audit_logs := audit_logs d @
             [\<lparr>al_id = newid, al_event = normalize_event ev, al_ipAddress = None, al_createdAt = created\<rparr>]\<rparr>
      else d\<lparr>audit_jobs := rest\<rparr>)"
proof -
  have same: "deliverable (d\<lparr>audit_jobs := rest\<rparr>) ev = deliverable d ev" by (simp add: deliverable_def split: option.split)
  show ?thesis
    using audit_handle_stored [of "d\<lparr>audit_jobs := rest\<rparr>" ev newid created]
      audit_handle_refused [of "d\<lparr>audit_jobs := rest\<rparr>" ev newid created] same assms
    by (auto simp: audit_worker_step_def Let_def)
qed

section \<open>Properties\<close>

text \<open>The CSV export is faithful: a reader of comma-separated records gets back the header and, for
  each exported entry, exactly the cells of that entry in order, whatever commas, quotes, line feeds they
  hold; a cell that a spreadsheet would run as a formula comes back with an apostrophe in front, and no other
  cell is altered.\<close>

theorem exportCsv_roundtrip:
  "csv_parse (exportCsv num t f d)
     = export_header # map (\<lambda>a. map csv_neutralize (export_cells num a)) (al_findForExport t f AUDIT_LOG_EXPORT_MAX_ROWS d)
   \<and> \<not> (\<exists>v c s. csv_neutralize v = c # s \<and> c \<in> set ''=+-@'')"
proof -
  let ?rows = "al_findForExport t f AUDIT_LOG_EXPORT_MAX_ROWS d"
  have "exportCsv num t f d
      = js_join [CHR 0x0A] (map (\<lambda>r. js_join '','' (map csvEscape r)) (export_header # map (export_cells num) ?rows))"
    by (simp add: exportCsv_def Let_def header_plain comp_def)
  moreover have "\<forall>r\<in>set (export_header # map (export_cells num) ?rows). r \<noteq> []"
    by (auto simp: export_header_def export_cells_def Let_def)
  ultimately show ?thesis using csv_parse_rows [of "export_header # map (export_cells num) ?rows"]
    by (auto simp: header_plain comp_def csv_neutralize_def split: list.splits)
qed

text \<open>The listing of the audit log silently loses entries. Its cursor drops the microseconds of the
  last entry shown, and pages run backwards in time: an entry written in the same millisecond, just before the
  last entry of the first page, is on no page. The listing ends, the caller has followed every cursor, and the
  entry was never shown.\<close>

theorem audit_listing_loses:
  assumes "limit > 0" and "limit < length (baseFilterQuery t f d)"
    and "a = sort_key al_key (baseFilterQuery t f d) ! (limit - 1)"
    and "r = sort_key al_key (baseFilterQuery t f d) ! limit"
    and "al_key a < al_key r"
    and "al_createdAt r div 1000 = al_createdAt a div 1000" and "al_createdAt r mod 1000 \<noteq> 0"
  shows "r \<in> set (baseFilterQuery t f d) \<and>
    (\<exists>rows. follow (length (audit_logs d) + 1) (\<lambda>c. als_list t f (Some limit) c d) None = Some rows \<and> r \<notin> set rows)"
proof -
  let ?q = "baseFilterQuery t f d"
  let ?o = "after_cursor al_key None ?q"
  let ?c = "desc_cut (al_key a)"
  have o: "?o = sort_key al_key ?q" by (simp add: after_cursor_def)
  have len: "length ?o = length ?q" "length ?q \<le> length (audit_logs d)"
    unfolding o by (simp_all add: baseFilterQuery_def)
  have a: "al_key (?o ! (limit - 1)) = al_key a" using assms(3) o by simp
  have pg: "al_findPageForTenant t f limit None d = (take limit ?o, Some ?c, True)"
    using page_of_long [of limit ?o al_key desc_cut] assms(1,2) len a by (simp add: al_findPageForTenant_def)
  have "last (take limit ?o) = ?o ! (limit - 1)" using assms(1,2) len by (subst last_conv_nth) (auto simp: min_absorb1)
  then have lost: "r \<notin> set (take limit ?o) \<and> r \<notin> set (after_cursor al_key (Some ?c) ?q)"
    using al_pages.next_page_drops [OF pg] assms(5-7) a same_ms_cut by simp
  have "length (after_cursor al_key (Some ?c) ?q) < length ?q"
  proof -
    have "a \<in> set ?q" using assms(1-3) nth_mem [of "limit - 1" "sort_key al_key ?q"] by simp
    then show ?thesis using desc_cut_ge [of "al_key a"] unfolding after_cursor_def option.case length_sort
      by (intro length_filter_less) auto
  qed
  then obtain rows where rows: "follow (length (audit_logs d)) (\<lambda>c. al_findPageForTenant t f limit c d) (Some ?c) = Some rows"
    "set rows \<subseteq> set (after_cursor al_key (Some ?c) ?q)"
    using al_pages.follow_ends [OF assms(1) desc_cut_ge, of "Some ?c" t f d "length (audit_logs d)"] len(2) by auto
  have "follow (length (audit_logs d) + 1) (\<lambda>c. als_list t f (Some limit) c d) None = Some (take limit ?o @ rows)"
    using pg rows(1) by (simp add: als_list_def)
  moreover have "r \<in> set ?q" using assms(2,4) nth_mem [of limit "sort_key al_key ?q"] by simp
  ultimately show ?thesis using lost rows(2) by auto
qed

definition demo_event :: "string \<Rightarrow> audit_event" where
  "demo_event rid = \<lparr>ae_tenantId = ''t1'', ae_actorId = ''system'', ae_actorType = AA_SYSTEM, ae_action = A_UPDATE,
     ae_resourceType = ''tenant'', ae_resourceId = rid, ae_operationId = None, ae_metadata = []\<rparr>"

definition demo_audit_db :: db where
  "demo_audit_db = empty_db\<lparr>audit_logs :=
     [\<lparr>al_id = ''a1'', al_event = demo_event ''r1'', al_ipAddress = None, al_createdAt = 5001003\<rparr>,
      \<lparr>al_id = ''a2'', al_event = demo_event ''r2'', al_ipAddress = None, al_createdAt = 5001007\<rparr>]\<rparr>"

definition no_filters :: audit_filters where
  "no_filters = \<lparr>af_action = None, af_actorId = None, af_resourceType = None, af_resourceId = None,
     af_operationId = None, af_since = None, af_until = None\<rparr>"

theorem audit_listing_loses_witness:
  "\<exists>rows. follow 3 (\<lambda>c. als_list ''t1'' no_filters (Some 1) c demo_audit_db) None = Some rows
     \<and> audit_logs demo_audit_db ! 0 \<notin> set rows"
proof -
  let ?q = "baseFilterQuery ''t1'' no_filters demo_audit_db"
  let ?r = "audit_logs demo_audit_db ! 0"
  let ?a = "audit_logs demo_audit_db ! 1"
  have q: "?q = audit_logs demo_audit_db"
    by (simp add: baseFilterQuery_def demo_audit_db_def demo_event_def no_filters_def str_filter_def empty_db_def)
  have srt: "sort_key al_key (audit_logs demo_audit_db) = [?a, ?r]"
    by (simp add: demo_audit_db_def al_key_def empty_db_def)
  have n: "length (audit_logs demo_audit_db) = 2" by (simp add: demo_audit_db_def)
  have "al_key ?a < al_key ?r" by (simp add: demo_audit_db_def al_key_def)
  moreover have "al_createdAt ?r div 1000 = al_createdAt ?a div 1000" by (simp add: demo_audit_db_def)
  moreover have "al_createdAt ?r mod 1000 \<noteq> 0" by (simp add: demo_audit_db_def)
  ultimately show ?thesis
    using audit_listing_loses [of 1 "''t1''" no_filters demo_audit_db ?a ?r] unfolding q srt n by simp
qed


definition demo_uuid :: string where
  "demo_uuid = ''123e4567-e89b-12d3-a456-426614174000''"

definition demo_queue_db :: db where
  "demo_queue_db = empty_db\<lparr>
     tenants := [\<lparr>t_id = demo_uuid, t_name = ''Acme'', t_slug = ''acme'', t_description = None, t_status = T_ACTIVE,
       t_config = [], t_createdAt = 1000, t_updatedAt = 1, t_deletedAt = None, t_deactivatedAt = None\<rparr>],
     audit_jobs := [(demo_event demo_uuid)\<lparr>ae_tenantId := demo_uuid\<rparr>, demo_event ''grant-id'']\<rparr>"


end
