(* ===== verification/Rate_Limit.thy ===== *)
theory Rate_Limit
  imports Uri Tenant Audit_Log
begin

text \<open>
  \<^verbatim>\<open>rate-limit\<close> and the rate-limit part of \<^verbatim>\<open>admin\<close>: the key format, the sliding window kept in \<^verbatim>\<open>rate_limit_hits\<close>, the
  guards of the caller's address and of the tenant's tier, pruning, status and reset. Numeric settings are natural
  numbers. \<^verbatim>\<open>hit_at\<close> is a time stamp of the database, in microseconds.
\<close>

section \<open>Keys\<close>

definition KEY_SEPARATOR :: string where
  "KEY_SEPARATOR = ''::''"

definition buildRateLimitKey :: "string \<Rightarrow> string \<Rightarrow> string" where
  "buildRateLimitKey tracker routeKey = encodeURIComponent tracker @ KEY_SEPARATOR @ encodeURIComponent routeKey"

text \<open>\<^verbatim>\<open>String.prototype.indexOf\<close>.\<close>

fun js_indexOf :: "string \<Rightarrow> string \<Rightarrow> nat option" where
  "js_indexOf pat [] = (if pat = [] then Some 0 else None)"
| "js_indexOf pat (c # cs) =
     (if take (length pat) (c # cs) = pat then Some 0 else map_option Suc (js_indexOf pat cs))"

definition parseRateLimitKey :: "string \<Rightarrow> (string \<times> string) result" where
  "parseRateLimitKey key =
     (case js_indexOf KEY_SEPARATOR key of
        None \<Rightarrow> Err (InternalError (''Malformed rate limit key: '' @ key))
      | Some i \<Rightarrow>
          (case (decodeURIComponent (take i key), decodeURIComponent (drop (i + length KEY_SEPARATOR) key)) of
             (Some tracker, Some routeKey) \<Rightarrow> Ok (tracker, routeKey)
           | _ \<Rightarrow> Err (InternalError ''URI malformed'')))"

section \<open>RateLimitHitRepository\<close>

definition recordHit :: "string \<Rightarrow> micros \<Rightarrow> string \<Rightarrow> string \<Rightarrow> db \<Rightarrow> db" where
  "recordHit newid hitAt tracker routeKey d =
     d\<lparr>rate_limit_hits := rate_limit_hits d @
        [\<lparr>rh_id = newid, rh_tracker = tracker, rh_routeKey = routeKey, rh_hitAt = hitAt\<rparr>]\<rparr>"

definition countSince :: "string \<Rightarrow> string \<Rightarrow> time \<Rightarrow> db \<Rightarrow> nat" where
  "countSince tracker routeKey since d =
     length (filter (\<lambda>h. rh_tracker h = tracker \<and> rh_routeKey h = routeKey \<and> rh_hitAt h \<ge> since * 1000) (rate_limit_hits d))"

definition countGroupedByRouteSince :: "string \<Rightarrow> time \<Rightarrow> db \<Rightarrow> (string \<times> nat) list" where
  "countGroupedByRouteSince tenantId since d =
     (let hits = filter (\<lambda>h. rh_tracker h = tenantId \<and> rh_hitAt h \<ge> since * 1000) (rate_limit_hits d) in
      map (\<lambda>r. (r, length (filter (\<lambda>h. rh_routeKey h = r) hits))) (remdups (map rh_routeKey hits)))"

definition deleteForTenant :: "string \<Rightarrow> db \<Rightarrow> nat \<times> db" where
  "deleteForTenant tenantId d =
     (length (filter (\<lambda>h. rh_tracker h = tenantId) (rate_limit_hits d)),
      d\<lparr>rate_limit_hits := filter (\<lambda>h. rh_tracker h \<noteq> tenantId) (rate_limit_hits d)\<rparr>)"

definition pruneOlderThan :: "time \<Rightarrow> db \<Rightarrow> nat \<times> db" where
  "pruneOlderThan cutoff d =
     (length (filter (\<lambda>h. rh_hitAt h < cutoff * 1000) (rate_limit_hits d)),
      d\<lparr>rate_limit_hits := filter (\<lambda>h. \<not> rh_hitAt h < cutoff * 1000) (rate_limit_hits d)\<rparr>)"

section \<open>RateLimitStorageService\<close>

record storage_record =
  sr_totalHits :: nat
  sr_timeToExpire :: nat
  sr_isBlocked :: bool
  sr_timeToBlockExpire :: nat

definition ceil_seconds :: "nat \<Rightarrow> nat" where
  "ceil_seconds ms = (ms + 999) div 1000"

text \<open>The two database calls of \<^verbatim>\<open>increment\<close>: the count, and the decision with the insertion. Other requests can run
  between them.\<close>

definition increment_count :: "time \<Rightarrow> nat \<Rightarrow> string \<Rightarrow> string \<Rightarrow> db \<Rightarrow> nat" where
  "increment_count now ttl tracker routeKey d = countSince tracker routeKey (now - int ttl) d"

definition increment_record ::
  "string \<Rightarrow> micros \<Rightarrow> nat \<Rightarrow> nat \<Rightarrow> nat \<Rightarrow> string \<Rightarrow> string \<Rightarrow> nat \<Rightarrow> db \<Rightarrow> storage_record \<times> db" where
  "increment_record newid hitAt ttl limit blockDuration tracker routeKey existingHits d =
     (let alreadyBlocked = (existingHits > limit);
          d' = (if alreadyBlocked then d else recordHit newid hitAt tracker routeKey d);
          totalHits = (if alreadyBlocked then existingHits else existingHits + 1);
          isBlocked = (totalHits > limit)
      in (\<lparr>sr_totalHits = totalHits, sr_timeToExpire = ceil_seconds ttl, sr_isBlocked = isBlocked,
           sr_timeToBlockExpire = (if isBlocked then ceil_seconds (if blockDuration = 0 then ttl else blockDuration) else 0)\<rparr>, d'))"

definition increment ::
  "time \<Rightarrow> string \<times> micros \<Rightarrow> string \<Rightarrow> nat \<Rightarrow> nat \<Rightarrow> nat \<Rightarrow> db \<Rightarrow> storage_record result \<times> db" where
  "increment now stamp key ttl limit blockDuration d =
     (case parseRateLimitKey key of
        Inl e \<Rightarrow> (Err e, d)
      | Inr (tracker, routeKey) \<Rightarrow>
          let (res, d') = increment_record (fst stamp) (snd stamp) ttl limit blockDuration tracker routeKey
                (increment_count now ttl tracker routeKey d) d
          in (Ok res, d'))"

section \<open>Tiers, guards and pruning\<close>

datatype rate_limit_tier = STANDARD_TIER | PREMIUM_TIER

definition resolveRateLimitTier :: "(string \<times> json) list option \<Rightarrow> rate_limit_tier" where
  "resolveRateLimitTier config =
     (case config of
        None \<Rightarrow> STANDARD_TIER
      | Some c \<Rightarrow>
          (case map_of c ''rate_limits'' of
             Some (JObj o_fields) \<Rightarrow> if map_of o_fields ''tier'' = Some (JStr ''premium'') then PREMIUM_TIER else STANDARD_TIER
           | _ \<Rightarrow> STANDARD_TIER))"

record rate_limit_config =
  rlc_RATE_LIMIT_ENABLED :: "string option"
  rlc_WINDOW_MS :: "nat option"
  rlc_STANDARD_PER_MINUTE :: "nat option"
  rlc_PREMIUM_PER_MINUTE :: "nat option"

definition cfg_get :: "'a option \<Rightarrow> 'a \<Rightarrow> 'a" where
  "cfg_get v default_value = (case v of None \<Rightarrow> default_value | Some x \<Rightarrow> x)"

definition rl_enabled :: "rate_limit_config \<Rightarrow> bool" where
  "rl_enabled cfg = (cfg_get (rlc_RATE_LIMIT_ENABLED cfg) ''true'' \<noteq> ''false'')"

definition tier_limit :: "rate_limit_config \<Rightarrow> rate_limit_tier \<Rightarrow> nat" where
  "tier_limit cfg tier =
     (if tier = PREMIUM_TIER then cfg_get (rlc_PREMIUM_PER_MINUTE cfg) 1000 else cfg_get (rlc_STANDARD_PER_MINUTE cfg) 100)"

text \<open>\<^verbatim>\<open>super.shouldSkip\<close> of \<^verbatim>\<open>ThrottlerGuard\<close> is an argument.\<close>

definition rl_shouldSkip :: "rate_limit_config \<Rightarrow> bool \<Rightarrow> bool" where
  "rl_shouldSkip cfg super_skip = (super_skip \<or> \<not> rl_enabled cfg)"

definition getTracker :: "string option \<Rightarrow> string" where
  "getTracker ip = cfg_get ip ''unknown''"

definition route_key :: "string \<Rightarrow> string \<Rightarrow> string" where
  "route_key className handlerName = className @ ''.'' @ handlerName"

definition generateKey :: "string \<Rightarrow> string \<Rightarrow> string \<Rightarrow> string" where
  "generateKey className handlerName tracker = buildRateLimitKey tracker (route_key className handlerName)"

definition TenantTierRateLimitGuard ::
  "rate_limit_config \<Rightarrow> time \<Rightarrow> string \<times> micros \<Rightarrow> string \<Rightarrow> string \<Rightarrow> request \<Rightarrow> db \<Rightarrow> bool result \<times> db" where
  "TenantTierRateLimitGuard cfg now stamp className handlerName rq d =
     (if \<not> rl_enabled cfg then (Ok True, d)
      else (case rq_tenantId rq of
          None \<Rightarrow> (Ok True, d)
        | Some tenantId \<Rightarrow>
            if tenantId = [] then (Ok True, d)
            else
              let ttl = cfg_get (rlc_WINDOW_MS cfg) 60000;
                  tier = resolveRateLimitTier (map_option t_config (tn_findById tenantId d));
                  key = buildRateLimitKey tenantId (route_key className handlerName)
              in (case increment now stamp key ttl (tier_limit cfg tier) ttl d of
                    (Inl e, d') \<Rightarrow> (Err e, d')
                  | (Inr r, d') \<Rightarrow>
                      if sr_isBlocked r then (Err (TooManyRequests (sr_timeToBlockExpire r)), d') else (Ok True, d'))))"

text \<open>\<^verbatim>\<open>RateLimitPruneWorker.handle\<close>. The retention setting is \<open>None\<close> when it is not a finite number.\<close>

definition retention_minutes :: "rat option \<Rightarrow> rat" where
  "retention_minutes m = (case m of None \<Rightarrow> 5 | Some x \<Rightarrow> if x > 0 then x else 5)"

definition prune_cutoff :: "time \<Rightarrow> rat option \<Rightarrow> time" where
  "prune_cutoff now m = \<lfloor>of_int now - retention_minutes m * 60 * 1000\<rfloor>"

definition rate_limit_prune_handle :: "time \<Rightarrow> rat option \<Rightarrow> db \<Rightarrow> nat \<times> db" where
  "rate_limit_prune_handle now m d = pruneOlderThan (prune_cutoff now m) d"

section \<open>AdminRateLimitService\<close>

record rate_limit_status =
  rls_tenantId :: string
  rls_tier :: rate_limit_tier
  rls_windowMs :: nat
  rls_limit :: nat
  rls_routes :: "(string \<times> nat) list"

definition admin_getStatus :: "rate_limit_config \<Rightarrow> time \<Rightarrow> string \<Rightarrow> db \<Rightarrow> rate_limit_status result" where
  "admin_getStatus cfg now tenantId d =
     rbind (tns_findById tenantId d) (\<lambda>t.
       let tier = resolveRateLimitTier (Some (t_config t)); windowMs = cfg_get (rlc_WINDOW_MS cfg) 60000
       in Ok \<lparr>rls_tenantId = tenantId, rls_tier = tier, rls_windowMs = windowMs, rls_limit = tier_limit cfg tier,
              rls_routes = countGroupedByRouteSince tenantId (now - int windowMs) d\<rparr>)"

definition admin_reset :: "string \<times> micros \<Rightarrow> string \<Rightarrow> string option \<Rightarrow> db \<Rightarrow> (string \<times> nat) result \<times> db" where
  "admin_reset stamp tenantId actorId d =
     (case tns_findById tenantId d of
        Inl e \<Rightarrow> (Err e, d)
      | Inr t \<Rightarrow>
          let (count, d1) = deleteForTenant tenantId d;
              has_actor = (case actorId of None \<Rightarrow> False | Some a \<Rightarrow> a \<noteq> [])
          in (case al_insert (fst stamp) (snd stamp)
                 \<lparr>ae_tenantId = tenantId, ae_actorId = cfg_get actorId ''system'',
                  ae_actorType = (if has_actor then AA_USER else AA_SYSTEM), ae_action = A_DELETE,
                  ae_resourceType = ''rate_limit_hit'', ae_resourceId = tenantId, ae_operationId = None,
                  ae_metadata = [(''deletedCount'', JNum (of_nat count))]\<rparr> None d1 of
                Inl e \<Rightarrow> (Err e, d)
              | Inr (row, d2) \<Rightarrow> (Ok (tenantId, count), d2)))"

section \<open>Keys are unambiguous\<close>

lemma encode_no_colon: "CHR '':'' \<notin> set (encodeURIComponent s)"
  using encode_alphabet [of "CHR '':''" s] by (auto simp: uri_unreserved_def)

lemma indexOf_separator:
  "CHR '':'' \<notin> set a \<Longrightarrow> js_indexOf KEY_SEPARATOR (a @ KEY_SEPARATOR @ b) = Some (length a)"
  by (induction a) (auto simp: KEY_SEPARATOR_def)

lemma parse_build [simp]: "parseRateLimitKey (buildRateLimitKey tracker routeKey) = Ok (tracker, routeKey)"
  by (simp add: parseRateLimitKey_def buildRateLimitKey_def indexOf_separator encode_no_colon)

text \<open>The key of a rate-limit bucket is read back as the tracker and the route it was built from, for every
  tracker, addresses with \<^verbatim>\<open>::\<close> in them included; so two different buckets never share a key.\<close>

theorem rate_limit_key_roundtrip:
  "parseRateLimitKey (buildRateLimitKey tracker routeKey) = Ok (tracker, routeKey)
   \<and> (buildRateLimitKey tracker routeKey = buildRateLimitKey tracker' routeKey'
       \<longleftrightarrow> tracker = tracker' \<and> routeKey = routeKey')"
  by (metis parse_build prod.inject sum.inject(2))

section \<open>The sliding window\<close>

text \<open>One window setting and one limit for all buckets; requests and prune jobs in the order in which they run.\<close>

datatype rl_event =
    RL_Request (rl_now: time) (rl_id: string) (rl_hitAt: micros) (rl_tracker: string) (rl_route: string)
  | RL_Prune (rl_now: time) (rl_retention: "rat option")

text \<open>State: the requests admitted so far, and the database.\<close>

fun rl_step :: "nat \<Rightarrow> nat \<Rightarrow> rl_event \<Rightarrow> rl_event list \<times> db \<Rightarrow> rl_event list \<times> db" where
  "rl_step ttl limit (RL_Request now i hitAt tracker route) (adm, d) =
     (case increment now (i, hitAt) (buildRateLimitKey tracker route) ttl limit ttl d of
        (Inl e, d') \<Rightarrow> (adm, d')
      | (Inr r, d') \<Rightarrow> (if sr_isBlocked r then adm else adm @ [RL_Request now i hitAt tracker route], d'))"
| "rl_step ttl limit (RL_Prune now m) (adm, d) = (adm, snd (rate_limit_prune_handle now m d))"

text \<open>The events run in the order of the program's clock; a row gets its time stamp after the request has read the
  clock; pruning keeps at least one window.\<close>

fun rl_event_ok :: "nat \<Rightarrow> rl_event \<Rightarrow> bool" where
  "rl_event_ok ttl (RL_Request now i hitAt tracker route) = (now * 1000 \<le> hitAt)"
| "rl_event_ok ttl (RL_Prune now m) = (of_nat ttl \<le> retention_minutes m * 60 * 1000)"

definition rl_schedule_ok :: "nat \<Rightarrow> rl_event list \<Rightarrow> bool" where
  "rl_schedule_ok ttl evs = (list_all (rl_event_ok ttl) evs \<and> sorted (map rl_now evs))"

definition hits_in :: "string \<Rightarrow> string \<Rightarrow> micros \<Rightarrow> micros \<Rightarrow> db \<Rightarrow> nat" where
  "hits_in tracker route a b d =
     length (filter (\<lambda>h. rh_tracker h = tracker \<and> rh_routeKey h = route \<and> a \<le> rh_hitAt h \<and> rh_hitAt h < b) (rate_limit_hits d))"

fun rl_in :: "string \<Rightarrow> string \<Rightarrow> micros \<Rightarrow> micros \<Rightarrow> rl_event \<Rightarrow> bool" where
  "rl_in tracker route a b (RL_Request now i hitAt t r) = (t = tracker \<and> r = route \<and> a \<le> hitAt \<and> hitAt < b)"
| "rl_in tracker route a b (RL_Prune now m) = False"

definition admitted_in :: "string \<Rightarrow> string \<Rightarrow> micros \<Rightarrow> micros \<Rightarrow> rl_event list \<Rightarrow> nat" where
  "admitted_in tracker route a b adm = length (filter (rl_in tracker route a b) adm)"

lemma step_request:
  "rl_step ttl limit (RL_Request now i hitAt t r) (adm, d) =
     (let n = countSince t r (now - int ttl) d in
      (if n < limit then adm @ [RL_Request now i hitAt t r] else adm,
       if n \<le> limit then recordHit i hitAt t r d else d))"
  by (simp add: increment_def increment_record_def increment_count_def Let_def)

lemma hits_in_record:
  "hits_in t r a b (recordHit i h t' r' d) = hits_in t r a b d + (if t' = t \<and> r' = r \<and> a \<le> h \<and> h < b then 1 else 0)"
  by (simp add: hits_in_def recordHit_def)

lemma length_filter_mono: "(\<And>x. p x \<Longrightarrow> q x) \<Longrightarrow> length (filter p xs) \<le> length (filter q xs)"
  by (induction xs) auto

lemma hits_in_countSince: "since * 1000 \<le> a \<Longrightarrow> hits_in t r a b d \<le> countSince t r since d"
  unfolding hits_in_def countSince_def by (rule length_filter_mono) simp

lemma hits_in_prune: "cutoff * 1000 \<le> a \<Longrightarrow> hits_in t r a b (snd (pruneOlderThan cutoff d)) = hits_in t r a b d"
  unfolding hits_in_def pruneOlderThan_def by (simp, rule arg_cong [where f = length], rule filter_cong) auto

lemma hits_in_prune_le: "hits_in t r a b (snd (pruneOlderThan cutoff d)) \<le> hits_in t r a b d"
  unfolding hits_in_def pruneOlderThan_def by (simp, rule length_filter_mono) simp

lemma prune_cutoff_le: "of_nat ttl \<le> retention_minutes m * 60 * 1000 \<Longrightarrow> prune_cutoff now m \<le> now - int ttl"
proof -
  assume "of_nat ttl \<le> retention_minutes m * 60 * 1000"
  then have "of_int now - retention_minutes m * 60 * 1000 \<le> (of_int (now - int ttl) :: rat)" by simp
  then show ?thesis unfolding prune_cutoff_def by (metis floor_mono floor_of_int)
qed

definition rl_run :: "nat \<Rightarrow> nat \<Rightarrow> rl_event list \<Rightarrow> db \<Rightarrow> rl_event list \<times> db" where
  "rl_run ttl limit evs d = fold (rl_step ttl limit) evs ([], d)"

lemma rl_run_snoc: "rl_run ttl limit (evs @ [e]) d = rl_step ttl limit e (rl_run ttl limit evs d)"
  by (simp add: rl_run_def)

lemma schedule_snoc:
  "rl_schedule_ok ttl (evs @ [e]) \<longleftrightarrow> rl_schedule_ok ttl evs \<and> rl_event_ok ttl e \<and> (\<forall>x\<in>set evs. rl_now x \<le> rl_now e)"
  by (auto simp: rl_schedule_ok_def sorted_append)

text \<open>What was admitted within the window is still in the table.\<close>

lemma admitted_are_hits:
  assumes "rl_schedule_ok ttl evs" "\<forall>x\<in>set evs. rl_now x \<le> n" "(n - int ttl) * 1000 \<le> a"
  shows "admitted_in t r a b (fst (rl_run ttl limit evs d)) \<le> hits_in t r a b (snd (rl_run ttl limit evs d))"
  using assms(1,2)
proof (induction evs rule: rev_induct)
  case Nil
  then show ?case by (simp add: rl_run_def admitted_in_def)
next
  case (snoc e evs)
  obtain adm d' where S: "rl_run ttl limit evs d = (adm, d')" by force
  have IH: "admitted_in t r a b adm \<le> hits_in t r a b d'" using snoc S by (simp add: schedule_snoc)
  show ?case
  proof (cases e)
    case (RL_Request now i h t' r')
    then show ?thesis using IH by (auto simp: rl_run_snoc S step_request Let_def hits_in_record admitted_in_def simp del: rl_step.simps(1))
  next
    case (RL_Prune now m)
    then have "prune_cutoff now m \<le> n - int ttl"
      using snoc.prems prune_cutoff_le [of ttl m now] by (auto simp: schedule_snoc)
    then have "prune_cutoff now m * 1000 \<le> (n - int ttl) * 1000" by simp
    then have "prune_cutoff now m * 1000 \<le> a" using assms(3) by (rule order_trans)
    then show ?thesis using IH RL_Prune by (simp add: rl_run_snoc S rate_limit_prune_handle_def hits_in_prune)
  qed
qed

lemma admitted_bound:
  assumes "rl_schedule_ok ttl evs"
  shows "admitted_in t r a (a + int ttl * 1000) (fst (rl_run ttl limit evs d)) \<le> limit"
  using assms
proof (induction evs rule: rev_induct)
  case (snoc e evs)
  obtain adm d' where S: "rl_run ttl limit evs d = (adm, d')" by force
  have IH: "admitted_in t r a (a + int ttl * 1000) adm \<le> limit" using snoc S by (simp add: schedule_snoc)
  show ?case
  proof (cases e)
    case (RL_Request now i h t' r')
    let ?new = "t' = t \<and> r' = r \<and> a \<le> h \<and> h < a + int ttl * 1000"
    show ?thesis
    proof (cases "?new \<and> countSince t r (now - int ttl) d' < limit")
      case True
      then have w: "(now - int ttl) * 1000 \<le> a" using snoc.prems RL_Request by (simp add: schedule_snoc)
      have "admitted_in t r a (a + int ttl * 1000) adm \<le> hits_in t r a (a + int ttl * 1000) d'"
        using admitted_are_hits [of ttl evs now a t r "a + int ttl * 1000" limit d] snoc.prems w RL_Request S
        by (simp add: schedule_snoc)
      also have "\<dots> \<le> countSince t r (now - int ttl) d'" by (rule hits_in_countSince [OF w])
      finally show ?thesis using True RL_Request
        by (simp add: rl_run_snoc S step_request Let_def admitted_in_def del: rl_step.simps(1))
    next
      case False
      then show ?thesis using IH RL_Request
        by (auto simp: rl_run_snoc S step_request Let_def admitted_in_def simp del: rl_step.simps(1))
    qed
  next
    case (RL_Prune now m)
    then show ?thesis using IH by (simp add: rl_run_snoc S)
  qed
qed (simp add: rl_run_def admitted_in_def)

lemma recorded_bound:
  assumes "rl_schedule_ok ttl evs" "rate_limit_hits d = []"
  shows "hits_in t r a (a + int ttl * 1000) (snd (rl_run ttl limit evs d)) \<le> limit + 1"
  using assms(1)
proof (induction evs rule: rev_induct)
  case (snoc e evs)
  obtain adm d' where S: "rl_run ttl limit evs d = (adm, d')" by force
  have IH: "hits_in t r a (a + int ttl * 1000) d' \<le> limit + 1" using snoc S by (simp add: schedule_snoc)
  show ?case
  proof (cases e)
    case (RL_Request now i h t' r')
    have "hits_in t r a (a + int ttl * 1000) d' \<le> countSince t r (now - int ttl) d'" if "h < a + int ttl * 1000"
      by (rule hits_in_countSince) (use that snoc.prems RL_Request in \<open>simp add: schedule_snoc\<close>)
    then show ?thesis using IH RL_Request
      by (auto simp: rl_run_snoc S step_request Let_def hits_in_record simp del: rl_step.simps(1))
  next
    case (RL_Prune now m)
    have "hits_in t r a (a + int ttl * 1000) (snd (pruneOlderThan (prune_cutoff now m) d')) \<le> limit + 1"
      by (rule order_trans [OF hits_in_prune_le IH])
    then show ?thesis using RL_Prune by (simp add: rl_run_snoc S rate_limit_prune_handle_def)
  qed
qed (simp add: rl_run_def hits_in_def assms(2))

text \<open>C34. Rate limit. Requests that run one after the other, with prune jobs between them whose retention is not
  shorter than the window, are admitted at most \<open>limit\<close> times per caller and route in every window of \<open>ttl\<close>
  milliseconds, wherever the window starts; and a flood leaves at most \<open>limit + 1\<close> rows per window in the table.\<close>

theorem sliding_window_bound:
  assumes "rl_schedule_ok ttl evs"
  shows "admitted_in t r a (a + int ttl * 1000) (fst (rl_run ttl limit evs d)) \<le> limit
     \<and> hits_in t r a (a + int ttl * 1000) (snd (rl_run ttl limit evs (d\<lparr>rate_limit_hits := []\<rparr>))) \<le> limit + 1"
  using admitted_bound [OF assms] recorded_bound [OF assms] by simp_all

theorem sliding_window_bound_witness:
  "admitted_in ''::1'' ''A.f'' 2000 3000 (fst (rl_run 1 2 [RL_Request 1 ''a'' 2000 ''::1'' ''A.f'', RL_Prune 2 None,
     RL_Request 2 ''b'' 2100 ''::1'' ''A.f'', RL_Request 2 ''c'' 2200 ''::1'' ''A.f''] empty_db)) \<le> 2"
proof -
  have "rl_schedule_ok 1 [RL_Request 1 ''a'' 2000 ''::1'' ''A.f'', RL_Prune 2 None,
     RL_Request 2 ''b'' 2100 ''::1'' ''A.f'', RL_Request 2 ''c'' 2200 ''::1'' ''A.f'']"
    by (simp add: rl_schedule_ok_def retention_minutes_def)
  from sliding_window_bound [OF this, of "''::1''" "''A.f''" 2000 2 empty_db] show ?thesis by simp
qed

section \<open>Tenants do not share quotas\<close>

definition rl_db_step :: "nat \<Rightarrow> nat \<Rightarrow> rl_event \<Rightarrow> db \<Rightarrow> db" where
  "rl_db_step ttl limit e d = snd (rl_step ttl limit e ([], d))"

fun others_request :: "string \<Rightarrow> rl_event \<Rightarrow> bool" where
  "others_request t (RL_Request now i hitAt tracker route) = (tracker \<noteq> t)"
| "others_request t (RL_Prune now m) = False"

lemma db_step_tenants: "tenants (rl_db_step ttl limit e d) = tenants d"
  by (cases e) (simp_all add: rl_db_step_def step_request Let_def recordHit_def rate_limit_prune_handle_def pruneOlderThan_def del: rl_step.simps(1))

lemma db_step_count: "others_request t e \<Longrightarrow> countSince t r since (rl_db_step ttl limit e d) = countSince t r since d"
  by (cases e) (simp_all add: rl_db_step_def step_request Let_def recordHit_def countSince_def del: rl_step.simps(1))

lemma others_leave:
  assumes "list_all (others_request t) evs"
  shows "countSince t r since (fold (rl_db_step ttl limit) evs d) = countSince t r since d
     \<and> tenants (fold (rl_db_step ttl limit) evs d) = tenants d"
  using assms by (induction evs arbitrary: d) (simp_all add: db_step_count db_step_tenants)

lemma tier_guard_decision:
  assumes "rq_tenantId rq = Some t" "t \<noteq> []" "rl_enabled cfg"
  shows "fst (TenantTierRateLimitGuard cfg now stamp c h rq d) =
     (let ttl = cfg_get (rlc_WINDOW_MS cfg) 60000;
          limit = tier_limit cfg (resolveRateLimitTier (map_option t_config (tn_findById t d)))
      in if countSince t (route_key c h) (now - int ttl) d < limit then Ok True
         else Err (TooManyRequests (ceil_seconds ttl)))"
  using assms
  by (simp add: TenantTierRateLimitGuard_def increment_def increment_record_def increment_count_def Let_def)

text \<open>The decision of the tenant-tier guard on a tenant's request does not depend on the traffic of others: any
  number of requests recorded for other tenants or addresses, with any settings, leaves it as it was. With the guard
  on, the request passes exactly when fewer requests of the tenant than its tier allows were recorded for the route in
  the window, and the caller is told to wait one window otherwise.\<close>

theorem tenant_quota_isolated:
  assumes "rq_tenantId rq = Some t" "t \<noteq> []" "rl_enabled cfg" "list_all (others_request t) evs"
  shows "fst (TenantTierRateLimitGuard cfg now stamp c h rq (fold (rl_db_step ttl' limit') evs d)) =
     (let ttl = cfg_get (rlc_WINDOW_MS cfg) 60000;
          limit = tier_limit cfg (resolveRateLimitTier (map_option t_config (tn_findById t d)))
      in if countSince t (route_key c h) (now - int ttl) d < limit then Ok True
         else Err (TooManyRequests (ceil_seconds ttl)))"
  using others_leave [OF assms(4)] unfolding tier_guard_decision [OF assms(1-3)] by (simp add: tn_findById_def)

theorem tenant_quota_isolated_witness:
  "fst (TenantTierRateLimitGuard \<lparr>rlc_RATE_LIMIT_ENABLED = None, rlc_WINDOW_MS = None, rlc_STANDARD_PER_MINUTE = Some 1,
      rlc_PREMIUM_PER_MINUTE = None\<rparr> 5 (''x'', 5000) ''C'' ''m'' (demo_request\<lparr>rq_tenantId := Some ''t1''\<rparr>)
      (fold (rl_db_step 60000 1) [RL_Request 1 ''a'' 1000 ''t2'' ''C.m'', RL_Request 1 ''b'' 1001 ''t2'' ''C.m''] empty_db)) = Ok True"
  by (subst tenant_quota_isolated [where t = "''t1''"])
    (simp_all add: rl_enabled_def cfg_get_def countSince_def empty_db_def tier_limit_def resolveRateLimitTier_def tn_findById_def)

section \<open>Concurrent requests\<close>

text \<open>The count and the insertion of \<^verbatim>\<open>increment\<close> are two calls: of two requests that both count before either is
  recorded, both are admitted although only one more request was allowed, and the window then holds one admitted
  request more than the limit.\<close>

theorem concurrent_increment_over_admits:
  assumes "increment_count now ttl t r d = n" "n + 1 = limit" "now * 1000 \<le> h1" "now * 1000 \<le> h2"
  shows "let (r1, d1) = increment_record i1 h1 ttl limit ttl t r n d;
             (r2, d2) = increment_record i2 h2 ttl limit ttl t r (increment_count now ttl t r d) d1
         in \<not> sr_isBlocked r1 \<and> \<not> sr_isBlocked r2 \<and> increment_count now ttl t r d2 = limit + 1"
proof -
  have "(now - int ttl) * 1000 \<le> h1" "(now - int ttl) * 1000 \<le> h2"
    using assms(3,4) by (simp_all add: algebra_simps)
  then show ?thesis using assms(1,2)
    by (simp add: increment_record_def increment_count_def countSince_def recordHit_def Let_def)
qed

theorem concurrent_increment_over_admits_witness:
  "let (r1, d1) = increment_record ''a'' 1000 60000 1 60000 ''t1'' ''C.m'' 0 empty_db;
       (r2, d2) = increment_record ''b'' 1000 60000 1 60000 ''t1'' ''C.m'' (increment_count 1 60000 ''t1'' ''C.m'' empty_db) d1
   in \<not> sr_isBlocked r1 \<and> \<not> sr_isBlocked r2 \<and> increment_count 1 60000 ''t1'' ''C.m'' d2 = 1 + 1"
  by (rule concurrent_increment_over_admits) (simp_all add: increment_count_def countSince_def empty_db_def)

end
