(* ===== verification/Json.thy ===== *)
theory Json
  imports Audit_Log
begin

text \<open>
  \<^verbatim>\<open>JSON.parse\<close> as far as the validators look at its result: whether the text is a JSON text, and the kind of value it
  denotes, with the numeric value of a number. Fuel bounds the nesting: one unit per value, element or member, and a
  text of \<open>n\<close> characters has at most \<open>n\<close> of each, so twice the length is enough (\<open>jp_fuel\<close>).
\<close>

datatype json_kind = KNull | KBool | KNum rat | KStr | KArr | KObj

definition json_ws :: "char \<Rightarrow> bool" where
  "json_ws c = (c \<in> {CHR 0x20, CHR 0x09, CHR 0x0A, CHR 0x0D})"

definition skip_ws :: "string \<Rightarrow> string" where
  "skip_ws s = dropWhile json_ws s"

definition is_dig :: "char \<Rightarrow> bool" where
  "is_dig c = (48 \<le> (of_char c :: nat) \<and> (of_char c :: nat) \<le> 57)"

text \<open>The rest of a string literal after its opening quote.\<close>

fun jp_string :: "string \<Rightarrow> string option" where
  "jp_string [] = None"
| "jp_string (c # cs) =
     (if c = CHR 0x22 then Some cs
      else if c = CHR 0x5C then
        (case cs of
           [] \<Rightarrow> None
         | e # cs' \<Rightarrow>
             if e \<in> {CHR 0x22, CHR 0x5C, CHR ''/'', CHR ''b'', CHR ''f'', CHR ''n'', CHR ''r'', CHR ''t''} then jp_string cs'
             else if e = CHR ''u'' then
               (case cs' of
                  h1 # h2 # h3 # h4 # cs'' \<Rightarrow>
                    if is_hex h1 \<and> is_hex h2 \<and> is_hex h3 \<and> is_hex h4 then jp_string cs'' else None
                | _ \<Rightarrow> None)
             else None)
      else if (of_char c :: nat) < 32 then None
      else jp_string cs)"

definition dec_val :: "string \<Rightarrow> nat" where
  "dec_val ds = foldl (\<lambda>n c. 10 * n + (of_char c - 48)) 0 ds"

text \<open>The three parts of a number after its sign: integer part, optional fraction, optional exponent.\<close>

definition jp_int :: "string \<Rightarrow> (string \<times> string) option" where
  "jp_int s =
     (let ds = takeWhile is_dig s; r = dropWhile is_dig s in
      if ds = [] then None
      else if hd ds = CHR ''0'' then Some (''0'', tl s)
      else Some (ds, r))"

definition jp_frac :: "string \<Rightarrow> (string \<times> string) option" where
  "jp_frac s =
     (case s of
        c # cs \<Rightarrow>
          if c = CHR ''.'' then
            (let ds = takeWhile is_dig cs in if ds = [] then None else Some (ds, dropWhile is_dig cs))
          else Some ([], s)
      | [] \<Rightarrow> Some ([], s))"

definition exp_sign :: "string \<Rightarrow> bool \<times> string" where
  "exp_sign s = (case s of c # cs \<Rightarrow> if c = CHR ''-'' then (True, cs) else if c = CHR ''+'' then (False, cs) else (False, s)
                 | [] \<Rightarrow> (False, s))"

definition jp_exp :: "string \<Rightarrow> (rat \<times> string) option" where
  "jp_exp s =
     (case s of
        c # cs \<Rightarrow>
          if c = CHR ''e'' \<or> c = CHR ''E'' then
            (let (neg, t) = exp_sign cs; ds = takeWhile is_dig t in
             if ds = [] then None
             else Some (if neg then 1 / 10 ^ dec_val ds else 10 ^ dec_val ds, dropWhile is_dig t))
          else Some (1, s)
      | [] \<Rightarrow> Some (1, s))"

definition jp_number :: "string \<Rightarrow> (rat \<times> string) option" where
  "jp_number s =
     (let (neg, s1) = (case s of c # cs \<Rightarrow> if c = CHR ''-'' then (True, cs) else (False, s) | [] \<Rightarrow> (False, s)) in
      case jp_int s1 of
        None \<Rightarrow> None
      | Some (i, s2) \<Rightarrow>
          (case jp_frac s2 of
             None \<Rightarrow> None
           | Some (f, s3) \<Rightarrow>
               (case jp_exp s3 of
                  None \<Rightarrow> None
                | Some (e, s4) \<Rightarrow>
                    Some ((if neg then -1 else 1) * (of_nat (dec_val (i @ f)) / 10 ^ length f) * e, s4))))"

definition jp_literal :: "string \<Rightarrow> (json_kind \<times> string) option" where
  "jp_literal s =
     (if take 4 s = ''null'' then Some (KNull, drop 4 s)
      else if take 4 s = ''true'' then Some (KBool, drop 4 s)
      else if take 5 s = ''false'' then Some (KBool, drop 5 s)
      else None)"

definition head_is :: "char \<Rightarrow> string \<Rightarrow> bool" where
  "head_is c s = (s \<noteq> [] \<and> hd s = c)"

fun jp_value :: "nat \<Rightarrow> string \<Rightarrow> (json_kind \<times> string) option"
and jp_elems :: "nat \<Rightarrow> string \<Rightarrow> string option"
and jp_members :: "nat \<Rightarrow> string \<Rightarrow> string option" where
  "jp_value 0 s = None"
| "jp_value (Suc n) s =
     (let t = skip_ws s in
      if head_is CHR ''{'' t then
        (let r = skip_ws (tl t) in
         if head_is CHR ''}'' r then Some (KObj, tl r) else map_option (\<lambda>q. (KObj, q)) (jp_members n r))
      else if head_is CHR ''['' t then
        (let r = skip_ws (tl t) in
         if head_is CHR '']'' r then Some (KArr, tl r) else map_option (\<lambda>q. (KArr, q)) (jp_elems n r))
      else if head_is CHR 0x22 t then map_option (\<lambda>q. (KStr, q)) (jp_string (tl t))
      else if t \<noteq> [] \<and> (hd t = CHR ''-'' \<or> is_dig (hd t)) then map_option (\<lambda>(v, q). (KNum v, q)) (jp_number t)
      else jp_literal t)"
| "jp_elems 0 s = None"
| "jp_elems (Suc n) s =
     (case jp_value n s of
        None \<Rightarrow> None
      | Some (k, r) \<Rightarrow>
          (let q = skip_ws r in
           if head_is CHR '','' q then jp_elems n (tl q)
           else if head_is CHR '']'' q then Some (tl q)
           else None))"
| "jp_members 0 s = None"
| "jp_members (Suc n) s =
     (let t = skip_ws s in
      if \<not> head_is CHR 0x22 t then None
      else (case jp_string (tl t) of
          None \<Rightarrow> None
        | Some r \<Rightarrow>
            (let r1 = skip_ws r in
             if \<not> head_is CHR '':'' r1 then None
             else (case jp_value n (tl r1) of
                 None \<Rightarrow> None
               | Some (k, r2) \<Rightarrow>
                   (let q = skip_ws r2 in
                    if head_is CHR '','' q then jp_members n (tl q)
                    else if head_is CHR ''}'' q then Some (tl q)
                    else None)))))"

definition json_parse_kind :: "string \<Rightarrow> json_kind option" where
  "json_parse_kind s =
     (case jp_value (2 * length s + 2) s of
        None \<Rightarrow> None
      | Some (k, r) \<Rightarrow> if skip_ws r = [] then Some k else None)"

text \<open>A decimal numeral whose value rounds to a finite double.\<close>

definition finite_double :: "rat \<Rightarrow> bool" where
  "finite_double v = (\<bar>v\<bar> < 2 ^ 1024 - 2 ^ 970)"

section \<open>Reading back what \<^verbatim>\<open>JSON.stringify\<close> prints\<close>

lemma jp_string_char: "jp_string (json_char c @ r) = jp_string r"
proof (cases "(of_char c :: nat) < 32")
  case True
  have hex: "is_hex (''0123456789abcdef'' ! k)" if "k < 16" for k :: nat
  proof -
    have "\<forall>k\<in>set [0..<16]. is_hex (''0123456789abcdef'' ! k)" by code_simp
    then show ?thesis using that by simp
  qed
  have d: "(of_char c :: nat) div 16 < 16" "(of_char c :: nat) mod 16 < 16" using True by simp_all
  have z: "is_hex CHR ''0''" by code_simp
  show ?thesis using True hex [OF d(1)] hex [OF d(2)] z by (simp add: json_char_def)
next
  case False
  then show ?thesis by (auto simp: json_char_def)
qed

lemma jp_string_json_string: "jp_string (concat (map json_char s) @ CHR 0x22 # r) = Some r"
  by (induction s) (simp_all add: jp_string_char)

fun json_kind_of :: "json \<Rightarrow> json_kind" where
  "json_kind_of JUndef = KNull"
| "json_kind_of JNull = KNull"
| "json_kind_of (JBool b) = KBool"
| "json_kind_of (JNum n) = KNum n"
| "json_kind_of (JStr s) = KStr"
| "json_kind_of (JArr vs) = KArr"
| "json_kind_of (JObj kvs) = KObj"

fun json_nums :: "json \<Rightarrow> rat set" where
  "json_nums (JNum n) = {n}"
| "json_nums (JArr vs) = \<Union> (set (map json_nums vs))"
| "json_nums (JObj kvs) = \<Union> (set (map (\<lambda>(k, v). json_nums v) kvs))"
| "json_nums _ = {}"

text \<open>The printing of a number is a numeral with that value, wherever it ends.\<close>

definition prints :: "(rat \<Rightarrow> string) \<Rightarrow> rat \<Rightarrow> bool" where
  "prints num n =
     (num n \<noteq> [] \<and> (hd (num n) = CHR ''-'' \<or> is_dig (hd (num n)))
      \<and> (\<forall>r. (r = [] \<or> hd r \<in> {CHR '','', CHR '']'', CHR ''}''}) \<longrightarrow> jp_number (num n @ r) = Some (n, r)))"

definition closes :: "string \<Rightarrow> bool" where
  "closes r = (r = [] \<or> hd r \<in> {CHR '','', CHR '']'', CHR ''}''})"

definition reads :: "(rat \<Rightarrow> string) \<Rightarrow> json \<Rightarrow> bool" where
  "reads num v =
     (json_stringify num v \<noteq> [] \<and> \<not> json_ws (hd (json_stringify num v)) \<and> hd (json_stringify num v) \<noteq> CHR '']''
      \<and> (\<forall>n r. 2 * length (json_stringify num v) \<le> n \<longrightarrow> closes r
             \<longrightarrow> jp_value n (json_stringify num v @ r) = Some (json_kind_of v, r)))"

lemma skip_ws_no: "s \<noteq> [] \<Longrightarrow> \<not> json_ws (hd s) \<Longrightarrow> skip_ws (s @ r) = s @ r"
  by (cases s) (simp_all add: skip_ws_def)

lemma skip_ws_Cons [simp]: "\<not> json_ws c \<Longrightarrow> skip_ws (c # r) = c # r"
  by (simp add: skip_ws_def)

lemma head_is_Cons [simp]: "head_is c (x # r) \<longleftrightarrow> x = c"
  by (auto simp: head_is_def)

lemma json_punct [simp]:
  "\<not> json_ws CHR '',''" "\<not> json_ws CHR '']''" "\<not> json_ws CHR ''}''" "\<not> json_ws CHR ''{''" "\<not> json_ws CHR ''[''"
  "\<not> json_ws CHR '':''" "\<not> json_ws CHR 0x22" "\<not> json_ws CHR ''n''" "\<not> json_ws CHR ''t''" "\<not> json_ws CHR ''f''"
  by (simp_all add: json_ws_def)

lemma elems_read:
  assumes "vs \<noteq> []" "\<forall>v\<in>set vs. reads num v" "2 * length (js_join '','' (map (json_stringify num) vs)) + 1 \<le> n"
  shows "jp_elems n (js_join '','' (map (json_stringify num) vs) @ CHR '']'' # r) = Some r"
  using assms
proof (induction vs arbitrary: n)
  case (Cons v vs)
  obtain m where n: "n = Suc m" using Cons.prems(3) by (cases n) auto
  have v: "jp_value m (json_stringify num v @ q) = Some (json_kind_of v, q)" if "2 * length (json_stringify num v) \<le> m" "closes q" for q
    using Cons.prems(2) that by (simp add: reads_def)
  show ?case
  proof (cases vs)
    case Nil
    then show ?thesis using v [of "CHR '']'' # r"] Cons.prems(3) n by (simp add: closes_def)
  next
    case (Cons w ws)
    let ?tl = "js_join '','' (map (json_stringify num) vs)"
    have j: "js_join '','' (map (json_stringify num) (v # vs)) = json_stringify num v @ CHR '','' # ?tl" using Cons by simp
    have "jp_elems m (?tl @ CHR '']'' # r) = Some r"
      by (rule Cons.IH) (use Cons.prems n j Cons in simp_all)
    moreover have "2 * length (json_stringify num v) \<le> m" using Cons.prems(3) unfolding j n by simp
    ultimately show ?thesis unfolding j n using v [of "CHR '','' # ?tl @ CHR '']'' # r"] by (simp add: closes_def)
  qed
qed simp

definition member_text :: "(rat \<Rightarrow> string) \<Rightarrow> string \<times> json \<Rightarrow> string" where
  "member_text num kv = json_string (fst kv) @ '':'' @ json_stringify num (snd kv)"

lemma members_read:
  assumes "kvs \<noteq> []" "\<forall>kv\<in>set kvs. reads num (snd kv)" "2 * length (js_join '','' (map (member_text num) kvs)) + 1 \<le> n"
  shows "jp_members n (js_join '','' (map (member_text num) kvs) @ CHR ''}'' # r) = Some r"
  using assms
proof (induction kvs arbitrary: n)
  case (Cons kv kvs)
  obtain m where n: "n = Suc m" using Cons.prems(3) by (cases n) auto
  have v: "jp_value m (json_stringify num (snd kv) @ q) = Some (json_kind_of (snd kv), q)"
    if "2 * length (json_stringify num (snd kv)) \<le> m" "closes q" for q
    using Cons.prems(2) that by (simp add: reads_def)
  have l: "length (member_text num kv) \<ge> length (json_stringify num (snd kv))" by (simp add: member_text_def)
  show ?case
  proof (cases kvs)
    case Nil
    then show ?thesis using v [of "CHR ''}'' # r"] Cons.prems(3) n l
      by (simp add: closes_def member_text_def json_string_def jp_string_json_string Let_def)
  next
    case (Cons w ws)
    let ?tl = "js_join '','' (map (member_text num) kvs)"
    have j: "js_join '','' (map (member_text num) (kv # kvs)) = member_text num kv @ CHR '','' # ?tl" using Cons by simp
    have "jp_members m (?tl @ CHR ''}'' # r) = Some r"
      by (rule Cons.IH) (use Cons.prems n j Cons in simp_all)
    moreover have "2 * length (json_stringify num (snd kv)) \<le> m" using Cons.prems(3) l unfolding j n by simp
    moreover have "member_text num kv = CHR 0x22 # concat (map json_char (fst kv)) @ CHR 0x22 # CHR '':'' # json_stringify num (snd kv)"
      by (simp add: member_text_def json_string_def)
    ultimately show ?thesis unfolding j n using v [of "CHR '','' # ?tl @ CHR ''}'' # r"]
      by (simp add: closes_def jp_string_json_string Let_def)
  qed
qed simp

lemma join_hd: "xs \<noteq> [] \<Longrightarrow> hd xs \<noteq> [] \<Longrightarrow> js_join sep xs \<noteq> [] \<and> hd (js_join sep xs) = hd (hd xs)"
  by (induction sep xs rule: js_join.induct) auto

lemma reads_arr: "\<forall>v\<in>set vs. reads num v \<Longrightarrow> reads num (JArr vs)"
proof (cases "vs = []")
  case True
  have "2 * length ''[]'' \<le> n \<Longrightarrow> jp_value n (''[]'' @ r) = Some (KArr, r)" for n r by (cases n) (simp_all add: Let_def)
  then show ?thesis using True by (simp add: reads_def)
next
  case False
  assume vs: "\<forall>v\<in>set vs. reads num v"
  let ?t = "js_join '','' (map (json_stringify num) vs)"
  have h: "?t \<noteq> []" "\<not> json_ws (hd ?t)" "hd ?t \<noteq> CHR '']''"
    using join_hd [of "map (json_stringify num) vs" "'',''"] False vs by (auto simp: hd_map reads_def)
  have "jp_value n (CHR ''['' # ?t @ CHR '']'' # r) = Some (KArr, r)" if le: "2 * (length ?t + 2) \<le> n" for n r
  proof -
    obtain m where n: "n = Suc m" using le by (cases n) auto
    have "jp_elems m (?t @ CHR '']'' # r) = Some r" using elems_read [OF False vs] le n by simp
    then show ?thesis using h skip_ws_no [OF h(1,2)] n by (simp add: Let_def head_is_def)
  qed
  then show ?thesis by (simp add: reads_def)
qed

lemma reads_obj:
  assumes "\<forall>kv\<in>set kvs. reads num (snd kv)"
  shows "reads num (JObj kvs)"
proof -
  define ms where "ms = filter (\<lambda>(k, v). v \<noteq> JUndef) kvs"
  let ?t = "js_join '','' (map (member_text num) ms)"
  have shape: "json_stringify num (JObj kvs) = CHR ''{'' # ?t @ ''}''"
  proof -
    have "member_text num = (\<lambda>(k, v). json_string k @ '':'' @ json_stringify num v)"
      by (simp add: fun_eq_iff member_text_def)
    then show ?thesis by (simp add: ms_def)
  qed
  have kv: "\<forall>kv\<in>set ms. reads num (snd kv)" using assms by (auto simp: ms_def)
  have "jp_value n (CHR ''{'' # ?t @ CHR ''}'' # r) = Some (KObj, r)" if le: "2 * (length ?t + 2) \<le> n" for n r
  proof (cases "ms = []")
    case True
    then show ?thesis using le by (cases n) (simp_all add: Let_def)
  next
    case False
    obtain m where n: "n = Suc m" using le by (cases n) auto
    have "hd ms = kv \<Longrightarrow> hd (member_text num kv) = CHR 0x22 \<and> member_text num kv \<noteq> []" for kv
      by (simp add: member_text_def json_string_def)
    then have h: "?t \<noteq> []" "hd ?t = CHR 0x22"
      using join_hd [of "map (member_text num) ms" "'',''"] False by (auto simp: hd_map)
    have "jp_members m (?t @ CHR ''}'' # r) = Some r" using members_read [OF False kv] le n by simp
    then show ?thesis using h skip_ws_no [of ?t] n by (simp add: Let_def head_is_def)
  qed
  then show ?thesis unfolding reads_def shape by simp
qed

lemma reads_json: "\<forall>n\<in>json_nums v. prints num n \<Longrightarrow> reads num v"
proof (induction v)
  case (JNum n)
  then have p: "prints num n" by simp
  have ne: "num n \<noteq> []" using p by (simp add: prints_def)
  have d: "hd (num n) = CHR ''-'' \<or> is_dig (hd (num n))" using p by (simp add: prints_def)
  have c: "\<not> json_ws (hd (num n)) \<and> hd (num n) \<noteq> CHR '']'' \<and> hd (num n) \<noteq> CHR ''{'' \<and> hd (num n) \<noteq> CHR ''['' \<and> hd (num n) \<noteq> CHR 0x22"
    using d by (auto simp: json_ws_def is_dig_def)
  have "jp_value m (num n @ r) = Some (KNum n, r)" if le: "2 * length (num n) \<le> m" "closes r" for m r
  proof -
    obtain k where m: "m = Suc k" using le(1) ne by (cases m) auto
    have "jp_number (num n @ r) = Some (n, r)" using p le(2) by (auto simp: prints_def closes_def)
    then show ?thesis using ne d c skip_ws_no [OF ne, of r] m by (simp add: Let_def head_is_def)
  qed
  then show ?case using ne c by (simp add: reads_def)
next
  case (JStr s)
  have "jp_value n (json_string s @ r) = Some (KStr, r)" if "2 * length (json_string s) \<le> n" for n r
    using that by (cases n) (simp_all add: json_string_def jp_string_json_string Let_def)
  then show ?case by (simp add: reads_def json_string_def)
next
  case (JArr vs)
  then show ?case by (intro reads_arr) auto
next
  case (JObj kvs)
  then show ?case by (intro reads_obj) fastforce
next
  case (JBool b)
  have "jp_value n ((if b then ''true'' else ''false'') @ r) = Some (KBool, r)"
    if "2 * length (if b then ''true'' else ''false'') \<le> n" for n r
    using that by (cases n; cases b) (simp_all add: jp_literal_def Let_def is_dig_def)
  then show ?case by (simp add: reads_def)
next
  case JNull
  have "jp_value n (''null'' @ r) = Some (KNull, r)" if "2 * length ''null'' \<le> n" for n r
    using that by (cases n) (simp_all add: jp_literal_def Let_def is_dig_def)
  then show ?case by (simp add: reads_def)
next
  case JUndef
  have "jp_value n (''null'' @ r) = Some (KNull, r)" if "2 * length ''null'' \<le> n" for n r
    using that by (cases n) (simp_all add: jp_literal_def Let_def is_dig_def)
  then show ?case by (simp add: reads_def)
qed

lemma parse_kind_stringify:
  assumes "\<forall>n\<in>json_nums v. prints num n"
  shows "json_parse_kind (json_stringify num v) = Some (json_kind_of v)"
proof -
  have "closes []" by (simp add: closes_def)
  then have "jp_value (2 * length (json_stringify num v) + 2) (json_stringify num v @ []) = Some (json_kind_of v, [])"
    using reads_json [OF assms] unfolding reads_def by (metis le_add1)
  then show ?thesis by (simp add: json_parse_kind_def skip_ws_def del: jp_value.simps)
qed

end
