(* ===== verification/Format_Validators.thy ===== *)
theory Format_Validators
  imports Json "HOL-Library.Multiset"
begin

text \<open>
  \<^verbatim>\<open>libs/credential-ports/src/validators\<close>: the structural checks of credential schemas and of offered attributes, one
  validator per credential format, and their registry. The locale \<open>format_validator\<close> is the contract of
  \<^verbatim>\<open>FormatValidator\<close>. A schema is the list of the properties of a JSON object.
\<close>

section \<open>Issues and claim types\<close>

record format_issue =
  fi_field :: string
  fi_expected :: string
  fi_actual :: string
  fi_message :: string

record 'v attribute =
  at_name :: string
  at_value :: 'v

definition issue :: "string \<Rightarrow> string \<Rightarrow> string \<Rightarrow> string \<Rightarrow> format_issue" where
  "issue f e a m = \<lparr>fi_field = f, fi_expected = e, fi_actual = a, fi_message = m\<rparr>"

definition prop_of :: "(string \<times> json) list \<Rightarrow> string \<Rightarrow> json" where
  "prop_of o_fields k = (case map_of o_fields k of None \<Rightarrow> JUndef | Some v \<Rightarrow> v)"

datatype claim_type = CT_string | CT_number | CT_boolean | CT_array | CT_object

definition CLAIM_TYPES :: "(string \<times> claim_type) list" where
  "CLAIM_TYPES = [(''string'', CT_string), (''number'', CT_number), (''boolean'', CT_boolean), (''array'', CT_array),
     (''object'', CT_object)]"

fun claim_type_str :: "claim_type \<Rightarrow> string" where
  "claim_type_str CT_string = ''string''"
| "claim_type_str CT_number = ''number''"
| "claim_type_str CT_boolean = ''boolean''"
| "claim_type_str CT_array = ''array''"
| "claim_type_str CT_object = ''object''"

definition claim_type_of :: "json \<Rightarrow> claim_type option" where
  "claim_type_of v = (case v of JStr s \<Rightarrow> map_of CLAIM_TYPES s | _ \<Rightarrow> None)"

definition isClaimType :: "json \<Rightarrow> bool" where
  "isClaimType v = (claim_type_of v \<noteq> None)"

definition describeValue :: "(rat \<Rightarrow> string) \<Rightarrow> json \<Rightarrow> string" where
  "describeValue num v = (if v = JUndef then ''undefined'' else json_stringify num v)"

fun kind_matches :: "json_kind \<Rightarrow> claim_type \<Rightarrow> bool" where
  "kind_matches k CT_string = True"
| "kind_matches k CT_number = (case k of KNum v \<Rightarrow> finite_double v | _ \<Rightarrow> False)"
| "kind_matches k CT_boolean = (k = KBool)"
| "kind_matches k CT_array = (k = KArr)"
| "kind_matches k CT_object = (k = KObj)"

definition matchesClaimType :: "string \<Rightarrow> claim_type \<Rightarrow> bool" where
  "matchesClaimType rawValue type =
     (if type = CT_string then True
      else (case json_parse_kind rawValue of None \<Rightarrow> False | Some k \<Rightarrow> kind_matches k type))"

text \<open>The loop over the offered attributes: each is checked against the names seen before it.\<close>

fun scan_attributes ::
  "('v attribute \<Rightarrow> bool \<Rightarrow> format_issue option) \<Rightarrow> string list \<Rightarrow> 'v attribute list \<Rightarrow> format_issue list \<times> string list" where
  "scan_attributes check seen [] = ([], seen)"
| "scan_attributes check seen (a # attrs) =
     (let (issues, seen') = scan_attributes check (at_name a # seen) attrs in
      (case check a (at_name a \<in> set seen) of None \<Rightarrow> issues | Some i \<Rightarrow> i # issues, seen'))"

definition is_str :: "json \<Rightarrow> bool" where
  "is_str v = (case v of JStr s \<Rightarrow> True | _ \<Rightarrow> False)"

definition str_val :: "json \<Rightarrow> string" where
  "str_val v = (case v of JStr s \<Rightarrow> s | _ \<Rightarrow> [])"

section \<open>AnonCreds\<close>

definition isStringArray :: "json \<Rightarrow> bool" where
  "isStringArray v = (case v of JArr xs \<Rightarrow> list_all is_str xs | _ \<Rightarrow> False)"

definition str_items :: "json \<Rightarrow> string list" where
  "str_items v = (case v of JArr xs \<Rightarrow> map str_val xs | _ \<Rightarrow> [])"

definition ac_isNonEmptyStringArray :: "json \<Rightarrow> bool" where
  "ac_isNonEmptyStringArray v = (isStringArray v \<and> str_items v \<noteq> [])"

definition validateAttrNames :: "(rat \<Rightarrow> string) \<Rightarrow> json \<Rightarrow> format_issue option" where
  "validateAttrNames num attrNames =
     (if \<not> ac_isNonEmptyStringArray attrNames
      then Some (issue ''attr_names'' ''a non-empty array of attribute name strings'' (describeValue num attrNames)
             ''AnonCreds schema must declare attr_names as a non-empty array of strings'')
      else if \<not> distinct (str_items attrNames)
      then Some (issue ''attr_names'' ''unique attribute names'' (describeValue num attrNames)
             ''AnonCreds schema attr_names must not contain duplicates'')
      else None)"

definition blank :: "json \<Rightarrow> bool" where
  "blank v = (\<not> is_str v \<or> js_trim (str_val v) = [])"

definition validateSchemaNameAndVersion :: "(rat \<Rightarrow> string) \<Rightarrow> (string \<times> json) list \<Rightarrow> format_issue list" where
  "validateSchemaNameAndVersion num schema =
     map (\<lambda>f. issue f ''a non-empty string'' (describeValue num (prop_of schema f))
                (''AnonCreds schema must declare a non-empty '' @ f))
       (filter (\<lambda>f. blank (prop_of schema f)) [''schema_name'', ''schema_version''])"

definition validateOptionalAttributes :: "(rat \<Rightarrow> string) \<Rightarrow> json \<Rightarrow> json \<Rightarrow> format_issue list" where
  "validateOptionalAttributes num optionalAttributes attrNames =
     (if optionalAttributes = JUndef then []
      else if \<not> isStringArray optionalAttributes
      then [issue ''optional_attributes'' ''an array of attribute name strings'' (describeValue num optionalAttributes)
              ''AnonCreds schema optional_attributes must be a string array'']
      else if \<not> ac_isNonEmptyStringArray attrNames then []
      else map (\<lambda>n. issue ''optional_attributes'' (''one of: '' @ js_join '', '' (str_items attrNames)) n
                      (''optional_attributes entry '' @ quoted n @ '' is not declared in attr_names''))
             (filter (\<lambda>n. n \<notin> set (str_items attrNames)) (str_items optionalAttributes)))"

definition validateAttributeEntry ::
  "(rat \<Rightarrow> string) \<Rightarrow> string list \<Rightarrow> json attribute \<Rightarrow> bool \<Rightarrow> format_issue option" where
  "validateAttributeEntry num attrNames a isDuplicate =
     (if isDuplicate
      then Some (issue (at_name a) ''a single value'' ''duplicate attribute''
             (''Attribute '' @ quoted (at_name a) @ '' was supplied more than once''))
      else if at_name a \<notin> set attrNames
      then Some (issue (at_name a) (''one of: '' @ js_join '', '' attrNames) (at_name a)
             (''Attribute '' @ quoted (at_name a) @ '' is not declared in the credential definition schema''))
      else if \<not> is_str (at_value a)
      then Some (issue (at_name a) ''a string value'' (describeValue num (at_value a))
             ''AnonCreds attribute values must be strings; ACA-Py encodes predicate values as strings internally'')
      else None)"

definition findMissingRequiredAttributes :: "string list \<Rightarrow> string list \<Rightarrow> format_issue list" where
  "findMissingRequiredAttributes requiredNames seenNames =
     map (\<lambda>n. issue n ''a value'' ''missing'' (''Required attribute '' @ quoted n @ '' was not supplied''))
       (filter (\<lambda>n. n \<notin> set seenNames) (remdups requiredNames))"

definition ac_validateSchema :: "(rat \<Rightarrow> string) \<Rightarrow> (string \<times> json) list \<Rightarrow> format_issue list" where
  "ac_validateSchema num schema =
     (let attrNames = prop_of schema ''attr_names'' in
      (case validateAttrNames num attrNames of None \<Rightarrow> [] | Some i \<Rightarrow> [i]) @ validateSchemaNameAndVersion num schema
      @ validateOptionalAttributes num (prop_of schema ''optional_attributes'') attrNames)"

definition ac_required :: "(string \<times> json) list \<Rightarrow> string list" where
  "ac_required schema =
     (let opt = prop_of schema ''optional_attributes''; optionalAttributes = (if isStringArray opt then str_items opt else []) in
      filter (\<lambda>n. n \<notin> set optionalAttributes) (str_items (prop_of schema ''attr_names'')))"

definition ac_validateAttributes ::
  "(rat \<Rightarrow> string) \<Rightarrow> (string \<times> json) list \<Rightarrow> json attribute list \<Rightarrow> format_issue list" where
  "ac_validateAttributes num schema attributes =
     (let attrNames = prop_of schema ''attr_names'' in
      if \<not> ac_isNonEmptyStringArray attrNames
      then [issue ''attr_names'' ''a non-empty array of attribute name strings'' (describeValue num attrNames)
              ''Cannot validate attributes: AnonCreds schema attr_names is missing or invalid'']
      else let (issues, seen) = scan_attributes (validateAttributeEntry num (str_items attrNames)) [] attributes
           in issues @ findMissingRequiredAttributes (ac_required schema) seen)"

section \<open>SD-JWT VC\<close>

definition sd_isPlainObject :: "json \<Rightarrow> bool" where
  "sd_isPlainObject v = (case v of JObj o_fields \<Rightarrow> True | _ \<Rightarrow> False)"

definition obj_fields :: "json \<Rightarrow> (string \<times> json) list" where
  "obj_fields v = (case v of JObj o_fields \<Rightarrow> o_fields | _ \<Rightarrow> [])"

definition validateVct :: "(rat \<Rightarrow> string) \<Rightarrow> json \<Rightarrow> format_issue option" where
  "validateVct num vct =
     (if blank vct
      then Some (issue ''vct'' ''a non-empty string'' (describeValue num vct)
             ''SD-JWT schema must declare a non-empty vct (credential type)'')
      else None)"

definition is_bool :: "json \<Rightarrow> bool" where
  "is_bool v = (case v of JBool b \<Rightarrow> True | _ \<Rightarrow> False)"

definition validateClaimDeclaration :: "(rat \<Rightarrow> string) \<Rightarrow> string \<Rightarrow> json \<Rightarrow> format_issue list" where
  "validateClaimDeclaration num name declaration =
     (let f = ''claims.'' @ name; type = prop_of (obj_fields declaration) ''type'';
          disclosable = prop_of (obj_fields declaration) ''disclosable'' in
      if \<not> sd_isPlainObject declaration
      then [issue f ''an object with a `type` field'' (describeValue num declaration)
              (''SD-JWT claim '' @ quoted name @ '' must declare its type as an object'')]
      else (if isClaimType type then []
            else [issue (f @ ''.type'') ''one of: string, number, boolean, array, object'' (describeValue num type)
                    (''SD-JWT claim '' @ quoted name @ '' declares an unsupported type'')])
         @ (if disclosable = JUndef \<or> is_bool disclosable then []
            else [issue (f @ ''.disclosable'') ''a boolean'' (describeValue num disclosable)
                    (''SD-JWT claim '' @ quoted name @ '' disclosable flag must be a boolean'')]))"

definition validateClaims :: "(rat \<Rightarrow> string) \<Rightarrow> json \<Rightarrow> format_issue list" where
  "validateClaims num claims =
     (if \<not> sd_isPlainObject claims \<or> obj_fields claims = []
      then [issue ''claims'' ''a non-empty object mapping claim names to declarations'' (describeValue num claims)
              ''SD-JWT schema must declare at least one claim'']
      else concat (map (\<lambda>(name, decl). validateClaimDeclaration num name decl) (obj_fields claims)))"

text \<open>The loop that collects the declared types, shared by the two formats that declare them; it gives up at the first
  declaration without a type.\<close>

fun collect_types :: "(string \<times> json) list \<Rightarrow> (string \<times> claim_type) list option" where
  "collect_types [] = Some []"
| "collect_types ((name, decl) # rest) =
     (if \<not> sd_isPlainObject decl then None
      else (case claim_type_of (prop_of (obj_fields decl) ''type'') of
              None \<Rightarrow> None
            | Some t \<Rightarrow> map_option (\<lambda>m. (name, t) # m) (collect_types rest)))"

definition readValidClaims :: "(string \<times> json) list \<Rightarrow> (string \<times> claim_type) list option" where
  "readValidClaims schema =
     (let claims = prop_of schema ''claims'' in
      if \<not> sd_isPlainObject claims \<or> obj_fields claims = [] then None else collect_types (obj_fields claims))"

definition typed_check ::
  "(rat \<Rightarrow> string) \<Rightarrow> string \<Rightarrow> string \<Rightarrow> string \<Rightarrow> (string \<times> claim_type) list \<Rightarrow> string attribute \<Rightarrow> bool \<Rightarrow> format_issue option" where
  "typed_check num word dup_word schema_word claims a isDuplicate =
     (if isDuplicate
      then Some (issue (at_name a) ''a single value'' dup_word (word @ quoted (at_name a) @ '' was supplied more than once''))
      else (case map_of claims (at_name a) of
          None \<Rightarrow> Some (issue (at_name a) (''one of: '' @ js_join '', '' (map fst claims)) (at_name a)
                    (word @ quoted (at_name a) @ '' is not declared in the '' @ schema_word))
        | Some t \<Rightarrow>
            if matchesClaimType (at_value a) t then None
            else Some (issue (at_name a) (''a '' @ claim_type_str t @ '' value'') (describeValue num (JStr (at_value a)))
                    (word @ quoted (at_name a) @ '' does not match its declared type '' @ quoted (claim_type_str t)))))"

definition missing_names :: "string \<Rightarrow> string list \<Rightarrow> string list \<Rightarrow> format_issue list" where
  "missing_names word names seen =
     map (\<lambda>n. issue n ''a value'' ''missing'' (word @ quoted n @ '' was not supplied'')) (filter (\<lambda>n. n \<notin> set seen) names)"

definition sd_validateSchema :: "(rat \<Rightarrow> string) \<Rightarrow> (string \<times> json) list \<Rightarrow> format_issue list" where
  "sd_validateSchema num schema =
     (case validateVct num (prop_of schema ''vct'') of None \<Rightarrow> [] | Some i \<Rightarrow> [i]) @ validateClaims num (prop_of schema ''claims'')"

definition sd_validateAttributes ::
  "(rat \<Rightarrow> string) \<Rightarrow> (string \<times> json) list \<Rightarrow> string attribute list \<Rightarrow> format_issue list" where
  "sd_validateAttributes num schema attributes =
     (case readValidClaims schema of
        None \<Rightarrow> [issue ''claims'' ''a non-empty object mapping claim names to declarations''
                   (describeValue num (prop_of schema ''claims''))
                   ''Cannot validate claims: SD-JWT schema claims is missing or invalid'']
      | Some claims \<Rightarrow>
          let (issues, seen) = scan_attributes (typed_check num ''Claim '' ''duplicate claim'' ''SD-JWT schema'' claims) [] attributes
          in issues @ missing_names ''Required claim '' (map fst claims) seen)"

section \<open>W3C VC\<close>

definition BASE_CONTEXTS :: "string list" where
  "BASE_CONTEXTS = [''https://www.w3.org/2018/credentials/v1'', ''https://www.w3.org/ns/credentials/v2'']"

definition ALLOWED_CONTEXTS :: "string list" where
  "ALLOWED_CONTEXTS = BASE_CONTEXTS @
     [''https://www.w3.org/2018/credentials/examples/v1'', ''https://w3id.org/security/suites/ed25519-2020/v1'',
      ''https://w3id.org/security/suites/jws-2020/v1'', ''https://w3id.org/citizenship/v1'']"

definition BASE_TYPE :: string where
  "BASE_TYPE = ''VerifiableCredential''"

definition w3_isNonEmptyStringArray :: "json \<Rightarrow> bool" where
  "w3_isNonEmptyStringArray v = (case v of JArr xs \<Rightarrow> xs \<noteq> [] \<and> list_all (\<lambda>x. \<not> blank x) xs | _ \<Rightarrow> False)"

definition validateContext :: "(rat \<Rightarrow> string) \<Rightarrow> json \<Rightarrow> format_issue list" where
  "validateContext num context =
     (if \<not> w3_isNonEmptyStringArray context
      then [issue ''@context'' ''a non-empty array of context URL strings'' (describeValue num context)
              ''W3C VC schema must declare a non-empty @context array'']
      else let disallowed = filter (\<lambda>url. url \<notin> set ALLOWED_CONTEXTS) (str_items context) in
        (if disallowed \<noteq> []
         then [issue ''@context'' (''each URL to be one of: '' @ js_join '', '' ALLOWED_CONTEXTS)
                 (describeValue num (JArr (map JStr disallowed)))
                 ''W3C VC schema @context contains a URL that is not in the allowed list''] else [])
        @ (if \<not> list_ex (\<lambda>url. url \<in> set BASE_CONTEXTS) (str_items context)
           then [issue ''@context'' (''at least one of: '' @ js_join '', '' BASE_CONTEXTS) (describeValue num context)
                   ''W3C VC schema @context must include the base VC context''] else []))"

definition validateType :: "(rat \<Rightarrow> string) \<Rightarrow> json \<Rightarrow> format_issue list" where
  "validateType num type =
     (if \<not> w3_isNonEmptyStringArray type
      then [issue ''type'' ''a non-empty array of type strings'' (describeValue num type)
              ''W3C VC schema must declare a non-empty type array'']
      else (if BASE_TYPE \<notin> set (str_items type)
            then [issue ''type'' (''an array including '' @ quoted BASE_TYPE) (describeValue num type)
                    (''W3C VC schema type array must include the base '' @ quoted BASE_TYPE @ '' type'')] else [])
         @ (if filter (\<lambda>v. v \<noteq> BASE_TYPE) (str_items type) = []
            then [issue ''type'' (''an array including a specific type in addition to '' @ quoted BASE_TYPE) (describeValue num type)
                    ''W3C VC schema type array must include a specific type from the credential definition''] else []))"

definition validateCredentialSubjectDeclaration :: "(rat \<Rightarrow> string) \<Rightarrow> string \<Rightarrow> json \<Rightarrow> format_issue option" where
  "validateCredentialSubjectDeclaration num name declaration =
     (if \<not> sd_isPlainObject declaration \<or> \<not> isClaimType (prop_of (obj_fields declaration) ''type'')
      then Some (issue (''credentialSubject.'' @ name)
             ''an object whose `type` is one of: string, number, boolean, array, object'' (describeValue num declaration)
             (''W3C VC credentialSubject field '' @ quoted name @ '' must declare a supported type''))
      else None)"

definition validateCredentialSubject :: "(rat \<Rightarrow> string) \<Rightarrow> json \<Rightarrow> format_issue list" where
  "validateCredentialSubject num credentialSubject =
     (if \<not> sd_isPlainObject credentialSubject \<or> obj_fields credentialSubject = []
      then [issue ''credentialSubject'' ''a non-empty object mapping field names to declarations''
              (describeValue num credentialSubject) ''W3C VC schema must declare at least one credentialSubject field'']
      else List.map_filter (\<lambda>(name, decl). validateCredentialSubjectDeclaration num name decl) (obj_fields credentialSubject))"

definition readValidCredentialSubject :: "(string \<times> json) list \<Rightarrow> (string \<times> claim_type) list option" where
  "readValidCredentialSubject schema =
     (let credentialSubject = prop_of schema ''credentialSubject'' in
      if \<not> sd_isPlainObject credentialSubject \<or> obj_fields credentialSubject = [] then None
      else collect_types (obj_fields credentialSubject))"

definition w3_validateSchema :: "(rat \<Rightarrow> string) \<Rightarrow> (string \<times> json) list \<Rightarrow> format_issue list" where
  "w3_validateSchema num schema =
     validateContext num (prop_of schema ''@context'') @ validateType num (prop_of schema ''type'')
     @ validateCredentialSubject num (prop_of schema ''credentialSubject'')"

definition w3_validateAttributes ::
  "(rat \<Rightarrow> string) \<Rightarrow> (string \<times> json) list \<Rightarrow> string attribute list \<Rightarrow> format_issue list" where
  "w3_validateAttributes num schema attributes =
     (case readValidCredentialSubject schema of
        None \<Rightarrow> [issue ''credentialSubject'' ''a non-empty object mapping field names to declarations''
                   (describeValue num (prop_of schema ''credentialSubject''))
                   ''Cannot validate attributes: W3C VC schema credentialSubject is missing or invalid'']
      | Some subject \<Rightarrow>
          let (issues, seen) = scan_attributes
                (typed_check num ''Attribute '' ''duplicate attribute'' ''W3C VC credentialSubject schema'' subject) [] attributes
          in issues @ missing_names ''Required attribute '' (map fst subject) seen)"

section \<open>mDL, and the registry\<close>

datatype port_format = PF_AnonCreds | PF_JsonLd | PF_SdJwtVc | PF_Mdl

definition PORT_FORMATS :: "port_format list" where
  "PORT_FORMATS = [PF_AnonCreds, PF_JsonLd, PF_SdJwtVc, PF_Mdl]"

fun port_format_str :: "port_format \<Rightarrow> string" where
  "port_format_str PF_AnonCreds = ''anoncreds''"
| "port_format_str PF_JsonLd = ''jsonld''"
| "port_format_str PF_SdJwtVc = ''sd-jwt-vc''"
| "port_format_str PF_Mdl = ''mdl''"

datatype validator_impl = AnonCredsFormatValidator | SdJwtFormatValidator | W3cVcFormatValidator | MdlFormatValidator

fun fv_format :: "validator_impl \<Rightarrow> port_format" where
  "fv_format AnonCredsFormatValidator = PF_AnonCreds"
| "fv_format SdJwtFormatValidator = PF_SdJwtVc"
| "fv_format W3cVcFormatValidator = PF_JsonLd"
| "fv_format MdlFormatValidator = PF_Mdl"

definition mdl_validateSchema :: "(string \<times> json) list \<Rightarrow> format_issue list result" where
  "mdl_validateSchema schema =
     Err (NotImplemented (''mDL schema validation is not yet implemented (ISO/IEC 18013-5 namespace '' @
            ''and doctype rules are pending a capability decision)''))"

definition mdl_validateAttributes :: "(string \<times> json) list \<Rightarrow> string attribute list \<Rightarrow> format_issue list result" where
  "mdl_validateAttributes schema attributes =
     Err (NotImplemented (''mDL attribute validation is not yet implemented (ISO/IEC 18013-5 namespace '' @
            ''and doctype rules are pending a capability decision)''))"

fun fv_validateSchema :: "(rat \<Rightarrow> string) \<Rightarrow> validator_impl \<Rightarrow> (string \<times> json) list \<Rightarrow> format_issue list result" where
  "fv_validateSchema num AnonCredsFormatValidator schema = Ok (ac_validateSchema num schema)"
| "fv_validateSchema num SdJwtFormatValidator schema = Ok (sd_validateSchema num schema)"
| "fv_validateSchema num W3cVcFormatValidator schema = Ok (w3_validateSchema num schema)"
| "fv_validateSchema num MdlFormatValidator schema = mdl_validateSchema schema"

type_synonym validator_registry = "(port_format \<times> validator_impl) list"

definition fvr_has :: "port_format \<Rightarrow> validator_registry \<Rightarrow> bool" where
  "fvr_has f reg = (map_of reg f \<noteq> None)"

definition fvr_register :: "validator_impl \<Rightarrow> validator_registry \<Rightarrow> validator_registry result" where
  "fvr_register v reg =
     (if fvr_has (fv_format v) reg
      then Err (InternalError (''A format validator is already registered for format '' @ quoted (port_format_str (fv_format v))))
      else Ok (reg @ [(fv_format v, v)]))"

datatype adapter_error =
    ConnectorUnavailableError string
  | FormatNotSupportedError string
  | TimeoutError string
  | ValidationError "string list"
  | FormatValidationError "format_issue list"

definition fvr_resolve :: "port_format \<Rightarrow> validator_registry \<Rightarrow> adapter_error + validator_impl" where
  "fvr_resolve f reg = (case map_of reg f of None \<Rightarrow> Inl (FormatNotSupportedError (port_format_str f)) | Some v \<Rightarrow> Inr v)"

definition fvr_list :: "validator_registry \<Rightarrow> port_format list" where
  "fvr_list reg = map fst reg"

definition credential_ports_onModuleInit :: "validator_registry \<Rightarrow> validator_registry result" where
  "credential_ports_onModuleInit reg =
     rbind (fvr_register AnonCredsFormatValidator reg) (\<lambda>r1. rbind (fvr_register SdJwtFormatValidator r1) (\<lambda>r2.
     rbind (fvr_register W3cVcFormatValidator r2) (\<lambda>r3. fvr_register MdlFormatValidator r3)))"

section \<open>Port-level requests\<close>

definition has_text :: "json \<Rightarrow> bool" where
  "has_text v = (is_str v \<and> js_trim (str_val v) \<noteq> [])"

definition named :: "json \<Rightarrow> bool" where
  "named v = (sd_isPlainObject v \<and> has_text (prop_of (obj_fields v) ''name''))"

definition arr_items :: "json \<Rightarrow> json list option" where
  "arr_items v = (case v of JArr xs \<Rightarrow> Some xs | _ \<Rightarrow> None)"

definition is_num :: "json \<Rightarrow> bool" where
  "is_num v = (case v of JNum n \<Rightarrow> True | _ \<Rightarrow> False)"

text \<open>\<open>None\<close>: the request is valid.\<close>

definition no_issues :: "string list \<Rightarrow> adapter_error option" where
  "no_issues issues = (if issues = [] then None else Some (ValidationError issues))"

definition validateOfferCredentialRequest :: "json \<Rightarrow> adapter_error option" where
  "validateOfferCredentialRequest req =
     (if \<not> sd_isPlainObject req then Some (ValidationError [''request must be a non-null object''])
      else
        let f = prop_of (obj_fields req) ''format''; attributes = prop_of (obj_fields req) ''attributes'' in
        no_issues ((if is_str f \<and> str_val f \<in> set (map port_format_str PORT_FORMATS) then [] else [''format is required/invalid''])
          @ (case arr_items attributes of
               None \<Rightarrow> [''attributes must not be empty'']
             | Some xs \<Rightarrow>
                 if xs = [] then [''attributes must not be empty'']
                 else map (\<lambda>_. ''attribute name must not be empty'') (filter (\<lambda>a. \<not> named a) xs))))"

definition predicate_issues :: "json \<Rightarrow> string list" where
  "predicate_issues p =
     (if named p then [] else [''requestedPredicate name must not be empty''])
     @ (if sd_isPlainObject p \<and> has_text (prop_of (obj_fields p) ''pType'') then [] else [''requestedPredicate pType must not be empty''])
     @ (if sd_isPlainObject p \<and> is_num (prop_of (obj_fields p) ''pValue'') then [] else [''requestedPredicate pValue must be numeric''])"

definition validatePresentationRequest :: "json \<Rightarrow> adapter_error option" where
  "validatePresentationRequest req =
     (if \<not> sd_isPlainObject req then Some (ValidationError [''request must be a non-null object''])
      else
        let attributes = prop_of (obj_fields req) ''requestedAttributes'';
            predicates = prop_of (obj_fields req) ''requestedPredicates'' in
        no_issues ((if has_text (prop_of (obj_fields req) ''name'') then [] else [''name must not be empty''])
          @ (case arr_items attributes of
               None \<Rightarrow> [''requestedAttributes must not be empty'']
             | Some xs \<Rightarrow>
                 if xs = [] then [''requestedAttributes must not be empty'']
                 else map (\<lambda>_. ''requestedAttribute name must not be empty'') (filter (\<lambda>a. \<not> named a) xs))
          @ (if predicates = JUndef then []
             else (case arr_items predicates of
                 None \<Rightarrow> [''requestedPredicates must be an array'']
               | Some xs \<Rightarrow> concat (map predicate_issues xs)))))"

section \<open>What the validators accept\<close>

lemma scan_seen: "snd (scan_attributes check seen attrs) = rev (map at_name attrs) @ seen"
  by (induction check seen attrs rule: scan_attributes.induct) (simp_all add: case_prod_beta)

lemma scan_clean:
  assumes "\<And>a. check a True \<noteq> None"
  shows "fst (scan_attributes check seen attrs) = [] \<longleftrightarrow>
     distinct (map at_name attrs) \<and> (\<forall>a\<in>set attrs. at_name a \<notin> set seen \<and> check a False = None)"
proof (induction attrs arbitrary: seen)
  case (Cons a attrs)
  show ?case
  proof (cases "at_name a \<in> set seen")
    case True
    then show ?thesis using assms [of a] by (auto simp: case_prod_beta Let_def)
  next
    case False
    then show ?thesis using Cons.IH [of "at_name a # seen"]
      by (cases "check a False") (fastforce simp: case_prod_beta Let_def image_iff)+
  qed
qed simp

text \<open>The contract of \<^verbatim>\<open>FormatValidator\<close>: for a schema without issues, attributes have no issues exactly when their
  names are distinct, declared, and include the required ones, and every value fits its declaration.\<close>

locale format_validator =
  fixes schema_issues :: "'s \<Rightarrow> format_issue list"
    and attribute_issues :: "'s \<Rightarrow> 'v attribute list \<Rightarrow> format_issue list"
    and declared :: "'s \<Rightarrow> string list"
    and required :: "'s \<Rightarrow> string list"
    and fits :: "'s \<Rightarrow> string \<Rightarrow> 'v \<Rightarrow> bool"
  assumes attributes_ok:
    "schema_issues s = [] \<Longrightarrow> attribute_issues s attrs = [] \<longleftrightarrow>
       distinct (map at_name attrs) \<and> set (map at_name attrs) \<subseteq> set (declared s)
       \<and> set (required s) \<subseteq> set (map at_name attrs) \<and> (\<forall>a\<in>set attrs. fits s (at_name a) (at_value a))"
    and required_declared: "set (required s) \<subseteq> set (declared s)"
begin

lemma order_irrelevant:
  assumes "schema_issues s = []" "mset attrs = mset attrs'"
  shows "attribute_issues s attrs = [] \<longleftrightarrow> attribute_issues s attrs' = []"
proof -
  have "mset (map at_name attrs) = mset (map at_name attrs')" using assms(2) by simp
  then have "distinct (map at_name attrs) \<longleftrightarrow> distinct (map at_name attrs')" using mset_eq_imp_distinct_iff by blast
  moreover have "set attrs = set attrs'" using assms(2) by (rule mset_eq_setD)
  ultimately show ?thesis using assms(1) by (simp add: attributes_ok)
qed

lemma optional_droppable:
  assumes "schema_issues s = []" "attribute_issues s (xs @ a # ys) = []" "at_name a \<notin> set (required s)"
  shows "attribute_issues s (xs @ ys) = []"
  using assms by (auto simp: attributes_ok)

end

lemma missing_clean: "missing_names w names seen = [] \<longleftrightarrow> set names \<subseteq> set seen"
  by (auto simp: missing_names_def filter_empty_conv)

lemma typed_attributes_ok:
  "(let (issues, seen) = scan_attributes (typed_check num w dw sw claims) [] attrs in issues @ missing_names mw (map fst claims) seen) = []
     \<longleftrightarrow> distinct (map at_name attrs) \<and> set (map at_name attrs) \<subseteq> set (map fst claims)
       \<and> set (map fst claims) \<subseteq> set (map at_name attrs)
       \<and> (\<forall>a\<in>set attrs. \<exists>t. map_of claims (at_name a) = Some t \<and> matchesClaimType (at_value a) t)"
proof -
  let ?c = "typed_check num w dw sw claims"
  have "?c a False = None \<longleftrightarrow> (\<exists>t. map_of claims (at_name a) = Some t \<and> matchesClaimType (at_value a) t)" for a
    by (auto simp: typed_check_def split: option.split)
  moreover have "?c a True \<noteq> None" for a by (simp add: typed_check_def)
  ultimately have "fst (scan_attributes ?c [] attrs) = [] \<longleftrightarrow> distinct (map at_name attrs)
      \<and> (\<forall>a\<in>set attrs. \<exists>t. map_of claims (at_name a) = Some t \<and> matchesClaimType (at_value a) t)"
    using scan_clean [of ?c "[]" attrs] by simp
  moreover have "map_of claims n = Some t \<Longrightarrow> n \<in> set (map fst claims)" for n t by (force dest: map_of_SomeD)
  ultimately show ?thesis by (auto simp: case_prod_beta Let_def missing_clean scan_seen)
qed

text \<open>A schema that was accepted can be read again when attributes are offered.\<close>

lemma collect_types_Some: "(\<forall>(n, d)\<in>set fs. sd_isPlainObject d \<and> isClaimType (prop_of (obj_fields d) ''type'')) \<Longrightarrow>
  \<exists>m. collect_types fs = Some m \<and> map fst m = map fst fs"
  by (induction fs rule: collect_types.induct) (auto simp: isClaimType_def)

lemma sd_schema_read: "sd_validateSchema num schema = [] \<Longrightarrow>
  \<exists>m. readValidClaims schema = Some m \<and> map fst m = map fst (obj_fields (prop_of schema ''claims''))"
  unfolding readValidClaims_def sd_validateSchema_def validateClaims_def
  by (simp add: Let_def split: option.splits if_split_asm, intro collect_types_Some)
    (fastforce simp: validateClaimDeclaration_def Let_def split: if_splits)

lemma map_filter_Nil: "List.map_filter f xs = [] \<longleftrightarrow> (\<forall>x\<in>set xs. f x = None)"
  by (induction xs) (auto simp: List.map_filter_simps split: option.split)

lemma w3_schema_read: "w3_validateSchema num schema = [] \<Longrightarrow>
  \<exists>m. readValidCredentialSubject schema = Some m \<and> map fst m = map fst (obj_fields (prop_of schema ''credentialSubject''))"
  unfolding readValidCredentialSubject_def w3_validateSchema_def validateCredentialSubject_def
  by (simp add: Let_def map_filter_Nil split: if_split_asm, intro collect_types_Some)
    (fastforce simp: validateCredentialSubjectDeclaration_def split: if_splits)

definition sd_fits :: "(string \<times> json) list \<Rightarrow> string \<Rightarrow> string \<Rightarrow> bool" where
  "sd_fits schema n v = (\<exists>m t. readValidClaims schema = Some m \<and> map_of m n = Some t \<and> matchesClaimType v t)"

definition w3_fits :: "(string \<times> json) list \<Rightarrow> string \<Rightarrow> string \<Rightarrow> bool" where
  "w3_fits schema n v = (\<exists>m t. readValidCredentialSubject schema = Some m \<and> map_of m n = Some t \<and> matchesClaimType v t)"

definition claim_names :: "string \<Rightarrow> (string \<times> json) list \<Rightarrow> string list" where
  "claim_names member schema = map fst (obj_fields (prop_of schema member))"

interpretation sd: format_validator "sd_validateSchema num" "sd_validateAttributes num" "claim_names ''claims''"
  "claim_names ''claims''" sd_fits for num
proof (unfold_locales, goal_cases)
  case (1 s attrs)
  then obtain m where m: "readValidClaims s = Some m" "claim_names ''claims'' s = map fst m"
    using sd_schema_read [OF 1] by (auto simp: claim_names_def dest: sym)
  show ?case unfolding sd_validateAttributes_def m(1) option.case typed_attributes_ok m(2) by (simp add: sd_fits_def m(1))
qed simp

interpretation w3: format_validator "w3_validateSchema num" "w3_validateAttributes num" "claim_names ''credentialSubject''"
  "claim_names ''credentialSubject''" w3_fits for num
proof (unfold_locales, goal_cases)
  case (1 s attrs)
  then obtain m where m: "readValidCredentialSubject s = Some m" "claim_names ''credentialSubject'' s = map fst m"
    using w3_schema_read [OF 1] by (auto simp: claim_names_def dest: sym)
  show ?case unfolding w3_validateAttributes_def m(1) option.case typed_attributes_ok m(2) by (simp add: w3_fits_def m(1))
qed simp

definition ac_declared :: "(string \<times> json) list \<Rightarrow> string list" where
  "ac_declared schema = str_items (prop_of schema ''attr_names'')"

interpretation ac: format_validator "ac_validateSchema num" "ac_validateAttributes num" ac_declared ac_required
  "\<lambda>schema n v. is_str v" for num
proof (unfold_locales, goal_cases)
  case (1 s attrs)
  let ?n = "str_items (prop_of s ''attr_names'')"
  let ?c = "validateAttributeEntry num ?n"
  have ok: "ac_isNonEmptyStringArray (prop_of s ''attr_names'')"
    using 1 by (auto simp: ac_validateSchema_def validateAttrNames_def Let_def split: option.splits if_splits)
  have "?c a False = None \<longleftrightarrow> at_name a \<in> set ?n \<and> is_str (at_value a)" for a by (simp add: validateAttributeEntry_def)
  moreover have "?c a True \<noteq> None" for a by (simp add: validateAttributeEntry_def)
  ultimately have "fst (scan_attributes ?c [] attrs) = [] \<longleftrightarrow> distinct (map at_name attrs)
      \<and> (\<forall>a\<in>set attrs. at_name a \<in> set ?n \<and> is_str (at_value a))"
    using scan_clean [of ?c "[]" attrs] by simp
  moreover have "findMissingRequiredAttributes r seen = [] \<longleftrightarrow> set r \<subseteq> set seen" for r seen
    by (auto simp: findMissingRequiredAttributes_def filter_empty_conv)
  ultimately show ?case using ok
    by (auto simp: ac_validateAttributes_def ac_declared_def Let_def case_prod_beta scan_seen)
qed (auto simp: ac_required_def ac_declared_def Let_def)

section \<open>Properties\<close>

definition offers_exactly :: "string list \<Rightarrow> (string \<Rightarrow> string \<Rightarrow> bool) \<Rightarrow> string attribute list \<Rightarrow> bool" where
  "offers_exactly names fits attrs =
     (distinct (map at_name attrs) \<and> set (map at_name attrs) = set names \<and> (\<forall>a\<in>set attrs. fits (at_name a) (at_value a)))"

lemma sd_offer:
  assumes "sd_validateSchema num s = []" "mset attrs = mset attrs'"
  shows "sd_validateAttributes num s attrs' = [] \<longleftrightarrow> offers_exactly (claim_names ''claims'' s) (sd_fits s) attrs"
  by (subst sd.order_irrelevant [OF assms, symmetric]) (auto simp: sd.attributes_ok [OF assms(1)] offers_exactly_def)

lemma w3_offer:
  assumes "w3_validateSchema num s = []" "mset attrs = mset attrs'"
  shows "w3_validateAttributes num s attrs' = [] \<longleftrightarrow> offers_exactly (claim_names ''credentialSubject'' s) (w3_fits s) attrs"
  by (subst w3.order_irrelevant [OF assms, symmetric]) (auto simp: w3.attributes_ok [OF assms(1)] offers_exactly_def)

lemma ac_offer:
  assumes "ac_validateSchema num s = []" "mset attrs = mset attrs'"
  shows "ac_validateAttributes num s attrs' = [] \<longleftrightarrow>
     distinct (map at_name attrs) \<and> set (map at_name attrs) \<subseteq> set (ac_declared s)
     \<and> set (ac_required s) \<subseteq> set (map at_name attrs) \<and> (\<forall>a\<in>set attrs. is_str (at_value a))"
  by (subst ac.order_irrelevant [OF assms, symmetric]) (rule ac.attributes_ok [OF assms(1)])


definition demo_sd_schema :: "(string \<times> json) list" where
  "demo_sd_schema = [(''vct'', JStr ''Permit''), (''claims'', JObj [(''name'', JObj [(''type'', JStr ''string'')]),
     (''age'', JObj [(''type'', JStr ''number''), (''disclosable'', JBool True)])])]"

lemma demo_number_claim: "matchesClaimType ''4.2e1'' CT_number"
proof -
  have "json_parse_kind ''4.2e1'' = Some (KNum 42)" by code_simp
  then show ?thesis by (simp add: matchesClaimType_def finite_double_def)
qed


text \<open>A claim value that is the JSON text of a value passes the type check exactly when the claim is declared as a
  string or declares the type of that value, for values of any depth; a number must be finite as a double. The
  printing of numbers is assumed to denote them.\<close>

theorem claim_value_roundtrip:
  assumes "\<forall>n\<in>json_nums v. prints num n"
  shows "matchesClaimType (json_stringify num v) t \<longleftrightarrow>
     (case t of
        CT_string \<Rightarrow> True
      | CT_number \<Rightarrow> (\<exists>n. v = JNum n \<and> finite_double n)
      | CT_boolean \<Rightarrow> (\<exists>b. v = JBool b)
      | CT_array \<Rightarrow> (\<exists>xs. v = JArr xs)
      | CT_object \<Rightarrow> (\<exists>kvs. v = JObj kvs))"
  unfolding matchesClaimType_def parse_kind_stringify [OF assms] by (cases v; cases t) simp_all

theorem claim_value_roundtrip_witness:
  "matchesClaimType (json_stringify (\<lambda>n. ''7'') (JArr [JNum 7, JObj [(''k'', JNull)]])) CT_array"
proof -
  have "jp_number (''7'' @ r) = Some (7, r)" if "r = [] \<or> hd r \<in> {CHR '','', CHR '']'', CHR ''}''}" for r
    using that by (cases r) (auto simp: jp_number_def jp_int_def jp_frac_def jp_exp_def dec_val_def is_dig_def)
  then have "prints (\<lambda>n. ''7'') 7" by (simp add: prints_def is_dig_def)
  then have "\<forall>n\<in>json_nums (JArr [JNum 7, JObj [(''k'', JNull)]]). prints (\<lambda>n. ''7'') n" by simp
  from claim_value_roundtrip [OF this, of CT_array] show ?thesis by simp
qed

end
