(* ===== verification/Credential_Definition.thy ===== *)
theory Credential_Definition
  imports Format_Validators Access
begin

text \<open>
  \<^verbatim>\<open>credential-definition\<close>: the registry of credential definitions of a tenant, with validation of the schema against the
  rules of its format, uniqueness among active definitions, and deactivation instead of deletion.
\<close>

section \<open>CredentialDefinitionRepository\<close>

definition cd_findById :: "string \<Rightarrow> db \<Rightarrow> credential_definition option" where
  "cd_findById i d = List.find (\<lambda>c. cd_id c = i \<and> cd_isActive c) (credential_definitions d)"

definition cd_findByTenantId :: "string \<Rightarrow> db \<Rightarrow> credential_definition list" where
  "cd_findByTenantId tenantId d =
     sort_key cd_createdAt (filter (\<lambda>c. cd_tenantId c = tenantId \<and> cd_isActive c) (credential_definitions d))"

definition cd_findByTenantAndName :: "string \<Rightarrow> string \<Rightarrow> db \<Rightarrow> credential_definition option" where
  "cd_findByTenantAndName tenantId name d =
     List.find (\<lambda>c. cd_tenantId c = tenantId \<and> cd_name c = name \<and> cd_isActive c) (credential_definitions d)"

definition cd_findByTenantAndNameAndFormat :: "string \<Rightarrow> string \<Rightarrow> cd_format \<Rightarrow> db \<Rightarrow> credential_definition option" where
  "cd_findByTenantAndNameAndFormat tenantId name f d =
     List.find (\<lambda>c. cd_tenantId c = tenantId \<and> cd_name c = name \<and> cd_format c = f \<and> cd_isActive c) (credential_definitions d)"

definition cd_findByFormat :: "cd_format \<Rightarrow> string \<Rightarrow> db \<Rightarrow> credential_definition list" where
  "cd_findByFormat f tenantId d =
     sort_key cd_createdAt (filter (\<lambda>c. cd_format c = f \<and> cd_tenantId c = tenantId \<and> cd_isActive c) (credential_definitions d))"

definition cd_findByConnector :: "connector_type \<Rightarrow> string \<Rightarrow> db \<Rightarrow> credential_definition list" where
  "cd_findByConnector ct tenantId d =
     sort_key cd_createdAt (filter (\<lambda>c. cd_connectorType c = ct \<and> cd_tenantId c = tenantId \<and> cd_isActive c) (credential_definitions d))"

text \<open>The partial unique index of migration 000025, as a check on the table.\<close>

definition cd_active_key :: "credential_definition \<Rightarrow> string \<times> string \<times> cd_format" where
  "cd_active_key c = (cd_tenantId c, cd_name c, cd_format c)"

definition cd_unique_active :: "credential_definition list \<Rightarrow> bool" where
  "cd_unique_active rows = distinct (map cd_active_key (filter cd_isActive rows))"

definition cd_create :: "credential_definition \<Rightarrow> db \<Rightarrow> db option" where
  "cd_create c d =
     (if cd_tenantId c \<in> t_id ` set (tenants d) \<and> length (cd_name c) \<le> 255 \<and> length (cd_externalId c) \<le> 255
         \<and> cd_unique_active (credential_definitions d @ [c])
      then map_option (\<lambda>rows. d\<lparr>credential_definitions := rows\<rparr>) (tbl_insert cd_id c (credential_definitions d))
      else None)"

definition cd_update :: "time \<Rightarrow> credential_definition \<Rightarrow> db \<Rightarrow> db option" where
  "cd_update now c d =
     (let rows = tbl_save cd_id (c\<lparr>cd_updatedAt := now\<rparr>) (credential_definitions d) in
      if length (cd_name c) \<le> 255 \<and> cd_unique_active rows then Some (d\<lparr>credential_definitions := rows\<rparr>) else None)"

definition cd_deactivate :: "time \<Rightarrow> string \<Rightarrow> db \<Rightarrow> db" where
  "cd_deactivate now i d =
     d\<lparr>credential_definitions := tbl_update (\<lambda>c. cd_id c = i) (\<lambda>c. c\<lparr>cd_isActive := False, cd_updatedAt := now\<rparr>) (credential_definitions d)\<rparr>"

section \<open>CredentialDefinitionService\<close>

record create_cd_dto =
  ccd_name :: string
  ccd_format :: cd_format
  ccd_schemaDefinition :: "(string \<times> json) list"
  ccd_externalId :: string
  ccd_connectorType :: connector_type
  ccd_metadata :: "(string \<times> json) list option"

record update_cd_dto =
  ucd_name :: "string option"
  ucd_metadata :: "(string \<times> json) list option"

definition toPortCredentialFormat :: "cd_format \<Rightarrow> port_format option" where
  "toPortCredentialFormat f = List.find (\<lambda>v. port_format_str v = cd_format_str f) PORT_FORMATS"

definition validateSchemaDefinition ::
  "(rat \<Rightarrow> string) \<Rightarrow> validator_registry \<Rightarrow> cd_format \<Rightarrow> (string \<times> json) list \<Rightarrow> unit result" where
  "validateSchemaDefinition num reg f schema =
     (case toPortCredentialFormat f of
        None \<Rightarrow> Ok ()
      | Some pf \<Rightarrow>
          if \<not> fvr_has pf reg then Ok ()
          else (case fvr_resolve pf reg of
              Inl e \<Rightarrow> Err (InternalError (port_format_str pf))
            | Inr v \<Rightarrow> rbind (fv_validateSchema num v schema) (\<lambda>issues.
                if issues \<noteq> [] then Err (BadRequest ''Credential definition schema failed format validation'') else Ok ())))"

definition cds_create ::
  "(rat \<Rightarrow> string) \<Rightarrow> validator_registry \<Rightarrow> string \<Rightarrow> micros \<Rightarrow> time \<Rightarrow> string \<Rightarrow> create_cd_dto \<Rightarrow> auth_context option \<Rightarrow> db
     \<Rightarrow> (credential_definition \<times> db) result" where
  "cds_create num reg newid created now tenantId dto auth d =
     rbind (assertTenantAccess auth tenantId) (\<lambda>_.
       if cd_findByTenantAndNameAndFormat tenantId (ccd_name dto) (ccd_format dto) d \<noteq> None
       then Err (Conflict ''Credential definition with this name and format already exists for this tenant.'')
       else rbind (validateSchemaDefinition num reg (ccd_format dto) (ccd_schemaDefinition dto)) (\<lambda>_.
         let c = \<lparr>cd_id = newid, cd_tenantId = tenantId, cd_name = ccd_name dto, cd_format = ccd_format dto,
                  cd_schemaDefinition = JObj (ccd_schemaDefinition dto), cd_externalId = ccd_externalId dto,
                  cd_connectorType = ccd_connectorType dto, cd_metadata = map_option JObj (ccd_metadata dto),
                  cd_isActive = True, cd_createdAt = created, cd_updatedAt = now\<rparr>
         in case cd_create c d of
              None \<Rightarrow> Err db_error
            | Some d' \<Rightarrow> Ok (c, domain_audit_emit (cd_tenantId c) A_CREATE ''credential_definition'' newid [] d')))"

definition cds_findById :: "string \<Rightarrow> string \<Rightarrow> auth_context option \<Rightarrow> db \<Rightarrow> credential_definition result" where
  "cds_findById tenantId i auth d =
     (let notFound = ''Credential definition '' @ quoted i @ '' was not found.'' in
      case cd_findById i d of
        None \<Rightarrow> Err (NotFound notFound)
      | Some c \<Rightarrow>
          if cd_tenantId c \<noteq> tenantId then Err (NotFound notFound)
          else rbind (assertResourceTenantOrNotFound auth (cd_tenantId c) notFound) (\<lambda>_. Ok c))"

definition cds_findByFormat :: "string \<Rightarrow> cd_format \<Rightarrow> db \<Rightarrow> credential_definition list" where
  "cds_findByFormat tenantId f d = cd_findByFormat f tenantId d"

definition cds_findByConnector :: "string \<Rightarrow> connector_type \<Rightarrow> db \<Rightarrow> credential_definition list" where
  "cds_findByConnector tenantId ct d = cd_findByConnector ct tenantId d"

definition cds_update ::
  "time \<Rightarrow> string \<Rightarrow> string \<Rightarrow> update_cd_dto \<Rightarrow> auth_context option \<Rightarrow> db \<Rightarrow> (credential_definition \<times> db) result" where
  "cds_update now tenantId i dto auth d =
     rbind (cds_findById tenantId i auth d) (\<lambda>c.
       let c' = c\<lparr>cd_name := (case ucd_name dto of None \<Rightarrow> cd_name c | Some n \<Rightarrow> n),
                  cd_metadata := (case ucd_metadata dto of None \<Rightarrow> cd_metadata c | Some m \<Rightarrow> Some (JObj m))\<rparr>
       in case cd_update now c' d of
            None \<Rightarrow> Err db_error
          | Some d' \<Rightarrow> Ok (c'\<lparr>cd_updatedAt := now\<rparr>,
              domain_audit_emit (cd_tenantId c') A_UPDATE ''credential_definition'' (cd_id c') [] d'))"

definition cds_delete :: "time \<Rightarrow> string \<Rightarrow> string \<Rightarrow> auth_context option \<Rightarrow> db \<Rightarrow> (unit \<times> db) result" where
  "cds_delete now tenantId i auth d =
     rbind (cds_findById tenantId i auth d) (\<lambda>c.
       Ok ((), domain_audit_emit (cd_tenantId c) A_UPDATE ''credential_definition'' i [] (cd_deactivate now i d)))"

section \<open>Steps and invariant\<close>

datatype cd_op =
    CD_create string micros time string create_cd_dto "auth_context option"
  | CD_update time string string update_cd_dto "auth_context option"
  | CD_delete time string string "auth_context option"

fun cd_step :: "(rat \<Rightarrow> string) \<Rightarrow> validator_registry \<Rightarrow> cd_op \<Rightarrow> db \<Rightarrow> db" where
  "cd_step num reg (CD_create newid created now tenantId dto auth) d = exec (cds_create num reg newid created now tenantId dto auth d) d"
| "cd_step num reg (CD_update now tenantId i dto auth) d = exec (cds_update now tenantId i dto auth d) d"
| "cd_step num reg (CD_delete now tenantId i auth) d = exec (cds_delete now tenantId i auth d) d"

text \<open>The registry that the module sets up.\<close>

definition shipped_registry :: validator_registry where
  "shipped_registry = [(PF_AnonCreds, AnonCredsFormatValidator), (PF_SdJwtVc, SdJwtFormatValidator),
     (PF_JsonLd, W3cVcFormatValidator), (PF_Mdl, MdlFormatValidator)]"

lemma onModuleInit_registry: "credential_ports_onModuleInit [] = Ok shipped_registry"
  by (simp add: credential_ports_onModuleInit_def fvr_register_def fvr_has_def shipped_registry_def)

definition cd_row_ok :: "(rat \<Rightarrow> string) \<Rightarrow> credential_definition \<Rightarrow> bool" where
  "cd_row_ok num c =
     (cd_format c \<noteq> F_MDL
      \<and> (cd_format c = F_ANONCREDS \<longrightarrow> (\<exists>s. cd_schemaDefinition c = JObj s \<and> ac_validateSchema num s = [])))"

definition cd_inv :: "(rat \<Rightarrow> string) \<Rightarrow> db \<Rightarrow> bool" where
  "cd_inv num d = (tbl_keys cd_id (credential_definitions d) \<and> cd_unique_active (credential_definitions d)
     \<and> (\<forall>c\<in>set (credential_definitions d). cd_row_ok num c))"

lemma validate_shipped:
  "validateSchemaDefinition num shipped_registry f s = Ok () \<longleftrightarrow>
     f \<noteq> F_MDL \<and> (f = F_ANONCREDS \<longrightarrow> ac_validateSchema num s = [])"
  by (cases f) (simp_all add: validateSchemaDefinition_def toPortCredentialFormat_def PORT_FORMATS_def fvr_has_def
      fvr_resolve_def shipped_registry_def mdl_validateSchema_def)

lemma cds_findById_ok:
  "cds_findById tenantId i auth d = Inr c \<Longrightarrow> c \<in> set (credential_definitions d) \<and> cd_id c = i \<and> cd_isActive c \<and> cd_tenantId c = tenantId"
  unfolding cds_findById_def Let_def
  by (auto simp: rbind_eq_Inr cd_findById_def find_Some_iff split: option.splits if_splits)

lemma cds_create_ok:
  assumes "cds_create num reg newid created now tenantId dto auth d = Inr (c, d')"
  shows "\<exists>d1. cd_create c d = Some d1 \<and> credential_definitions d' = credential_definitions d1
     \<and> cd_schemaDefinition c = JObj (ccd_schemaDefinition dto) \<and> cd_format c = ccd_format dto
     \<and> validateSchemaDefinition num reg (ccd_format dto) (ccd_schemaDefinition dto) = Ok ()"
  using assms unfolding cds_create_def Let_def
  by (auto simp: rbind_eq_Inr split: if_splits option.splits)

lemma cd_create_rows:
  "cd_create c d = Some d1 \<Longrightarrow> credential_definitions d1 = credential_definitions d @ [c]
     \<and> cd_unique_active (credential_definitions d1) \<and> cd_id c \<notin> cd_id ` set (credential_definitions d)"
  by (auto simp: cd_create_def split: if_splits dest!: tbl_insert_append)

lemma cd_create_inv:
  assumes "cd_inv num d" "cd_create c d = Some d1" "cd_row_ok num c"
  shows "cd_inv num d1"
  using assms(1,3) cd_create_rows [OF assms(2)] by (auto simp: cd_inv_def tbl_keys_def)

lemma cd_update_inv:
  assumes "cd_inv num d" "cd_update now c d = Some d1" "cd_row_ok num c"
  shows "cd_inv num d1"
proof -
  let ?rows = "tbl_save cd_id (c\<lparr>cd_updatedAt := now\<rparr>) (credential_definitions d)"
  have d1: "d1 = d\<lparr>credential_definitions := ?rows\<rparr>" "cd_unique_active ?rows"
    using assms(2) by (auto simp: cd_update_def Let_def split: if_splits)
  moreover have "\<forall>x\<in>set ?rows. cd_row_ok num x"
    using set_tbl_save [of cd_id "c\<lparr>cd_updatedAt := now\<rparr>" "credential_definitions d"] assms(1,3)
    by (auto simp: cd_inv_def cd_row_ok_def)
  ultimately show ?thesis using assms(1) by (simp add: cd_inv_def tbl_keys_save)
qed

lemma active_after_deactivate:
  "filter cd_isActive (tbl_update p (\<lambda>c. c\<lparr>cd_isActive := False, cd_updatedAt := now\<rparr>) rows)
     = filter (\<lambda>c. \<not> p c) (filter cd_isActive rows)"
  by (induction rows) (auto simp: tbl_update_def)

lemma unique_active_deactivate:
  assumes "cd_unique_active rows"
  shows "cd_unique_active (tbl_update p (\<lambda>c. c\<lparr>cd_isActive := False, cd_updatedAt := now\<rparr>) rows)"
  using assms unfolding cd_unique_active_def active_after_deactivate by (rule distinct_map_filter)

lemma cd_deactivate_inv:
  assumes "cd_inv num d"
  shows "cd_inv num (cd_deactivate now i d)"
proof -
  let ?rows = "tbl_update (\<lambda>c. cd_id c = i) (\<lambda>c. c\<lparr>cd_isActive := False, cd_updatedAt := now\<rparr>) (credential_definitions d)"
  have "\<forall>c\<in>set ?rows. cd_row_ok num c" using assms by (auto simp: tbl_update_def cd_inv_def cd_row_ok_def)
  moreover have "tbl_keys cd_id ?rows" by (rule tbl_keys_update) (use assms in \<open>simp_all add: cd_inv_def\<close>)
  ultimately show ?thesis using assms unique_active_deactivate by (simp add: cd_inv_def cd_deactivate_def)
qed

lemma cd_inv_audit [simp]: "cd_inv num (domain_audit_emit t a rt r m d) = cd_inv num d"
  by (simp add: cd_inv_def domain_audit_emit_def)

lemma cd_step_inv:
  assumes "cd_inv num d"
  shows "cd_inv num (cd_step num shipped_registry oper d)"
proof (cases oper)
  case (CD_create newid created now tenantId dto auth)
  show ?thesis
  proof (cases "cds_create num shipped_registry newid created now tenantId dto auth d")
    case (Inr r)
    then obtain c d' where r: "cds_create num shipped_registry newid created now tenantId dto auth d = Inr (c, d')" by (cases r) simp
    from cds_create_ok [OF this] obtain d1 where c: "cd_create c d = Some d1" "credential_definitions d' = credential_definitions d1"
      "cd_row_ok num c" by (auto simp: validate_shipped cd_row_ok_def)
    then show ?thesis using cd_create_inv [OF assms c(1,3)] r CD_create by (simp add: cd_inv_def)
  qed (use assms CD_create in simp)
next
  case (CD_update now tenantId i dto auth)
  show ?thesis
  proof (cases "cds_findById tenantId i auth d")
    case (Inr c)
    then have "cd_row_ok num c" using cds_findById_ok [OF Inr] assms by (simp add: cd_inv_def)
    then show ?thesis using Inr assms CD_update
      by (auto simp: cds_update_def Let_def cd_row_ok_def split: option.split intro: cd_update_inv)
  qed (use assms CD_update in \<open>simp add: cds_update_def\<close>)
next
  case (CD_delete now tenantId i auth)
  then show ?thesis using assms
    by (cases "cds_findById tenantId i auth d") (simp_all add: cds_delete_def cd_deactivate_inv)
qed

interpretation cd: invariant_system "\<lambda>d. d = empty_db" "cd_step num shipped_registry" "cd_inv num" for num
proof unfold_locales
  show "s = empty_db \<Longrightarrow> cd_inv num s" for s by (simp add: cd_inv_def empty_db_def tbl_keys_def cd_unique_active_def)
qed (rule cd_step_inv)

section \<open>Properties\<close>


text \<open>SD-JWT and W3C VC schemas are never validated: the service accepts every schema of these two formats, although
  their validators are registered and reject, for instance, the empty schema. The names of the formats differ between
  the table and the ports.\<close>

theorem sd_jwt_schema_unchecked:
  "validateSchemaDefinition num shipped_registry F_SD_JWT s = Ok () \<and> validateSchemaDefinition num shipped_registry F_W3C_VC s = Ok ()
   \<and> fvr_has PF_SdJwtVc shipped_registry \<and> fvr_has PF_JsonLd shipped_registry
   \<and> sd_validateSchema num [] \<noteq> [] \<and> w3_validateSchema num [] \<noteq> []"
proof -
  have "validateSchemaDefinition num shipped_registry f s = Ok ()" if "f \<in> {F_SD_JWT, F_W3C_VC}" for f
    using that by (auto simp: validate_shipped)
  moreover have "fvr_has PF_SdJwtVc shipped_registry" "fvr_has PF_JsonLd shipped_registry"
    by (simp_all add: fvr_has_def shipped_registry_def)
  moreover have "sd_validateSchema num [] \<noteq> []" "w3_validateSchema num [] \<noteq> []"
    by (simp_all add: sd_validateSchema_def w3_validateSchema_def
      validateClaims_def validateContext_def prop_of_def sd_isPlainObject_def w3_isNonEmptyStringArray_def)
  ultimately show ?thesis by simp
qed

lemma find_mem: "List.find p xs = Some x \<Longrightarrow> x \<in> set xs \<and> p x"
  by (induction xs) (auto split: if_splits)

text \<open>A deactivated definition no longer blocks its name and format.\<close>

lemma deactivated_name_free:
  assumes "cd_inv num d" "c \<in> set (credential_definitions d)" "cd_isActive c"
  shows "cd_findByTenantAndNameAndFormat (cd_tenantId c) (cd_name c) (cd_format c) (cd_deactivate now (cd_id c) d) = None"
proof (rule ccontr)
  let ?rows = "tbl_update (\<lambda>x. cd_id x = cd_id c) (\<lambda>c. c\<lparr>cd_isActive := False, cd_updatedAt := now\<rparr>) (credential_definitions d)"
  assume "\<not> ?thesis"
  then obtain x where x: "x \<in> set (filter cd_isActive ?rows)" "cd_active_key x = cd_active_key c"
    by (auto simp: cd_findByTenantAndNameAndFormat_def cd_deactivate_def cd_active_key_def dest!: find_mem)
  then have "x \<in> set (filter cd_isActive (credential_definitions d))" "cd_id x \<noteq> cd_id c"
    unfolding active_after_deactivate by simp_all
  moreover have "c \<in> set (filter cd_isActive (credential_definitions d))" using assms(2,3) by simp
  ultimately show False using assms(1) x(2) unfolding cd_inv_def cd_unique_active_def distinct_map
    by (metis inj_onD)
qed

end
