(* ===== verification/Adapter_Registry.thy ===== *)
theory Adapter_Registry
  imports Format_Validators Tenant
begin

text \<open>
  \<^verbatim>\<open>adapter-registry\<close>: which agent adapter and which connector of a tenant an operation uses; and the token manager of
  \<^verbatim>\<open>traction\<close>. The agents behind the adapters are parameters: an adapter is a record of the calls it offers.
\<close>

section \<open>Ports\<close>

datatype port_connector = PC_Traction | PC_Credo

fun port_connector_str :: "port_connector \<Rightarrow> string" where
  "port_connector_str PC_Traction = ''traction''"
| "port_connector_str PC_Credo = ''credo''"

fun connector_type_str :: "connector_type \<Rightarrow> string" where
  "connector_type_str TRACTION = ''traction''"
| "connector_type_str CREDO = ''credo''"

definition toPortConnectorType :: "connector_type \<Rightarrow> port_connector option" where
  "toPortConnectorType ct = List.find (\<lambda>v. port_connector_str v = connector_type_str ct) [PC_Traction, PC_Credo]"

text \<open>An operation fails with an \<^verbatim>\<open>AdapterError\<close> or with any other exception.\<close>

datatype call_error = AdapterErr adapter_error | OtherErr http_error

fun code_of :: "adapter_error \<Rightarrow> string" where
  "code_of (ConnectorUnavailableError m) = ''CONNECTOR_UNAVAILABLE''"
| "code_of (FormatNotSupportedError m) = ''FORMAT_NOT_SUPPORTED''"
| "code_of (TimeoutError m) = ''TIMEOUT''"
| "code_of (ValidationError i) = ''VALIDATION_ERROR''"
| "code_of (FormatValidationError i) = ''FORMAT_VALIDATION_ERROR''"

fun message_of :: "adapter_error \<Rightarrow> string" where
  "message_of (ConnectorUnavailableError m) = m"
| "message_of (FormatNotSupportedError f) = ''Credential format not supported: '' @ f"
| "message_of (TimeoutError m) = m"
| "message_of (ValidationError i) = ''Validation failed''"
| "message_of (FormatValidationError i) = ''Format validation failed''"

record connector_context =
  ctx_connectorId :: string
  ctx_tenantId :: string
  ctx_endpointUrl :: string
  ctx_credentials :: connector_credentials_dto

datatype exchange_state =
    EX_ProposalSent | EX_OfferSent | EX_OfferReceived | EX_RequestSent | EX_RequestReceived | EX_CredentialIssued
  | EX_CredentialReceived | EX_Done | EX_Abandoned

record credential_exchange =
  ce_state :: exchange_state
  ce_fields :: "(string \<times> json) list"

record revocation_result =
  rr_revoked :: bool
  rr_revokedAt :: "time option"
  rr_error :: "string option"
  rr_fields :: "(string \<times> json) list"

text \<open>The capabilities and the ports of an adapter. Requests, presentations, invitations and connections, which no
  modelled code reads, stay JSON values.\<close>

record agent_adapter =
  aa_connectorType :: port_connector
  aa_supportedFormats :: "port_format list"
  aa_offerCredential :: "connector_context \<Rightarrow> json \<Rightarrow> call_error + credential_exchange"
  aa_getExchange :: "connector_context \<Rightarrow> string \<Rightarrow> call_error + credential_exchange"
  aa_requestPresentation :: "connector_context \<Rightarrow> json \<Rightarrow> call_error + json"
  aa_getPresentation :: "connector_context \<Rightarrow> string \<Rightarrow> call_error + json"
  aa_acceptOffer :: "connector_context \<Rightarrow> string \<Rightarrow> call_error + credential_exchange"
  aa_rejectOffer :: "connector_context \<Rightarrow> string \<Rightarrow> call_error + unit"
  aa_createInvitation :: "connector_context \<Rightarrow> json \<Rightarrow> call_error + json"
  aa_acceptInvitation :: "connector_context \<Rightarrow> string \<Rightarrow> call_error + json"
  aa_list :: "connector_context \<Rightarrow> json \<Rightarrow> call_error + json list"
  aa_getById :: "connector_context \<Rightarrow> string \<Rightarrow> call_error + json"
  aa_revoke :: "connector_context \<Rightarrow> string \<Rightarrow> call_error + revocation_result"
  aa_batchRevoke :: "connector_context \<Rightarrow> string list \<Rightarrow> call_error + revocation_result list"

definition traction_notImplemented :: "string \<Rightarrow> call_error" where
  "traction_notImplemented m = OtherErr (NotImplemented (''TractionAdapter.'' @ m @ '' is not yet implemented''))"

definition TractionAdapter :: agent_adapter where
  "TractionAdapter = \<lparr>aa_connectorType = PC_Traction, aa_supportedFormats = [PF_AnonCreds],
     aa_offerCredential = (\<lambda>_ _. Inl (traction_notImplemented ''offerCredential'')),
     aa_getExchange = (\<lambda>_ _. Inl (traction_notImplemented ''getExchange'')),
     aa_requestPresentation = (\<lambda>_ _. Inl (traction_notImplemented ''requestPresentation'')),
     aa_getPresentation = (\<lambda>_ _. Inl (traction_notImplemented ''getPresentation'')),
     aa_acceptOffer = (\<lambda>_ _. Inl (traction_notImplemented ''acceptOffer'')),
     aa_rejectOffer = (\<lambda>_ _. Inl (traction_notImplemented ''rejectOffer'')),
     aa_createInvitation = (\<lambda>_ _. Inl (traction_notImplemented ''createInvitation'')),
     aa_acceptInvitation = (\<lambda>_ _. Inl (traction_notImplemented ''acceptInvitation'')),
     aa_list = (\<lambda>_ _. Inl (traction_notImplemented ''list'')),
     aa_getById = (\<lambda>_ _. Inl (traction_notImplemented ''getById'')),
     aa_revoke = (\<lambda>_ _. Inl (traction_notImplemented ''revoke'')),
     aa_batchRevoke = (\<lambda>_ _. Inl (traction_notImplemented ''batchRevoke''))\<rparr>"

section \<open>AdapterRegistry\<close>

type_synonym adapter_map = "(port_connector \<times> agent_adapter) list"

definition ar_register :: "agent_adapter \<Rightarrow> adapter_map \<Rightarrow> adapter_map result" where
  "ar_register a reg =
     (let ct = aa_connectorType a in
      if map_of reg ct \<noteq> None
      then Err (InternalError (''An adapter is already registered for connector type '' @ quoted (port_connector_str ct)))
      else if aa_supportedFormats a = []
      then Err (InternalError (''Adapter for connector type '' @ quoted (port_connector_str ct) @ '' declares no supported formats''))
      else Ok (reg @ [(ct, a)]))"

definition getByConnectorType :: "port_connector \<Rightarrow> adapter_map \<Rightarrow> call_error + agent_adapter" where
  "getByConnectorType ct reg =
     (case map_of reg ct of
        None \<Rightarrow> Inl (AdapterErr (ConnectorUnavailableError
                 (''No adapter is registered for connector type '' @ quoted (port_connector_str ct))))
      | Some a \<Rightarrow> Inr a)"

definition ar_list :: "adapter_map \<Rightarrow> port_connector list" where
  "ar_list reg = map fst reg"

record resolve_options =
  ro_connectorId :: "string option"
  ro_adapterOverride :: "port_connector option"
  ro_isPlatformAdmin :: bool

record resolved_adapter =
  ra_adapter :: agent_adapter
  ra_connector :: connector_credential
  ra_context :: connector_context
  ra_format :: port_format

text \<open>The environment: connectors with their keys, and the setting of the override gate.\<close>

record ar_env =
  are_cc :: cc_env
  are_ivs :: "string \<Rightarrow> string"
  are_override :: json

definition overrideEnabled :: "json \<Rightarrow> bool" where
  "overrideEnabled configured = (configured = JBool True \<or> configured = JStr ''true'')"

definition resolveOverride :: "ar_env \<Rightarrow> resolve_options \<Rightarrow> call_error + port_connector option" where
  "resolveOverride env opts =
     (case ro_adapterOverride opts of
        None \<Rightarrow> Inr None
      | Some ct \<Rightarrow>
          if \<not> overrideEnabled (are_override env) then Inl (OtherErr (Forbidden ''Adapter override is disabled''))
          else if \<not> ro_isPlatformAdmin opts
          then Inl (OtherErr (Forbidden ''Adapter override requires the platform-admin role''))
          else Inr (Some ct))"

definition buildContext :: "ar_env \<Rightarrow> connector_credential \<Rightarrow> call_error + connector_context" where
  "buildContext env c =
     (case decrypt (ce_crypto (are_cc env)) (ce_keys (are_cc env)) (cc_credentialsEncrypted c) (cc_keyVersion c) of
        Inl e \<Rightarrow> Inl (OtherErr crypto_failure)
      | Inr secret \<Rightarrow> Inr \<lparr>ctx_connectorId = cc_id c, ctx_tenantId = cc_tenantId c, ctx_endpointUrl = cc_endpointUrl c,
                            ctx_credentials = secret\<rparr>)"

definition selectFormat :: "agent_adapter \<Rightarrow> port_format option \<Rightarrow> call_error + port_format" where
  "selectFormat a f =
     (case f of
        None \<Rightarrow> Inr (hd (aa_supportedFormats a))
      | Some pf \<Rightarrow>
          if pf \<in> set (aa_supportedFormats a) then Inr pf
          else Inl (AdapterErr (FormatNotSupportedError (port_format_str pf))))"

definition readDefaultConnector :: "string \<Rightarrow> db \<Rightarrow> call_error + string option" where
  "readDefaultConnector tenantId d =
     (case tns_findById tenantId d of
        Inl e \<Rightarrow> Inl (OtherErr e)
      | Inr t \<Rightarrow>
          Inr (case map_of (t_config t) ''default_connector'' of
                 Some (JStr s) \<Rightarrow> if s \<noteq> [] then Some s else None
               | _ \<Rightarrow> None))"

text \<open>Reading the connectors may re-encrypt them with the current key, so the database is passed on.\<close>

definition list_connectors :: "ar_env \<Rightarrow> time \<Rightarrow> string \<Rightarrow> db \<Rightarrow> (call_error + connector_credential list) \<times> db" where
  "list_connectors env now tenantId d =
     (case ccs_findByTenant (are_cc env) (are_ivs env) now tenantId d of
        (Inl e, d') \<Rightarrow> (Inl (OtherErr e), d')
      | (Inr cs, d') \<Rightarrow> (Inr cs, d'))"

definition unavailable :: "string \<Rightarrow> call_error" where
  "unavailable m = AdapterErr (ConnectorUnavailableError m)"

text \<open>\<open>dec\<close> prints the number of connectors in the message.\<close>

definition pick_sole ::
  "(nat \<Rightarrow> string) \<Rightarrow> string \<Rightarrow> port_connector option \<Rightarrow> connector_credential list \<Rightarrow> call_error + connector_credential" where
  "pick_sole dec tenantId ct cs =
     (case filter (\<lambda>c. cc_active c \<and> (case ct of None \<Rightarrow> True | Some t \<Rightarrow> toPortConnectorType (cc_connectorType c) = Some t)) cs of
        [] \<Rightarrow> Inl (unavailable (''Tenant '' @ quoted tenantId @ '' has no active connector'' @
               (case ct of None \<Rightarrow> [] | Some t \<Rightarrow> '' of type '' @ quoted (port_connector_str t))))
      | [c] \<Rightarrow> Inr c
      | xs \<Rightarrow> Inl (unavailable (''Tenant '' @ quoted tenantId @ '' has '' @ dec (length xs) @ '' active connectors'' @
               (case ct of
                  None \<Rightarrow> '' and no default_connector configured''
                | Some t \<Rightarrow> '' of type '' @ quoted (port_connector_str t)))))"

definition findSoleActiveConnector ::
  "(nat \<Rightarrow> string) \<Rightarrow> ar_env \<Rightarrow> time \<Rightarrow> string \<Rightarrow> port_connector option \<Rightarrow> db \<Rightarrow> (call_error + connector_credential) \<times> db" where
  "findSoleActiveConnector dec env now tenantId ct d =
     (case list_connectors env now tenantId d of
        (Inl e, d') \<Rightarrow> (Inl e, d')
      | (Inr cs, d') \<Rightarrow> (pick_sole dec tenantId ct cs, d'))"

definition pick_explicit :: "string \<Rightarrow> string \<Rightarrow> connector_credential list \<Rightarrow> call_error + connector_credential" where
  "pick_explicit tenantId cid cs =
     (case List.find (\<lambda>c. cc_id c = cid) cs of
        None \<Rightarrow> Inl (unavailable (''Connector '' @ quoted cid @ '' was not found for tenant '' @ quoted tenantId))
      | Some c \<Rightarrow>
          if cc_active c then Inr c else Inl (unavailable (''Connector '' @ quoted cid @ '' is not active'')))"

definition findConnector ::
  "(nat \<Rightarrow> string) \<Rightarrow> ar_env \<Rightarrow> time \<Rightarrow> string \<Rightarrow> string option \<Rightarrow> db \<Rightarrow> (call_error + connector_credential) \<times> db" where
  "findConnector dec env now tenantId connectorId d =
     (case (case connectorId of Some c \<Rightarrow> Inr (Some c) | None \<Rightarrow> readDefaultConnector tenantId d) of
        Inl e \<Rightarrow> (Inl e, d)
      | Inr explicitId \<Rightarrow>
          (case explicitId of
             None \<Rightarrow> findSoleActiveConnector dec env now tenantId None d
           | Some cid \<Rightarrow>
               if cid = [] then findSoleActiveConnector dec env now tenantId None d
               else (case list_connectors env now tenantId d of
                   (Inl e, d') \<Rightarrow> (Inl e, d')
                 | (Inr cs, d') \<Rightarrow> (pick_explicit tenantId cid cs, d'))))"

definition finish :: "ar_env \<Rightarrow> port_format option \<Rightarrow> agent_adapter \<Rightarrow> connector_credential \<Rightarrow> call_error + resolved_adapter" where
  "finish env f a c =
     (case buildContext env c of
        Inl e \<Rightarrow> Inl e
      | Inr ctx \<Rightarrow>
          (case selectFormat a f of
             Inl e \<Rightarrow> Inl e
           | Inr pf \<Rightarrow> Inr \<lparr>ra_adapter = a, ra_connector = c, ra_context = ctx, ra_format = pf\<rparr>))"

definition ar_resolve ::
  "(nat \<Rightarrow> string) \<Rightarrow> ar_env \<Rightarrow> adapter_map \<Rightarrow> time \<Rightarrow> string \<Rightarrow> port_format option \<Rightarrow> resolve_options \<Rightarrow> db
     \<Rightarrow> (call_error + resolved_adapter) \<times> db" where
  "ar_resolve dec env reg now tenantId f opts d =
     (case resolveOverride env opts of
        Inl e \<Rightarrow> (Inl e, d)
      | Inr (Some ct) \<Rightarrow>
          (case getByConnectorType ct reg of
             Inl e \<Rightarrow> (Inl e, d)
           | Inr a \<Rightarrow>
               (case findSoleActiveConnector dec env now tenantId (Some ct) d of
                  (Inl e, d') \<Rightarrow> (Inl e, d')
                | (Inr c, d') \<Rightarrow> (finish env f a c, d')))
      | Inr None \<Rightarrow>
          (case findConnector dec env now tenantId (ro_connectorId opts) d of
             (Inl e, d') \<Rightarrow> (Inl e, d')
           | (Inr c, d') \<Rightarrow>
               (case toPortConnectorType (cc_connectorType c) of
                  None \<Rightarrow> (Inl (unavailable (''Unknown connector type '' @ quoted (connector_type_str (cc_connectorType c)))), d')
                | Some ct \<Rightarrow>
                    (case getByConnectorType ct reg of
                       Inl e \<Rightarrow> (Inl e, d')
                     | Inr a \<Rightarrow> (finish env f a c, d')))))"

section \<open>What resolution guarantees\<close>

text \<open>Re-encryption changes neither identity nor owner, kind, address or activity of a connector.\<close>

definition same_connector :: "connector_credential \<Rightarrow> connector_credential \<Rightarrow> bool" where
  "same_connector c c' = (cc_id c = cc_id c' \<and> cc_tenantId c = cc_tenantId c' \<and> cc_connectorType c = cc_connectorType c'
     \<and> cc_endpointUrl c = cc_endpointUrl c' \<and> cc_active c = cc_active c')"

lemma lazyRotate_same: "lazyRotateKeyIfNeeded env iv now c d = Inr (c', d') \<Longrightarrow> same_connector c c'"
  by (auto simp: lazyRotateKeyIfNeeded_def same_connector_def split: sum.splits bool.split_asm)

lemma rotate_all_same: "rotate_all env ivs now cs d = (Inr cs', d') \<Longrightarrow> list_all2 same_connector cs cs'"
  by (induction env ivs now cs d arbitrary: cs' d' rule: rotate_all.induct)
    (auto split: sum.splits prod.splits dest: lazyRotate_same)

lemma list_connectors_own:
  assumes "list_connectors env now tenantId d = (Inr cs, d')" "c \<in> set cs"
  shows "\<exists>r\<in>set (connector_credentials d). cc_tenantId r = tenantId \<and> same_connector r c"
proof -
  have "list_all2 same_connector (cc_findWhere (\<lambda>c. cc_tenantId c = tenantId) d) cs"
  proof (rule rotate_all_same)
    show "rotate_all (are_cc env) (are_ivs env) now (cc_findWhere (\<lambda>c. cc_tenantId c = tenantId) d) d = (Inr cs, d')"
      using assms(1) unfolding list_connectors_def ccs_findByTenant_def by (simp split: prod.splits sum.splits)
  qed
  then obtain r where "r \<in> set (cc_findWhere (\<lambda>c. cc_tenantId c = tenantId) d)" "same_connector r c"
    using assms(2) by (metis in_set_conv_nth list_all2_conv_all_nth)
  then show ?thesis by (auto simp: cc_findWhere_def)
qed

lemma toPort_Some: "toPortConnectorType ct = Some pc \<longleftrightarrow> port_connector_str pc = connector_type_str ct"
  by (cases ct; cases pc) (simp_all add: toPortConnectorType_def)

lemma pick_sole_ok:
  assumes "pick_sole dec tenantId ct cs = Inr c"
  shows "c \<in> set cs \<and> cc_active c \<and> (\<forall>t. ct = Some t \<longrightarrow> toPortConnectorType (cc_connectorType c) = Some t)"
proof -
  let ?p = "\<lambda>c. cc_active c \<and> (case ct of None \<Rightarrow> True | Some t \<Rightarrow> toPortConnectorType (cc_connectorType c) = Some t)"
  have "filter ?p cs = [c]" using assms unfolding pick_sole_def by (auto split: list.splits)
  then have "c \<in> set (filter ?p cs)" by simp
  then show ?thesis by (auto split: option.splits)
qed

lemma pick_explicit_ok: "pick_explicit tenantId cid cs = Inr c \<Longrightarrow> c \<in> set cs \<and> cc_active c \<and> cc_id c = cid"
  by (auto simp: pick_explicit_def find_Some_iff split: option.splits if_splits)

definition own_active :: "string \<Rightarrow> connector_credential \<Rightarrow> db \<Rightarrow> bool" where
  "own_active tenantId c d = (\<exists>r\<in>set (connector_credentials d). cc_tenantId r = tenantId \<and> same_connector r c \<and> cc_active r)"

lemma own_activeI:
  "list_connectors env now tenantId d = (Inr cs, d') \<Longrightarrow> c \<in> set cs \<Longrightarrow> cc_active c \<Longrightarrow> own_active tenantId c d"
  using list_connectors_own by (fastforce simp: own_active_def same_connector_def)

lemma findSole_ok:
  assumes "findSoleActiveConnector dec env now tenantId ct d = (Inr c, d')"
  shows "own_active tenantId c d \<and> (\<forall>t. ct = Some t \<longrightarrow> toPortConnectorType (cc_connectorType c) = Some t)"
proof -
  obtain cs where "list_connectors env now tenantId d = (Inr cs, d')" "pick_sole dec tenantId ct cs = Inr c"
    using assms by (auto simp: findSoleActiveConnector_def split: sum.splits prod.splits)
  then show ?thesis using pick_sole_ok own_activeI by blast
qed

lemma findConnector_ok:
  assumes "findConnector dec env now tenantId cid d = (Inr c, d')"
  shows "own_active tenantId c d \<and> (\<forall>i. cid = Some i \<longrightarrow> i \<noteq> [] \<longrightarrow> cc_id c = i)"
proof -
  obtain e where e: "(case cid of Some c \<Rightarrow> Inr (Some c) | None \<Rightarrow> readDefaultConnector tenantId d) = Inr e"
    using assms by (auto simp: findConnector_def split: sum.splits)
  then have cid: "cid = Some i \<Longrightarrow> e = Some i" for i by (auto split: option.splits)
  show ?thesis
  proof (cases "e = None \<or> e = Some []")
    case True
    then have "findSoleActiveConnector dec env now tenantId None d = (Inr c, d')"
      using assms e by (auto simp: findConnector_def)
    then show ?thesis using findSole_ok True cid by fastforce
  next
    case False
    then obtain i cs where "e = Some i" "list_connectors env now tenantId d = (Inr cs, d')" "pick_explicit tenantId i cs = Inr c"
      using assms e by (auto simp: findConnector_def split: sum.splits prod.splits option.splits)
    then show ?thesis using pick_explicit_ok own_activeI cid by fastforce
  qed
qed

lemma finish_ok:
  "finish env f a c = Inr res \<Longrightarrow> ra_adapter res = a \<and> ra_connector res = c \<and> ctx_connectorId (ra_context res) = cc_id c
     \<and> ctx_tenantId (ra_context res) = cc_tenantId c \<and> ctx_endpointUrl (ra_context res) = cc_endpointUrl c
     \<and> selectFormat a f = Inr (ra_format res)"
  by (auto simp: finish_def buildContext_def split: sum.splits)

definition registered :: "agent_adapter list \<Rightarrow> adapter_map result" where
  "registered adapters = fold (\<lambda>a r. rbind r (ar_register a)) adapters (Ok [])"

lemma registered_ok:
  assumes "registered adapters = Ok reg" "map_of reg ct = Some a"
  shows "a \<in> set adapters \<and> aa_connectorType a = ct \<and> aa_supportedFormats a \<noteq> []"
  using assms
proof (induction adapters arbitrary: reg rule: rev_induct)
  case (snoc x xs)
  then obtain r0 where r0: "registered xs = Ok r0" "ar_register x r0 = Ok reg"
    by (auto simp: registered_def rbind_eq_Inr)
  then have "reg = r0 @ [(aa_connectorType x, x)]" "map_of r0 (aa_connectorType x) = None" "aa_supportedFormats x \<noteq> []"
    by (auto simp: ar_register_def Let_def split: if_splits)
  then show ?case using snoc.IH [OF r0(1)] snoc.prems(2) by (auto simp: map_add_def split: option.splits if_splits)
qed (simp add: registered_def)

lemma resolve_parts:
  assumes "ar_resolve dec env reg now tenantId f opts d = (Inr res, d')"
  shows "\<exists>ct c a. own_active tenantId c d \<and> toPortConnectorType (cc_connectorType c) = Some ct \<and> map_of reg ct = Some a
     \<and> finish env f a c = Inr res
     \<and> (case ro_adapterOverride opts of
          Some o_ct \<Rightarrow> overrideEnabled (are_override env) \<and> ro_isPlatformAdmin opts \<and> ct = o_ct
        | None \<Rightarrow> (case ro_connectorId opts of Some i \<Rightarrow> i \<noteq> [] \<longrightarrow> cc_id c = i | None \<Rightarrow> True))"
proof (cases "ro_adapterOverride opts")
  case (Some o_ct)
  then obtain a c where "overrideEnabled (are_override env)" "ro_isPlatformAdmin opts" "map_of reg o_ct = Some a"
    "findSoleActiveConnector dec env now tenantId (Some o_ct) d = (Inr c, d')" "finish env f a c = Inr res"
    using assms by (auto simp: ar_resolve_def resolveOverride_def getByConnectorType_def split: if_splits sum.splits prod.splits option.splits)
  then show ?thesis using findSole_ok Some by fastforce
next
  case None
  then obtain c ct a where "findConnector dec env now tenantId (ro_connectorId opts) d = (Inr c, d')"
    "toPortConnectorType (cc_connectorType c) = Some ct" "map_of reg ct = Some a" "finish env f a c = Inr res"
    using assms by (auto simp: ar_resolve_def resolveOverride_def getByConnectorType_def split: sum.splits prod.splits option.splits)
  then show ?thesis using findConnector_ok None by (fastforce split: option.split)
qed


definition demo_ar_env :: ar_env where
  "demo_ar_env = \<lparr>are_cc = demo_cc_env, are_ivs = (\<lambda>_. replicate 12 CHR ''i''), are_override = JUndef\<rparr>"

definition demo_credo :: agent_adapter where
  "demo_credo = TractionAdapter\<lparr>aa_connectorType := PC_Credo, aa_supportedFormats := [PF_SdJwtVc, PF_AnonCreds],
     aa_acceptOffer := (\<lambda>ctx i. Inr \<lparr>ce_state = EX_Done, ce_fields = []\<rparr>), aa_rejectOffer := (\<lambda>ctx i. Inr ()),
     aa_revoke := (\<lambda>ctx i. Inr \<lparr>rr_revoked = True, rr_revokedAt = None, rr_error = None, rr_fields = []\<rparr>)\<rparr>"

definition no_options :: resolve_options where
  "no_options = \<lparr>ro_connectorId = None, ro_adapterOverride = None, ro_isPlatformAdmin = False\<rparr>"

definition demo_adapters :: adapter_map where
  "demo_adapters = [(PC_Traction, TractionAdapter), (PC_Credo, demo_credo)]"

definition demo_ar_db :: db where
  "demo_ar_db = demo_cc_db\<lparr>connector_credentials := [demo_cc\<lparr>cc_keyVersion := 2\<rparr>]\<rparr>"


section \<open>TractionTokenManager\<close>

definition EXPIRY_SAFETY_MARGIN_MS :: int where
  "EXPIRY_SAFETY_MARGIN_MS = 30000"

record cached_token =
  ctk_token :: string
  ctk_expiresAtMs :: rat

text \<open>What the manager calls: the screened network, the token request (URL and API key), and \<^verbatim>\<open>decodeJwt\<close> with the
  \<^verbatim>\<open>exp\<close> claim it finds.\<close>

record token_env =
  te_net :: net_lib
  te_request :: "string \<Rightarrow> string \<Rightarrow> call_error + string"
  te_exp :: "string \<Rightarrow> rat option"

definition readCredentials :: "connector_context \<Rightarrow> call_error + (string \<times> string)" where
  "readCredentials ctx =
     (let creds = ctx_credentials ctx; who = ''Connector '' @ quoted (ctx_connectorId ctx) in
      if cred_apiKey creds = [] then Inl (unavailable (who @ '' is missing its apiKey credential''))
      else (case cred_tractionTenantId creds of
          None \<Rightarrow> Inl (unavailable (who @ '' is missing its tractionTenantId credential''))
        | Some t \<Rightarrow>
            if t = [] then Inl (unavailable (who @ '' is missing its tractionTenantId credential''))
            else Inr (cred_apiKey creds, t)))"

definition readExpiry :: "token_env \<Rightarrow> time \<Rightarrow> string \<Rightarrow> rat" where
  "readExpiry te now token = (case te_exp te token of None \<Rightarrow> of_int now | Some e \<Rightarrow> e * 1000)"

definition cache_set :: "string \<Rightarrow> cached_token \<Rightarrow> (string \<times> cached_token) list \<Rightarrow> (string \<times> cached_token) list" where
  "cache_set k v cache = (k, v) # filter (\<lambda>p. fst p \<noteq> k) cache"

text \<open>\<open>now'\<close> is the clock after the request.\<close>

definition getToken ::
  "token_env \<Rightarrow> time \<Rightarrow> time \<Rightarrow> connector_context \<Rightarrow> (string \<times> cached_token) list
     \<Rightarrow> (call_error + string) \<times> (string \<times> cached_token) list" where
  "getToken te now now' ctx cache =
     (let fresh = (case map_of cache (ctx_connectorId ctx) of
                     None \<Rightarrow> None
                   | Some c \<Rightarrow> if ctk_expiresAtMs c > of_int (now + EXPIRY_SAFETY_MARGIN_MS) then Some (ctk_token c) else None)
      in case fresh of
           Some t \<Rightarrow> (Inr t, cache)
         | None \<Rightarrow>
             (case readCredentials ctx of
                Inl e \<Rightarrow> (Inl e, cache)
              | Inr (apiKey, tractionTenantId) \<Rightarrow>
                  (case assertSafeConnectorUrl (te_net te) (ctx_endpointUrl ctx) of
                     Inl e \<Rightarrow> (Inl (OtherErr e), cache)
                   | Inr _ \<Rightarrow>
                       (case te_request te (buildTractionTokenUrl (ctx_endpointUrl ctx) tractionTenantId) apiKey of
                          Inl e \<Rightarrow> (Inl e, cache)
                        | Inr token \<Rightarrow>
                            (Inr token, cache_set (ctx_connectorId ctx)
                               \<lparr>ctk_token = token, ctk_expiresAtMs = readExpiry te now' token\<rparr> cache)))))"

text \<open>\<^verbatim>\<open>isRetryableError\<close>: \<open>None\<close> for an error that is not axios's, \<open>Some None\<close> for one without a response.\<close>

definition isRetryableError :: "nat option option \<Rightarrow> bool" where
  "isRetryableError e =
     (case e of
        None \<Rightarrow> False
      | Some None \<Rightarrow> True
      | Some (Some status) \<Rightarrow> status = 429 \<or> (500 \<le> status \<and> status < 600))"

text \<open>Calls in sequence; each token of the cache was obtained for its connector.\<close>

fun token_run ::
  "token_env \<Rightarrow> (time \<times> time \<times> connector_context) list \<Rightarrow> (string \<times> cached_token) list
     \<Rightarrow> (call_error + string) list \<times> (string \<times> cached_token) list" where
  "token_run te [] cache = ([], cache)"
| "token_run te ((now, now', ctx) # calls) cache =
     (let (r, cache') = getToken te now now' ctx cache; (rs, cache'') = token_run te calls cache' in (r # rs, cache''))"

definition obtained :: "token_env \<Rightarrow> connector_context \<Rightarrow> string \<Rightarrow> bool" where
  "obtained te ctx token =
     (\<exists>t. readCredentials ctx = Inr (cred_apiKey (ctx_credentials ctx), t) \<and> assertSafeConnectorUrl (te_net te) (ctx_endpointUrl ctx) = Ok ()
        \<and> te_request te (buildTractionTokenUrl (ctx_endpointUrl ctx) t) (cred_apiKey (ctx_credentials ctx)) = Inr token)"

definition cache_ok :: "token_env \<Rightarrow> (time \<times> time \<times> connector_context) list \<Rightarrow> (string \<times> cached_token) list \<Rightarrow> bool" where
  "cache_ok te calls cache =
     (\<forall>k c. map_of cache k = Some c \<longrightarrow> (\<exists>n n' ctx. (n, n', ctx) \<in> set calls \<and> ctx_connectorId ctx = k
        \<and> obtained te ctx (ctk_token c) \<and> ctk_expiresAtMs c = readExpiry te n' (ctk_token c)))"

lemma map_of_cache_set: "map_of (cache_set k v cache) k' = (if k' = k then Some v else map_of cache k')"
proof -
  have "map_of (filter (\<lambda>p. fst p \<noteq> k) cache) k' = (if k' = k then None else map_of cache k')"
    by (induction cache) auto
  then show ?thesis by (simp add: cache_set_def)
qed

lemma getToken_cases:
  assumes "getToken te now now' ctx cache = (Inr token, cache')"
  shows "cache' = cache \<and> (\<exists>c. map_of cache (ctx_connectorId ctx) = Some c \<and> ctk_token c = token
             \<and> ctk_expiresAtMs c > of_int (now + EXPIRY_SAFETY_MARGIN_MS))
     \<or> obtained te ctx token
         \<and> cache' = cache_set (ctx_connectorId ctx) \<lparr>ctk_token = token, ctk_expiresAtMs = readExpiry te now' token\<rparr> cache"
proof (cases "\<exists>c. map_of cache (ctx_connectorId ctx) = Some c \<and> ctk_expiresAtMs c > of_int (now + EXPIRY_SAFETY_MARGIN_MS)")
  case True
  then show ?thesis using assms by (auto simp: getToken_def Let_def)
next
  case False
  then have "(case map_of cache (ctx_connectorId ctx) of None \<Rightarrow> None
      | Some c \<Rightarrow> if ctk_expiresAtMs c > of_int (now + EXPIRY_SAFETY_MARGIN_MS) then Some (ctk_token c) else None) = None"
    by (auto split: option.split)
  then show ?thesis using assms unfolding getToken_def Let_def
    by (auto simp: obtained_def readCredentials_def Let_def split: sum.splits if_splits option.splits)
qed

lemma getToken_error_cache: "getToken te now now' ctx cache = (Inl e, cache') \<Longrightarrow> cache' = cache"
  unfolding getToken_def Let_def by (auto split: option.splits if_splits sum.splits prod.splits)

lemma getToken_cache_ok:
  assumes "cache_ok te calls cache" "getToken te now now' ctx cache = (r, cache')"
  shows "cache_ok te (calls @ [(now, now', ctx)]) cache'"
proof -
  have more_calls: "cache_ok te (calls @ [(now, now', ctx)]) cache" using assms(1) by (fastforce simp: cache_ok_def)
  show ?thesis
  proof (cases r)
    case (Inl e)
    then show ?thesis using assms(2) more_calls getToken_error_cache [of te now now' ctx cache e cache'] by simp
  next
    case (Inr token)
    then show ?thesis using getToken_cases [of te now now' ctx cache token cache'] assms(2) more_calls
      by (auto simp: cache_ok_def map_of_cache_set split: if_split_asm) blast
  qed
qed

lemma token_run_cache_ok:
  "cache_ok te calls0 cache0 \<Longrightarrow> token_run te calls cache0 = (rs, cache) \<Longrightarrow> cache_ok te (calls0 @ calls) cache"
proof (induction te calls cache0 arbitrary: calls0 rs cache rule: token_run.induct)
  case (2 te now now' ctx calls cache0)
  obtain r c1 where g: "getToken te now now' ctx cache0 = (r, c1)" by force
  obtain rs' where "token_run te calls c1 = (rs', cache)" using 2(3) g by (auto split: prod.splits)
  then show ?case using 2(1) [OF g [symmetric] refl getToken_cache_ok [OF 2(2) g], of rs' cache] by simp
qed simp

text \<open>The token manager after any sequence of calls on an empty cache, the clock not running backwards: a token it
  hands out for a connector was obtained with the endpoint and the credentials of a call for that same connector,
  over a URL that passed the outbound screening; and a token that was not obtained by this very call has an expiry
  more than thirty seconds ahead. A token without a readable expiry is never handed out twice.\<close>

theorem token_manager_sound:
  assumes "token_run te calls [] = (rs, cache)" "getToken te now now' ctx cache = (Inr token, cache')"
    and "list_all (\<lambda>(n, n', c). n' \<le> now) calls"
  shows "obtained te ctx token
     \<or> (\<exists>n n' c e. (n, n', c) \<in> set calls \<and> ctx_connectorId c = ctx_connectorId ctx \<and> obtained te c token
          \<and> te_exp te token = Some e \<and> e * 1000 > of_int (now + EXPIRY_SAFETY_MARGIN_MS))"
proof (rule ccontr)
  assume no: "\<not> ?thesis"
  have "cache_ok te [] []" by (simp add: cache_ok_def)
  from token_run_cache_ok [OF this assms(1)] have ok: "cache_ok te calls cache" by simp
  obtain c where c: "map_of cache (ctx_connectorId ctx) = Some c" "ctk_token c = token"
    "ctk_expiresAtMs c > of_int (now + EXPIRY_SAFETY_MARGIN_MS)"
    using getToken_cases [OF assms(2)] no by blast
  then obtain n n' ctx' where u: "(n, n', ctx') \<in> set calls" "ctx_connectorId ctx' = ctx_connectorId ctx" "obtained te ctx' token"
    "ctk_expiresAtMs c = readExpiry te n' token" using ok unfolding cache_ok_def by blast
  show False
  proof (cases "te_exp te token")
    case None
    then have "n' > now + EXPIRY_SAFETY_MARGIN_MS" using u(4) c(3) unfolding readExpiry_def by (simp only: option.case of_int_less_iff)
    moreover have "n' \<le> now" using assms(3) u(1) by (auto simp: list_all_iff)
    ultimately show False by (simp add: EXPIRY_SAFETY_MARGIN_MS_def)
  next
    case (Some e)
    then show False using no u c(3) by (auto simp: readExpiry_def)
  qed
qed

theorem token_manager_sound_witness:
  "getToken \<lparr>te_net = demo_netlib, te_request = (\<lambda>url key. Inr ''tok''), te_exp = (\<lambda>t. Some 100)\<rparr> 1000 1000
     \<lparr>ctx_connectorId = ''c'', ctx_tenantId = ''t1'', ctx_endpointUrl = ''https://agent.x'',
      ctx_credentials = \<lparr>cred_apiKey = ''k'', cred_tractionTenantId = Some ''w''\<rparr>\<rparr> []
   = (Inr ''tok'', [(''c'', \<lparr>ctk_token = ''tok'', ctk_expiresAtMs = 100000\<rparr>)])
   \<and> obtained \<lparr>te_net = demo_netlib, te_request = (\<lambda>url key. Inr ''tok''), te_exp = (\<lambda>t. Some 100)\<rparr>
     \<lparr>ctx_connectorId = ''c'', ctx_tenantId = ''t1'', ctx_endpointUrl = ''https://agent.x'',
      ctx_credentials = \<lparr>cred_apiKey = ''k'', cred_tractionTenantId = Some ''w''\<rparr>\<rparr> ''tok''"
proof -
  let ?te = "\<lparr>te_net = demo_netlib, te_request = (\<lambda>url key. Inr ''tok''), te_exp = (\<lambda>t. Some 100)\<rparr>"
  let ?ctx = "\<lparr>ctx_connectorId = ''c'', ctx_tenantId = ''t1'', ctx_endpointUrl = ''https://agent.x'',
      ctx_credentials = \<lparr>cred_apiKey = ''k'', cred_tractionTenantId = Some ''w''\<rparr>\<rparr>"
  have g: "getToken ?te 1000 1000 ?ctx [] = (Inr ''tok'', [(''c'', \<lparr>ctk_token = ''tok'', ctk_expiresAtMs = 100000\<rparr>)])"
    by (simp add: getToken_def readCredentials_def demo_url_safe readExpiry_def cache_set_def Let_def)
  have run: "token_run ?te [] [] = ([], [])" by simp
  from token_manager_sound [OF run g] show ?thesis using g by simp
qed

end
