(* ===== verification/Purge.thy ===== *)
theory Purge
  imports Prelude
begin

text \<open>
  The clean-up loop the purge jobs share: bounded batches of expired rows are deleted, oldest first, until a
  batch comes back empty or the cap on batches per run is reached.
\<close>

section \<open>A batch\<close>

text \<open>\<^verbatim>\<open>DELETE ... WHERE id IN (SELECT id ... WHERE expired ORDER BY expires_at LIMIT n)\<close>.\<close>

definition delete_oldest ::
  "('r \<Rightarrow> 'i) \<Rightarrow> ('r \<Rightarrow> 'k::linorder) \<Rightarrow> ('r \<Rightarrow> bool) \<Rightarrow> nat \<Rightarrow> 'r list \<Rightarrow> nat \<times> 'r list" where
  "delete_oldest key age expired n rows =
     (let victims = map key (take n (sort_key age (filter expired rows)))
      in (length (filter (\<lambda>r. key r \<in> set victims) rows), filter (\<lambda>r. key r \<notin> set victims) rows))"

lemma key_in_victims:
  assumes "distinct (map key rows)" "r \<in> set rows" "vs = take n (sort_key age (filter expired rows))"
  shows "key r \<in> key ` set vs \<longleftrightarrow> r \<in> set vs"
proof
  assume "key r \<in> key ` set vs"
  then obtain v where v: "v \<in> set vs" "key v = key r" by auto
  have "v \<in> set rows" using v(1) assms(3) in_set_takeD by fastforce
  then show "r \<in> set vs" using v assms(1,2) by (metis inj_onD distinct_map)
qed simp

lemma delete_oldest_count:
  fixes age :: "'r \<Rightarrow> 'k::linorder"
  assumes "distinct (map key rows)"
  shows "fst (delete_oldest key age expired n rows) = min n (length (filter expired rows))"
    and "length (filter expired (snd (delete_oldest key age expired n rows))) = length (filter expired rows) - n"
    and "filter (\<lambda>r. \<not> expired r) (snd (delete_oldest key age expired n rows)) = filter (\<lambda>r. \<not> expired r) rows"
proof -
  define vs where "vs = take n (sort_key age (filter expired rows))"
  have sub: "set vs \<subseteq> set (filter expired rows)" using set_take_subset by (fastforce simp: vs_def)
  have dist: "distinct rows" "distinct vs"
    using assms by (auto simp: vs_def distinct_map intro!: distinct_take)
  have key: "filter (\<lambda>r. key r \<in> key ` set vs) rows = filter (\<lambda>r. r \<in> set vs) rows"
    "filter (\<lambda>r. key r \<notin> key ` set vs) rows = filter (\<lambda>r. r \<notin> set vs) rows"
    using key_in_victims [OF assms _ vs_def] by (auto intro!: filter_cong)
  have len: "length vs = min n (length (filter expired rows))" by (simp add: vs_def min.commute)
  have "length (filter (\<lambda>r. r \<in> set vs) rows) = card (set vs)"
    using sub dist(1) by (subst distinct_card [symmetric]) (auto intro!: arg_cong [where f = card])
  then show c: "fst (delete_oldest key age expired n rows) = min n (length (filter expired rows))"
    using len dist(2) by (simp add: delete_oldest_def Let_def key distinct_card flip: vs_def)
  show "filter (\<lambda>r. \<not> expired r) (snd (delete_oldest key age expired n rows)) = filter (\<lambda>r. \<not> expired r) rows"
    using sub by (auto simp: delete_oldest_def Let_def key simp flip: vs_def intro!: filter_cong)
  have "filter expired (filter (\<lambda>r. r \<notin> set vs) rows) = filter (\<lambda>r. r \<notin> set vs) (filter expired rows)"
    by (auto intro!: filter_cong)
  moreover have "length (filter (\<lambda>r. r \<notin> set vs) (filter expired rows)) = card (set (filter expired rows) - set vs)"
    using dist(1) by (subst distinct_card [symmetric]) (auto intro!: arg_cong [where f = card])
  moreover have "card (set (filter expired rows) - set vs) = length (filter expired rows) - length vs"
    using sub dist distinct_card [of "filter expired rows"] distinct_card [OF dist(2)]
    by (simp add: card_Diff_subset del: set_filter)
  ultimately show "length (filter expired (snd (delete_oldest key age expired n rows))) = length (filter expired rows) - n"
    using len by (simp add: delete_oldest_def Let_def key flip: vs_def)
qed

lemma delete_oldest_sub: "set (snd (delete_oldest key age expired n rows)) \<subseteq> set rows"
  by (auto simp: delete_oldest_def Let_def)

lemma delete_oldest_keys: "distinct (map key rows) \<Longrightarrow> distinct (map key (snd (delete_oldest key age expired n rows)))"
  by (simp add: delete_oldest_def Let_def distinct_map_filter)

section \<open>The loop\<close>

text \<open>\<^verbatim>\<open>do { ... } while (batchCount > 0 && batches < MAX_BATCHES_PER_RUN)\<close>; the first argument is the number of
  batches still allowed.\<close>

fun purge_run :: "nat \<Rightarrow> ('s \<Rightarrow> nat \<times> 's) \<Rightarrow> 's \<Rightarrow> nat \<times> 's" where
  "purge_run 0 batch s = (0, s)"
| "purge_run (Suc left) batch s =
     (let (count, s1) = batch s in
      if count > 0 \<and> left > 0 then let (total, s2) = purge_run left batch s1 in (count + total, s2)
      else (count, s1))"

locale expiring_store =
  fixes rows :: "'s \<Rightarrow> 'r list"
    and expired :: "'r \<Rightarrow> bool"
    and batch :: "'s \<Rightarrow> nat \<times> 's"
    and size_limit :: nat
    and inv :: "'s \<Rightarrow> bool"
  assumes batch_count: "inv s \<Longrightarrow> fst (batch s) = min size_limit (length (filter expired (rows s)))"
    and batch_left: "inv s \<Longrightarrow> length (filter expired (rows (snd (batch s)))) = length (filter expired (rows s)) - size_limit"
    and batch_keeps: "inv s \<Longrightarrow> filter (\<lambda>r. \<not> expired r) (rows (snd (batch s))) = filter (\<lambda>r. \<not> expired r) (rows s)"
    and batch_inv: "inv s \<Longrightarrow> inv (snd (batch s))"
begin

lemma purge_run_exact:
  "inv s \<Longrightarrow> inv (snd (purge_run n batch s))
     \<and> fst (purge_run n batch s) = min (n * size_limit) (length (filter expired (rows s)))
     \<and> length (filter expired (rows (snd (purge_run n batch s)))) = length (filter expired (rows s)) - n * size_limit
     \<and> filter (\<lambda>r. \<not> expired r) (rows (snd (purge_run n batch s))) = filter (\<lambda>r. \<not> expired r) (rows s)"
proof (induction n arbitrary: s)
  case (Suc n)
  obtain c s1 where b: "batch s = (c, s1)" by (cases "batch s")
  let ?E = "length (filter expired (rows s))"
  have c: "c = min size_limit ?E" "length (filter expired (rows s1)) = ?E - size_limit" "inv s1"
    "filter (\<lambda>r. \<not> expired r) (rows s1) = filter (\<lambda>r. \<not> expired r) (rows s)"
    using batch_count [OF Suc.prems] batch_left [OF Suc.prems] batch_inv [OF Suc.prems] batch_keeps [OF Suc.prems] b
    by auto
  obtain t s2 where r: "purge_run n batch s1 = (t, s2)" by (cases "purge_run n batch s1")
  show ?case
  proof (cases "c > 0 \<and> n > 0")
    case True
    then show ?thesis using Suc.IH [OF c(3)] r c b by auto
  next
    case False
    then have p: "purge_run (Suc n) batch s = (c, s1)" using b by auto
    have "c = 0 \<Longrightarrow> size_limit = 0 \<or> ?E = 0" using c(1) by linarith
    then have "c = min (Suc n * size_limit) ?E \<and> ?E - size_limit = ?E - Suc n * size_limit"
      using False c(1) by (cases "n = 0") auto
    then show ?thesis unfolding p using c by simp
  qed
qed simp

text \<open>A backlog within the capacity of a run is gone after it.\<close>

lemma purge_run_drains:
  assumes "inv s" "length (filter expired (rows s)) \<le> n * size_limit"
  shows "rows (snd (purge_run n batch s)) = filter (\<lambda>r. \<not> expired r) (rows s)"
proof -
  note ex = purge_run_exact [OF assms(1), of n]
  have "filter expired (rows (snd (purge_run n batch s))) = []" using ex assms(2) by auto
  then have "filter (\<lambda>r. \<not> expired r) (rows (snd (purge_run n batch s))) = rows (snd (purge_run n batch s))"
    by (auto simp: filter_empty_conv filter_id_conv)
  then show ?thesis using ex by metis
qed

end

end
