(* ===== verification/Operation.thy ===== *)
theory Operation
  imports Tenant Purge
begin

text \<open>
  \<^verbatim>\<open>operation\<close>: the expiry rules with their per-tenant overrides, the repository and service of asynchronous
  operations, and the hourly purge.
\<close>

section \<open>operation-ttl.util\<close>

definition HOUR_MS :: rat where
  "HOUR_MS = 60 * 60 * 1000"

definition DAY_MS :: rat where
  "DAY_MS = 24 * HOUR_MS"

datatype ttl_key = CompletedViewed | CompletedUnviewed | FailedViewed | FailedUnviewed | PendingStale

fun DEFAULT_OPERATION_TTL_MS :: "ttl_key \<Rightarrow> rat" where
  "DEFAULT_OPERATION_TTL_MS CompletedViewed = 1 * HOUR_MS"
| "DEFAULT_OPERATION_TTL_MS CompletedUnviewed = 72 * HOUR_MS"
| "DEFAULT_OPERATION_TTL_MS FailedViewed = 24 * HOUR_MS"
| "DEFAULT_OPERATION_TTL_MS FailedUnviewed = 7 * DAY_MS"
| "DEFAULT_OPERATION_TTL_MS PendingStale = 24 * HOUR_MS"

definition DEFAULT_CREATED_TTL_MS :: rat where
  "DEFAULT_CREATED_TTL_MS = 72 * HOUR_MS"

fun CONFIG_KEY_MAP :: "ttl_key \<Rightarrow> string" where
  "CONFIG_KEY_MAP CompletedViewed = ''completed_viewed''"
| "CONFIG_KEY_MAP CompletedUnviewed = ''completed_unviewed''"
| "CONFIG_KEY_MAP FailedViewed = ''failed_viewed''"
| "CONFIG_KEY_MAP FailedUnviewed = ''failed_unviewed''"
| "CONFIG_KEY_MAP PendingStale = ''pending_stale''"

definition UNIT_TO_MS :: "string \<Rightarrow> rat option" where
  "UNIT_TO_MS u =
     map_of [(''ms'', 1), (''s'', 1000), (''m'', 60 * 1000), (''h'', HOUR_MS), (''d'', DAY_MS)] u"

text \<open>\<^verbatim>\<open>DURATION_PATTERN\<close>: digits, an optional fraction, a unit in any case.\<close>

definition duration_match :: "string \<Rightarrow> (string \<times> string \<times> string) option" where
  "duration_match s =
     (let whole = takeWhile is_digit s;
          rest = dropWhile is_digit s;
          fdigits = (case rest of c # r \<Rightarrow> if c = CHR ''.'' then takeWhile is_digit r else [] | [] \<Rightarrow> []);
          unit_str = (case rest of c # r \<Rightarrow> if c = CHR ''.'' \<and> fdigits \<noteq> [] then dropWhile is_digit r else rest | [] \<Rightarrow> [])
      in if whole \<noteq> [] \<and> to_lower unit_str \<in> {''ms'', ''s'', ''m'', ''h'', ''d''} then Some (whole, fdigits, unit_str) else None)"

definition digit_val :: "char \<Rightarrow> nat" where
  "digit_val c = of_char c - 48"

definition digits_val :: "string \<Rightarrow> nat" where
  "digits_val ds = foldl (\<lambda>n c. 10 * n + digit_val c) 0 ds"

text \<open>\<^verbatim>\<open>parseFloat\<close> on digits with an optional fraction, without the rounding of doubles; the decimals that
  round to \<^verbatim>\<open>Infinity\<close> are the ones from \<open>DOUBLE_OVERFLOW\<close> on.\<close>

definition DOUBLE_OVERFLOW :: rat where
  "DOUBLE_OVERFLOW = 2 ^ 1024 - 2 ^ 970"

definition decimal_val :: "string \<Rightarrow> string \<Rightarrow> rat" where
  "decimal_val whole fdigits = of_nat (digits_val whole) + of_nat (digits_val fdigits) / 10 ^ length fdigits"

definition parseDurationMs :: "json \<Rightarrow> rat option" where
  "parseDurationMs v =
     (case v of
        JNum n \<Rightarrow> if n > 0 then Some n else None
      | JStr s \<Rightarrow>
          (case duration_match (js_trim s) of
             None \<Rightarrow> None
           | Some (whole, fdigits, unit_str) \<Rightarrow>
               let amount = decimal_val whole fdigits in
               (case UNIT_TO_MS (to_lower unit_str) of
                  None \<Rightarrow> None
                | Some multiplier \<Rightarrow> if amount \<ge> DOUBLE_OVERFLOW \<or> amount \<le> 0 then None else Some (amount * multiplier)))
      | _ \<Rightarrow> None)"

definition resolveOperationTtlMs :: "(string \<times> json) list \<Rightarrow> ttl_key \<Rightarrow> rat" where
  "resolveOperationTtlMs config key =
     (let rawValue = jget (jget (JObj config) ''operation_ttl'') (CONFIG_KEY_MAP key) in
      case (if rawValue = JUndef then None else parseDurationMs rawValue) of
        None \<Rightarrow> DEFAULT_OPERATION_TTL_MS key
      | Some ms \<Rightarrow> ms)"

fun isTerminalOperationState :: "operation_state \<Rightarrow> bool" where
  "isTerminalOperationState OP_COMPLETED = True"
| "isTerminalOperationState OP_FAILED = True"
| "isTerminalOperationState _ = False"

text \<open>\<^verbatim>\<open>new Date(ms)\<close>: a fraction is cut, a value out of range is an invalid date.\<close>

definition js_new_Date :: "rat \<Rightarrow> time option" where
  "js_new_Date x =
     (if abs x > 8640000000000000 then None else Some (if x \<ge> 0 then \<lfloor>x\<rfloor> else \<lceil>x\<rceil>))"

definition computeOperationExpiresAt ::
  "operation_state \<Rightarrow> time \<Rightarrow> time option \<Rightarrow> (string \<times> json) list \<Rightarrow> time option" where
  "computeOperationExpiresAt state createdAt viewedAt config =
     (let ttl = resolveOperationTtlMs config in
      case state of
        OP_PENDING \<Rightarrow> js_new_Date (of_int createdAt + ttl PendingStale)
      | OP_PROCESSING \<Rightarrow> js_new_Date (of_int createdAt + DEFAULT_CREATED_TTL_MS)
      | OP_COMPLETED \<Rightarrow>
          (case viewedAt of
             Some v \<Rightarrow> js_new_Date (of_int v + ttl CompletedViewed)
           | None \<Rightarrow> js_new_Date (of_int createdAt + ttl CompletedUnviewed))
      | OP_FAILED \<Rightarrow>
          (case viewedAt of
             Some v \<Rightarrow> js_new_Date (of_int v + ttl FailedViewed)
           | None \<Rightarrow> js_new_Date (of_int createdAt + ttl FailedUnviewed)))"

section \<open>OperationRepository\<close>

definition op_save :: "time \<Rightarrow> operation \<Rightarrow> db \<Rightarrow> operation \<times> db" where
  "op_save now x d =
     (let x' = x\<lparr>op_updatedAt := now\<rparr> in (x', d\<lparr>operations := tbl_save op_id x' (operations d)\<rparr>))"

definition op_findById :: "string \<Rightarrow> db \<Rightarrow> operation option" where
  "op_findById i d = tbl_find op_id i (operations d)"

definition op_findByIdForTenant :: "string \<Rightarrow> string \<Rightarrow> db \<Rightarrow> operation option" where
  "op_findByIdForTenant i tenantId d = List.find (\<lambda>x. op_id x = i \<and> op_tenantId x = tenantId) (operations d)"

definition markFirstView :: "string \<Rightarrow> time \<Rightarrow> time \<Rightarrow> db \<Rightarrow> (time \<times> time) option \<times> db" where
  "markFirstView i viewedAt expiresAt d =
     (if list_ex (\<lambda>x. op_id x = i \<and> op_viewedAt x = None) (operations d)
      then (Some (viewedAt, expiresAt),
            d\<lparr>operations := tbl_update (\<lambda>x. op_id x = i \<and> op_viewedAt x = None)
                (\<lambda>x. x\<lparr>op_viewedAt := Some viewedAt, op_expiresAt := expiresAt\<rparr>) (operations d)\<rparr>)
      else (None, d))"

definition op_updateState :: "time \<Rightarrow> string \<Rightarrow> operation_state \<Rightarrow> time option \<Rightarrow> db \<Rightarrow> db" where
  "op_updateState now i state expiresAt d =
     d\<lparr>operations := tbl_update (\<lambda>x. op_id x = i)
         (\<lambda>x. x\<lparr>op_state := state, op_updatedAt := now,
                op_expiresAt := (case expiresAt of None \<Rightarrow> op_expiresAt x | Some e \<Rightarrow> e)\<rparr>) (operations d)\<rparr>"

definition op_updateResult :: "time \<Rightarrow> string \<Rightarrow> json \<Rightarrow> operation_state option \<Rightarrow> db \<Rightarrow> db" where
  "op_updateResult now i res state d =
     d\<lparr>operations := tbl_update (\<lambda>x. op_id x = i)
         (\<lambda>x. x\<lparr>op_result := Some res, op_updatedAt := now,
                op_state := (case state of None \<Rightarrow> op_state x | Some st \<Rightarrow> st)\<rparr>) (operations d)\<rparr>"

definition op_findByExternalId :: "string \<Rightarrow> db \<Rightarrow> operation option" where
  "op_findByExternalId e d = List.find (\<lambda>x. op_externalId x = Some e) (operations d)"

record op_filters =
  of_tenantId :: string
  of_state :: "operation_state option"
  of_type :: "string option"
  of_batchId :: "string option option"
  of_limit :: "nat option"
  of_cursor :: "time option"

definition findByTenantWithFilters :: "op_filters \<Rightarrow> db \<Rightarrow> operation list" where
  "findByTenantWithFilters f d =
     take (case of_limit f of None \<Rightarrow> 20 | Some l \<Rightarrow> l)
       (sort_key (\<lambda>x. Desc (op_createdAt x))
         (filter (\<lambda>x. op_tenantId x = of_tenantId f
             \<and> (case of_state f of None \<Rightarrow> True | Some s \<Rightarrow> op_state x = s)
             \<and> (case of_type f of None \<Rightarrow> True | Some s \<Rightarrow> op_type x = s)
             \<and> (case of_batchId f of None \<Rightarrow> True | Some b \<Rightarrow> op_batchId x = b)
             \<and> (case of_cursor f of None \<Rightarrow> True | Some c \<Rightarrow> op_createdAt x < from_js_date c)) (operations d)))"

definition countByBatchGroupedByState :: "string \<Rightarrow> db \<Rightarrow> operation_state \<Rightarrow> nat" where
  "countByBatchGroupedByState b d st =
     length (filter (\<lambda>x. op_batchId x = Some b \<and> op_state x = st) (operations d))"

definition op_expired :: "time \<Rightarrow> operation \<Rightarrow> bool" where
  "op_expired now x = (op_expiresAt x < now)"

definition op_purgeExpiredBatch :: "time \<Rightarrow> nat \<Rightarrow> db \<Rightarrow> nat \<times> db" where
  "op_purgeExpiredBatch now limit d =
     (let (count, rows) = delete_oldest op_id op_expiresAt (op_expired now) (max 1 limit) (operations d)
      in (count, d\<lparr>operations := rows\<rparr>))"

definition op_getStats :: "db \<Rightarrow> (operation_state \<Rightarrow> nat) \<times> nat \<times> micros option" where
  "op_getStats d =
     (let counts = (\<lambda>st. length (filter (\<lambda>x. op_state x = st) (operations d)))
      in (counts,
          sum_list (map counts [OP_PENDING, OP_PROCESSING, OP_COMPLETED, OP_FAILED]),
          (case sort_key op_createdAt (filter (\<lambda>x. op_state x = OP_PENDING) (operations d)) of
             [] \<Rightarrow> None | x # _ \<Rightarrow> Some (op_createdAt x))))"

section \<open>OperationService\<close>

record create_op_input =
  ci_tenantId :: string
  ci_type :: string
  ci_request :: "(string \<times> json) list"
  ci_batchId :: "string option"
  ci_externalId :: "string option"

text \<open>\<open>created\<close> is the time the database stamps on the row, \<open>now\<close> the clock of the program.\<close>

definition createOperation :: "string \<Rightarrow> micros \<Rightarrow> time \<Rightarrow> create_op_input \<Rightarrow> db \<Rightarrow> (operation \<times> db) result" where
  "createOperation newid created now inp d =
     rbind (tns_findById (ci_tenantId inp) d) (\<lambda>t.
       case computeOperationExpiresAt OP_PENDING now None (t_config t) of
         None \<Rightarrow> Err db_error
       | Some e \<Rightarrow>
           if newid \<in> op_id ` set (operations d) then Err db_error
           else Ok (op_save now
             \<lparr>op_id = newid, op_tenantId = ci_tenantId inp, op_batchId = ci_batchId inp, op_type = ci_type inp,
              op_state = OP_PENDING, op_request = ci_request inp, op_result = None, op_externalId = ci_externalId inp,
              op_viewedAt = None, op_expiresAt = e, op_createdAt = created, op_updatedAt = now\<rparr> d))"

text \<open>\<open>x\<close> is the row as the caller loaded it; \<open>d\<close> is the database when the view is written.\<close>

definition applyViewed :: "time \<Rightarrow> operation \<Rightarrow> db \<Rightarrow> (operation \<times> db) result" where
  "applyViewed now x d =
     rbind (tns_findById (op_tenantId x) d) (\<lambda>t.
       case computeOperationExpiresAt (op_state x) (to_js_date (op_createdAt x)) (Some now) (t_config t) of
         None \<Rightarrow> Err db_error
       | Some e \<Rightarrow>
           (case markFirstView (op_id x) now e d of
              (None, d') \<Rightarrow>
                (case op_findById (op_id x) d' of
                   None \<Rightarrow> Err (NotFound ''Operation not found'')
                 | Some current \<Rightarrow> Ok (current, d'))
            | (Some (v, e'), d') \<Rightarrow> Ok (x\<lparr>op_viewedAt := Some v, op_expiresAt := e'\<rparr>, d')))"

definition getForTenant :: "time \<Rightarrow> string \<Rightarrow> string \<Rightarrow> db \<Rightarrow> (operation \<times> db) result" where
  "getForTenant now tenantId i d =
     (case op_findByIdForTenant i tenantId d of
        None \<Rightarrow> Err (NotFound ''Operation not found'')
      | Some x \<Rightarrow>
          if \<not> isTerminalOperationState (op_state x) \<or> op_viewedAt x \<noteq> None then Ok (x, d)
          else applyViewed now x d)"

definition markViewed :: "time \<Rightarrow> string \<Rightarrow> db \<Rightarrow> (operation \<times> db) result" where
  "markViewed now i d =
     (case op_findById i d of
        None \<Rightarrow> Err (NotFound ''Operation not found'')
      | Some x \<Rightarrow> if op_viewedAt x \<noteq> None then Ok (x, d) else applyViewed now x d)"

definition transitionState ::
  "time \<Rightarrow> string \<Rightarrow> operation_state \<Rightarrow> json option \<Rightarrow> db \<Rightarrow> (operation \<times> db) result" where
  "transitionState now i state res d =
     (case op_findById i d of
        None \<Rightarrow> Err (NotFound ''Operation not found'')
      | Some x \<Rightarrow>
          rbind (tns_findById (op_tenantId x) d) (\<lambda>t.
            case computeOperationExpiresAt state (to_js_date (op_createdAt x)) (op_viewedAt x) (t_config t) of
              None \<Rightarrow> Err db_error
            | Some e \<Rightarrow>
                Ok (op_save now (x\<lparr>op_state := state, op_result := (case res of None \<Rightarrow> op_result x | Some r \<Rightarrow> Some r),
                                   op_expiresAt := e\<rparr>) d)))"

section \<open>OperationPurgeService\<close>

definition OP_BATCH_SIZE :: nat where
  "OP_BATCH_SIZE = 500"

definition OP_MAX_BATCHES_PER_RUN :: nat where
  "OP_MAX_BATCHES_PER_RUN = 50"

definition purgeExpiredOperations :: "time \<Rightarrow> db \<Rightarrow> nat \<times> db" where
  "purgeExpiredOperations now d = purge_run OP_MAX_BATCHES_PER_RUN (op_purgeExpiredBatch now OP_BATCH_SIZE) d"

section \<open>operation-type.constants\<close>

definition OPERATION_TYPE :: "string list" where
  "OPERATION_TYPE = [''credential.offer'', ''credential.offer-batch'', ''credential.accept'', ''credential.reject'',
     ''credential.revoke'', ''credential.revoke-batch'', ''presentation.request'', ''connection.create'']"

definition isBatchOperationType :: "string \<Rightarrow> bool" where
  "isBatchOperationType t = suffix ''-batch'' t"

section \<open>Expiry laws\<close>

lemma ttl_default_pos: "DEFAULT_OPERATION_TTL_MS key > 0"
  by (cases key) (simp_all add: HOUR_MS_def DAY_MS_def)

lemma parseDurationMs_pos: "parseDurationMs v = Some ms \<Longrightarrow> ms > 0"
proof (cases v)
  case (JStr s)
  assume "parseDurationMs v = Some ms"
  then obtain whole fdigits suf m where "ms = decimal_val whole fdigits * m" "decimal_val whole fdigits > 0"
    "UNIT_TO_MS (to_lower suf) = Some m"
    using JStr by (auto simp: parseDurationMs_def Let_def not_le split: option.splits if_splits)
  moreover from this have "m > 0" by (auto simp: UNIT_TO_MS_def HOUR_MS_def DAY_MS_def split: if_splits)
  ultimately show ?thesis by simp
qed (auto simp: parseDurationMs_def split: if_splits)

lemma ttl_pos: "resolveOperationTtlMs config key > 0"
  using ttl_default_pos [of key] parseDurationMs_pos
  by (auto simp: resolveOperationTtlMs_def Let_def split: option.splits if_splits)

lemma js_new_Date_Some:
  "js_new_Date x = Some t \<Longrightarrow> of_int t \<le> x + 1 \<and> x - 1 \<le> of_int t"
  by (auto simp: js_new_Date_def split: if_splits) linarith+

section \<open>The purge\<close>

interpretation op_purge: expiring_store operations "op_expired now" "op_purgeExpiredBatch now limit" "max 1 limit"
  "\<lambda>d. tbl_keys op_id (operations d)" for now limit
proof unfold_locales
  fix d :: db
  assume "tbl_keys op_id (operations d)"
  then have dist: "distinct (map op_id (operations d))" by (simp add: tbl_keys_def)
  note laws = delete_oldest_count [OF dist, where age = op_expiresAt and expired = "op_expired now" and n = "max 1 limit"]
    delete_oldest_keys [OF dist, where age = op_expiresAt and expired = "op_expired now" and n = "max 1 limit"]
  show "fst (op_purgeExpiredBatch now limit d) = min (max 1 limit) (length (filter (op_expired now) (operations d)))"
    using laws(1) by (simp add: op_purgeExpiredBatch_def case_prod_beta)
  show "length (filter (op_expired now) (operations (snd (op_purgeExpiredBatch now limit d))))
      = length (filter (op_expired now) (operations d)) - max 1 limit"
    using laws(2) by (simp add: op_purgeExpiredBatch_def case_prod_beta)
  show "filter (\<lambda>x. \<not> op_expired now x) (operations (snd (op_purgeExpiredBatch now limit d)))
      = filter (\<lambda>x. \<not> op_expired now x) (operations d)"
    using laws(3) by (simp add: op_purgeExpiredBatch_def case_prod_beta)
  show "tbl_keys op_id (operations (snd (op_purgeExpiredBatch now limit d)))"
    using laws(4) by (simp add: op_purgeExpiredBatch_def tbl_keys_def case_prod_beta)
qed

section \<open>Properties\<close>

text \<open>The hourly purge: a run deletes expired operations only, never more than 25000 of them, and
  reports how many; a backlog of at most 25000 is gone afterwards, and every operation that has not expired,
  in whatever state, is left exactly as it was.\<close>

theorem operation_purge_exact:
  assumes "tbl_keys op_id (operations d)"
  shows "let (total, d') = purgeExpiredOperations now d;
             backlog = length (filter (op_expired now) (operations d))
         in total = min 25000 backlog
            \<and> filter (\<lambda>x. \<not> op_expired now x) (operations d') = filter (\<lambda>x. \<not> op_expired now x) (operations d)
            \<and> length (filter (op_expired now) (operations d')) = backlog - 25000
            \<and> (backlog \<le> 25000 \<longrightarrow> operations d' = filter (\<lambda>x. \<not> op_expired now x) (operations d))"
proof -
  note ex = op_purge.purge_run_exact [OF assms, where n = OP_MAX_BATCHES_PER_RUN and now = now and limit = OP_BATCH_SIZE]
  note dr = op_purge.purge_run_drains [OF assms, where n = OP_MAX_BATCHES_PER_RUN and now = now and limit = OP_BATCH_SIZE]
  have n: "OP_MAX_BATCHES_PER_RUN * max 1 OP_BATCH_SIZE = 25000"
    by (simp add: OP_MAX_BATCHES_PER_RUN_def OP_BATCH_SIZE_def)
  show ?thesis using ex dr unfolding n by (auto simp: purgeExpiredOperations_def Let_def case_prod_beta)
qed

definition demo_operation :: operation where
  "demo_operation = \<lparr>op_id = ''o1'', op_tenantId = ''t1'', op_batchId = None, op_type = ''credential.revoke'',
     op_state = OP_COMPLETED, op_request = [], op_result = None, op_externalId = None, op_viewedAt = None,
     op_expiresAt = 500, op_createdAt = 1000, op_updatedAt = 1\<rparr>"

definition demo_op_db :: db where
  "demo_op_db = demo_db\<lparr>operations := [demo_operation, demo_operation\<lparr>op_id := ''o2'', op_expiresAt := 5000\<rparr>]\<rparr>"

theorem operation_purge_exact_witness:
  "operations (snd (purgeExpiredOperations 1000 demo_op_db)) = [demo_operation\<lparr>op_id := ''o2'', op_expiresAt := 5000\<rparr>]"
proof -
  have "tbl_keys op_id (operations demo_op_db)" by (simp add: demo_op_db_def demo_operation_def tbl_keys_def)
  from operation_purge_exact [OF this, of 1000] show ?thesis
    by (simp add: demo_op_db_def demo_operation_def op_expired_def case_prod_beta)
qed

text \<open>A view is recorded once. When two callers have loaded the same unviewed operation and both write
  their view, the second write changes nothing, and the second caller is given the row with the first view's
  time and expiry.\<close>

theorem first_view_single_shot:
  assumes "tbl_keys op_id (operations d)" and "x \<in> set (operations d)" and "op_viewedAt x = None"
    and "tns_findById (op_tenantId x) d = Ok t"
    and "computeOperationExpiresAt (op_state x) (to_js_date (op_createdAt x)) (Some now1) (t_config t) = Some e1"
    and "computeOperationExpiresAt (op_state x) (to_js_date (op_createdAt x)) (Some now2) (t_config t) = Some e2"
  shows "\<exists>d1. applyViewed now1 x d = Ok (x\<lparr>op_viewedAt := Some now1, op_expiresAt := e1\<rparr>, d1)
           \<and> applyViewed now2 x d1 = Ok (x\<lparr>op_viewedAt := Some now1, op_expiresAt := e1\<rparr>, d1)
           \<and> op_findById (op_id x) d1 = Some (x\<lparr>op_viewedAt := Some now1, op_expiresAt := e1\<rparr>)"
proof -
  let ?p = "\<lambda>y. op_id y = op_id x \<and> op_viewedAt y = None"
  let ?f = "\<lambda>y. y\<lparr>op_viewedAt := Some now1, op_expiresAt := e1\<rparr>"
  let ?d1 = "d\<lparr>operations := tbl_update ?p ?f (operations d)\<rparr>"
  have ex: "list_ex ?p (operations d)" using assms(2,3) by (auto simp: list_ex_iff)
  have found: "op_findById (op_id x) ?d1 = Some (?f x)"
    using assms(1-3) tbl_find_mem [of op_id "operations d" x] by (simp add: op_findById_def tbl_find_update)
  have uniq: "y = x" if "y \<in> set (operations d)" "op_id y = op_id x" for y
    using that assms(1,2) by (auto simp: tbl_keys_def distinct_map dest: inj_onD)
  have "\<not> list_ex ?p (operations ?d1)"
    using uniq by (auto simp: list_ex_iff set_tbl_update)
  moreover have "tns_findById (op_tenantId x) ?d1 = Ok t" using assms(4) by (simp add: tns_findById_def tn_findById_def)
  ultimately have "applyViewed now2 x ?d1 = Ok (?f x, ?d1)"
    using assms(6) found by (simp add: applyViewed_def markFirstView_def)
  moreover have "applyViewed now1 x d = Ok (?f x, ?d1)"
    using ex assms(4,5) by (simp add: applyViewed_def markFirstView_def)
  ultimately show ?thesis using found by blast
qed

theorem first_view_single_shot_witness:
  "\<exists>d1. applyViewed 2000 demo_operation demo_op_db = Ok (demo_operation\<lparr>op_viewedAt := Some 2000, op_expiresAt := 3602000\<rparr>, d1)
     \<and> applyViewed 9000 demo_operation d1 = Ok (demo_operation\<lparr>op_viewedAt := Some 2000, op_expiresAt := 3602000\<rparr>, d1)"
proof -
  have k: "tbl_keys op_id (operations demo_op_db)" by (simp add: demo_op_db_def demo_operation_def tbl_keys_def)
  have m: "demo_operation \<in> set (operations demo_op_db)" by (simp add: demo_op_db_def)
  have v: "op_viewedAt demo_operation = None" by (simp add: demo_operation_def)
  have t: "tns_findById (op_tenantId demo_operation) demo_op_db = Ok demo_tenant"
    by (simp add: tns_findById_def tn_findById_def demo_op_db_def demo_db_def demo_operation_def demo_tenant_def)
  have e: "computeOperationExpiresAt (op_state demo_operation) (to_js_date (op_createdAt demo_operation)) (Some n) (t_config demo_tenant)
      = Some (n + 3600000)" if "0 \<le> n" "n \<le> 9000" for n
    using that by (simp add: computeOperationExpiresAt_def demo_operation_def resolveOperationTtlMs_def demo_tenant_def
        HOUR_MS_def js_new_Date_def Let_def)
  show ?thesis using first_view_single_shot [OF k m v t e e, of 2000 9000] by auto
qed

text \<open>Every lifetime is positive, whatever a tenant's configuration holds: overrides that are missing
  or malformed fall back to the defaults. So a pending operation, and a finished one nobody has viewed, never
  expire before they were created.\<close>

theorem unviewed_never_born_expired:
  assumes "computeOperationExpiresAt state createdAt None config = Some e"
  shows "createdAt \<le> e \<and> (resolveOperationTtlMs config key > 0)"
proof -
  obtain ttl where ttl: "ttl > 0" "js_new_Date (of_int createdAt + ttl) = Some e"
  proof -
    have "DEFAULT_CREATED_TTL_MS > 0" by (simp add: DEFAULT_CREATED_TTL_MS_def HOUR_MS_def)
    then show ?thesis using assms ttl_pos [of config] that
      by (cases state) (auto simp: computeOperationExpiresAt_def Let_def)
  qed
  then have "of_int createdAt < (of_int createdAt + ttl)" by simp
  then have "createdAt \<le> e" using ttl(2) by (auto simp: js_new_Date_def split: if_splits) linarith+
  then show ?thesis using ttl_pos by blast
qed

theorem unviewed_never_born_expired_witness:
  "(0::int) \<le> 259200000 \<and> (resolveOperationTtlMs [(''operation_ttl'', JStr ''junk'')] CompletedViewed > 0)"
proof -
  have "computeOperationExpiresAt OP_COMPLETED 0 None [(''operation_ttl'', JStr ''junk'')] = Some 259200000"
    by (simp add: computeOperationExpiresAt_def resolveOperationTtlMs_def HOUR_MS_def js_new_Date_def Let_def)
  from unviewed_never_born_expired [OF this] show ?thesis by blast
qed

text \<open>A result can expire before anyone could have seen it. An operation that is marked viewed while
  it is still in flight keeps that view time; completing it later than one hour after (the default lifetime of
  a viewed result) stores an expiry that already lies in the past, so the next purge deletes the result.\<close>

theorem early_view_expires_result:
  assumes "op_findById i d = Some x" and "op_viewedAt x = Some v" and "tns_findById (op_tenantId x) d = Ok t"
    and "t_config t = []" and "0 \<le> v" and "v + 3600000 < now" and "now < 8640000000000000"
    and "tbl_keys op_id (operations d)" and "length (operations d) \<le> 25000"
  shows "\<exists>y d'. transitionState now i OP_COMPLETED res d = Ok (y, d') \<and> op_findById i d' = Some y
      \<and> op_state y = OP_COMPLETED \<and> op_expiresAt y < now
      \<and> op_findById i (snd (purgeExpiredOperations now d')) = None"
proof -
  let ?y = "x\<lparr>op_state := OP_COMPLETED, op_result := (case res of None \<Rightarrow> op_result x | Some r \<Rightarrow> Some r),
    op_expiresAt := v + 3600000, op_updatedAt := now\<rparr>"
  let ?d' = "d\<lparr>operations := tbl_save op_id ?y (operations d)\<rparr>"
  have i: "op_id x = i" "x \<in> set (operations d)" using assms(1) tbl_find_Some by (force simp: op_findById_def)+
  have "computeOperationExpiresAt OP_COMPLETED (to_js_date (op_createdAt x)) (Some v) [] = Some (v + 3600000)"
    using assms(5-7) by (simp add: computeOperationExpiresAt_def resolveOperationTtlMs_def HOUR_MS_def js_new_Date_def Let_def)
  then have tr: "transitionState now i OP_COMPLETED res d = Ok (?y, ?d')"
    using assms(1-4) by (simp add: transitionState_def op_save_def Let_def)
  have found: "op_findById i ?d' = Some ?y" using i by (simp add: op_findById_def tbl_find_save)
  have keys: "tbl_keys op_id (operations ?d')" using assms(8) by (simp add: tbl_keys_save)
  have "length (operations ?d') = length (operations d)"
    using tbl_save_length [of op_id ?y "operations d"] i by force
  then have "length (filter (op_expired now) (operations ?d')) \<le> 25000"
    using assms(9) length_filter_le [of "op_expired now" "operations ?d'"] by linarith
  then have "operations (snd (purgeExpiredOperations now ?d')) = filter (\<lambda>x. \<not> op_expired now x) (operations ?d')"
    using op_purge.purge_run_drains [OF keys, where n = OP_MAX_BATCHES_PER_RUN and now = now and limit = OP_BATCH_SIZE]
    by (simp add: purgeExpiredOperations_def OP_MAX_BATCHES_PER_RUN_def OP_BATCH_SIZE_def)
  moreover have "op_expired now ?y" using assms(6) by (simp add: op_expired_def)
  ultimately have "op_findById i (snd (purgeExpiredOperations now ?d')) = None"
    using tbl_find_filter_None [OF keys, of i ?y "\<lambda>x. \<not> op_expired now x"] found by (simp add: op_findById_def)
  then show ?thesis using tr found assms(6) by (intro exI [of _ ?y] exI [of _ ?d']) simp
qed

theorem early_view_expires_result_witness:
  "\<exists>y d'. transitionState 9000000 ''o1'' OP_COMPLETED None
        (demo_db\<lparr>operations := [demo_operation\<lparr>op_state := OP_PROCESSING, op_viewedAt := Some 2000\<rparr>]\<rparr>) = Ok (y, d')
     \<and> op_findById ''o1'' (snd (purgeExpiredOperations 9000000 d')) = None"
proof -
  let ?x = "demo_operation\<lparr>op_state := OP_PROCESSING, op_viewedAt := Some 2000\<rparr>"
  let ?d = "demo_db\<lparr>operations := [?x]\<rparr>"
  have "op_findById ''o1'' ?d = Some ?x" by (simp add: op_findById_def demo_operation_def)
  moreover have "op_viewedAt ?x = Some 2000" by simp
  moreover have "tns_findById (op_tenantId ?x) ?d = Ok demo_tenant"
    by (simp add: tns_findById_def tn_findById_def demo_db_def demo_operation_def demo_tenant_def)
  moreover have "t_config demo_tenant = []" by (simp add: demo_tenant_def)
  moreover have "tbl_keys op_id (operations ?d)" by (simp add: tbl_keys_def)
  ultimately show ?thesis using early_view_expires_result [of "''o1''" ?d ?x 2000 demo_tenant 9000000 None] by auto
qed

end
