(* ===== verification/Credential.thy ===== *)
theory Credential
  imports Adapter_Registry Operation
begin

text \<open>
  \<^verbatim>\<open>credential\<close>: the holder's answer to an offer (\<^verbatim>\<open>CredentialActionService\<close>) and revocation
  (\<^verbatim>\<open>CredentialRevokeService\<close>). Each creates an operation, calls the agent through the resolved adapter, and settles the
  operation. An \<^verbatim>\<open>AdapterError\<close> is caught and recorded as a failed operation, any other exception leaves the handler.
\<close>

section \<open>CredentialRepository\<close>

definition cr_findById :: "string \<Rightarrow> db \<Rightarrow> credential option" where
  "cr_findById i d = tbl_find cr_id i (credentials d)"

definition cr_findByIdForTenant :: "string \<Rightarrow> string \<Rightarrow> db \<Rightarrow> credential option" where
  "cr_findByIdForTenant i tenantId d = List.find (\<lambda>c. cr_id c = i \<and> cr_tenantId c = tenantId) (credentials d)"

definition cr_findByTenant :: "string \<Rightarrow> db \<Rightarrow> credential list" where
  "cr_findByTenant tenantId d = sort_key (\<lambda>c. - cr_createdAt c) (filter (\<lambda>c. cr_tenantId c = tenantId) (credentials d))"

definition cr_findByExternalId :: "string \<Rightarrow> string \<Rightarrow> db \<Rightarrow> credential option" where
  "cr_findByExternalId tenantId ext d =
     List.find (\<lambda>c. cr_tenantId c = tenantId \<and> cr_externalId c = Some ext) (credentials d)"

definition cr_findByProfile :: "string \<Rightarrow> string \<Rightarrow> db \<Rightarrow> credential list" where
  "cr_findByProfile tenantId p d =
     sort_key (\<lambda>c. - cr_createdAt c) (filter (\<lambda>c. cr_tenantId c = tenantId \<and> cr_issuanceProfileId c = Some p) (credentials d))"

definition cr_updateState :: "time \<Rightarrow> string \<Rightarrow> credential_state \<Rightarrow> time option \<Rightarrow> time option \<Rightarrow> db \<Rightarrow> db" where
  "cr_updateState now i state issuedAt revokedAt d =
     d\<lparr>credentials := tbl_update (\<lambda>c. cr_id c = i)
        (\<lambda>c. c\<lparr>cr_state := state,
               cr_issuedAt := (case issuedAt of None \<Rightarrow> cr_issuedAt c | Some t \<Rightarrow> Some t),
               cr_revokedAt := (case revokedAt of None \<Rightarrow> cr_revokedAt c | Some t \<Rightarrow> Some t), cr_updatedAt := now\<rparr>) (credentials d)\<rparr>"

section \<open>CredentialActionService\<close>

datatype holder_action = ACCEPT | REJECT

fun holder_action_str :: "holder_action \<Rightarrow> string" where
  "holder_action_str ACCEPT = ''accept''"
| "holder_action_str REJECT = ''reject''"

fun op_state_str :: "operation_state \<Rightarrow> string" where
  "op_state_str OP_PENDING = ''pending''"
| "op_state_str OP_PROCESSING = ''processing''"
| "op_state_str OP_COMPLETED = ''completed''"
| "op_state_str OP_FAILED = ''failed''"

definition API_BASE_PATH :: string where
  "API_BASE_PATH = ''/api/v1''"

record agent_env =
  ag_show :: "nat \<Rightarrow> string"
  ag_ar :: ar_env
  ag_adapters :: adapter_map

text \<open>Identifier and time stamps of the new operation, and the clock.\<close>

record op_stamp =
  os_id :: string
  os_created :: micros
  os_now :: time

definition emit_hold :: "string \<Rightarrow> string \<Rightarrow> holder_action \<Rightarrow> operation_state \<Rightarrow> db \<Rightarrow> db" where
  "emit_hold tenantId exchangeId action state d =
     domain_audit_emit tenantId A_HOLD ''credential'' exchangeId
       [(''action'', JStr (holder_action_str action)), (''state'', JStr (op_state_str state))] d"

text \<open>The result is absent when the agent is still working: \<^verbatim>\<open>null\<close>, which a new operation already has.\<close>

definition completeAccept :: "agent_adapter \<Rightarrow> connector_context \<Rightarrow> string \<Rightarrow> call_error + (operation_state \<times> json option)" where
  "completeAccept a ctx ext =
     (case aa_acceptOffer a ctx ext of
        Inl e \<Rightarrow> Inl e
      | Inr ex \<Rightarrow> Inr (if ce_state ex = EX_Done then (OP_COMPLETED, Some (JObj (ce_fields ex))) else (OP_PROCESSING, None)))"

definition completeReject :: "agent_adapter \<Rightarrow> connector_context \<Rightarrow> string \<Rightarrow> call_error + (operation_state \<times> json option)" where
  "completeReject a ctx ext = (case aa_rejectOffer a ctx ext of Inl e \<Rightarrow> Inl e | Inr _ \<Rightarrow> Inr (OP_COMPLETED, Some (JObj [])))"

text \<open>The \<^verbatim>\<open>catch\<close> block; \<open>emit\<close> queues the audit event of the failure.\<close>

definition catch_adapter_error ::
  "time \<Rightarrow> string \<Rightarrow> (operation_state \<Rightarrow> db \<Rightarrow> db) \<Rightarrow> call_error \<Rightarrow> db \<Rightarrow> operation result \<times> db" where
  "catch_adapter_error now i emit err d =
     (case err of
        OtherErr e \<Rightarrow> (Err e, d)
      | AdapterErr e \<Rightarrow>
          (case transitionState now i OP_FAILED (Some (JObj [(''code'', JStr (code_of e)), (''message'', JStr (message_of e))])) d of
             Inl e' \<Rightarrow> (Err e', d)
           | Inr (failed, d') \<Rightarrow> (Ok failed, emit OP_FAILED d')))"

definition action_input :: "holder_action \<Rightarrow> string \<Rightarrow> string \<Rightarrow> string \<Rightarrow> create_op_input" where
  "action_input action tenantId exchangeId ext =
     \<lparr>ci_tenantId = tenantId, ci_type = (if action = ACCEPT then ''credential.accept'' else ''credential.reject''),
      ci_request = [(''method'', JStr ''POST''),
        (''path'', JStr (API_BASE_PATH @ ''/tenants/'' @ tenantId @ ''/credentials/'' @ exchangeId @ ''/'' @ holder_action_str action)),
        (''body'', JObj [])],
      ci_batchId = None, ci_externalId = Some ext\<rparr>"

text \<open>The \<^verbatim>\<open>try\<close> statement, for the new operation \<open>x\<close>.\<close>

definition try_action ::
  "agent_env \<Rightarrow> time \<Rightarrow> holder_action \<Rightarrow> string \<Rightarrow> string \<Rightarrow> string \<Rightarrow> operation \<Rightarrow> db \<Rightarrow> operation result \<times> db" where
  "try_action env now action tenantId exchangeId ext x d1 =
     (let emit = emit_hold tenantId exchangeId action; catch = catch_adapter_error now (op_id x) emit in
      (case ar_resolve (ag_show env) (ag_ar env) (ag_adapters env) now tenantId None no_options d1 of
         (Inl e, d2) \<Rightarrow> catch e d2
       | (Inr ra, d2) \<Rightarrow>
           (case (if action = ACCEPT then completeAccept (ra_adapter ra) (ra_context ra) ext
                  else completeReject (ra_adapter ra) (ra_context ra) ext) of
              Inl e \<Rightarrow> catch e d2
            | Inr (state, res) \<Rightarrow>
                (case transitionState now (op_id x) state res d2 of
                   Inl e \<Rightarrow> catch (OtherErr e) d2
                 | Inr (completed, d3) \<Rightarrow> (Ok completed, emit state d3)))))"

definition perform :: "agent_env \<Rightarrow> op_stamp \<Rightarrow> holder_action \<Rightarrow> string \<Rightarrow> string \<Rightarrow> db \<Rightarrow> operation result \<times> db" where
  "perform env st action tenantId exchangeId d =
     (let offered = (case op_findByIdForTenant exchangeId tenantId d of
                       None \<Rightarrow> None
                     | Some offer \<Rightarrow> if op_type offer = ''credential.offer'' then op_externalId offer else None)
      in case offered of
           None \<Rightarrow> (Err (NotFound (''Credential offer '' @ quoted exchangeId @ '' was not found'')), d)
         | Some ext \<Rightarrow>
             if ext = [] then (Err (NotFound (''Credential offer '' @ quoted exchangeId @ '' was not found'')), d)
             else (case createOperation (os_id st) (os_created st) (os_now st) (action_input action tenantId exchangeId ext) d of
                 Inl e \<Rightarrow> (Err e, d)
               | Inr (x, d1) \<Rightarrow> try_action env (os_now st) action tenantId exchangeId ext x d1))"

section \<open>CredentialRevokeService\<close>

definition REVOCABLE_FORMATS :: "cd_format list" where
  "REVOCABLE_FORMATS = [F_ANONCREDS]"

definition emit_revoke :: "string \<Rightarrow> string \<Rightarrow> operation_state \<Rightarrow> db \<Rightarrow> db" where
  "emit_revoke tenantId credentialId state d =
     domain_audit_emit tenantId A_REVOKE ''credential'' credentialId [(''state'', JStr (op_state_str state))] d"

text \<open>From the answer of the agent on: \<open>x\<close> is the operation.\<close>

definition settle_revoke ::
  "time \<Rightarrow> string \<Rightarrow> string \<Rightarrow> operation \<Rightarrow> revocation_result \<Rightarrow> db \<Rightarrow> operation result \<times> db" where
  "settle_revoke now tenantId credentialId x r d =
     (if \<not> rr_revoked r then
        (case transitionState now (op_id x) OP_FAILED
            (Some (JObj [(''code'', JStr ''REVOCATION_FAILED''),
               (''message'', JStr (case rr_error r of None \<Rightarrow> ''Revocation was not applied'' | Some m \<Rightarrow> m))])) d of
           Inl e \<Rightarrow> (Err e, d)
         | Inr (failed, d') \<Rightarrow> (Ok failed, emit_revoke tenantId credentialId OP_FAILED d'))
      else
        let d1 = cr_updateState now credentialId CR_REVOKED None
                   (Some (case rr_revokedAt r of None \<Rightarrow> now | Some t \<Rightarrow> t)) d in
        (case transitionState now (op_id x) OP_COMPLETED (Some (JObj (rr_fields r))) d1 of
           Inl e \<Rightarrow> (Err e, d1)
         | Inr (completed, d') \<Rightarrow> (Ok completed, emit_revoke tenantId credentialId OP_COMPLETED d')))"

definition revoke_options :: "credential \<Rightarrow> resolve_options" where
  "revoke_options c = no_options\<lparr>ro_connectorId := Some (cr_connectorId c)\<rparr>"

definition revoke_input :: "string \<Rightarrow> string \<Rightarrow> string \<Rightarrow> create_op_input" where
  "revoke_input tenantId credentialId ext =
     \<lparr>ci_tenantId = tenantId, ci_type = ''credential.revoke'',
      ci_request = [(''method'', JStr ''POST''),
        (''path'', JStr (API_BASE_PATH @ ''/tenants/'' @ tenantId @ ''/credentials/'' @ credentialId @ ''/revoke'')),
        (''body'', JObj [])],
      ci_batchId = None, ci_externalId = Some ext\<rparr>"

definition try_revoke ::
  "agent_env \<Rightarrow> time \<Rightarrow> string \<Rightarrow> credential \<Rightarrow> string \<Rightarrow> operation \<Rightarrow> db \<Rightarrow> operation result \<times> db" where
  "try_revoke env now tenantId c ext x d1 =
     (let catch = catch_adapter_error now (op_id x) (emit_revoke tenantId (cr_id c)) in
      (case ar_resolve (ag_show env) (ag_ar env) (ag_adapters env) now tenantId None (revoke_options c) d1 of
         (Inl e, d2) \<Rightarrow> catch e d2
       | (Inr ra, d2) \<Rightarrow>
           (case aa_revoke (ra_adapter ra) (ra_context ra) ext of
              Inl e \<Rightarrow> catch e d2
            | Inr r \<Rightarrow> settle_revoke now tenantId (cr_id c) x r d2)))"

text \<open>The guards before the operation is created: the credential and its identifier at the agent.\<close>

definition revocable :: "string \<Rightarrow> string \<Rightarrow> db \<Rightarrow> (credential \<times> string) result" where
  "revocable tenantId credentialId d =
     (case cr_findByIdForTenant credentialId tenantId d of
        None \<Rightarrow> Err (NotFound (''Credential '' @ quoted credentialId @ '' was not found''))
      | Some c \<Rightarrow>
          if cr_format c \<notin> set REVOCABLE_FORMATS
          then Err (BadRequest (''Credential format '' @ quoted (cd_format_str (cr_format c)) @ '' does not support revocation''))
          else (case cr_externalId c of
             None \<Rightarrow> Err (BadRequest (''Credential '' @ quoted credentialId @ '' has no adapter-assigned identifier to revoke''))
           | Some ext \<Rightarrow>
               if ext = []
               then Err (BadRequest (''Credential '' @ quoted credentialId @ '' has no adapter-assigned identifier to revoke''))
               else Ok (c, ext)))"

definition crs_revoke :: "agent_env \<Rightarrow> op_stamp \<Rightarrow> string \<Rightarrow> string \<Rightarrow> db \<Rightarrow> operation result \<times> db" where
  "crs_revoke env st tenantId credentialId d =
     (case revocable tenantId credentialId d of
        Inl e \<Rightarrow> (Err e, d)
      | Inr (c, ext) \<Rightarrow>
          (case createOperation (os_id st) (os_created st) (os_now st) (revoke_input tenantId credentialId ext) d of
             Inl e \<Rightarrow> (Err e, d)
           | Inr (x, d1) \<Rightarrow> try_revoke env (os_now st) tenantId c ext x d1))"

section \<open>Frames\<close>

lemma rotate_all_frame:
  "\<exists>rows. snd (rotate_all env ivs now cs d) = d\<lparr>connector_credentials := rows\<rparr>"
proof (induction env ivs now cs d rule: rotate_all.induct)
  case (1 env ivs now d)
  show ?case by (rule exI [of _ "connector_credentials d"]) simp
next
  case (2 env ivs now c cs d)
  show ?case
  proof (cases "lazyRotateKeyIfNeeded env (ivs (cc_id c)) now c d")
    case (Inl e)
    then show ?thesis using 2(1) by simp
  next
    case (Inr p)
    obtain c' d' where p: "p = (c', d')" by force
    have "\<exists>rows. d' = d\<lparr>connector_credentials := rows\<rparr>"
      using Inr p by (auto simp: lazyRotateKeyIfNeeded_def cc_update_def Let_def split: sum.splits bool.split_asm
          intro: exI [of _ "connector_credentials d"])
    then show ?thesis using 2(2) [OF Inr p [symmetric]] Inr p by (auto split: sum.splits prod.splits)
  qed
qed

lemma list_connectors_frame: "\<exists>rows. snd (list_connectors env now tenantId d) = d\<lparr>connector_credentials := rows\<rparr>"
  using rotate_all_frame [of "are_cc env" "are_ivs env" now "cc_findWhere (\<lambda>c. cc_tenantId c = tenantId) d" d]
  by (auto simp: list_connectors_def ccs_findByTenant_def split: sum.splits prod.splits)

lemma find_frame:
  "\<exists>rows. snd (findSoleActiveConnector dec env now tenantId ct d) = d\<lparr>connector_credentials := rows\<rparr>"
  "\<exists>rows. snd (findConnector dec env now tenantId cid d) = d\<lparr>connector_credentials := rows\<rparr>"
proof -
  have same: "\<exists>rows. d = d\<lparr>connector_credentials := rows\<rparr>" by (rule exI [of _ "connector_credentials d"]) simp
  obtain r d' where l: "list_connectors env now tenantId d = (r, d')" by force
  then have rows: "\<exists>rows. d' = d\<lparr>connector_credentials := rows\<rparr>" using list_connectors_frame [of env now tenantId d] by simp
  show sole: "\<exists>rows. snd (findSoleActiveConnector dec env now tenantId ct d) = d\<lparr>connector_credentials := rows\<rparr>" for ct
    using l rows by (auto simp: findSoleActiveConnector_def split: sum.split)
  show "\<exists>rows. snd (findConnector dec env now tenantId cid d) = d\<lparr>connector_credentials := rows\<rparr>"
    using l rows sole same by (auto simp: findConnector_def split: sum.split option.split)
qed

lemma ar_resolve_frame:
  assumes "ar_resolve dec env reg now tenantId f opts d = (r, d')"
  shows "credentials d' = credentials d \<and> operations d' = operations d \<and> tenants d' = tenants d \<and> audit_jobs d' = audit_jobs d"
proof -
  have same: "\<exists>rows. d = d\<lparr>connector_credentials := rows\<rparr>" by (rule exI [of _ "connector_credentials d"]) simp
  have sole: "\<exists>rows. d1 = d\<lparr>connector_credentials := rows\<rparr>" if "findSoleActiveConnector dec env now tenantId ct d = (x, d1)" for ct x d1
    using find_frame(1) [of dec env now tenantId ct d] that by simp
  have conn: "\<exists>rows. d1 = d\<lparr>connector_credentials := rows\<rparr>" if "findConnector dec env now tenantId cid d = (x, d1)" for cid x d1
    using find_frame(2) [of dec env now tenantId cid d] that by simp
  have "\<exists>rows. d' = d\<lparr>connector_credentials := rows\<rparr>"
    using assms same unfolding ar_resolve_def
    by (auto split: sum.splits option.splits prod.splits dest!: sole conn)
  then show ?thesis by auto
qed

lemma createOperation_ok:
  assumes "createOperation newid created now inp d = Inr (x, d')"
  shows "op_id x = newid \<and> op_state x = OP_PENDING \<and> op_findById newid d' = Some x
     \<and> credentials d' = credentials d \<and> tenants d' = tenants d \<and> audit_jobs d' = audit_jobs d
     \<and> (\<forall>i. i \<noteq> newid \<longrightarrow> op_findById i d' = op_findById i d)"
  using assms unfolding createOperation_def
  by (auto simp: rbind_eq_Inr op_save_def Let_def op_findById_def tbl_find_save split: option.splits if_splits)

lemma transitionState_ok:
  assumes "transitionState now i state res d = Inr (x, d')"
  shows "op_id x = i \<and> op_state x = state \<and> op_findById i d' = Some x
     \<and> credentials d' = credentials d \<and> audit_jobs d' = audit_jobs d \<and> (\<forall>j. j \<noteq> i \<longrightarrow> op_findById j d' = op_findById j d)"
proof -
  obtain y where "op_findById i d = Some y" using assms by (auto simp: transitionState_def split: option.splits)
  moreover from this have "op_id y = i" using tbl_find_Some by (fastforce simp: op_findById_def)
  ultimately show ?thesis using assms unfolding transitionState_def
    by (auto simp: rbind_eq_Inr op_save_def Let_def op_findById_def tbl_find_save split: option.splits)
qed

lemma emit_frame [simp]:
  "credentials (emit_revoke t c st d) = credentials d" "op_findById i (emit_revoke t c st d) = op_findById i d"
  "credentials (emit_hold t e a st d) = credentials d" "op_findById i (emit_hold t e a st d) = op_findById i d"
  by (simp_all add: emit_revoke_def emit_hold_def op_findById_def domain_audit_emit_def)

lemma catch_ok:
  assumes "catch_adapter_error now i emit err d = (r, d')" "\<And>st d. credentials (emit st d) = credentials d"
    "\<And>st d j. op_findById j (emit st d) = op_findById j d"
  shows "credentials d' = credentials d \<and> (\<forall>x. r = Inr x \<longrightarrow> op_state x = OP_FAILED \<and> op_findById i d' = Some x)"
  using assms(1) transitionState_ok [of now i OP_FAILED _ d]
  by (auto simp: catch_adapter_error_def assms(2,3) split: call_error.splits sum.splits prod.splits)

text \<open>The update of one credential touches no other, and the tenant finds it in its new state.\<close>

lemma cr_updateState_find:
  assumes "tbl_keys cr_id (credentials d)" "cr_findByIdForTenant i t d = Some c"
  shows "cr_findByIdForTenant i t (cr_updateState now i state iss (Some rv) d) =
     Some (c\<lparr>cr_state := state, cr_issuedAt := (case iss of None \<Rightarrow> cr_issuedAt c | Some x \<Rightarrow> Some x), cr_revokedAt := Some rv,
            cr_updatedAt := now\<rparr>)"
proof -
  let ?f = "\<lambda>c :: credential. c\<lparr>cr_state := state, cr_issuedAt := (case iss of None \<Rightarrow> cr_issuedAt c | Some x \<Rightarrow> Some x), cr_revokedAt := Some rv,
      cr_updatedAt := now\<rparr>"
  have "List.find (\<lambda>c. cr_id c = i \<and> cr_tenantId c = t) (tbl_update (\<lambda>c. cr_id c = i) ?f rows)
      = map_option ?f (List.find (\<lambda>c. cr_id c = i \<and> cr_tenantId c = t) rows)" for rows :: "credential list"
    by (induction rows) (auto simp: tbl_update_def)
  then show ?thesis using assms(2) by (simp add: cr_findByIdForTenant_def cr_updateState_def)
qed

lemma cr_updateState_others:
  assumes "tbl_keys cr_id (credentials d)" "cr_findByIdForTenant i t d = Some c"
  shows "filter (\<lambda>x. cr_id x \<noteq> i \<or> cr_tenantId x \<noteq> t) (credentials (cr_updateState now i state iss rvo d))
       = filter (\<lambda>x. cr_id x \<noteq> i \<or> cr_tenantId x \<noteq> t) (credentials d)"
proof -
  have c: "c \<in> set (credentials d)" "cr_id c = i" "cr_tenantId c = t"
    using assms(2) by (auto simp: cr_findByIdForTenant_def find_Some_iff)
  then have "x = c" if "x \<in> set (credentials d)" "cr_id x = i" for x
    using tbl_keys_inj [OF assms(1)] that by metis
  then have t: "\<forall>x\<in>set (credentials d). cr_id x = i \<longrightarrow> cr_tenantId x = t" using c by blast
  then show ?thesis unfolding cr_updateState_def
    by (simp add: tbl_update_def filter_map comp_def if_distrib [of cr_id] if_distrib [of cr_tenantId], intro map_idI) auto
qed

lemma settle_revoke_ok:
  assumes "settle_revoke now t c x res d = (r, d')"
  shows "(rr_revoked res \<and> credentials d' = credentials (cr_updateState now c CR_REVOKED None (Some (case rr_revokedAt res of None \<Rightarrow> now | Some t \<Rightarrow> t)) d)
       \<or> \<not> rr_revoked res \<and> credentials d' = credentials d)
     \<and> (\<forall>y. r = Inr y \<longrightarrow> op_findById (op_id x) d' = Some y \<and> op_state y = (if rr_revoked res then OP_COMPLETED else OP_FAILED))"
proof (cases "rr_revoked res")
  case True
  let ?d1 = "cr_updateState now c CR_REVOKED None (Some (case rr_revokedAt res of None \<Rightarrow> now | Some t \<Rightarrow> t)) d"
  show ?thesis using assms True transitionState_ok [of now "op_id x" OP_COMPLETED "Some (JObj (rr_fields res))" ?d1]
    by (auto simp: settle_revoke_def Let_def split: sum.splits prod.splits)
next
  case False
  then show ?thesis using assms transitionState_ok [of now "op_id x" OP_FAILED _ d]
    by (auto simp: settle_revoke_def Let_def split: sum.splits prod.splits)
qed

lemma try_revoke_ok:
  assumes "try_revoke env now t c ext x d1 = (r, d')"
  shows "credentials d' = credentials d1 \<and> (\<forall>y. r = Inr y \<longrightarrow> op_state y = OP_FAILED \<and> op_findById (op_id x) d' = Some y)
     \<or> (\<exists>rv. credentials d' = credentials (cr_updateState now (cr_id c) CR_REVOKED None (Some rv) d1)
          \<and> (\<forall>y. r = Inr y \<longrightarrow> op_state y = OP_COMPLETED \<and> op_findById (op_id x) d' = Some y))"
proof -
  obtain q d2 where q: "ar_resolve (ag_show env) (ag_ar env) (ag_adapters env) now t None (revoke_options c) d1 = (q, d2)" by force
  have d2: "credentials d2 = credentials d1" using ar_resolve_frame [OF q] by simp
  show ?thesis
  proof (cases "\<exists>ra res. q = Inr ra \<and> aa_revoke (ra_adapter ra) (ra_context ra) ext = Inr res")
    case True
    then obtain res where "settle_revoke now t (cr_id c) x res d2 = (r, d')"
      using assms q by (auto simp: try_revoke_def Let_def)
    note set = settle_revoke_ok [OF this]
    show ?thesis
    proof (cases "rr_revoked res")
      case True
      then show ?thesis using set d2 by (intro disjI2) (auto simp: cr_updateState_def)
    next
      case False
      then show ?thesis using set d2 by simp
    qed
  next
    case False
    then obtain e where "catch_adapter_error now (op_id x) (emit_revoke t (cr_id c)) e d2 = (r, d')"
      using assms q by (cases q) (auto simp: try_revoke_def Let_def split: sum.splits)
    from catch_ok [OF this] show ?thesis using d2 by simp
  qed
qed

lemma revocable_ok:
  "revocable t i d = Inr (c, ext) \<Longrightarrow> cr_findByIdForTenant i t d = Some c \<and> cr_format c = F_ANONCREDS \<and> cr_id c = i"
  by (auto simp: revocable_def REVOCABLE_FORMATS_def cr_findByIdForTenant_def find_Some_iff split: option.splits if_splits)

lemma crs_revoke_parts:
  assumes "crs_revoke env st tenantId credentialId d = (r, d')"
  shows "credentials d' = credentials d \<and> (\<forall>x. r = Inr x \<longrightarrow> op_state x = OP_FAILED \<and> op_findById (os_id st) d' = Some x)
     \<or> (\<exists>c rv. cr_findByIdForTenant credentialId tenantId d = Some c \<and> cr_format c = F_ANONCREDS
          \<and> credentials d' = credentials (cr_updateState (os_now st) credentialId CR_REVOKED None (Some rv) d)
          \<and> (\<forall>x. r = Inr x \<longrightarrow> op_state x = OP_COMPLETED \<and> op_findById (os_id st) d' = Some x))"
proof (cases "\<exists>c ext x d1. revocable tenantId credentialId d = Inr (c, ext)
    \<and> createOperation (os_id st) (os_created st) (os_now st) (revoke_input tenantId credentialId ext) d = Inr (x, d1)")
  case True
  then obtain c ext x d1 where c: "revocable tenantId credentialId d = Inr (c, ext)"
    "createOperation (os_id st) (os_created st) (os_now st) (revoke_input tenantId credentialId ext) d = Inr (x, d1)" by blast
  then have t: "try_revoke env (os_now st) tenantId c ext x d1 = (r, d')" using assms by (simp add: crs_revoke_def)
  have d1: "credentials d1 = credentials d" "op_id x = os_id st" using createOperation_ok [OF c(2)] by simp_all
  note rc = revocable_ok [OF c(1)]
  from try_revoke_ok [OF t] show ?thesis
  proof (elim disjE exE conjE)
    fix rv assume "credentials d' = credentials (cr_updateState (os_now st) (cr_id c) CR_REVOKED None (Some rv) d1)"
      "\<forall>y. r = Inr y \<longrightarrow> op_state y = OP_COMPLETED \<and> op_findById (op_id x) d' = Some y"
    then show ?thesis using rc d1 by (intro disjI2 exI [of _ c] exI [of _ rv]) (simp add: cr_updateState_def)
  qed (use d1 in simp)
next
  case False
  then show ?thesis using assms by (auto simp: crs_revoke_def split: sum.splits prod.splits)
qed

section \<open>A sample tenant\<close>

text \<open>One connector of the given type, its key current, and an offer the tenant has received.\<close>

definition demo_agent_env :: agent_env where
  "demo_agent_env = \<lparr>ag_show = show_nat, ag_ar = demo_ar_env, ag_adapters = demo_adapters\<rparr>"

definition demo_connector :: "connector_type \<Rightarrow> connector_credential" where
  "demo_connector ct = demo_cc\<lparr>cc_keyVersion := 2, cc_connectorType := ct\<rparr>"

definition demo_offer :: operation where
  "demo_offer = demo_operation\<lparr>op_type := ''credential.offer'', op_externalId := Some ''ex1''\<rparr>"

definition demo_credential :: credential where
  "demo_credential = \<lparr>cr_id = ''c1'', cr_tenantId = ''t1'', cr_issuanceProfileId = None, cr_connectionId = None,
     cr_connectorId = ''cc1'', cr_externalId = Some ''ex1'', cr_format = F_ANONCREDS, cr_state = CR_ISSUED,
     cr_operationId = ''o1'', cr_metadata = [], cr_issuedAt = Some 1, cr_revokedAt = None, cr_createdAt = 1000, cr_updatedAt = 1\<rparr>"

definition demo_agent_db :: "connector_type \<Rightarrow> db" where
  "demo_agent_db ct = demo_db\<lparr>connector_credentials := [demo_connector ct], operations := [demo_offer], credentials := [demo_credential]\<rparr>"

definition demo_stamp :: op_stamp where
  "demo_stamp = \<lparr>os_id = ''o9'', os_created = 5000, os_now = 5\<rparr>"

lemma demo_list_connectors:
  "connector_credentials d = [demo_connector ct] \<Longrightarrow> list_connectors demo_ar_env now ''t1'' d = (Inr [demo_connector ct], d)"
  by (simp add: list_connectors_def ccs_findByTenant_def cc_findWhere_def demo_connector_def demo_ar_env_def demo_cc_env_def
      demo_cc_def lazyRotateKeyIfNeeded_def requiresRotation_def getCurrentKey_def demo_keys_def)

lemma demo_buildContext:
  "\<exists>ctx. buildContext demo_ar_env (demo_connector ct) = Inr ctx"
  by (simp add: buildContext_def decrypt_def decryptWithKey_def getKey_def demo_ar_env_def demo_cc_env_def demo_keys_def
      demo_cipher_def demo_connector_def demo_cc_def IV_LENGTH_def AUTH_TAG_LENGTH_def eval_nat_numeral)

lemma demo_readDefault:
  assumes "tenants d = tenants demo_db"
  shows "readDefaultConnector ''t1'' d = Inr None"
proof -
  have "map_option JStr None = map_of (t_config demo_tenant) ''default_connector''" by (simp add: demo_tenant_def)
  then show ?thesis
    using assms by (simp add: readDefaultConnector_def tns_findById_def tn_findById_def demo_db_def demo_tenant_def)
qed

lemma demo_resolve:
  assumes "connector_credentials d = [demo_connector ct]" "tenants d = tenants demo_db" "ct = TRACTION \<or> ct = CREDO"
    "opts = no_options \<or> opts = revoke_options demo_credential"
  shows "\<exists>ra. ar_resolve show_nat demo_ar_env demo_adapters now ''t1'' None opts d = (Inr ra, d)
     \<and> ra_adapter ra = (if ct = TRACTION then TractionAdapter else demo_credo)"
proof -
  obtain ctx where ctx: "buildContext demo_ar_env (demo_connector ct) = Inr ctx" using demo_buildContext by blast
  have c: "findConnector show_nat demo_ar_env now ''t1'' (ro_connectorId opts) d = (Inr (demo_connector ct), d)"
    using assms(4) demo_list_connectors [OF assms(1), of now] demo_readDefault [OF assms(2)]
    by (auto simp: findConnector_def findSoleActiveConnector_def pick_sole_def pick_explicit_def no_options_def revoke_options_def
        demo_credential_def demo_connector_def demo_cc_def)
  have "resolveOverride demo_ar_env opts = Inr None"
    using assms(4) by (auto simp: resolveOverride_def no_options_def revoke_options_def)
  then have r: "ar_resolve show_nat demo_ar_env demo_adapters now ''t1'' None opts d = (finish demo_ar_env None a (demo_connector ct), d)"
    if "toPortConnectorType ct = Some p" "getByConnectorType p demo_adapters = Inr a" for a p
    using c that by (simp add: ar_resolve_def demo_connector_def)
  have f: "aa_supportedFormats a \<noteq> [] \<Longrightarrow> \<exists>ra. finish demo_ar_env None a (demo_connector ct) = Inr ra \<and> ra_adapter ra = a" for a
    using ctx by (auto simp: finish_def selectFormat_def split: list.split)
  show ?thesis
  proof (cases "ct = TRACTION")
    case True
    have "aa_supportedFormats TractionAdapter \<noteq> []" by (simp add: TractionAdapter_def)
    with f r [of PC_Traction TractionAdapter] True show ?thesis
      by (auto simp: toPortConnectorType_def getByConnectorType_def demo_adapters_def)
  next
    case False
    have "aa_supportedFormats demo_credo \<noteq> []" by (simp add: demo_credo_def)
    with f r [of PC_Credo demo_credo] False assms(3) show ?thesis
      by (auto simp: toPortConnectorType_def getByConnectorType_def demo_adapters_def)
  qed
qed

lemma demo_create_op:
  assumes "ci_tenantId inp = ''t1''" "tenants d = tenants demo_db" "operations d = [demo_offer]"
  shows "\<exists>x rows. createOperation ''o9'' 5000 5 inp d = Inr (x, d\<lparr>operations := rows\<rparr>) \<and> op_id x = ''o9''"
  using assms by (auto simp: createOperation_def tns_findById_def tn_findById_def demo_db_def demo_tenant_def
      computeOperationExpiresAt_def resolveOperationTtlMs_def demo_offer_def demo_operation_def op_save_def HOUR_MS_def js_new_Date_def Let_def)

lemma demo_complete:
  assumes "createOperation ''o9'' 5000 5 inp d = Inr (x, d1)" "operations d2 = operations d1" "tenants d2 = tenants demo_db"
    "ci_tenantId inp = ''t1''"
  shows "\<exists>y d3. transitionState 5 ''o9'' OP_COMPLETED res d2 = Inr (y, d3)"
proof -
  have "op_findById ''o9'' d2 = Some x" "op_tenantId x = ''t1''" "op_createdAt x = 5000" "op_viewedAt x = None"
    using assms createOperation_ok [OF assms(1)]
    by (auto simp: op_findById_def createOperation_def rbind_eq_Inr op_save_def Let_def split: option.splits if_splits)
  then show ?thesis using assms(3)
    by (auto simp: transitionState_def tns_findById_def tn_findById_def demo_db_def demo_tenant_def computeOperationExpiresAt_def
        resolveOperationTtlMs_def to_js_date_def HOUR_MS_def js_new_Date_def Let_def)
qed

section \<open>Properties\<close>

text \<open>C32. Revocation is exact: when a call returns an operation, it is stored and either completed, and then the
  credential of the tenant is revoked with a revocation time, or failed, and then no credential has changed. Whatever
  happens, errors included, no other credential changes, in particular none of another tenant; and only AnonCreds
  credentials are ever revoked.\<close>

theorem revoke_exact:
  assumes "crs_revoke env st tenantId credentialId d = (r, d')" "tbl_keys cr_id (credentials d)"
  shows "filter (\<lambda>x. cr_id x \<noteq> credentialId \<or> cr_tenantId x \<noteq> tenantId) (credentials d')
       = filter (\<lambda>x. cr_id x \<noteq> credentialId \<or> cr_tenantId x \<noteq> tenantId) (credentials d)
     \<and> (\<forall>x. r = Inr x \<longrightarrow> op_findById (os_id st) d' = Some x
          \<and> (op_state x = OP_FAILED \<and> credentials d' = credentials d
             \<or> op_state x = OP_COMPLETED \<and> (\<exists>c. cr_findByIdForTenant credentialId tenantId d' = Some c
                  \<and> cr_state c = CR_REVOKED \<and> cr_revokedAt c \<noteq> None \<and> cr_format c = F_ANONCREDS)))"
  using crs_revoke_parts [OF assms(1)]
proof (elim disjE exE conjE)
  fix c rv
  let ?u = "cr_updateState (os_now st) credentialId CR_REVOKED None (Some rv) d"
  assume c: "cr_findByIdForTenant credentialId tenantId d = Some c" "cr_format c = F_ANONCREDS" "credentials d' = credentials ?u"
    "\<forall>x. r = Inr x \<longrightarrow> op_state x = OP_COMPLETED \<and> op_findById (os_id st) d' = Some x"
  have "cr_findByIdForTenant credentialId tenantId d' = cr_findByIdForTenant credentialId tenantId ?u"
    using c(3) by (simp add: cr_findByIdForTenant_def)
  also note cr_updateState_find [OF assms(2) c(1), of "os_now st" CR_REVOKED None rv]
  finally show ?thesis using c(2-4) cr_updateState_others [OF assms(2) c(1)] by simp
qed auto

theorem revoke_exact_witness:
  "\<exists>x d'. crs_revoke demo_agent_env demo_stamp ''t1'' ''c1'' (demo_agent_db CREDO) = (Inr x, d')
     \<and> op_findById ''o9'' d' = Some x \<and> op_state x = OP_COMPLETED
     \<and> (\<exists>c. cr_findByIdForTenant ''c1'' ''t1'' d' = Some c \<and> cr_state c = CR_REVOKED)"
proof -
  let ?d = "demo_agent_db CREDO"
  obtain x rows where x: "createOperation ''o9'' 5000 5 (revoke_input ''t1'' ''c1'' ''ex1'') ?d = Inr (x, ?d\<lparr>operations := rows\<rparr>)"
    "op_id x = ''o9''" using demo_create_op [of "revoke_input ''t1'' ''c1'' ''ex1''" ?d] by (auto simp: revoke_input_def demo_agent_db_def)
  let ?d1 = "?d\<lparr>operations := rows\<rparr>"
  obtain ra where ra: "ar_resolve show_nat demo_ar_env demo_adapters 5 ''t1'' None (revoke_options demo_credential) ?d1 = (Inr ra, ?d1)"
    "ra_adapter ra = demo_credo" using demo_resolve [of ?d1 CREDO "revoke_options demo_credential" 5] by (auto simp: demo_agent_db_def)
  let ?d2 = "cr_updateState 5 ''c1'' CR_REVOKED None (Some 5) ?d1"
  obtain y d3 where y: "transitionState 5 ''o9'' OP_COMPLETED (Some (JObj [])) ?d2 = Inr (y, d3)"
    using demo_complete [OF x(1), of ?d2 "Some (JObj [])"] by (auto simp: cr_updateState_def demo_agent_db_def revoke_input_def)
  have r: "crs_revoke demo_agent_env demo_stamp ''t1'' ''c1'' ?d = (Inr y, emit_revoke ''t1'' ''c1'' OP_COMPLETED d3)"
  proof -
    have "revocable ''t1'' ''c1'' ?d = Inr (demo_credential, ''ex1'')"
      by (simp add: revocable_def cr_findByIdForTenant_def demo_agent_db_def demo_credential_def REVOCABLE_FORMATS_def)
    moreover have "cr_id demo_credential = ''c1''" by (simp add: demo_credential_def)
    ultimately show ?thesis using x ra y
      by (simp add: crs_revoke_def demo_stamp_def demo_agent_env_def try_revoke_def demo_credo_def settle_revoke_def Let_def)
  qed
  have "tbl_keys cr_id (credentials ?d)" by (simp add: demo_agent_db_def tbl_keys_def)
  from revoke_exact [OF r this] show ?thesis using r transitionState_ok [OF y] by (auto simp: demo_stamp_def)
qed

text \<open>C40. An exception of the agent that is not an adapter error leaves the operation behind: when the tenant's connector is
  a Traction one, whose adapter answers every call with \<^verbatim>\<open>NotImplementedException\<close>, an accept or reject returns that error,
  while the new operation stays pending in the database and no audit event is queued.\<close>

theorem traction_action_left_pending:
  assumes "op_findByIdForTenant exchangeId tenantId d = Some offer" "op_type offer = ''credential.offer''"
    "op_externalId offer = Some ext" "ext \<noteq> []"
    "createOperation (os_id st) (os_created st) (os_now st) (action_input action tenantId exchangeId ext) d = Inr (x, d1)"
    "ar_resolve (ag_show env) (ag_ar env) (ag_adapters env) (os_now st) tenantId None no_options d1 = (Inr ra, d2)"
    "ra_adapter ra = TractionAdapter"
  shows "\<exists>m d'. perform env st action tenantId exchangeId d = (Err (NotImplemented m), d')
     \<and> (\<exists>y. op_findById (os_id st) d' = Some y \<and> op_state y = OP_PENDING) \<and> audit_jobs d' = audit_jobs d"
proof -
  have "op_findById (os_id st) d2 = Some x" "op_state x = OP_PENDING" "audit_jobs d2 = audit_jobs d"
    using createOperation_ok [OF assms(5)] ar_resolve_frame [OF assms(6)] by (simp_all add: op_findById_def)
  then show ?thesis using assms
    by (cases action) (auto simp: perform_def try_action_def completeAccept_def completeReject_def TractionAdapter_def
        traction_notImplemented_def catch_adapter_error_def Let_def)
qed

theorem traction_action_left_pending_witness:
  "\<exists>m d'. perform demo_agent_env demo_stamp ACCEPT ''t1'' ''o1'' (demo_agent_db TRACTION) = (Err (NotImplemented m), d')
     \<and> (\<exists>y. op_findById ''o9'' d' = Some y \<and> op_state y = OP_PENDING)"
proof -
  let ?d = "demo_agent_db TRACTION" and ?i = "action_input ACCEPT ''t1'' ''o1'' ''ex1''"
  obtain x rows where x: "createOperation ''o9'' 5000 5 ?i ?d = Inr (x, ?d\<lparr>operations := rows\<rparr>)"
    using demo_create_op [of ?i ?d] by (auto simp: action_input_def demo_agent_db_def)
  let ?d1 = "?d\<lparr>operations := rows\<rparr>"
  obtain ra where ra: "ar_resolve show_nat demo_ar_env demo_adapters 5 ''t1'' None no_options ?d1 = (Inr ra, ?d1)"
    "ra_adapter ra = TractionAdapter" using demo_resolve [of ?d1 TRACTION no_options 5] by (auto simp: demo_agent_db_def)
  have o: "op_findByIdForTenant ''o1'' ''t1'' ?d = Some demo_offer" "op_type demo_offer = ''credential.offer''"
    "op_externalId demo_offer = Some ''ex1''"
    by (simp_all add: op_findByIdForTenant_def demo_agent_db_def demo_offer_def demo_operation_def)
  show ?thesis using traction_action_left_pending [OF o, of demo_stamp ACCEPT x ?d1 demo_agent_env ra ?d1] x ra
    by (auto simp: demo_stamp_def demo_agent_env_def)
qed

end
