(* ===== verification/Oidc_Store.thy ===== *)
theory Oidc_Store
  imports Tenant Purge
begin

text \<open>
  \<^verbatim>\<open>libs/oidc\<close>: the storage adapter of the OIDC provider over the \<^verbatim>\<open>oidc_model\<close> table, the account-scoped
  reads and deletes over the same table, the concurrent-session limit and the hourly purge.
\<close>

section \<open>OidcModelAdapter\<close>

definition payload_str :: "string \<Rightarrow> (string \<times> json) list \<Rightarrow> string option" where
  "payload_str k p = (case map_of p k of Some (JStr s) \<Rightarrow> Some s | _ \<Rightarrow> None)"

definition om_key :: "oidc_model \<Rightarrow> string \<times> string" where
  "om_key r = (om_modelName r, om_oidcId r)"

text \<open>\<^verbatim>\<open>INSERT ... ON CONFLICT (model_name, oidc_id) DO UPDATE\<close>: an existing row keeps its id and its creation
  time; \<open>newid\<close> and \<open>created\<close> are what the database gives a new one.\<close>

definition om_upsert ::
  "string \<Rightarrow> micros \<Rightarrow> time \<Rightarrow> string \<Rightarrow> string \<Rightarrow> (string \<times> json) list \<Rightarrow> int \<Rightarrow> db \<Rightarrow> db" where
  "om_upsert newid created now modelName i payload expiresIn d =
     (let old = tbl_find om_key (modelName, i) (oidc_models d);
          row = \<lparr>om_id = (case old of None \<Rightarrow> newid | Some r \<Rightarrow> om_id r), om_modelName = modelName, om_oidcId = i,
                 om_payload = payload, om_grantId = payload_str ''grantId'' payload,
                 om_userCode = payload_str ''userCode'' payload, om_uid = payload_str ''uid'' payload,
                 om_accountId = payload_str ''accountId'' payload,
                 om_expiresAt = (if expiresIn > 0 then Some (now + expiresIn * 1000) else None),
                 om_consumedAt = None,
                 om_createdAt = (case old of None \<Rightarrow> created | Some r \<Rightarrow> om_createdAt r)\<rparr>
      in d\<lparr>oidc_models := tbl_save om_key row (oidc_models d)\<rparr>)"

definition toPayloadIfActive :: "time \<Rightarrow> oidc_model option \<Rightarrow> (string \<times> json) list option" where
  "toPayloadIfActive now row =
     (case row of
        None \<Rightarrow> None
      | Some r \<Rightarrow>
          if (case om_expiresAt r of None \<Rightarrow> False | Some e \<Rightarrow> e \<le> now) then None
          else Some (case om_consumedAt r of
              None \<Rightarrow> om_payload r
            | Some c \<Rightarrow> config_set ''consumed'' (JNum (of_int (c div 1000))) (om_payload r)))"

definition om_find :: "time \<Rightarrow> string \<Rightarrow> string \<Rightarrow> db \<Rightarrow> (string \<times> json) list option" where
  "om_find now modelName i d = toPayloadIfActive now (tbl_find om_key (modelName, i) (oidc_models d))"

definition om_findByUserCode :: "time \<Rightarrow> string \<Rightarrow> string \<Rightarrow> db \<Rightarrow> (string \<times> json) list option" where
  "om_findByUserCode now modelName userCode d =
     toPayloadIfActive now (List.find (\<lambda>r. om_modelName r = modelName \<and> om_userCode r = Some userCode) (oidc_models d))"

definition om_findByUid :: "time \<Rightarrow> string \<Rightarrow> string \<Rightarrow> db \<Rightarrow> (string \<times> json) list option" where
  "om_findByUid now modelName uid d =
     toPayloadIfActive now (List.find (\<lambda>r. om_modelName r = modelName \<and> om_uid r = Some uid) (oidc_models d))"

definition om_consume :: "time \<Rightarrow> string \<Rightarrow> string \<Rightarrow> db \<Rightarrow> db" where
  "om_consume now modelName i d =
     d\<lparr>oidc_models := tbl_update (\<lambda>r. om_key r = (modelName, i)) (\<lambda>r. r\<lparr>om_consumedAt := Some now\<rparr>) (oidc_models d)\<rparr>"

text \<open>The upstream log-out that precedes the deletion of a session touches other tables only.\<close>

definition om_destroy :: "string \<Rightarrow> string \<Rightarrow> db \<Rightarrow> db" where
  "om_destroy modelName i d = d\<lparr>oidc_models := filter (\<lambda>r. om_key r \<noteq> (modelName, i)) (oidc_models d)\<rparr>"

definition om_revokeByGrantId :: "string \<Rightarrow> string \<Rightarrow> db \<Rightarrow> db" where
  "om_revokeByGrantId modelName grantId d =
     d\<lparr>oidc_models := filter (\<lambda>r. \<not> (om_modelName r = modelName \<and> om_grantId r = Some grantId)) (oidc_models d)\<rparr>"

section \<open>OidcClientAdapter\<close>

definition toClientMetadata :: "oidc_client_record \<Rightarrow> (string \<times> json) list" where
  "toClientMetadata c =
     [(''client_id'', JStr (ocr_clientId c)), (''client_name'', JStr (ocr_name c)), (''tenant_id'', JStr (ocr_tenantId c)),
      (''roles'', JArr (map JStr (ocr_roles c))), (''redirect_uris'', JArr (map JStr (ocr_redirectUris c))),
      (''post_logout_redirect_uris'', JArr (map JStr (ocr_postLogoutRedirectUris c))),
      (''grant_types'', JArr (map JStr (ocr_grantTypes c))),
      (''response_types'', JArr (if ''authorization_code'' \<in> set (ocr_grantTypes c) then [JStr ''code''] else [])),
      (''scope'', JStr (js_join '' '' (ocr_scopes c)))] @
     (if ocr_isPublic c then [(''token_endpoint_auth_method'', JStr ''none'')]
      else (let h = (case ocr_clientSecretHash c of None \<Rightarrow> JNull | Some h \<Rightarrow> JStr h)
            in [(''client_secret'', h), (''client_secret_hash'', h),
                (''token_endpoint_auth_method'', JStr ''client_secret_basic'')])) @
     (case ocr_refreshTokenTtlSeconds c of None \<Rightarrow> [] | Some s \<Rightarrow> [(''refresh_token_ttl_seconds'', JNum (of_int s))])"

definition ocl_find :: "string \<Rightarrow> db \<Rightarrow> (string \<times> json) list option" where
  "ocl_find i d = map_option toClientMetadata (findActiveClient i d)"

section \<open>OidcAccountSessionRepository\<close>

definition ACCOUNT_BOUND_MODELS :: "string list" where
  "ACCOUNT_BOUND_MODELS = [''Session'', ''Grant'', ''AccessToken'', ''RefreshToken'', ''AuthorizationCode'', ''DeviceCode'',
     ''BackchannelAuthenticationRequest'']"

definition SESSION_MODEL :: string where
  "SESSION_MODEL = ''Session''"

record account_session =
  as_oidcId :: string
  as_createdAt :: micros
  as_grantIds :: "string list"

text \<open>\<^verbatim>\<open>Object.values\<close>, and the properties an object literal copies with \<^verbatim>\<open>...\<close>.\<close>

definition obj_entries :: "json \<Rightarrow> (string \<times> json) list" where
  "obj_entries v = (case v of JObj kvs \<Rightarrow> kvs | JArr vs \<Rightarrow> zip (map show_nat [0..<length vs]) vs | _ \<Rightarrow> [])"

definition is_object :: "json \<Rightarrow> bool" where
  "is_object v = (case v of JObj _ \<Rightarrow> True | JArr _ \<Rightarrow> True | _ \<Rightarrow> False)"

definition extractGrantIds :: "(string \<times> json) list \<Rightarrow> string list" where
  "extractGrantIds payload =
     List.map_filter (\<lambda>(k, a). case jget a ''grantId'' of JStr g \<Rightarrow> Some g | _ \<Rightarrow> None)
       (obj_entries (jget (JObj payload) ''authorizations''))"

definition rebind_payload :: "string \<Rightarrow> string \<Rightarrow> string \<Rightarrow> (string \<times> json) list \<Rightarrow> (string \<times> json) list" where
  "rebind_payload toAccountId clientId grantId payload =
     (let p = config_set ''accountId'' (JStr toAccountId) payload in
      case jget (JObj p) ''authorizations'' of
        JObj auths \<Rightarrow>
          (let current = jget (JObj auths) clientId in
           if is_object current
           then config_set ''authorizations''
                  (JObj (config_set clientId (JObj (config_set ''grantId'' (JStr grantId) (obj_entries current))) auths)) p
           else p)
      | _ \<Rightarrow> p)"

definition rebindSessionsToAccount :: "string \<Rightarrow> string \<Rightarrow> string \<Rightarrow> string \<Rightarrow> db \<Rightarrow> db" where
  "rebindSessionsToAccount fromAccountId toAccountId clientId grantId d =
     d\<lparr>oidc_models := tbl_update (\<lambda>r. om_modelName r = SESSION_MODEL \<and> om_accountId r = Some fromAccountId)
         (\<lambda>r. r\<lparr>om_accountId := Some toAccountId,
                om_payload := rebind_payload toAccountId clientId grantId (om_payload r)\<rparr>) (oidc_models d)\<rparr>"

definition active_session :: "time \<Rightarrow> string \<Rightarrow> oidc_model \<Rightarrow> bool" where
  "active_session now accountId r =
     (om_modelName r = SESSION_MODEL \<and> om_accountId r = Some accountId
      \<and> (case om_expiresAt r of None \<Rightarrow> True | Some e \<Rightarrow> now < e))"

definition countActiveSessions :: "time \<Rightarrow> string \<Rightarrow> db \<Rightarrow> nat" where
  "countActiveSessions now accountId d = length (filter (active_session now accountId) (oidc_models d))"

definition to_account_session :: "oidc_model \<Rightarrow> account_session" where
  "to_account_session r =
     \<lparr>as_oidcId = om_oidcId r, as_createdAt = om_createdAt r, as_grantIds = extractGrantIds (om_payload r)\<rparr>"

definition age_key :: "oidc_model \<Rightarrow> micros \<times> string" where
  "age_key r = (om_createdAt r, om_oidcId r)"

definition findActiveSessions :: "time \<Rightarrow> string \<Rightarrow> db \<Rightarrow> account_session list" where
  "findActiveSessions now accountId d =
     map to_account_session (sort_key age_key (filter (active_session now accountId) (oidc_models d)))"

text \<open>The deletes return how many rows went; the source groups that number by model.\<close>

definition om_delete_where :: "(oidc_model \<Rightarrow> bool) \<Rightarrow> db \<Rightarrow> nat \<times> db" where
  "om_delete_where p d =
     (length (filter p (oidc_models d)), d\<lparr>oidc_models := filter (\<lambda>r. \<not> p r) (oidc_models d)\<rparr>)"

definition deleteSessions :: "account_session list \<Rightarrow> db \<Rightarrow> nat \<times> db" where
  "deleteSessions sessions d =
     (if sessions = [] then (0, d)
      else
        let oidcIds = map as_oidcId sessions; grantIds = concat (map as_grantIds sessions)
        in om_delete_where (\<lambda>r.
             om_modelName r = SESSION_MODEL \<and> om_oidcId r \<in> set oidcIds
             \<or> (case om_grantId r of None \<Rightarrow> False | Some g \<Rightarrow> g \<in> set grantIds)
             \<or> om_modelName r = ''Grant'' \<and> om_oidcId r \<in> set grantIds) d)"

text \<open>The rows bound to one of the accounts \<open>a\<close>, or hanging off one of their grants.\<close>

definition account_rows :: "(string \<Rightarrow> bool) \<Rightarrow> db \<Rightarrow> oidc_model \<Rightarrow> bool" where
  "account_rows a d r =
     (let of_account = (\<lambda>x. case om_accountId x of None \<Rightarrow> False | Some i \<Rightarrow> a i);
          targeted = map om_oidcId (filter (\<lambda>x. om_modelName x = ''Grant'' \<and> of_account x) (oidc_models d))
      in om_modelName r \<in> set ACCOUNT_BOUND_MODELS \<and> of_account r
         \<or> (case om_grantId r of None \<Rightarrow> False | Some g \<Rightarrow> g \<in> set targeted))"

definition deleteAllForAccount :: "string \<Rightarrow> db \<Rightarrow> nat \<times> db" where
  "deleteAllForAccount accountId d = om_delete_where (account_rows (\<lambda>i. i = accountId) d) d"

definition deleteAllForTenantRole :: "string \<Rightarrow> string \<Rightarrow> db \<Rightarrow> nat \<times> db" where
  "deleteAllForTenantRole tenantId role d =
     (let accounts = map u_id (filter (\<lambda>u. u_tenantId u = tenantId \<and> role_str (u_role u) = role) (tenant_users d))
      in om_delete_where (account_rows (\<lambda>i. i \<in> set accounts) d) d)"

text \<open>\<^verbatim>\<open>ORDER BY created_at DESC, oidc_id DESC OFFSET keep\<close>: all but the newest \<open>keep\<close> candidates.\<close>

definition surplus_sessions :: "time \<Rightarrow> string \<Rightarrow> nat \<Rightarrow> string option \<Rightarrow> db \<Rightarrow> oidc_model list" where
  "surplus_sessions now accountId limit newSessionId d =
     (let keep = (case newSessionId of None \<Rightarrow> limit | Some s \<Rightarrow> if s = [] then limit else limit - 1);
          candidates = filter (\<lambda>r. active_session now accountId r
              \<and> (case newSessionId of None \<Rightarrow> True | Some s \<Rightarrow> om_oidcId r \<noteq> s)) (oidc_models d)
      in drop keep (sort_key (\<lambda>r. Desc (age_key r)) candidates))"

definition claimSurplusSessions :: "time \<Rightarrow> string \<Rightarrow> nat \<Rightarrow> string option \<Rightarrow> db \<Rightarrow> account_session list \<times> db" where
  "claimSurplusSessions now accountId limit newSessionId d =
     (let ids = map om_oidcId (surplus_sessions now accountId limit newSessionId d);
          gone = (\<lambda>r. om_modelName r = SESSION_MODEL \<and> om_oidcId r \<in> set ids)
      in (map to_account_session (filter gone (oidc_models d)),
          d\<lparr>oidc_models := filter (\<lambda>r. \<not> gone r) (oidc_models d)\<rparr>))"

section \<open>SessionLimitService\<close>

record session_limit_result =
  slr_priorSessionCount :: nat
  slr_evictedSessionCount :: nat
  slr_limit :: nat

definition enforce_limit :: "nat \<Rightarrow> time \<Rightarrow> string \<Rightarrow> string option \<Rightarrow> db \<Rightarrow> session_limit_result \<times> db" where
  "enforce_limit limit now accountId newSessionId d =
     (if limit = 0 then (\<lparr>slr_priorSessionCount = 0, slr_evictedSessionCount = 0, slr_limit = limit\<rparr>, d)
      else
        let prior = countActiveSessions now accountId d;
            (evicted, d1) = claimSurplusSessions now accountId limit newSessionId d
        in if evicted = [] then (\<lparr>slr_priorSessionCount = prior, slr_evictedSessionCount = 0, slr_limit = limit\<rparr>, d1)
           else (\<lparr>slr_priorSessionCount = prior, slr_evictedSessionCount = length evicted, slr_limit = limit\<rparr>,
                 snd (deleteSessions evicted d1)))"

section \<open>Purge of expired rows\<close>

definition om_expired :: "time \<Rightarrow> oidc_model \<Rightarrow> bool" where
  "om_expired now r = (case om_expiresAt r of None \<Rightarrow> False | Some e \<Rightarrow> e < now)"

definition om_age :: "oidc_model \<Rightarrow> time" where
  "om_age r = (case om_expiresAt r of None \<Rightarrow> 0 | Some e \<Rightarrow> e)"

definition om_purgeExpiredBatch :: "time \<Rightarrow> nat \<Rightarrow> db \<Rightarrow> nat \<times> db" where
  "om_purgeExpiredBatch now limit d =
     (let (count, rows) = delete_oldest om_id om_age (om_expired now) (max 1 limit) (oidc_models d)
      in (count, d\<lparr>oidc_models := rows\<rparr>))"

definition OIDC_BATCH_SIZE :: nat where
  "OIDC_BATCH_SIZE = 500"

definition OIDC_MAX_BATCHES_PER_RUN :: nat where
  "OIDC_MAX_BATCHES_PER_RUN = 50"

text \<open>One round of the loop: the upstream tables, reached through the federation port, are cleaned first and
  are no part of this state; only the count of deleted \<^verbatim>\<open>oidc_model\<close> rows decides whether the loop goes on.\<close>

definition purgeExpiredModels :: "time \<Rightarrow> db \<Rightarrow> nat \<times> db" where
  "purgeExpiredModels now d = purge_run OIDC_MAX_BATCHES_PER_RUN (om_purgeExpiredBatch now OIDC_BATCH_SIZE) d"

section \<open>Table invariant\<close>

definition om_inv :: "db \<Rightarrow> bool" where
  "om_inv d = (tbl_keys om_key (oidc_models d) \<and> tbl_keys om_id (oidc_models d))"

lemma om_inv_filter: "om_inv d \<Longrightarrow> om_inv (d\<lparr>oidc_models := filter p (oidc_models d)\<rparr>)"
  by (simp add: om_inv_def tbl_keys_def distinct_map_filter)

lemma om_inv_update:
  assumes "om_inv d" "\<And>r. om_key (f r) = om_key r" "\<And>r. om_id (f r) = om_id r"
  shows "om_inv (d\<lparr>oidc_models := tbl_update p f (oidc_models d)\<rparr>)"
  using assms by (auto simp: om_inv_def intro!: tbl_keys_update)

lemma om_upsert_inv:
  assumes "om_inv d" "newid \<notin> om_id ` set (oidc_models d)"
  shows "om_inv (om_upsert newid created now m i payload ttl d)"
proof -
  let ?old = "tbl_find om_key (m, i) (oidc_models d)"
  have k: "\<forall>x\<in>set (oidc_models d). om_key x = (m, i) \<or> om_id x \<noteq> (case ?old of None \<Rightarrow> newid | Some r \<Rightarrow> om_id r)"
  proof (cases ?old)
    case None
    then show ?thesis using assms(2) by auto
  next
    case (Some r)
    then have "r \<in> set (oidc_models d)" "om_key r = (m, i)" using tbl_find_Some by fastforce+
    then show ?thesis using assms(1) Some by (auto simp: om_inv_def tbl_keys_def distinct_map dest: inj_onD)
  qed
  show ?thesis
    unfolding om_inv_def om_upsert_def Let_def
    using assms(1) k by (auto simp: om_inv_def om_key_def intro!: tbl_keys_save tbl_keys_save_other)
qed

section \<open>The contract of an adapter\<close>

text \<open>What the OIDC provider relies on: a store of payloads by model and id, with a life time and a consumed
  mark.\<close>

locale model_store =
  fixes fetch :: "'t \<Rightarrow> 'k \<Rightarrow> 's \<Rightarrow> 'p option"
    and put :: "'t \<Rightarrow> 'k \<Rightarrow> 'p \<Rightarrow> 's \<Rightarrow> 's"
    and del :: "'k \<Rightarrow> 's \<Rightarrow> 's"
    and mark :: "'t \<Rightarrow> 'k \<Rightarrow> 's \<Rightarrow> 's"
    and alive :: "'t \<Rightarrow> 't \<Rightarrow> bool"
    and marked :: "'t \<Rightarrow> 'p \<Rightarrow> 'p"
  assumes fetch_put: "fetch t k (put t0 k' p s) = (if k = k' then if alive t0 t then Some p else None else fetch t k s)"
    and fetch_del: "fetch t k (del k' s) = (if k = k' then None else fetch t k s)"
    and fetch_mark_other: "k \<noteq> k' \<Longrightarrow> fetch t k (mark t0 k' s) = fetch t k s"
    and fetch_put_mark: "fetch t k (mark t1 k (put t0 k p s)) = (if alive t0 t then Some (marked t1 p) else None)"
begin

lemma put_put: "fetch t j (put t0 k p (put t1 k q s)) = fetch t j (put t0 k p s)"
  by (simp add: fetch_put)

lemma del_put: "fetch t j (del k (put t0 k p s)) = fetch t j (del k s)"
  by (simp add: fetch_put fetch_del)

lemma put_unmarks: "fetch t k (put t2 k p (mark t1 k s)) = (if alive t2 t then Some p else None)"
  by (simp add: fetch_put)

end

lemma om_upsert_find:
  "tbl_find om_key k (oidc_models (om_upsert newid created now m i payload ttl d)) =
     (if k = (m, i)
      then Some \<lparr>om_id = (case tbl_find om_key (m, i) (oidc_models d) of None \<Rightarrow> newid | Some r \<Rightarrow> om_id r),
                 om_modelName = m, om_oidcId = i, om_payload = payload, om_grantId = payload_str ''grantId'' payload,
                 om_userCode = payload_str ''userCode'' payload, om_uid = payload_str ''uid'' payload,
                 om_accountId = payload_str ''accountId'' payload,
                 om_expiresAt = (if ttl > 0 then Some (now + ttl * 1000) else None), om_consumedAt = None,
                 om_createdAt = (case tbl_find om_key (m, i) (oidc_models d) of None \<Rightarrow> created | Some r \<Rightarrow> om_createdAt r)\<rparr>
      else tbl_find om_key k (oidc_models d))"
  by (simp add: om_upsert_def Let_def tbl_find_save om_key_def)

lemma tbl_find_filter_key: "tbl_find key k (filter (\<lambda>r. key r \<noteq> k') rows) = (if k = k' then None else tbl_find key k rows)"
  by (induction rows) auto

interpretation adapter: model_store
  "\<lambda>now (m, i) d. om_find now m i d"
  "\<lambda>now (m, i) p d. om_upsert newid created now m i p ttl d"
  "\<lambda>(m, i) d. om_destroy m i d"
  "\<lambda>now (m, i) d. om_consume now m i d"
  "\<lambda>t0 t. ttl \<le> 0 \<or> t < t0 + ttl * 1000"
  "\<lambda>now p. config_set ''consumed'' (JNum (of_int (now div 1000))) p" for newid created ttl
proof (unfold_locales, goal_cases)
  case (1 t k t0 k' p s)
  then show ?case by (auto simp: om_find_def toPayloadIfActive_def om_upsert_find split: prod.splits)
next
  case (2 t k k' s)
  then show ?case
    by (auto simp: om_find_def toPayloadIfActive_def om_destroy_def tbl_find_filter_key split: prod.splits)
next
  case (3 k k' t t0 s)
  then show ?case
    by (auto simp: om_find_def om_consume_def tbl_find_update om_key_def map_option_case split: prod.splits option.splits
        dest!: tbl_find_Some)
next
  case (4 t k t1 t0 p s)
  then show ?case
    by (auto simp: om_find_def toPayloadIfActive_def om_consume_def tbl_find_update om_upsert_find om_key_def split: prod.splits)
qed

interpretation om_purge: expiring_store oidc_models "om_expired now" "om_purgeExpiredBatch now limit" "max 1 limit"
  om_inv for now limit
proof unfold_locales
  fix d :: db
  assume inv: "om_inv d"
  then have dist: "distinct (map om_id (oidc_models d))" by (simp add: om_inv_def tbl_keys_def)
  note laws = delete_oldest_count [OF dist, where age = om_age and expired = "om_expired now" and n = "max 1 limit"]
  show "fst (om_purgeExpiredBatch now limit d) = min (max 1 limit) (length (filter (om_expired now) (oidc_models d)))"
    using laws(1) by (simp add: om_purgeExpiredBatch_def case_prod_beta)
  show "length (filter (om_expired now) (oidc_models (snd (om_purgeExpiredBatch now limit d))))
      = length (filter (om_expired now) (oidc_models d)) - max 1 limit"
    using laws(2) by (simp add: om_purgeExpiredBatch_def case_prod_beta)
  show "filter (\<lambda>x. \<not> om_expired now x) (oidc_models (snd (om_purgeExpiredBatch now limit d)))
      = filter (\<lambda>x. \<not> om_expired now x) (oidc_models d)"
    using laws(3) by (simp add: om_purgeExpiredBatch_def case_prod_beta)
  show "om_inv (snd (om_purgeExpiredBatch now limit d))"
    using inv by (simp add: om_purgeExpiredBatch_def case_prod_beta delete_oldest_def Let_def om_inv_filter)
qed

section \<open>The adapter as a map\<close>

text \<open>Abstract state: for each model and id, the payload, when it expires and when it was consumed.\<close>

type_synonym abs_entry = "(string \<times> json) list \<times> time option \<times> time option"

datatype om_op =
    OM_upsert string micros time string string "(string \<times> json) list" int
  | OM_consume time string string
  | OM_destroy string string
  | OM_revokeGrant string string

fun om_step :: "om_op \<Rightarrow> db \<Rightarrow> db" where
  "om_step (OM_upsert newid created now m i payload ttl) d = om_upsert newid created now m i payload ttl d"
| "om_step (OM_consume now m i) d = om_consume now m i d"
| "om_step (OM_destroy m i) d = om_destroy m i d"
| "om_step (OM_revokeGrant m g) d = om_revokeByGrantId m g d"

fun am_step :: "om_op \<Rightarrow> (string \<times> string \<Rightarrow> abs_entry option) \<Rightarrow> string \<times> string \<Rightarrow> abs_entry option" where
  "am_step (OM_upsert newid created now m i payload ttl) a =
     a((m, i) \<mapsto> (payload, if ttl > 0 then Some (now + ttl * 1000) else None, None))"
| "am_step (OM_consume now m i) a = a((m, i) := map_option (\<lambda>(p, e, c). (p, e, Some now)) (a (m, i)))"
| "am_step (OM_destroy m i) a = a((m, i) := None)"
| "am_step (OM_revokeGrant m g) a =
     (\<lambda>k. case a k of
        Some (p, e, c) \<Rightarrow> if fst k = m \<and> payload_str ''grantId'' p = Some g then None else Some (p, e, c)
      | None \<Rightarrow> None)"

definition om_abs :: "db \<Rightarrow> string \<times> string \<Rightarrow> abs_entry option" where
  "om_abs d k = map_option (\<lambda>r. (om_payload r, om_expiresAt r, om_consumedAt r)) (tbl_find om_key k (oidc_models d))"

definition am_find :: "time \<Rightarrow> (string \<times> string \<Rightarrow> abs_entry option) \<Rightarrow> string \<Rightarrow> string \<Rightarrow> (string \<times> json) list option" where
  "am_find now a m i =
     (case a (m, i) of
        Some (p, e, c) \<Rightarrow>
          if (case e of None \<Rightarrow> False | Some t \<Rightarrow> t \<le> now) then None
          else Some (case c of None \<Rightarrow> p | Some t \<Rightarrow> config_set ''consumed'' (JNum (of_int (t div 1000))) p)
      | None \<Rightarrow> None)"

text \<open>Keys are unique and the promoted grant column agrees with the payload.\<close>

definition om_consistent :: "db \<Rightarrow> bool" where
  "om_consistent d =
     (tbl_keys om_key (oidc_models d) \<and> (\<forall>r\<in>set (oidc_models d). om_grantId r = payload_str ''grantId'' (om_payload r)))"

lemma om_find_abs: "om_find now m i d = am_find now (om_abs d) m i"
  by (auto simp: om_find_def toPayloadIfActive_def am_find_def om_abs_def split: option.splits)

lemma om_step_consistent: "om_consistent d \<Longrightarrow> om_consistent (om_step oper d)"
proof (cases oper)
  case (OM_upsert newid created now m i payload ttl)
  assume "om_consistent d"
  then show ?thesis
    unfolding OM_upsert om_step.simps om_upsert_def Let_def om_consistent_def
    by (auto intro!: tbl_keys_save dest!: subsetD [OF set_tbl_save])
qed (auto simp: om_consistent_def om_consume_def om_destroy_def om_revokeByGrantId_def om_key_def set_tbl_update tbl_keys_def
    distinct_map_filter intro!: tbl_keys_update [unfolded tbl_keys_def])

lemma om_step_abs:
  assumes "om_consistent d"
  shows "om_abs (om_step oper d) = am_step oper (om_abs d)"
proof (cases oper)
  case (OM_upsert newid created now m i payload ttl)
  then show ?thesis by (auto simp: om_abs_def om_upsert_find fun_eq_iff)
next
  case (OM_consume now m i)
  have "tbl_find om_key k (oidc_models (om_consume now m i d)) =
      map_option (\<lambda>r. if om_key r = (m, i) then r\<lparr>om_consumedAt := Some now\<rparr> else r) (tbl_find om_key k (oidc_models d))" for k
    unfolding om_consume_def by (simp add: tbl_find_update om_key_def)
  then show ?thesis using OM_consume
    by (auto simp: om_abs_def fun_eq_iff map_option_case split: option.splits dest: tbl_find_Some)
next
  case (OM_destroy m i)
  then show ?thesis by (auto simp: om_abs_def om_destroy_def tbl_find_filter_key fun_eq_iff)
next
  case (OM_revokeGrant m g)
  have k: "tbl_keys om_key (oidc_models d)" using assms by (simp add: om_consistent_def)
  show ?thesis
  proof
    fix k
    show "om_abs (om_step oper d) k = am_step oper (om_abs d) k"
    proof (cases "tbl_find om_key k (oidc_models d)")
      case (Some r)
      then have "r \<in> set (oidc_models d)" "om_key r = k" using tbl_find_Some by fastforce+
      then have "om_grantId r = payload_str ''grantId'' (om_payload r)" "om_modelName r = fst k"
        using assms by (auto simp: om_consistent_def om_key_def)
      then show ?thesis using Some OM_revokeGrant
        by (simp add: om_abs_def om_revokeByGrantId_def tbl_find_filter [OF k])
    qed (use OM_revokeGrant in \<open>simp add: om_abs_def om_revokeByGrantId_def tbl_find_filter [OF k]\<close>)
  qed
qed

section \<open>Session limit\<close>

lemma session_key_unique:
  assumes "om_inv d" "r \<in> set (oidc_models d)" "e \<in> set (oidc_models d)"
    and "om_modelName r = om_modelName e" "om_oidcId r = om_oidcId e"
  shows "r = e"
  using assms by (auto simp: om_inv_def om_key_def intro: tbl_keys_inj [of om_key])

definition limit_candidates :: "time \<Rightarrow> string \<Rightarrow> string \<Rightarrow> db \<Rightarrow> oidc_model list" where
  "limit_candidates now a s d = filter (\<lambda>r. active_session now a r \<and> om_oidcId r \<noteq> s) (oidc_models d)"

lemma surplus_Some:
  "s \<noteq> [] \<Longrightarrow> surplus_sessions now a limit (Some s) d
     = drop (limit - 1) (sort_key (\<lambda>r. Desc (age_key r)) (limit_candidates now a s d))"
  by (simp add: surplus_sessions_def limit_candidates_def)

lemma kept_candidates:
  assumes "s \<noteq> []"
  shows "length (filter (\<lambda>r. om_oidcId r \<notin> om_oidcId ` set (surplus_sessions now a limit (Some s) d)) (limit_candidates now a s d))
       \<le> limit - 1"
proof -
  let ?srt = "sort_key (\<lambda>r. Desc (age_key r)) (limit_candidates now a s d)"
  let ?P = "\<lambda>r. om_oidcId r \<notin> om_oidcId ` set (drop (limit - 1) ?srt)"
  have "length (filter ?P (limit_candidates now a s d)) = length (filter ?P ?srt)"
    by (simp add: filter_sort)
  also have "\<dots> = length (filter ?P (take (limit - 1) ?srt @ drop (limit - 1) ?srt))" by simp
  also have "\<dots> = length (filter ?P (take (limit - 1) ?srt))"
    unfolding filter_append by (simp del: append_take_drop_id add: filter_empty_conv)
  also have "\<dots> \<le> length (take (limit - 1) ?srt)" by (rule length_filter_le)
  also have "\<dots> \<le> limit - 1" by simp
  finally show ?thesis using assms by (simp add: surplus_Some)
qed

lemma enforce_models:
  fixes now a s d
  assumes "limit > 0"
  defines "ids \<equiv> om_oidcId ` set (surplus_sessions now a limit (Some s) d)"
  shows "\<exists>p. oidc_models (snd (enforce_limit limit now a (Some s) d)) = filter p (oidc_models d)
     \<and> (\<forall>r. p r \<longrightarrow> \<not> (om_modelName r = SESSION_MODEL \<and> om_oidcId r \<in> ids))
     \<and> (\<forall>r. om_modelName r = SESSION_MODEL \<and> om_oidcId r \<notin> ids \<and> om_grantId r = None \<longrightarrow> p r)"
proof -
  obtain ev d1 where c: "claimSurplusSessions now a limit (Some s) d = (ev, d1)" by force
  then have d1: "oidc_models d1 = filter (\<lambda>r. \<not> (om_modelName r = SESSION_MODEL \<and> om_oidcId r \<in> ids)) (oidc_models d)"
    and ev: "\<forall>x\<in>set ev. as_oidcId x \<in> ids"
    by (auto simp: claimSurplusSessions_def Let_def ids_def to_account_session_def)
  show ?thesis
  proof (cases "ev = []")
    case True
    then show ?thesis using assms(1) c d1 by (intro exI [of _ "\<lambda>r. \<not> (om_modelName r = SESSION_MODEL \<and> om_oidcId r \<in> ids)"])
      (simp add: enforce_limit_def Let_def)
  next
    case False
    let ?g = "concat (map as_grantIds ev)"
    let ?q = "\<lambda>r. om_modelName r = SESSION_MODEL \<and> om_oidcId r \<in> set (map as_oidcId ev)
             \<or> (case om_grantId r of None \<Rightarrow> False | Some g \<Rightarrow> g \<in> set ?g) \<or> om_modelName r = ''Grant'' \<and> om_oidcId r \<in> set ?g"
    have "oidc_models (snd (enforce_limit limit now a (Some s) d)) = filter (\<lambda>r. \<not> ?q r) (oidc_models d1)"
      using False assms(1) c by (simp add: enforce_limit_def Let_def deleteSessions_def om_delete_where_def)
    then have "oidc_models (snd (enforce_limit limit now a (Some s) d))
        = filter (\<lambda>r. \<not> ?q r \<and> \<not> (om_modelName r = SESSION_MODEL \<and> om_oidcId r \<in> ids)) (oidc_models d)"
      by (simp add: d1 conj_commute)
    then show ?thesis using ev by (intro exI conjI) (assumption, auto simp: SESSION_MODEL_def)
  qed
qed

lemma filter_length_mono: "(\<And>x. P x \<Longrightarrow> Q x) \<Longrightarrow> length (filter P xs) \<le> length (filter Q xs)"
  by (induction xs) auto

lemma filter_length_split: "(\<And>x. P x \<Longrightarrow> Q x \<or> R x) \<Longrightarrow> length (filter P xs) \<le> length (filter Q xs) + length (filter R xs)"
  by (induction xs) auto

lemma distinct_single_length: "distinct xs \<Longrightarrow> (\<forall>r e. r \<in> set xs \<longrightarrow> e \<in> set xs \<longrightarrow> r = e) \<Longrightarrow> length xs \<le> 1"
proof (rule ccontr)
  assume d: "distinct xs" and u: "\<forall>r e. r \<in> set xs \<longrightarrow> e \<in> set xs \<longrightarrow> r = e" and "\<not> length xs \<le> 1"
  then have len: "0 < length xs" "1 < length xs" by linarith+
  have "xs ! 0 \<noteq> xs ! 1" using nth_eq_iff_index_eq [OF d len] by simp
  moreover have "xs ! 0 = xs ! 1" using u nth_mem [OF len(1)] nth_mem [OF len(2)] by blast
  ultimately show False by simp
qed

lemma enforce_count:
  assumes "om_inv d" "limit > 0" "s \<noteq> []"
  shows "countActiveSessions now a (snd (enforce_limit limit now a (Some s) d)) \<le> limit"
proof -
  let ?ids = "om_oidcId ` set (surplus_sessions now a limit (Some s) d)"
  obtain p where p: "oidc_models (snd (enforce_limit limit now a (Some s) d)) = filter p (oidc_models d)"
    "\<forall>r. p r \<longrightarrow> \<not> (om_modelName r = SESSION_MODEL \<and> om_oidcId r \<in> ?ids)"
    using enforce_models [OF assms(2), of now a s d] by (elim exE conjE) (rule that; assumption)
  let ?A = "active_session now a"
  have "length (filter ?A (filter p (oidc_models d))) \<le> length (filter (\<lambda>r. ?A r \<and> om_oidcId r \<notin> ?ids) (oidc_models d))"
    using p(2) unfolding filter_filter by (intro filter_length_mono) (auto simp: active_session_def)
  also have "\<dots> \<le> length (filter (\<lambda>r. om_oidcId r \<notin> ?ids) (limit_candidates now a s d))
      + length (filter (\<lambda>r. ?A r \<and> om_oidcId r = s) (oidc_models d))"
    unfolding limit_candidates_def filter_filter by (rule filter_length_split) auto
  also have "\<dots> \<le> (limit - 1) + 1"
  proof (rule add_mono [OF kept_candidates [OF assms(3)]])
    have "distinct (filter (\<lambda>r. ?A r \<and> om_oidcId r = s) (oidc_models d))"
      using assms(1) by (simp add: om_inv_def tbl_keys_def distinct_map)
    moreover have "\<forall>r e. r \<in> set (filter (\<lambda>r. ?A r \<and> om_oidcId r = s) (oidc_models d)) \<longrightarrow>
        e \<in> set (filter (\<lambda>r. ?A r \<and> om_oidcId r = s) (oidc_models d)) \<longrightarrow> r = e"
      using session_key_unique [OF assms(1)] by (auto simp: active_session_def)
    ultimately show "length (filter (\<lambda>r. ?A r \<and> om_oidcId r = s) (oidc_models d)) \<le> 1"
      by (rule distinct_single_length)
  qed
  finally show ?thesis using assms(2) by (simp add: countActiveSessions_def p(1))
qed

lemma map_of_config_set [simp]: "map_of (config_set k v kvs) = (map_of kvs)(k \<mapsto> v)"
  by (induction k v kvs rule: config_set.induct) auto

lemma rebind_grant:
  assumes "jget (JObj p) ''authorizations'' = JObj auths" "is_object (jget (JObj auths) c)"
  shows "g \<in> set (extractGrantIds (rebind_payload b c g p))"
proof -
  let ?cur = "JObj (config_set ''grantId'' (JStr g) (obj_entries (jget (JObj auths) c)))"
  have a: "map_of (config_set ''accountId'' (JStr b) p) ''authorizations'' = Some (JObj auths)"
    using assms(1) by (auto split: option.splits)
  have "jget (JObj (rebind_payload b c g p)) ''authorizations'' = JObj (config_set c ?cur auths)"
    using assms(2) a by (simp add: rebind_payload_def Let_def)
  moreover have "(c, ?cur) \<in> set (config_set c ?cur auths)" by (rule map_of_SomeD) simp
  ultimately show ?thesis
    by (force simp: extractGrantIds_def obj_entries_def map_filter_def image_iff intro!: bexI [of _ "(c, ?cur)"])
qed

lemma evicted_grants_gone:
  assumes "limit > 0" "e \<in> set (surplus_sessions now a limit (Some s) d)" "e \<in> set (oidc_models d)"
    and "om_modelName e = SESSION_MODEL" "g \<in> set (extractGrantIds (om_payload e))"
    and "x \<in> set (oidc_models (snd (enforce_limit limit now a (Some s) d)))"
  shows "\<not> (om_modelName x = ''Grant'' \<and> om_oidcId x = g) \<and> om_grantId x \<noteq> Some g"
proof -
  obtain ev d1 where c: "claimSurplusSessions now a limit (Some s) d = (ev, d1)" by force
  have ev: "to_account_session e \<in> set ev"
    using c assms(2-4) by (auto simp: claimSurplusSessions_def Let_def)
  then have "ev \<noteq> []" "g \<in> set (concat (map as_grantIds ev))"
    using assms(5) by (auto simp: to_account_session_def intro!: bexI [of _ "to_account_session e"])
  then show ?thesis using assms(1,6) c
    by (auto simp: enforce_limit_def Let_def deleteSessions_def om_delete_where_def)
qed

section \<open>Properties\<close>

text \<open>C37. The concurrent-session limit: once a login has been enforced with its new session, the account
  has at most \<open>limit\<close> unexpired sessions and the new session is among the survivors; of the other sessions
  of the account, each evicted one is at least as old as every one that is kept.\<close>

theorem session_limit_enforced:
  assumes "om_inv d" and "limit > 0" and "s \<noteq> []"
    and "\<forall>r\<in>set (oidc_models d). om_modelName r = SESSION_MODEL \<longrightarrow> om_grantId r = None"
  shows "let d' = snd (enforce_limit limit now a (Some s) d) in
     countActiveSessions now a d' \<le> limit
   \<and> (\<forall>r\<in>set (oidc_models d). om_modelName r = SESSION_MODEL \<and> om_oidcId r = s \<longrightarrow> r \<in> set (oidc_models d'))
   \<and> (\<forall>e\<in>set (oidc_models d) - set (oidc_models d'). \<forall>r\<in>set (oidc_models d').
        active_session now a e \<and> active_session now a r \<and> om_oidcId r \<noteq> s \<longrightarrow> age_key e \<le> age_key r)"
proof -
  let ?ids = "om_oidcId ` set (surplus_sessions now a limit (Some s) d)"
  let ?d' = "snd (enforce_limit limit now a (Some s) d)"
  let ?srt = "sort_key (\<lambda>r. Desc (age_key r)) (limit_candidates now a s d)"
  obtain p where p: "oidc_models ?d' = filter p (oidc_models d)"
    "\<forall>r. p r \<longrightarrow> \<not> (om_modelName r = SESSION_MODEL \<and> om_oidcId r \<in> ?ids)"
    "\<forall>r. om_modelName r = SESSION_MODEL \<and> om_oidcId r \<notin> ?ids \<and> om_grantId r = None \<longrightarrow> p r"
    using enforce_models [OF assms(2), of now a s d] by (elim exE conjE) (rule that; assumption)
  have s_free: "s \<notin> ?ids"
    using set_drop_subset [of "limit - 1" ?srt] by (auto simp: surplus_Some [OF assms(3)] limit_candidates_def)
  have "age_key e \<le> age_key r"
    if e: "e \<in> set (oidc_models d)" "\<not> p e" "active_session now a e"
      and r: "r \<in> set (oidc_models d)" "p r" "active_session now a r" "om_oidcId r \<noteq> s" for e r
  proof -
    have "om_oidcId e \<in> ?ids" using p(3) e assms(4) by (auto simp: active_session_def)
    then obtain v where v: "v \<in> set (drop (limit - 1) ?srt)" "om_oidcId v = om_oidcId e"
      by (auto simp: surplus_Some [OF assms(3)])
    have "v \<in> set (limit_candidates now a s d)" using v(1) in_set_dropD by fastforce
    then have "v = e" using session_key_unique [OF assms(1), of v e] v(2) e by (auto simp: limit_candidates_def active_session_def)
    have "r \<in> set ?srt" using r by (simp add: limit_candidates_def)
    moreover have "r \<notin> set (drop (limit - 1) ?srt)" using p(2) r by (auto simp: surplus_Some [OF assms(3)] active_session_def)
    ultimately have "r \<in> set (take (limit - 1) ?srt)" by (metis Un_iff append_take_drop_id set_append)
    moreover have "sorted_wrt (\<lambda>x y. Desc (age_key x) \<le> Desc (age_key y)) (take (limit - 1) ?srt @ drop (limit - 1) ?srt)"
      using sorted_sort_key [of "\<lambda>r. Desc (age_key r)" "limit_candidates now a s d"] by (simp add: sorted_map)
    ultimately show ?thesis using v(1) \<open>v = e\<close> by (auto simp: sorted_wrt_append simp del: append_take_drop_id)
  qed
  then show ?thesis
    unfolding Let_def using enforce_count [OF assms(1-3)] p(1,3) s_free assms(4) by auto
qed

text \<open>C38. The adapter behaves as a map from model and id to a payload with a life time: after any sequence
  of upserts, consumptions, deletions and revocations by grant, from any consistent table, the table denotes
  exactly the map that the same sequence builds, and every lookup is the lookup in that map (nothing once the
  life time is over, the consumed mark added).\<close>

theorem adapter_refines_map:
  assumes "om_consistent d"
  shows "om_abs (fold om_step ops d) = fold am_step ops (om_abs d)
       \<and> om_find now m i (fold om_step ops d) = am_find now (fold am_step ops (om_abs d)) m i"
proof -
  have "om_abs (fold om_step ops d) = fold am_step ops (om_abs d)"
    using assms by (induction ops arbitrary: d) (auto simp: om_step_consistent om_step_abs)
  then show ?thesis by (simp add: om_find_abs)
qed

theorem adapter_refines_map_witness:
  "om_find 5000 ''AccessToken'' ''k''
     (fold om_step [OM_upsert ''n1'' 1 1000 ''AccessToken'' ''k'' [(''grantId'', JStr ''g'')] 60, OM_revokeGrant ''AccessToken'' ''g''] empty_db)
   = None"
proof -
  have "om_consistent empty_db" by (simp add: om_consistent_def empty_db_def tbl_keys_def)
  from adapter_refines_map [OF this, of "[OM_upsert ''n1'' 1 1000 ''AccessToken'' ''k'' [(''grantId'', JStr ''g'')] 60,
      OM_revokeGrant ''AccessToken'' ''g'']" 5000 "''AccessToken''" "''k''"]
  show ?thesis by (simp add: am_find_def payload_str_def)
qed

text \<open>Evicting a session can revoke the grant of a session that stays. Switching tenants points every
  session of the account at one and the same grant; when the limit then evicts one of them, that grant and all
  its tokens are deleted, although the surviving session still refers to it.\<close>

theorem eviction_revokes_survivor:
  assumes "om_inv d" and "e \<in> set (oidc_models d)" and "r \<in> set (oidc_models d)"
    and "active_session now a e" and "active_session now a r" and "om_oidcId e \<noteq> om_oidcId r" and "om_oidcId r \<noteq> []"
    and "om_grantId r = None" and "jget (JObj (om_payload e)) ''authorizations'' = JObj ae"
    and "jget (JObj (om_payload r)) ''authorizations'' = JObj ar" and "is_object (jget (JObj ae) c)" and "is_object (jget (JObj ar) c)"
  shows "let d1 = rebindSessionsToAccount a b c g d; d2 = snd (enforce_limit 1 now b (Some (om_oidcId r)) d1) in
     (\<exists>r'\<in>set (oidc_models d2). om_key r' = om_key r \<and> g \<in> set (extractGrantIds (om_payload r')))
     \<and> \<not> (\<exists>x\<in>set (oidc_models d2). om_modelName x = ''Grant'' \<and> om_oidcId x = g \<or> om_grantId x = Some g)"
proof -
  let ?f = "\<lambda>x. x\<lparr>om_accountId := Some b, om_payload := rebind_payload b c g (om_payload x)\<rparr>"
  let ?d1 = "rebindSessionsToAccount a b c g d"
  let ?s = "om_oidcId r"
  have mem: "?f e \<in> set (oidc_models ?d1)" "?f r \<in> set (oidc_models ?d1)"
    using assms(2-5) by (auto simp: rebindSessionsToAccount_def set_tbl_update active_session_def)
  have grants: "g \<in> set (extractGrantIds (rebind_payload b c g (om_payload e)))"
    "g \<in> set (extractGrantIds (rebind_payload b c g (om_payload r)))"
    using rebind_grant assms(9-12) by blast+
  have act: "active_session now b (?f e)" using assms(4) by (auto simp: active_session_def)
  then have sur: "?f e \<in> set (surplus_sessions now b 1 (Some ?s) ?d1)"
    using mem(1) assms(6,7) by (simp add: surplus_Some limit_candidates_def)
  have s_free: "?s \<notin> om_oidcId ` set (surplus_sessions now b 1 (Some ?s) ?d1)"
    using assms(7) by (auto simp: surplus_Some limit_candidates_def)
  have r': "?f r \<in> set (oidc_models (snd (enforce_limit 1 now b (Some ?s) ?d1)))"
  proof -
    obtain p where "oidc_models (snd (enforce_limit 1 now b (Some ?s) ?d1)) = filter p (oidc_models ?d1)"
      "\<forall>x. om_modelName x = SESSION_MODEL \<and> om_oidcId x \<notin> om_oidcId ` set (surplus_sessions now b 1 (Some ?s) ?d1)
         \<and> om_grantId x = None \<longrightarrow> p x"
      using enforce_models [OF zero_less_one, of now b ?s ?d1] by (elim exE conjE) (rule that; assumption)
    then show ?thesis using mem(2) s_free assms(5,8) by (auto simp: active_session_def)
  qed
  have "\<not> (om_modelName x = ''Grant'' \<and> om_oidcId x = g \<or> om_grantId x = Some g)"
    if "x \<in> set (oidc_models (snd (enforce_limit 1 now b (Some ?s) ?d1)))" for x
    using evicted_grants_gone [OF _ sur mem(1) _ _ that] act grants(1) by (auto simp: active_session_def)
  moreover have "om_key (?f r) = om_key r" "g \<in> set (extractGrantIds (om_payload (?f r)))"
    using grants(2) by (simp_all add: om_key_def)
  ultimately show ?thesis unfolding Let_def using r' by blast
qed

definition demo_session :: "string \<Rightarrow> micros \<Rightarrow> oidc_model" where
  "demo_session i created = \<lparr>om_id = ''row-'' @ i, om_modelName = ''Session'', om_oidcId = i,
     om_payload = [(''accountId'', JStr ''acc''), (''authorizations'', JObj [(''spa'', JObj [(''grantId'', JStr (''old-'' @ i))])])],
     om_grantId = None, om_userCode = None, om_uid = Some i, om_accountId = Some ''acc'', om_expiresAt = Some 99999,
     om_consumedAt = None, om_createdAt = created\<rparr>"

definition demo_sessions_db :: db where
  "demo_sessions_db = empty_db\<lparr>oidc_models := [demo_session ''s1'' 10, demo_session ''s2'' 20,
     \<lparr>om_id = ''row-g'', om_modelName = ''Grant'', om_oidcId = ''g'', om_payload = [], om_grantId = None, om_userCode = None,
      om_uid = None, om_accountId = Some ''acc2'', om_expiresAt = Some 99999, om_consumedAt = None, om_createdAt = 30\<rparr>]\<rparr>"

lemma demo_sessions_inv: "om_inv demo_sessions_db"
  by (simp add: om_inv_def tbl_keys_def demo_sessions_db_def demo_session_def om_key_def)

theorem session_limit_enforced_witness:
  "countActiveSessions 5 ''acc'' (snd (enforce_limit 1 5 ''acc'' (Some ''s2'') demo_sessions_db)) \<le> 1"
proof -
  have "\<forall>r\<in>set (oidc_models demo_sessions_db). om_modelName r = SESSION_MODEL \<longrightarrow> om_grantId r = None"
    by (simp add: demo_sessions_db_def demo_session_def)
  from session_limit_enforced [OF demo_sessions_inv _ _ this, of 1 "''s2''" 5 "''acc''"] show ?thesis
    by (simp add: Let_def)
qed

theorem eviction_revokes_survivor_witness:
  "\<not> (\<exists>x\<in>set (oidc_models (snd (enforce_limit 1 5 ''acc2'' (Some ''s2'')
        (rebindSessionsToAccount ''acc'' ''acc2'' ''spa'' ''g'' demo_sessions_db)))).
      om_modelName x = ''Grant'' \<and> om_oidcId x = ''g'' \<or> om_grantId x = Some ''g'')"
proof -
  have "demo_session ''s1'' 10 \<in> set (oidc_models demo_sessions_db)" "demo_session ''s2'' 20 \<in> set (oidc_models demo_sessions_db)"
    by (simp_all add: demo_sessions_db_def)
  from eviction_revokes_survivor [OF demo_sessions_inv this, of 5 "''acc''" "[(''spa'', JObj [(''grantId'', JStr ''old-s1'')])]"
      "[(''spa'', JObj [(''grantId'', JStr ''old-s2'')])]" "''spa''" "''acc2''" "''g''"]
  show ?thesis by (simp add: Let_def demo_session_def active_session_def SESSION_MODEL_def is_object_def)
qed

end
