(* ===== verification/Role_Scope.thy ===== *)
theory Role_Scope
  imports Oidc_Store Audit_Log
begin

text \<open>
  \<^verbatim>\<open>role-scope\<close>: the scopes of the tenant roles, with per-tenant overrides, and the checked writes that keep the
  role hierarchy, refuse escalation and end the sessions a narrowing affects.
\<close>

section \<open>RoleScopeRepository\<close>

text \<open>Sorting is by character code, as \<^verbatim>\<open>sort()\<close> does and as the database orders scope names.\<close>

definition default_scopes :: "string \<Rightarrow> db \<Rightarrow> string list" where
  "default_scopes role d = sort (map snd (filter (\<lambda>p. fst p = role) (role_scope_defaults d)))"

definition findTenantOverride :: "string \<Rightarrow> string \<Rightarrow> db \<Rightarrow> string list option" where
  "findTenantOverride tenantId role d =
     map_option trs_scopes (tbl_find (\<lambda>x. (trs_tenantId x, trs_role x)) (tenantId, role) (tenant_role_scopes d))"

text \<open>The roles that have default scopes, with their scopes.\<close>

definition findDefaultRoleScopes :: "db \<Rightarrow> (string \<times> string list) list" where
  "findDefaultRoleScopes d = map (\<lambda>r. (r, default_scopes r d)) (remdups (map fst (role_scope_defaults d)))"

definition findTenantOverrides :: "string \<Rightarrow> db \<Rightarrow> (string \<times> string list) list" where
  "findTenantOverrides tenantId d =
     sort_key fst (map (\<lambda>x. (trs_role x, trs_scopes x)) (filter (\<lambda>x. trs_tenantId x = tenantId) (tenant_role_scopes d)))"

definition findScopesForRole :: "string \<Rightarrow> string option \<Rightarrow> db \<Rightarrow> string list" where
  "findScopesForRole role tenantId d =
     (case tenantId of
        None \<Rightarrow> default_scopes role d
      | Some t \<Rightarrow>
          if t = [] then default_scopes role d
          else (case findTenantOverride t role d of Some s \<Rightarrow> s | None \<Rightarrow> default_scopes role d))"

text \<open>\<^verbatim>\<open>role\<close> is an enumeration of the database and \<^verbatim>\<open>tenant_id\<close> a foreign key.\<close>

definition upsertTenantRoleScopes :: "string \<Rightarrow> string \<Rightarrow> string list \<Rightarrow> db \<Rightarrow> db option" where
  "upsertTenantRoleScopes tenantId role scopes d =
     (if role \<in> set ROLE_HIERARCHY \<and> list_ex (\<lambda>t. t_id t = tenantId) (tenants d)
      then Some (d\<lparr>tenant_role_scopes := tbl_save (\<lambda>x. (trs_tenantId x, trs_role x))
             \<lparr>trs_tenantId = tenantId, trs_role = role, trs_scopes = scopes\<rparr> (tenant_role_scopes d)\<rparr>)
      else None)"

definition deleteTenantRoleScopes :: "string \<Rightarrow> string \<Rightarrow> db \<Rightarrow> db option" where
  "deleteTenantRoleScopes tenantId role d =
     (if role \<in> set ROLE_HIERARCHY
      then Some (d\<lparr>tenant_role_scopes := tbl_delete (\<lambda>x. (trs_tenantId x, trs_role x)) (tenantId, role) (tenant_role_scopes d)\<rparr>)
      else None)"

section \<open>RoleScopeService\<close>

definition IMMUTABLE_ROLE :: string where
  "IMMUTABLE_ROLE = ''owner''"

datatype rs_source = RS_DEFAULT | RS_OVERRIDE

record role_mapping_entry =
  rme_name :: string
  rme_scopes :: "string list"
  rme_source :: rs_source

record rs_request =
  wr_tenantId :: string
  wr_role :: string
  wr_actorId :: string
  wr_actorScopes :: "string list"
  wr_actorRoles :: "string list"
  wr_actorTokenType :: token_type

record rs_result =
  wres_role :: string
  wres_scopes :: "string list"
  wres_source :: rs_source
  wres_revoked :: nat

definition lookup_default :: "string \<Rightarrow> (string \<times> string list) list \<Rightarrow> string list" where
  "lookup_default role defaults = (case map_of defaults role of None \<Rightarrow> [] | Some s \<Rightarrow> s)"

definition getDefaultRoleMapping :: "db \<Rightarrow> role_mapping_entry list" where
  "getDefaultRoleMapping d =
     map (\<lambda>role. \<lparr>rme_name = role, rme_scopes = lookup_default role (findDefaultRoleScopes d), rme_source = RS_DEFAULT\<rparr>)
       ROLE_HIERARCHY"

definition getTenantRoleMapping :: "string \<Rightarrow> db \<Rightarrow> role_mapping_entry list" where
  "getTenantRoleMapping tenantId d =
     (let defaults = findDefaultRoleScopes d; overrides = findTenantOverrides tenantId d in
      map (\<lambda>role. case map_of overrides role of
             Some s \<Rightarrow> \<lparr>rme_name = role, rme_scopes = s, rme_source = RS_OVERRIDE\<rparr>
           | None \<Rightarrow> \<lparr>rme_name = role, rme_scopes = lookup_default role defaults, rme_source = RS_DEFAULT\<rparr>)
        ROLE_HIERARCHY)"

definition rs_bad_request :: "string \<Rightarrow> string \<Rightarrow> http_error" where
  "rs_bad_request code message = BadRequest (code @ '': '' @ message)"

definition removedScopes :: "string list \<Rightarrow> string list \<Rightarrow> string set" where
  "removedScopes previous next_scopes = expandEffectiveScopes previous - expandEffectiveScopes next_scopes"

definition assertRoleMutable :: "string \<Rightarrow> unit result" where
  "assertRoleMutable role =
     (if role = IMMUTABLE_ROLE then Err (rs_bad_request ''role_immutable'' ''The owner role cannot be modified'') else Ok ())"

definition assertScopesAssignable :: "string \<Rightarrow> string list \<Rightarrow> unit result" where
  "assertScopesAssignable role scopes =
     rbind (assertRoleMutable role) (\<lambda>_.
       let unknown = filter (\<lambda>s. \<not> isKnownScope s) scopes in
       if unknown \<noteq> [] then Err (rs_bad_request ''unknown_scope'' (''Unknown scope(s): '' @ js_join '', '' unknown))
       else if TENANT_SUPERUSER_SCOPE \<in> set scopes
       then Err (rs_bad_request ''scope_not_assignable''
              (TENANT_SUPERUSER_SCOPE @ '' cannot be assigned to a role other than '' @ IMMUTABLE_ROLE))
       else Ok ())"

definition assertNoEscalation :: "string list \<Rightarrow> rs_request \<Rightarrow> unit result" where
  "assertNoEscalation scopes actor =
     (if isPlatformAdmin (wr_actorRoles actor) then Ok ()
      else
        let escalated = filter (\<lambda>s. s \<notin> expandEffectiveScopes (wr_actorScopes actor)) scopes in
        if escalated \<noteq> []
        then Err (rs_bad_request ''scope_escalation'' (''Cannot grant scope(s) you do not hold: '' @ js_join '', '' escalated))
        else Ok ())"

definition mapping_scopes :: "string \<Rightarrow> role_mapping_entry list \<Rightarrow> string list" where
  "mapping_scopes role mapping =
     (case List.find (\<lambda>e. rme_name e = role) mapping of None \<Rightarrow> [] | Some e \<Rightarrow> rme_scopes e)"

definition mapping_source :: "string \<Rightarrow> role_mapping_entry list \<Rightarrow> rs_source" where
  "mapping_source role mapping =
     (case List.find (\<lambda>e. rme_name e = role) mapping of None \<Rightarrow> RS_DEFAULT | Some e \<Rightarrow> rme_source e)"

text \<open>The loop over neighbouring roles; the first violation is reported.\<close>

fun hierarchy_loop :: "role_mapping_entry list \<Rightarrow> string list \<Rightarrow> unit result" where
  "hierarchy_loop mapping (parent # child # rest) =
     (if expandEffectiveScopes (mapping_scopes child mapping) \<subseteq> expandEffectiveScopes (mapping_scopes parent mapping)
      then hierarchy_loop mapping (child # rest)
      else Err (rs_bad_request ''hierarchy_violation'' (''Role '' @ child @ '' would hold scope(s) that '' @ parent @ '' lacks: '' @
             js_join '', '' (sorted_list_of_set (expandEffectiveScopes (mapping_scopes child mapping)
                                              - expandEffectiveScopes (mapping_scopes parent mapping))))))"
| "hierarchy_loop mapping _ = Ok ()"

definition assertHierarchy :: "role_mapping_entry list \<Rightarrow> unit result" where
  "assertHierarchy mapping = hierarchy_loop mapping ROLE_HIERARCHY"

definition revokeAffectedSessions :: "string \<Rightarrow> string \<Rightarrow> db \<Rightarrow> nat \<times> db" where
  "revokeAffectedSessions tenantId role d = deleteAllForTenantRole tenantId role d"

fun source_str :: "rs_source \<Rightarrow> string" where
  "source_str RS_DEFAULT = ''default''"
| "source_str RS_OVERRIDE = ''override''"

definition rs_event :: "rs_request \<Rightarrow> audit_action \<Rightarrow> (string \<times> json) list \<Rightarrow> audit_event" where
  "rs_event rq action metadata =
     \<lparr>ae_tenantId = wr_tenantId rq, ae_actorId = wr_actorId rq,
      ae_actorType = (if wr_actorTokenType rq = ClientToken then AA_CLIENT else AA_USER), ae_action = action,
      ae_resourceType = ''tenant_role_scope'', ae_resourceId = wr_tenantId rq, ae_operationId = None, ae_metadata = metadata\<rparr>"

text \<open>The transaction of \<^verbatim>\<open>writeMapping\<close>: it holds the tenant's lock, so no other write of the same tenant comes
  between its read and its write; an error leaves the database as it was. The flag tells whether the change
  narrowed the role.\<close>

definition writeMapping_tx ::
  "string \<Rightarrow> micros \<Rightarrow> rs_request \<Rightarrow> rs_source \<Rightarrow> audit_action \<Rightarrow> (db \<Rightarrow> (string list \<times> db) option) \<Rightarrow> db
     \<Rightarrow> ((rs_result \<times> bool) \<times> db) result" where
  "writeMapping_tx newid created rq source action apply_write d =
     (let tenantId = wr_tenantId rq; role = wr_role rq;
          before = getTenantRoleMapping tenantId d;
          previous = mapping_scopes role before
      in case apply_write d of
           None \<Rightarrow> Err db_error
         | Some (scopes, d1) \<Rightarrow>
             rbind (assertNoEscalation scopes rq) (\<lambda>_.
             rbind (assertHierarchy (getTenantRoleMapping tenantId d1)) (\<lambda>_.
               let narrowed = (removedScopes previous scopes \<noteq> {});
                   (revoked, d2) = (if narrowed then revokeAffectedSessions tenantId role d1 else (0, d1));
                   res = \<lparr>wres_role = role, wres_scopes = scopes, wres_source = source, wres_revoked = revoked\<rparr>
               in if mapping_source role before = source \<and> js_join '' '' previous = js_join '' '' scopes then Ok ((res, narrowed), d2)
                  else rbind (al_insert newid created (rs_event rq action
                         [(''role'', JStr role), (''source'', JStr (source_str source)),
                          (''previousScopes'', JArr (map JStr previous)), (''scopes'', JArr (map JStr scopes)),
                          (''removedScopes'', JArr (map JStr (sorted_list_of_set (removedScopes previous scopes)))),
                          (''revokedRecordCount'', JNum (of_nat revoked))]) None d2)
                       (\<lambda>(row, d3). Ok ((res, narrowed), d3)))))"

text \<open>After the commit, possibly after other requests have run: the second sweep, with its audit entry.\<close>

definition writeMapping_sweep ::
  "string \<Rightarrow> micros \<Rightarrow> rs_request \<Rightarrow> rs_result \<Rightarrow> bool \<Rightarrow> db \<Rightarrow> rs_result result \<times> db" where
  "writeMapping_sweep newid created rq res narrowed d =
     (if \<not> narrowed then (Ok res, d)
      else
        let (late, d1) = revokeAffectedSessions (wr_tenantId rq) (wr_role rq) d in
        if late = 0 then (Ok res, d1)
        else (case al_insert newid created (rs_event rq A_REVOKE
                [(''role'', JStr (wr_role rq)), (''reason'', JStr ''commit_window_sweep''),
                 (''revokedRecordCount'', JNum (of_nat late))]) None d1 of
              Inl e \<Rightarrow> (Err e, d1)
            | Inr (row, d2) \<Rightarrow> (Ok (res\<lparr>wres_revoked := wres_revoked res + late\<rparr>), d2)))"

text \<open>\<open>between\<close> is whatever other requests do between the commit and the sweep.\<close>

definition writeMapping ::
  "(string \<times> micros) \<times> (string \<times> micros) \<Rightarrow> (db \<Rightarrow> db) \<Rightarrow> rs_request \<Rightarrow> rs_source \<Rightarrow> audit_action
     \<Rightarrow> (db \<Rightarrow> (string list \<times> db) option) \<Rightarrow> db \<Rightarrow> rs_result result \<times> db" where
  "writeMapping stamps between rq source action apply_write d =
     (case writeMapping_tx (fst (fst stamps)) (snd (fst stamps)) rq source action apply_write d of
        Inl e \<Rightarrow> (Err e, d)
      | Inr ((res, narrowed), d1) \<Rightarrow>
          writeMapping_sweep (fst (snd stamps)) (snd (snd stamps)) rq res narrowed (between d1))"

definition replaceRoleScopes ::
  "(string \<times> micros) \<times> (string \<times> micros) \<Rightarrow> (db \<Rightarrow> db) \<Rightarrow> rs_request \<Rightarrow> string list \<Rightarrow> db \<Rightarrow> rs_result result \<times> db" where
  "replaceRoleScopes stamps between rq requested d =
     (let scopes = sort (remdups requested) in
      case assertScopesAssignable (wr_role rq) scopes of
        Inl e \<Rightarrow> (Err e, d)
      | Inr _ \<Rightarrow>
          writeMapping stamps between rq RS_OVERRIDE A_UPDATE
            (\<lambda>d. map_option (\<lambda>d'. (scopes, d')) (upsertTenantRoleScopes (wr_tenantId rq) (wr_role rq) scopes d)) d)"

definition resetRoleScopes ::
  "(string \<times> micros) \<times> (string \<times> micros) \<Rightarrow> (db \<Rightarrow> db) \<Rightarrow> rs_request \<Rightarrow> db \<Rightarrow> rs_result result \<times> db" where
  "resetRoleScopes stamps between rq d =
     (case assertRoleMutable (wr_role rq) of
        Inl e \<Rightarrow> (Err e, d)
      | Inr _ \<Rightarrow>
          writeMapping stamps between rq RS_DEFAULT A_DELETE
            (\<lambda>d. map_option (\<lambda>d'. (lookup_default (wr_role rq) (findDefaultRoleScopes d'), d'))
                   (deleteTenantRoleScopes (wr_tenantId rq) (wr_role rq) d)) d)"

section \<open>Effective scopes of a role\<close>

definition rs_keys :: "db \<Rightarrow> bool" where
  "rs_keys d = tbl_keys (\<lambda>x. (trs_tenantId x, trs_role x)) (tenant_role_scopes d)"

definition role_scopes :: "string \<Rightarrow> string \<Rightarrow> db \<Rightarrow> string list" where
  "role_scopes tenantId role d =
     (case findTenantOverride tenantId role d of Some s \<Rightarrow> s | None \<Rightarrow> default_scopes role d)"

lemma map_of_graph: "map_of (map (\<lambda>r. (r, f r)) xs) k = (if k \<in> set xs then Some (f k) else None)"
  by (induction xs) auto

lemma find_graph: "k \<in> set xs \<Longrightarrow> (\<And>r. name (g r) = r) \<Longrightarrow> List.find (\<lambda>e. name e = k) (map g xs) = Some (g k)"
  by (induction xs) auto

lemma lookup_default: "lookup_default role (findDefaultRoleScopes d) = default_scopes role d"
proof (cases "role \<in> fst ` set (role_scope_defaults d)")
  case True
  then show ?thesis by (simp add: lookup_default_def findDefaultRoleScopes_def map_of_graph)
next
  case False
  then have "filter (\<lambda>p. fst p = role) (role_scope_defaults d) = []" by (auto simp: filter_empty_conv)
  moreover have "map_of (findDefaultRoleScopes d) role = None"
    using False by (simp add: findDefaultRoleScopes_def map_of_graph)
  ultimately show ?thesis by (simp add: lookup_default_def default_scopes_def)
qed

lemma distinct_fst_sort: "distinct (map fst xs) \<Longrightarrow> distinct (map fst (sort_key fst xs))"
  by (simp add: distinct_map)

lemma findTenantOverrides_lookup:
  assumes "rs_keys d"
  shows "map_of (findTenantOverrides t d) role = findTenantOverride t role d"
proof -
  let ?rows = "filter (\<lambda>x. trs_tenantId x = t) (tenant_role_scopes d)"
  let ?xs = "map (\<lambda>x. (trs_role x, trs_scopes x)) ?rows"
  have inj: "x = y" if "x \<in> set (tenant_role_scopes d)" "y \<in> set (tenant_role_scopes d)"
    "trs_tenantId x = trs_tenantId y" "trs_role x = trs_role y" for x y
    using tbl_keys_inj [OF assms [unfolded rs_keys_def], of x y] that by simp
  have "distinct ?rows" using assms by (simp add: rs_keys_def tbl_keys_def distinct_map)
  then have dist: "distinct (map fst ?xs)" using inj by (auto simp: distinct_map comp_def inj_on_def)
  have "map_of (sort_key fst ?xs) role = Some v \<longleftrightarrow> findTenantOverride t role d = Some v" for v
  proof -
    let ?row = "tbl_find (\<lambda>x. (trs_tenantId x, trs_role x)) (t, role) (tenant_role_scopes d)"
    have row: "?row = Some x \<longleftrightarrow> x \<in> set (tenant_role_scopes d) \<and> trs_tenantId x = t \<and> trs_role x = role" for x
      using tbl_find_mem [OF assms [unfolded rs_keys_def], of x] tbl_find_Some [of _ "(t, role)" _ x] by auto
    have "distinct (map fst (sort_key fst ?xs))" by (rule distinct_fst_sort [OF dist])
    then have "map_of (sort_key fst ?xs) role = Some v \<longleftrightarrow> (role, v) \<in> set ?xs" by (simp add: map_of_eq_Some_iff)
    also have "\<dots> \<longleftrightarrow> (\<exists>x. ?row = Some x \<and> trs_scopes x = v)" unfolding row by auto
    finally show ?thesis by (simp add: findTenantOverride_def)
  qed
  then show ?thesis unfolding findTenantOverrides_def by (metis not_None_eq)
qed

lemma mapping_entry:
  assumes "rs_keys d" "role \<in> set ROLE_HIERARCHY"
  shows "List.find (\<lambda>e. rme_name e = role) (getTenantRoleMapping t d) =
     Some \<lparr>rme_name = role, rme_scopes = role_scopes t role d,
           rme_source = (if findTenantOverride t role d = None then RS_DEFAULT else RS_OVERRIDE)\<rparr>"
proof -
  let ?g = "\<lambda>role. case findTenantOverride t role d of
             Some s \<Rightarrow> \<lparr>rme_name = role, rme_scopes = s, rme_source = RS_OVERRIDE\<rparr>
           | None \<Rightarrow> \<lparr>rme_name = role, rme_scopes = default_scopes role d, rme_source = RS_DEFAULT\<rparr>"
  have "getTenantRoleMapping t d = map ?g ROLE_HIERARCHY"
    by (simp add: getTenantRoleMapping_def Let_def lookup_default findTenantOverrides_lookup [OF assms(1)] cong: option.case_cong)
  moreover have "List.find (\<lambda>e. rme_name e = role) (map ?g ROLE_HIERARCHY) = Some (?g role)"
    by (rule find_graph [OF assms(2)]) (simp split: option.split)
  ultimately show ?thesis by (simp add: role_scopes_def split: option.split)
qed

lemma mapping_scopes_eq:
  "rs_keys d \<Longrightarrow> role \<in> set ROLE_HIERARCHY \<Longrightarrow> mapping_scopes role (getTenantRoleMapping t d) = role_scopes t role d"
  by (simp add: mapping_scopes_def mapping_entry)

definition hierarchy_ok :: "string \<Rightarrow> db \<Rightarrow> bool" where
  "hierarchy_ok t d =
     (expandEffectiveScopes (role_scopes t ''admin'' d) \<subseteq> expandEffectiveScopes (role_scopes t ''owner'' d)
      \<and> expandEffectiveScopes (role_scopes t ''member'' d) \<subseteq> expandEffectiveScopes (role_scopes t ''admin'' d)
      \<and> expandEffectiveScopes (role_scopes t ''readonly'' d) \<subseteq> expandEffectiveScopes (role_scopes t ''member'' d))"

lemma assertHierarchy_ok:
  "rs_keys d \<Longrightarrow> assertHierarchy (getTenantRoleMapping t d) = Ok () \<longleftrightarrow> hierarchy_ok t d"
  using mapping_scopes_eq [of d _ t]
  by (auto simp: assertHierarchy_def ROLE_HIERARCHY_def hierarchy_ok_def split: if_splits)

section \<open>Invariant of the mapping\<close>

text \<open>The defaults are the seeded ones, \<^verbatim>\<open>owner\<close> has no override, overrides hold tenant scopes only, and in every
  tenant each role is below the role above it.\<close>

definition rs_inv :: "db \<Rightarrow> bool" where
  "rs_inv d =
     (rs_keys d \<and> role_scope_defaults d = role_scope_seed
      \<and> (\<forall>x\<in>set (tenant_role_scopes d). trs_role x \<noteq> IMMUTABLE_ROLE \<and> set (trs_scopes x) \<subseteq> set ALL_TENANT_SCOPES)
      \<and> (\<forall>t. hierarchy_ok t d))"

lemma rs_frame:
  assumes "tenant_role_scopes d' = tenant_role_scopes d" "role_scope_defaults d' = role_scope_defaults d"
  shows "rs_keys d' = rs_keys d" "role_scopes t r d' = role_scopes t r d"
    "hierarchy_ok t d' = hierarchy_ok t d" "rs_inv d' = rs_inv d"
proof -
  show k: "rs_keys d' = rs_keys d" using assms by (simp add: rs_keys_def)
  have s: "role_scopes t r d' = role_scopes t r d" for t r using assms
    by (simp add: role_scopes_def default_scopes_def findTenantOverride_def split: option.split)
  then show "role_scopes t r d' = role_scopes t r d" .
  have h: "hierarchy_ok t d' = hierarchy_ok t d" for t by (simp add: hierarchy_ok_def s)
  then show "hierarchy_ok t d' = hierarchy_ok t d" .
  show "rs_inv d' = rs_inv d" using assms by (simp add: rs_inv_def k h)
qed

lemma deleteAll_frame [simp]:
  "tenant_role_scopes (snd (deleteAllForTenantRole t r d)) = tenant_role_scopes d"
  "role_scope_defaults (snd (deleteAllForTenantRole t r d)) = role_scope_defaults d"
  "tenant_users (snd (deleteAllForTenantRole t r d)) = tenant_users d"
  "tenants (snd (deleteAllForTenantRole t r d)) = tenants d"
  by (simp_all add: deleteAllForTenantRole_def om_delete_where_def Let_def)

lemma al_insert_frame:
  "al_insert newid created ev ip d = Inr (row, d') \<Longrightarrow> tenant_role_scopes d' = tenant_role_scopes d
     \<and> role_scope_defaults d' = role_scope_defaults d \<and> oidc_models d' = oidc_models d \<and> tenant_users d' = tenant_users d"
  by (auto simp: al_insert_def Let_def split: if_splits)

text \<open>What a committed transaction has checked and written.\<close>

lemma writeMapping_tx_ok:
  assumes "writeMapping_tx newid created rq source action f d = Inr ((res, narrowed), d')"
  shows "\<exists>scopes d1. f d = Some (scopes, d1) \<and> wres_scopes res = scopes \<and> assertNoEscalation scopes rq = Ok ()
     \<and> assertHierarchy (getTenantRoleMapping (wr_tenantId rq) d1) = Ok ()
     \<and> tenant_role_scopes d' = tenant_role_scopes d1 \<and> role_scope_defaults d' = role_scope_defaults d1
     \<and> narrowed = (removedScopes (mapping_scopes (wr_role rq) (getTenantRoleMapping (wr_tenantId rq) d)) scopes \<noteq> {})
     \<and> (\<not> narrowed \<longrightarrow> oidc_models d' = oidc_models d1)"
proof -
  let ?prev = "mapping_scopes (wr_role rq) (getTenantRoleMapping (wr_tenantId rq) d)"
  obtain scopes d1 where f: "f d = Some (scopes, d1)" "assertNoEscalation scopes rq = Ok ()"
    "assertHierarchy (getTenantRoleMapping (wr_tenantId rq) d1) = Ok ()"
    using assms unfolding writeMapping_tx_def Let_def by (auto simp: rbind_eq_Inr split: option.splits)
  define r where "r = (if removedScopes ?prev scopes \<noteq> {} then revokeAffectedSessions (wr_tenantId rq) (wr_role rq) d1 else (0, d1))"
  have d2: "tenant_role_scopes (snd r) = tenant_role_scopes d1" "role_scope_defaults (snd r) = role_scope_defaults d1"
    "removedScopes ?prev scopes = {} \<Longrightarrow> oidc_models (snd r) = oidc_models d1"
    by (simp_all add: r_def revokeAffectedSessions_def)
  have "narrowed = (removedScopes ?prev scopes \<noteq> {}) \<and> wres_scopes res = scopes
    \<and> (d' = snd r \<or> (\<exists>ev row. al_insert newid created ev None (snd r) = Inr (row, d')))"
    using assms f unfolding writeMapping_tx_def Let_def r_def [symmetric]
    by (simp add: case_prod_beta r_def [symmetric] del: if_split split: if_split_asm) (auto simp: rbind_eq_Inr)
  then show ?thesis using f d2 al_insert_frame by auto
qed

lemma upsert_role_scopes:
  assumes "upsertTenantRoleScopes t r scopes d = Some d'"
  shows "role_scopes t' r' d' = (if t' = t \<and> r' = r then scopes else role_scopes t' r' d)"
    "rs_keys d \<Longrightarrow> rs_keys d'" "role_scope_defaults d' = role_scope_defaults d"
    "set (tenant_role_scopes d') \<subseteq> insert \<lparr>trs_tenantId = t, trs_role = r, trs_scopes = scopes\<rparr> (set (tenant_role_scopes d))"
    "r \<in> set ROLE_HIERARCHY"
proof -
  let ?row = "\<lparr>trs_tenantId = t, trs_role = r, trs_scopes = scopes\<rparr>"
  have d': "d' = d\<lparr>tenant_role_scopes := tbl_save (\<lambda>x. (trs_tenantId x, trs_role x)) ?row (tenant_role_scopes d)\<rparr>"
    and role: "r \<in> set ROLE_HIERARCHY"
    using assms by (auto simp: upsertTenantRoleScopes_def split: if_splits)
  show "role_scopes t' r' d' = (if t' = t \<and> r' = r then scopes else role_scopes t' r' d)"
    by (simp add: d' role_scopes_def findTenantOverride_def default_scopes_def tbl_find_save split: option.split)
  show "rs_keys d \<Longrightarrow> rs_keys d'" "role_scope_defaults d' = role_scope_defaults d" "r \<in> set ROLE_HIERARCHY"
    by (simp_all add: d' rs_keys_def tbl_keys_save role)
  show "set (tenant_role_scopes d') \<subseteq> insert ?row (set (tenant_role_scopes d))"
    using set_tbl_save by (simp add: d')
qed

lemma reset_role_scopes:
  assumes "deleteTenantRoleScopes t r d = Some d'"
  shows "role_scopes t' r' d' = (if t' = t \<and> r' = r then default_scopes r d else role_scopes t' r' d)"
    "rs_keys d \<Longrightarrow> rs_keys d'" "role_scope_defaults d' = role_scope_defaults d"
    "set (tenant_role_scopes d') \<subseteq> set (tenant_role_scopes d)"
    "r \<in> set ROLE_HIERARCHY"
  using assms unfolding deleteTenantRoleScopes_def
  by (auto simp: role_scopes_def findTenantOverride_def default_scopes_def tbl_find_delete rs_keys_def tbl_keys_delete
        set_tbl_delete split: if_splits option.split)

lemma hierarchy_other:
  "(\<And>r'. role_scopes t' r' d' = role_scopes t' r' d) \<Longrightarrow> hierarchy_ok t' d' = hierarchy_ok t' d"
  by (simp add: hierarchy_ok_def)

lemma sweep_frame:
  "writeMapping_sweep newid created rq res n d = (r, d') \<Longrightarrow>
     tenant_role_scopes d' = tenant_role_scopes d \<and> role_scope_defaults d' = role_scope_defaults d"
  by (auto simp: writeMapping_sweep_def revokeAffectedSessions_def Let_def case_prod_beta
        dest!: al_insert_frame split: if_splits sum.splits)

text \<open>A write that checks its own effect on one tenant keeps the invariant.\<close>

lemma writeMapping_keeps:
  assumes inv: "rs_inv d"
    and f: "\<And>scopes d1. f d = Some (scopes, d1) \<Longrightarrow> rs_keys d1 \<and> role_scope_defaults d1 = role_scope_defaults d
        \<and> (\<forall>x\<in>set (tenant_role_scopes d1). trs_role x \<noteq> IMMUTABLE_ROLE \<and> set (trs_scopes x) \<subseteq> set ALL_TENANT_SCOPES)
        \<and> (\<forall>t r. t \<noteq> wr_tenantId rq \<longrightarrow> role_scopes t r d1 = role_scopes t r d)"
  shows "rs_inv (snd (writeMapping stamps id rq source action f d))"
proof (cases "writeMapping_tx (fst (fst stamps)) (snd (fst stamps)) rq source action f d")
  case (Inl e)
  then show ?thesis using inv by (simp add: writeMapping_def)
next
  case (Inr w)
  then obtain res n d' where tx: "writeMapping_tx (fst (fst stamps)) (snd (fst stamps)) rq source action f d = Inr ((res, n), d')"
    by (metis prod.collapse)
  obtain scopes d1 where w: "f d = Some (scopes, d1)" "assertHierarchy (getTenantRoleMapping (wr_tenantId rq) d1) = Ok ()"
    "tenant_role_scopes d' = tenant_role_scopes d1" "role_scope_defaults d' = role_scope_defaults d1"
    using writeMapping_tx_ok [OF tx] by blast
  have "hierarchy_ok t d1" for t
    using f [OF w(1)] w(2) inv hierarchy_other [of t d1 d]
    by (cases "t = wr_tenantId rq") (auto simp: assertHierarchy_ok rs_inv_def)
  then have "rs_inv d1" using f [OF w(1)] inv by (simp add: rs_inv_def)
  then have "rs_inv d'" using rs_frame(4) [OF w(3,4)] by simp
  moreover obtain r d2 where sw: "writeMapping_sweep (fst (snd stamps)) (snd (snd stamps)) rq res n d' = (r, d2)" by force
  ultimately have "rs_inv d2" using rs_frame(4) [of d2 d'] sweep_frame [OF sw] by simp
  then show ?thesis using tx sw by (simp add: writeMapping_def)
qed

lemma known_scopes: "filter (\<lambda>s. \<not> isKnownScope s) xs = [] \<Longrightarrow> TENANT_SUPERUSER_SCOPE \<notin> set xs \<Longrightarrow> set xs \<subseteq> set ALL_TENANT_SCOPES"
  by (auto simp: filter_empty_conv isKnownScope_iff)

lemma assertScopesAssignable_ok:
  "assertScopesAssignable role scopes = Ok () \<Longrightarrow> role \<noteq> IMMUTABLE_ROLE \<and> set scopes \<subseteq> set ALL_TENANT_SCOPES"
  unfolding assertScopesAssignable_def assertRoleMutable_def Let_def
  by (simp add: known_scopes split: if_split_asm)

lemma replace_keeps: "rs_inv d \<Longrightarrow> rs_inv (snd (replaceRoleScopes stamps id rq requested d))"
proof (cases "assertScopesAssignable (wr_role rq) (sort (remdups requested))")
  case (Inr u)
  then have ok: "wr_role rq \<noteq> IMMUTABLE_ROLE" "set requested \<subseteq> set ALL_TENANT_SCOPES"
    using assertScopesAssignable_ok [of "wr_role rq" "sort (remdups requested)"] by simp_all
  assume inv: "rs_inv d"
  have "rs_inv (snd (writeMapping stamps id rq RS_OVERRIDE A_UPDATE
          (\<lambda>d. map_option (\<lambda>d'. (sort (remdups requested), d'))
             (upsertTenantRoleScopes (wr_tenantId rq) (wr_role rq) (sort (remdups requested)) d)) d))"
  proof (rule writeMapping_keeps [OF inv], goal_cases)
    case (1 scopes d1)
    then have up: "upsertTenantRoleScopes (wr_tenantId rq) (wr_role rq) (sort (remdups requested)) d = Some d1" by auto
    note u = upsert_role_scopes [OF up]
    have "\<forall>x\<in>set (tenant_role_scopes d1). trs_role x \<noteq> IMMUTABLE_ROLE \<and> set (trs_scopes x) \<subseteq> set ALL_TENANT_SCOPES"
    proof
      fix x assume "x \<in> set (tenant_role_scopes d1)"
      then have "x = \<lparr>trs_tenantId = wr_tenantId rq, trs_role = wr_role rq, trs_scopes = sort (remdups requested)\<rparr>
          \<or> x \<in> set (tenant_role_scopes d)" using u(4) by blast
      then show "trs_role x \<noteq> IMMUTABLE_ROLE \<and> set (trs_scopes x) \<subseteq> set ALL_TENANT_SCOPES"
        using ok inv by (auto simp: rs_inv_def)
    qed
    then show ?case using u(1,2,3) inv by (simp add: rs_inv_def)
  qed
  then show ?thesis using Inr by (simp add: replaceRoleScopes_def Let_def)
qed (simp add: replaceRoleScopes_def Let_def)

lemma reset_keeps: "rs_inv d \<Longrightarrow> rs_inv (snd (resetRoleScopes stamps id rq d))"
proof (cases "assertRoleMutable (wr_role rq)")
  case (Inr u)
  assume inv: "rs_inv d"
  have "rs_inv (snd (writeMapping stamps id rq RS_DEFAULT A_DELETE
      (\<lambda>d. map_option (\<lambda>d'. (lookup_default (wr_role rq) (findDefaultRoleScopes d'), d'))
                   (deleteTenantRoleScopes (wr_tenantId rq) (wr_role rq) d)) d))"
  proof (rule writeMapping_keeps [OF inv], goal_cases)
    case (1 scopes d1)
    then have up: "deleteTenantRoleScopes (wr_tenantId rq) (wr_role rq) d = Some d1" by auto
    note u = reset_role_scopes [OF up]
    then show ?case using inv by (auto simp: rs_inv_def)
  qed
  then show ?thesis using Inr by (simp add: resetRoleScopes_def)
qed (simp add: resetRoleScopes_def)

datatype rs_op =
    RS_Replace "(string \<times> micros) \<times> (string \<times> micros)" rs_request "string list"
  | RS_Reset "(string \<times> micros) \<times> (string \<times> micros)" rs_request

fun rs_step :: "rs_op \<Rightarrow> db \<Rightarrow> db" where
  "rs_step (RS_Replace stamps rq scopes) d = snd (replaceRoleScopes stamps id rq scopes d)"
| "rs_step (RS_Reset stamps rq) d = snd (resetRoleScopes stamps id rq d)"

lemma seed_scopes:
  assumes "role_scope_defaults d = role_scope_seed"
  shows "default_scopes ''owner'' d = [''tenants:admin'']"
    "set (default_scopes ''admin'' d) = {s. (''admin'', s) \<in> set role_scope_seed}"
    "set (default_scopes ''member'' d) = {''credentials:offer'', ''credentials:verify''}"
    "default_scopes ''readonly'' d = []"
  using assms by (auto simp: default_scopes_def role_scope_seed_def)

interpretation rs: invariant_system
  "\<lambda>d. role_scope_defaults d = role_scope_seed \<and> tenant_role_scopes d = []" rs_step rs_inv
proof unfold_locales
  fix d :: db assume i: "role_scope_defaults d = role_scope_seed \<and> tenant_role_scopes d = []"
  then have "role_scopes t r d = default_scopes r d" for t r by (simp add: role_scopes_def findTenantOverride_def)
  then have "hierarchy_ok t d" for t
    using i by (simp add: hierarchy_ok_def seed_scopes expandEffectiveScopes_def Let_def)
      (auto simp: role_scope_seed_def scope_consts)
  then show "rs_inv d" using i by (simp add: rs_inv_def rs_keys_def tbl_keys_def)
next
  fix oper and d :: db assume "rs_inv d"
  then show "rs_inv (rs_step oper d)" by (cases oper) (simp_all add: replace_keeps reset_keeps)
qed

section \<open>Properties\<close>

text \<open>A tenant with one member who is logged in, and its owner's request.\<close>

definition demo_rs_db :: db where
  "demo_rs_db = empty_db\<lparr>tenants := [demo_tenant\<lparr>t_id := ''0a000000-0000-4000-8000-000000000001''\<rparr>],
     tenant_users := [(demo_user ''acc'' MEMBER 5)\<lparr>u_tenantId := ''0a000000-0000-4000-8000-000000000001''\<rparr>],
     oidc_models := [demo_session ''s1'' 10]\<rparr>"

definition demo_rs_request :: rs_request where
  "demo_rs_request = \<lparr>wr_tenantId = ''0a000000-0000-4000-8000-000000000001'', wr_role = ''member'', wr_actorId = ''kc-a'',
     wr_actorScopes = [TENANT_SUPERUSER_SCOPE], wr_actorRoles = [], wr_actorTokenType = UserToken\<rparr>"

text \<open>The write that leaves members one scope, with a login in its commit window.\<close>

definition demo_late_login :: "db \<Rightarrow> db" where
  "demo_late_login d = d\<lparr>oidc_models := demo_session ''s2'' 20 # oidc_models d\<rparr>"

definition demo_rs_run :: "rs_result result \<times> db" where
  "demo_rs_run = replaceRoleScopes ((''l1'', 7), (''l2'', 8)) demo_late_login demo_rs_request [''credentials:offer''] demo_rs_db"

definition demo_rs_result :: rs_result where
  "demo_rs_result = \<lparr>wres_role = ''member'', wres_scopes = [''credentials:offer''], wres_source = RS_OVERRIDE, wres_revoked = 2\<rparr>"

lemma demo_rs_run:
  "replaceRoleScopes ((''l1'', 7), (''l2'', 8)) demo_late_login demo_rs_request [''credentials:offer''] demo_rs_db
     = (Inr demo_rs_result, snd demo_rs_run)"
proof -
  have "fst demo_rs_run = Inr demo_rs_result" by code_simp
  then show ?thesis unfolding demo_rs_run_def by (metis prod.collapse)
qed

lemma findScopesForRole_eq:
  "findScopesForRole role (Some t) d = (if t = [] then default_scopes role d else role_scopes t role d)"
  by (simp add: findScopesForRole_def role_scopes_def)

text \<open>C30. In a database whose role defaults are the migrated ones and whose tenants start without overrides, any
  sequence of replacements and resets of role scopes, by any actor and with any arguments, leaves every tenant with an
  ordered hierarchy: the effective scopes of readonly are among those of member, those among admin's, those among
  owner's; owner still holds exactly \<^verbatim>\<open>tenants:admin\<close>, and no other role ever gets the superuser scope.\<close>

theorem role_hierarchy_kept:
  "let d' = fold rs_step ops (d\<lparr>role_scope_defaults := role_scope_seed, tenant_role_scopes := []\<rparr>);
       eff = (\<lambda>r. expandEffectiveScopes (findScopesForRole r (Some t) d'))
   in eff ''readonly'' \<subseteq> eff ''member'' \<and> eff ''member'' \<subseteq> eff ''admin'' \<and> eff ''admin'' \<subseteq> eff ''owner''
      \<and> findScopesForRole ''owner'' (Some t) d' = [TENANT_SUPERUSER_SCOPE] \<and> TENANT_SUPERUSER_SCOPE \<notin> eff ''admin''"
proof -
  let ?d0 = "d\<lparr>role_scope_defaults := role_scope_seed, tenant_role_scopes := []\<rparr>"
  define d' where "d' = fold rs_step ops ?d0"
  have inv: "rs_inv d'" unfolding d'_def by (rule rs.reachable_inv) simp
  have init: "rs_inv ?d0" using rs.reachable_inv [of ?d0 "[]"] by simp
  have def: "default_scopes r d' = default_scopes r ?d0" "role_scopes t r ?d0 = default_scopes r ?d0" for r
    using inv by (simp_all add: rs_inv_def default_scopes_def role_scopes_def findTenantOverride_def)
  have no_owner: "findTenantOverride t ''owner'' d' = None"
  proof (rule ccontr)
    assume "findTenantOverride t ''owner'' d' \<noteq> None"
    then obtain x where "tbl_find (\<lambda>x. (trs_tenantId x, trs_role x)) (t, ''owner'') (tenant_role_scopes d') = Some x"
      by (auto simp: findTenantOverride_def)
    then show False using tbl_find_Some inv by (fastforce simp: rs_inv_def IMMUTABLE_ROLE_def)
  qed
  have owner: "role_scopes t ''owner'' d' = [TENANT_SUPERUSER_SCOPE]" "default_scopes ''owner'' d' = [TENANT_SUPERUSER_SCOPE]"
    using no_owner inv seed_scopes(1) by (auto simp: role_scopes_def rs_inv_def TENANT_SUPERUSER_SCOPE_def)
  have admin: "TENANT_SUPERUSER_SCOPE \<notin> set (default_scopes ''admin'' d')"
    using inv by (simp add: rs_inv_def seed_scopes) (simp add: role_scope_seed_def scope_consts)
  have admin': "TENANT_SUPERUSER_SCOPE \<notin> set (role_scopes t ''admin'' d')"
  proof (cases "findTenantOverride t ''admin'' d'")
    case (Some sc)
    then obtain x where "x \<in> set (tenant_role_scopes d')" "trs_scopes x = sc"
      using tbl_find_Some by (fastforce simp: findTenantOverride_def)
    then have "set sc \<subseteq> set ALL_TENANT_SCOPES" using inv by (auto simp: rs_inv_def)
    then show ?thesis using Some superuser_not_tenant_scope by (auto simp: role_scopes_def)
  qed (simp add: role_scopes_def admin)
  have not_super: "TENANT_SUPERUSER_SCOPE \<in> expandEffectiveScopes xs \<longleftrightarrow> TENANT_SUPERUSER_SCOPE \<in> set xs" for xs
    by (simp add: expandEffectiveScopes_def Let_def)
  have "hierarchy_ok t d'" "hierarchy_ok t ?d0" using inv init by (simp_all add: rs_inv_def)
  then show ?thesis
    unfolding d'_def [symmetric] Let_def findScopesForRole_eq
    using owner admin admin' not_super by (auto simp: hierarchy_ok_def def)
qed

text \<open>A role-scope write by an actor who is not a platform administrator never grants a scope that the actor does
  not hold, whether it submits scopes or resets the role to a default that may be wider.\<close>

theorem role_write_no_escalation:
  assumes "\<not> isPlatformAdmin (wr_actorRoles rq)"
    and "replaceRoleScopes stamps between rq requested d = (Inr res, d') \<or> resetRoleScopes stamps between rq d = (Inr res, d')"
  shows "set (wres_scopes res) \<subseteq> expandEffectiveScopes (wr_actorScopes rq)"
proof -
  have "set (wres_scopes res) \<subseteq> expandEffectiveScopes (wr_actorScopes rq)"
    if "writeMapping stamps between rq source action f d = (Inr res, d')" for source action f
  proof -
    obtain res0 n d1 where tx: "writeMapping_tx (fst (fst stamps)) (snd (fst stamps)) rq source action f d = Inr ((res0, n), d1)"
      and sw: "writeMapping_sweep (fst (snd stamps)) (snd (snd stamps)) rq res0 n (between d1) = (Inr res, d')"
      using \<open>writeMapping _ _ _ _ _ _ _ = _\<close> by (auto simp: writeMapping_def split: sum.splits)
    have "wres_scopes res = wres_scopes res0"
      using sw by (auto simp: writeMapping_sweep_def Let_def case_prod_beta split: if_splits sum.splits)
    moreover have "assertNoEscalation (wres_scopes res0) rq = Ok ()" using writeMapping_tx_ok [OF tx] by auto
    ultimately show ?thesis using assms(1)
      by (auto simp: assertNoEscalation_def Let_def filter_empty_conv split: if_splits)
  qed
  then show ?thesis using assms(2)
    by (auto simp: replaceRoleScopes_def resetRoleScopes_def Let_def split: sum.splits)
qed

theorem role_write_no_escalation_witness:
  "set (wres_scopes demo_rs_result) \<subseteq> expandEffectiveScopes (wr_actorScopes demo_rs_request)"
proof -
  have "\<not> isPlatformAdmin (wr_actorRoles demo_rs_request)" by code_simp
  from role_write_no_escalation [OF this disjI1, OF demo_rs_run] show ?thesis .
qed

text \<open>The rows that keep a login of a user of the role alive.\<close>

definition role_login_row :: "string \<Rightarrow> string \<Rightarrow> db \<Rightarrow> oidc_model \<Rightarrow> bool" where
  "role_login_row tenantId role d r =
     (om_modelName r \<in> set ACCOUNT_BOUND_MODELS
      \<and> (\<exists>u\<in>set (tenant_users d). u_tenantId u = tenantId \<and> role_str (u_role u) = role \<and> om_accountId r = Some (u_id u)))"

lemma deleteAll_clears: "r \<in> set (oidc_models (snd (deleteAllForTenantRole t role d))) \<Longrightarrow> \<not> role_login_row t role d r"
  by (auto simp: deleteAllForTenantRole_def om_delete_where_def account_rows_def Let_def role_login_row_def)

lemma sweep_clears:
  assumes "writeMapping_sweep newid created rq res True d = (r, d')"
  shows "\<forall>x\<in>set (oidc_models d'). \<not> role_login_row (wr_tenantId rq) (wr_role rq) d' x"
proof -
  have "oidc_models d' = oidc_models (snd (deleteAllForTenantRole (wr_tenantId rq) (wr_role rq) d)) \<and> tenant_users d' = tenant_users d"
    using assms by (auto simp: writeMapping_sweep_def revokeAffectedSessions_def Let_def case_prod_beta
        dest!: al_insert_frame split: if_splits sum.splits)
  then show ?thesis using deleteAll_clears by (auto simp: role_login_row_def)
qed



text \<open>The scopes a login of a role reads from the database are the scopes that the tenant's role mapping shows:
  override or default, for every role and tenant.\<close>

theorem role_mapping_matches_login:
  assumes "tbl_keys (\<lambda>x. (trs_tenantId x, trs_role x)) (tenant_role_scopes d)"
    and "role \<in> set ROLE_HIERARCHY" "t \<noteq> []"
  shows "findScopesForRole role (Some t) d = mapping_scopes role (getTenantRoleMapping t d)"
  using assms by (simp add: findScopesForRole_eq mapping_scopes_eq rs_keys_def)

theorem role_mapping_matches_login_witness:
  "findScopesForRole ''member'' (Some ''t1'') demo_rs_db = mapping_scopes ''member'' (getTenantRoleMapping ''t1'' demo_rs_db)"
  by (rule role_mapping_matches_login)
    (simp_all add: demo_rs_db_def empty_db_def tbl_keys_def ROLE_HIERARCHY_def)

end
