(* ===== verification/Upstream_Oidc.thy ===== *)
theory Upstream_Oidc
  imports Role_Scope Operation
begin

text \<open>
  \<^verbatim>\<open>upstream-oidc\<close>: the log-in at the upstream identity provider. An interaction remembers \<^verbatim>\<open>state\<close>, \<^verbatim>\<open>nonce\<close> and the PKCE
  verifier of one redirect; an upstream session remembers the identity token of a log-in, pending until the OIDC
  provider has saved its session. Both tables refer to the others of the database, so the state here is the database
  together with the two tables, and a deletion elsewhere cascades.
\<close>

section \<open>Tables\<close>

record upstream_interaction =
  ui_id :: string
  ui_state :: string
  ui_nonce :: string
  ui_interactionUid :: string
  ui_codeVerifier :: string
  ui_tenantId :: string
  ui_tenantUserId :: "string option"
  ui_createdAt :: micros
  ui_expiresAt :: time
  ui_consumedAt :: "time option"

record upstream_session =
  us_id :: string
  us_oidcModelId :: "string option"
  us_oidcSessionUid :: "string option"
  us_tenantUserId :: string
  us_upstreamSubject :: string
  us_upstreamIdToken :: string
  us_createdAt :: micros
  us_expiresAt :: "time option"

record fed =
  f_db :: db
  f_interactions :: "upstream_interaction list"
  f_sessions :: "upstream_session list"

text \<open>The foreign keys of \<^verbatim>\<open>oidc_upstream_session\<close>, both \<^verbatim>\<open>ON DELETE CASCADE\<close>: a change of the database takes the
  rows along whose session or user is gone.\<close>

definition us_refs :: "db \<Rightarrow> upstream_session \<Rightarrow> bool" where
  "us_refs d x = (us_tenantUserId x \<in> u_id ` set (tenant_users d)
     \<and> (case us_oidcModelId x of None \<Rightarrow> True | Some m \<Rightarrow> m \<in> om_id ` set (oidc_models d)))"

definition on_db :: "db \<Rightarrow> fed \<Rightarrow> fed" where
  "on_db d s = s\<lparr>f_db := d, f_sessions := filter (us_refs d) (f_sessions s)\<rparr>"

section \<open>OidcUpstreamInteractionRepository\<close>

definition ui_findById :: "string \<Rightarrow> fed \<Rightarrow> upstream_interaction option" where
  "ui_findById i s = tbl_find ui_id i (f_interactions s)"

text \<open>\<^verbatim>\<open>ORDER BY consumed_at ASC NULLS FIRST, created_at DESC\<close>, the first row.\<close>

definition ui_order :: "upstream_interaction \<Rightarrow> (nat \<times> time) \<times> micros" where
  "ui_order x = ((case ui_consumedAt x of None \<Rightarrow> (0, 0) | Some t \<Rightarrow> (1, t)), - ui_createdAt x)"

definition ui_findByInteractionUid :: "string \<Rightarrow> fed \<Rightarrow> upstream_interaction option" where
  "ui_findByInteractionUid uid s =
     (case sort_key ui_order (filter (\<lambda>x. ui_interactionUid x = uid) (f_interactions s)) of [] \<Rightarrow> None | x # _ \<Rightarrow> Some x)"

definition ui_findByState :: "string \<Rightarrow> fed \<Rightarrow> upstream_interaction option" where
  "ui_findByState state s = List.find (\<lambda>x. ui_state x = state) (f_interactions s)"

definition ui_findExpiredInteractions :: "time \<Rightarrow> fed \<Rightarrow> upstream_interaction list" where
  "ui_findExpiredInteractions now s = filter (\<lambda>x. ui_expiresAt x < now) (f_interactions s)"

definition ui_findConsumedInteractions :: "fed \<Rightarrow> upstream_interaction list" where
  "ui_findConsumedInteractions s = filter (\<lambda>x. ui_consumedAt x \<noteq> None) (f_interactions s)"

text \<open>A row may be stored when no other row has its \<^verbatim>\<open>state\<close> or \<^verbatim>\<open>interaction_uid\<close>.\<close>

definition ui_admissible :: "upstream_interaction \<Rightarrow> fed \<Rightarrow> bool" where
  "ui_admissible x s = list_all (\<lambda>y. ui_id y = ui_id x \<or> ui_state y \<noteq> ui_state x \<and> ui_interactionUid y \<noteq> ui_interactionUid x)
     (f_interactions s)"

definition ui_save :: "upstream_interaction \<Rightarrow> fed \<Rightarrow> (upstream_interaction \<times> fed) result" where
  "ui_save x s =
     (if ui_admissible x s then Ok (x, s\<lparr>f_interactions := tbl_save ui_id x (f_interactions s)\<rparr>) else Err db_error)"

definition ui_delete :: "string \<Rightarrow> fed \<Rightarrow> fed" where
  "ui_delete i s = s\<lparr>f_interactions := tbl_delete ui_id i (f_interactions s)\<rparr>"

definition ui_deleteByState :: "string \<Rightarrow> fed \<Rightarrow> fed" where
  "ui_deleteByState state s = s\<lparr>f_interactions := filter (\<lambda>x. ui_state x \<noteq> state) (f_interactions s)\<rparr>"

text \<open>\<^verbatim>\<open>INSERT ... ON CONFLICT (interaction_uid) DO UPDATE\<close>: \<open>x\<close> is the row as it is inserted when there is none; an
  existing row keeps its identifier and creation time.\<close>

definition ui_upsertByInteractionUid :: "upstream_interaction \<Rightarrow> fed \<Rightarrow> (upstream_interaction \<times> fed) result" where
  "ui_upsertByInteractionUid x s =
     (if ui_interactionUid x = [] then Err (InternalError ''interactionUid is required for upsertByInteractionUid'')
      else
        let row = (case List.find (\<lambda>y. ui_interactionUid y = ui_interactionUid x) (f_interactions s) of
                     None \<Rightarrow> x
                   | Some y \<Rightarrow> x\<lparr>ui_id := ui_id y, ui_createdAt := ui_createdAt y\<rparr>)\<lparr>ui_consumedAt := None\<rparr>
        in ui_save row s)"

section \<open>OidcUpstreamSessionRepository\<close>

definition us_findById :: "string \<Rightarrow> fed \<Rightarrow> upstream_session option" where
  "us_findById i s = tbl_find us_id i (f_sessions s)"

definition us_findByOidcModelId :: "string \<Rightarrow> fed \<Rightarrow> upstream_session option" where
  "us_findByOidcModelId m s = List.find (\<lambda>x. us_oidcModelId x = Some m) (f_sessions s)"

definition us_findByOidcSessionUid :: "string \<Rightarrow> fed \<Rightarrow> upstream_session option" where
  "us_findByOidcSessionUid uid s = List.find (\<lambda>x. us_oidcSessionUid x = Some uid) (f_sessions s)"

definition us_findPendingByOidcSessionUid :: "string \<Rightarrow> fed \<Rightarrow> upstream_session option" where
  "us_findPendingByOidcSessionUid uid s =
     List.find (\<lambda>x. us_oidcSessionUid x = Some uid \<and> us_oidcModelId x = None) (f_sessions s)"

definition us_findLatestPendingByTenantUserId :: "time \<Rightarrow> string \<Rightarrow> fed \<Rightarrow> upstream_session option" where
  "us_findLatestPendingByTenantUserId now u s =
     (case sort_key (\<lambda>x. - us_createdAt x)
        (filter (\<lambda>x. us_tenantUserId x = u \<and> us_oidcModelId x = None
             \<and> (case us_expiresAt x of None \<Rightarrow> True | Some e \<Rightarrow> now < e)) (f_sessions s)) of
        [] \<Rightarrow> None
      | x # _ \<Rightarrow> Some x)"

definition us_findExpiredSessions :: "time \<Rightarrow> fed \<Rightarrow> upstream_session list" where
  "us_findExpiredSessions now s = filter (\<lambda>x. case us_expiresAt x of None \<Rightarrow> False | Some e \<Rightarrow> e < now) (f_sessions s)"

text \<open>Both unique constraints (a null never collides) and both foreign keys.\<close>

definition us_conflict :: "upstream_session \<Rightarrow> upstream_session \<Rightarrow> bool" where
  "us_conflict x y = (us_oidcModelId x \<noteq> None \<and> us_oidcModelId x = us_oidcModelId y
     \<or> us_oidcSessionUid x \<noteq> None \<and> us_oidcSessionUid x = us_oidcSessionUid y)"

definition us_save :: "upstream_session \<Rightarrow> fed \<Rightarrow> (upstream_session \<times> fed) result" where
  "us_save x s =
     (if us_refs (f_db s) x \<and> list_all (\<lambda>y. us_id y = us_id x \<or> \<not> us_conflict x y) (f_sessions s)
      then Ok (x, s\<lparr>f_sessions := tbl_save us_id x (f_sessions s)\<rparr>)
      else Err db_error)"

definition us_createPending :: "string \<Rightarrow> micros \<Rightarrow> string \<Rightarrow> string \<Rightarrow> string \<Rightarrow> time option \<Rightarrow> fed \<Rightarrow> (upstream_session \<times> fed) result" where
  "us_createPending newid created tenantUserId subject idToken expiresAt s =
     us_save \<lparr>us_id = newid, us_oidcModelId = None, us_oidcSessionUid = None, us_tenantUserId = tenantUserId,
              us_upstreamSubject = subject, us_upstreamIdToken = idToken, us_createdAt = created, us_expiresAt = expiresAt\<rparr> s"

text \<open>The two upserts insert \<open>x\<close>, or write its columns over the row with the same model, or the same session.\<close>

definition us_upsertByOidcModelId :: "upstream_session \<Rightarrow> fed \<Rightarrow> (upstream_session \<times> fed) result" where
  "us_upsertByOidcModelId x s =
     (case us_oidcModelId x of
        None \<Rightarrow> Err (InternalError ''oidcModelId is required for upsertByOidcModelId'')
      | Some m \<Rightarrow>
          if m = [] then Err (InternalError ''oidcModelId is required for upsertByOidcModelId'')
          else us_save (case us_findByOidcModelId m s of
             None \<Rightarrow> x | Some y \<Rightarrow> x\<lparr>us_id := us_id y, us_createdAt := us_createdAt y\<rparr>) s)"

definition us_upsertPendingByOidcSessionUid :: "upstream_session \<Rightarrow> fed \<Rightarrow> (upstream_session \<times> fed) result" where
  "us_upsertPendingByOidcSessionUid x s =
     (case us_oidcSessionUid x of
        None \<Rightarrow> Err (InternalError ''oidcSessionUid is required for upsertPendingByOidcSessionUid'')
      | Some u \<Rightarrow>
          if u = [] then Err (InternalError ''oidcSessionUid is required for upsertPendingByOidcSessionUid'')
          else us_save ((case us_findByOidcSessionUid u s of
             None \<Rightarrow> x | Some y \<Rightarrow> x\<lparr>us_id := us_id y, us_createdAt := us_createdAt y\<rparr>)\<lparr>us_oidcModelId := None\<rparr>) s)"

definition us_delete :: "string \<Rightarrow> fed \<Rightarrow> fed" where
  "us_delete i s = s\<lparr>f_sessions := tbl_delete us_id i (f_sessions s)\<rparr>"

definition us_deleteByOidcModelId :: "string \<Rightarrow> fed \<Rightarrow> fed" where
  "us_deleteByOidcModelId m s = s\<lparr>f_sessions := filter (\<lambda>x. us_oidcModelId x \<noteq> Some m) (f_sessions s)\<rparr>"

definition us_expired_pending :: "time \<Rightarrow> upstream_session \<Rightarrow> bool" where
  "us_expired_pending now x = (us_oidcModelId x = None \<and> (case us_expiresAt x of None \<Rightarrow> False | Some e \<Rightarrow> e < now))"

definition us_deleteExpiredPendingBatch :: "time \<Rightarrow> nat \<Rightarrow> fed \<Rightarrow> nat \<times> fed" where
  "us_deleteExpiredPendingBatch now limit s =
     (let (count, rows) = delete_oldest us_id us_createdAt (us_expired_pending now) (max 1 limit) (f_sessions s)
      in (count, s\<lparr>f_sessions := rows\<rparr>))"

section \<open>UpstreamOidcService\<close>

text \<open>What the service uses of \<^verbatim>\<open>openid-client\<close>: the PKCE challenge, the authorization URL, the code grant (the URL
  received and the expected verifier, state and nonce; an error or the identity token and the claims of the answer), and
  the request to the end-session endpoint (an error or the status). The library is absent before initialisation.\<close>

record auth_params =
  ap_redirect_uri :: string
  ap_scope :: string
  ap_state :: string
  ap_nonce :: string
  ap_code_challenge :: string
  ap_code_challenge_method :: string

record grant_checks =
  gc_pkceCodeVerifier :: string
  gc_expectedState :: string
  gc_expectedNonce :: string

record token_answer =
  ta_id_token :: json
  ta_claims :: json

record openid_lib =
  ol_challenge :: "string \<Rightarrow> string"
  ol_authUrl :: "auth_params \<Rightarrow> string"
  ol_codeGrant :: "string \<Rightarrow> grant_checks \<Rightarrow> string + token_answer"
  ol_endSession :: "string \<Rightarrow> string + int"

definition getConfig :: "openid_lib option \<Rightarrow> openid_lib result" where
  "getConfig lib = (case lib of None \<Rightarrow> Err (InternalError ''OIDC config not initialized.'') | Some l \<Rightarrow> Ok l)"

definition storeInteraction ::
  "string \<Rightarrow> micros \<Rightarrow> time \<Rightarrow> string \<Rightarrow> string \<Rightarrow> string \<Rightarrow> string \<Rightarrow> string \<Rightarrow> string option \<Rightarrow> int \<Rightarrow> fed
     \<Rightarrow> (upstream_interaction \<times> fed) result" where
  "storeInteraction newid created now state nonce codeVerifier interactionUid tenantId tenantUserId ttlMinutes s =
     ui_upsertByInteractionUid
       \<lparr>ui_id = newid, ui_state = state, ui_nonce = nonce, ui_interactionUid = interactionUid, ui_codeVerifier = codeVerifier,
        ui_tenantId = tenantId, ui_tenantUserId = tenantUserId, ui_createdAt = created,
        ui_expiresAt = now + ttlMinutes * 60 * 1000, ui_consumedAt = None\<rparr> s"

definition validateInteraction :: "time \<Rightarrow> string \<Rightarrow> fed \<Rightarrow> upstream_interaction result" where
  "validateInteraction now state s =
     (case ui_findByState state s of
        None \<Rightarrow> Err (InternalError (''Interaction not found for state: '' @ state))
      | Some x \<Rightarrow>
          if ui_expiresAt x < now then Err (InternalError (''Interaction has expired for state: '' @ state)) else Ok x)"

definition consumeInteraction :: "time \<Rightarrow> string \<Rightarrow> fed \<Rightarrow> (upstream_interaction \<times> fed) result" where
  "consumeInteraction now state s =
     rbind (validateInteraction now state s) (\<lambda>x. ui_save (x\<lparr>ui_consumedAt := Some now\<rparr>) s)"

definition setTenantUserIdForInteraction :: "time \<Rightarrow> string \<Rightarrow> string \<Rightarrow> fed \<Rightarrow> (upstream_interaction \<times> fed) result" where
  "setTenantUserIdForInteraction now state tenantUserId s =
     rbind (validateInteraction now state s) (\<lambda>x. ui_save (x\<lparr>ui_tenantUserId := Some tenantUserId\<rparr>) s)"

fun delete_each :: "upstream_interaction list \<Rightarrow> nat \<Rightarrow> fed \<Rightarrow> nat \<times> fed" where
  "delete_each [] n s = (n, s)"
| "delete_each (x # xs) n s = delete_each xs (n + 1) (ui_delete (ui_id x) s)"

definition cleanupExpiredInteractions :: "time \<Rightarrow> fed \<Rightarrow> nat \<times> fed" where
  "cleanupExpiredInteractions now s = delete_each (ui_findExpiredInteractions now s) 0 s"

text \<open>\<open>verifier\<close>, \<open>state\<close> and \<open>nonce\<close> are the random values.\<close>

record upstream_random =
  ur_id :: string
  ur_created :: micros
  ur_verifier :: string
  ur_state :: string
  ur_nonce :: string

definition initiateUpstreamLogin ::
  "openid_lib option \<Rightarrow> upstream_random \<Rightarrow> time \<Rightarrow> string \<Rightarrow> string \<Rightarrow> string \<Rightarrow> fed \<Rightarrow> (string \<times> string) result \<times> fed" where
  "initiateUpstreamLogin lib rnd now interactionUid tenantId redirectUri s =
     (case storeInteraction (ur_id rnd) (ur_created rnd) now (ur_state rnd) (ur_nonce rnd) (ur_verifier rnd) interactionUid tenantId
         None 15 s of
        Inl e \<Rightarrow> (Err e, s)
      | Inr (_, s') \<Rightarrow>
          (case getConfig lib of
             Inl e \<Rightarrow> (Err e, s')
           | Inr l \<Rightarrow>
               (Ok (ur_state rnd, ol_authUrl l \<lparr>ap_redirect_uri = redirectUri, ap_scope = ''openid'', ap_state = ur_state rnd,
                    ap_nonce = ur_nonce rnd, ap_code_challenge = ol_challenge l (ur_verifier rnd),
                    ap_code_challenge_method = ''S256''\<rparr>), s')))"

text \<open>\<^verbatim>\<open>email\<close> and \<^verbatim>\<open>name\<close> are strings when the token has them (OpenID Connect Core, standard claims). A date out
  of range makes the later insert fail: the expiry is then absent.\<close>

record upstream_claims =
  uc_sub :: string
  uc_email :: "string option"
  uc_name :: "string option"

record upstream_callback =
  cb_claims :: upstream_claims
  cb_interaction :: upstream_interaction
  cb_idToken :: string
  cb_expiresAt :: "time option option"

definition claim_string :: "json \<Rightarrow> string option" where
  "claim_string v = (case v of JStr t \<Rightarrow> Some t | _ \<Rightarrow> None)"

definition claim_expiry :: "json \<Rightarrow> time option option" where
  "claim_expiry v = (case v of JNum x \<Rightarrow> map_option Some (js_new_Date (x * 1000)) | _ \<Rightarrow> Some None)"

definition read_tokens :: "upstream_interaction \<Rightarrow> token_answer \<Rightarrow> upstream_callback result" where
  "read_tokens x tokens =
     (case ta_id_token tokens of
        JStr idToken \<Rightarrow>
          if idToken = [] then Err (InternalError ''Missing ID token from upstream authorization code grant'')
          else
            (case jget (ta_claims tokens) ''sub'' of
               JStr sub \<Rightarrow>
                 Ok \<lparr>cb_claims = \<lparr>uc_sub = sub, uc_email = claim_string (jget (ta_claims tokens) ''email''),
                       uc_name = claim_string (jget (ta_claims tokens) ''name'')\<rparr>,
                     cb_interaction = x, cb_idToken = idToken, cb_expiresAt = claim_expiry (jget (ta_claims tokens) ''exp'')\<rparr>
             | _ \<Rightarrow> Err (InternalError ''Invalid or missing sub claim in ID token''))
      | _ \<Rightarrow> Err (InternalError ''Missing ID token from upstream authorization code grant''))"

definition handleUpstreamCallback ::
  "openid_lib option \<Rightarrow> time \<Rightarrow> string \<Rightarrow> string \<Rightarrow> fed \<Rightarrow> upstream_callback result" where
  "handleUpstreamCallback lib now state currentUrl s =
     rbind (validateInteraction now state s) (\<lambda>x.
     rbind (getConfig lib) (\<lambda>l.
       case ol_codeGrant l currentUrl
           \<lparr>gc_pkceCodeVerifier = ui_codeVerifier x, gc_expectedState = ui_state x, gc_expectedNonce = ui_nonce x\<rparr> of
         Inl m \<Rightarrow> Err (InternalError m)
       | Inr tokens \<Rightarrow> read_tokens x tokens))"

definition stagePendingUpstreamSession ::
  "string \<Rightarrow> micros \<Rightarrow> string \<Rightarrow> string \<Rightarrow> string \<Rightarrow> time option option \<Rightarrow> fed \<Rightarrow> fed result" where
  "stagePendingUpstreamSession newid created tenantUserId subject idToken expiresAt s =
     (case expiresAt of
        None \<Rightarrow> Err db_error
      | Some e \<Rightarrow> rbind (us_createPending newid created tenantUserId subject idToken e s) (\<lambda>(x, s'). Ok s'))"

definition finalizeUpstreamSessionForOidcSession ::
  "time \<Rightarrow> string \<Rightarrow> string \<Rightarrow> string \<Rightarrow> fed \<Rightarrow> (upstream_session option \<times> fed) result" where
  "finalizeUpstreamSessionForOidcSession now oidcModelId oidcSessionUid tenantUserId s =
     (case us_findLatestPendingByTenantUserId now tenantUserId s of
        None \<Rightarrow> Ok (None, s)
      | Some p \<Rightarrow>
          let direct = rbind (us_save (p\<lparr>us_oidcModelId := Some oidcModelId, us_oidcSessionUid := Some oidcSessionUid\<rparr>) s)
                (\<lambda>(x, s'). Ok (Some x, s'))
          in (case us_findByOidcSessionUid oidcSessionUid s of
                None \<Rightarrow> direct
              | Some e \<Rightarrow>
                  if us_id e \<noteq> us_id p
                  then rbind (us_save (e\<lparr>us_oidcModelId := Some oidcModelId, us_tenantUserId := us_tenantUserId p,
                           us_upstreamSubject := us_upstreamSubject p, us_upstreamIdToken := us_upstreamIdToken p,
                           us_expiresAt := us_expiresAt p\<rparr>) s)
                     (\<lambda>(x, s'). Ok (Some x, us_delete (us_id p) s'))
                  else direct))"

definition logoutUpstreamSessionForOidcSession :: "openid_lib option \<Rightarrow> string \<Rightarrow> fed \<Rightarrow> fed result" where
  "logoutUpstreamSessionForOidcSession lib oidcModelId s =
     (case us_findByOidcModelId oidcModelId s of
        None \<Rightarrow> Ok s
      | Some x \<Rightarrow>
          rbind (getConfig lib) (\<lambda>l.
            case ol_endSession l (us_upstreamIdToken x) of
              Inl m \<Rightarrow> Err (InternalError m)
            | Inr status \<Rightarrow>
                if status \<ge> 400 then Err (InternalError (''Upstream end-session request failed with status '' @ show_nat (nat status)))
                else Ok (us_delete (us_id x) s)))"

section \<open>Federation adapter\<close>

text \<open>\<^verbatim>\<open>toUpstreamSessionRecord\<close> of the port adapter: a finalised session has its model.\<close>

definition toUpstreamSessionRecord :: "upstream_session \<Rightarrow> upstream_session result" where
  "toUpstreamSessionRecord x =
     (case us_oidcModelId x of
        None \<Rightarrow> Err (InternalError ''Expected finalized upstream session to have oidcModelId'')
      | Some m \<Rightarrow>
          if m = [] then Err (InternalError ''Expected finalized upstream session to have oidcModelId'') else Ok x)"

definition fed_finalizeUpstreamSession ::
  "time \<Rightarrow> string \<Rightarrow> string \<Rightarrow> string \<Rightarrow> fed \<Rightarrow> upstream_session option result \<times> fed" where
  "fed_finalizeUpstreamSession now oidcModelId oidcSessionUid tenantUserId s =
     (case finalizeUpstreamSessionForOidcSession now oidcModelId oidcSessionUid tenantUserId s of
        Inl e \<Rightarrow> (Err e, s)
      | Inr (None, s') \<Rightarrow> (Ok None, s')
      | Inr (Some x, s') \<Rightarrow> (rbind (toUpstreamSessionRecord x) (\<lambda>y. Ok (Some y)), s'))"

section \<open>Constraints of the tables\<close>

definition fed_wf :: "fed \<Rightarrow> bool" where
  "fed_wf s = (tbl_keys ui_id (f_interactions s) \<and> tbl_keys ui_state (f_interactions s)
     \<and> tbl_keys ui_interactionUid (f_interactions s) \<and> tbl_keys us_id (f_sessions s)
     \<and> (\<forall>x\<in>set (f_sessions s). us_refs (f_db s) x \<and> (\<forall>y\<in>set (f_sessions s). us_id x = us_id y \<or> \<not> us_conflict x y)))"

lemma us_conflict_sym: "us_conflict x y \<longleftrightarrow> us_conflict y x"
  unfolding us_conflict_def by metis

lemma ui_save_ok: "ui_save x s = Inr (y, s') \<longleftrightarrow> ui_admissible x s \<and> y = x \<and> s' = s\<lparr>f_interactions := tbl_save ui_id x (f_interactions s)\<rparr>"
  by (auto simp: ui_save_def)

lemma us_save_ok:
  "us_save x s = Inr (y, s') \<longleftrightarrow> us_refs (f_db s) x \<and> (\<forall>z\<in>set (f_sessions s). us_id z = us_id x \<or> \<not> us_conflict x z)
     \<and> y = x \<and> s' = s\<lparr>f_sessions := tbl_save us_id x (f_sessions s)\<rparr>"
  by (auto simp: us_save_def list_all_iff)

lemma ui_save_wf [inv_intros]: "fed_wf s \<Longrightarrow> ui_save x s = Inr (y, s') \<Longrightarrow> fed_wf s'"
  unfolding fed_wf_def ui_save_ok ui_admissible_def list_all_iff
  by (elim conjE, simp add: tbl_keys_save) (auto intro!: tbl_keys_save_other)

lemma us_save_wf [inv_intros]:
  assumes "fed_wf s" "us_save x s = Inr (y, s')"
  shows "fed_wf s'"
proof -
  have r: "set (tbl_save us_id x (f_sessions s)) = insert x {z \<in> set (f_sessions s). us_id z \<noteq> us_id x}"
    using assms(1) by (intro set_tbl_save_keys) (simp add: fed_wf_def)
  have k: "tbl_keys us_id (tbl_save us_id x (f_sessions s))" using assms(1) by (intro tbl_keys_save) (simp add: fed_wf_def)
  have "us_id y = us_id x \<or> \<not> us_conflict x y" "us_id y = us_id x \<or> \<not> us_conflict y x" if "y \<in> set (f_sessions s)" for y
    using assms(2) that us_conflict_sym [of x y] by (auto simp: us_save_ok)
  then have "\<forall>a\<in>set (tbl_save us_id x (f_sessions s)). us_refs (f_db s) a
      \<and> (\<forall>b\<in>set (tbl_save us_id x (f_sessions s)). us_id a = us_id b \<or> \<not> us_conflict a b)"
    using assms(1) us_save_ok [THEN iffD1, OF assms(2)] unfolding r fed_wf_def by auto
  with k assms show ?thesis by (simp add: fed_wf_def us_save_ok)
qed

lemma wf_sub [inv_intros]:
  assumes "fed_wf s" "set rows \<subseteq> set (f_interactions s)" "set srows \<subseteq> set (f_sessions s)" "distinct rows" "distinct srows"
    "\<forall>x\<in>set srows. us_refs d x"
  shows "fed_wf \<lparr>f_db = d, f_interactions = rows, f_sessions = srows\<rparr>"
proof -
  have "\<forall>x\<in>set srows. us_refs d x \<and> (\<forall>y\<in>set srows. us_id x = us_id y \<or> \<not> us_conflict x y)"
    using assms(1,3,6) unfolding fed_wf_def by blast
  then show ?thesis using assms unfolding fed_wf_def tbl_keys_def
    by (simp add: distinct_map inj_on_subset [of _ "set (f_interactions s)"] inj_on_subset [of _ "set (f_sessions s)"])
qed

lemma filter_key:
  assumes "tbl_keys key rows"
  shows "filter (\<lambda>x. key x = k) rows = (case tbl_find key k rows of None \<Rightarrow> [] | Some x \<Rightarrow> [x])"
  using assms
proof (induction rows)
  case (Cons r rows)
  have "key r = k \<Longrightarrow> filter (\<lambda>x. key x = k) rows = []" using Cons.prems by (force simp: tbl_keys_def filter_empty_conv image_iff)
  moreover have "tbl_keys key rows" using Cons.prems by (simp add: tbl_keys_def)
  ultimately show ?case using Cons.IH by (auto simp: tbl_find_Cons)
qed simp

lemma find_uid: "fed_wf s \<Longrightarrow> ui_findByInteractionUid uid s = tbl_find ui_interactionUid uid (f_interactions s)"
  by (auto simp: ui_findByInteractionUid_def fed_wf_def filter_key split: option.split)

lemma find_state: "ui_findByState st s = tbl_find ui_state st (f_interactions s)"
  by (simp add: ui_findByState_def tbl_find_def)

text \<open>After a save, the row is found under its state and its interaction, and the others as before.\<close>

lemma tbl_find_save_other:
  assumes "tbl_keys key rows" "tbl_keys key2 (tbl_save key r rows)"
  shows "tbl_find key2 (key2 r) (tbl_save key r rows) = Some r"
  using assms tbl_find_mem [OF assms(2)] by auto

lemma ui_saved:
  assumes "fed_wf s" "ui_save x s = Inr (y, s')"
  shows "ui_findByState (ui_state x) s' = Some x \<and> ui_findByInteractionUid (ui_interactionUid x) s' = Some x"
proof -
  have "fed_wf s'" using ui_save_wf [OF assms] .
  then show ?thesis using assms find_uid [of s'] unfolding find_state
    by (auto simp: fed_wf_def ui_save_ok intro!: tbl_find_save_other)
qed

lemma wf_filter [inv_intros]:
  assumes "fed_wf s"
  shows "fed_wf (s\<lparr>f_sessions := filter p (f_sessions s)\<rparr>)" "fed_wf (s\<lparr>f_interactions := filter q (f_interactions s)\<rparr>)"
proof -
  have d: "distinct (f_interactions s)" "distinct (f_sessions s)" "\<forall>x\<in>set (f_sessions s). us_refs (f_db s) x"
    using assms by (auto simp: fed_wf_def tbl_keys_def distinct_map)
  show "fed_wf (s\<lparr>f_sessions := filter p (f_sessions s)\<rparr>)"
    using wf_sub [OF assms, of "f_interactions s" "filter p (f_sessions s)" "f_db s"] d by (cases s) simp
  show "fed_wf (s\<lparr>f_interactions := filter q (f_interactions s)\<rparr>)"
    using wf_sub [OF assms, of "filter q (f_interactions s)" "f_sessions s" "f_db s"] d by (cases s) simp
qed

lemma on_db_wf [inv_intros]:
  assumes "fed_wf s"
  shows "fed_wf (on_db d s)"
proof -
  have "distinct (f_interactions s)" "distinct (f_sessions s)"
    using assms by (simp_all add: fed_wf_def tbl_keys_def distinct_map)
  then have "fed_wf \<lparr>f_db = d, f_interactions = f_interactions s, f_sessions = filter (us_refs d) (f_sessions s)\<rparr>"
    by (intro wf_sub [OF assms]) simp_all
  moreover have "on_db d s = \<lparr>f_db = d, f_interactions = f_interactions s, f_sessions = filter (us_refs d) (f_sessions s)\<rparr>"
    by (cases s) (simp add: on_db_def)
  ultimately show ?thesis by (simp only:)
qed

section \<open>From the callback to the log-out\<close>

lemma hd_sort_least:
  assumes "x \<in> set xs" "\<And>y. y \<in> set xs \<Longrightarrow> y \<noteq> x \<Longrightarrow> f x < f y"
  shows "\<exists>ys. sort_key f xs = x # ys"
proof -
  obtain z ys where z: "sort_key f xs = z # ys" using assms(1) by (cases "sort_key f xs") (metis set_sort empty_iff list.set(1), simp)
  then have "z \<in> set xs" "\<forall>y\<in>set xs. f z \<le> f y"
    using sorted_sort_key [of f xs] set_sort [of f xs] by fastforce+
  then have "z = x" using assms by (meson not_less)
  then show ?thesis using z by simp
qed

lemma find_model:
  assumes "fed_wf s" "x \<in> set (f_sessions s)" "us_oidcModelId x = Some m"
  shows "us_findByOidcModelId m s = Some x"
proof -
  obtain y where y: "us_findByOidcModelId m s = Some y" using assms(2,3)
    by (cases "us_findByOidcModelId m s") (auto simp: us_findByOidcModelId_def find_None_iff)
  then have m: "y \<in> set (f_sessions s)" "us_oidcModelId y = Some m" by (auto simp: us_findByOidcModelId_def find_Some_iff)
  then have "us_conflict x y" using assms(3) by (simp add: us_conflict_def)
  then have "us_id x = us_id y" using assms(1,2) m(1) by (auto simp: fed_wf_def)
  then have "x = y" using assms(1,2) m(1) tbl_keys_inj by (fastforce simp: fed_wf_def)
  then show ?thesis using y by simp
qed

lemma finalize_ok:
  assumes "fed_wf s" "us_findLatestPendingByTenantUserId now u s = Some p"
    "finalizeUpstreamSessionForOidcSession now m uid u s = Inr (r, s')"
  shows "fed_wf s' \<and> (\<exists>x. r = Some x \<and> us_findByOidcModelId m s' = Some x \<and> us_oidcSessionUid x = Some uid
     \<and> us_tenantUserId x = us_tenantUserId p \<and> us_upstreamSubject x = us_upstreamSubject p
     \<and> us_upstreamIdToken x = us_upstreamIdToken p)"
proof (cases "\<exists>e. us_findByOidcSessionUid uid s = Some e \<and> us_id e \<noteq> us_id p")
  case True
  then obtain e where e: "us_findByOidcSessionUid uid s = Some e" "us_id e \<noteq> us_id p" by blast
  let ?x = "e\<lparr>us_oidcModelId := Some m, us_tenantUserId := us_tenantUserId p, us_upstreamSubject := us_upstreamSubject p,
      us_upstreamIdToken := us_upstreamIdToken p, us_expiresAt := us_expiresAt p\<rparr>"
  obtain s1 where s1: "us_save ?x s = Inr (?x, s1)" "r = Some ?x" "s' = us_delete (us_id p) s1"
    using assms(2,3) e unfolding finalizeUpstreamSessionForOidcSession_def Let_def
    by (cases "us_save ?x s") (auto simp: us_save_ok)
  have w: "fed_wf s'" using us_save_wf [OF assms(1) s1(1)] s1(3) wf_filter(1) by (simp add: us_delete_def tbl_delete_def)
  have "?x \<in> set (f_sessions s1)" using s1(1) by (simp add: us_save_ok)
  then have "?x \<in> set (f_sessions s')" using s1(3) e(2) by (simp add: us_delete_def set_tbl_delete)
  moreover have "us_oidcSessionUid e = Some uid" using e(1) by (auto simp: us_findByOidcSessionUid_def find_Some_iff)
  ultimately show ?thesis using w find_model [OF w, of ?x m] s1(2) by simp
next
  case False
  let ?x = "p\<lparr>us_oidcModelId := Some m, us_oidcSessionUid := Some uid\<rparr>"
  have s1: "us_save ?x s = Inr (?x, s')" "r = Some ?x"
    using assms(2,3) False unfolding finalizeUpstreamSessionForOidcSession_def Let_def
    by (cases "us_save ?x s"; auto simp: us_save_ok rbind_eq_Inr split: option.splits if_splits)+
  have w: "fed_wf s'" using us_save_wf [OF assms(1) s1(1)] .
  have "?x \<in> set (f_sessions s')" using s1(1) by (simp add: us_save_ok)
  then show ?thesis using w find_model [OF w, of ?x m] s1(2) by simp
qed

lemma staged_is_latest:
  assumes "newid \<notin> us_id ` set (f_sessions s)" "\<forall>y\<in>set (f_sessions s). us_createdAt y < created"
    "us_createPending newid created u sub tok e s = Inr (x, s1)" "case e of None \<Rightarrow> True | Some t \<Rightarrow> now < t"
  shows "us_findLatestPendingByTenantUserId now u s1 = Some x"
proof -
  have x: "x = \<lparr>us_id = newid, us_oidcModelId = None, us_oidcSessionUid = None, us_tenantUserId = u,
      us_upstreamSubject = sub, us_upstreamIdToken = tok, us_createdAt = created, us_expiresAt = e\<rparr>"
    "f_sessions s1 = tbl_save us_id x (f_sessions s)"
    using assms(3) by (auto simp: us_createPending_def us_save_ok)
  then have sub: "x \<in> set (f_sessions s1)" "set (f_sessions s1) \<subseteq> insert x (set (f_sessions s))"
    using set_tbl_save [of us_id x "f_sessions s"] by auto
  let ?ps = "filter (\<lambda>x. us_tenantUserId x = u \<and> us_oidcModelId x = None
      \<and> (case us_expiresAt x of None \<Rightarrow> True | Some e \<Rightarrow> now < e)) (f_sessions s1)"
  have "x \<in> set ?ps" using sub x(1) assms(4) by simp
  moreover have "- us_createdAt x < - us_createdAt y" if "y \<in> set ?ps" "y \<noteq> x" for y
  proof -
    have "y \<in> set (f_sessions s)" using that sub(2) by auto
    then show ?thesis using assms(2) x(1) by simp
  qed
  ultimately obtain ys where "sort_key (\<lambda>x. - us_createdAt x) ?ps = x # ys"
    using hd_sort_least [of x ?ps "\<lambda>x. - us_createdAt x"] by blast
  then show ?thesis by (simp add: us_findLatestPendingByTenantUserId_def)
qed


definition demo_lib :: openid_lib where
  "demo_lib = \<lparr>ol_challenge = (\<lambda>v. v), ol_authUrl = ap_redirect_uri,
     ol_codeGrant = (\<lambda>url c. Inr \<lparr>ta_id_token = JStr ''tok'', ta_claims = JObj [(''sub'', JStr url)]\<rparr>),
     ol_endSession = (\<lambda>t. if t = ''tok'' then Inr 200 else Inr 400)\<rparr>"

definition demo_session_model :: oidc_model where
  "demo_session_model = \<lparr>om_id = ''m1'', om_modelName = ''Session'', om_oidcId = ''s1'', om_payload = [], om_grantId = None,
     om_userCode = None, om_uid = Some ''uid1'', om_accountId = Some ''a'', om_expiresAt = None, om_consumedAt = None, om_createdAt = 1\<rparr>"

definition demo_fed :: fed where
  "demo_fed = \<lparr>f_db = demo_db\<lparr>oidc_models := [demo_session_model]\<rparr>, f_interactions = [], f_sessions = []\<rparr>"


section \<open>Destruction and purge with the upstream tables\<close>

text \<open>\<^verbatim>\<open>OidcModelAdapter.destroy\<close> in full: the upstream log-out of a session comes first, and its failure keeps the row.\<close>

definition destroySessionUpstreamLink :: "openid_lib option \<Rightarrow> string \<Rightarrow> string \<Rightarrow> fed \<Rightarrow> fed result" where
  "destroySessionUpstreamLink lib modelName i s =
     (if modelName \<noteq> SESSION_MODEL then Ok s
      else (case tbl_find om_key (modelName, i) (oidc_models (f_db s)) of
              None \<Rightarrow> Ok s
            | Some r \<Rightarrow> logoutUpstreamSessionForOidcSession lib (om_id r) s))"

definition fed_destroy :: "openid_lib option \<Rightarrow> string \<Rightarrow> string \<Rightarrow> fed \<Rightarrow> fed result" where
  "fed_destroy lib modelName i s =
     rbind (destroySessionUpstreamLink lib modelName i s) (\<lambda>s'. Ok (on_db (om_destroy modelName i (f_db s')) s'))"

definition getExpiredSessionsWithUpstreamCleanup :: "time \<Rightarrow> nat \<Rightarrow> fed \<Rightarrow> string list" where
  "getExpiredSessionsWithUpstreamCleanup now limit s =
     map om_id (take (max 1 limit) (sort_key om_age
       (filter (\<lambda>r. om_modelName r = SESSION_MODEL \<and> om_expired now r
            \<and> list_ex (\<lambda>x. us_oidcModelId x = Some (om_id r)) (f_sessions s)) (oidc_models (f_db s)))))"

definition purgeExpiredUpstreamInteractionsBatch :: "time \<Rightarrow> nat \<Rightarrow> fed \<Rightarrow> nat \<times> fed" where
  "purgeExpiredUpstreamInteractionsBatch now limit s =
     (let (count, rows) = delete_oldest ui_id ui_expiresAt (\<lambda>x. ui_expiresAt x < now) (max 1 limit) (f_interactions s)
      in (count, s\<lparr>f_interactions := rows\<rparr>))"

text \<open>The log-outs are best effort: an error is logged and the next session follows.\<close>

fun logout_each :: "openid_lib option \<Rightarrow> string list \<Rightarrow> fed \<Rightarrow> fed" where
  "logout_each lib [] s = s"
| "logout_each lib (m # ms) s =
     (case logoutUpstreamSessionForOidcSession lib m s of Inl _ \<Rightarrow> logout_each lib ms s | Inr s' \<Rightarrow> logout_each lib ms s')"

text \<open>One round of the \<^verbatim>\<open>do\<close> loop; its count is that of the deleted models only.\<close>

definition fed_purge_round :: "openid_lib option \<Rightarrow> time \<Rightarrow> fed \<Rightarrow> nat \<times> fed" where
  "fed_purge_round lib now s =
     (let s1 = logout_each lib (getExpiredSessionsWithUpstreamCleanup now OIDC_BATCH_SIZE s) s;
          s2 = snd (us_deleteExpiredPendingBatch now OIDC_BATCH_SIZE s1);
          (count, d) = om_purgeExpiredBatch now OIDC_BATCH_SIZE (f_db s2);
          s3 = snd (purgeExpiredUpstreamInteractionsBatch now OIDC_BATCH_SIZE (on_db d s2))
      in (count, s3))"

definition fed_purgeExpiredModels :: "openid_lib option \<Rightarrow> time \<Rightarrow> fed \<Rightarrow> nat \<times> fed" where
  "fed_purgeExpiredModels lib now s = purge_run OIDC_MAX_BATCHES_PER_RUN (fed_purge_round lib now) s"

lemma logout_ok:
  assumes "logoutUpstreamSessionForOidcSession lib m s = Inr s'"
  shows "s' = s \<or> (\<exists>i. s' = us_delete i s)"
proof (cases "us_findByOidcModelId m s")
  case None
  then show ?thesis using assms by (simp add: logoutUpstreamSessionForOidcSession_def)
next
  case (Some x)
  then obtain l :: openid_lib where "(case ol_endSession l (us_upstreamIdToken x) of
      Inl m \<Rightarrow> Err (InternalError m)
    | Inr status \<Rightarrow>
        if status \<ge> 400 then Err (InternalError (''Upstream end-session request failed with status '' @ show_nat (nat status)))
        else Ok (us_delete (us_id x) s)) = Inr s'"
    using assms unfolding logoutUpstreamSessionForOidcSession_def by (auto simp: rbind_eq_Inr)
  then show ?thesis by (cases "ol_endSession l (us_upstreamIdToken x)") (auto split: if_splits)
qed

lemma logout_db: "logoutUpstreamSessionForOidcSession lib m s = Inr s' \<Longrightarrow> f_db s' = f_db s \<and> f_interactions s' = f_interactions s"
  using logout_ok by (fastforce simp: us_delete_def)

lemma logout_each_db: "f_db (logout_each lib ms s) = f_db s \<and> f_interactions (logout_each lib ms s) = f_interactions s"
proof (induction lib ms s rule: logout_each.induct)
  case (2 lib m ms s)
  show ?case
  proof (cases "logoutUpstreamSessionForOidcSession lib m s")
    case (Inl e)
    then show ?thesis using 2(1) [OF Inl] by simp
  next
    case (Inr s')
    then show ?thesis using 2(2) [OF Inr] logout_db [OF Inr] by simp
  qed
qed simp

lemma pending_batch_db:
  "f_db (snd (us_deleteExpiredPendingBatch now n s)) = f_db s"
  "f_interactions (snd (us_deleteExpiredPendingBatch now n s)) = f_interactions s"
  by (simp_all add: us_deleteExpiredPendingBatch_def case_prod_beta Let_def)

lemma round_parts:
  "fed_purge_round lib now s = (c, s') \<Longrightarrow>
     (c, f_db s') = om_purgeExpiredBatch now OIDC_BATCH_SIZE (f_db s)
     \<and> f_interactions s' = snd (delete_oldest ui_id ui_expiresAt (\<lambda>x. ui_expiresAt x < now) OIDC_BATCH_SIZE (f_interactions s))"
  by (auto simp: fed_purge_round_def purgeExpiredUpstreamInteractionsBatch_def case_prod_beta Let_def on_db_def logout_each_db
      pending_batch_db OIDC_BATCH_SIZE_def)

text \<open>The purge of the whole state does to the models what the purge of the models alone does, whatever the upstream
  provider answers.\<close>

lemma purge_run_simulates:
  assumes "\<And>s. (fst (B s), f (snd (B s))) = b (f s)"
  shows "(fst (purge_run n B s), f (snd (purge_run n B s))) = purge_run n b (f s)"
proof (induction n arbitrary: s)
  case (Suc n)
  obtain c s1 where B: "B s = (c, s1)" by force
  then have b: "b (f s) = (c, f s1)" using assms [of s] by simp
  show ?case using Suc [of s1] by (auto simp: B b case_prod_beta prod_eq_iff Let_def)
qed simp

lemma fed_purge_refines:
  "(fst (fed_purgeExpiredModels lib now s), f_db (snd (fed_purgeExpiredModels lib now s))) = purgeExpiredModels now (f_db s)"
  unfolding fed_purgeExpiredModels_def purgeExpiredModels_def
  by (rule purge_run_simulates) (use round_parts in \<open>metis prod.collapse\<close>)

text \<open>When no model has expired, a run makes one round: however many interactions have expired, all but one batch
  of them are still there afterwards.\<close>

theorem interaction_backlog_left:
  assumes "tbl_keys ui_id (f_interactions s)" "tbl_keys om_id (oidc_models (f_db s))" "filter (om_expired now) (oidc_models (f_db s)) = []"
  shows "length (filter (\<lambda>x. ui_expiresAt x < now) (f_interactions (snd (fed_purgeExpiredModels lib now s))))
     = length (filter (\<lambda>x. ui_expiresAt x < now) (f_interactions s)) - 500"
proof -
  obtain c s' where r: "fed_purge_round lib now s = (c, s')" by force
  note p = round_parts [OF r]
  have "fst (om_purgeExpiredBatch now OIDC_BATCH_SIZE (f_db s)) = 0"
    using delete_oldest_count(1) [where key = om_id and rows = "oidc_models (f_db s)" and age = om_age and expired = "om_expired now"] assms(2,3)
    by (simp add: om_purgeExpiredBatch_def case_prod_beta Let_def tbl_keys_def)
  then have "c = 0" using p by (metis fst_conv)
  then have "fed_purgeExpiredModels lib now s = (0, s')"
    using r by (simp add: fed_purgeExpiredModels_def OIDC_MAX_BATCHES_PER_RUN_def eval_nat_numeral)
  then show ?thesis
    using p delete_oldest_count(2) [where key = ui_id and rows = "f_interactions s" and age = ui_expiresAt
      and expired = "\<lambda>x. ui_expiresAt x < now" and n = 500] assms(1)
    by (simp add: OIDC_BATCH_SIZE_def tbl_keys_def)
qed

end
