(* ===== verification/Oidc_Provider.thy ===== *)
theory Oidc_Provider
  imports Upstream_Oidc
begin

text \<open>
  \<^verbatim>\<open>libs/oidc\<close>: the configuration of the OIDC provider (\<^verbatim>\<open>OidcConfigService\<close>), the validation of its signing keys
  (\<^verbatim>\<open>OidcKeysService\<close>), and the functions the provider calls back (\<^verbatim>\<open>buildOidcConfiguration\<close>): token claims, accounts,
  resource servers, life times, client secrets, and the link of a saved session to the pending upstream one.
\<close>

section \<open>Issuer URL\<close>

definition strip_trailing :: "char \<Rightarrow> string \<Rightarrow> string" where
  "strip_trailing c s = rev (dropWhile (\<lambda>x. x = c) (rev s))"

definition normalizeOidcIssuer :: "string \<Rightarrow> string" where
  "normalizeOidcIssuer issuer = strip_trailing (CHR ''/'') issuer"

definition buildOidcIssuerUrl :: "string \<Rightarrow> string \<Rightarrow> string" where
  "buildOidcIssuerUrl issuer pathSegment =
     normalizeOidcIssuer issuer @ ''/'' @ dropWhile (\<lambda>c. c = CHR ''/'') pathSegment"

section \<open>OidcConfigService\<close>

text \<open>The environment variables, \<^verbatim>\<open>Number\<close> on a string (absent for \<^verbatim>\<open>NaN\<close> and infinities) and the \<^verbatim>\<open>href\<close> of \<^verbatim>\<open>URL.parse\<close>.\<close>

record config_env =
  env_get :: "string \<Rightarrow> string option"
  env_number :: "string \<Rightarrow> rat option"
  env_href :: "string \<Rightarrow> string option"

record oidc_config =
  cfg_issuer :: string
  cfg_keysPath :: string
  cfg_accessTokenTtlSeconds :: int
  cfg_refreshTokenTtlSeconds :: int
  cfg_sessionTtlSeconds :: int
  cfg_grantTtlSeconds :: int
  cfg_maxConcurrentSessions :: int
  cfg_refreshTokenRotationEnabled :: bool
  cfg_cookieKeys :: "string list"
  cfg_scopes :: "string list"
  cfg_grantTypes :: "string list"
  cfg_audience :: string
  cfg_additionalAudiences :: "string list"

definition DEFAULT_OIDC_KEYS_PATH :: string where
  "DEFAULT_OIDC_KEYS_PATH = ''./config/oidc-keys.json''"

definition DEFAULT_JWT_AUDIENCE :: string where
  "DEFAULT_JWT_AUDIENCE = ''https://digital-trust-common-service''"

definition DEFAULT_ACCESS_TOKEN_TTL_SECONDS :: int where
  "DEFAULT_ACCESS_TOKEN_TTL_SECONDS = 5 * 60"

definition DEFAULT_REFRESH_TOKEN_TTL_SECONDS :: int where
  "DEFAULT_REFRESH_TOKEN_TTL_SECONDS = 8 * 60 * 60"

definition DEFAULT_GRANT_TTL_SECONDS :: int where
  "DEFAULT_GRANT_TTL_SECONDS = 14 * 24 * 60 * 60"

definition DEFAULT_MAX_CONCURRENT_SESSIONS :: int where
  "DEFAULT_MAX_CONCURRENT_SESSIONS = 5"

definition DEV_COOKIE_KEY :: string where
  "DEV_COOKIE_KEY = ''dev-insecure-cookie-key''"

definition DEFAULT_SCOPES :: "string list" where
  "DEFAULT_SCOPES = [''tenants:admin'', ''credentials:offer'', ''credentials:verify'', ''credentials:hold'', ''credentials:revoke'',
     ''connections:manage'', ''profiles:manage'', ''users:manage'', ''clients:manage'', ''logs:read'', ''audit:read'']"

definition DEFAULT_GRANT_TYPES :: "string list" where
  "DEFAULT_GRANT_TYPES = [''client_credentials'']"

definition SERVICEABLE_GRANT_TYPES :: "string list" where
  "SERVICEABLE_GRANT_TYPES = [''client_credentials'', ''refresh_token'', ''authorization_code'']"

lemmas config_consts = DEFAULT_ACCESS_TOKEN_TTL_SECONDS_def DEFAULT_REFRESH_TOKEN_TTL_SECONDS_def DEFAULT_GRANT_TTL_SECONDS_def
  DEFAULT_MAX_CONCURRENT_SESSIONS_def DEV_COOKIE_KEY_def DEFAULT_SCOPES_def DEFAULT_GRANT_TYPES_def SERVICEABLE_GRANT_TYPES_def

definition parseResourceIndicator :: "config_env \<Rightarrow> string \<Rightarrow> string \<Rightarrow> string result" where
  "parseResourceIndicator env value envName =
     (let trimmed = js_trim value;
          bad = Err (InternalError (envName @ '' must be an absolute URI without a fragment (RFC 8707). Got \"'' @ value @ ''\".''))
      in case env_href env trimmed of
           None \<Rightarrow> bad
         | Some href \<Rightarrow> if href = [] \<or> CHR ''#'' \<in> set href then bad else Ok trimmed)"

definition isProduction :: "config_env \<Rightarrow> bool" where
  "isProduction env = ((case env_get env ''NODE_ENV'' of None \<Rightarrow> ''development'' | Some v \<Rightarrow> v) = ''production'')"

definition getIssuer :: "config_env \<Rightarrow> string result" where
  "getIssuer env =
     (case env_get env ''OIDC_ISSUER'' of
        Some (c # cs) \<Rightarrow> Ok (strip_trailing (CHR ''/'') (c # cs))
      | _ \<Rightarrow>
          if isProduction env then Err (InternalError ''OIDC_ISSUER must be configured in production.'')
          else Ok (''http://localhost:'' @ (case env_get env ''PORT'' of None \<Rightarrow> ''3000'' | Some p \<Rightarrow> p) @ ''/oidc''))"

text \<open>\<^verbatim>\<open>getPositiveInt\<close> and \<^verbatim>\<open>getNonNegativeInt\<close> differ in the bound and the message.\<close>

definition get_int :: "config_env \<Rightarrow> int \<Rightarrow> string \<Rightarrow> string \<Rightarrow> int \<Rightarrow> int result" where
  "get_int env least kind key fallback =
     (case env_get env key of
        None \<Rightarrow> Ok fallback
      | Some raw \<Rightarrow>
          if js_trim raw = [] then Ok fallback
          else
            let bad = Err (InternalError (key @ '' must be a '' @ kind @ '' integer (got \"'' @ raw @ ''\").''))
            in (case env_number env raw of
                  None \<Rightarrow> bad
                | Some v \<Rightarrow> if v \<noteq> of_int \<lfloor>v\<rfloor> \<or> \<lfloor>v\<rfloor> < least then bad else Ok \<lfloor>v\<rfloor>))"

definition getPositiveInt :: "config_env \<Rightarrow> string \<Rightarrow> int \<Rightarrow> int result" where
  "getPositiveInt env key fallback = get_int env 1 ''positive'' key fallback"

definition getNonNegativeInt :: "config_env \<Rightarrow> string \<Rightarrow> int \<Rightarrow> int result" where
  "getNonNegativeInt env key fallback = get_int env 0 ''non-negative'' key fallback"

definition csv_items :: "string \<Rightarrow> string list" where
  "csv_items raw = filter (\<lambda>s. s \<noteq> []) (map js_trim (split_on (CHR '','') raw))"

definition getCookieKeys :: "config_env \<Rightarrow> string list result" where
  "getCookieKeys env =
     (case env_get env ''OIDC_COOKIE_KEYS'' of
        Some (c # cs) \<Rightarrow>
          (let keys = csv_items (c # cs)
           in if keys = [] then Err (InternalError ''OIDC_COOKIE_KEYS must contain at least one non-empty secret.'') else Ok keys)
      | _ \<Rightarrow>
          if isProduction env
          then Err (InternalError ''OIDC_COOKIE_KEYS must be configured in production (comma-separated secrets).'')
          else Ok [DEV_COOKIE_KEY])"

definition getCsv :: "config_env \<Rightarrow> string \<Rightarrow> string list \<Rightarrow> string list" where
  "getCsv env key fallback =
     (case env_get env key of
        None \<Rightarrow> fallback
      | Some raw \<Rightarrow> let items = csv_items raw in if items \<noteq> [] then items else fallback)"

definition getScopes :: "config_env \<Rightarrow> string list" where
  "getScopes env =
     (let configured = getCsv env ''OIDC_SCOPES'' DEFAULT_SCOPES
      in filter (\<lambda>s. s \<notin> set configured) [''openid'', ''offline_access''] @ configured)"

definition getGrantTypes :: "config_env \<Rightarrow> string list result" where
  "getGrantTypes env =
     (let grantTypes = getCsv env ''OIDC_GRANT_TYPES'' DEFAULT_GRANT_TYPES;
          unserviceable = filter (\<lambda>g. g \<notin> set SERVICEABLE_GRANT_TYPES) grantTypes
      in if unserviceable \<noteq> []
         then Err (InternalError (''OIDC_GRANT_TYPES contains grant type(s) this provider cannot serve: '' @ js_join '', '' unserviceable @
                ''. Serviceable grant type(s): '' @ js_join '', '' SERVICEABLE_GRANT_TYPES @ ''.''))
         else Ok grantTypes)"

definition getAudience :: "config_env \<Rightarrow> string result" where
  "getAudience env =
     (let configured = (case env_get env ''JWT_AUDIENCE'' of None \<Rightarrow> [] | Some v \<Rightarrow> js_trim v)
      in parseResourceIndicator env (if configured \<noteq> [] then configured else DEFAULT_JWT_AUDIENCE) ''JWT_AUDIENCE'')"

fun parse_all :: "config_env \<Rightarrow> string list \<Rightarrow> string list result" where
  "parse_all env [] = Ok []"
| "parse_all env (v # vs) =
     rbind (parseResourceIndicator env v ''JWT_ADDITIONAL_AUDIENCES'') (\<lambda>x. rbind (parse_all env vs) (\<lambda>xs. Ok (x # xs)))"

text \<open>\<^verbatim>\<open>[...new Set(xs)]\<close>: each value once, at its first place.\<close>

definition js_unique :: "'a list \<Rightarrow> 'a list" where
  "js_unique xs = rev (remdups (rev xs))"

definition getAdditionalAudiences :: "config_env \<Rightarrow> string \<Rightarrow> string list result" where
  "getAdditionalAudiences env audience =
     rbind (parse_all env (getCsv env ''JWT_ADDITIONAL_AUDIENCES'' [])) (\<lambda>additional.
       Ok (js_unique (filter (\<lambda>v. v \<noteq> audience) additional)))"

definition oidc_getConfig :: "config_env \<Rightarrow> oidc_config result" where
  "oidc_getConfig env =
     rbind (getPositiveInt env ''OIDC_REFRESH_TOKEN_TTL_SECONDS'' DEFAULT_REFRESH_TOKEN_TTL_SECONDS) (\<lambda>refreshTtl.
     rbind (getAudience env) (\<lambda>audience.
     rbind (getIssuer env) (\<lambda>issuer.
     rbind (getPositiveInt env ''OIDC_ACCESS_TOKEN_TTL_SECONDS'' DEFAULT_ACCESS_TOKEN_TTL_SECONDS) (\<lambda>accessTtl.
     rbind (getPositiveInt env ''OIDC_SESSION_TTL_SECONDS'' refreshTtl) (\<lambda>sessionTtl.
     rbind (getPositiveInt env ''OIDC_GRANT_TTL_SECONDS'' DEFAULT_GRANT_TTL_SECONDS) (\<lambda>grantTtl.
     rbind (getNonNegativeInt env ''OIDC_MAX_CONCURRENT_SESSIONS'' DEFAULT_MAX_CONCURRENT_SESSIONS) (\<lambda>maxSessions.
     rbind (getCookieKeys env) (\<lambda>cookieKeys.
     rbind (getGrantTypes env) (\<lambda>grantTypes.
     rbind (getAdditionalAudiences env audience) (\<lambda>additional.
       Ok \<lparr>cfg_issuer = issuer,
           cfg_keysPath = (case env_get env ''OIDC_KEYS_PATH'' of None \<Rightarrow> DEFAULT_OIDC_KEYS_PATH | Some p \<Rightarrow> p),
           cfg_accessTokenTtlSeconds = accessTtl, cfg_refreshTokenTtlSeconds = refreshTtl, cfg_sessionTtlSeconds = sessionTtl,
           cfg_grantTtlSeconds = grantTtl, cfg_maxConcurrentSessions = maxSessions,
           cfg_refreshTokenRotationEnabled =
             ((case env_get env ''OIDC_REFRESH_TOKEN_ROTATION_ENABLED'' of None \<Rightarrow> ''true'' | Some v \<Rightarrow> v) \<noteq> ''false''),
           cfg_cookieKeys = cookieKeys, cfg_scopes = getScopes env, cfg_grantTypes = grantTypes, cfg_audience = audience,
           cfg_additionalAudiences = additional\<rparr>))))))))))"

section \<open>OidcKeysService\<close>

definition nonempty_str :: "json \<Rightarrow> bool" where
  "nonempty_str v = (case v of JStr s \<Rightarrow> s \<noteq> [] | _ \<Rightarrow> False)"

fun validate_keys :: "(json \<Rightarrow> string) \<Rightarrow> json list \<Rightarrow> unit result" where
  "validate_keys str [] = Ok ()"
| "validate_keys str (key # rest) =
     (if \<not> nonempty_str (jget key ''kid'') then Err (InternalError ''Every OIDC signing key must have a \"kid\".'')
      else if jget key ''kty'' \<noteq> JStr ''RSA''
      then Err (InternalError (''Unsupported OIDC signing key type \"'' @ str (jget key ''kty'') @ ''\"; only RSA (RS256) keys are supported.''))
      else if \<not> nonempty_str (jget key ''d'')
      then Err (InternalError (''Every OIDC signing key must include private key material (the \"d\" parameter); '' @
             ''a public-only JWKS cannot sign tokens.''))
      else validate_keys str rest)"

text \<open>\<open>str\<close> is \<^verbatim>\<open>String(...)\<close> in a message.\<close>

definition validate_jwks :: "(json \<Rightarrow> string) \<Rightarrow> json \<Rightarrow> unit result" where
  "validate_jwks str jwks =
     (case jget jwks ''keys'' of
        JArr (k # ks) \<Rightarrow> validate_keys str (k # ks)
      | _ \<Rightarrow> Err (InternalError ''OIDC JWKS file must contain a non-empty \"keys\" array.''))"

text \<open>The key file: absent, or what \<^verbatim>\<open>JSON.parse\<close> makes of it. \<open>fresh\<close> is a newly generated key; the second result
  says what is written to disk.\<close>

definition loadOrGenerateKeys :: "config_env \<Rightarrow> (json \<Rightarrow> string) \<Rightarrow> (string + json) option \<Rightarrow> json \<Rightarrow> json result \<times> json option" where
  "loadOrGenerateKeys env str file fresh =
     (let keysPath = (case env_get env ''OIDC_KEYS_PATH'' of None \<Rightarrow> DEFAULT_OIDC_KEYS_PATH | Some p \<Rightarrow> p) in
      case file of
        Some (Inl m) \<Rightarrow> (Err (InternalError (''Unable to parse OIDC JWKS file: '' @ m)), None)
      | Some (Inr parsed) \<Rightarrow> (rbind (validate_jwks str parsed) (\<lambda>_. Ok parsed), None)
      | None \<Rightarrow>
          if isProduction env
          then (Err (InternalError (''OIDC signing key file does not exist: '' @ keysPath @ ''. Generate one before starting in production.'')), None)
          else (Ok (JObj [(''keys'', JArr [fresh])]), Some (JObj [(''keys'', JArr [fresh])])))"

section \<open>Callbacks of the provider\<close>

text \<open>The extra metadata of a client that the callbacks read.\<close>

record client_meta =
  cm_tenant_id :: "string option"
  cm_roles :: "string list option"
  cm_refresh_token_ttl_seconds :: "int option"
  cm_client_secret_hash :: "string option"
  cm_clientAuthMethod :: "string option"

text \<open>\<open>rotated\<close> is the remaining life time of the refresh token that is being replaced.\<close>

definition resolveRefreshTokenTtl :: "int \<Rightarrow> client_meta option \<Rightarrow> int option \<Rightarrow> int" where
  "resolveRefreshTokenTtl defaultTtlSeconds client rotated =
     (let ttlSeconds = (case Option.bind client cm_refresh_token_ttl_seconds of
            None \<Rightarrow> defaultTtlSeconds
          | Some configured \<Rightarrow> if configured > 0 then configured else defaultTtlSeconds)
      in case rotated of
           None \<Rightarrow> ttlSeconds
         | Some remaining \<Rightarrow>
             if Option.bind client cm_clientAuthMethod = Some ''none'' then min ttlSeconds remaining else ttlSeconds)"

definition ota_findById :: "string \<Rightarrow> db \<Rightarrow> tenant_user option result" where
  "ota_findById uid d =
     (case tus_findById uid d of
        Inr u \<Rightarrow> Ok (Some u)
      | Inl e \<Rightarrow> (case e of NotFound _ \<Rightarrow> Ok None | _ \<Rightarrow> Err e))"

definition extraTokenClaims :: "string option \<Rightarrow> client_meta option \<Rightarrow> db \<Rightarrow> (string \<times> json) list option result" where
  "extraTokenClaims accountId client d =
     (case accountId of
        Some (c # cs) \<Rightarrow>
          rbind (ota_findById (c # cs) d) (\<lambda>user.
            Ok (case user of
              None \<Rightarrow> None
            | Some u \<Rightarrow>
                if u_status u \<noteq> U_ACTIVE then None
                else Some [(''tenant_id'', JStr (u_tenantId u)), (''tenant_role'', JStr (role_str (u_role u))),
                           (''roles'', JArr [JStr (role_str (u_role u))])]))
      | _ \<Rightarrow>
          Ok (case Option.bind client cm_tenant_id of
            Some (c # cs) \<Rightarrow>
              Some ((''tenant_id'', JStr (c # cs)) #
                (case Option.bind client cm_roles of
                   Some (r # rs) \<Rightarrow> [(''roles'', JArr (map JStr (r # rs)))]
                 | _ \<Rightarrow> []))
          | _ \<Rightarrow> None))"

record account =
  acc_accountId :: string
  acc_claims :: "(string \<times> json) list"

definition findAccount :: "string \<Rightarrow> db \<Rightarrow> account option result" where
  "findAccount accountId d =
     rbind (ota_findById accountId d) (\<lambda>user.
       Ok (case user of
         None \<Rightarrow> None
       | Some u \<Rightarrow>
           if u_status u \<noteq> U_ACTIVE then None
           else Some \<lparr>acc_accountId = u_id u,
                      acc_claims = [(''sub'', JStr (u_id u)), (''email'', JStr (u_email u)),
                        (''name'', case u_displayName u of None \<Rightarrow> JNull | Some n \<Rightarrow> JStr n),
                        (''tenant_id'', JStr (u_tenantId u)), (''tenant_role'', JStr (role_str (u_role u)))]\<rparr>))"

definition defaultResource :: "oidc_config \<Rightarrow> string list option \<Rightarrow> string option" where
  "defaultResource cfg oneOf =
     (case oneOf of
        None \<Rightarrow> Some (cfg_audience cfg)
      | Some rs \<Rightarrow> if cfg_audience cfg \<in> set rs then Some (cfg_audience cfg) else (case rs of [] \<Rightarrow> None | r # _ \<Rightarrow> Some r))"

record resource_server_info =
  rsi_scope :: string
  rsi_accessTokenFormat :: string
  rsi_alg :: string

definition getResourceServerInfo :: "oidc_config \<Rightarrow> string \<Rightarrow> resource_server_info result" where
  "getResourceServerInfo cfg resourceIndicator =
     (if resourceIndicator \<notin> insert (cfg_audience cfg) (set (cfg_additionalAudiences cfg))
      then Err (BadRequest (''unsupported resource indicator: '' @ resourceIndicator))
      else Ok \<lparr>rsi_scope = js_join '' '' (cfg_scopes cfg), rsi_accessTokenFormat = ''jwt'', rsi_alg = ''RS256''\<rparr>)"

definition interaction_url :: "string \<Rightarrow> string" where
  "interaction_url uid = ''/oidc/interaction/'' @ uid"

definition compareClientSecret :: "argon2 \<Rightarrow> client_meta \<Rightarrow> string \<Rightarrow> bool" where
  "compareClientSecret argon client actual =
     (case cm_client_secret_hash client of
        None \<Rightarrow> False
      | Some h \<Rightarrow> if h = [] then False else argon_verify argon h actual)"

definition finalizePendingUpstreamSession :: "time \<Rightarrow> json \<Rightarrow> json \<Rightarrow> fed \<Rightarrow> unit result \<times> fed" where
  "finalizePendingUpstreamSession now sessionUid accountId s =
     (case (sessionUid, accountId) of
        (JStr (u # us), JStr (a # as)) \<Rightarrow>
          (case sort_key (\<lambda>r. - om_createdAt r)
              (filter (\<lambda>r. om_modelName r = ''Session'' \<and> om_uid r = Some (u # us)) (oidc_models (f_db s))) of
             [] \<Rightarrow> (Ok (), s)
           | r # _ \<Rightarrow>
               (case fed_finalizeUpstreamSession now (om_id r) (u # us) (a # as) s of
                  (Inl e, s') \<Rightarrow> (Err e, s')
                | (Inr _, s') \<Rightarrow> (Ok (), s')))
      | _ \<Rightarrow> (Ok (), s))"

text \<open>The listener of \<^verbatim>\<open>session.saved\<close>: an error is only logged.\<close>

definition on_session_saved :: "time \<Rightarrow> json \<Rightarrow> json \<Rightarrow> fed \<Rightarrow> fed" where
  "on_session_saved now sessionUid accountId s = snd (finalizePendingUpstreamSession now sessionUid accountId s)"

section \<open>Facts\<close>

lemma get_int_ok:
  assumes "get_int env least kind key fallback = Inr v" "least \<le> fallback"
  shows "least \<le> v"
proof (cases "env_get env key")
  case None
  then show ?thesis using assms by (simp add: get_int_def)
next
  case (Some raw)
  then show ?thesis using assms by (auto simp: get_int_def Let_def split: if_splits option.splits)
qed

lemma csv_items_ok: "s \<in> set (csv_items raw) \<Longrightarrow> s \<noteq> []"
  by (simp add: csv_items_def)

lemma parse_all_trim: "parse_all env vs = Inr xs \<Longrightarrow> xs = map js_trim vs"
  by (induction vs arbitrary: xs) (auto simp: rbind_eq_Inr parseResourceIndicator_def Let_def split: option.splits if_splits)

lemma js_unique_set [simp]: "set (js_unique xs) = set xs" "distinct (js_unique xs)"
  by (simp_all add: js_unique_def)

text \<open>What starting the provider guarantees.\<close>

definition config_sane :: "config_env \<Rightarrow> oidc_config \<Rightarrow> bool" where
  "config_sane env cfg =
     (cfg_accessTokenTtlSeconds cfg > 0 \<and> cfg_refreshTokenTtlSeconds cfg > 0 \<and> cfg_sessionTtlSeconds cfg > 0
      \<and> cfg_grantTtlSeconds cfg > 0 \<and> cfg_maxConcurrentSessions cfg \<ge> 0
      \<and> {''openid'', ''offline_access''} \<subseteq> set (cfg_scopes cfg)
      \<and> cfg_grantTypes cfg \<noteq> [] \<and> set (cfg_grantTypes cfg) \<subseteq> set SERVICEABLE_GRANT_TYPES
      \<and> cfg_cookieKeys cfg \<noteq> [] \<and> [] \<notin> set (cfg_cookieKeys cfg)
      \<and> (isProduction env \<longrightarrow> (\<exists>raw. env_get env ''OIDC_COOKIE_KEYS'' = Some raw \<and> cfg_cookieKeys cfg = csv_items raw)
            \<and> (\<exists>iss. env_get env ''OIDC_ISSUER'' = Some iss \<and> iss \<noteq> [] \<and> cfg_issuer cfg = normalizeOidcIssuer iss))
      \<and> distinct (cfg_audience cfg # cfg_additionalAudiences cfg)
      \<and> (\<forall>r. is_ok (getResourceServerInfo cfg r) \<longleftrightarrow> r = cfg_audience cfg \<or> r \<in> set (cfg_additionalAudiences cfg)))"

lemma getCookieKeys_ok:
  assumes "getCookieKeys env = Inr ks"
  shows "ks \<noteq> [] \<and> [] \<notin> set ks \<and> (isProduction env \<longrightarrow> (\<exists>raw. env_get env ''OIDC_COOKIE_KEYS'' = Some raw \<and> ks = csv_items raw))"
  using assms csv_items_ok
  by (auto simp: getCookieKeys_def Let_def DEV_COOKIE_KEY_def split: option.splits list.splits if_splits)

lemma getIssuer_ok:
  assumes "getIssuer env = Inr i" "isProduction env"
  shows "\<exists>iss. env_get env ''OIDC_ISSUER'' = Some iss \<and> iss \<noteq> [] \<and> i = normalizeOidcIssuer iss"
  using assms by (auto simp: getIssuer_def normalizeOidcIssuer_def split: option.splits list.splits)

lemma getGrantTypes_ok: "getGrantTypes env = Inr gs \<Longrightarrow> gs \<noteq> [] \<and> set gs \<subseteq> set SERVICEABLE_GRANT_TYPES"
  by (auto simp: getGrantTypes_def getCsv_def Let_def DEFAULT_GRANT_TYPES_def filter_empty_conv split: if_splits option.splits)

section \<open>Properties\<close>

text \<open>C24. A configuration that the service accepts at start-up is well formed: all life times are positive, the session
  limit is not negative, \<^verbatim>\<open>openid\<close> and \<^verbatim>\<open>offline_access\<close> are among the scopes, only grant types that can be served are
  enabled, the cookie keys are non-empty and in production come from the environment, as the issuer does, the audiences
  are distinct, and exactly these are accepted as resource indicators.\<close>

theorem oidc_config_sane:
  assumes "oidc_getConfig env = Inr cfg"
  shows "config_sane env cfg"
proof -
  obtain r a i acc ss g m ks gs add where p:
    "getPositiveInt env ''OIDC_REFRESH_TOKEN_TTL_SECONDS'' DEFAULT_REFRESH_TOKEN_TTL_SECONDS = Inr r"
    "getAudience env = Inr a" "getIssuer env = Inr i"
    "getPositiveInt env ''OIDC_ACCESS_TOKEN_TTL_SECONDS'' DEFAULT_ACCESS_TOKEN_TTL_SECONDS = Inr acc"
    "getPositiveInt env ''OIDC_SESSION_TTL_SECONDS'' r = Inr ss"
    "getPositiveInt env ''OIDC_GRANT_TTL_SECONDS'' DEFAULT_GRANT_TTL_SECONDS = Inr g"
    "getNonNegativeInt env ''OIDC_MAX_CONCURRENT_SESSIONS'' DEFAULT_MAX_CONCURRENT_SESSIONS = Inr m"
    "getCookieKeys env = Inr ks" "getGrantTypes env = Inr gs" "getAdditionalAudiences env a = Inr add"
    and cfg: "cfg_accessTokenTtlSeconds cfg = acc" "cfg_refreshTokenTtlSeconds cfg = r" "cfg_sessionTtlSeconds cfg = ss"
      "cfg_grantTtlSeconds cfg = g" "cfg_maxConcurrentSessions cfg = m" "cfg_scopes cfg = getScopes env"
      "cfg_grantTypes cfg = gs" "cfg_cookieKeys cfg = ks" "cfg_issuer cfg = i" "cfg_audience cfg = a" "cfg_additionalAudiences cfg = add"
    using assms by (auto simp: oidc_getConfig_def rbind_eq_Inr)
  have r: "1 \<le> r" and "1 \<le> acc" "1 \<le> g" "0 \<le> m"
    using p(1,4,6,7) get_int_ok by (fastforce simp: getPositiveInt_def getNonNegativeInt_def config_consts)+
  moreover have "1 \<le> ss" using p(5) r get_int_ok by (fastforce simp: getPositiveInt_def)
  moreover have "{''openid'', ''offline_access''} \<subseteq> set (getScopes env)" by (auto simp: getScopes_def Let_def)
  moreover have "a \<notin> set add \<and> distinct add" using p(10) by (auto simp: getAdditionalAudiences_def rbind_eq_Inr)
  ultimately show ?thesis using getCookieKeys_ok [OF p(8)] getGrantTypes_ok [OF p(9)] getIssuer_ok [OF p(3)]
    by (simp add: config_sane_def cfg getResourceServerInfo_def is_ok_simps)
qed

definition demo_config_env :: config_env where
  "demo_config_env = \<lparr>env_get = map_of [(''NODE_ENV'', ''production''), (''OIDC_ISSUER'', ''https://x.ca/oidc/''), (''OIDC_COOKIE_KEYS'', ''k1, k2'')],
     env_number = (\<lambda>_. None), env_href = Some\<rparr>"

theorem oidc_config_sane_witness:
  "\<exists>cfg. oidc_getConfig demo_config_env = Inr cfg \<and> config_sane demo_config_env cfg \<and> cfg_cookieKeys cfg = [''k1'', ''k2'']"
proof -
  have "is_ok (oidc_getConfig demo_config_env)" by code_simp
  then obtain cfg where c: "oidc_getConfig demo_config_env = Inr cfg" by (cases "oidc_getConfig demo_config_env") auto
  moreover have "map_sum id cfg_cookieKeys (oidc_getConfig demo_config_env) = Inr [''k1'', ''k2'']" by code_simp
  ultimately show ?thesis using oidc_config_sane [OF c] by auto
qed

text \<open>A chain of refresh token rotations at the given times: the expiry of the last token, the first one expiring at
  \<open>e\<close>.\<close>

fun rotations :: "int \<Rightarrow> client_meta \<Rightarrow> int \<Rightarrow> int list \<Rightarrow> int" where
  "rotations ttl c e [] = e"
| "rotations ttl c e (t # ts) = rotations ttl c (t + resolveRefreshTokenTtl ttl (Some c) (Some (e - t))) ts"

text \<open>Rotation does not extend the login of a public client: however often its refresh token is rotated, the last one
  expires no later than the first. Each token of a confidential client lives for the window configured for the client, or
  for the default one.\<close>

theorem refresh_rotation_bounded:
  "(if cm_clientAuthMethod c = Some ''none'' then rotations ttl c e ts \<le> e
    else rotations ttl c e ts = (if ts = [] then e else last ts + resolveRefreshTokenTtl ttl (Some c) None))"
proof (induction ts arbitrary: e)
  case (Cons t ts)
  have step: "t + resolveRefreshTokenTtl ttl (Some c) (Some (e - t)) \<le> e" if "cm_clientAuthMethod c = Some ''none''"
    using that by (simp add: resolveRefreshTokenTtl_def Let_def min_def)
  show ?case using Cons [of "t + resolveRefreshTokenTtl ttl (Some c) (Some (e - t))"] step
    by (auto simp: resolveRefreshTokenTtl_def Let_def)
qed simp

end
