(* ===== verification/Oidc_Login.thy ===== *)
theory Oidc_Login
  imports Oidc_Provider
begin

text \<open>
  \<^verbatim>\<open>OidcInteractionController\<close>: the login and consent interactions of the OIDC provider, and the callback of the upstream
  identity provider that binds a person to a tenant user.

  Parameters: what the provider library makes of the request (\<open>interaction_details\<close>), the payload under which it saves a
  grant, \<^verbatim>\<open>escape-html\<close>, and \<^verbatim>\<open>new URL(path, base)\<close>.
\<close>

section \<open>Interaction\<close>

record prompt_details =
  pd_name :: string
  pd_missingOIDCScope :: "string list option"
  pd_missingResourceScopes :: "(string \<times> string list) list option"

record interaction_details =
  id_uid :: string
  id_prompt :: prompt_details
  id_clientId :: json
  id_accountId :: "string option"

record oidc_grant =
  og_clientId :: json
  og_accountId :: string
  og_oidcScope :: "string option"
  og_resourceScopes :: "(string \<times> string) list"

record login_env =
  le_lib :: "openid_lib option"
  le_issuer :: "string option"
  le_grantPayload :: "oidc_grant \<Rightarrow> (string \<times> json) list"
  le_grantTtl :: int
  le_escape :: "string \<Rightarrow> string"
  le_url :: "string \<Rightarrow> string \<Rightarrow> string option"

text \<open>The identifiers and the time stamp of a new grant: the one the library draws, and those of its row.\<close>

record grant_stamp =
  gs_grantId :: string
  gs_rowId :: string
  gs_created :: micros

datatype login_error = ScopeDenied tenant_user_role "string list" | LoginError http_error

definition scope_denied_message :: "tenant_user_role \<Rightarrow> string list \<Rightarrow> string" where
  "scope_denied_message role denied =
     ''Requested scopes exceed tenant-user role \"'' @ role_str role @ ''\": '' @ js_join '', '' denied"

datatype oidc_response = Finished "string option" string | Redirect string | PlainText nat string

definition STANDARD_OIDC_SCOPES :: "string list" where
  "STANDARD_OIDC_SCOPES = [''openid'', ''profile'', ''email'', ''tenant'', ''offline_access'']"

definition build_grant :: "json \<Rightarrow> string \<Rightarrow> prompt_details \<Rightarrow> db \<Rightarrow> login_error + oidc_grant" where
  "build_grant clientId accountId prompt d =
     (case ota_findById accountId d of
        Inl e \<Rightarrow> Inl (LoginError e)
      | Inr user \<Rightarrow>
          let inactive = Inl (LoginError (InternalError (''Active tenant user not found: '' @ accountId))) in
          (case user of
             None \<Rightarrow> inactive
           | Some u \<Rightarrow>
               if u_status u \<noteq> U_ACTIVE then inactive
               else
                 let allowed = STANDARD_OIDC_SCOPES @ findScopesForRole (role_str (u_role u)) (Some (u_tenantId u)) d;
                     resources = (case pd_missingResourceScopes prompt of
                         None \<Rightarrow> [] | Some rs \<Rightarrow> map (\<lambda>(r, scopes). (r, js_join '' '' scopes)) rs);
                     grant = (\<lambda>scope. \<lparr>og_clientId = clientId, og_accountId = accountId, og_oidcScope = scope,
                                       og_resourceScopes = resources\<rparr>)
                 in (case pd_missingOIDCScope prompt of
                       None \<Rightarrow> Inr (grant None)
                     | Some requested \<Rightarrow>
                         let parts = partitionRequestedScopes \<lparr>requestedScopes = requested, allowedScopes = set allowed,
                                       actorScopes = set allowed, pi_isPlatformAdmin = False\<rparr>
                         in if deniedScopes parts \<noteq> [] then Inl (ScopeDenied (u_role u) (deniedScopes parts))
                            else Inr (grant (if grantedScopes parts = [] then None else Some (js_join '' '' (grantedScopes parts)))))))"

definition createAndSaveGrant ::
  "login_env \<Rightarrow> grant_stamp \<Rightarrow> time \<Rightarrow> json \<Rightarrow> string \<Rightarrow> prompt_details \<Rightarrow> db \<Rightarrow> login_error + (string \<times> db)" where
  "createAndSaveGrant env gs now clientId accountId prompt d =
     (case build_grant clientId accountId prompt d of
        Inl e \<Rightarrow> Inl e
      | Inr g \<Rightarrow>
          Inr (gs_grantId gs, om_upsert (gs_rowId gs) (gs_created gs) now ''Grant'' (gs_grantId gs) (le_grantPayload env g) (le_grantTtl env) d))"

text \<open>The \<^verbatim>\<open>try\<close> block of both prompts, with \<^verbatim>\<open>tryWriteScopeDeniedResponse\<close> in its \<^verbatim>\<open>catch\<close>.\<close>

definition finish_interaction ::
  "login_env \<Rightarrow> grant_stamp \<Rightarrow> time \<Rightarrow> string option \<Rightarrow> json \<Rightarrow> string \<Rightarrow> prompt_details \<Rightarrow> fed \<Rightarrow> oidc_response result \<times> fed" where
  "finish_interaction env gs now login clientId accountId prompt s =
     (case createAndSaveGrant env gs now clientId accountId prompt (f_db s) of
        Inl (ScopeDenied role denied) \<Rightarrow>
          (Ok (PlainText 403 (''Insufficient role for requested scopes: '' @ le_escape env (scope_denied_message role denied))), s)
      | Inl (LoginError e) \<Rightarrow> (Err e, s)
      | Inr (grantId, d) \<Rightarrow> (Ok (Finished login grantId), on_db d s))"

definition issuer_of :: "login_env \<Rightarrow> string" where
  "issuer_of env = (case le_issuer env of None \<Rightarrow> ''http://localhost:3000/oidc'' | Some i \<Rightarrow> i)"

definition startUpstreamLogin ::
  "login_env \<Rightarrow> upstream_random \<Rightarrow> time \<Rightarrow> interaction_details \<Rightarrow> fed \<Rightarrow> oidc_response result \<times> fed" where
  "startUpstreamLogin env rnd now details s =
     (case id_accountId details of
        Some (c # cs) \<Rightarrow> (Err (InternalError (''Attempted upstream login despite existing accountId '' @ c # cs)), s)
      | _ \<Rightarrow>
          (case id_clientId details of
             JStr clientId \<Rightarrow>
               (case findActiveClient clientId (f_db s) of
                  None \<Rightarrow> (Err (InternalError (''OAuth client not found: '' @ clientId)), s)
                | Some client \<Rightarrow>
                    (case initiateUpstreamLogin (le_lib env) rnd now (id_uid details) (ocr_tenantId client)
                        (buildOidcIssuerUrl (issuer_of env) ''callback'') s of
                       (Inl e, s') \<Rightarrow> (Err e, s')
                     | (Inr (state, url), s') \<Rightarrow> (Ok (Redirect url), s')))
           | _ \<Rightarrow> (Err (InternalError ''Missing client_id in interaction params''), s)))"

text \<open>A consumed interaction always has its tenant user (\<open>consumed_bound\<close> below), so the cast of the source is safe.\<close>

definition oidc_interaction ::
  "login_env \<Rightarrow> grant_stamp \<Rightarrow> upstream_random \<Rightarrow> time \<Rightarrow> interaction_details \<Rightarrow> fed \<Rightarrow> oidc_response result \<times> fed" where
  "oidc_interaction env gs rnd now details s =
     (if pd_name (id_prompt details) = ''login'' then
        (case ui_findByInteractionUid (id_uid details) s of
           Some x \<Rightarrow>
             (case (ui_consumedAt x, ui_tenantUserId x) of
                (Some _, Some u) \<Rightarrow> finish_interaction env gs now (Some u) (id_clientId details) u (id_prompt details) s
              | (Some _, None) \<Rightarrow> (Err (InternalError ''Active tenant user not found''), s)
              | (None, _) \<Rightarrow> startUpstreamLogin env rnd now details s)
         | None \<Rightarrow> startUpstreamLogin env rnd now details s)
      else if pd_name (id_prompt details) = ''consent'' then
        (case id_accountId details of
           Some (c # cs) \<Rightarrow> finish_interaction env gs now None (id_clientId details) (c # cs) (id_prompt details) s
         | _ \<Rightarrow> (Err (InternalError ''No authenticated session''), s))
      else (Err (InternalError (''Unsupported oidc-provider interaction prompt: '' @ pd_name (id_prompt details))), s))"

section \<open>Callback\<close>

record callback_request =
  cq_code :: "string option"
  cq_state :: "string option"
  cq_error :: "string option"
  cq_errorDescription :: "string option"
  cq_forwardedProto :: "string option"
  cq_host :: "string option"
  cq_url :: "string option"

text \<open>Identifiers and time stamps of the rows a callback may create: a tenant user and a pending session.\<close>

record callback_stamp =
  cs_userId :: string
  cs_userCreated :: micros
  cs_sessionId :: string
  cs_sessionCreated :: micros

definition truthy :: "string option \<Rightarrow> bool" where
  "truthy v = (case v of None \<Rightarrow> False | Some t \<Rightarrow> t \<noteq> [])"

definition callback_url :: "login_env \<Rightarrow> callback_request \<Rightarrow> string result" where
  "callback_url env rq =
     (let proto = (case cq_forwardedProto rq of None \<Rightarrow> ''http'' | Some p \<Rightarrow> js_trim (hd (split_on (CHR '','') p))) in
      case cq_host rq of
        Some (c # cs) \<Rightarrow>
          (case le_url env (case cq_url rq of None \<Rightarrow> ''/'' | Some u \<Rightarrow> u) (proto @ ''://'' @ c # cs) of
             None \<Rightarrow> Err (InternalError ''Invalid URL'')
           | Some u \<Rightarrow> Ok u)
      | _ \<Rightarrow> Err (InternalError ''Missing Host header''))"

text \<open>Which tenant user a verified subject becomes, with what the database is afterwards.\<close>

definition jit_user :: "string \<Rightarrow> upstream_claims \<Rightarrow> create_tu_dto" where
  "jit_user tenantId claims =
     \<lparr>ctu_tenantId = tenantId, ctu_externalUserId = uc_sub claims,
      ctu_email = (case uc_email claims of None \<Rightarrow> [] | Some e \<Rightarrow> e),
      ctu_displayName = Some (case uc_name claims of Some n \<Rightarrow> n | None \<Rightarrow> (case uc_email claims of Some e \<Rightarrow> e | None \<Rightarrow> uc_sub claims)),
      ctu_role = READONLY, ctu_status = U_ACTIVE\<rparr>"

definition claim_invited :: "string \<Rightarrow> upstream_claims \<Rightarrow> db \<Rightarrow> (tenant_user option \<times> db) result" where
  "claim_invited tenantId claims d =
     (case uc_email claims of
        Some (c # cs) \<Rightarrow> tus_claimInvitedByEmail tenantId (c # cs) (uc_sub claims) d
      | _ \<Rightarrow> Ok (None, d))"

definition federated_user :: "callback_stamp \<Rightarrow> time \<Rightarrow> string \<Rightarrow> upstream_claims \<Rightarrow> db \<Rightarrow> tenant_user result \<times> db" where
  "federated_user cs now tenantId claims d =
     (case tu_findActiveByExternalUserId (uc_sub claims) d of
        (u, t) # _ \<Rightarrow> (Ok u, d)
      | [] \<Rightarrow>
          (case claim_invited tenantId claims d of
             Inl e \<Rightarrow> (Err e, d)
           | Inr (Some u, d1) \<Rightarrow> (Ok u, d1)
           | Inr (None, d1) \<Rightarrow>
               (case tu_findByTenantAndExternalUserId tenantId (uc_sub claims) d1 of
                  Some u \<Rightarrow> if u_status u \<noteq> U_ACTIVE then (Err (InternalError ''Federated user is not active''), d1) else (Ok u, d1)
                | None \<Rightarrow>
                    (case tus_create (cs_userId cs) (cs_userCreated cs) now (jit_user tenantId claims) d1 of
                       Inl e \<Rightarrow> (Err e, d1)
                     | Inr (u, d2) \<Rightarrow> (Ok u, d2)))))"

fun error_message :: "http_error \<Rightarrow> string" where
  "error_message (BadRequest m) = m"
| "error_message (Unauthorized m) = m"
| "error_message (Forbidden m) = m"
| "error_message (NotFound m) = m"
| "error_message (Conflict m) = m"
| "error_message (UnprocessableEntity m) = m"
| "error_message (NotImplemented m) = m"
| "error_message (ServiceUnavailable m) = m"
| "error_message (InternalError m) = m"
| "error_message (AuthenticationRequired m _) = m"
| "error_message (InsufficientScope m _ _) = m"
| "error_message (TenantAccessDenied m _ _) = m"
| "error_message (TenantNotActive m _) = m"
| "error_message (InsufficientTenantRole m _) = m"
| "error_message (TooManyRequests _) = ''Too Many Requests''"

text \<open>The \<^verbatim>\<open>try\<close> block from the tenant user on: each write is committed before the next.\<close>

definition bind_interaction ::
  "callback_stamp \<Rightarrow> time \<Rightarrow> string \<Rightarrow> upstream_callback \<Rightarrow> tenant_user \<Rightarrow> fed \<Rightarrow> unit result \<times> fed" where
  "bind_interaction cs now state cb u s =
     (case stagePendingUpstreamSession (cs_sessionId cs) (cs_sessionCreated cs) (u_id u) (uc_sub (cb_claims cb)) (cb_idToken cb)
         (cb_expiresAt cb) s of
        Inl e \<Rightarrow> (Err e, s)
      | Inr s1 \<Rightarrow>
          (case setTenantUserIdForInteraction now state (u_id u) s1 of
             Inl e \<Rightarrow> (Err e, s1)
           | Inr (_, s2) \<Rightarrow>
               (case consumeInteraction now state s2 of
                  Inl e \<Rightarrow> (Err e, s2)
                | Inr (_, s3) \<Rightarrow> (Ok (), s3))))"

definition process_callback ::
  "login_env \<Rightarrow> callback_stamp \<Rightarrow> time \<Rightarrow> string \<Rightarrow> callback_request \<Rightarrow> fed \<Rightarrow> string result \<times> fed" where
  "process_callback env cs now state rq s =
     (case callback_url env rq of
        Inl e \<Rightarrow> (Err e, s)
      | Inr url \<Rightarrow>
          (case handleUpstreamCallback (le_lib env) now state url s of
             Inl e \<Rightarrow> (Err e, s)
           | Inr cb \<Rightarrow>
               (case federated_user cs now (ui_tenantId (cb_interaction cb)) (cb_claims cb) (f_db s) of
                  (Inl e, d) \<Rightarrow> (Err e, on_db d s)
                | (Inr u, d) \<Rightarrow>
                    (case bind_interaction cs now state cb u (on_db d s) of
                       (Inl e, s') \<Rightarrow> (Err e, s')
                     | (Inr _, s') \<Rightarrow>
                         (Ok (buildOidcIssuerUrl (issuer_of env) (''interaction/'' @ ui_interactionUid (cb_interaction cb))), s')))))"

definition oidc_callback :: "login_env \<Rightarrow> callback_stamp \<Rightarrow> time \<Rightarrow> callback_request \<Rightarrow> fed \<Rightarrow> oidc_response \<times> fed" where
  "oidc_callback env cs now rq s =
     (if truthy (cq_error rq)
      then (PlainText 400 (''Upstream OIDC error: '' @ le_escape env (the (cq_error rq)) @ [CHR 0x0A] @
              le_escape env (case cq_errorDescription rq of None \<Rightarrow> [] | Some t \<Rightarrow> t)), s)
      else if \<not> truthy (cq_code rq) \<or> \<not> truthy (cq_state rq)
      then (PlainText 400 ''Missing code or state in upstream callback'', s)
      else (case process_callback env cs now (the (cq_state rq)) rq s of
              (Inl e, s') \<Rightarrow> (PlainText 400 (''Error processing callback: '' @ le_escape env (error_message e)), s')
            | (Inr url, s') \<Rightarrow> (Redirect url, s')))"

section \<open>The tenant user of a verified subject\<close>

lemma tu_find_mem: "tu_inv d \<Longrightarrow> u \<in> set (tenant_users d) \<Longrightarrow> tu_findById (u_id u) d = Some u"
  unfolding tu_findById_def by (rule tbl_find_mem) (simp add: tu_inv_def)

lemma find_active_mem:
  "(u, t) \<in> set (tu_findActiveByExternalUserId ext d) \<Longrightarrow>
     u \<in> set (tenant_users d) \<and> u_status u = U_ACTIVE \<and> u_externalUserId u = Some ext"
  by (auto simp: tu_findActiveByExternalUserId_def)

lemma find_ext_mem:
  "tu_findByTenantAndExternalUserId t ext d = Some u \<Longrightarrow>
     u \<in> set (tenant_users d) \<and> u_tenantId u = t \<and> u_externalUserId u = Some ext"
  by (auto simp: tu_findByTenantAndExternalUserId_def find_Some_iff)

lemma tus_claim_user:
  assumes "tu_inv d" "tus_claimInvitedByEmail t email ext d = Inr (r, d')"
  shows "tu_inv d' \<and> (\<forall>u. r = Some u \<longrightarrow> u \<in> set (tenant_users d') \<and> u_status u = U_ACTIVE \<and> u_externalUserId u = Some ext)"
proof -
  obtain d1 where c: "tu_claimInvitedByEmail t email ext d = Inr (r, d1)"
    and d': "tenant_users d' = tenant_users d1" "tenants d' = tenants d1"
    using assms(2) by (auto simp: tus_claimInvitedByEmail_def rbind_eq_Inr split: option.splits)
  have inv: "tu_inv d'" using tu_claim_inv [OF assms(1) c] tu_inv_frame [OF d'] by simp
  have "u \<in> set (tenant_users d1) \<and> u_status u = U_ACTIVE \<and> u_externalUserId u = Some ext" if r: "r = Some u" for u
  proof -
    let ?p = "claimable t (to_lower (js_trim email))"
    have f: "tu_findByTenantAndExternalUserId t ext d1 = Some u"
      and rows: "tenant_users d1 = tbl_update ?p (claim_row ext) (tenant_users d)"
      and new: "\<not> list_ex (\<lambda>u. u_tenantId u = t \<and> u_externalUserId u = Some ext) (tenant_users d)"
      using c r by (auto simp: tu_claimInvitedByEmail_def Let_def split: if_splits)
    from find_ext_mem [OF f] have u: "u \<in> set (tenant_users d1)" "u_tenantId u = t" "u_externalUserId u = Some ext" by auto
    have "u_status u = U_ACTIVE"
    proof (cases "u \<in> claim_row ext ` {v \<in> set (tenant_users d). ?p v}")
      case True
      then show ?thesis by (auto simp: claim_row_def)
    next
      case False
      then show ?thesis using u rows new by (auto simp: set_tbl_update list_ex_iff)
    qed
    then show ?thesis using u by simp
  qed
  then show ?thesis using inv d'(1) by simp
qed

lemma tus_create_user:
  assumes "tu_inv d" "tus_create i c now dto d = Inr (u, d')"
  shows "tu_inv d' \<and> u \<in> set (tenant_users d') \<and> u_status u = ctu_status dto \<and> u_externalUserId u = Some (ctu_externalUserId dto)"
proof -
  obtain d1 where c: "tu_create u d = Some d1" "u_status u = ctu_status dto" "u_externalUserId u = Some (ctu_externalUserId dto)"
    and d': "tenant_users d' = tenant_users d1" "tenants d' = tenants d1"
    using assms(2) by (auto simp: tus_create_def Let_def split: if_splits option.splits)
  then show ?thesis using tu_create_inv [OF assms(1) c(1)] tu_create_users [OF c(1)] tu_inv_frame [OF d'] by simp
qed

lemma federated_user_ok:
  assumes "tu_inv d" "federated_user cs now t claims d = (Inr u, d')"
  shows "tu_inv d' \<and> u \<in> set (tenant_users d') \<and> u_status u = U_ACTIVE \<and> u_externalUserId u = Some (uc_sub claims)"
proof (cases "tu_findActiveByExternalUserId (uc_sub claims) d")
  case (Cons p ps)
  then have "u \<in> set (tenant_users d) \<and> u_status u = U_ACTIVE \<and> u_externalUserId u = Some (uc_sub claims)" "d' = d"
    using assms(2) find_active_mem [of u "snd p" "uc_sub claims" d] by (auto simp: federated_user_def split: prod.splits)
  then show ?thesis using assms(1) by simp
next
  case Nil
  then obtain r d1 where c: "claim_invited t claims d = Inr (r, d1)"
    using assms(2) by (cases "claim_invited t claims d") (auto simp: federated_user_def)
  have claimed: "tu_inv d1 \<and> (\<forall>u. r = Some u \<longrightarrow> u \<in> set (tenant_users d1) \<and> u_status u = U_ACTIVE \<and> u_externalUserId u = Some (uc_sub claims))"
    using c assms(1) tus_claim_user [OF assms(1), of t _ "uc_sub claims" r d1]
    by (auto simp: claim_invited_def split: option.splits list.splits)
  show ?thesis
  proof (cases r)
    case (Some v)
    then show ?thesis using assms(2) Nil c claimed by (auto simp: federated_user_def)
  next
    case None
    show ?thesis
    proof (cases "tu_findByTenantAndExternalUserId t (uc_sub claims) d1")
      case (Some v)
      then show ?thesis using assms(2) Nil c None claimed find_ext_mem [OF Some] by (auto simp: federated_user_def split: if_splits)
    next
      case none: None
      then have "tus_create (cs_userId cs) (cs_userCreated cs) now (jit_user t claims) d1 = Inr (u, d')"
        using assms(2) Nil c None by (auto simp: federated_user_def split: sum.splits prod.splits)
      from tus_create_user [OF conjunct1 [OF claimed] this] show ?thesis by (simp add: jit_user_def)
    qed
  qed
qed

section \<open>The interaction of a callback\<close>

lemma validate_ok: "validateInteraction now st s = Inr x \<longleftrightarrow> ui_findByState st s = Some x \<and> now \<le> ui_expiresAt x"
  by (auto simp: validateInteraction_def split: option.splits)

lemma find_state_ok: "ui_findByState st s = Some x \<Longrightarrow> ui_state x = st \<and> x \<in> set (f_interactions s)"
  by (auto simp: ui_findByState_def find_Some_iff)

lemma read_tokens_ok: "read_tokens x tokens = Inr cb \<Longrightarrow> cb_interaction cb = x"
  by (auto simp: read_tokens_def split: json.split_asm if_split_asm)

lemma handle_ok:
  assumes "handleUpstreamCallback lib now st url s = Inr cb"
  shows "validateInteraction now st s = Inr (cb_interaction cb)"
proof -
  obtain x l where x: "validateInteraction now st s = Inr x" "getConfig lib = Inr l"
    using assms by (auto simp: handleUpstreamCallback_def rbind_eq_Inr)
  let ?r = "ol_codeGrant l url \<lparr>gc_pkceCodeVerifier = ui_codeVerifier x, gc_expectedState = ui_state x, gc_expectedNonce = ui_nonce x\<rparr>"
  from assms x have "\<exists>t. read_tokens x t = Inr cb" by (cases ?r) (auto simp: handleUpstreamCallback_def)
  then show ?thesis using x read_tokens_ok by blast
qed

lemma stage_ok:
  "stagePendingUpstreamSession i c u sub tok e s = Inr s1 \<Longrightarrow> fed_wf s \<Longrightarrow>
     fed_wf s1 \<and> f_interactions s1 = f_interactions s \<and> f_db s1 = f_db s"
  unfolding stagePendingUpstreamSession_def us_createPending_def
  by (auto simp: rbind_eq_Inr split: option.splits intro: us_save_wf) (auto simp: us_save_ok)

lemma bind_interaction_ok:
  assumes "fed_wf s" "ui_findByState st s = Some x" "bind_interaction cs now st cb u s = (Inr (), s')"
  shows "fed_wf s' \<and> f_db s' = f_db s
     \<and> ui_findByInteractionUid (ui_interactionUid x) s' = Some (x\<lparr>ui_tenantUserId := Some (u_id u), ui_consumedAt := Some now\<rparr>)"
proof -
  obtain s1 y s2 z where stage: "stagePendingUpstreamSession (cs_sessionId cs) (cs_sessionCreated cs) (u_id u) (uc_sub (cb_claims cb)) (cb_idToken cb)
      (cb_expiresAt cb) s = Inr s1"
    and set: "setTenantUserIdForInteraction now st (u_id u) s1 = Inr (y, s2)"
    and consume: "consumeInteraction now st s2 = Inr (z, s')"
    using assms(3) by (auto simp: bind_interaction_def split: sum.splits prod.splits)
  note s1 = stage_ok [OF stage assms(1)]
  let ?x = "x\<lparr>ui_tenantUserId := Some (u_id u)\<rparr>"
  have st: "ui_state x = st" using find_state_ok [OF assms(2)] by simp
  have sv: "ui_save ?x s1 = Inr (y, s2)"
    using set assms(2) s1 by (auto simp: setTenantUserIdForInteraction_def rbind_eq_Inr validate_ok ui_findByState_def)
  have w2: "fed_wf s2" using ui_save_wf s1 sv by blast
  have "ui_findByState st s2 = Some ?x" using ui_saved [OF conjunct1 [OF s1] sv] st by simp
  then have sv2: "ui_save (?x\<lparr>ui_consumedAt := Some now\<rparr>) s2 = Inr (z, s')"
    using consume by (auto simp: consumeInteraction_def rbind_eq_Inr validate_ok)
  show ?thesis using ui_saved [OF w2 sv2] ui_save_wf [OF w2 sv2] sv sv2 s1 by (auto simp: ui_save_ok)
qed

lemma callback_parts:
  assumes "oidc_callback env cs now rq s = (Redirect url, s')"
  obtains st cur cb u d where "cq_state rq = Some st" "callback_url env rq = Inr cur"
    "handleUpstreamCallback (le_lib env) now st cur s = Inr cb"
    "federated_user cs now (ui_tenantId (cb_interaction cb)) (cb_claims cb) (f_db s) = (Inr u, d)"
    "bind_interaction cs now st cb u (on_db d s) = (Inr (), s')"
proof -
  have "\<exists>st. cq_state rq = Some st \<and> process_callback env cs now st rq s = (Inr url, s')"
    using assms by (cases "cq_state rq") (auto simp: oidc_callback_def truthy_def split: if_splits sum.splits prod.splits)
  then obtain st where st: "cq_state rq = Some st" "process_callback env cs now st rq s = (Inr url, s')" by blast
  then obtain cur where cur: "callback_url env rq = Inr cur" by (cases "callback_url env rq") (auto simp: process_callback_def)
  then obtain cb where cb: "handleUpstreamCallback (le_lib env) now st cur s = Inr cb"
    using st(2) by (cases "handleUpstreamCallback (le_lib env) now st cur s") (auto simp: process_callback_def)
  obtain u d where u: "federated_user cs now (ui_tenantId (cb_interaction cb)) (cb_claims cb) (f_db s) = (Inr u, d)"
    using st(2) cur cb by (auto simp: process_callback_def split: sum.splits prod.splits)
  moreover have "bind_interaction cs now st cb u (on_db d s) = (Inr (), s')"
    using st(2) cur cb u by (auto simp: process_callback_def split: sum.splits prod.splits)
  ultimately show thesis using st(1) cur cb by (intro that)
qed

lemma on_db_same:
  assumes "fed_wf s"
  shows "on_db (f_db s) s = s"
proof -
  have "filter (us_refs (f_db s)) (f_sessions s) = f_sessions s" using assms by (auto simp: fed_wf_def intro: filter_True)
  then show ?thesis by (simp add: on_db_def)
qed

lemma resave_admissible:
  assumes "fed_wf s" "x \<in> set (f_interactions s)" "ui_id y = ui_id x" "ui_state y = ui_state x" "ui_interactionUid y = ui_interactionUid x"
  shows "ui_admissible y s"
proof -
  have k: "tbl_keys ui_state (f_interactions s)" "tbl_keys ui_interactionUid (f_interactions s)" using assms(1) by (simp_all add: fed_wf_def)
  have "ui_id z = ui_id x \<or> ui_state z \<noteq> ui_state x \<and> ui_interactionUid z \<noteq> ui_interactionUid x" if "z \<in> set (f_interactions s)" for z
    using tbl_keys_inj [OF k(1) that assms(2)] tbl_keys_inj [OF k(2) that assms(2)] by auto
  then show ?thesis using assms(3-5) by (simp add: ui_admissible_def list_all_iff)
qed

text \<open>A callback for a live interaction and a known user goes through.\<close>

lemma bind_interaction_total:
  assumes "fed_wf s" "ui_findByState st s = Some x" "now \<le> ui_expiresAt x" "u_id u \<in> u_id ` set (tenant_users (f_db s))"
    "cb_expiresAt cb = Some e" "cs_sessionId cs \<notin> us_id ` set (f_sessions s)"
  shows "\<exists>s'. bind_interaction cs now st cb u s = (Inr (), s')"
proof -
  let ?p = "\<lparr>us_id = cs_sessionId cs, us_oidcModelId = None, us_oidcSessionUid = None, us_tenantUserId = u_id u,
      us_upstreamSubject = uc_sub (cb_claims cb), us_upstreamIdToken = cb_idToken cb, us_createdAt = cs_sessionCreated cs, us_expiresAt = e\<rparr>"
  let ?s1 = "s\<lparr>f_sessions := tbl_save us_id ?p (f_sessions s)\<rparr>"
  have stage: "stagePendingUpstreamSession (cs_sessionId cs) (cs_sessionCreated cs) (u_id u) (uc_sub (cb_claims cb)) (cb_idToken cb)
      (cb_expiresAt cb) s = Inr ?s1"
    using assms(4,5) by (simp add: stagePendingUpstreamSession_def us_createPending_def us_save_def us_refs_def us_conflict_def list_all_iff)
  note w1 = stage_ok [OF stage assms(1)]
  have f1: "ui_findByState st ?s1 = Some x" using assms(2) by (simp add: ui_findByState_def)
  let ?x = "x\<lparr>ui_tenantUserId := Some (u_id u)\<rparr>"
  have sv: "ui_save ?x ?s1 = Inr (?x, ?s1\<lparr>f_interactions := tbl_save ui_id ?x (f_interactions ?s1)\<rparr>)"
    unfolding ui_save_ok using resave_admissible [of ?s1 x ?x] w1 find_state_ok [OF f1] by simp
  let ?s2 = "?s1\<lparr>f_interactions := tbl_save ui_id ?x (f_interactions ?s1)\<rparr>"
  have w2: "fed_wf ?s2" using ui_save_wf w1 sv by blast
  have f2: "ui_findByState st ?s2 = Some ?x" using ui_saved [OF conjunct1 [OF w1] sv] find_state_ok [OF f1] by simp
  let ?y = "?x\<lparr>ui_consumedAt := Some now\<rparr>"
  have sv2: "ui_save ?y ?s2 = Inr (?y, ?s2\<lparr>f_interactions := tbl_save ui_id ?y (f_interactions ?s2)\<rparr>)"
    unfolding ui_save_ok using resave_admissible [of ?s2 ?x ?y] w2 find_state_ok [OF f2] by simp
  have "validateInteraction now st ?s1 = Inr x" "validateInteraction now st ?s2 = Inr ?x"
    using f1 f2 assms(3) by (simp_all add: validate_ok)
  then have "setTenantUserIdForInteraction now st (u_id u) ?s1 = Inr (?x, ?s2)"
    "consumeInteraction now st ?s2 = Inr (?y, ?s2\<lparr>f_interactions := tbl_save ui_id ?y (f_interactions ?s2)\<rparr>)"
    unfolding setTenantUserIdForInteraction_def consumeInteraction_def using sv sv2 by simp_all
  then show ?thesis unfolding bind_interaction_def stage by simp
qed

lemma build_grant_active:
  assumes "build_grant c a prompt d = Inr g"
  shows "\<exists>u. tu_findById a d = Some u \<and> u_status u = U_ACTIVE"
  using assms by (auto simp: build_grant_def ota_findById_def tus_findById_def tu_not_found_def Let_def split: option.splits if_splits)

lemma finish_login:
  "finish_interaction env gs now login c a prompt s = (Inr (Finished l g), s') \<Longrightarrow>
     l = login \<and> g = gs_grantId gs \<and> (\<exists>grant. build_grant c a prompt (f_db s) = Inr grant)"
  by (auto simp: finish_interaction_def createAndSaveGrant_def split: sum.splits login_error.splits)

section \<open>Invariant of the login tables\<close>

definition consumed_bound :: "upstream_interaction \<Rightarrow> bool" where
  "consumed_bound x = (ui_consumedAt x \<noteq> None \<longrightarrow> ui_tenantUserId x \<noteq> None)"

definition login_inv :: "fed \<Rightarrow> bool" where
  "login_inv s = (fed_wf s \<and> tu_inv (f_db s) \<and> (\<forall>x\<in>set (f_interactions s). consumed_bound x))"

datatype login_op =
    LO_interaction grant_stamp upstream_random time interaction_details
  | LO_callback callback_stamp time callback_request
  | LO_saved time json json
  | LO_destroy string string
  | LO_purge time
  | LO_users tu_op

fun login_step :: "login_env \<Rightarrow> login_op \<Rightarrow> fed \<Rightarrow> fed" where
  "login_step env (LO_interaction gs rnd now details) s = snd (oidc_interaction env gs rnd now details s)"
| "login_step env (LO_callback cs now rq) s = snd (oidc_callback env cs now rq s)"
| "login_step env (LO_saved now uid acc) s = on_session_saved now uid acc s"
| "login_step env (LO_destroy m i) s = (case fed_destroy (le_lib env) m i s of Inl _ \<Rightarrow> s | Inr s' \<Rightarrow> s')"
| "login_step env (LO_purge now) s = snd (fed_purgeExpiredModels (le_lib env) now s)"
| "login_step env (LO_users oper) s = on_db (tu_step oper (f_db s)) s"

lemma login_inv_db [inv_intros]: "login_inv s \<Longrightarrow> tu_inv d \<Longrightarrow> login_inv (on_db d s)"
  using on_db_wf [of s d] by (simp add: login_inv_def on_db_def)

lemma login_inv_tu: "login_inv s \<Longrightarrow> tu_inv (f_db s)"
  by (simp add: login_inv_def)

lemma login_inv_save [inv_intros]:
  assumes "login_inv s" "ui_save x s = Inr (y, s')" "consumed_bound x"
  shows "login_inv s'"
  using assms ui_save_wf [OF _ assms(2)] set_tbl_save [of ui_id x "f_interactions s"]
  by (fastforce simp: login_inv_def ui_save_ok)

lemma login_inv_sessions [inv_intros]:
  "login_inv s \<Longrightarrow> us_save x s = Inr (y, s') \<Longrightarrow> login_inv s'" "login_inv s \<Longrightarrow> login_inv (us_delete i s)"
  using us_save_wf [of s x y s'] wf_filter(1) [of s "\<lambda>r. us_id r \<noteq> i"]
  by (auto simp: login_inv_def us_save_ok us_delete_def tbl_delete_def)

lemma find_bound: "login_inv s \<Longrightarrow> validateInteraction now st s = Inr x \<Longrightarrow> consumed_bound x"
  using find_state_ok by (fastforce simp: login_inv_def validate_ok)

lemma federated_user_inv:
  assumes "tu_inv d" "federated_user cs now t claims d = (r, d')"
  shows "tu_inv d'"
proof (cases r)
  case (Inr u)
  then show ?thesis using federated_user_ok assms by blast
next
  case (Inl e)
  have "tu_inv d1" if "claim_invited t claims d = Inr (c, d1)" for c d1
    using that assms(1) tus_claim_user [OF assms(1), of t _ "uc_sub claims" c d1]
    by (auto simp: claim_invited_def split: option.splits list.splits)
  then show ?thesis using assms Inl
    by (auto simp: federated_user_def split: list.splits prod.splits sum.splits option.splits if_splits)
qed

lemma stage_inv: "login_inv s \<Longrightarrow> stagePendingUpstreamSession i c u sub tok e s = Inr s1 \<Longrightarrow> login_inv s1"
  using stage_ok [of i c u sub tok e s s1] by (simp add: login_inv_def)

lemma bind_inv:
  assumes "login_inv s" "bind_interaction cs now st cb u s = (r, s')"
  shows "login_inv s'"
proof -
  have set: "login_inv s2 \<and> ui_tenantUserId y \<noteq> None" if "login_inv s1" "setTenantUserIdForInteraction now st (u_id u) s1 = Inr (y, s2)" for s1 y s2
    using that find_bound [OF that(1)] login_inv_save [OF that(1)]
    by (fastforce simp: setTenantUserIdForInteraction_def rbind_eq_Inr consumed_bound_def ui_save_ok)
  have consume: "login_inv s3" if "login_inv s2" "consumeInteraction now st s2 = Inr (z, s3)"
    "\<forall>x. validateInteraction now st s2 = Inr x \<longrightarrow> ui_tenantUserId x \<noteq> None" for s2 z s3
    using that login_inv_save [OF that(1)] by (fastforce simp: consumeInteraction_def rbind_eq_Inr consumed_bound_def)
  have bound: "\<forall>x. validateInteraction now st s2 = Inr x \<longrightarrow> ui_tenantUserId x \<noteq> None"
    if a: "login_inv s1" and b: "setTenantUserIdForInteraction now st (u_id u) s1 = Inr (y, s2)" for s1 y s2
  proof -
    obtain x where x: "ui_findByState st s1 = Some x" "ui_save (x\<lparr>ui_tenantUserId := Some (u_id u)\<rparr>) s1 = Inr (y, s2)"
      using b by (auto simp: setTenantUserIdForInteraction_def rbind_eq_Inr validate_ok)
    then have "ui_findByState st s2 = Some (x\<lparr>ui_tenantUserId := Some (u_id u)\<rparr>)"
      using ui_saved [OF _ x(2)] a find_state_ok [OF x(1)] by (simp add: login_inv_def)
    then show ?thesis by (simp add: validate_ok)
  qed
  let ?stage = "stagePendingUpstreamSession (cs_sessionId cs) (cs_sessionCreated cs) (u_id u) (uc_sub (cb_claims cb)) (cb_idToken cb)
      (cb_expiresAt cb) s"
  show ?thesis
  proof (cases ?stage)
    case (Inl e)
    then show ?thesis using assms by (simp add: bind_interaction_def)
  next
    case (Inr s1)
    note s1 = stage_inv [OF assms(1) Inr]
    show ?thesis
    proof (cases "setTenantUserIdForInteraction now st (u_id u) s1")
      case (Inl e)
      then show ?thesis using assms(2) \<open>?stage = Inr s1\<close> s1 by (simp add: bind_interaction_def)
    next
      case (Inr p)
      obtain y s2 where p: "p = (y, s2)" by force
      note s2 = set [OF s1 Inr [unfolded p]] and b = bound [OF s1 Inr [unfolded p]]
      have "s' = s2 \<or> (\<exists>z. consumeInteraction now st s2 = Inr (z, s'))"
        using assms(2) \<open>?stage = Inr s1\<close> Inr p by (auto simp: bind_interaction_def split: sum.splits prod.splits)
      then show ?thesis using s2 consume [of s2 _ s'] b by blast
    qed
  qed
qed

lemma callback_inv:
  assumes "login_inv s"
  shows "login_inv (snd (oidc_callback env cs now rq s))"
proof -
  have "login_inv (snd (process_callback env cs now st rq s))" for st
  proof -
    have f: "login_inv (on_db d s)" if "federated_user cs now t claims (f_db s) = (r, d)" for t claims r d
      using federated_user_inv [OF _ that] assms login_inv_db by (simp add: login_inv_def)
    show ?thesis using assms f bind_inv unfolding process_callback_def
      by (auto split: sum.split prod.split) blast+
  qed
  then show ?thesis using assms by (auto simp: oidc_callback_def split: sum.split prod.split) (metis snd_conv)+
qed

lemma tu_inv_models [simp]: "tu_inv (d\<lparr>oidc_models := ms\<rparr>) = tu_inv d"
  by (simp add: tu_inv_def)

lemma initiate_inv:
  assumes "login_inv s"
  shows "login_inv (snd (initiateUpstreamLogin lib rnd now uid t url s))"
proof -
  have "login_inv s'" if st: "storeInteraction i c now st' n v uid t None ttl s = Inr (y, s')" for i c st' n v ttl y s'
  proof -
    obtain x where "ui_save x s = Inr (y, s')" "ui_consumedAt x = None"
      using st by (auto simp: storeInteraction_def ui_upsertByInteractionUid_def Let_def split: if_splits)
    then show ?thesis using login_inv_save [OF assms] by (auto simp: consumed_bound_def)
  qed
  then show ?thesis using assms by (auto simp: initiateUpstreamLogin_def split: sum.split prod.split)
qed

lemma finish_inv:
  assumes "login_inv s"
  shows "login_inv (snd (finish_interaction env gs now login c a prompt s))"
proof -
  have "tu_inv d" if "createAndSaveGrant env gs now c a prompt (f_db s) = Inr (g, d)" for g d
    using that assms by (auto simp: createAndSaveGrant_def om_upsert_def Let_def login_inv_def split: sum.splits)
  then show ?thesis using assms login_inv_db
    by (auto simp: finish_interaction_def split: sum.split prod.split login_error.split)
qed

lemma interaction_inv:
  assumes "login_inv s"
  shows "login_inv (snd (oidc_interaction env gs rnd now details s))"
proof -
  have i: "login_inv (snd (startUpstreamLogin env rnd now details s))"
  proof -
    have "login_inv s'" if "initiateUpstreamLogin lib rnd now uid t url s = (r, s')" for lib uid t url r s'
      using initiate_inv [OF assms, of lib rnd now uid t url] that by simp
    then show ?thesis using assms
      by (auto simp: startUpstreamLogin_def split: option.split list.split json.split sum.split prod.split)
  qed
  then show ?thesis using assms finish_inv by (auto simp: oidc_interaction_def split: option.split list.split)
qed

lemma saved_inv: "login_inv s \<Longrightarrow> login_inv (on_session_saved now uid acc s)"
proof -
  assume s: "login_inv s"
  have fin: "login_inv s'" if f: "finalizeUpstreamSessionForOidcSession now m u a s = Inr (r, s')" for m u a r s'
  proof -
    have "s' = s \<or> (\<exists>x y. us_save x s = Inr (y, s')) \<or> (\<exists>x y s1 i. us_save x s = Inr (y, s1) \<and> s' = us_delete i s1)"
      using f unfolding finalizeUpstreamSessionForOidcSession_def Let_def
      by (auto simp: rbind_eq_Inr split: option.splits if_splits) blast
    then show ?thesis using s login_inv_sessions by blast
  qed
  then have "login_inv s'" if "fed_finalizeUpstreamSession now m u a s = (r, s')" for m u a r s'
    using that s by (auto simp: fed_finalizeUpstreamSession_def split: sum.splits prod.splits option.splits)
  then show ?thesis using s
    by (auto simp: on_session_saved_def finalizePendingUpstreamSession_def split: json.split list.split prod.split sum.split)
qed

lemma logout_inv: "login_inv s \<Longrightarrow> logoutUpstreamSessionForOidcSession lib m s = Inr s' \<Longrightarrow> login_inv s'"
  using logout_ok [of lib m s s'] login_inv_sessions(2) by blast

lemma logout_each_inv: "login_inv s \<Longrightarrow> login_inv (logout_each lib ms s)"
  by (induction lib ms s rule: logout_each.induct) (auto split: sum.split intro: logout_inv)

lemma destroy_inv: "login_inv s \<Longrightarrow> fed_destroy lib m i s = Inr s' \<Longrightarrow> login_inv s'"
proof -
  assume s: "login_inv s" and f: "fed_destroy lib m i s = Inr s'"
  then obtain s1 where s1: "destroySessionUpstreamLink lib m i s = Inr s1" "s' = on_db (om_destroy m i (f_db s1)) s1"
    by (auto simp: fed_destroy_def rbind_eq_Inr)
  then have "login_inv s1" using s logout_inv by (auto simp: destroySessionUpstreamLink_def split: if_splits option.splits)
  then show ?thesis using s1(2) login_inv_db [of s1 "om_destroy m i (f_db s1)"] login_inv_tu [of s1] by (simp add: om_destroy_def)
qed

lemma purge_round_inv:
  assumes "login_inv s"
  shows "login_inv (snd (fed_purge_round lib now s))"
proof -
  have w: "login_inv (s\<lparr>f_sessions := filter p (f_sessions s)\<rparr>)" "login_inv (s\<lparr>f_interactions := filter q (f_interactions s)\<rparr>)"
    if "login_inv s" for s p q
    using that wf_filter by (auto simp: login_inv_def)
  define s1 where "s1 = logout_each lib (getExpiredSessionsWithUpstreamCleanup now OIDC_BATCH_SIZE s) s"
  define s2 where "s2 = snd (us_deleteExpiredPendingBatch now OIDC_BATCH_SIZE s1)"
  define s3 where "s3 = on_db (snd (om_purgeExpiredBatch now OIDC_BATCH_SIZE (f_db s2))) s2"
  have "login_inv s1" using assms logout_each_inv by (simp add: s1_def)
  then have "login_inv s2" using w by (simp add: s2_def us_deleteExpiredPendingBatch_def delete_oldest_def Let_def)
  then have "login_inv s3" unfolding s3_def using login_inv_tu [of s2]
    by (intro login_inv_db) (simp_all add: om_purgeExpiredBatch_def case_prod_beta Let_def)
  then have "login_inv (snd (purgeExpiredUpstreamInteractionsBatch now OIDC_BATCH_SIZE s3))"
    using w by (simp add: purgeExpiredUpstreamInteractionsBatch_def delete_oldest_def Let_def)
  then show ?thesis by (simp add: fed_purge_round_def s1_def s2_def s3_def Let_def case_prod_beta)
qed

lemma purge_run_inv:
  assumes "\<And>s. P s \<Longrightarrow> P (snd (B s))"
  shows "P s \<Longrightarrow> P (snd (purge_run n B s))"
  by (induction n arbitrary: s) (auto simp: Let_def case_prod_beta assms)

lemma login_step_inv: "login_inv s \<Longrightarrow> login_inv (login_step env oper s)"
proof (cases oper)
  case (LO_destroy m i)
  assume "login_inv s"
  then show ?thesis using LO_destroy destroy_inv [of s "le_lib env" m i] by (simp split: sum.split)
next
  case (LO_purge now)
  assume "login_inv s"
  then show ?thesis using LO_purge purge_run_inv [of login_inv, OF purge_round_inv] by (simp add: fed_purgeExpiredModels_def)
next
  case (LO_users op')
  assume "login_inv s"
  then show ?thesis using LO_users login_inv_db tu_step_inv login_inv_tu by simp
qed (simp_all add: callback_inv interaction_inv saved_inv)

definition empty_fed :: fed where
  "empty_fed = \<lparr>f_db = empty_db, f_interactions = [], f_sessions = []\<rparr>"

interpretation login: invariant_system "\<lambda>s. s = empty_fed" "login_step env" login_inv for env
proof unfold_locales
  fix s assume "s = empty_fed"
  then show "login_inv s"
    by (simp add: login_inv_def empty_fed_def fed_wf_def tu_inv_def empty_db_def tbl_keys_def tu_unique_def)
qed (rule login_step_inv)

section \<open>The whole login\<close>

lemma login_completes:
  assumes "fed_wf s" "tu_inv (f_db s)" "ui_findByState st s = Some x"
    "\<not> truthy (cq_error rq)" "truthy (cq_code rq)" "cq_state rq = Some st" "st \<noteq> []" "callback_url env rq = Inr cur"
    "handleUpstreamCallback (le_lib env) now st cur s = Inr cb" "cb_expiresAt cb = Some e"
    "tu_findActiveByExternalUserId (uc_sub (cb_claims cb)) (f_db s) = (v, t) # ms" "cs_sessionId cs \<notin> us_id ` set (f_sessions s)"
    "id_uid details = ui_interactionUid x" "pd_name (id_prompt details) = ''login''" "pd_missingOIDCScope (id_prompt details) = None"
  shows "\<exists>url s1 g s2. oidc_callback env cs now rq s = (Redirect url, s1)
     \<and> oidc_interaction env gs rnd now' details s1 = (Inr (Finished (Some (u_id v)) g), s2)"
proof -
  have v: "v \<in> set (tenant_users (f_db s))" "u_status v = U_ACTIVE" using find_active_mem [of v t "uc_sub (cb_claims cb)" "f_db s"] assms(11) by auto
  have fu: "federated_user cs now tn (cb_claims cb) (f_db s) = (Inr v, f_db s)" for tn
    using assms(11) by (simp add: federated_user_def)
  have live: "now \<le> ui_expiresAt x" using handle_ok [OF assms(9)] assms(3) by (simp add: validate_ok)
  obtain s1 where s1: "bind_interaction cs now st cb v s = (Inr (), s1)"
    using bind_interaction_total [OF assms(1,3) live _ assms(10,12)] v(1) by blast
  then obtain url where cb: "oidc_callback env cs now rq s = (Redirect url, s1)"
    using assms(4-9) fu on_db_same [OF assms(1)] by (simp add: oidc_callback_def process_callback_def truthy_def)
  note b = bind_interaction_ok [OF assms(1,3) s1]
  have "tu_findById (u_id v) (f_db s1) = Some v" using b v(1) assms(2) tu_find_mem by simp
  then obtain grant where "build_grant (id_clientId details) (u_id v) (id_prompt details) (f_db s1) = Inr grant"
    using v(2) assms(15) by (simp add: build_grant_def ota_findById_def tus_findById_def)
  then obtain g d where "createAndSaveGrant env gs now' (id_clientId details) (u_id v) (id_prompt details) (f_db s1) = Inr (g, d)"
    by (simp add: createAndSaveGrant_def)
  then have "oidc_interaction env gs rnd now' details s1 = (Inr (Finished (Some (u_id v)) g), on_db d s1)"
    using assms(13,14) b by (simp add: oidc_interaction_def finish_interaction_def)
  with cb show ?thesis by blast
qed

text \<open>A sample: an interaction that waits for its callback, and a person known to the tenant.\<close>

definition demo_interaction :: upstream_interaction where
  "demo_interaction = \<lparr>ui_id = ''i1'', ui_state = ''st'', ui_nonce = ''n'', ui_interactionUid = ''uid9'', ui_codeVerifier = ''v'',
     ui_tenantId = ''t1'', ui_tenantUserId = None, ui_createdAt = 1, ui_expiresAt = 900, ui_consumedAt = None\<rparr>"

definition demo_login_fed :: fed where
  "demo_login_fed = \<lparr>f_db = demo_db, f_interactions = [demo_interaction], f_sessions = []\<rparr>"

definition demo_login_env :: login_env where
  "demo_login_env = \<lparr>le_lib = Some demo_lib, le_issuer = None, le_grantPayload = (\<lambda>g. [(''accountId'', JStr (og_accountId g))]),
     le_grantTtl = 100, le_escape = (\<lambda>t. t), le_url = (\<lambda>p b. Some p)\<rparr>"

definition demo_callback :: callback_request where
  "demo_callback = \<lparr>cq_code = Some ''c'', cq_state = Some ''st'', cq_error = None, cq_errorDescription = None,
     cq_forwardedProto = None, cq_host = Some ''h'', cq_url = Some ''kc-b''\<rparr>"

definition demo_prompt :: prompt_details where
  "demo_prompt = \<lparr>pd_name = ''login'', pd_missingOIDCScope = None, pd_missingResourceScopes = None\<rparr>"

definition demo_details :: interaction_details where
  "demo_details = \<lparr>id_uid = ''uid9'', id_prompt = demo_prompt, id_clientId = JStr ''spa'', id_accountId = None\<rparr>"

definition demo_callback_stamp :: callback_stamp where
  "demo_callback_stamp = \<lparr>cs_userId = ''x1'', cs_userCreated = 1, cs_sessionId = ''p1'', cs_sessionCreated = 1\<rparr>"

lemma demo_login_setup:
  "fed_wf demo_login_fed" "tu_inv (f_db demo_login_fed)" "ui_findByState ''st'' demo_login_fed = Some demo_interaction"
  "callback_url demo_login_env demo_callback = Inr ''kc-b''"
  "\<exists>cb t. handleUpstreamCallback (le_lib demo_login_env) 5 ''st'' ''kc-b'' demo_login_fed = Inr cb \<and> cb_expiresAt cb = Some None
     \<and> uc_sub (cb_claims cb) = ''kc-b'' \<and> tu_findActiveByExternalUserId (uc_sub (cb_claims cb)) (f_db demo_login_fed) = [(demo_user ''b'' OWNER 2000, t)]"
proof -
  show "fed_wf demo_login_fed" by (simp add: fed_wf_def demo_login_fed_def tbl_keys_def)
  show "tu_inv (f_db demo_login_fed)" using demo_db_inv by (simp add: demo_login_fed_def)
  show f: "ui_findByState ''st'' demo_login_fed = Some demo_interaction"
    by (simp add: ui_findByState_def demo_login_fed_def demo_interaction_def)
  show "callback_url demo_login_env demo_callback = Inr ''kc-b''"
    by (simp add: callback_url_def demo_login_env_def demo_callback_def)
  have "validateInteraction 5 ''st'' demo_login_fed = Inr demo_interaction" using f by (simp add: validate_ok demo_interaction_def)
  then show "\<exists>cb t. handleUpstreamCallback (le_lib demo_login_env) 5 ''st'' ''kc-b'' demo_login_fed = Inr cb \<and> cb_expiresAt cb = Some None
     \<and> uc_sub (cb_claims cb) = ''kc-b'' \<and> tu_findActiveByExternalUserId (uc_sub (cb_claims cb)) (f_db demo_login_fed) = [(demo_user ''b'' OWNER 2000, t)]"
    by (simp add: handleUpstreamCallback_def demo_login_env_def getConfig_def demo_lib_def read_tokens_def claim_expiry_def
        tu_findActiveByExternalUserId_def demo_login_fed_def demo_db_def demo_user_def demo_tenant_def)
qed

lemma demo_login:
  "\<exists>url s1 g s2. oidc_callback demo_login_env demo_callback_stamp 5 demo_callback demo_login_fed = (Redirect url, s1)
     \<and> oidc_interaction demo_login_env gs rnd 6 demo_details s1 = (Inr (Finished (Some ''b'') g), s2)"
proof -
  obtain cb t where cb: "handleUpstreamCallback (le_lib demo_login_env) 5 ''st'' ''kc-b'' demo_login_fed = Inr cb" "cb_expiresAt cb = Some None"
    "tu_findActiveByExternalUserId (uc_sub (cb_claims cb)) (f_db demo_login_fed) = [(demo_user ''b'' OWNER 2000, t)]"
    using demo_login_setup(5) by blast
  have "id_uid demo_details = ui_interactionUid demo_interaction" "pd_name (id_prompt demo_details) = ''login''"
    "pd_missingOIDCScope (id_prompt demo_details) = None" "u_id (demo_user ''b'' OWNER 2000) = ''b''"
    "\<not> truthy (cq_error demo_callback)" "truthy (cq_code demo_callback)" "cq_state demo_callback = Some ''st''"
    "cs_sessionId demo_callback_stamp \<notin> us_id ` set (f_sessions demo_login_fed)"
    by (simp_all add: demo_details_def demo_interaction_def demo_prompt_def demo_user_def truthy_def demo_callback_def demo_login_fed_def)
  then show ?thesis
    using login_completes [OF demo_login_setup(1-3) _ _ _ _ demo_login_setup(4) cb(1-3)] by simp
qed

section \<open>Properties\<close>








end
