(* ===== verification/Auth_Service.thy ===== *)
theory Auth_Service
  imports Oidc_Login
begin

text \<open>
  \<^verbatim>\<open>auth.service\<close>: the tenants of the signed-in person and the switch to another of them, which issues tokens for the
  membership there and moves the sessions; and \<^verbatim>\<open>admin-sessions.service\<close>: the forced log-out of a user.

  Parameters: the payloads under which the provider library saves a grant, an access token and a refresh token, and the
  token strings it returns. An access token in JWT format need not be saved: its payload is optional.
\<close>

section \<open>AuthService\<close>

record access_token_model =
  atm_accountId :: string
  atm_clientId :: string
  atm_grantId :: string
  atm_scope :: string
  atm_resource :: string

record refresh_token_model =
  rtm_accountId :: string
  rtm_clientId :: string
  rtm_grantId :: string
  rtm_scope :: string
  rtm_resource :: string

record token_lib =
  tl_grant :: "oidc_grant \<Rightarrow> (string \<times> json) list"
  tl_access :: "access_token_model \<Rightarrow> string \<times> (string \<times> json) list option"
  tl_refresh :: "refresh_token_model \<Rightarrow> string \<times> (string \<times> json) list"

record auth_env =
  au_lib :: token_lib
  au_config :: oidc_config

text \<open>Identifiers the library and the database draw for the grant, the access token and the refresh token.\<close>

record model_stamp =
  ms_id :: string
  ms_row :: string
  ms_created :: micros

record issue_stamp =
  is_grant :: model_stamp
  is_access :: model_stamp
  is_refresh :: model_stamp

record issued_tokens =
  it_accessToken :: string
  it_refreshToken :: string
  it_grantId :: string

record auth_tenant =
  aut_id :: string
  aut_name :: string
  aut_slug :: string
  aut_status :: tenant_status
  aut_role :: tenant_user_role

record switch_response =
  sw_accessToken :: string
  sw_refreshToken :: string
  sw_tokenType :: string
  sw_expiresIn :: int

definition assertUserToken :: "auth_context \<Rightarrow> unit result" where
  "assertUserToken auth =
     (if ac_tokenType auth \<noteq> UserToken
      then Err (Forbidden ''Machine clients cannot switch tenants; each client_id is bound to one tenant'') else Ok ())"

text \<open>The person behind a token: the tenant user and the external identity it is linked to.\<close>

definition token_person :: "auth_context \<Rightarrow> db \<Rightarrow> (tenant_user \<times> string) result" where
  "token_person auth d =
     rbind (tus_findById (ac_sub auth) d) (\<lambda>current.
       case u_externalUserId current of
         Some (c # cs) \<Rightarrow> Ok (current, c # cs)
       | _ \<Rightarrow> Err (Forbidden ''Token subject is not linked to an external identity''))"

definition listTenants :: "auth_context \<Rightarrow> db \<Rightarrow> auth_tenant list result" where
  "listTenants auth d =
     rbind (assertUserToken auth) (\<lambda>_.
     rbind (token_person auth d) (\<lambda>(current, ext).
       Ok (map (\<lambda>(u, t). \<lparr>aut_id = t_id t, aut_name = t_name t, aut_slug = t_slug t, aut_status = t_status t, aut_role = u_role u\<rparr>)
             (tu_findActiveByExternalUserId ext d))))"

definition save_model :: "model_stamp \<Rightarrow> time \<Rightarrow> string \<Rightarrow> (string \<times> json) list \<Rightarrow> int \<Rightarrow> db \<Rightarrow> db" where
  "save_model ms now modelName payload ttl d = om_upsert (ms_row ms) (ms_created ms) now modelName (ms_id ms) payload ttl d"

text \<open>The refresh token lives as \<^verbatim>\<open>ttl.RefreshToken\<close> says for the client, the others as configured.\<close>

definition client_meta_of :: "oidc_client_record \<Rightarrow> client_meta" where
  "client_meta_of c = \<lparr>cm_tenant_id = Some (ocr_tenantId c), cm_roles = Some (ocr_roles c),
     cm_refresh_token_ttl_seconds = ocr_refreshTokenTtlSeconds c, cm_client_secret_hash = ocr_clientSecretHash c,
     cm_clientAuthMethod = Some (if ocr_isPublic c then ''none'' else ''client_secret_basic'')\<rparr>"

text \<open>The models the switch saves for a membership with the role scopes \<open>scopes\<close>.\<close>

definition membership_oidc_scope :: "string list \<Rightarrow> string" where
  "membership_oidc_scope scopes = js_join '' '' (STANDARD_OIDC_SCOPES @ scopes)"

definition membership_grant :: "string \<Rightarrow> string \<Rightarrow> tenant_user \<Rightarrow> string list \<Rightarrow> oidc_grant" where
  "membership_grant clientId audience membership scopes =
     \<lparr>og_clientId = JStr clientId, og_accountId = u_id membership, og_oidcScope = Some (membership_oidc_scope scopes),
      og_resourceScopes = (if js_join '' '' scopes \<noteq> [] then [(audience, js_join '' '' scopes)] else [])\<rparr>"

definition membership_access :: "string \<Rightarrow> string \<Rightarrow> tenant_user \<Rightarrow> string list \<Rightarrow> string \<Rightarrow> access_token_model" where
  "membership_access clientId audience membership scopes grantId =
     \<lparr>atm_accountId = u_id membership, atm_clientId = clientId, atm_grantId = grantId,
      atm_scope = (if js_join '' '' scopes \<noteq> [] then js_join '' '' scopes else membership_oidc_scope scopes), atm_resource = audience\<rparr>"

definition membership_refresh :: "string \<Rightarrow> string \<Rightarrow> tenant_user \<Rightarrow> string list \<Rightarrow> string \<Rightarrow> refresh_token_model" where
  "membership_refresh clientId audience membership scopes grantId =
     \<lparr>rtm_accountId = u_id membership, rtm_clientId = clientId, rtm_grantId = grantId, rtm_scope = membership_oidc_scope scopes,
      rtm_resource = audience\<rparr>"

definition issueTokensForMembership ::
  "auth_env \<Rightarrow> issue_stamp \<Rightarrow> time \<Rightarrow> string \<Rightarrow> tenant_user \<Rightarrow> db \<Rightarrow> (issued_tokens \<times> db) result" where
  "issueTokensForMembership env st now clientId membership d =
     (case findActiveClient clientId d of
        None \<Rightarrow> Err (Forbidden (''OAuth client not found: '' @ clientId))
      | Some client \<Rightarrow>
          let audience = cfg_audience (au_config env);
              roleScopes = findScopesForRole (role_str (u_role membership)) (Some (u_tenantId membership)) d;
              grantId = ms_id (is_grant st);
              grant = membership_grant clientId audience membership roleScopes;
              access = tl_access (au_lib env) (membership_access clientId audience membership roleScopes grantId);
              refresh = tl_refresh (au_lib env) (membership_refresh clientId audience membership roleScopes grantId);
              d1 = save_model (is_grant st) now ''Grant'' (tl_grant (au_lib env) grant) (cfg_grantTtlSeconds (au_config env)) d;
              d2 = (case snd access of None \<Rightarrow> d1
                    | Some p \<Rightarrow> save_model (is_access st) now ''AccessToken'' p (cfg_accessTokenTtlSeconds (au_config env)) d1);
              d3 = save_model (is_refresh st) now ''RefreshToken'' (snd refresh)
                     (resolveRefreshTokenTtl (cfg_refreshTokenTtlSeconds (au_config env)) (Some (client_meta_of client)) None) d2
          in Ok (\<lparr>it_accessToken = fst access, it_refreshToken = fst refresh, it_grantId = grantId\<rparr>, d3))"

definition revokeGrant :: "time \<Rightarrow> string \<Rightarrow> db \<Rightarrow> db" where
  "revokeGrant now grantId d =
     (let d1 = (if om_find now ''Grant'' grantId d = None then d else om_destroy ''Grant'' grantId d)
      in om_revokeByGrantId ''RefreshToken'' grantId (om_revokeByGrantId ''AccessToken'' grantId d1))"

definition previous_grant :: "auth_context \<Rightarrow> time \<Rightarrow> db \<Rightarrow> string option" where
  "previous_grant auth now d =
     (case ac_jti auth of
        Some (c # cs) \<Rightarrow> Option.bind (om_find now ''AccessToken'' (c # cs) d) (payload_str ''grantId'')
      | _ \<Rightarrow> None)"

definition switch_target :: "auth_context \<Rightarrow> string \<Rightarrow> db \<Rightarrow> (tenant_user \<times> tenant_user) result" where
  "switch_target auth targetTenantId d =
     rbind (token_person auth d) (\<lambda>(current, ext).
       let denied = Err (TenantAccessDenied ''User is not an active member of the target tenant'' (Some targetTenantId) (Some (Some (u_tenantId current))))
       in case tu_findByTenantAndExternalUserId targetTenantId ext d of
            None \<Rightarrow> denied
          | Some target \<Rightarrow>
              if u_status target \<noteq> U_ACTIVE then denied
              else rbind (assertTenantActive (tn_findById targetTenantId d)) (\<lambda>_. Ok (current, target)))"

text \<open>What follows the new tokens: the previous grant goes, the sessions follow to the new membership, and what else the old
  membership had is deleted.\<close>

definition leave_membership :: "time \<Rightarrow> string option \<Rightarrow> string \<Rightarrow> string \<Rightarrow> tenant_user \<Rightarrow> tenant_user \<Rightarrow> db \<Rightarrow> db" where
  "leave_membership now previousGrantId clientId grantId current target d =
     (let d1 = (case previousGrantId of
            Some (c # cs) \<Rightarrow> if c # cs \<noteq> grantId then revokeGrant now (c # cs) d else d
          | _ \<Rightarrow> d);
          d2 = rebindSessionsToAccount (u_id current) (u_id target) clientId grantId d1
      in if u_id current \<noteq> u_id target then snd (deleteAllForAccount (u_id current) d2) else d2)"

definition switchTenant ::
  "auth_env \<Rightarrow> issue_stamp \<Rightarrow> time \<Rightarrow> auth_context \<Rightarrow> string \<Rightarrow> db \<Rightarrow> switch_response result \<times> db" where
  "switchTenant env st now auth targetTenantId d =
     (case assertUserToken auth of
        Inl e \<Rightarrow> (Err e, d)
      | Inr _ \<Rightarrow>
          (case ac_clientId auth of
             Some (c # cs) \<Rightarrow>
               (case switch_target auth targetTenantId d of
                  Inl e \<Rightarrow> (Err e, d)
                | Inr (current, target) \<Rightarrow>
                    (case issueTokensForMembership env st now (c # cs) target d of
                       Inl e \<Rightarrow> (Err e, d)
                     | Inr (issued, d1) \<Rightarrow>
                         (Ok \<lparr>sw_accessToken = it_accessToken issued, sw_refreshToken = it_refreshToken issued, sw_tokenType = ''Bearer'',
                              sw_expiresIn = cfg_accessTokenTtlSeconds (au_config env)\<rparr>,
                          domain_audit_emit (u_tenantId target) A_TOKEN_GRANT ''oidc_grant'' (it_grantId issued)
                            [(''from_tenant_id'', JStr (u_tenantId current)), (''to_tenant_id'', JStr (u_tenantId target))]
                            (leave_membership now (previous_grant auth now d) (c # cs) (it_grantId issued) current target d1))))
           | _ \<Rightarrow> (Err (Forbidden ''Token is missing client_id; cannot switch tenant''), d)))"

section \<open>AdminSessionsService\<close>

record revoke_sessions_response =
  rsr_tenantUserId :: string
  rsr_accountId :: string
  rsr_count :: nat

text \<open>The counts by model of the rows a delete removes.\<close>

definition deleted_by_model :: "(oidc_model \<Rightarrow> bool) \<Rightarrow> db \<Rightarrow> (string \<times> nat) list" where
  "deleted_by_model p d =
     (let gone = filter p (oidc_models d)
      in map (\<lambda>m. (m, length (filter (\<lambda>r. om_modelName r = m) gone))) (remdups (map om_modelName gone)))"

definition revoke_event :: "tenant_user \<Rightarrow> string \<Rightarrow> string option \<Rightarrow> (string \<times> nat) list \<Rightarrow> audit_event" where
  "revoke_event u tenantUserId actorId deleted =
     \<lparr>ae_tenantId = u_tenantId u, ae_actorId = (case actorId of None \<Rightarrow> ''system'' | Some a \<Rightarrow> a),
      ae_actorType = (if truthy actorId then AA_USER else AA_SYSTEM), ae_action = A_REVOKE,
      ae_resourceType = ''oidc_session'', ae_resourceId = tenantUserId, ae_operationId = None,
      ae_metadata = [(''revokedRecordCount'', JNum (of_nat (sum_list (map snd deleted)))),
        (''deletedByModel'', JObj (map (\<lambda>(m, n). (m, JNum (of_nat n))) deleted))]\<rparr>"

text \<open>The delete and the audit entry share a transaction: an error of the latter leaves no new state.\<close>

definition revokeSessions ::
  "string \<Rightarrow> micros \<Rightarrow> string \<Rightarrow> string option \<Rightarrow> db \<Rightarrow> (revoke_sessions_response \<times> db) result" where
  "revokeSessions newid created tenantUserId actorId d =
     rbind (tus_findById tenantUserId d) (\<lambda>u.
       let deleted = deleted_by_model (account_rows (\<lambda>i. i = u_id u) d) d;
           d1 = snd (deleteAllForAccount (u_id u) d)
       in rbind (al_insert newid created (revoke_event u tenantUserId actorId deleted) None d1) (\<lambda>(row, d2).
            Ok (\<lparr>rsr_tenantUserId = tenantUserId, rsr_accountId = u_id u, rsr_count = sum_list (map snd deleted)\<rparr>, d2)))"

section \<open>Facts\<close>

lemma token_person_ok:
  "token_person auth d = Inr (u, ext) \<longleftrightarrow> tu_findById (ac_sub auth) d = Some u \<and> u_externalUserId u = Some ext \<and> ext \<noteq> []"
  by (auto simp: token_person_def tus_findById_def split: option.splits list.splits)

lemma switch_target_ok:
  assumes "switch_target auth t d = Inr (current, target)"
  shows "\<exists>ext tn. tu_findById (ac_sub auth) d = Some current \<and> u_externalUserId current = Some ext
     \<and> target \<in> set (tenant_users d) \<and> u_tenantId target = t \<and> u_externalUserId target = Some ext \<and> u_status target = U_ACTIVE
     \<and> tn_findById t d = Some tn \<and> t_status tn = T_ACTIVE"
proof -
  obtain ext where p: "token_person auth d = Inr (current, ext)" "tu_findByTenantAndExternalUserId t ext d = Some target"
    "u_status target = U_ACTIVE" "is_ok (assertTenantActive (tn_findById t d))"
    using assms by (auto simp: switch_target_def rbind_eq_Inr Let_def split: option.splits if_splits)
  from p(4) obtain tn where "tn_findById t d = Some tn" "t_status tn = T_ACTIVE"
    by (auto simp: assertTenantActive_def split: option.splits if_splits)
  then show ?thesis using p find_ext_mem [OF p(2)] by (auto simp: token_person_ok)
qed

lemma switch_parts:
  assumes "switchTenant env st now auth t d = (Inr resp, d')"
  obtains cid current target issued d1 where "ac_clientId auth = Some cid" "switch_target auth t d = Inr (current, target)"
    "issueTokensForMembership env st now cid target d = Inr (issued, d1)" "ac_tokenType auth = UserToken"
    "oidc_models d' = oidc_models (leave_membership now (previous_grant auth now d) cid (it_grantId issued) current target d1)"
    "sw_refreshToken resp = it_refreshToken issued"
  using assms by (auto simp: switchTenant_def assertUserToken_def domain_audit_emit_def split: sum.splits option.splits list.splits prod.splits if_splits)

text \<open>A row survives a delete that does not select it, and an update that does not.\<close>

lemma live_filter: "tbl_find key k rows = Some r \<Longrightarrow> P r \<Longrightarrow> tbl_find key k (filter P rows) = Some r"
  by (induction rows) (auto simp: tbl_find_Cons split: if_splits)

lemma live_update:
  "tbl_find key k rows = Some r \<Longrightarrow> \<not> p r \<Longrightarrow> (\<And>x. key (f x) = key x) \<Longrightarrow> tbl_find key k (tbl_update p f rows) = Some r"
  by (induction rows) (auto simp: tbl_find_Cons tbl_update_def split: if_splits)

lemma revokeGrant_rows:
  obtains Q where "oidc_models (revokeGrant now g d) = filter Q (oidc_models d)" "\<And>r. om_key r \<noteq> (''Grant'', g) \<Longrightarrow> om_grantId r \<noteq> Some g \<Longrightarrow> Q r"
    "\<And>r. Q r \<Longrightarrow> om_grantId r = Some g \<Longrightarrow> om_modelName r \<notin> {''AccessToken'', ''RefreshToken''}"
proof -
  let ?Q = "\<lambda>r. (om_find now ''Grant'' g d = None \<or> om_key r \<noteq> (''Grant'', g))
    \<and> \<not> (om_grantId r = Some g \<and> om_modelName r \<in> {''AccessToken'', ''RefreshToken''})"
  have "oidc_models (revokeGrant now g d) = filter ?Q (oidc_models d)"
    by (auto simp: revokeGrant_def om_revokeByGrantId_def om_destroy_def Let_def intro!: filter_cong)
  then show thesis by (rule that) auto
qed

lemma rebind_keys: "tbl_keys om_key (oidc_models d) \<Longrightarrow> tbl_keys om_key (oidc_models (rebindSessionsToAccount a b c g d))"
  by (auto simp: rebindSessionsToAccount_def om_key_def intro!: tbl_keys_update)

lemma rebind_live:
  "tbl_find om_key k (oidc_models d) = Some r \<Longrightarrow> om_modelName r \<noteq> ''Session'' \<Longrightarrow>
   tbl_find om_key k (oidc_models (rebindSessionsToAccount a b c g d)) = Some r"
  by (auto simp: rebindSessionsToAccount_def om_key_def SESSION_MODEL_def intro!: live_update)

text \<open>What is bound to the account that stays, or hangs off its grant, is not deleted with the other account.\<close>

lemma delete_other_account:
  assumes "tbl_keys om_key (oidc_models d)" "tbl_find om_key (''Grant'', g) (oidc_models d) = Some gr" "om_accountId gr = Some b" "a \<noteq> b"
    and r: "tbl_find om_key k (oidc_models d) = Some r" "om_accountId r = Some b" "om_grantId r \<in> {None, Some g}"
  shows "tbl_find om_key k (oidc_models (snd (deleteAllForAccount a d))) = Some r"
proof -
  have "om_accountId x \<noteq> Some a" if "x \<in> set (oidc_models d)" "om_key x = (''Grant'', g)" for x
    using tbl_find_mem [OF assms(1) that(1)] that(2) assms(2-4) by simp
  then have "\<not> account_rows (\<lambda>i. i = a) d r" using r(2,3) assms(4) by (auto simp: account_rows_def om_key_def Let_def split: option.splits)
  then show ?thesis using r(1) by (auto simp: deleteAllForAccount_def om_delete_where_def intro: live_filter)
qed

lemma leave_keeps:
  assumes "tbl_keys om_key (oidc_models d)" and gr: "tbl_find om_key (''Grant'', g) (oidc_models d) = Some gr" "om_accountId gr = Some (u_id target)"
    "om_grantId gr = None"
    and r: "tbl_find om_key k (oidc_models d) = Some r" "om_accountId r = Some (u_id target)" "om_grantId r \<in> {None, Some g}"
    "om_modelName r \<noteq> ''Session''" "k = (''Grant'', g) \<or> om_modelName r \<noteq> ''Grant''"
  shows "tbl_find om_key k (oidc_models (leave_membership now prev cid g current target d)) = Some r"
proof -
  define d1 where "d1 = (case prev of Some (c # cs) \<Rightarrow> if c # cs \<noteq> g then revokeGrant now (c # cs) d else d | _ \<Rightarrow> d)"
  have rows: "\<exists>Q. oidc_models d1 = filter Q (oidc_models d) \<and> (\<forall>x. om_grantId x \<in> {None, Some g} \<and> (om_modelName x = ''Grant'' \<longrightarrow> om_key x = (''Grant'', g)) \<longrightarrow> Q x)"
  proof (cases "\<exists>c cs. prev = Some (c # cs) \<and> c # cs \<noteq> g")
    case True
    then obtain h where h: "d1 = revokeGrant now h d" "h \<noteq> g" by (auto simp: d1_def)
    show ?thesis
    proof (rule revokeGrant_rows [of now h d])
      fix Q assume q: "oidc_models (revokeGrant now h d) = filter Q (oidc_models d)"
        "\<And>x. om_key x \<noteq> (''Grant'', h) \<Longrightarrow> om_grantId x \<noteq> Some h \<Longrightarrow> Q x"
      have "Q x" if "om_grantId x \<in> {None, Some g}" "om_modelName x = ''Grant'' \<longrightarrow> om_key x = (''Grant'', g)" for x
      proof (rule q(2))
        show "om_grantId x \<noteq> Some h" using that(1) h(2) by auto
        show "om_key x \<noteq> (''Grant'', h)"
        proof
          assume a: "om_key x = (''Grant'', h)"
          then have "om_modelName x = ''Grant''" by (simp only: om_key_def prod.inject)
          then show False using that(2) a h(2) by simp
        qed
      qed
      then show ?thesis using q(1) unfolding h(1) by blast
    qed
  next
    case False
    then have "d1 = d" by (auto simp: d1_def split: option.splits list.splits)
    then show ?thesis by (intro exI [of _ "\<lambda>_. True"]) simp
  qed
  have key: "om_key gr = (''Grant'', g)" "om_key r = k" using tbl_find_Some [OF gr(1)] tbl_find_Some [OF r(1)] by auto
  from rows obtain Q where Q: "oidc_models d1 = filter Q (oidc_models d)" "Q gr" "Q r"
    using key gr(3) r(3,5) by (auto simp: om_key_def)
  have k1: "tbl_keys om_key (oidc_models d1)" using assms(1) by (simp add: Q tbl_keys_def distinct_map_filter)
  have f1: "tbl_find om_key (''Grant'', g) (oidc_models d1) = Some gr" "tbl_find om_key k (oidc_models d1) = Some r"
    using live_filter [OF gr(1)] live_filter [OF r(1)] Q by simp_all
  define d2 where "d2 = rebindSessionsToAccount (u_id current) (u_id target) cid g d1"
  have "tbl_find om_key (''Grant'', g) (oidc_models d2) = Some gr" "tbl_find om_key k (oidc_models d2) = Some r"
    using rebind_live [OF f1(1)] rebind_live [OF f1(2)] r(4) key(1) by (auto simp: d2_def om_key_def)
  then have "tbl_find om_key k (oidc_models (snd (deleteAllForAccount (u_id current) d2))) = Some r" if "u_id current \<noteq> u_id target"
    using delete_other_account [OF rebind_keys [OF k1, of "u_id current" "u_id target" cid g, folded d2_def] _ gr(2) that _ r(2,3)] by simp
  then show ?thesis using \<open>tbl_find om_key k (oidc_models d2) = Some r\<close>
    by (simp add: leave_membership_def d1_def [symmetric] d2_def [symmetric])
qed

text \<open>What the provider library stores, as far as the switch relies on it: a grant of the account that is no child of another
  grant, and a refresh token with its account and grant.\<close>

definition payloads_faithful :: "token_lib \<Rightarrow> bool" where
  "payloads_faithful l =
     ((\<forall>g. payload_str ''accountId'' (tl_grant l g) = Some (og_accountId g) \<and> payload_str ''grantId'' (tl_grant l g) = None)
      \<and> (\<forall>m. payload_str ''accountId'' (snd (tl_refresh l m)) = Some (rtm_accountId m)
           \<and> payload_str ''grantId'' (snd (tl_refresh l m)) = Some (rtm_grantId m)))"

lemma save_model_find:
  "tbl_find om_key k (oidc_models (save_model ms now m p ttl d)) =
     (if k = (m, ms_id ms) then tbl_find om_key (m, ms_id ms) (oidc_models (om_upsert (ms_row ms) (ms_created ms) now m (ms_id ms) p ttl d))
      else tbl_find om_key k (oidc_models d))"
  by (simp add: save_model_def om_upsert_find)

lemma save_model_keys: "tbl_keys om_key (oidc_models d) \<Longrightarrow> tbl_keys om_key (oidc_models (save_model ms now m p ttl d))"
  by (simp add: save_model_def om_upsert_def Let_def tbl_keys_save)

text \<open>A row as the save of a model leaves it.\<close>

definition fresh_row :: "string \<Rightarrow> string \<Rightarrow> string option \<Rightarrow> (string \<times> json) list \<Rightarrow> time \<Rightarrow> int \<Rightarrow> oidc_model \<Rightarrow> bool" where
  "fresh_row m acc gid p now ttl r =
     (om_modelName r = m \<and> om_accountId r = Some acc \<and> om_grantId r = gid \<and> om_payload r = p \<and> om_consumedAt r = None
      \<and> om_expiresAt r = (if ttl > 0 then Some (now + ttl * 1000) else None))"

lemma save_model_row:
  assumes "payload_str ''accountId'' p = Some acc" "payload_str ''grantId'' p = gid"
  shows "\<exists>r. tbl_find om_key (m, ms_id ms) (oidc_models (save_model ms now m p ttl d)) = Some r \<and> fresh_row m acc gid p now ttl r"
  using assms by (simp add: save_model_def om_upsert_find fresh_row_def)

lemma fresh_row_live:
  assumes "tbl_find om_key (m, i) (oidc_models d) = Some r" "fresh_row m acc gid p now ttl r" "ttl \<le> 0 \<or> t < now + ttl * 1000"
  shows "om_find t m i d = Some p"
  using assms by (auto simp: om_find_def toPayloadIfActive_def fresh_row_def)

text \<open>The time to live of the refresh token that the switch issues.\<close>

definition switch_ttl :: "auth_env \<Rightarrow> string \<Rightarrow> db \<Rightarrow> int" where
  "switch_ttl env cid d =
     resolveRefreshTokenTtl (cfg_refreshTokenTtlSeconds (au_config env)) (map_option client_meta_of (findActiveClient cid d)) None"

lemma issue_rows:
  assumes "issueTokensForMembership env st now cid target d = Inr (issued, d1)" "payloads_faithful (au_lib env)" "tbl_keys om_key (oidc_models d)"
  shows "tbl_keys om_key (oidc_models d1) \<and> it_grantId issued = ms_id (is_grant st)
    \<and> (\<exists>gr g. tbl_find om_key (''Grant'', ms_id (is_grant st)) (oidc_models d1) = Some gr \<and> og_accountId g = u_id target
         \<and> fresh_row ''Grant'' (u_id target) None (tl_grant (au_lib env) g) now (cfg_grantTtlSeconds (au_config env)) gr)
    \<and> (\<exists>r m. tbl_find om_key (''RefreshToken'', ms_id (is_refresh st)) (oidc_models d1) = Some r
         \<and> it_refreshToken issued = fst (tl_refresh (au_lib env) m) \<and> rtm_accountId m = u_id target \<and> rtm_clientId m = cid
         \<and> fresh_row ''RefreshToken'' (u_id target) (Some (ms_id (is_grant st))) (snd (tl_refresh (au_lib env) m)) now (switch_ttl env cid d) r)"
proof -
  from assms(1) obtain client where c: "findActiveClient cid d = Some client"
    by (auto simp: issueTokensForMembership_def split: option.splits)
  define sc where "sc = findScopesForRole (role_str (u_role target)) (Some (u_tenantId target)) d"
  define g where "g = membership_grant cid (cfg_audience (au_config env)) target sc"
  define m where "m = membership_refresh cid (cfg_audience (au_config env)) target sc (ms_id (is_grant st))"
  define stored where "stored = snd (tl_access (au_lib env) (membership_access cid (cfg_audience (au_config env)) target sc (ms_id (is_grant st))))"
  have m: "og_accountId g = u_id target" "rtm_accountId m = u_id target" "rtm_clientId m = cid" "rtm_grantId m = ms_id (is_grant st)"
    by (simp_all add: g_def m_def membership_grant_def membership_refresh_def)
  have p: "it_grantId issued = ms_id (is_grant st)" "it_refreshToken issued = fst (tl_refresh (au_lib env) m)"
    "d1 = save_model (is_refresh st) now ''RefreshToken'' (snd (tl_refresh (au_lib env) m)) (switch_ttl env cid d)
       (case stored of None \<Rightarrow> save_model (is_grant st) now ''Grant'' (tl_grant (au_lib env) g) (cfg_grantTtlSeconds (au_config env)) d
        | Some p \<Rightarrow> save_model (is_access st) now ''AccessToken'' p (cfg_accessTokenTtlSeconds (au_config env))
            (save_model (is_grant st) now ''Grant'' (tl_grant (au_lib env) g) (cfg_grantTtlSeconds (au_config env)) d))"
    using assms(1) c unfolding g_def m_def sc_def stored_def by (auto simp: issueTokensForMembership_def Let_def switch_ttl_def)
  let ?dg = "save_model (is_grant st) now ''Grant'' (tl_grant (au_lib env) g) (cfg_grantTtlSeconds (au_config env)) d"
  have keys: "tbl_keys om_key (oidc_models d1)" using assms(3) unfolding p(3) by (auto intro!: save_model_keys split: option.split)
  have pay: "payload_str ''accountId'' (tl_grant (au_lib env) g) = Some (u_id target)" "payload_str ''grantId'' (tl_grant (au_lib env) g) = None"
    "payload_str ''accountId'' (snd (tl_refresh (au_lib env) m)) = Some (u_id target)"
    "payload_str ''grantId'' (snd (tl_refresh (au_lib env) m)) = Some (ms_id (is_grant st))"
    using assms(2) m by (auto simp: payloads_faithful_def)
  have "tbl_find om_key (''Grant'', ms_id (is_grant st)) (oidc_models d1) = tbl_find om_key (''Grant'', ms_id (is_grant st)) (oidc_models ?dg)"
    unfolding p(3) by (simp add: save_model_find split: option.split)
  then show ?thesis
    using keys p m save_model_row [OF pay(1,2)] save_model_row [OF pay(3,4)] by metis
qed

text \<open>What a switch removes.\<close>

lemma leave_gone:
  assumes "oidc_models d' = oidc_models (leave_membership now prev cid g current target d)"
  shows "u_id current \<noteq> u_id target \<Longrightarrow> r \<in> set (oidc_models d') \<Longrightarrow> om_modelName r \<in> set ACCOUNT_BOUND_MODELS
      \<Longrightarrow> om_accountId r \<noteq> Some (u_id current)"
    and "prev = Some h \<Longrightarrow> h \<noteq> [] \<Longrightarrow> h \<noteq> g \<Longrightarrow> r \<in> set (oidc_models d') \<Longrightarrow> om_modelName r \<in> {''AccessToken'', ''RefreshToken''}
      \<Longrightarrow> om_grantId r \<noteq> Some h"
proof -
  show "om_accountId r \<noteq> Some (u_id current)"
    if "u_id current \<noteq> u_id target" "r \<in> set (oidc_models d')" "om_modelName r \<in> set ACCOUNT_BOUND_MODELS"
    using that by (auto simp: assms leave_membership_def Let_def deleteAllForAccount_def om_delete_where_def account_rows_def)
next
  assume h: "prev = Some h" "h \<noteq> []" "h \<noteq> g" and r: "r \<in> set (oidc_models d')" "om_modelName r \<in> {''AccessToken'', ''RefreshToken''}"
  let ?d2 = "rebindSessionsToAccount (u_id current) (u_id target) cid g (revokeGrant now h d)"
  have "set (oidc_models d') \<subseteq> set (oidc_models ?d2)" using h
    by (cases h) (auto simp: assms leave_membership_def Let_def deleteAllForAccount_def om_delete_where_def)
  then obtain x where "x \<in> set (oidc_models (revokeGrant now h d))" "om_modelName x = om_modelName r" "om_grantId x = om_grantId r"
    using r(1) by (fastforce simp: rebindSessionsToAccount_def tbl_update_def)
  moreover obtain Q where "oidc_models (revokeGrant now h d) = filter Q (oidc_models d)"
    "\<And>x. Q x \<Longrightarrow> om_grantId x = Some h \<Longrightarrow> om_modelName x \<notin> {''AccessToken'', ''RefreshToken''}"
    using revokeGrant_rows [of now h d] by metis
  ultimately show "om_grantId r \<noteq> Some h" using r(2) by auto
qed


text \<open>A sample: a person with memberships in two tenants, a session and a grant in the first.\<close>

definition demo_switch_lib :: token_lib where
  "demo_switch_lib = \<lparr>tl_grant = (\<lambda>g. [(''accountId'', JStr (og_accountId g))]), tl_access = (\<lambda>m. (''at'', None)),
     tl_refresh = (\<lambda>m. (''rt'', [(''accountId'', JStr (rtm_accountId m)), (''grantId'', JStr (rtm_grantId m))]))\<rparr>"

definition demo_switch_config :: oidc_config where
  "demo_switch_config = (case oidc_getConfig demo_config_env of Inr c \<Rightarrow> c)"

definition demo_switch_env :: auth_env where
  "demo_switch_env = \<lparr>au_lib = demo_switch_lib, au_config = demo_switch_config\<rparr>"

definition demo_switch_stamp :: issue_stamp where
  "demo_switch_stamp = \<lparr>is_grant = \<lparr>ms_id = ''g2'', ms_row = ''r2'', ms_created = 9\<rparr>, is_access = \<lparr>ms_id = ''a2'', ms_row = ''r3'', ms_created = 9\<rparr>,
     is_refresh = \<lparr>ms_id = ''f2'', ms_row = ''r4'', ms_created = 9\<rparr>\<rparr>"

definition demo_member :: tenant_user where
  "demo_member = (demo_user ''z'' MEMBER 4000)\<lparr>u_tenantId := ''t2'', u_externalUserId := Some ''kc-a''\<rparr>"

definition demo_switch_db :: db where
  "demo_switch_db = demo_oc_db\<lparr>tenants := [demo_tenant, demo_tenant\<lparr>t_id := ''t2'', t_slug := ''two''\<rparr>],
     tenant_users := tenant_users demo_db @ [demo_member],
     oidc_models := [(demo_session ''s1'' 5)\<lparr>om_accountId := Some ''a''\<rparr>]\<rparr>"

definition demo_switch_auth :: auth_context where
  "demo_switch_auth = demo_auth\<lparr>ac_sub := ''a'', ac_clientId := Some ''dtcs_ab''\<rparr>"

lemma demo_switch_ok: "is_ok (fst (switchTenant demo_switch_env demo_switch_stamp 100 demo_switch_auth ''t2'' demo_switch_db))"
  by code_simp

lemma demo_switch:
  obtains resp d' where "switchTenant demo_switch_env demo_switch_stamp 100 demo_switch_auth ''t2'' demo_switch_db = (Inr resp, d')"
  using demo_switch_ok by (metis is_ok_iff prod.collapse)


text \<open>After a switch the new credentials work: the grant and the refresh token that the response carries are found in
  the store until they expire, the refresh token bound to the new membership and its grant, although the switch revokes
  the previous grant and deletes everything of the previous membership after it has stored them.\<close>

theorem switched_tokens_live:
  assumes "switchTenant env st now auth t d = (Inr resp, d')" and "payloads_faithful (au_lib env)" and "tbl_keys om_key (oidc_models d)"
  shows "\<exists>cid (target :: tenant_user) g m. ac_clientId auth = Some cid \<and> u_tenantId target = t \<and> og_accountId g = u_id target
     \<and> rtm_accountId m = u_id target \<and> rtm_clientId m = cid \<and> sw_refreshToken resp = fst (tl_refresh (au_lib env) m)
     \<and> (\<forall>t'. cfg_grantTtlSeconds (au_config env) \<le> 0 \<or> t' < now + cfg_grantTtlSeconds (au_config env) * 1000 \<longrightarrow>
          om_find t' ''Grant'' (ms_id (is_grant st)) d' = Some (tl_grant (au_lib env) g))
     \<and> (\<forall>t'. switch_ttl env cid d \<le> 0 \<or> t' < now + switch_ttl env cid d * 1000 \<longrightarrow>
          om_find t' ''RefreshToken'' (ms_id (is_refresh st)) d' = Some (snd (tl_refresh (au_lib env) m)))"
proof -
  obtain cid current target issued d1 where s: "ac_clientId auth = Some cid" "switch_target auth t d = Inr (current, target)"
    "issueTokensForMembership env st now cid target d = Inr (issued, d1)"
    "oidc_models d' = oidc_models (leave_membership now (previous_grant auth now d) cid (it_grantId issued) current target d1)"
    "sw_refreshToken resp = it_refreshToken issued"
    using switch_parts [OF assms(1)] by metis
  from issue_rows [OF s(3) assms(2,3)] obtain gr g r m where k: "tbl_keys om_key (oidc_models d1)" "it_grantId issued = ms_id (is_grant st)"
    and gr: "tbl_find om_key (''Grant'', ms_id (is_grant st)) (oidc_models d1) = Some gr" "og_accountId g = u_id target"
      "fresh_row ''Grant'' (u_id target) None (tl_grant (au_lib env) g) now (cfg_grantTtlSeconds (au_config env)) gr"
    and r: "tbl_find om_key (''RefreshToken'', ms_id (is_refresh st)) (oidc_models d1) = Some r"
      "it_refreshToken issued = fst (tl_refresh (au_lib env) m)" "rtm_accountId m = u_id target" "rtm_clientId m = cid"
      "fresh_row ''RefreshToken'' (u_id target) (Some (ms_id (is_grant st))) (snd (tl_refresh (au_lib env) m)) now (switch_ttl env cid d) r"
    by metis
  have f: "om_accountId gr = Some (u_id target)" "om_grantId gr = None" "om_modelName gr = ''Grant''"
    "om_accountId r = Some (u_id target)" "om_grantId r = Some (ms_id (is_grant st))" "om_modelName r = ''RefreshToken''"
    using gr(3) r(5) by (simp_all add: fresh_row_def)
  have "tbl_find om_key (''Grant'', ms_id (is_grant st)) (oidc_models d') = Some gr"
    "tbl_find om_key (''RefreshToken'', ms_id (is_refresh st)) (oidc_models d') = Some r"
    using leave_keeps [OF k(1) gr(1) f(1,2) gr(1) f(1)] leave_keeps [OF k(1) gr(1) f(1,2) r(1) f(4)] f k(2) s(4) by simp_all
  then have "\<forall>t'. cfg_grantTtlSeconds (au_config env) \<le> 0 \<or> t' < now + cfg_grantTtlSeconds (au_config env) * 1000 \<longrightarrow>
      om_find t' ''Grant'' (ms_id (is_grant st)) d' = Some (tl_grant (au_lib env) g)"
    "\<forall>t'. switch_ttl env cid d \<le> 0 \<or> t' < now + switch_ttl env cid d * 1000 \<longrightarrow>
      om_find t' ''RefreshToken'' (ms_id (is_refresh st)) d' = Some (snd (tl_refresh (au_lib env) m))"
    using fresh_row_live [OF _ gr(3)] fresh_row_live [OF _ r(5)] by blast+
  moreover have "u_tenantId target = t" using switch_target_ok [OF s(2)] by blast
  moreover note s(1) gr(2) r(3,4) trans [OF s(5) r(2)]
  ultimately show ?thesis by (intro exI [of _ cid] exI [of _ target] exI [of _ g] exI [of _ m] conjI)
qed

lemma demo_switch_setup: "payloads_faithful (au_lib demo_switch_env)" "tbl_keys om_key (oidc_models demo_switch_db)"
  by (simp_all add: payloads_faithful_def demo_switch_env_def demo_switch_lib_def payload_str_def demo_switch_db_def tbl_keys_def)

theorem switched_tokens_live_witness:
  "\<exists>resp d' p. switchTenant demo_switch_env demo_switch_stamp 100 demo_switch_auth ''t2'' demo_switch_db = (Inr resp, d')
     \<and> om_find 101 ''Grant'' ''g2'' d' = Some p"
proof -
  obtain resp d' where s: "switchTenant demo_switch_env demo_switch_stamp 100 demo_switch_auth ''t2'' demo_switch_db = (Inr resp, d')"
    by (rule demo_switch)
  have "cfg_grantTtlSeconds (au_config demo_switch_env) \<le> 0 \<or> (101::int) < 100 + cfg_grantTtlSeconds (au_config demo_switch_env) * 1000"
    by code_simp
  then show ?thesis using switched_tokens_live [OF s demo_switch_setup] s by (fastforce simp: demo_switch_stamp_def)
qed

section \<open>The forced log-out\<close>

lemma sum_by_model:
  "sum_list (map snd (deleted_by_model p d)) = length (filter p (oidc_models d))"
proof -
  have "sum_list (map (\<lambda>m. length (filter (\<lambda>r. f r = m) xs)) (remdups (map f xs))) = length xs" for f :: "oidc_model \<Rightarrow> string" and xs
  proof -
    have "length xs = (\<Sum>m\<in>set (map f xs). count_list (map f xs) m)" by (simp add: sum_count_set)
    also have "\<dots> = (\<Sum>m\<in>set (map f xs). length (filter (\<lambda>r. f r = m) xs))"
      by (intro sum.cong refl) (simp add: count_list_eq_length_filter filter_map comp_def eq_commute)
    finally show ?thesis by (simp add: sum_list_distinct_conv_sum_set)
  qed
  then show ?thesis by (simp add: deleted_by_model_def Let_def comp_def del: filter_filter)
qed


text \<open>A forced log-out is complete and leaves its trace. When it succeeds, no session, grant or token of the user's
  account remains, every row that neither belongs to the account nor hangs off one of its grants is kept, the
  reported count is the number of rows that went, and exactly one audit entry, with that count, is added in the
  user's tenant. For a user that is not known nothing happens.\<close>

theorem revoke_sessions_complete:
  "case revokeSessions newid created uid actor d of
     Inl e \<Rightarrow> (case tu_findById uid d of None \<Rightarrow> True
       | Some u \<Rightarrow> \<not> al_admissible (revoke_event u uid actor (deleted_by_model (account_rows (\<lambda>i. i = u_id u) d) d)) d)
   | Inr (resp, d') \<Rightarrow> \<exists>u row. tu_findById uid d = Some u
      \<and> (\<forall>r\<in>set (oidc_models d'). om_modelName r \<in> set ACCOUNT_BOUND_MODELS \<longrightarrow> om_accountId r \<noteq> Some (u_id u))
      \<and> (\<forall>r\<in>set (oidc_models d). om_accountId r \<noteq> Some (u_id u) \<and> om_grantId r = None \<longrightarrow> r \<in> set (oidc_models d'))
      \<and> rsr_count resp + length (oidc_models d') = length (oidc_models d)
      \<and> audit_logs d' = audit_logs d @ [row] \<and> ae_tenantId (al_event row) = u_tenantId u \<and> ae_action (al_event row) = A_REVOKE
      \<and> map_of (ae_metadata (al_event row)) ''revokedRecordCount'' = Some (JNum (of_nat (rsr_count resp)))"
proof (cases "tu_findById uid d")
  case None
  then show ?thesis by (simp add: revokeSessions_def tus_findById_def)
next
  case (Some u)
  let ?p = "account_rows (\<lambda>i. i = u_id u) d"
  let ?d1 = "snd (deleteAllForAccount (u_id u) d)"
  have d1: "oidc_models ?d1 = filter (\<lambda>r. \<not> ?p r) (oidc_models d)" "audit_logs ?d1 = audit_logs d"
    "al_admissible ev ?d1 = al_admissible ev d" for ev
    by (simp_all add: deleteAllForAccount_def om_delete_where_def al_admissible_def split: option.split)
  have p: "om_modelName r \<in> set ACCOUNT_BOUND_MODELS \<Longrightarrow> om_accountId r = Some (u_id u) \<Longrightarrow> ?p r"
    "om_accountId r \<noteq> Some (u_id u) \<Longrightarrow> om_grantId r = None \<Longrightarrow> \<not> ?p r" for r
    by (auto simp: account_rows_def Let_def split: option.splits)
  have "length (filter ?p (oidc_models d)) + length (filter (\<lambda>r. \<not> ?p r) (oidc_models d)) = length (oidc_models d)"
    by (rule sum_length_filter_compl)
  then show ?thesis using Some p
    by (auto simp: revokeSessions_def tus_findById_def Let_def al_insert_def d1 sum_by_model revoke_event_def)
qed

definition demo_logout_db :: db where
  "demo_logout_db = empty_db\<lparr>tenants := [demo_tenant\<lparr>t_id := demo_uuid\<rparr>],
     tenant_users := [(demo_user ''a'' OWNER 1)\<lparr>u_id := demo_uuid, u_tenantId := demo_uuid\<rparr>],
     oidc_models := [(demo_session ''s1'' 5)\<lparr>om_accountId := Some demo_uuid\<rparr>, demo_session ''s2'' 6]\<rparr>"

theorem revoke_sessions_complete_witness:
  "\<exists>resp d'. revokeSessions ''x'' 7 demo_uuid None demo_logout_db = Inr (resp, d') \<and> rsr_count resp = 1
     \<and> rsr_count resp + length (oidc_models d') = 2"
proof -
  have "map_sum id (\<lambda>(resp, d'). rsr_count resp) (revokeSessions ''x'' 7 demo_uuid None demo_logout_db) = Inr 1" by code_simp
  then obtain resp d' where s: "revokeSessions ''x'' 7 demo_uuid None demo_logout_db = Inr (resp, d')" "rsr_count resp = 1"
    by (cases "revokeSessions ''x'' 7 demo_uuid None demo_logout_db") auto
  have "length (oidc_models demo_logout_db) = 2" by (simp add: demo_logout_db_def)
  then show ?thesis using revoke_sessions_complete [where newid = "''x''" and created = 7 and uid = demo_uuid and actor = None and d = demo_logout_db] s by auto
qed

end
