(* ===== verification/Api_Dto.thy ===== *)
theory Api_Dto
  imports Rate_Limit Credential_Definition Credential Auth_Service
begin

text \<open>
  The data transfer objects of the REST interface: the response objects with the mapping from the entities
  (\<^verbatim>\<open>fromEntity\<close>, \<^verbatim>\<open>from\<close>), and what the validation decorators of the request objects demand. Dates are the JavaScript dates
  that are serialised. Cursors are left as the pair of values they encode.

  Parameters: \<^verbatim>\<open>isEmail\<close>, \<^verbatim>\<open>isUUID\<close>, \<^verbatim>\<open>isURL\<close> of \<^verbatim>\<open>class-validator\<close>, and \<^verbatim>\<open>ParseUUIDPipe\<close>. A field whose type the decorators
  check (\<^verbatim>\<open>IsString\<close>, \<^verbatim>\<open>IsEnum\<close>, \<^verbatim>\<open>IsObject\<close>) has that type in the request records.
\<close>

section \<open>Responses\<close>

record tenant_response =
  tr_id :: string
  tr_name :: string
  tr_slug :: string
  tr_description :: "string option"
  tr_status :: tenant_status
  tr_config :: "(string \<times> json) list"
  tr_createdAt :: time
  tr_updatedAt :: time
  tr_deactivatedAt :: "time option"

definition tenant_fromEntity :: "tenant \<Rightarrow> tenant_response" where
  "tenant_fromEntity t =
     \<lparr>tr_id = t_id t, tr_name = t_name t, tr_slug = t_slug t, tr_description = t_description t, tr_status = t_status t,
      tr_config = t_config t, tr_createdAt = to_js_date (t_createdAt t), tr_updatedAt = t_updatedAt t,
      tr_deactivatedAt = t_deactivatedAt t\<rparr>"

text \<open>The pagination object: the cursor of the next page, absent at the end.\<close>

record 'c pagination_response =
  pg_nextCursor :: "'c option"
  pg_hasMore :: bool

definition pagination_from :: "'c option \<Rightarrow> bool \<Rightarrow> 'c pagination_response" where
  "pagination_from next_cursor has_more = \<lparr>pg_nextCursor = next_cursor, pg_hasMore = has_more\<rparr>"

record tenant_user_response =
  ur_tu_id :: string
  ur_tu_tenantId :: string
  ur_tu_email :: string
  ur_tu_displayName :: "string option"
  ur_tu_role :: tenant_user_role
  ur_tu_status :: tenant_user_status
  ur_tu_createdAt :: time

definition tenant_user_fromEntity :: "tenant_user \<Rightarrow> tenant_user_response" where
  "tenant_user_fromEntity u =
     \<lparr>ur_tu_id = u_id u, ur_tu_tenantId = u_tenantId u, ur_tu_email = u_email u, ur_tu_displayName = u_displayName u,
      ur_tu_role = u_role u, ur_tu_status = u_status u, ur_tu_createdAt = to_js_date (u_createdAt u)\<rparr>"

record oauth_client_response =
  cl_id :: string
  cl_tenantId :: string
  cl_clientId :: string
  cl_name :: string
  cl_scopes :: "string list"
  cl_roles :: "string list"
  cl_redirectUris :: "string list"
  cl_grantTypes :: "string list"
  cl_createdBy :: "string option"
  cl_refreshTokenTtlSeconds :: "int option"
  cl_createdAt :: time
  cl_revokedAt :: "time option"

definition oauth_client_fromEntity :: "oauth_client \<Rightarrow> oauth_client_response" where
  "oauth_client_fromEntity c =
     \<lparr>cl_id = oc_id c, cl_tenantId = oc_tenantId c, cl_clientId = oc_clientId c, cl_name = oc_name c, cl_scopes = oc_scopes c,
      cl_roles = oc_roles c, cl_redirectUris = oc_redirectUris c, cl_grantTypes = oc_grantTypes c, cl_createdBy = oc_createdBy c,
      cl_refreshTokenTtlSeconds = oc_refreshTokenTtlSeconds c, cl_createdAt = to_js_date (oc_createdAt c),
      cl_revokedAt = oc_revokedAt c\<rparr>"

record create_client_response =
  ccr_client :: oauth_client_response
  ccr_clientSecret :: string

definition create_client_from :: "oauth_client \<Rightarrow> string \<Rightarrow> create_client_response" where
  "create_client_from c secret = \<lparr>ccr_client = oauth_client_fromEntity c, ccr_clientSecret = secret\<rparr>"

record connection_response =
  cor_id :: string
  cor_tenantId :: string
  cor_externalConnectionId :: string
  cor_theirLabel :: "string option"
  cor_theirDid :: "string option"
  cor_state :: connection_state
  cor_connectorType :: connector_type
  cor_protocol :: connection_protocol
  cor_metadata :: "(string \<times> json) list"
  cor_createdAt :: time
  cor_updatedAt :: time

definition connection_fromEntity :: "connection \<Rightarrow> connection_response" where
  "connection_fromEntity c =
     \<lparr>cor_id = cn_id c, cor_tenantId = cn_tenantId c, cor_externalConnectionId = cn_externalConnectionId c,
      cor_theirLabel = cn_theirLabel c, cor_theirDid = cn_theirDid c, cor_state = cn_state c,
      cor_connectorType = cn_connectorType c, cor_protocol = cn_protocol c, cor_metadata = cn_metadata c,
      cor_createdAt = to_js_date (cn_createdAt c), cor_updatedAt = cn_updatedAt c\<rparr>"

record connector_response =
  ctr_id :: string
  ctr_tenantId :: string
  ctr_connectorType :: connector_type
  ctr_endpointUrl :: string
  ctr_active :: bool
  ctr_createdAt :: time
  ctr_updatedAt :: time

definition connector_fromEntity :: "connector_credential \<Rightarrow> connector_response" where
  "connector_fromEntity c =
     \<lparr>ctr_id = cc_id c, ctr_tenantId = cc_tenantId c, ctr_connectorType = cc_connectorType c, ctr_endpointUrl = cc_endpointUrl c,
      ctr_active = cc_active c, ctr_createdAt = to_js_date (cc_createdAt c), ctr_updatedAt = cc_updatedAt c\<rparr>"

record definition_response =
  dr_id :: string
  dr_tenantId :: string
  dr_name :: string
  dr_format :: cd_format
  dr_schemaDefinition :: json
  dr_externalId :: string
  dr_connectorType :: connector_type
  dr_isActive :: bool
  dr_metadata :: "json option"
  dr_createdAt :: time
  dr_updatedAt :: time

definition definition_fromEntity :: "credential_definition \<Rightarrow> definition_response" where
  "definition_fromEntity c =
     \<lparr>dr_id = cd_id c, dr_tenantId = cd_tenantId c, dr_name = cd_name c, dr_format = cd_format c,
      dr_schemaDefinition = cd_schemaDefinition c, dr_externalId = cd_externalId c, dr_connectorType = cd_connectorType c,
      dr_isActive = cd_isActive c, dr_metadata = cd_metadata c, dr_createdAt = to_js_date (cd_createdAt c),
      dr_updatedAt = cd_updatedAt c\<rparr>"

record audit_log_response =
  ar_id :: string
  ar_tenantId :: string
  ar_actorId :: string
  ar_actorType :: audit_actor_type
  ar_action :: audit_action
  ar_resourceType :: string
  ar_resourceId :: string
  ar_operationId :: "string option"
  ar_metadata :: "(string \<times> json) list"
  ar_ipAddress :: "string option"
  ar_createdAt :: time

definition audit_log_fromEntity :: "audit_log \<Rightarrow> audit_log_response" where
  "audit_log_fromEntity a =
     (let e = al_event a in
      \<lparr>ar_id = al_id a, ar_tenantId = ae_tenantId e, ar_actorId = ae_actorId e, ar_actorType = ae_actorType e,
       ar_action = ae_action e, ar_resourceType = ae_resourceType e, ar_resourceId = ae_resourceId e,
       ar_operationId = ae_operationId e, ar_metadata = ae_metadata e, ar_ipAddress = al_ipAddress a,
       ar_createdAt = to_js_date (al_createdAt a)\<rparr>)"

text \<open>The envelope of an operation leaves out the request of the caller and the tenant.\<close>

record operation_response =
  or_id :: string
  or_batchId :: "string option"
  or_type :: string
  or_state :: operation_state
  or_createdAt :: time
  or_updatedAt :: time
  or_result :: json

definition operation_fromEntity :: "operation \<Rightarrow> operation_response" where
  "operation_fromEntity x =
     \<lparr>or_id = op_id x, or_batchId = op_batchId x, or_type = op_type x, or_state = op_state x,
      or_createdAt = to_js_date (op_createdAt x), or_updatedAt = op_updatedAt x,
      or_result = (case op_result x of None \<Rightarrow> JNull | Some r \<Rightarrow> r)\<rparr>"

record role_scopes_response =
  rsp_role :: string
  rsp_scopes :: "string list"
  rsp_source :: rs_source
  rsp_revokedRecordCount :: nat

definition role_scopes_from :: "rs_result \<Rightarrow> role_scopes_response" where
  "role_scopes_from r =
     \<lparr>rsp_role = wres_role r, rsp_scopes = wres_scopes r, rsp_source = wres_source r, rsp_revokedRecordCount = wres_revoked r\<rparr>"

record operation_stats_response =
  osr_byState :: "operation_state \<Rightarrow> nat"
  osr_totalCount :: nat
  osr_oldestPending :: "time option"

definition fromStats :: "(operation_state \<Rightarrow> nat) \<times> nat \<times> micros option \<Rightarrow> operation_stats_response" where
  "fromStats stats =
     \<lparr>osr_byState = fst stats, osr_totalCount = fst (snd stats), osr_oldestPending = map_option to_js_date (snd (snd stats))\<rparr>"

definition admin_getStats :: "db \<Rightarrow> operation_stats_response" where
  "admin_getStats d = fromStats (op_getStats d)"

record rate_limit_reset_response =
  rrr_tenantId :: string
  rrr_deletedCount :: nat

definition rate_limit_reset_from :: "string \<Rightarrow> nat \<Rightarrow> rate_limit_reset_response" where
  "rate_limit_reset_from tenantId deletedCount = \<lparr>rrr_tenantId = tenantId, rrr_deletedCount = deletedCount\<rparr>"

section \<open>Validation of requests\<close>

record validator_lib =
  vl_isEmail :: "string \<Rightarrow> bool"
  vl_isUUID :: "string \<Rightarrow> bool"
  vl_isUrl :: "string \<Rightarrow> bool"
  vl_parseUUID :: "string \<Rightarrow> bool"

abbreviation max_length :: "nat \<Rightarrow> string \<Rightarrow> bool" where
  "max_length n s \<equiv> length s \<le> n"

definition optional :: "('a \<Rightarrow> bool) \<Rightarrow> 'a option \<Rightarrow> bool" where
  "optional p v = (case v of None \<Rightarrow> True | Some x \<Rightarrow> p x)"

definition slug_char :: "char \<Rightarrow> bool" where
  "slug_char c = (CHR ''a'' \<le> c \<and> c \<le> CHR ''z'' \<or> CHR ''0'' \<le> c \<and> c \<le> CHR ''9'' \<or> c = CHR ''-'')"

definition valid_create_tenant :: "validator_lib \<Rightarrow> create_tenant_dto \<Rightarrow> bool" where
  "valid_create_tenant v dto =
     (1 \<le> length (ct_name dto) \<and> max_length 255 (ct_name dto) \<and> ct_slug dto \<noteq> [] \<and> list_all slug_char (ct_slug dto)
      \<and> vl_isEmail v (ct_ownerEmail dto) \<and> max_length 255 (ct_ownerEmail dto))"

definition valid_update_tenant :: "update_tenant_dto \<Rightarrow> bool" where
  "valid_update_tenant dto = optional (\<lambda>n. 1 \<le> length n \<and> max_length 255 n) (ut_name dto)"

definition valid_update_config :: "validator_lib \<Rightarrow> update_config_dto \<Rightarrow> bool" where
  "valid_update_config v dto = optional (optional (vl_isUUID v)) (uc_defaultConnector dto)"

definition valid_limit :: "nat option \<Rightarrow> bool" where
  "valid_limit l = optional (\<lambda>n. 1 \<le> n \<and> n \<le> 100) l"

definition valid_invite :: "validator_lib \<Rightarrow> invite_dto \<Rightarrow> bool" where
  "valid_invite v dto = (vl_isEmail v (inv_email dto) \<and> max_length 255 (inv_email dto))"

definition valid_update_tenant_user :: "validator_lib \<Rightarrow> update_tu_dto \<Rightarrow> bool" where
  "valid_update_tenant_user v dto =
     (optional (\<lambda>e. vl_isEmail v e \<and> max_length 255 e) (utu_email dto) \<and> optional (max_length 255) (utu_displayName dto))"

definition valid_create_client :: "create_oc_dto \<Rightarrow> bool" where
  "valid_create_client dto =
     (max_length 255 (coc_name dto) \<and> coc_scopes dto \<noteq> [] \<and> set (coc_scopes dto) \<subseteq> set ASSIGNABLE_OAUTH_CLIENT_SCOPES
      \<and> optional (\<lambda>r. set r \<subseteq> set OAUTH_CLIENT_ALLOWED_ROLES) (coc_roles dto)
      \<and> optional (\<lambda>s. s > 0) (coc_refreshTokenTtlSeconds dto))"

definition valid_update_client :: "update_oc_dto \<Rightarrow> bool" where
  "valid_update_client dto =
     (optional (max_length 255) (uoc_name dto)
      \<and> optional (\<lambda>s. s \<noteq> [] \<and> set s \<subseteq> set ASSIGNABLE_OAUTH_CLIENT_SCOPES) (uoc_scopes dto)
      \<and> optional (\<lambda>r. set r \<subseteq> set OAUTH_CLIENT_ALLOWED_ROLES) (uoc_roles dto)
      \<and> optional (optional (\<lambda>s. s > 0)) (uoc_refreshTokenTtlSeconds dto))"

definition valid_create_connection :: "validator_lib \<Rightarrow> create_cn_dto \<Rightarrow> bool" where
  "valid_create_connection v dto =
     (vl_isUUID v (ccn_tenantId dto) \<and> max_length 255 (ccn_externalConnectionId dto)
      \<and> optional (max_length 255) (ccn_theirLabel dto) \<and> optional (max_length 255) (ccn_theirDid dto))"

definition valid_update_connection :: "update_cn_dto \<Rightarrow> bool" where
  "valid_update_connection dto = (optional (max_length 255) (ucn_theirLabel dto) \<and> optional (max_length 255) (ucn_theirDid dto))"

definition valid_credentials :: "connector_credentials_dto \<Rightarrow> bool" where
  "valid_credentials c = (cred_apiKey c \<noteq> [])"

definition valid_create_connector :: "validator_lib \<Rightarrow> string \<Rightarrow> connector_credentials_dto \<Rightarrow> bool" where
  "valid_create_connector v endpointUrl creds = (vl_isUrl v endpointUrl \<and> valid_credentials creds)"

definition valid_update_connector :: "validator_lib \<Rightarrow> update_cc_dto \<Rightarrow> bool" where
  "valid_update_connector v dto = (optional (vl_isUrl v) (ucc_endpointUrl dto) \<and> optional valid_credentials (ucc_credentials dto))"

definition valid_create_definition :: "create_cd_dto \<Rightarrow> bool" where
  "valid_create_definition dto = (max_length 255 (ccd_name dto) \<and> max_length 255 (ccd_externalId dto))"

definition valid_update_definition :: "update_cd_dto \<Rightarrow> bool" where
  "valid_update_definition dto = optional (max_length 255) (ucd_name dto)"

definition valid_role_param :: "validator_lib \<Rightarrow> string \<Rightarrow> string \<Rightarrow> bool" where
  "valid_role_param v tenantId role = (vl_isUUID v tenantId \<and> role \<in> set ROLE_HIERARCHY)"

definition valid_role_scopes :: "string list \<Rightarrow> bool" where
  "valid_role_scopes scopes = (length scopes \<le> 64)"

definition valid_list_audit_logs :: "validator_lib \<Rightarrow> audit_filters \<Rightarrow> nat option \<Rightarrow> bool" where
  "valid_list_audit_logs v f limit =
     (optional (vl_isUUID v) (af_resourceId f) \<and> optional (vl_isUUID v) (af_operationId f) \<and> valid_limit limit)"

definition valid_switch_tenant :: "validator_lib \<Rightarrow> string \<Rightarrow> bool" where
  "valid_switch_tenant v tenantId = vl_isUUID v tenantId"

end
