(* ===== verification/Api.thy ===== *)
theory Api
  imports Api_Dto
begin

text \<open>
  The REST controllers: one definition per route, from the guards of its controller over the validation of its
  arguments to the call of the service and the response object; \<open>api_call\<close> lists the routes, \<open>handle\<close> dispatches,
  and \<open>api\<close> puts the token check before and the audit interceptor around the handler.

  A handler takes the request as the guards before it left it. The order is the one NestJS gives: guards, then pipes
  (a validation error writes nothing but the recorded hit), then the method. The limiter by address, which runs before
  the guards, and the serialisation after the handler are left out.

  Parameters: the libraries of the components, the decoding of a cursor (base64url and \<^verbatim>\<open>JSON.parse\<close>) and its cast by
  PostgreSQL, and the printing of a date. The identifiers, instants, nonces and secrets a request draws are in \<open>api_stamp\<close>.
\<close>

section \<open>Environment\<close>

record api_env =
  en_val :: validator_lib
  en_oidc :: oidc_cfg
  en_argon :: argon2
  en_show :: "rat \<Rightarrow> string"
  en_registry :: validator_registry
  en_agent :: agent_env
  en_auth :: auth_env
  en_limits :: rate_limit_config
  en_parseCursor :: "string \<Rightarrow> json option"
  en_castCursor :: "json \<times> json \<Rightarrow> (micros \<times> string) option"
  en_isoDay :: "time \<Rightarrow> string"
  en_autoAudit :: bool

abbreviation en_cc :: "api_env \<Rightarrow> cc_env" where
  "en_cc env \<equiv> are_cc (ag_ar (en_agent env))"

record api_stamp =
  sm_now :: time
  sm_created :: micros
  sm_id :: string
  sm_id2 :: string
  sm_hit :: "string \<times> micros"
  sm_iv :: "nat \<Rightarrow> string"
  sm_ivs :: "string \<Rightarrow> string"
  sm_hex :: string
  sm_secret :: string
  sm_salt :: string
  sm_audit :: "(string \<times> micros) \<times> (string \<times> micros)"
  sm_issue :: issue_stamp

type_synonym page_key = "micros \<times> string"

datatype api_response =
    R_Tenant tenant_response
  | R_Tenants "tenant_response list" "page_key pagination_response"
  | R_User tenant_user_response
  | R_Users "tenant_user_response list" "page_key pagination_response"
  | R_ClientSecret create_client_response
  | R_Client oauth_client_response
  | R_Clients "oauth_client_response list"
  | R_Connection connection_response
  | R_Connections "connection_response list"
  | R_Connector connector_response
  | R_Connectors "connector_response list"
  | R_Health health
  | R_Definition definition_response
  | R_Definitions "definition_response list"
  | R_AuditLog audit_log_response
  | R_AuditLogs "audit_log_response list" "page_key desc pagination_response"
  | R_Csv string string
  | R_Operation nat operation_response
  | R_Roles "role_mapping_entry list"
  | R_RoleScopes role_scopes_response
  | R_Scopes "scope_catalog_entry list"
  | R_AuthTenants "auth_tenant list"
  | R_Switch switch_response
  | R_Stats operation_stats_response
  | R_RateStatus rate_limit_status
  | R_RateReset rate_limit_reset_response
  | R_Revoked revoke_sessions_response
  | R_Empty

type_synonym handler = "db \<Rightarrow> api_response result \<times> db"

section \<open>Steps of a route\<close>

definition guarded :: "request result \<Rightarrow> (request \<Rightarrow> handler) \<Rightarrow> handler" where
  "guarded g k d = (case g of Inl e \<Rightarrow> (Err e, d) | Inr rq \<Rightarrow> k rq d)"

definition tier_limited :: "api_env \<Rightarrow> api_stamp \<Rightarrow> string \<Rightarrow> string \<Rightarrow> (request \<Rightarrow> handler) \<Rightarrow> request \<Rightarrow> handler" where
  "tier_limited env st cls hdl k rq d =
     (case TenantTierRateLimitGuard (en_limits env) (sm_now st) (sm_hit st) cls hdl rq d of
        (Inl e, d') \<Rightarrow> (Err e, d')
      | (Inr _, d') \<Rightarrow> k rq d')"

definition validated :: "bool \<Rightarrow> handler \<Rightarrow> handler" where
  "validated ok h d = (if ok then h d else (Err (BadRequest ''Validation failed''), d))"

text \<open>The response of a service call that rolls back on error, of one that may keep changes, and of one that only reads.\<close>

definition respond :: "('a \<Rightarrow> api_response) \<Rightarrow> (db \<Rightarrow> ('a \<times> db) result) \<Rightarrow> handler" where
  "respond f call d = (case call d of Inl e \<Rightarrow> (Err e, d) | Inr (x, d') \<Rightarrow> (Ok (f x), d'))"

definition respond_st :: "('a \<Rightarrow> api_response) \<Rightarrow> (db \<Rightarrow> 'a result \<times> db) \<Rightarrow> handler" where
  "respond_st f call d = (case call d of (Inl e, d') \<Rightarrow> (Err e, d') | (Inr x, d') \<Rightarrow> (Ok (f x), d'))"

definition respond_read :: "('a \<Rightarrow> api_response) \<Rightarrow> (db \<Rightarrow> 'a result) \<Rightarrow> handler" where
  "respond_read f call d = (case call d of Inl e \<Rightarrow> (Err e, d) | Inr x \<Rightarrow> (Ok (f x), d))"

text \<open>What the decorators of the controllers declare.\<close>

definition no_meta :: route_meta where
  "no_meta = \<lparr>rm_roles = None, rm_scopes = None, rm_tenantRoles = None\<rparr>"

definition with_scope :: "string \<Rightarrow> route_meta" where
  "with_scope s = no_meta\<lparr>rm_scopes := Some [s]\<rparr>"

definition platform_only :: route_meta where
  "platform_only = no_meta\<lparr>rm_roles := Some [PLATFORM_ADMIN_ROLE]\<rparr>"

definition users_meta :: route_meta where
  "users_meta = (with_scope USERS_MANAGE_SCOPE)\<lparr>rm_tenantRoles := Some [OWNER, ADMIN]\<rparr>"

text \<open>\<^verbatim>\<open>ScopeGuard, TenantGuard, TenantStatusGuard, TenantTierRateLimitGuard\<close>.\<close>

definition tenant_limited ::
  "api_env \<Rightarrow> api_stamp \<Rightarrow> route_meta \<Rightarrow> string \<Rightarrow> string \<Rightarrow> request \<Rightarrow> (request \<Rightarrow> handler) \<Rightarrow> handler" where
  "tenant_limited env st meta cls hdl rq k d =
     guarded (tenant_route meta d rq) (tier_limited env st cls hdl k) d"

abbreviation uuid :: "api_env \<Rightarrow> string \<Rightarrow> bool" where
  "uuid env \<equiv> vl_parseUUID (en_val env)"

text \<open>The cursor of a listing: absent or empty means the first page.\<close>

definition resolve_cursor :: "api_env \<Rightarrow> string option \<Rightarrow> page_key option result" where
  "resolve_cursor env raw =
     (case raw of
        None \<Rightarrow> Ok None
      | Some s \<Rightarrow>
          if s = [] then Ok None
          else rbind (decodeCursor (en_parseCursor env s)) (\<lambda>c.
            case en_castCursor env c of None \<Rightarrow> Err db_error | Some k \<Rightarrow> Ok (Some k)))"

section \<open>TenantController\<close>

definition tenant_guards :: "route_meta \<Rightarrow> request \<Rightarrow> (request \<Rightarrow> handler) \<Rightarrow> handler" where
  "tenant_guards meta rq k d = guarded (rbind (ScopeGuard meta rq) (TenantStatusGuard d)) k d"

definition TenantController_create :: "api_env \<Rightarrow> api_stamp \<Rightarrow> request \<Rightarrow> create_tenant_dto \<Rightarrow> handler" where
  "TenantController_create env st rq dto =
     tenant_guards platform_only rq (\<lambda>rq. validated (valid_create_tenant (en_val env) dto)
       (respond (\<lambda>t. R_Tenant (tenant_fromEntity t))
          (tns_create (sm_id st) (sm_id2 st) (sm_created st) (sm_now st) dto (map_option ac_roles (rq_auth rq)))))"

definition TenantController_update :: "api_env \<Rightarrow> api_stamp \<Rightarrow> request \<Rightarrow> string \<Rightarrow> update_tenant_dto \<Rightarrow> handler" where
  "TenantController_update env st rq tid dto =
     tenant_guards (with_scope TENANT_SUPERUSER_SCOPE) rq (\<lambda>rq. validated (uuid env tid \<and> valid_update_tenant dto)
       (respond (\<lambda>t. R_Tenant (tenant_fromEntity t))
          (\<lambda>d. rbind (assertTenantAccess (rq_auth rq) tid) (\<lambda>_. tns_update (sm_now st) tid dto d))))"

definition TenantController_updateConfig :: "api_env \<Rightarrow> api_stamp \<Rightarrow> request \<Rightarrow> string \<Rightarrow> update_config_dto \<Rightarrow> handler" where
  "TenantController_updateConfig env st rq tid dto =
     tenant_guards (with_scope TENANT_SUPERUSER_SCOPE) rq (\<lambda>rq. validated (uuid env tid \<and> valid_update_config (en_val env) dto)
       (respond_st (\<lambda>t. R_Tenant (tenant_fromEntity t))
          (\<lambda>d. case assertTenantAccess (rq_auth rq) tid of
                 Inl e \<Rightarrow> (Err e, d)
               | Inr _ \<Rightarrow> tns_updateConfig (en_cc env) (sm_iv st 0) (sm_now st) tid dto (rq_auth rq) d)))"

definition TenantController_updateStatus :: "api_env \<Rightarrow> api_stamp \<Rightarrow> request \<Rightarrow> string \<Rightarrow> tenant_status \<Rightarrow> handler" where
  "TenantController_updateStatus env st rq tid status =
     tenant_guards platform_only rq (\<lambda>rq. validated (uuid env tid)
       (respond (\<lambda>t. R_Tenant (tenant_fromEntity t)) (tns_updateStatus (sm_now st) tid status)))"

definition tenant_page :: "tenant list \<times> page_key option \<times> bool \<Rightarrow> api_response" where
  "tenant_page p = R_Tenants (map tenant_fromEntity (fst p)) (pagination_from (fst (snd p)) (snd (snd p)))"

definition TenantController_list :: "api_env \<Rightarrow> request \<Rightarrow> nat option \<Rightarrow> string option \<Rightarrow> handler" where
  "TenantController_list env rq limit cursor =
     tenant_guards no_meta rq (\<lambda>rq. validated (valid_limit limit)
       (respond_read id (\<lambda>d.
          let empty = R_Tenants [] (pagination_from None False) in
          case rq_auth rq of
            None \<Rightarrow> Ok empty
          | Some auth \<Rightarrow>
              if PLATFORM_ADMIN_ROLE \<in> set (ac_roles auth)
              then rbind (resolve_cursor env cursor) (\<lambda>c. Ok (tenant_page (tns_list limit c d)))
              else (case ac_tenantId auth of
                  None \<Rightarrow> Ok empty
                | Some t \<Rightarrow>
                    if t = [] then Ok empty
                    else rbind (tns_findById t d) (\<lambda>tn.
                      Ok (R_Tenants [tenant_fromEntity tn] (pagination_from None False)))))))"

definition TenantController_findById :: "api_env \<Rightarrow> request \<Rightarrow> string \<Rightarrow> handler" where
  "TenantController_findById env rq tid =
     tenant_guards no_meta rq (\<lambda>rq. validated (uuid env tid)
       (respond_read (\<lambda>t. R_Tenant (tenant_fromEntity t)) (\<lambda>d.
          rbind (tns_findById tid d) (\<lambda>tn. rbind (assertTenantAccess (rq_auth rq) (t_id tn)) (\<lambda>_. Ok tn)))))"

definition TenantController_findBySlug :: "request \<Rightarrow> string \<Rightarrow> handler" where
  "TenantController_findBySlug rq slug =
     tenant_guards no_meta rq (\<lambda>rq.
       respond_read (\<lambda>t. R_Tenant (tenant_fromEntity t)) (\<lambda>d.
         rbind (tns_findBySlug slug d) (\<lambda>tn. rbind (assertTenantAccess (rq_auth rq) (t_id tn)) (\<lambda>_. Ok tn))))"

definition TenantController_delete :: "api_env \<Rightarrow> api_stamp \<Rightarrow> request \<Rightarrow> string \<Rightarrow> handler" where
  "TenantController_delete env st rq tid =
     tenant_guards platform_only rq (\<lambda>rq. validated (uuid env tid) (respond (\<lambda>_. R_Empty) (tns_delete (sm_now st) tid)))"

definition TenantController_restore :: "api_env \<Rightarrow> api_stamp \<Rightarrow> request \<Rightarrow> string \<Rightarrow> handler" where
  "TenantController_restore env st rq tid =
     tenant_guards platform_only rq (\<lambda>rq. validated (uuid env tid) (respond (\<lambda>_. R_Empty) (tns_restore (sm_now st) tid)))"

section \<open>TenantUserController\<close>

definition user_guards :: "request \<Rightarrow> (request \<Rightarrow> handler) \<Rightarrow> handler" where
  "user_guards rq k d = guarded (tenant_user_route users_meta d rq) k d"

definition TenantUserController_create :: "api_env \<Rightarrow> api_stamp \<Rightarrow> request \<Rightarrow> string \<Rightarrow> invite_dto \<Rightarrow> handler" where
  "TenantUserController_create env st rq tid dto =
     user_guards rq (\<lambda>rq. validated (uuid env tid \<and> valid_invite (en_val env) dto)
       (respond (\<lambda>u. R_User (tenant_user_fromEntity u))
          (tus_invite (sm_id st) (sm_created st) (sm_now st) False tid dto)))"

definition TenantUserController_list :: "api_env \<Rightarrow> request \<Rightarrow> string \<Rightarrow> nat option \<Rightarrow> string option \<Rightarrow> handler" where
  "TenantUserController_list env rq tid limit cursor =
     user_guards rq (\<lambda>rq. validated (uuid env tid \<and> valid_limit limit)
       (respond_read id (\<lambda>d.
          rbind (resolve_cursor env cursor) (\<lambda>c.
            let p = tus_list tid limit c d in
            Ok (R_Users (map tenant_user_fromEntity (fst p)) (pagination_from (fst (snd p)) (snd (snd p))))))))"

definition TenantUserController_update :: "api_env \<Rightarrow> api_stamp \<Rightarrow> request \<Rightarrow> string \<Rightarrow> string \<Rightarrow> update_tu_dto \<Rightarrow> handler" where
  "TenantUserController_update env st rq tid uid dto =
     user_guards rq (\<lambda>rq. validated (uuid env tid \<and> uuid env uid \<and> valid_update_tenant_user (en_val env) dto)
       (respond (\<lambda>u. R_User (tenant_user_fromEntity u))
          (tus_update (sm_now st) tid uid dto (map_option u_id (rq_callerTenantUser rq)))))"

definition TenantUserController_delete :: "api_env \<Rightarrow> request \<Rightarrow> string \<Rightarrow> string \<Rightarrow> handler" where
  "TenantUserController_delete env rq tid uid =
     user_guards rq (\<lambda>rq. validated (uuid env tid \<and> uuid env uid) (respond (\<lambda>_. R_Empty) (tus_delete tid uid)))"

section \<open>OAuthClientController\<close>

definition client_guards :: "api_env \<Rightarrow> api_stamp \<Rightarrow> string \<Rightarrow> request \<Rightarrow> (request \<Rightarrow> handler) \<Rightarrow> handler" where
  "client_guards env st hdl rq k = tenant_limited env st (with_scope ''clients:manage'') ''OAuthClientController'' hdl rq k"

definition OAuthClientController_createClient :: "api_env \<Rightarrow> api_stamp \<Rightarrow> request \<Rightarrow> string \<Rightarrow> create_oc_dto \<Rightarrow> handler" where
  "OAuthClientController_createClient env st rq tid dto =
     client_guards env st ''createClient'' rq (\<lambda>rq. validated (uuid env tid \<and> valid_create_client dto)
       (respond (\<lambda>(c, secret). R_ClientSecret (create_client_from c secret))
          (createClient (en_oidc env) (en_argon env) (sm_id st) (sm_hex st) (sm_secret st) (sm_salt st) (sm_created st)
             tid dto (rq_auth rq))))"

definition OAuthClientController_findByTenant :: "api_env \<Rightarrow> api_stamp \<Rightarrow> request \<Rightarrow> string \<Rightarrow> handler" where
  "OAuthClientController_findByTenant env st rq tid =
     client_guards env st ''findByTenant'' rq (\<lambda>rq. validated (uuid env tid)
       (respond_read (\<lambda>cs. R_Clients (map oauth_client_fromEntity cs)) (\<lambda>d. Ok (oc_findByTenant tid d))))"

definition OAuthClientController_update :: "api_env \<Rightarrow> api_stamp \<Rightarrow> request \<Rightarrow> string \<Rightarrow> string \<Rightarrow> update_oc_dto \<Rightarrow> handler" where
  "OAuthClientController_update env st rq tid clientId dto =
     client_guards env st ''update'' rq (\<lambda>rq. validated (uuid env tid \<and> valid_update_client dto)
       (respond (\<lambda>c. R_Client (oauth_client_fromEntity c)) (ocs_update (en_oidc env) tid clientId dto (rq_auth rq))))"

definition OAuthClientController_revokeClient :: "api_env \<Rightarrow> api_stamp \<Rightarrow> request \<Rightarrow> string \<Rightarrow> string \<Rightarrow> handler" where
  "OAuthClientController_revokeClient env st rq tid clientId =
     client_guards env st ''revokeClient'' rq (\<lambda>rq. validated (uuid env tid)
       (respond (\<lambda>_. R_Empty) (revokeClient (sm_now st) tid clientId)))"

definition OAuthClientController_rotateSecret :: "api_env \<Rightarrow> api_stamp \<Rightarrow> request \<Rightarrow> string \<Rightarrow> string \<Rightarrow> handler" where
  "OAuthClientController_rotateSecret env st rq tid clientId =
     client_guards env st ''rotateSecret'' rq (\<lambda>rq. validated (uuid env tid)
       (respond (\<lambda>(c, secret). R_ClientSecret (create_client_from c secret))
          (rotateSecret (en_argon env) (sm_secret st) (sm_salt st) tid clientId)))"

section \<open>ConnectionController\<close>

definition connection_guards :: "api_env \<Rightarrow> api_stamp \<Rightarrow> string \<Rightarrow> request \<Rightarrow> (request \<Rightarrow> handler) \<Rightarrow> handler" where
  "connection_guards env st hdl rq k =
     tenant_limited env st (with_scope CONNECTIONS_MANAGE_SCOPE) ''ConnectionController'' hdl rq k"

abbreviation R_Conn :: "connection \<Rightarrow> api_response" where
  "R_Conn c \<equiv> R_Connection (connection_fromEntity c)"

definition ConnectionController_create :: "api_env \<Rightarrow> api_stamp \<Rightarrow> request \<Rightarrow> create_cn_dto \<Rightarrow> handler" where
  "ConnectionController_create env st rq dto =
     connection_guards env st ''create'' rq (\<lambda>rq. validated (valid_create_connection (en_val env) dto)
       (respond R_Conn (cns_create (sm_id st) (sm_created st) (sm_now st) dto (rq_auth rq))))"

definition ConnectionController_findByTenantId ::
  "api_env \<Rightarrow> api_stamp \<Rightarrow> request \<Rightarrow> string \<Rightarrow> connection_state option \<Rightarrow> handler" where
  "ConnectionController_findByTenantId env st rq tid state =
     connection_guards env st ''findByTenantId'' rq (\<lambda>rq. validated (uuid env tid)
       (respond_read (\<lambda>cs. R_Connections (map connection_fromEntity cs))
          (\<lambda>d. Ok (case state of None \<Rightarrow> cn_findByTenantId tid d | Some s \<Rightarrow> cn_findByTenantIdAndState tid s d))))"

definition ConnectionController_findByExternalConnectionId :: "api_env \<Rightarrow> api_stamp \<Rightarrow> request \<Rightarrow> string \<Rightarrow> handler" where
  "ConnectionController_findByExternalConnectionId env st rq ext =
     connection_guards env st ''findByExternalConnectionId'' rq (\<lambda>rq.
       respond_read R_Conn (cns_findByExternalConnectionId ext (rq_auth rq)))"

definition ConnectionController_findById :: "api_env \<Rightarrow> api_stamp \<Rightarrow> request \<Rightarrow> string \<Rightarrow> handler" where
  "ConnectionController_findById env st rq cid =
     connection_guards env st ''findById'' rq (\<lambda>rq. validated (uuid env cid)
       (respond_read R_Conn (cns_findById cid (rq_auth rq))))"

definition ConnectionController_update :: "api_env \<Rightarrow> api_stamp \<Rightarrow> request \<Rightarrow> string \<Rightarrow> update_cn_dto \<Rightarrow> handler" where
  "ConnectionController_update env st rq cid dto =
     connection_guards env st ''update'' rq (\<lambda>rq. validated (uuid env cid \<and> valid_update_connection dto)
       (respond R_Conn (cns_update (sm_now st) cid dto (rq_auth rq))))"

definition ConnectionController_delete :: "api_env \<Rightarrow> api_stamp \<Rightarrow> request \<Rightarrow> string \<Rightarrow> handler" where
  "ConnectionController_delete env st rq cid =
     connection_guards env st ''delete'' rq (\<lambda>rq. validated (uuid env cid)
       (respond (\<lambda>_. R_Empty) (cns_delete cid (rq_auth rq))))"

section \<open>ConnectorCredentialController\<close>

definition connector_guards :: "api_env \<Rightarrow> api_stamp \<Rightarrow> string \<Rightarrow> request \<Rightarrow> (request \<Rightarrow> handler) \<Rightarrow> handler" where
  "connector_guards env st hdl rq k =
     tenant_limited env st (with_scope TENANT_SUPERUSER_SCOPE) ''ConnectorCredentialController'' hdl rq k"

abbreviation R_Cred :: "connector_credential \<Rightarrow> api_response" where
  "R_Cred c \<equiv> R_Connector (connector_fromEntity c)"

definition ConnectorCredentialController_create ::
  "api_env \<Rightarrow> api_stamp \<Rightarrow> request \<Rightarrow> string \<Rightarrow> connector_type \<Rightarrow> string \<Rightarrow> connector_credentials_dto \<Rightarrow> handler" where
  "ConnectorCredentialController_create env st rq tid ty url creds =
     connector_guards env st ''create'' rq (\<lambda>rq. validated (uuid env tid \<and> valid_create_connector (en_val env) url creds)
       (respond R_Cred (ccs_create (en_cc env) (sm_iv st 0) (sm_id st) (sm_created st) (sm_now st) tid ty url creds (rq_auth rq))))"

definition ConnectorCredentialController_findByTenant :: "api_env \<Rightarrow> api_stamp \<Rightarrow> request \<Rightarrow> string \<Rightarrow> handler" where
  "ConnectorCredentialController_findByTenant env st rq tid =
     connector_guards env st ''findByTenant'' rq (\<lambda>rq. validated (uuid env tid)
       (respond_st (\<lambda>cs. R_Connectors (map connector_fromEntity cs)) (ccs_findByTenant (en_cc env) (sm_ivs st) (sm_now st) tid)))"

definition ConnectorCredentialController_findById :: "api_env \<Rightarrow> api_stamp \<Rightarrow> request \<Rightarrow> string \<Rightarrow> handler" where
  "ConnectorCredentialController_findById env st rq cid =
     connector_guards env st ''findById'' rq (\<lambda>rq. validated (uuid env cid)
       (respond R_Cred (ccs_findById (en_cc env) (sm_iv st 0) (sm_now st) cid (rq_auth rq))))"

definition ConnectorCredentialController_update :: "api_env \<Rightarrow> api_stamp \<Rightarrow> request \<Rightarrow> string \<Rightarrow> update_cc_dto \<Rightarrow> handler" where
  "ConnectorCredentialController_update env st rq cid dto =
     connector_guards env st ''update'' rq (\<lambda>rq. validated (uuid env cid \<and> valid_update_connector (en_val env) dto)
       (respond_st R_Cred
          (ccs_update (en_cc env) (sm_iv st 0) (sm_iv st 1) (sm_iv st 2) (sm_now st) cid dto (rq_auth rq))))"

definition ConnectorCredentialController_delete :: "api_env \<Rightarrow> api_stamp \<Rightarrow> request \<Rightarrow> string \<Rightarrow> handler" where
  "ConnectorCredentialController_delete env st rq cid =
     connector_guards env st ''delete'' rq (\<lambda>rq. validated (uuid env cid)
       (respond_st (\<lambda>_. R_Empty) (ccs_delete (en_cc env) (sm_iv st 0) (sm_now st) cid (rq_auth rq))))"

definition ConnectorCredentialController_test :: "api_env \<Rightarrow> api_stamp \<Rightarrow> request \<Rightarrow> string \<Rightarrow> handler" where
  "ConnectorCredentialController_test env st rq cid =
     connector_guards env st ''test'' rq (\<lambda>rq. validated (uuid env cid)
       (respond_st R_Health (ccs_testConnectivity (en_cc env) (sm_iv st 0) (sm_now st) cid (rq_auth rq))))"

section \<open>CredentialDefinitionController\<close>

definition definition_guards :: "api_env \<Rightarrow> api_stamp \<Rightarrow> string \<Rightarrow> request \<Rightarrow> (request \<Rightarrow> handler) \<Rightarrow> handler" where
  "definition_guards env st hdl rq k =
     tenant_limited env st (with_scope TENANT_SUPERUSER_SCOPE) ''CredentialDefinitionController'' hdl rq k"

abbreviation R_Def :: "credential_definition \<Rightarrow> api_response" where
  "R_Def c \<equiv> R_Definition (definition_fromEntity c)"

abbreviation R_Defs :: "credential_definition list \<Rightarrow> api_response" where
  "R_Defs cs \<equiv> R_Definitions (map definition_fromEntity cs)"

definition CredentialDefinitionController_create :: "api_env \<Rightarrow> api_stamp \<Rightarrow> request \<Rightarrow> string \<Rightarrow> create_cd_dto \<Rightarrow> handler" where
  "CredentialDefinitionController_create env st rq tid dto =
     definition_guards env st ''create'' rq (\<lambda>rq. validated (uuid env tid \<and> valid_create_definition dto)
       (respond R_Def
          (cds_create (en_show env) (en_registry env) (sm_id st) (sm_created st) (sm_now st) tid dto (rq_auth rq))))"

definition CredentialDefinitionController_findByTenantId :: "api_env \<Rightarrow> api_stamp \<Rightarrow> request \<Rightarrow> string \<Rightarrow> handler" where
  "CredentialDefinitionController_findByTenantId env st rq tid =
     definition_guards env st ''findByTenantId'' rq (\<lambda>rq. validated (uuid env tid)
       (respond_read R_Defs (\<lambda>d. Ok (cd_findByTenantId tid d))))"

definition CredentialDefinitionController_findByFormat :: "api_env \<Rightarrow> api_stamp \<Rightarrow> request \<Rightarrow> string \<Rightarrow> cd_format \<Rightarrow> handler" where
  "CredentialDefinitionController_findByFormat env st rq tid format =
     definition_guards env st ''findByFormat'' rq (\<lambda>rq. validated (uuid env tid)
       (respond_read R_Defs (\<lambda>d. Ok (cds_findByFormat tid format d))))"

definition CredentialDefinitionController_findByConnector ::
  "api_env \<Rightarrow> api_stamp \<Rightarrow> request \<Rightarrow> string \<Rightarrow> connector_type \<Rightarrow> handler" where
  "CredentialDefinitionController_findByConnector env st rq tid ty =
     definition_guards env st ''findByConnector'' rq (\<lambda>rq. validated (uuid env tid)
       (respond_read R_Defs (\<lambda>d. Ok (cds_findByConnector tid ty d))))"

definition CredentialDefinitionController_findById :: "api_env \<Rightarrow> api_stamp \<Rightarrow> request \<Rightarrow> string \<Rightarrow> string \<Rightarrow> handler" where
  "CredentialDefinitionController_findById env st rq tid cid =
     definition_guards env st ''findById'' rq (\<lambda>rq. validated (uuid env tid \<and> uuid env cid)
       (respond_read R_Def (cds_findById tid cid (rq_auth rq))))"

definition CredentialDefinitionController_update ::
  "api_env \<Rightarrow> api_stamp \<Rightarrow> request \<Rightarrow> string \<Rightarrow> string \<Rightarrow> update_cd_dto \<Rightarrow> handler" where
  "CredentialDefinitionController_update env st rq tid cid dto =
     definition_guards env st ''update'' rq (\<lambda>rq. validated (uuid env tid \<and> uuid env cid \<and> valid_update_definition dto)
       (respond R_Def (cds_update (sm_now st) tid cid dto (rq_auth rq))))"

definition CredentialDefinitionController_delete :: "api_env \<Rightarrow> api_stamp \<Rightarrow> request \<Rightarrow> string \<Rightarrow> string \<Rightarrow> handler" where
  "CredentialDefinitionController_delete env st rq tid cid =
     definition_guards env st ''delete'' rq (\<lambda>rq. validated (uuid env tid \<and> uuid env cid)
       (respond (\<lambda>_. R_Empty) (cds_delete (sm_now st) tid cid (rq_auth rq))))"

section \<open>Credential actions, revocation, operations\<close>

definition resolveStatus :: "operation_state \<Rightarrow> nat" where
  "resolveStatus state = (if state = OP_PENDING \<or> state = OP_PROCESSING then 202 else 200)"

abbreviation R_Op :: "operation \<Rightarrow> api_response" where
  "R_Op x \<equiv> R_Operation (resolveStatus (op_state x)) (operation_fromEntity x)"

definition stamp_of :: "api_stamp \<Rightarrow> op_stamp" where
  "stamp_of st = \<lparr>os_id = sm_id st, os_created = sm_created st, os_now = sm_now st\<rparr>"

definition CredentialActionController_accept :: "api_env \<Rightarrow> api_stamp \<Rightarrow> request \<Rightarrow> string \<Rightarrow> string \<Rightarrow> handler" where
  "CredentialActionController_accept env st rq tid xid =
     tenant_limited env st (with_scope ''credentials:hold'') ''CredentialActionController'' ''accept'' rq (\<lambda>rq.
       validated (uuid env tid \<and> uuid env xid) (respond_st R_Op (perform (en_agent env) (stamp_of st) ACCEPT tid xid)))"

definition CredentialActionController_reject :: "api_env \<Rightarrow> api_stamp \<Rightarrow> request \<Rightarrow> string \<Rightarrow> string \<Rightarrow> handler" where
  "CredentialActionController_reject env st rq tid xid =
     tenant_limited env st (with_scope ''credentials:hold'') ''CredentialActionController'' ''reject'' rq (\<lambda>rq.
       validated (uuid env tid \<and> uuid env xid) (respond_st R_Op (perform (en_agent env) (stamp_of st) REJECT tid xid)))"

definition CredentialRevokeController_revoke :: "api_env \<Rightarrow> api_stamp \<Rightarrow> request \<Rightarrow> string \<Rightarrow> string \<Rightarrow> handler" where
  "CredentialRevokeController_revoke env st rq tid cid =
     tenant_limited env st (with_scope ''credentials:revoke'') ''CredentialRevokeController'' ''revoke'' rq (\<lambda>rq.
       validated (uuid env tid \<and> uuid env cid) (respond_st R_Op (crs_revoke (en_agent env) (stamp_of st) tid cid)))"

text \<open>Polling needs no scope: there is no \<^verbatim>\<open>ScopeGuard\<close> on this controller.\<close>

definition OperationController_findById :: "api_env \<Rightarrow> api_stamp \<Rightarrow> request \<Rightarrow> string \<Rightarrow> string \<Rightarrow> handler" where
  "OperationController_findById env st rq tid oid d =
     guarded (rbind (TenantGuard rq) (TenantStatusGuard d))
       (tier_limited env st ''OperationController'' ''findById'' (\<lambda>rq.
          validated (uuid env tid \<and> uuid env oid)
            (respond (\<lambda>x. R_Operation 200 (operation_fromEntity x)) (getForTenant (sm_now st) tid oid)))) d"

section \<open>AuditLogController\<close>

definition audit_guards :: "api_env \<Rightarrow> api_stamp \<Rightarrow> string \<Rightarrow> request \<Rightarrow> (request \<Rightarrow> handler) \<Rightarrow> handler" where
  "audit_guards env st hdl rq k = tenant_limited env st (with_scope AUDIT_READ_SCOPE) ''AuditLogController'' hdl rq k"

definition AuditLogController_export ::
  "api_env \<Rightarrow> api_stamp \<Rightarrow> request \<Rightarrow> string \<Rightarrow> audit_action option \<Rightarrow> time option \<Rightarrow> time option \<Rightarrow> handler" where
  "AuditLogController_export env st rq tid action since until =
     audit_guards env st ''export'' rq (\<lambda>rq. validated (uuid env tid)
       (respond_read (R_Csv (''audit-logs-'' @ en_isoDay env (sm_now st) @ ''.csv''))
          (\<lambda>d. Ok (exportCsv (en_show env) tid
             \<lparr>af_action = action, af_actorId = None, af_resourceType = None, af_resourceId = None, af_operationId = None,
              af_since = since, af_until = until\<rparr> d))))"

definition AuditLogController_list ::
  "api_env \<Rightarrow> api_stamp \<Rightarrow> request \<Rightarrow> string \<Rightarrow> audit_filters \<Rightarrow> nat option \<Rightarrow> string option \<Rightarrow> handler" where
  "AuditLogController_list env st rq tid f limit cursor =
     audit_guards env st ''list'' rq (\<lambda>rq. validated (uuid env tid \<and> valid_list_audit_logs (en_val env) f limit)
       (respond_read id (\<lambda>d.
          rbind (resolve_cursor env cursor) (\<lambda>c.
            let p = als_list tid f limit (map_option Desc c) d in
            Ok (R_AuditLogs (map audit_log_fromEntity (fst p)) (pagination_from (fst (snd p)) (snd (snd p))))))))"

definition AuditLogController_findById :: "api_env \<Rightarrow> api_stamp \<Rightarrow> request \<Rightarrow> string \<Rightarrow> string \<Rightarrow> handler" where
  "AuditLogController_findById env st rq tid aid =
     audit_guards env st ''findById'' rq (\<lambda>rq. validated (uuid env tid \<and> uuid env aid)
       (respond_read (\<lambda>a. R_AuditLog (audit_log_fromEntity a)) (als_findById tid aid)))"

section \<open>Role and scope controllers\<close>

definition RoleController_listRoles :: handler where
  "RoleController_listRoles = respond_read R_Roles (\<lambda>d. Ok (getDefaultRoleMapping d))"

definition ScopeController_listScopes :: handler where
  "ScopeController_listScopes = respond_read R_Scopes (\<lambda>d. Ok SCOPE_CATALOG)"

definition role_guards :: "api_env \<Rightarrow> api_stamp \<Rightarrow> route_meta \<Rightarrow> string \<Rightarrow> request \<Rightarrow> (request \<Rightarrow> handler) \<Rightarrow> handler" where
  "role_guards env st meta hdl rq k = tenant_limited env st meta ''TenantRoleScopeController'' hdl rq k"

definition TenantRoleScopeController_listTenantRoles :: "api_env \<Rightarrow> api_stamp \<Rightarrow> request \<Rightarrow> string \<Rightarrow> handler" where
  "TenantRoleScopeController_listTenantRoles env st rq tid =
     role_guards env st no_meta ''listTenantRoles'' rq (\<lambda>rq. validated (uuid env tid)
       (respond_read R_Roles (\<lambda>d. Ok (getTenantRoleMapping tid d))))"

text \<open>A handler that reads a field of the missing context throws: the exception filter answers 500.\<close>

definition with_auth :: "request \<Rightarrow> (auth_context \<Rightarrow> handler) \<Rightarrow> handler" where
  "with_auth rq k d = (case rq_auth rq of None \<Rightarrow> (Err (InternalError ''TypeError''), d) | Some auth \<Rightarrow> k auth d)"

definition role_request :: "auth_context \<Rightarrow> string \<Rightarrow> string \<Rightarrow> rs_request" where
  "role_request auth tid role =
     \<lparr>wr_tenantId = tid, wr_role = role, wr_actorId = ac_sub auth, wr_actorScopes = ac_scopes auth,
      wr_actorRoles = ac_roles auth, wr_actorTokenType = ac_tokenType auth\<rparr>"

definition TenantRoleScopeController_updateRoleScopes ::
  "api_env \<Rightarrow> api_stamp \<Rightarrow> request \<Rightarrow> string \<Rightarrow> string \<Rightarrow> string list \<Rightarrow> handler" where
  "TenantRoleScopeController_updateRoleScopes env st rq tid role scopes =
     role_guards env st (with_scope TENANT_SUPERUSER_SCOPE) ''updateRoleScopes'' rq (\<lambda>rq.
       validated (valid_role_param (en_val env) tid role \<and> valid_role_scopes scopes)
         (with_auth rq (\<lambda>auth. respond_st (\<lambda>r. R_RoleScopes (role_scopes_from r))
            (replaceRoleScopes (sm_audit st) id (role_request auth tid role) scopes))))"

definition TenantRoleScopeController_resetRoleScopes :: "api_env \<Rightarrow> api_stamp \<Rightarrow> request \<Rightarrow> string \<Rightarrow> string \<Rightarrow> handler" where
  "TenantRoleScopeController_resetRoleScopes env st rq tid role =
     role_guards env st (with_scope TENANT_SUPERUSER_SCOPE) ''resetRoleScopes'' rq (\<lambda>rq.
       validated (valid_role_param (en_val env) tid role)
         (with_auth rq (\<lambda>auth. respond_st (\<lambda>r. R_RoleScopes (role_scopes_from r))
            (resetRoleScopes (sm_audit st) id (role_request auth tid role)))))"

section \<open>AuthController and the administration controllers\<close>

definition AuthController_listTenants :: "request \<Rightarrow> handler" where
  "AuthController_listTenants rq = with_auth rq (\<lambda>auth. respond_read R_AuthTenants (listTenants auth))"

definition AuthController_switchTenant :: "api_env \<Rightarrow> api_stamp \<Rightarrow> request \<Rightarrow> string \<Rightarrow> handler" where
  "AuthController_switchTenant env st rq tid =
     validated (valid_switch_tenant (en_val env) tid)
       (with_auth rq (\<lambda>auth. respond_st R_Switch (switchTenant (en_auth env) (sm_issue st) (sm_now st) auth tid)))"

definition admin_guards :: "request \<Rightarrow> (request \<Rightarrow> handler) \<Rightarrow> handler" where
  "admin_guards rq k d = guarded (ScopeGuard platform_only rq) k d"

definition AdminOperationsController_getStats :: "request \<Rightarrow> handler" where
  "AdminOperationsController_getStats rq = admin_guards rq (\<lambda>rq. respond_read R_Stats (\<lambda>d. Ok (admin_getStats d)))"

definition AdminRateLimitController_getStatus :: "api_env \<Rightarrow> api_stamp \<Rightarrow> request \<Rightarrow> string \<Rightarrow> handler" where
  "AdminRateLimitController_getStatus env st rq tid =
     admin_guards rq (\<lambda>rq. validated (uuid env tid)
       (respond_read R_RateStatus (admin_getStatus (en_limits env) (sm_now st) tid)))"

definition AdminRateLimitController_reset :: "api_env \<Rightarrow> api_stamp \<Rightarrow> request \<Rightarrow> string \<Rightarrow> handler" where
  "AdminRateLimitController_reset env st rq tid =
     admin_guards rq (\<lambda>rq. validated (uuid env tid)
       (respond_st (\<lambda>(t, n). R_RateReset (rate_limit_reset_from t n))
          (admin_reset (fst (sm_audit st)) tid (map_option ac_sub (rq_auth rq)))))"

definition AdminSessionsController_revokeSessions :: "api_env \<Rightarrow> api_stamp \<Rightarrow> request \<Rightarrow> string \<Rightarrow> handler" where
  "AdminSessionsController_revokeSessions env st rq uid =
     admin_guards rq (\<lambda>rq. validated (uuid env uid)
       (respond R_Revoked
          (revokeSessions (fst (fst (sm_audit st))) (snd (fst (sm_audit st))) uid (map_option ac_sub (rq_auth rq)))))"

section \<open>Routes\<close>

datatype api_call =
    TenantCreate create_tenant_dto
  | TenantUpdate string update_tenant_dto
  | TenantUpdateConfig string update_config_dto
  | TenantUpdateStatus string tenant_status
  | TenantList "nat option" "string option"
  | TenantFindById string
  | TenantFindBySlug string
  | TenantDelete string
  | TenantRestore string
  | UserCreate string invite_dto
  | UserList string "nat option" "string option"
  | UserUpdate string string update_tu_dto
  | UserDelete string string
  | ClientCreate string create_oc_dto
  | ClientFindByTenant string
  | ClientUpdate string string update_oc_dto
  | ClientRevoke string string
  | ClientRotateSecret string string
  | ConnCreate create_cn_dto
  | ConnFindByTenant string "connection_state option"
  | ConnFindByExternal string
  | ConnFindById string
  | ConnUpdate string update_cn_dto
  | ConnDelete string
  | ConnectorCreate string connector_type string connector_credentials_dto
  | ConnectorFindByTenant string
  | ConnectorFindById string string
  | ConnectorUpdate string string update_cc_dto
  | ConnectorDelete string string
  | ConnectorTest string string
  | DefinitionCreate string create_cd_dto
  | DefinitionFindByTenant string
  | DefinitionFindByFormat string cd_format
  | DefinitionFindByConnector string connector_type
  | DefinitionFindById string string
  | DefinitionUpdate string string update_cd_dto
  | DefinitionDelete string string
  | CredentialAccept string string
  | CredentialReject string string
  | CredentialRevoke string string
  | OperationFindById string string
  | AuditExport string "audit_action option" "time option" "time option"
  | AuditList string audit_filters "nat option" "string option"
  | AuditFindById string string
  | RoleList
  | ScopeList
  | TenantRoleList string
  | RoleScopesUpdate string string "string list"
  | RoleScopesReset string string
  | AuthListTenants
  | AuthSwitchTenant string
  | AdminStats
  | AdminRateStatus string
  | AdminRateReset string
  | AdminRevokeSessions string json

text \<open>The path parameter \<open>tenantId\<close>, which the tenant guard reads.\<close>

fun path_tenantId :: "api_call \<Rightarrow> string option" where
  "path_tenantId (UserCreate t _) = Some t"
| "path_tenantId (UserList t _ _) = Some t"
| "path_tenantId (UserUpdate t _ _) = Some t"
| "path_tenantId (UserDelete t _) = Some t"
| "path_tenantId (ClientCreate t _) = Some t"
| "path_tenantId (ClientFindByTenant t) = Some t"
| "path_tenantId (ClientUpdate t _ _) = Some t"
| "path_tenantId (ClientRevoke t _) = Some t"
| "path_tenantId (ClientRotateSecret t _) = Some t"
| "path_tenantId (ConnFindByTenant t _) = Some t"
| "path_tenantId (ConnectorCreate t _ _ _) = Some t"
| "path_tenantId (ConnectorFindByTenant t) = Some t"
| "path_tenantId (ConnectorFindById t _) = Some t"
| "path_tenantId (ConnectorUpdate t _ _) = Some t"
| "path_tenantId (ConnectorDelete t _) = Some t"
| "path_tenantId (ConnectorTest t _) = Some t"
| "path_tenantId (DefinitionCreate t _) = Some t"
| "path_tenantId (DefinitionFindByTenant t) = Some t"
| "path_tenantId (DefinitionFindByFormat t _) = Some t"
| "path_tenantId (DefinitionFindByConnector t _) = Some t"
| "path_tenantId (DefinitionFindById t _) = Some t"
| "path_tenantId (DefinitionUpdate t _ _) = Some t"
| "path_tenantId (DefinitionDelete t _) = Some t"
| "path_tenantId (CredentialAccept t _) = Some t"
| "path_tenantId (CredentialReject t _) = Some t"
| "path_tenantId (CredentialRevoke t _) = Some t"
| "path_tenantId (OperationFindById t _) = Some t"
| "path_tenantId (AuditExport t _ _ _) = Some t"
| "path_tenantId (AuditList t _ _ _) = Some t"
| "path_tenantId (AuditFindById t _) = Some t"
| "path_tenantId (TenantRoleList t) = Some t"
| "path_tenantId (RoleScopesUpdate t _ _) = Some t"
| "path_tenantId (RoleScopesReset t _) = Some t"
| "path_tenantId (AdminRateStatus t) = Some t"
| "path_tenantId (AdminRateReset t) = Some t"
| "path_tenantId _ = None"

text \<open>The body of the route, after \<open>JwtGuard\<close>.\<close>

fun handle :: "api_env \<Rightarrow> api_stamp \<Rightarrow> request \<Rightarrow> api_call \<Rightarrow> handler" where
  "handle env st rq (TenantCreate dto) = TenantController_create env st rq dto"
| "handle env st rq (TenantUpdate t dto) = TenantController_update env st rq t dto"
| "handle env st rq (TenantUpdateConfig t dto) = TenantController_updateConfig env st rq t dto"
| "handle env st rq (TenantUpdateStatus t s) = TenantController_updateStatus env st rq t s"
| "handle env st rq (TenantList l c) = TenantController_list env rq l c"
| "handle env st rq (TenantFindById t) = TenantController_findById env rq t"
| "handle env st rq (TenantFindBySlug s) = TenantController_findBySlug rq s"
| "handle env st rq (TenantDelete t) = TenantController_delete env st rq t"
| "handle env st rq (TenantRestore t) = TenantController_restore env st rq t"
| "handle env st rq (UserCreate t dto) = TenantUserController_create env st rq t dto"
| "handle env st rq (UserList t l c) = TenantUserController_list env rq t l c"
| "handle env st rq (UserUpdate t u dto) = TenantUserController_update env st rq t u dto"
| "handle env st rq (UserDelete t u) = TenantUserController_delete env rq t u"
| "handle env st rq (ClientCreate t dto) = OAuthClientController_createClient env st rq t dto"
| "handle env st rq (ClientFindByTenant t) = OAuthClientController_findByTenant env st rq t"
| "handle env st rq (ClientUpdate t c dto) = OAuthClientController_update env st rq t c dto"
| "handle env st rq (ClientRevoke t c) = OAuthClientController_revokeClient env st rq t c"
| "handle env st rq (ClientRotateSecret t c) = OAuthClientController_rotateSecret env st rq t c"
| "handle env st rq (ConnCreate dto) = ConnectionController_create env st rq dto"
| "handle env st rq (ConnFindByTenant t s) = ConnectionController_findByTenantId env st rq t s"
| "handle env st rq (ConnFindByExternal e) = ConnectionController_findByExternalConnectionId env st rq e"
| "handle env st rq (ConnFindById c) = ConnectionController_findById env st rq c"
| "handle env st rq (ConnUpdate c dto) = ConnectionController_update env st rq c dto"
| "handle env st rq (ConnDelete c) = ConnectionController_delete env st rq c"
| "handle env st rq (ConnectorCreate t ty u c) = ConnectorCredentialController_create env st rq t ty u c"
| "handle env st rq (ConnectorFindByTenant t) = ConnectorCredentialController_findByTenant env st rq t"
| "handle env st rq (ConnectorFindById t c) = ConnectorCredentialController_findById env st rq c"
| "handle env st rq (ConnectorUpdate t c dto) = ConnectorCredentialController_update env st rq c dto"
| "handle env st rq (ConnectorDelete t c) = ConnectorCredentialController_delete env st rq c"
| "handle env st rq (ConnectorTest t c) = ConnectorCredentialController_test env st rq c"
| "handle env st rq (DefinitionCreate t dto) = CredentialDefinitionController_create env st rq t dto"
| "handle env st rq (DefinitionFindByTenant t) = CredentialDefinitionController_findByTenantId env st rq t"
| "handle env st rq (DefinitionFindByFormat t f) = CredentialDefinitionController_findByFormat env st rq t f"
| "handle env st rq (DefinitionFindByConnector t ty) = CredentialDefinitionController_findByConnector env st rq t ty"
| "handle env st rq (DefinitionFindById t c) = CredentialDefinitionController_findById env st rq t c"
| "handle env st rq (DefinitionUpdate t c dto) = CredentialDefinitionController_update env st rq t c dto"
| "handle env st rq (DefinitionDelete t c) = CredentialDefinitionController_delete env st rq t c"
| "handle env st rq (CredentialAccept t x) = CredentialActionController_accept env st rq t x"
| "handle env st rq (CredentialReject t x) = CredentialActionController_reject env st rq t x"
| "handle env st rq (CredentialRevoke t c) = CredentialRevokeController_revoke env st rq t c"
| "handle env st rq (OperationFindById t x) = OperationController_findById env st rq t x"
| "handle env st rq (AuditExport t a f u) = AuditLogController_export env st rq t a f u"
| "handle env st rq (AuditList t f l c) = AuditLogController_list env st rq t f l c"
| "handle env st rq (AuditFindById t a) = AuditLogController_findById env st rq t a"
| "handle env st rq RoleList = RoleController_listRoles"
| "handle env st rq ScopeList = ScopeController_listScopes"
| "handle env st rq (TenantRoleList t) = TenantRoleScopeController_listTenantRoles env st rq t"
| "handle env st rq (RoleScopesUpdate t r s) = TenantRoleScopeController_updateRoleScopes env st rq t r s"
| "handle env st rq (RoleScopesReset t r) = TenantRoleScopeController_resetRoleScopes env st rq t r"
| "handle env st rq AuthListTenants = AuthController_listTenants rq"
| "handle env st rq (AuthSwitchTenant t) = AuthController_switchTenant env st rq t"
| "handle env st rq AdminStats = AdminOperationsController_getStats rq"
| "handle env st rq (AdminRateStatus t) = AdminRateLimitController_getStatus env st rq t"
| "handle env st rq (AdminRateReset t) = AdminRateLimitController_reset env st rq t"
| "handle env st rq (AdminRevokeSessions u b) = AdminSessionsController_revokeSessions env st rq u"

text \<open>What \<open>AuditAutoInterceptor\<close> sees of the mutating routes whose controller does not carry \<^verbatim>\<open>@SkipAutoAudit\<close>: \<open>None\<close> for
  a route it leaves alone. Where the path has a tenant the body is not read.\<close>

definition auto_request :: "string \<Rightarrow> string list \<Rightarrow> (string \<times> string) list \<Rightarrow> json \<Rightarrow> http_request option" where
  "auto_request verb segments params body =
     Some \<lparr>hr_method = verb, hr_path = API_BASE_PATH @ concat (map (\<lambda>s. ''/'' @ s) segments), hr_params = params, hr_body = body\<rparr>"

fun auto_audited :: "api_call \<Rightarrow> http_request option" where
  "auto_audited (ClientCreate t _) = auto_request ''POST'' [''tenants'', t, ''clients''] [(''tenantId'', t)] JUndef"
| "auto_audited (ClientUpdate t c _) =
     auto_request ''PATCH'' [''tenants'', t, ''clients'', c] [(''tenantId'', t), (''clientId'', c)] JUndef"
| "auto_audited (ClientRevoke t c) =
     auto_request ''DELETE'' [''tenants'', t, ''clients'', c] [(''tenantId'', t), (''clientId'', c)] JUndef"
| "auto_audited (ClientRotateSecret t c) =
     auto_request ''POST'' [''tenants'', t, ''clients'', c, ''rotate-secret''] [(''tenantId'', t), (''clientId'', c)] JUndef"
| "auto_audited (ConnectorCreate t _ _ _) = auto_request ''POST'' [''tenants'', t, ''connectors''] [(''tenantId'', t)] JUndef"
| "auto_audited (ConnectorUpdate t c _) =
     auto_request ''PATCH'' [''tenants'', t, ''connectors'', c] [(''tenantId'', t), (''id'', c)] JUndef"
| "auto_audited (ConnectorDelete t c) =
     auto_request ''DELETE'' [''tenants'', t, ''connectors'', c] [(''tenantId'', t), (''id'', c)] JUndef"
| "auto_audited (ConnectorTest t c) =
     auto_request ''POST'' [''tenants'', t, ''connectors'', c, ''test''] [(''tenantId'', t), (''id'', c)] JUndef"
| "auto_audited (AdminRateReset t) = auto_request ''POST'' [''admin'', ''rate-limits'', t, ''reset''] [(''tenantId'', t)] JUndef"
| "auto_audited (AdminRevokeSessions u b) = auto_request ''POST'' [''admin'', ''users'', u, ''revoke-sessions''] [(''id'', u)] b"
| "auto_audited _ = None"

definition audited :: "api_env \<Rightarrow> api_call \<Rightarrow> api_response result \<times> db \<Rightarrow> api_response result \<times> db" where
  "audited env call out =
     (case auto_audited call of
        None \<Rightarrow> out
      | Some hr \<Rightarrow> (fst out, intercept (en_autoAudit env) False (is_ok (fst out)) hr (snd out)))"

definition route :: "api_env \<Rightarrow> api_stamp \<Rightarrow> request \<Rightarrow> api_call \<Rightarrow> handler" where
  "route env st rq call d = audited env call (handle env st rq call d)"

text \<open>What the token check needs: the library, the configured issuer and audience, the answers of the key server.\<close>

record token_check =
  tk_jose :: jose_lib
  tk_jwks :: jwks_env
  tk_issuer :: string
  tk_audience :: string

definition incoming :: "string list \<Rightarrow> api_call \<Rightarrow> request" where
  "incoming authorization call =
     \<lparr>rq_authorization = authorization, rq_paramTenantId = path_tenantId call, rq_auth = None, rq_user = None,
      rq_client = None, rq_tenantId = None, rq_callerTenantUser = None\<rparr>"

definition api ::
  "api_env \<Rightarrow> token_check \<Rightarrow> api_stamp \<Rightarrow> string list \<Rightarrow> api_call \<Rightarrow> jwks_service \<times> db
     \<Rightarrow> api_response result \<times> jwks_service \<times> db" where
  "api env tk st authorization call s =
     (case JwtGuard (tk_jose tk) (tk_jwks tk) (tk_issuer tk) (tk_audience tk) (fst s) (incoming authorization call) of
        (Inl e, j) \<Rightarrow> (Err e, j, snd s)
      | (Inr rq, j) \<Rightarrow> (let out = route env st rq call (snd s) in (fst out, j, snd out)))"

end
