(* ===== verification/Tenant_Frame.thy ===== *)
theory Tenant_Frame
  imports Api
begin

text \<open>
  What a request of one tenant may change: \<open>others\<close> is the database without the rows of a tenant, and \<open>keeps\<close> says that
  a step leaves it as it was and keeps the primary keys. The service operations are shown to keep what belongs to
  the others when they are called for the tenant; the locale \<open>db_frame\<close> carries any such relation through the steps
  of a route.
\<close>

named_theorems frame_simps \<open>tables without the rows of a tenant\<close>

section \<open>Tables\<close>

definition foreign :: "('r \<Rightarrow> string) \<Rightarrow> string \<Rightarrow> 'r list \<Rightarrow> 'r list" where
  "foreign ten t rows = filter (\<lambda>r. ten r \<noteq> t) rows"

text \<open>All rows with this key are the tenant's.\<close>

definition owned :: "('r \<Rightarrow> 'k) \<Rightarrow> ('r \<Rightarrow> string) \<Rightarrow> string \<Rightarrow> 'k \<Rightarrow> 'r list \<Rightarrow> bool" where
  "owned key ten t k rows = (\<forall>x\<in>set rows. key x = k \<longrightarrow> ten x = t)"

lemma owned_row: "tbl_keys key rows \<Longrightarrow> r \<in> set rows \<Longrightarrow> ten r = t \<Longrightarrow> owned key ten t (key r) rows"
  by (auto simp: owned_def dest: tbl_keys_inj)

lemma owned_fresh: "k \<notin> key ` set rows \<Longrightarrow> owned key ten t k rows"
  by (force simp: owned_def)

lemma owned_save: "owned key ten t k rows \<Longrightarrow> ten r = t \<Longrightarrow> owned key ten t k (tbl_save key r rows)"
  using set_tbl_save [of key r rows] by (auto simp: owned_def)

lemma owned_update:
  "owned key ten t k rows \<Longrightarrow> (\<And>r. key (f r) = key r \<and> ten (f r) = ten r) \<Longrightarrow> owned key ten t k (tbl_update p f rows)"
  by (auto simp: owned_def set_tbl_update)

lemma foreign_append [frame_simps]: "foreign ten t (xs @ ys) = foreign ten t xs @ foreign ten t ys"
  by (simp add: foreign_def)

lemma foreign_single [frame_simps]: "foreign ten t [r] = (if ten r = t then [] else [r])"
  by (simp add: foreign_def)

lemma foreign_insert: "tbl_insert key r rows = Some rows' \<Longrightarrow> ten r = t \<Longrightarrow> foreign ten t rows' = foreign ten t rows"
  by (auto simp: tbl_insert_def foreign_def split: if_splits)

lemma foreign_save: "owned key ten t (key r) rows \<Longrightarrow> ten r = t \<Longrightarrow> foreign ten t (tbl_save key r rows) = foreign ten t rows"
  by (induction key r rows rule: tbl_save.induct) (auto simp: foreign_def owned_def)

lemma foreign_update:
  "(\<And>x. x \<in> set rows \<Longrightarrow> p x \<Longrightarrow> ten x = t \<and> ten (f x) = t) \<Longrightarrow> foreign ten t (tbl_update p f rows) = foreign ten t rows"
  by (induction rows) (auto simp: foreign_def tbl_update_def)

lemma foreign_delete: "owned key ten t k rows \<Longrightarrow> foreign ten t (tbl_delete key k rows) = foreign ten t rows"
  by (induction rows) (auto simp: foreign_def tbl_delete_def owned_def)

lemma case_option_Inr: "(case x of None \<Rightarrow> Inl e | Some y \<Rightarrow> g y) = Inr z \<longleftrightarrow> (\<exists>y. x = Some y \<and> g y = Inr z)"
  by (cases x) auto

lemma if_Inr: "(if b then Inl e else r) = Inr z \<longleftrightarrow> \<not> b \<and> r = Inr z"
  by auto

lemmas success_simps = rbind_eq_Inr case_option_Inr if_Inr Let_def

section \<open>The database of the others\<close>

text \<open>\<open>own\<close> tells the rows of the OIDC store that hang off an account of the tenant.\<close>

text \<open>The interceptor queues its jobs under the path parameter as it was sent. No tenant has a blank identifier or one with
  blanks around it, so such a job is nobody else's.\<close>

definition job_tenant :: "string \<Rightarrow> audit_event \<Rightarrow> string" where
  "job_tenant t ev = (if js_trim (ae_tenantId ev) = t \<or> js_trim (ae_tenantId ev) = [] then t else ae_tenantId ev)"

definition others :: "string \<Rightarrow> (oidc_model \<Rightarrow> bool) \<Rightarrow> db \<Rightarrow> db" where
  "others t own d =
     d\<lparr>tenants := foreign t_id t (tenants d),
       tenant_users := foreign u_tenantId t (tenant_users d),
       oauth_clients := foreign oc_tenantId t (oauth_clients d),
       connections := foreign cn_tenantId t (connections d),
       connector_credentials := foreign cc_tenantId t (connector_credentials d),
       credential_definitions := foreign cd_tenantId t (credential_definitions d),
       credentials := foreign cr_tenantId t (credentials d),
       operations := foreign op_tenantId t (operations d),
       rate_limit_hits := foreign rh_tracker t (rate_limit_hits d),
       oidc_models := filter (\<lambda>m. \<not> own m) (oidc_models d),
       tenant_role_scopes := foreign trs_tenantId t (tenant_role_scopes d),
       audit_jobs := foreign (job_tenant t) t (audit_jobs d),
       audit_logs := foreign (\<lambda>a. ae_tenantId (al_event a)) t (audit_logs d),
       status_jobs := foreign sj_tenantId t (status_jobs d)\<rparr>"

text \<open>The rows bound to an account of the tenant, or to a grant of one.\<close>

definition tenant_models :: "string \<Rightarrow> db \<Rightarrow> oidc_model \<Rightarrow> bool" where
  "tenant_models t d = account_rows (\<lambda>i. \<exists>u\<in>set (tenant_users d). u_tenantId u = t \<and> u_id u = i) d"

definition db_keys :: "db \<Rightarrow> bool" where
  "db_keys d =
     (tbl_keys t_id (tenants d) \<and> tbl_keys u_id (tenant_users d) \<and> tbl_keys oc_id (oauth_clients d)
      \<and> tbl_keys cn_id (connections d) \<and> tbl_keys cc_id (connector_credentials d)
      \<and> tbl_keys cd_id (credential_definitions d) \<and> tbl_keys cr_id (credentials d) \<and> tbl_keys op_id (operations d)
      \<and> tbl_keys (\<lambda>x. (trs_tenantId x, trs_role x)) (tenant_role_scopes d))"

definition keeps :: "string \<Rightarrow> (oidc_model \<Rightarrow> bool) \<Rightarrow> db \<Rightarrow> db \<Rightarrow> bool" where
  "keeps t own d d' = (db_keys d \<longrightarrow> db_keys d' \<and> others t own d' = others t own d)"

section \<open>Steps of a route\<close>

definition hit_step :: "request \<Rightarrow> db \<Rightarrow> db \<Rightarrow> bool" where
  "hit_step rq d d' = (d' = d \<or> (\<exists>t h s r. rq_tenantId rq = Some t \<and> d' = recordHit h s t r d))"

lemma tier_guard_hit: "hit_step rq d (snd (TenantTierRateLimitGuard cfg now stamp cls hdl rq d))"
  by (auto simp: hit_step_def TenantTierRateLimitGuard_def increment_def increment_record_def Let_def split: option.split)

text \<open>A relation between the database before and after, for any run of a handler.\<close>

locale db_frame =
  fixes R :: "db \<Rightarrow> db \<Rightarrow> bool"
  assumes frame_refl: "R d d"
    and frame_trans: "R a b \<Longrightarrow> R b c \<Longrightarrow> R a c"
begin

lemma frame_guarded: "(\<And>rq. g = Inr rq \<Longrightarrow> R d (snd (k rq d))) \<Longrightarrow> R d (snd (guarded g k d))"
  by (auto simp: guarded_def frame_refl split: sum.split)

lemma frame_validated: "(ok \<Longrightarrow> R d (snd (h d))) \<Longrightarrow> R d (snd (validated ok h d))"
  by (simp add: validated_def frame_refl)

lemma frame_respond: "(\<And>x d'. call d = Inr (x, d') \<Longrightarrow> R d d') \<Longrightarrow> R d (snd (respond f call d))"
  by (auto simp: respond_def frame_refl split: sum.split prod.split)

lemma frame_respond_st: "R d (snd (call d)) \<Longrightarrow> R d (snd (respond_st f call d))"
  by (auto simp: respond_st_def split: sum.splits prod.splits)

lemma frame_respond_read: "R d (snd (respond_read f call d))"
  by (auto simp: respond_read_def frame_refl split: sum.split)

lemma frame_with_auth: "(\<And>auth. rq_auth rq = Some auth \<Longrightarrow> R d (snd (k auth d))) \<Longrightarrow> R d (snd (with_auth rq k d))"
  by (auto simp: with_auth_def frame_refl split: option.split)

text \<open>The limiter may record a hit of the tenant of the request before the handler runs.\<close>

lemma frame_tier_limited:
  assumes "\<And>d'. hit_step rq d d' \<Longrightarrow> R d d'" and "\<And>d'. hit_step rq d d' \<Longrightarrow> R d' (snd (k rq d'))"
  shows "R d (snd (tier_limited env st cls hdl k rq d))"
proof -
  let ?out = "TenantTierRateLimitGuard (en_limits env) (sm_now st) (sm_hit st) cls hdl rq d"
  have "hit_step rq d (snd ?out)" by (rule tier_guard_hit)
  then have "R d (snd ?out)" "R (snd ?out) (snd (k rq (snd ?out)))" using assms by blast+
  then show ?thesis by (auto simp: tier_limited_def split: sum.splits prod.splits intro: frame_trans)
qed

lemma frame_audited:
  assumes "R d (snd out)"
    and "\<And>hr ev d'. auto_audited call = Some hr \<Longrightarrow> is_ok (fst out) \<Longrightarrow> auto_resolveTenantId hr = Some (ae_tenantId ev)
           \<Longrightarrow> R d' (d'\<lparr>audit_jobs := audit_jobs d' @ [ev]\<rparr>)"
  shows "R d (snd (audited env call out))"
proof -
  have "R (snd out) (intercept enabled False (is_ok (fst out)) hr (snd out))" if "auto_audited call = Some hr" for enabled hr
    using assms(2) [OF that] by (auto simp: intercept_def Let_def frame_refl split: option.split)
  then show ?thesis using assms(1) by (auto simp: audited_def split: option.split intro: frame_trans)
qed

end

interpretation kp: db_frame "keeps t own" for t own
  by unfold_locales (auto simp: keeps_def)

section \<open>One table at a time\<close>

lemma keeps_table:
  "(db_keys d \<Longrightarrow> tbl_keys t_id r1 \<and> foreign t_id t r1 = foreign t_id t (tenants d)) \<Longrightarrow> keeps t own d (d\<lparr>tenants := r1\<rparr>)"
  "(db_keys d \<Longrightarrow> tbl_keys u_id r2 \<and> foreign u_tenantId t r2 = foreign u_tenantId t (tenant_users d)) \<Longrightarrow> keeps t own d (d\<lparr>tenant_users := r2\<rparr>)"
  "(db_keys d \<Longrightarrow> tbl_keys oc_id r3 \<and> foreign oc_tenantId t r3 = foreign oc_tenantId t (oauth_clients d)) \<Longrightarrow> keeps t own d (d\<lparr>oauth_clients := r3\<rparr>)"
  "(db_keys d \<Longrightarrow> tbl_keys cn_id r4 \<and> foreign cn_tenantId t r4 = foreign cn_tenantId t (connections d)) \<Longrightarrow> keeps t own d (d\<lparr>connections := r4\<rparr>)"
  "(db_keys d \<Longrightarrow> tbl_keys cc_id r5 \<and> foreign cc_tenantId t r5 = foreign cc_tenantId t (connector_credentials d))
     \<Longrightarrow> keeps t own d (d\<lparr>connector_credentials := r5\<rparr>)"
  "(db_keys d \<Longrightarrow> tbl_keys cd_id r6 \<and> foreign cd_tenantId t r6 = foreign cd_tenantId t (credential_definitions d))
     \<Longrightarrow> keeps t own d (d\<lparr>credential_definitions := r6\<rparr>)"
  "(db_keys d \<Longrightarrow> tbl_keys cr_id r7 \<and> foreign cr_tenantId t r7 = foreign cr_tenantId t (credentials d)) \<Longrightarrow> keeps t own d (d\<lparr>credentials := r7\<rparr>)"
  "(db_keys d \<Longrightarrow> tbl_keys op_id r8 \<and> foreign op_tenantId t r8 = foreign op_tenantId t (operations d)) \<Longrightarrow> keeps t own d (d\<lparr>operations := r8\<rparr>)"
  "(db_keys d \<Longrightarrow> tbl_keys (\<lambda>x. (trs_tenantId x, trs_role x)) r9
       \<and> foreign trs_tenantId t r9 = foreign trs_tenantId t (tenant_role_scopes d)) \<Longrightarrow> keeps t own d (d\<lparr>tenant_role_scopes := r9\<rparr>)"
  by (simp_all add: keeps_def db_keys_def others_def)

lemma keeps_hit: "keeps t own d (recordHit h s t r d)"
  by (simp add: keeps_def db_keys_def others_def recordHit_def frame_simps)

lemma keeps_job: "ae_tenantId ev = t \<or> js_trim (ae_tenantId ev) = t \<or> js_trim (ae_tenantId ev) = [] \<Longrightarrow> keeps t own d (d\<lparr>audit_jobs := audit_jobs d @ [ev]\<rparr>)"
  by (auto simp: keeps_def db_keys_def others_def job_tenant_def frame_simps)

lemma keeps_emit: "keeps t own d (domain_audit_emit t a rt r m d)"
  unfolding domain_audit_emit_def by (rule keeps_job) simp

lemma keeps_emit_after: "keeps t own d d' \<Longrightarrow> keeps t own d (domain_audit_emit t a rt r m d')"
  by (rule kp.frame_trans [OF _ keeps_emit])

lemma keeps_log: "al_insert i c ev ip d = Inr (row, d') \<Longrightarrow> ae_tenantId ev = t \<Longrightarrow> keeps t own d d'"
  by (auto simp: al_insert_def Let_def keeps_def db_keys_def others_def frame_simps split: if_splits)

lemma keeps_rows:
  "filter (\<lambda>m. \<not> own m) rows = filter (\<lambda>m. \<not> own m) (oidc_models d) \<Longrightarrow> keeps t own d (d\<lparr>oidc_models := rows\<rparr>)"
  by (simp add: keeps_def db_keys_def others_def)

lemma keeps_models: "(\<And>m. m \<in> set (oidc_models d) \<Longrightarrow> \<not> own m \<Longrightarrow> q m) \<Longrightarrow> keeps t own d (d\<lparr>oidc_models := filter q (oidc_models d)\<rparr>)"
  by (rule keeps_rows) (auto intro: filter_cong)

section \<open>Tenants, users, clients\<close>

lemma keeps_tn_update:
  assumes "tn_update now tn d = Some d'" "t_id tn = t"
  shows "keeps t own d d'"
proof -
  have "d' = d\<lparr>tenants := tbl_save t_id (tn\<lparr>t_updatedAt := now\<rparr>) (tenants d)\<rparr>"
    using assms(1) by (auto simp: tn_update_def split: if_splits)
  moreover have "foreign t_id t (tbl_save t_id (tn\<lparr>t_updatedAt := now\<rparr>) (tenants d)) = foreign t_id t (tenants d)"
    by (rule foreign_save) (simp_all add: owned_def assms(2))
  ultimately show ?thesis by (auto intro!: keeps_table tbl_keys_save simp: db_keys_def)
qed

lemma keeps_tns_update:
  assumes "tns_update now t dto d = Inr (x, d')"
  shows "keeps t own d d'"
proof -
  have "\<exists>(tn :: tenant) tn' d1. tn_findById t d = Some tn \<and> tn_update now tn' d = Some d1 \<and> t_id tn' = t_id tn
      \<and> d' = domain_audit_emit t A_UPDATE ''tenant'' t [] d1"
    using assms unfolding tns_update_def tns_findById_def success_simps by (elim exE conjE) (auto intro!: exI)
  then obtain tn tn' d1 where tn: "tn_findById t d = Some tn" "tn_update now tn' d = Some d1" "t_id tn' = t_id tn"
    and d': "d' = domain_audit_emit t A_UPDATE ''tenant'' t [] d1" by blast
  have "t_id tn' = t" using tn_findById_Some [OF tn(1)] tn(3) by simp
  then show ?thesis unfolding d' by (rule keeps_emit_after [OF keeps_tn_update [OF tn(2)]])
qed

lemma insert_keeps:
  "tbl_insert key r rows = Some rows' \<Longrightarrow> ten r = t \<Longrightarrow> tbl_keys key rows
     \<Longrightarrow> tbl_keys key rows' \<and> foreign ten t rows' = foreign ten t rows"
  by (blast intro: tbl_insert_keys foreign_insert)

lemma keeps_tu_create:
  assumes "tu_create u d = Some d'" "u_tenantId u = t"
  shows "keeps t own d d'"
proof -
  obtain rows where rows: "tbl_insert u_id u (tenant_users d) = Some rows" and d': "d' = d\<lparr>tenant_users := rows\<rparr>"
    using assms(1) by (auto simp: tu_create_def split: if_splits)
  show ?thesis unfolding d' by (rule keeps_table) (use insert_keeps [OF rows, where ten = u_tenantId and t = t] assms(2) in \<open>simp add: db_keys_def\<close>)
qed

lemma keeps_invite: "tus_invite i c now b t dto d = Inr (x, d') \<Longrightarrow> keeps t own d d'"
  by (auto simp: tus_invite_def Let_def split: if_splits option.splits intro!: keeps_emit_after elim!: keeps_tu_create)

lemma tu_found: "tu_findByTenantAndId t i d = Some u \<Longrightarrow> u \<in> set (tenant_users d) \<and> u_id u = i \<and> u_tenantId u = t"
  by (auto simp: tu_findByTenantAndId_def tu_rows_findByTenantAndId_def find_Some_iff)

lemma keeps_tus_update:
  assumes "tus_update now t i dto caller d = Inr (x, d')"
  shows "keeps t own d d'"
proof -
  obtain u where u: "tu_findByTenantAndId t i d = Some u" and w: "tus_update_write now dto u d = Inr (x, d')"
    using assms by (auto simp: tus_update_def tus_update_check_def rbind_eq_Inr split: option.splits if_splits)
  let ?v = "(update_fields dto u)\<lparr>u_updatedAt := now\<rparr>"
  have v: "u_tenantId ?v = t" "u_id ?v = u_id u" "u_tenantId (update_fields dto u) = t" using tu_found [OF u] by (simp_all add: update_fields_def)
  have "db_keys d \<Longrightarrow> owned u_id u_tenantId t (u_id ?v) (tenant_users d)"
    using owned_row [of u_id "tenant_users d" u u_tenantId t] tu_found [OF u] v(2) by (simp add: db_keys_def)
  then have "keeps t own d (d\<lparr>tenant_users := tbl_save u_id ?v (tenant_users d)\<rparr>)"
    using v(1) by (intro keeps_table conjI foreign_save tbl_keys_save) (auto simp: db_keys_def)
  then show ?thesis using w v(3) by (auto simp: tus_update_write_def tu_update_def Let_def split: if_splits intro: keeps_emit_after)
qed

lemma keeps_tus_delete:
  assumes "tus_delete t i d = Inr (x, d')"
  shows "keeps t own d d'"
proof -
  obtain u where u: "tu_findByTenantAndId t i d = Some u" and w: "d' = tus_delete_write u d"
    using assms by (auto simp: tus_delete_def tus_delete_check_def rbind_eq_Inr split: option.splits if_splits)
  have "db_keys d \<Longrightarrow> owned u_id u_tenantId t (u_id u) (tenant_users d)"
    using owned_row [of u_id "tenant_users d" u u_tenantId t] tu_found [OF u] by (simp add: db_keys_def)
  then have "keeps t own d (tu_delete (u_id u) d)" unfolding tu_delete_def
    by (intro keeps_table conjI foreign_delete tbl_keys_delete) (auto simp: db_keys_def)
  then show ?thesis using w tu_found [OF u] by (auto simp: tus_delete_write_def intro: keeps_emit_after)
qed

lemma oc_found: "requireTenantClient t i b d = Inr c \<Longrightarrow> c \<in> set (oauth_clients d) \<and> oc_tenantId c = t"
  by (auto simp: requireTenantClient_def oc_findByTenantAndClientId_def oc_rows_findByTenantAndClientId_def find_Some_iff
      split: option.splits if_splits)

lemma keeps_oc_update:
  assumes "oc_update c' d = Some d'" "c \<in> set (oauth_clients d)" "oc_tenantId c = t" "oc_id c' = oc_id c" "oc_tenantId c' = t"
  shows "keeps t own d d'"
proof -
  have "db_keys d \<Longrightarrow> owned oc_id oc_tenantId t (oc_id c') (oauth_clients d)"
    using owned_row [of oc_id "oauth_clients d" c oc_tenantId t] assms(2-4) by (simp add: db_keys_def)
  then have "keeps t own d (d\<lparr>oauth_clients := tbl_save oc_id c' (oauth_clients d)\<rparr>)"
    using assms(5) by (intro keeps_table conjI foreign_save tbl_keys_save) (auto simp: db_keys_def)
  then show ?thesis using assms(1) by (auto simp: oc_update_def split: if_splits)
qed

lemma keeps_oc_create:
  assumes "oc_create c d = Some d'" "oc_tenantId c = t"
  shows "keeps t own d d'"
proof -
  obtain rows where rows: "tbl_insert oc_id c (oauth_clients d) = Some rows" and d': "d' = d\<lparr>oauth_clients := rows\<rparr>"
    using assms(1) by (auto simp: oc_create_def split: if_splits)
  show ?thesis unfolding d' by (rule keeps_table) (use insert_keeps [OF rows, where ten = oc_tenantId and t = t] assms(2) in \<open>simp add: db_keys_def\<close>)
qed

lemma keeps_createClient:
  assumes "createClient cfg ar i h s sa cr t dto auth d = Inr (x, d')"
  shows "keeps t own d d'"
proof -
  have "\<exists>c :: oauth_client. oc_create c d = Some d' \<and> oc_tenantId c = t"
    using assms unfolding createClient_def success_simps by (elim exE conjE) (auto intro!: exI)
  then show ?thesis using keeps_oc_create by blast
qed

lemma keeps_ocs_update:
  assumes "ocs_update cfg t i dto auth d = Inr (x, d')"
  shows "keeps t own d d'"
proof -
  have "\<exists>(c :: oauth_client) c'. requireTenantClient t i True d = Inr c \<and> oc_update c' d = Some d'
      \<and> oc_id c' = oc_id c \<and> oc_tenantId c' = oc_tenantId c"
    using assms unfolding ocs_update_def success_simps by (elim exE conjE) (auto intro!: exI)
  then show ?thesis using keeps_oc_update oc_found by metis
qed

lemma keeps_rotateSecret: assumes "rotateSecret ar s sa t i d = Inr (x, d')" shows "keeps t own d d'"
proof -
  have "\<exists>(c :: oauth_client) c'. requireTenantClient t i True d = Inr c \<and> oc_update c' d = Some d'
      \<and> oc_id c' = oc_id c \<and> oc_tenantId c' = oc_tenantId c"
    using assms unfolding rotateSecret_def success_simps by (elim exE conjE) (auto intro!: exI)
  then show ?thesis using keeps_oc_update oc_found by metis
qed

lemma keeps_revokeClient:
  assumes "revokeClient now t i d = Inr (x, d')"
  shows "keeps t own d d'"
proof -
  obtain c where c: "requireTenantClient t i False d = Inr c" and d': "d' = d \<or> d' = oc_revoke now (oc_id c) d"
    using assms by (auto simp: revokeClient_def rbind_eq_Inr split: if_splits)
  have "db_keys d \<Longrightarrow> owned oc_id oc_tenantId t (oc_id c) (oauth_clients d)"
    using owned_row [of oc_id "oauth_clients d" c oc_tenantId t] oc_found [OF c] by (simp add: db_keys_def)
  then have "keeps t own d (oc_revoke now (oc_id c) d)" unfolding oc_revoke_def
    by (intro keeps_table conjI foreign_update tbl_keys_update) (auto simp: db_keys_def owned_def)
  then show ?thesis using d' kp.frame_refl by auto
qed

section \<open>Callers of a tenant\<close>

text \<open>A token that is not an administrator's and names no other tenant.\<close>

definition caller_of :: "string \<Rightarrow> auth_context \<Rightarrow> bool" where
  "caller_of t auth = (PLATFORM_ADMIN_ROLE \<notin> set (ac_roles auth) \<and> (\<forall>s. ac_tenantId auth = Some s \<longrightarrow> s = t))"

lemma caller_access: "caller_of t auth \<Longrightarrow> assertTenantAccess (Some auth) s = Inr u \<Longrightarrow> s = t"
  using assertTenantAccess_ok [of auth s] by (auto simp: caller_of_def)

lemma caller_resource: "caller_of t auth \<Longrightarrow> assertResourceTenantOrNotFound (Some auth) s m = Inr u \<Longrightarrow> s = t"
  using assertResourceTenant_ok [of auth s m] by (auto simp: caller_of_def)

section \<open>Connections\<close>

lemma keeps_cns_create:
  assumes "cns_create i cr now dto (Some auth) d = Inr (x, d')" "caller_of t auth"
  shows "keeps t own d d'"
proof -
  have "\<exists>(c :: connection) d1. cn_create c d = Some d1 \<and> cn_tenantId c = t \<and> d' = domain_audit_emit t A_CREATE ''connection'' i [] d1"
    using assms(1) unfolding cns_create_def success_simps by (elim exE conjE) (auto dest: caller_access [OF assms(2)] intro!: exI)
  then obtain c d1 where c: "cn_create c d = Some d1" "cn_tenantId c = t"
    and d': "d' = domain_audit_emit t A_CREATE ''connection'' i [] d1" by blast
  obtain rows where rows: "tbl_insert cn_id c (connections d) = Some rows" and d1: "d1 = d\<lparr>connections := rows\<rparr>"
    using c(1) by (auto simp: cn_create_def split: if_splits)
  have "keeps t own d d1" unfolding d1
    by (rule keeps_table) (use insert_keeps [OF rows, where ten = cn_tenantId and t = t] c(2) in \<open>simp add: db_keys_def\<close>)
  then show ?thesis unfolding d' by (rule keeps_emit_after)
qed

lemma cn_found:
  assumes "cns_findById i (Some auth) d = Inr c" "caller_of t auth"
  shows "c \<in> set (connections d) \<and> cn_id c = i \<and> cn_tenantId c = t"
  using assms(1) tbl_find_Some [of cn_id i "connections d" c]
  by (auto simp: cns_findById_def cn_findById_def Let_def rbind_eq_Inr split: option.splits dest: caller_resource [OF assms(2)])

lemma cn_owned:
  assumes "cns_findById i (Some auth) d = Inr c" "caller_of t auth" "db_keys d"
  shows "owned cn_id cn_tenantId t i (connections d)"
  using owned_row [of cn_id "connections d" c cn_tenantId t] cn_found [OF assms(1,2)] assms(3) by (simp add: db_keys_def)

lemma keeps_cns_update:
  assumes "cns_update now i dto (Some auth) d = Inr (x, d')" "caller_of t auth"
  shows "keeps t own d d'"
proof -
  have "\<exists>(c :: connection) c'. cns_findById i (Some auth) d = Inr c
      \<and> d' = domain_audit_emit (cn_tenantId c) A_UPDATE ''connection'' (cn_id c) [] (cn_update now c' d)
      \<and> cn_id c' = cn_id c \<and> cn_tenantId c' = cn_tenantId c"
    using assms(1) unfolding cns_update_def success_simps by (elim exE conjE) (auto intro!: exI)
  then obtain c c' where c: "cns_findById i (Some auth) d = Inr c" and c': "cn_id c' = cn_id c" "cn_tenantId c' = cn_tenantId c"
    and d': "d' = domain_audit_emit (cn_tenantId c) A_UPDATE ''connection'' (cn_id c) [] (cn_update now c' d)" by blast
  have t: "cn_tenantId c = t" "cn_tenantId c' = t" "cn_id c' = i" using cn_found [OF c assms(2)] c' by simp_all
  have "keeps t own d (cn_update now c' d)" unfolding cn_update_def using cn_owned [OF c assms(2)] t
    by (intro keeps_table conjI foreign_save tbl_keys_save) (auto simp: db_keys_def)
  then show ?thesis unfolding d' t by (rule keeps_emit_after)
qed

lemma keeps_cns_delete:
  assumes "cns_delete i (Some auth) d = Inr (x, d')" "caller_of t auth"
  shows "keeps t own d d'"
proof -
  obtain c where c: "cns_findById i (Some auth) d = Inr c"
    and d': "d' = domain_audit_emit (cn_tenantId c) A_DELETE ''connection'' i [] (cn_delete i d)"
    using assms(1) by (auto simp: cns_delete_def rbind_eq_Inr)
  have "keeps t own d (cn_delete i d)" unfolding cn_delete_def using cn_owned [OF c assms(2)]
    by (intro keeps_table conjI foreign_delete tbl_keys_delete) (auto simp: db_keys_def)
  then show ?thesis unfolding d' using cn_found [OF c assms(2)] by (auto intro: keeps_emit_after)
qed

section \<open>Connectors\<close>

abbreviation cc_owned :: "string \<Rightarrow> string \<Rightarrow> db \<Rightarrow> bool" where
  "cc_owned t i d \<equiv> owned cc_id cc_tenantId t i (connector_credentials d)"

lemma keeps_cc_update:
  assumes "\<And>c. cc_id (f c) = cc_id c \<and> cc_tenantId (f c) = cc_tenantId c" "db_keys d \<Longrightarrow> cc_owned t i d"
  shows "keeps t own d (snd (cc_update now i f d))"
  unfolding cc_update_def Let_def snd_conv using assms
  by (intro keeps_table conjI foreign_update tbl_keys_update) (auto simp: db_keys_def owned_def)

lemma cc_owned_update:
  "(\<And>c. cc_id (f c) = cc_id c \<and> cc_tenantId (f c) = cc_tenantId c) \<Longrightarrow> cc_owned t j d \<Longrightarrow> cc_owned t j (snd (cc_update now i f d))"
  by (auto simp: cc_update_def Let_def intro!: owned_update)

lemma lazyRotate_cases:
  assumes "lazyRotateKeyIfNeeded env iv now c d = Inr (c', d')"
  shows "d' = d \<or> (\<exists>f. d' = snd (cc_update now (cc_id c) f d) \<and> (\<forall>c. cc_id (f c) = cc_id c \<and> cc_tenantId (f c) = cc_tenantId c))"
  using assms by (auto simp: lazyRotateKeyIfNeeded_def split: sum.splits bool.split_asm intro!: exI)

lemma keeps_lazyRotate:
  assumes "lazyRotateKeyIfNeeded env iv now c d = Inr (c', d')" "db_keys d \<Longrightarrow> cc_owned t (cc_id c) d"
  shows "keeps t own d d'"
  using lazyRotate_cases [OF assms(1)] keeps_cc_update [OF _ assms(2)] kp.frame_refl by blast

lemma lazyRotate_owned: "lazyRotateKeyIfNeeded env iv now c d = Inr (c', d') \<Longrightarrow> cc_owned t j d \<Longrightarrow> cc_owned t j d'"
  using lazyRotate_cases [of env iv now c d c' d'] cc_owned_update by blast

lemma keeps_rotate_all:
  "(\<And>c. c \<in> set cs \<Longrightarrow> db_keys d \<Longrightarrow> cc_owned t (cc_id c) d) \<Longrightarrow> keeps t own d (snd (rotate_all env ivs now cs d))"
proof (induction env ivs now cs d rule: rotate_all.induct)
  case (2 env ivs now c cs d)
  show ?case
  proof (cases "lazyRotateKeyIfNeeded env (ivs (cc_id c)) now c d")
    case (Inl e)
    then show ?thesis using 2(1) 2(3) by simp
  next
    case (Inr p)
    obtain c' d' where p: "p = (c', d')" by force
    have k: "keeps t own d d'" using keeps_lazyRotate [of env _ now c d c' d' t own] Inr p 2(3) by simp
    have "keeps t own d (snd (rotate_all env ivs now cs d'))"
    proof (cases "db_keys d")
      case True
      then have "cc_owned t (cc_id x) d'" if "x \<in> set cs" for x
        using lazyRotate_owned [of env _ now c d c' d' t] Inr p 2(3) [of x] that by simp
      then show ?thesis using 2(2) [OF Inr p [symmetric]] k by (auto intro: kp.frame_trans)
    qed (simp add: keeps_def)
    then show ?thesis using Inr p by (auto split: sum.splits prod.splits)
  qed
qed (simp add: kp.frame_refl)

lemma cc_owned_row: "db_keys d \<Longrightarrow> c \<in> set (connector_credentials d) \<Longrightarrow> cc_tenantId c = t \<Longrightarrow> cc_owned t (cc_id c) d"
  by (rule owned_row) (simp_all add: db_keys_def)

lemma keeps_ccs_findByTenant: "keeps t own d (snd (ccs_findByTenant env ivs now t d))"
  unfolding ccs_findByTenant_def
  by (rule keeps_rotate_all) (auto simp: cc_findWhere_def intro!: cc_owned_row)

lemma ccs_find_parts:
  assumes "ccs_findById env iv now i (Some auth) d = Inr (c, d')" "caller_of t auth"
  shows "keeps t own d d' \<and> (db_keys d \<longrightarrow> cc_owned t i d') \<and> cc_id c = i \<and> cc_tenantId c = t"
proof -
  obtain c0 where c0: "cc_find i d = Some c0" "lazyRotateKeyIfNeeded env iv now c0 d = Inr (c, d')" "cc_tenantId c0 = t"
    using assms(1) by (auto simp: ccs_findById_def rbind_eq_Inr split: option.splits dest: caller_resource [OF assms(2)])
  have r: "c0 \<in> set (connector_credentials d)" "cc_id c0 = i"
    using c0(1) tbl_find_Some [of cc_id i "connector_credentials d" c0] by (simp_all add: cc_find_def)
  have o: "db_keys d \<Longrightarrow> cc_owned t i d" using cc_owned_row [OF _ r(1) c0(3)] r(2) by simp
  show ?thesis using keeps_lazyRotate [OF c0(2)] lazyRotate_owned [OF c0(2)] lazyRotate_same [OF c0(2)] o r(2) c0(3)
    by (simp add: same_connector_def)
qed

lemma keeps_ccs_create:
  assumes "ccs_create env iv i cr now t ty url creds (Some auth) d = Inr (x, d')"
  shows "keeps t own d d'"
proof -
  obtain rows where rows: "tbl_insert cc_id x (connector_credentials d) = Some rows" "cc_tenantId x = t"
    and d': "d' = d\<lparr>connector_credentials := rows\<rparr>"
    using assms(1) by (auto simp: ccs_create_def success_simps split: sum.splits)
  show ?thesis unfolding d'
    by (rule keeps_table) (use insert_keeps [OF rows(1), where ten = cc_tenantId and t = t] rows(2) in \<open>simp add: db_keys_def\<close>)
qed

lemma keeps_then: "keeps t own d d1 \<Longrightarrow> (db_keys d \<Longrightarrow> keeps t own d1 d2) \<Longrightarrow> keeps t own d d2"
  by (simp add: keeps_def)

lemma cc_updates_same: "cc_id (cc_updates dto enc c) = cc_id c \<and> cc_tenantId (cc_updates dto enc c) = cc_tenantId c"
  by (auto simp: cc_updates_def Let_def split: option.split)

lemma keeps_ccs_update:
  assumes "caller_of t auth"
  shows "keeps t own d (snd (ccs_update env iv iv2 iv3 now i dto (Some auth) d))"
proof (cases "ccs_findById env iv now i (Some auth) d")
  case (Inl e)
  then show ?thesis by (simp add: ccs_update_def kp.frame_refl)
next
  case (Inr p)
  obtain c d1 where p: "ccs_findById env iv now i (Some auth) d = Inr (c, d1)" using Inr by (cases p) auto
  note f = ccs_find_parts [OF p assms, of own]
  have u: "keeps t own d1 (snd (cc_update now i (cc_updates dto enc) d1))" if "db_keys d" for enc
    by (rule keeps_cc_update) (use f that cc_updates_same in auto)
  have o: "cc_owned t i (snd (cc_update now i (cc_updates dto enc) d1))" if "db_keys d" for enc
    by (rule cc_owned_update) (use f that cc_updates_same in auto)
  have l: "keeps t own d1 d3" if "db_keys d" "cc_update now i (cc_updates dto enc) d1 = (Some c1, d2)"
      "lazyRotateKeyIfNeeded env iv3 now c1 d2 = Inr (c2, d3)" for enc c1 c2 d2 d3
  proof -
    have d2: "d2 = snd (cc_update now i (cc_updates dto enc) d1)" using that(2) by simp
    have "cc_find i d2 = Some c1" using that(2) by (auto simp: cc_update_def Let_def)
    then have "cc_id c1 = i" using tbl_find_Some [of cc_id i "connector_credentials d2" c1] by (simp add: cc_find_def)
    then have "keeps t own d2 d3" using keeps_lazyRotate [OF that(3)] o [OF that(1), of enc] d2 by simp
    then show ?thesis using u [OF that(1), of enc] d2 by (auto intro: kp.frame_trans)
  qed
  have u': "keeps t own d1 d2" if "db_keys d" "cc_update now i (cc_updates dto enc) d1 = (r, d2)" for enc r d2
    using u [OF that(1), of enc] that(2) by simp
  have "keeps t own d1 (snd (ccs_update env iv iv2 iv3 now i dto (Some auth) d))" if "db_keys d"
    unfolding ccs_update_def p Let_def sum.case prod.case
    by (auto simp: kp.frame_refl split: sum.split option.split prod.split dest: u' [OF that] intro: l [OF that])
  then show ?thesis using f by (auto intro: keeps_then)
qed

lemma keeps_ccs_delete:
  assumes "caller_of t auth"
  shows "keeps t own d (snd (ccs_delete env iv now i (Some auth) d))"
proof (cases "ccs_findById env iv now i (Some auth) d")
  case (Inl e)
  then show ?thesis by (simp add: ccs_delete_def kp.frame_refl)
next
  case (Inr p)
  obtain c d1 where p: "ccs_findById env iv now i (Some auth) d = Inr (c, d1)" using Inr by (cases p) auto
  note f = ccs_find_parts [OF p assms, of own]
  have "keeps t own d1 (cc_delete i d1)" if "db_keys d" unfolding cc_delete_def using f that
    by (intro keeps_table conjI foreign_delete tbl_keys_delete) (auto simp: db_keys_def)
  then show ?thesis using f by (auto simp: p ccs_delete_def intro: keeps_then)
qed

lemma keeps_ccs_test:
  assumes "caller_of t auth"
  shows "keeps t own d (snd (ccs_testConnectivity env iv now i (Some auth) d))"
proof -
  have "keeps t own d d1" if "ccs_findById env iv now i (Some auth) d = Inr (c, d1)" for c d1
    using ccs_find_parts [OF that assms, of own] by simp
  then show ?thesis by (auto simp: ccs_testConnectivity_def kp.frame_refl split: sum.split prod.split)
qed

lemma keeps_tns_updateConfig:
  assumes "caller_of t auth"
  shows "keeps t own d (snd (tns_updateConfig env iv now t dto (Some auth) d))"
proof -
  have f: "keeps t own d d1" if "ccs_findById env iv now i (Some auth) d = Inr (c, d1)" for i c d1
    using ccs_find_parts [OF that assms, of own] by simp
  have u: "keeps t own d1 d2" if "tn_findById t d = Some tn" "tn_update now (tn\<lparr>t_config := m\<rparr>) d1 = Some d2" for tn m d1 d2
    using keeps_tn_update [OF that(2)] tn_findById_Some [OF that(1)] by simp
  have fu: "keeps t own d d2" if "ccs_findById env iv now i (Some auth) d = Inr (c, d1)" "tn_findById t d = Some tn"
      "tn_update now (tn\<lparr>t_config := m\<rparr>) d1 = Some d2" for i c d1 tn m d2
    using kp.frame_trans [OF f [OF that(1)] u [OF that(2,3)]] .
  show ?thesis unfolding tns_updateConfig_def Let_def
    by (auto simp: kp.frame_refl split: option.split sum.split prod.split intro!: keeps_emit_after intro: f fu u)
qed

section \<open>Credential definitions\<close>

lemma keeps_cds_create:
  assumes "cds_create num reg i cr now t dto auth d = Inr (x, d')"
  shows "keeps t own d d'"
proof -
  obtain d1 where c: "cd_create x d = Some d1" "cd_tenantId x = t"
    and d': "d' = domain_audit_emit t A_CREATE ''credential_definition'' i [] d1"
    using assms by (auto simp: cds_create_def success_simps)
  obtain rows where rows: "tbl_insert cd_id x (credential_definitions d) = Some rows" and d1: "d1 = d\<lparr>credential_definitions := rows\<rparr>"
    using c(1) by (auto simp: cd_create_def split: if_splits)
  have "keeps t own d d1" unfolding d1
    by (rule keeps_table) (use insert_keeps [OF rows, where ten = cd_tenantId and t = t] c(2) in \<open>simp add: db_keys_def\<close>)
  then show ?thesis unfolding d' by (rule keeps_emit_after)
qed

lemma cd_found:
  assumes "cds_findById t i auth d = Inr c"
  shows "cd_id c = i \<and> cd_tenantId c = t \<and> (db_keys d \<longrightarrow> owned cd_id cd_tenantId t i (credential_definitions d))"
proof -
  have "c \<in> set (credential_definitions d)" "cd_id c = i" "cd_tenantId c = t"
    using assms by (auto simp: cds_findById_def cd_findById_def find_Some_iff success_simps)
  then show ?thesis using owned_row [of cd_id "credential_definitions d" c cd_tenantId t] by (simp add: db_keys_def)
qed

lemma keeps_cds_update:
  assumes "cds_update now t i dto auth d = Inr (x, d')"
  shows "keeps t own d d'"
proof -
  have "\<exists>(c :: credential_definition) c' d1. cds_findById t i auth d = Inr c \<and> cd_update now c' d = Some d1
      \<and> d' = domain_audit_emit (cd_tenantId c) A_UPDATE ''credential_definition'' (cd_id c) [] d1
      \<and> cd_id c' = cd_id c \<and> cd_tenantId c' = cd_tenantId c"
    using assms unfolding cds_update_def success_simps by (elim exE conjE) (auto intro!: exI)
  then obtain c c' d1 where c: "cds_findById t i auth d = Inr c" and u: "cd_update now c' d = Some d1"
    and d': "d' = domain_audit_emit (cd_tenantId c) A_UPDATE ''credential_definition'' (cd_id c) [] d1"
    and c': "cd_id c' = cd_id c" "cd_tenantId c' = cd_tenantId c" by blast
  have d1: "d1 = d\<lparr>credential_definitions := tbl_save cd_id (c'\<lparr>cd_updatedAt := now\<rparr>) (credential_definitions d)\<rparr>"
    using u by (auto simp: cd_update_def Let_def split: if_splits)
  have "keeps t own d d1" unfolding d1 using cd_found [OF c] c'
    by (intro keeps_table conjI foreign_save tbl_keys_save) (auto simp: db_keys_def)
  then show ?thesis unfolding d' using cd_found [OF c] by (auto intro: keeps_emit_after)
qed

lemma keeps_cds_delete:
  assumes "cds_delete now t i auth d = Inr (x, d')"
  shows "keeps t own d d'"
proof -
  obtain c where c: "cds_findById t i auth d = Inr c"
    and d': "d' = domain_audit_emit (cd_tenantId c) A_UPDATE ''credential_definition'' i [] (cd_deactivate now i d)"
    using assms by (auto simp: cds_delete_def rbind_eq_Inr)
  have "keeps t own d (cd_deactivate now i d)" unfolding cd_deactivate_def using cd_found [OF c]
    by (intro keeps_table conjI foreign_update tbl_keys_update) (auto simp: db_keys_def owned_def)
  then show ?thesis unfolding d' using cd_found [OF c] by (auto intro: keeps_emit_after)
qed

section \<open>Operations and credentials\<close>

abbreviation op_owned :: "string \<Rightarrow> string \<Rightarrow> db \<Rightarrow> bool" where
  "op_owned t i d \<equiv> owned op_id op_tenantId t i (operations d)"

lemma keeps_op_save:
  assumes "op_tenantId x = t" "db_keys d \<Longrightarrow> op_owned t (op_id x) d"
  shows "keeps t own d (snd (op_save now x d))"
  unfolding op_save_def Let_def snd_conv using assms
  by (intro keeps_table conjI foreign_save tbl_keys_save) (auto simp: db_keys_def)

lemma keeps_createOperation:
  assumes "createOperation i cr now inp d = Inr (x, d')" "ci_tenantId inp = t"
  shows "keeps t own d d' \<and> op_owned t i d' \<and> op_id x = i"
proof -
  have "\<exists>y :: operation. op_save now y d = (x, d') \<and> op_id y = i \<and> op_tenantId y = t \<and> i \<notin> op_id ` set (operations d)"
    using assms unfolding createOperation_def success_simps by (elim exE conjE) (auto intro!: exI)
  then obtain y where y: "op_id y = i" "op_tenantId y = t" "i \<notin> op_id ` set (operations d)" "op_save now y d = (x, d')" by blast
  have d': "d' = snd (op_save now y d)" "op_id x = i" using y(1,4) by (auto simp: op_save_def Let_def)
  have o: "op_owned t i d" using y(3) by (rule owned_fresh)
  have "op_owned t i d'" unfolding d' op_save_def Let_def using owned_save [OF o, of "y\<lparr>op_updatedAt := now\<rparr>"] y(2) by simp
  then show ?thesis using keeps_op_save [of y t d own now] o y(1,2) d' by simp
qed

lemma keeps_transition:
  assumes "transitionState now i state res d = Inr (x, d')" "db_keys d \<Longrightarrow> op_owned t i d"
  shows "keeps t own d d'"
proof -
  have "\<exists>(y :: operation) z. op_findById i d = Some y \<and> op_save now z d = (x, d') \<and> op_id z = op_id y \<and> op_tenantId z = op_tenantId y"
    using assms(1) unfolding transitionState_def success_simps by (elim exE conjE) (auto intro!: exI)
  then obtain y z where y: "op_findById i d = Some y" and z: "op_save now z d = (x, d')" "op_id z = op_id y" "op_tenantId z = op_tenantId y" by blast
  have "y \<in> set (operations d)" "op_id y = i" using y tbl_find_Some [of op_id i "operations d" y] by (simp_all add: op_findById_def)
  then have "op_tenantId z = t" "op_owned t (op_id z) d" if "db_keys d" using assms(2) [OF that] z by (auto simp: owned_def)
  then have "db_keys d \<Longrightarrow> keeps t own d (snd (op_save now z d))" by (intro keeps_op_save) auto
  then show ?thesis using z(1) by (metis keeps_def snd_conv)
qed

lemma applyViewed_db:
  assumes "applyViewed now y d = Inr (x, d')"
  shows "\<exists>e. d' = snd (markFirstView (op_id y) now e d)"
proof -
  obtain e where e: "(case markFirstView (op_id y) now e d of
      (None, d') \<Rightarrow> (case op_findById (op_id y) d' of None \<Rightarrow> Err (NotFound ''Operation not found'') | Some current \<Rightarrow> Ok (current, d'))
    | (Some (v, e'), d') \<Rightarrow> Ok (y\<lparr>op_viewedAt := Some v, op_expiresAt := e'\<rparr>, d')) = Inr (x, d')"
    using assms unfolding applyViewed_def success_simps by blast
  then have "d' = snd (markFirstView (op_id y) now e d)" by (auto split: prod.splits option.splits)
  then show ?thesis by blast
qed

lemma keeps_getForTenant:
  assumes "getForTenant now t i d = Inr (x, d')"
  shows "keeps t own d d'"
proof -
  obtain y where y: "op_findByIdForTenant i t d = Some y" and v: "d' = d \<or> applyViewed now y d = Inr (x, d')"
    using assms by (auto simp: getForTenant_def split: option.splits if_splits)
  have r: "y \<in> set (operations d)" "op_tenantId y = t"
    using y by (auto simp: op_findByIdForTenant_def find_Some_iff)
  have o: "op_owned t (op_id y) d" if "db_keys d"
    using owned_row [of op_id "operations d" y op_tenantId t] r that by (simp add: db_keys_def)
  have m: "keeps t own d (snd (markFirstView (op_id y) w e d))" for w e
    unfolding markFirstView_def using o
    by (auto simp: kp.frame_refl db_keys_def owned_def intro!: keeps_table foreign_update tbl_keys_update)
  have "d' = d \<or> (\<exists>w e. d' = snd (markFirstView (op_id y) w e d))"
    using v applyViewed_db by blast
  then show ?thesis using m kp.frame_refl by auto
qed

lemma keeps_list_connectors: "keeps t own d (snd (list_connectors env now t d))"
  using keeps_ccs_findByTenant [of t own d "are_cc env" "are_ivs env" now]
  by (auto simp: list_connectors_def split: sum.splits prod.splits)

lemma keeps_resolve: "keeps t own d (snd (ar_resolve dec env reg now t f opts d))"
proof -
  have l: "keeps t own d d'" if "list_connectors env now t d = (r, d')" for r d'
    using keeps_list_connectors [of t own d env now] that by simp
  have s: "keeps t own d (snd (findSoleActiveConnector dec env now t ct d))" for ct
    by (auto simp: findSoleActiveConnector_def split: sum.split prod.split intro: l)
  have c: "keeps t own d (snd (findConnector dec env now t cid d))" for cid
    by (auto simp: findConnector_def kp.frame_refl s split: sum.split prod.split option.split intro: l)
  have "keeps t own d d'" if "findSoleActiveConnector dec env now t ct d = (r, d')" for ct r d' using s [of ct] that by simp
  moreover have "keeps t own d d'" if "findConnector dec env now t cid d = (r, d')" for cid r d' using c [of cid] that by simp
  ultimately show ?thesis unfolding ar_resolve_def
    by (auto simp: kp.frame_refl split: sum.split prod.split option.split)
qed

lemma resolve_op_owned: "op_owned t i d \<Longrightarrow> op_owned t i (snd (ar_resolve dec env reg now s f opts d))"
  using ar_resolve_frame [of dec env reg now s f opts d] by (metis prod.collapse)

lemma keeps_catch:
  assumes "op_owned t i d" "\<And>st d'. keeps t own d' (emit st d')"
  shows "keeps t own d (snd (catch_adapter_error now i emit err d))"
  using kp.frame_trans [OF keeps_transition assms(2)] assms(1)
  by (auto simp: catch_adapter_error_def kp.frame_refl split: call_error.split sum.split)

lemma keeps_emits: "keeps t own d (emit_hold t x a st d)" "keeps t own d (emit_revoke t c st d)"
  by (simp_all add: emit_hold_def emit_revoke_def keeps_emit)

lemma keeps_try_action:
  assumes "op_owned t (op_id x) d"
  shows "keeps t own d (snd (try_action env now action t xid ext x d))"
proof -
  obtain r d2 where r: "ar_resolve (ag_show env) (ag_ar env) (ag_adapters env) now t None no_options d = (r, d2)" by force
  have k: "keeps t own d d2" and o: "op_owned t (op_id x) d2"
    using keeps_resolve [of t own d "ag_show env" "ag_ar env" "ag_adapters env" now None no_options]
      resolve_op_owned [OF assms, of "ag_show env" "ag_ar env" "ag_adapters env" now t None no_options] r by simp_all
  have c: "keeps t own d2 (snd (catch_adapter_error now (op_id x) (emit_hold t xid action) e d2))" for e
    by (rule keeps_catch [OF o keeps_emits(1)])
  have "keeps t own d2 (snd (try_action env now action t xid ext x d))" unfolding try_action_def Let_def r
    using kp.frame_trans [OF keeps_transition keeps_emits(1)] o c
    by (auto split: sum.split prod.split)
  then show ?thesis using k kp.frame_trans by blast
qed

lemma keeps_perform: "keeps t own d (snd (perform env st action t xid d))"
proof -
  have "keeps t own d (snd (try_action env now action t xid ext x d1))"
    if "createOperation (os_id st) (os_created st) (os_now st) (action_input action t xid ext) d = Inr (x, d1)" for ext x d1 now
    using keeps_createOperation [OF that, of t own] keeps_try_action [of t x d1 own env now action xid ext]
    by (auto simp: action_input_def intro: kp.frame_trans)
  then show ?thesis by (auto simp: perform_def Let_def kp.frame_refl split: option.split sum.split)
qed

lemma cr_found:
  assumes "revocable t i d = Inr (c, ext)" "db_keys d"
  shows "cr_id c = i \<and> owned cr_id cr_tenantId t i (credentials d)"
proof -
  have c: "c \<in> set (credentials d)" "cr_id c = i" "cr_tenantId c = t"
    using assms(1) by (auto simp: revocable_def cr_findByIdForTenant_def find_Some_iff success_simps)
  then show ?thesis using owned_row [of cr_id "credentials d" c cr_tenantId t] assms(2) by (simp add: db_keys_def)
qed

lemma keeps_settle:
  assumes "op_owned t (op_id x) d" "owned cr_id cr_tenantId t i (credentials d)"
  shows "keeps t own d (snd (settle_revoke now t i x r d))"
proof -
  have u: "keeps t own d (cr_updateState now i state iss rv d)" for state iss rv
    unfolding cr_updateState_def using assms(2)
    by (intro keeps_table conjI foreign_update tbl_keys_update) (auto simp: db_keys_def owned_def)
  have o: "op_owned t (op_id x) (cr_updateState now i state iss rv d)" for state iss rv
    using assms(1) by (simp add: cr_updateState_def)
  have te: "keeps t own d0 (emit_revoke t i st d')" if "op_owned t (op_id x) d0" "transitionState now (op_id x) s res d0 = Inr (y, d')" for d0 s res y d' st
    using kp.frame_trans [OF keeps_transition [OF that(2)] keeps_emits(2)] that(1) .
  show ?thesis unfolding settle_revoke_def Let_def
    using te [OF assms(1)] kp.frame_trans [OF u te [OF o]] u by (auto simp: kp.frame_refl split: sum.split)
qed

lemma keeps_try_revoke:
  assumes "op_owned t (op_id x) d" "db_keys d \<Longrightarrow> owned cr_id cr_tenantId t (cr_id c) (credentials d)"
  shows "keeps t own d (snd (try_revoke env now t c ext x d))"
proof -
  obtain r d2 where r: "ar_resolve (ag_show env) (ag_ar env) (ag_adapters env) now t None (revoke_options c) d = (r, d2)" by force
  have k: "keeps t own d d2" and o: "op_owned t (op_id x) d2" and cr: "credentials d2 = credentials d"
    using keeps_resolve [of t own d "ag_show env" "ag_ar env" "ag_adapters env" now None "revoke_options c"]
      resolve_op_owned [OF assms(1), of "ag_show env" "ag_ar env" "ag_adapters env" now t None "revoke_options c"] r
      ar_resolve_frame [OF r] by simp_all
  have c: "keeps t own d2 (snd (catch_adapter_error now (op_id x) (emit_revoke t (cr_id c)) e d2))" for e
    by (rule keeps_catch [OF o keeps_emits(2)])
  have "keeps t own d2 (snd (try_revoke env now t c ext x d))" if "db_keys d" unfolding try_revoke_def Let_def r
    using keeps_settle [OF o] assms(2) [OF that] cr c by (auto split: sum.split)
  then show ?thesis using k keeps_then by blast
qed

lemma keeps_revoke: "keeps t own d (snd (crs_revoke env st t i d))"
proof -
  have "keeps t own d (snd (try_revoke env now t c ext x d1))"
    if r: "revocable t i d = Inr (c, ext)"
      and n: "createOperation (os_id st) (os_created st) (os_now st) (revoke_input t i ext) d = Inr (x, d1)" for c ext x d1 now
  proof -
    have "keeps t own d d1" "op_owned t (op_id x) d1" "credentials d1 = credentials d"
      using keeps_createOperation [OF n, of t own] createOperation_ok [OF n] by (simp_all add: revoke_input_def)
    moreover have "db_keys d \<Longrightarrow> owned cr_id cr_tenantId t (cr_id c) (credentials d1)"
      using cr_found [OF r] calculation(3) by simp
    ultimately show ?thesis using keeps_try_revoke [of t x d1 c own env now ext] keeps_then by blast
  qed
  then show ?thesis by (auto simp: crs_revoke_def kp.frame_refl split: sum.split prod.split)
qed

section \<open>Role scopes\<close>

lemma case_option_ex: "(case x of None \<Rightarrow> False | Some y \<Rightarrow> p y) \<longleftrightarrow> (\<exists>y. x = Some y \<and> p y)"
  by (cases x) auto

lemma account_rows_iff:
  "account_rows a d r \<longleftrightarrow> om_modelName r \<in> set ACCOUNT_BOUND_MODELS \<and> (\<exists>i. om_accountId r = Some i \<and> a i)
     \<or> (\<exists>x i. om_grantId r = Some (om_oidcId x) \<and> x \<in> set (oidc_models d) \<and> om_modelName x = ''Grant'' \<and> om_accountId x = Some i \<and> a i)"
  unfolding account_rows_def Let_def case_option_ex set_map set_filter image_iff by blast

lemma account_rows_mono:
  assumes "account_rows a d1 m" "set (oidc_models d1) \<subseteq> set (oidc_models d)" "\<And>i. a i \<Longrightarrow> b i"
  shows "account_rows b d m"
  using assms unfolding account_rows_iff by blast

lemma tenant_models_mono:
  assumes "tenant_models t d1 m" "tenant_users d1 = tenant_users d" "set (oidc_models d1) \<subseteq> set (oidc_models d)"
  shows "tenant_models t d m"
  using assms unfolding tenant_models_def by (auto elim: account_rows_mono)

lemma keeps_revokeAffected:
  assumes "\<And>m. tenant_models t d m \<Longrightarrow> own m"
  shows "keeps t own d (snd (revokeAffectedSessions t role d))"
proof -
  let ?p = "account_rows (\<lambda>i. i \<in> set (map u_id (filter (\<lambda>u. u_tenantId u = t \<and> role_str (u_role u) = role) (tenant_users d)))) d"
  have "tenant_models t d m" if "?p m" for m
    unfolding tenant_models_def by (rule account_rows_mono [OF that]) auto
  then have "keeps t own d (d\<lparr>oidc_models := filter (\<lambda>m. \<not> ?p m) (oidc_models d)\<rparr>)" using assms by (blast intro: keeps_models)
  then show ?thesis by (simp add: revokeAffectedSessions_def deleteAllForTenantRole_def om_delete_where_def Let_def)
qed

lemma revokeAffected_db:
  "tenant_users (snd (revokeAffectedSessions t role d)) = tenant_users d
   \<and> set (oidc_models (snd (revokeAffectedSessions t role d))) \<subseteq> set (oidc_models d)"
  by (auto simp: revokeAffectedSessions_def deleteAllForTenantRole_def om_delete_where_def Let_def)

lemma al_insert_db: "al_insert i c ev ip d = Inr (row, d') \<Longrightarrow> tenant_users d' = tenant_users d \<and> oidc_models d' = oidc_models d"
  by (auto simp: al_insert_def Let_def split: if_splits)

text \<open>A write of the mapping of the tenant: it touches neither users nor the OIDC store.\<close>

definition mapping_write :: "string \<Rightarrow> (db \<Rightarrow> (string list \<times> db) option) \<Rightarrow> bool" where
  "mapping_write t w =
     (\<forall>d scopes d'. w d = Some (scopes, d') \<longrightarrow> (\<forall>own. keeps t own d d') \<and> tenant_users d' = tenant_users d \<and> oidc_models d' = oidc_models d)"

lemma keeps_upsert: "upsertTenantRoleScopes t role scopes d = Some d' \<Longrightarrow> keeps t own d d'"
  by (auto simp: upsertTenantRoleScopes_def db_keys_def owned_def intro!: keeps_table foreign_save tbl_keys_save split: if_splits)

lemma keeps_deleteRole: "deleteTenantRoleScopes t role d = Some d' \<Longrightarrow> keeps t own d d'"
  by (auto simp: deleteTenantRoleScopes_def db_keys_def owned_def intro!: keeps_table foreign_delete tbl_keys_delete split: if_splits)

lemma rs_event_tenant: "ae_tenantId (rs_event rq a m) = wr_tenantId rq"
  by (simp add: rs_event_def)

lemma tx_parts:
  assumes "writeMapping_tx i c rq source action w d = Inr ((res, narrowed), d')"
  shows "\<exists>scopes d1 d2. w d = Some (scopes, d1)
     \<and> d2 = (if narrowed then snd (revokeAffectedSessions (wr_tenantId rq) (wr_role rq) d1) else d1)
     \<and> (d' = d2 \<or> (\<exists>ev row. ae_tenantId ev = wr_tenantId rq \<and> al_insert i c ev None d2 = Inr (row, d')))"
proof (cases "w d")
  case None
  then show ?thesis using assms by (simp add: writeMapping_tx_def Let_def)
next
  case (Some p)
  then show ?thesis using assms rs_event_tenant
    by (cases p) (fastforce simp: writeMapping_tx_def Let_def rbind_eq_Inr case_prod_beta split: if_splits)
qed

lemma keeps_tx:
  assumes "writeMapping_tx i c rq source action w d = Inr ((res, narrowed), d')" "wr_tenantId rq = t" "mapping_write t w"
    and "\<And>m. tenant_models t d m \<Longrightarrow> own m"
  shows "keeps t own d d' \<and> tenant_users d' = tenant_users d \<and> set (oidc_models d') \<subseteq> set (oidc_models d)"
proof -
  obtain scopes d1 d2 where w: "w d = Some (scopes, d1)"
    and d2: "d2 = (if narrowed then snd (revokeAffectedSessions t (wr_role rq) d1) else d1)"
    and d': "d' = d2 \<or> (\<exists>ev row. ae_tenantId ev = t \<and> al_insert i c ev None d2 = Inr (row, d'))"
    using tx_parts [OF assms(1)] assms(2) by blast
  have 1: "keeps t own d d1" "tenant_users d1 = tenant_users d" "oidc_models d1 = oidc_models d"
    using assms(3) w by (auto simp: mapping_write_def)
  have "own m" if "tenant_models t d1 m" for m using assms(4) tenant_models_mono [OF that 1(2)] 1(3) by simp
  then have 2: "keeps t own d1 d2" "tenant_users d2 = tenant_users d1" "set (oidc_models d2) \<subseteq> set (oidc_models d1)"
    using keeps_revokeAffected [of t d1 own "wr_role rq"] revokeAffected_db [of t "wr_role rq" d1] d2
    by (auto simp: kp.frame_refl split: if_splits)
  have 3: "keeps t own d2 d'" "tenant_users d' = tenant_users d2" "oidc_models d' = oidc_models d2"
  proof -
    from d' consider "d' = d2" | ev row where "ae_tenantId ev = t" "al_insert i c ev None d2 = Inr (row, d')" by blast
    then show "keeps t own d2 d'" "tenant_users d' = tenant_users d2" "oidc_models d' = oidc_models d2"
      by (cases; simp add: kp.frame_refl; use keeps_log al_insert_db in blast)+
  qed
  show ?thesis using kp.frame_trans [OF kp.frame_trans [OF 1(1) 2(1)] 3(1)] 1 2 3 by auto
qed

lemma keeps_sweep:
  assumes "wr_tenantId rq = t" "\<And>m. tenant_models t d m \<Longrightarrow> own m"
  shows "keeps t own d (snd (writeMapping_sweep i c rq res narrowed d))"
proof -
  obtain late d1 where d1: "revokeAffectedSessions t (wr_role rq) d = (late, d1)" by force
  have k: "keeps t own d d1" using keeps_revokeAffected [of t d own "wr_role rq"] assms(2) d1 by simp
  have "keeps t own d d2" if "al_insert i c (rs_event rq A_REVOKE m) None d1 = Inr (row, d2)" for m row d2
    using kp.frame_trans [OF k keeps_log [OF that]] assms(1) by (simp add: rs_event_def)
  then show ?thesis using k by (auto simp: writeMapping_sweep_def assms(1) d1 kp.frame_refl split: sum.split)
qed

lemma keeps_writeMapping:
  assumes "wr_tenantId rq = t" "mapping_write t w" "\<And>m. tenant_models t d m \<Longrightarrow> own m"
  shows "keeps t own d (snd (writeMapping stamps id rq source action w d))"
proof -
  have "keeps t own d (snd (writeMapping_sweep i c rq res narrowed d1))"
    if "writeMapping_tx i' c' rq source action w d = Inr ((res, narrowed), d1)" for i c i' c' res narrowed d1
  proof -
    have k: "keeps t own d d1 \<and> tenant_users d1 = tenant_users d \<and> set (oidc_models d1) \<subseteq> set (oidc_models d)"
      by (rule keeps_tx [OF that assms(1,2)]) (rule assms(3))
    have "own m" if "tenant_models t d1 m" for m using assms(3) [OF tenant_models_mono [OF that]] k by simp
    then have "keeps t own d1 (snd (writeMapping_sweep i c rq res narrowed d1))" by (rule keeps_sweep [OF assms(1)])
    then show ?thesis using k kp.frame_trans by blast
  qed
  then show ?thesis by (auto simp: writeMapping_def kp.frame_refl split: sum.split prod.split)
qed

lemma keeps_replaceRoleScopes:
  assumes "wr_tenantId rq = t" "\<And>m. tenant_models t d m \<Longrightarrow> own m"
  shows "keeps t own d (snd (replaceRoleScopes stamps id rq requested d))"
proof -
  have "mapping_write t (\<lambda>d. map_option (\<lambda>d'. (scopes, d')) (upsertTenantRoleScopes t (wr_role rq) scopes d))" for scopes
    by (auto simp: mapping_write_def intro: keeps_upsert) (auto simp: upsertTenantRoleScopes_def split: if_splits)
  then show ?thesis using keeps_writeMapping [OF assms(1), where d = d and own = own] assms(2)
    by (auto simp: replaceRoleScopes_def Let_def assms(1) kp.frame_refl split: sum.split)
qed

lemma keeps_resetRoleScopes:
  assumes "wr_tenantId rq = t" "\<And>m. tenant_models t d m \<Longrightarrow> own m"
  shows "keeps t own d (snd (resetRoleScopes stamps id rq d))"
proof -
  have "mapping_write t (\<lambda>d. map_option (\<lambda>d'. (f d', d')) (deleteTenantRoleScopes t (wr_role rq) d))" for f
    by (auto simp: mapping_write_def intro: keeps_deleteRole) (auto simp: deleteTenantRoleScopes_def split: if_splits)
  then show ?thesis using keeps_writeMapping [OF assms(1), where d = d and own = own] assms(2)
    by (auto simp: resetRoleScopes_def assms(1) kp.frame_refl split: sum.split)
qed

end
