(* ===== verification/Api_Isolation.thy ===== *)
theory Api_Isolation
  imports Tenant_Frame
begin

text \<open>
  The routes over the frame of the services: a request whose token is no administrator's changes nothing that belongs to
  another tenant, and answers with nothing that belongs to one.
\<close>

section \<open>Guards for a caller of the tenant\<close>

lemma in_save: "r \<in> set (tbl_save key r rows)"
  by (induction key r rows rule: tbl_save.induct) auto

text \<open>A UUID has no blanks around it: what the pipe accepts is what the tenant guard compares.\<close>

definition uuid_shape :: "validator_lib \<Rightarrow> bool" where
  "uuid_shape v = (\<forall>s. vl_parseUUID v s \<or> vl_isUUID v s \<longrightarrow> js_trim s = s \<and> s \<noteq> [])"

text \<open>The request of a call as \<open>JwtGuard\<close> leaves it: the claims of the token, and no tenant yet.\<close>

definition authenticated :: "auth_context \<Rightarrow> api_call \<Rightarrow> request \<Rightarrow> bool" where
  "authenticated auth call rq =
     (rq_auth rq = Some auth \<and> rq_paramTenantId rq = path_tenantId call \<and> rq_tenantId rq = None \<and> rq_callerTenantUser rq = None)"

definition called_for :: "string \<Rightarrow> auth_context \<Rightarrow> request \<Rightarrow> bool" where
  "called_for t auth rq = (rq_auth rq = Some auth \<and> (\<forall>s. rq_tenantId rq = Some s \<longrightarrow> s = t))"

lemma path_is_tenant:
  assumes "uuid_shape v" "vl_parseUUID v s \<or> vl_isUUID v s" "rq_paramTenantId rq = Some s"
    "\<And>x. resolveRouteTenantId rq = Some x \<Longrightarrow> x = t"
  shows "s = t"
proof -
  have "js_trim s = s" "s \<noteq> []" using assms(1,2) by (auto simp: uuid_shape_def)
  then have "resolveRouteTenantId rq = Some s" using assms(3) by (simp add: resolveRouteTenantId_def)
  then show ?thesis by (rule assms(4))
qed

lemma TenantGuard_caller:
  assumes "TenantGuard rq = Inr rq'" "rq_auth rq = Some auth" "caller_of t auth" "rq_tenantId rq = None"
  shows "called_for t auth rq' \<and> rq_paramTenantId rq' = rq_paramTenantId rq \<and> (\<forall>s. resolveRouteTenantId rq = Some s \<longrightarrow> s = t)"
  using assms by (auto simp: TenantGuard_def caller_of_def called_for_def split: option.splits if_splits)

lemma tenant_route_caller:
  assumes "tenant_route meta d rq = Inr rq'" "rq_auth rq = Some auth" "caller_of t auth" "rq_tenantId rq = None"
  shows "called_for t auth rq' \<and> rq_paramTenantId rq' = rq_paramTenantId rq \<and> (\<forall>s. resolveRouteTenantId rq = Some s \<longrightarrow> s = t)"
proof -
  obtain rq1 rq2 where g: "ScopeGuard meta rq = Inr rq1" "TenantGuard rq1 = Inr rq2" "TenantStatusGuard d rq2 = Inr rq'"
    using assms(1) by (auto simp: tenant_route_def rbind_eq_Inr)
  then show ?thesis using ScopeGuard_Ok [OF g(1)] TenantStatusGuard_Ok [OF g(3)] TenantGuard_caller [OF g(2)] assms(2-4) by auto
qed

lemma tenant_user_route_caller:
  assumes "tenant_user_route meta d rq = Inr rq'" "rq_auth rq = Some auth" "caller_of t auth" "rq_tenantId rq = None"
  shows "called_for t auth rq' \<and> (\<forall>s. resolveRouteTenantId rq = Some s \<longrightarrow> s = t)"
proof -
  obtain rq1 where g: "tenant_route meta d rq = Inr rq1" "TenantMembershipGuard meta d rq1 = Inr rq'"
    using assms(1) by (auto simp: tenant_user_route_def rbind_eq_Inr)
  have "rq_auth rq' = rq_auth rq1 \<and> rq_tenantId rq' = rq_tenantId rq1"
    using g(2) by (auto simp: TenantMembershipGuard_def Let_def split: option.splits if_splits)
  then show ?thesis using tenant_route_caller [OF g(1) assms(2-4)] by (simp add: called_for_def)
qed

lemma platform_refused: "caller_of t auth \<Longrightarrow> rq_auth rq = Some auth \<Longrightarrow> \<exists>e. ScopeGuard platform_only rq = Inl e"
  by (auto simp: ScopeGuard_def platform_only_def no_meta_def caller_of_def hasRequiredRoles_iff)

lemma hit_step_db: "hit_step rq d d' \<Longrightarrow> tenant_users d' = tenant_users d \<and> oidc_models d' = oidc_models d"
  by (auto simp: hit_step_def recordHit_def)

lemma keeps_hit_step: "hit_step rq d d' \<Longrightarrow> called_for t auth rq \<Longrightarrow> keeps t own d d'"
  by (auto simp: hit_step_def called_for_def keeps_hit kp.frame_refl)

section \<open>Frames of the guard chains\<close>

lemma keeps_tier:
  assumes "called_for t auth rq"
    and "\<And>d'. tenant_users d' = tenant_users d \<Longrightarrow> oidc_models d' = oidc_models d \<Longrightarrow> keeps t own d' (snd (k rq d'))"
  shows "keeps t own d (snd (tier_limited env st cls hdl k rq d))"
  by (rule kp.frame_tier_limited) (use assms keeps_hit_step hit_step_db in blast)+

lemma keeps_tenant_limited:
  assumes "authenticated auth call rq" "caller_of t auth"
    and "\<And>rq' d'. called_for t auth rq' \<Longrightarrow> (\<And>s. resolveRouteTenantId rq = Some s \<Longrightarrow> s = t)
           \<Longrightarrow> tenant_users d' = tenant_users d \<Longrightarrow> oidc_models d' = oidc_models d \<Longrightarrow> keeps t own d' (snd (k rq' d'))"
  shows "keeps t own d (snd (tenant_limited env st meta cls hdl rq k d))"
  unfolding tenant_limited_def
proof (rule kp.frame_guarded)
  fix rq' assume "tenant_route meta d rq = Inr rq'"
  from tenant_route_caller [OF this _ assms(2)] assms(1)
  have r: "called_for t auth rq'" "\<And>s. resolveRouteTenantId rq = Some s \<Longrightarrow> s = t" by (auto simp: authenticated_def)
  show "keeps t own d (snd (tier_limited env st cls hdl k rq' d))" by (rule keeps_tier [OF r(1)]) (rule assms(3) [OF r])
qed

lemma keeps_user_guards:
  assumes "authenticated auth call rq" "caller_of t auth"
    and "\<And>rq'. called_for t auth rq' \<Longrightarrow> (\<And>s. resolveRouteTenantId rq = Some s \<Longrightarrow> s = t) \<Longrightarrow> keeps t own d (snd (k rq' d))"
  shows "keeps t own d (snd (user_guards rq k d))"
  unfolding user_guards_def
proof (rule kp.frame_guarded)
  fix rq' assume "tenant_user_route users_meta d rq = Inr rq'"
  from tenant_user_route_caller [OF this _ assms(2)] assms(1)
  show "keeps t own d (snd (k rq' d))" by (auto simp: authenticated_def intro: assms(3))
qed

lemma keeps_tenant_guards:
  assumes "authenticated auth call rq" "\<And>rq'. rq_auth rq' = Some auth \<Longrightarrow> keeps t own d (snd (k rq' d))"
  shows "keeps t own d (snd (tenant_guards meta rq k d))"
  unfolding tenant_guards_def
proof (rule kp.frame_guarded)
  fix rq' assume "rbind (ScopeGuard meta rq) (TenantStatusGuard d) = Inr rq'"
  then have "rq' = rq" using ScopeGuard_Ok TenantStatusGuard_Ok by (fastforce simp: rbind_eq_Inr)
  then show "keeps t own d (snd (k rq' d))" using assms by (auto simp: authenticated_def)
qed

lemma keeps_platform_guards:
  assumes "authenticated auth call rq" "caller_of t auth"
  shows "keeps t own d (snd (tenant_guards platform_only rq k d))" "keeps t own d (snd (admin_guards rq k d))"
  using platform_refused [OF assms(2), of rq] assms(1)
  by (auto simp: tenant_guards_def admin_guards_def guarded_def authenticated_def kp.frame_refl)

section \<open>Frames of the routes\<close>

text \<open>What holds of a request of the tenant when the handler of a route is reached.\<close>

lemma path_tenant:
  assumes "authenticated auth call rq" "uuid_shape v" "\<And>s. resolveRouteTenantId rq = Some s \<Longrightarrow> s = t"
    "path_tenantId call = Some s" "vl_parseUUID v s \<or> vl_isUUID v s"
  shows "s = t"
  by (rule path_is_tenant [OF assms(2,5) _ assms(3)]) (use assms(1,4) in \<open>simp_all add: authenticated_def\<close>)

lemmas handler_defs =
  TenantController_create_def TenantController_update_def TenantController_updateConfig_def TenantController_updateStatus_def
  TenantController_list_def TenantController_findById_def TenantController_findBySlug_def TenantController_delete_def
  TenantController_restore_def TenantUserController_create_def TenantUserController_list_def TenantUserController_update_def
  TenantUserController_delete_def OAuthClientController_createClient_def OAuthClientController_findByTenant_def
  OAuthClientController_update_def OAuthClientController_revokeClient_def OAuthClientController_rotateSecret_def
  ConnectionController_create_def ConnectionController_findByTenantId_def ConnectionController_findByExternalConnectionId_def
  ConnectionController_findById_def ConnectionController_update_def ConnectionController_delete_def
  ConnectorCredentialController_create_def ConnectorCredentialController_findByTenant_def
  ConnectorCredentialController_findById_def ConnectorCredentialController_update_def ConnectorCredentialController_delete_def
  ConnectorCredentialController_test_def CredentialDefinitionController_create_def
  CredentialDefinitionController_findByTenantId_def CredentialDefinitionController_findByFormat_def
  CredentialDefinitionController_findByConnector_def CredentialDefinitionController_findById_def
  CredentialDefinitionController_update_def CredentialDefinitionController_delete_def CredentialActionController_accept_def
  CredentialActionController_reject_def CredentialRevokeController_revoke_def OperationController_findById_def
  AuditLogController_export_def AuditLogController_list_def AuditLogController_findById_def RoleController_listRoles_def
  ScopeController_listScopes_def TenantRoleScopeController_listTenantRoles_def TenantRoleScopeController_updateRoleScopes_def
  TenantRoleScopeController_resetRoleScopes_def AuthController_listTenants_def AuthController_switchTenant_def
  AdminOperationsController_getStats_def AdminRateLimitController_getStatus_def AdminRateLimitController_reset_def
  AdminSessionsController_revokeSessions_def

lemmas guard_defs = client_guards_def connection_guards_def connector_guards_def definition_guards_def audit_guards_def role_guards_def

lemmas keeps_chain = keeps_platform_guards keeps_tenant_limited keeps_user_guards kp.frame_validated kp.frame_respond
  kp.frame_respond_st kp.frame_respond_read

lemma keeps_for:
  "s = t \<Longrightarrow> keeps t own d (snd (perform env' st' a s x d))"
  "s = t \<Longrightarrow> keeps t own d (snd (crs_revoke env' st' s x d))"
  "s = t \<Longrightarrow> keeps t own d (snd (ccs_findByTenant cenv ivs now s d))"
  by (auto intro: keeps_perform keeps_revoke keeps_ccs_findByTenant)

lemma keeps_tenant_routes:
  assumes "authenticated auth call rq" "caller_of t auth"
  shows "keeps t own d (snd (TenantController_update env st rq s dto d))"
    and "keeps t own d (snd (TenantController_updateConfig env st rq s dto' d))"
    and "keeps t own d (snd (TenantController_list env rq l c d))"
    and "keeps t own d (snd (TenantController_findById env rq s d))"
    and "keeps t own d (snd (TenantController_findBySlug rq s d))"
proof -
  note g = keeps_tenant_guards [OF assms(1)]
  show "keeps t own d (snd (TenantController_update env st rq s dto d))" unfolding handler_defs
    by (intro g kp.frame_validated kp.frame_respond)
      (auto simp: rbind_eq_Inr dest: caller_access [OF assms(2)] intro: keeps_tns_update)
  show "keeps t own d (snd (TenantController_updateConfig env st rq s dto' d))" unfolding handler_defs
    by (intro g kp.frame_validated kp.frame_respond_st)
      (auto simp: kp.frame_refl split: sum.split dest: caller_access [OF assms(2)] intro: keeps_tns_updateConfig [OF assms(2)])
  show "keeps t own d (snd (TenantController_list env rq l c d))"
    and "keeps t own d (snd (TenantController_findById env rq s d))"
    and "keeps t own d (snd (TenantController_findBySlug rq s d))" unfolding handler_defs
    by (intro g kp.frame_validated kp.frame_respond_read)+
qed

lemma keeps_user_routes:
  assumes "authenticated auth call rq" "caller_of t auth" "uuid_shape (en_val env)"
  shows "call = UserCreate s dto1 \<Longrightarrow> keeps t own d (snd (TenantUserController_create env st rq s dto1 d))"
    and "call = UserList s l c \<Longrightarrow> keeps t own d (snd (TenantUserController_list env rq s l c d))"
    and "call = UserUpdate s u dto2 \<Longrightarrow> keeps t own d (snd (TenantUserController_update env st rq s u dto2 d))"
    and "call = UserDelete s u \<Longrightarrow> keeps t own d (snd (TenantUserController_delete env rq s u d))"
proof -
  note p = path_tenant [OF assms(1,3)]
  note g = keeps_user_guards [OF assms(1,2)]
  show "keeps t own d (snd (TenantUserController_create env st rq s dto1 d))" if "call = UserCreate s dto1"
    unfolding handler_defs guard_defs
    by (intro g kp.frame_validated kp.frame_respond) (use p that in \<open>auto intro: keeps_invite\<close>)
  show "keeps t own d (snd (TenantUserController_list env rq s l c d))" if "call = UserList s l c"
    unfolding handler_defs guard_defs
    by (intro g kp.frame_validated kp.frame_respond_read)
  show "keeps t own d (snd (TenantUserController_update env st rq s u dto2 d))" if "call = UserUpdate s u dto2"
    unfolding handler_defs guard_defs
    by (intro g kp.frame_validated kp.frame_respond) (use p that in \<open>auto intro: keeps_tus_update\<close>)
  show "keeps t own d (snd (TenantUserController_delete env rq s u d))" if "call = UserDelete s u"
    unfolding handler_defs guard_defs
    by (intro g kp.frame_validated kp.frame_respond) (use p that in \<open>auto intro: keeps_tus_delete\<close>)
qed

lemma keeps_client_routes:
  assumes "authenticated auth call rq" "caller_of t auth" "uuid_shape (en_val env)"
  shows "call = ClientCreate s dto1 \<Longrightarrow> keeps t own d (snd (OAuthClientController_createClient env st rq s dto1 d))"
    and "call = ClientFindByTenant s \<Longrightarrow> keeps t own d (snd (OAuthClientController_findByTenant env st rq s d))"
    and "call = ClientUpdate s c dto2 \<Longrightarrow> keeps t own d (snd (OAuthClientController_update env st rq s c dto2 d))"
    and "call = ClientRevoke s c \<Longrightarrow> keeps t own d (snd (OAuthClientController_revokeClient env st rq s c d))"
    and "call = ClientRotateSecret s c \<Longrightarrow> keeps t own d (snd (OAuthClientController_rotateSecret env st rq s c d))"
proof -
  note p = path_tenant [OF assms(1,3)]
  note g = keeps_tenant_limited [OF assms(1,2)]
  show "keeps t own d (snd (OAuthClientController_createClient env st rq s dto1 d))" if "call = ClientCreate s dto1"
    unfolding handler_defs guard_defs
    by (intro g kp.frame_validated kp.frame_respond) (use p that in \<open>auto intro: keeps_createClient\<close>)
  show "keeps t own d (snd (OAuthClientController_findByTenant env st rq s d))" if "call = ClientFindByTenant s"
    unfolding handler_defs guard_defs
    by (intro g kp.frame_validated kp.frame_respond_read)
  show "keeps t own d (snd (OAuthClientController_update env st rq s c dto2 d))" if "call = ClientUpdate s c dto2"
    unfolding handler_defs guard_defs
    by (intro g kp.frame_validated kp.frame_respond) (use p that in \<open>auto intro: keeps_ocs_update\<close>)
  show "keeps t own d (snd (OAuthClientController_revokeClient env st rq s c d))" if "call = ClientRevoke s c"
    unfolding handler_defs guard_defs
    by (intro g kp.frame_validated kp.frame_respond) (use p that in \<open>auto intro: keeps_revokeClient\<close>)
  show "keeps t own d (snd (OAuthClientController_rotateSecret env st rq s c d))" if "call = ClientRotateSecret s c"
    unfolding handler_defs guard_defs
    by (intro g kp.frame_validated kp.frame_respond) (use p that in \<open>auto intro: keeps_rotateSecret\<close>)
qed

lemma keeps_connection_routes:
  assumes "authenticated auth call rq" "caller_of t auth" "uuid_shape (en_val env)"
  shows "call = ConnCreate dto1 \<Longrightarrow> keeps t own d (snd (ConnectionController_create env st rq dto1 d))"
    and "call = ConnFindByTenant s cs \<Longrightarrow> keeps t own d (snd (ConnectionController_findByTenantId env st rq s cs d))"
    and "call = ConnFindByExternal s \<Longrightarrow> keeps t own d (snd (ConnectionController_findByExternalConnectionId env st rq s d))"
    and "call = ConnFindById c \<Longrightarrow> keeps t own d (snd (ConnectionController_findById env st rq c d))"
    and "call = ConnUpdate c dto2 \<Longrightarrow> keeps t own d (snd (ConnectionController_update env st rq c dto2 d))"
    and "call = ConnDelete c \<Longrightarrow> keeps t own d (snd (ConnectionController_delete env st rq c d))"
proof -
  note p = path_tenant [OF assms(1,3)]
  note g = keeps_tenant_limited [OF assms(1,2)]
  show "keeps t own d (snd (ConnectionController_create env st rq dto1 d))" if "call = ConnCreate dto1"
    unfolding handler_defs guard_defs
    by (intro g kp.frame_validated kp.frame_respond) (use p that in \<open>auto simp: called_for_def intro: keeps_cns_create [OF _ assms(2)]\<close>)
  show "keeps t own d (snd (ConnectionController_findByTenantId env st rq s cs d))" if "call = ConnFindByTenant s cs"
    unfolding handler_defs guard_defs
    by (intro g kp.frame_validated kp.frame_respond_read)
  show "keeps t own d (snd (ConnectionController_findByExternalConnectionId env st rq s d))" if "call = ConnFindByExternal s"
    unfolding handler_defs guard_defs
    by (intro g kp.frame_validated kp.frame_respond_read)
  show "keeps t own d (snd (ConnectionController_findById env st rq c d))" if "call = ConnFindById c"
    unfolding handler_defs guard_defs
    by (intro g kp.frame_validated kp.frame_respond_read)
  show "keeps t own d (snd (ConnectionController_update env st rq c dto2 d))" if "call = ConnUpdate c dto2"
    unfolding handler_defs guard_defs
    by (intro g kp.frame_validated kp.frame_respond) (use p that in \<open>auto simp: called_for_def intro: keeps_cns_update [OF _ assms(2)]\<close>)
  show "keeps t own d (snd (ConnectionController_delete env st rq c d))" if "call = ConnDelete c"
    unfolding handler_defs guard_defs
    by (intro g kp.frame_validated kp.frame_respond) (use p that in \<open>auto simp: called_for_def intro: keeps_cns_delete [OF _ assms(2)]\<close>)
qed

lemma keeps_connector_routes:
  assumes "authenticated auth call rq" "caller_of t auth" "uuid_shape (en_val env)"
  shows "call = ConnectorCreate s ty url cr \<Longrightarrow> keeps t own d (snd (ConnectorCredentialController_create env st rq s ty url cr d))"
    and "call = ConnectorFindByTenant s \<Longrightarrow> keeps t own d (snd (ConnectorCredentialController_findByTenant env st rq s d))"
    and "call = ConnectorFindById s c \<Longrightarrow> keeps t own d (snd (ConnectorCredentialController_findById env st rq c d))"
    and "call = ConnectorUpdate s c dto1 \<Longrightarrow> keeps t own d (snd (ConnectorCredentialController_update env st rq c dto1 d))"
    and "call = ConnectorDelete s c \<Longrightarrow> keeps t own d (snd (ConnectorCredentialController_delete env st rq c d))"
    and "call = ConnectorTest s c \<Longrightarrow> keeps t own d (snd (ConnectorCredentialController_test env st rq c d))"
proof -
  note p = path_tenant [OF assms(1,3)]
  note g = keeps_tenant_limited [OF assms(1,2)]
  show "keeps t own d (snd (ConnectorCredentialController_create env st rq s ty url cr d))" if "call = ConnectorCreate s ty url cr"
    unfolding handler_defs guard_defs
    by (intro g kp.frame_validated kp.frame_respond) (use p that in \<open>auto simp: called_for_def intro: keeps_ccs_create\<close>)
  show "keeps t own d (snd (ConnectorCredentialController_findByTenant env st rq s d))" if "call = ConnectorFindByTenant s"
    unfolding handler_defs guard_defs
    by (intro g kp.frame_validated kp.frame_respond_st) (use p that in \<open>auto intro!: keeps_for\<close>)
  show "keeps t own d (snd (ConnectorCredentialController_findById env st rq c d))" if "call = ConnectorFindById s c"
    unfolding handler_defs guard_defs
    by (intro g kp.frame_validated kp.frame_respond) (use p that in \<open>auto simp: called_for_def dest: ccs_find_parts [OF _ assms(2)]\<close>)
  show "keeps t own d (snd (ConnectorCredentialController_update env st rq c dto1 d))" if "call = ConnectorUpdate s c dto1"
    unfolding handler_defs guard_defs
    by (intro g kp.frame_validated kp.frame_respond_st) (use p that in \<open>auto simp: called_for_def intro: keeps_ccs_update [OF assms(2)]\<close>)
  show "keeps t own d (snd (ConnectorCredentialController_delete env st rq c d))" if "call = ConnectorDelete s c"
    unfolding handler_defs guard_defs
    by (intro g kp.frame_validated kp.frame_respond_st) (use p that in \<open>auto simp: called_for_def intro: keeps_ccs_delete [OF assms(2)]\<close>)
  show "keeps t own d (snd (ConnectorCredentialController_test env st rq c d))" if "call = ConnectorTest s c"
    unfolding handler_defs guard_defs
    by (intro g kp.frame_validated kp.frame_respond_st) (use p that in \<open>auto simp: called_for_def intro: keeps_ccs_test [OF assms(2)]\<close>)
qed

lemma keeps_definition_routes:
  assumes "authenticated auth call rq" "caller_of t auth" "uuid_shape (en_val env)"
  shows "call = DefinitionCreate s dto1 \<Longrightarrow> keeps t own d (snd (CredentialDefinitionController_create env st rq s dto1 d))"
    and "call = DefinitionFindByTenant s \<Longrightarrow> keeps t own d (snd (CredentialDefinitionController_findByTenantId env st rq s d))"
    and "call = DefinitionFindByFormat s f \<Longrightarrow> keeps t own d (snd (CredentialDefinitionController_findByFormat env st rq s f d))"
    and "call = DefinitionFindByConnector s ty \<Longrightarrow> keeps t own d (snd (CredentialDefinitionController_findByConnector env st rq s ty d))"
    and "call = DefinitionFindById s c \<Longrightarrow> keeps t own d (snd (CredentialDefinitionController_findById env st rq s c d))"
    and "call = DefinitionUpdate s c dto2 \<Longrightarrow> keeps t own d (snd (CredentialDefinitionController_update env st rq s c dto2 d))"
    and "call = DefinitionDelete s c \<Longrightarrow> keeps t own d (snd (CredentialDefinitionController_delete env st rq s c d))"
proof -
  note p = path_tenant [OF assms(1,3)]
  note g = keeps_tenant_limited [OF assms(1,2)]
  show "keeps t own d (snd (CredentialDefinitionController_create env st rq s dto1 d))" if "call = DefinitionCreate s dto1"
    unfolding handler_defs guard_defs
    by (intro g kp.frame_validated kp.frame_respond) (use p that in \<open>auto intro: keeps_cds_create\<close>)
  show "keeps t own d (snd (CredentialDefinitionController_findByTenantId env st rq s d))" if "call = DefinitionFindByTenant s"
    unfolding handler_defs guard_defs
    by (intro g kp.frame_validated kp.frame_respond_read)
  show "keeps t own d (snd (CredentialDefinitionController_findByFormat env st rq s f d))" if "call = DefinitionFindByFormat s f"
    unfolding handler_defs guard_defs
    by (intro g kp.frame_validated kp.frame_respond_read)
  show "keeps t own d (snd (CredentialDefinitionController_findByConnector env st rq s ty d))" if "call = DefinitionFindByConnector s ty"
    unfolding handler_defs guard_defs
    by (intro g kp.frame_validated kp.frame_respond_read)
  show "keeps t own d (snd (CredentialDefinitionController_findById env st rq s c d))" if "call = DefinitionFindById s c"
    unfolding handler_defs guard_defs
    by (intro g kp.frame_validated kp.frame_respond_read)
  show "keeps t own d (snd (CredentialDefinitionController_update env st rq s c dto2 d))" if "call = DefinitionUpdate s c dto2"
    unfolding handler_defs guard_defs
    by (intro g kp.frame_validated kp.frame_respond) (use p that in \<open>auto intro: keeps_cds_update\<close>)
  show "keeps t own d (snd (CredentialDefinitionController_delete env st rq s c d))" if "call = DefinitionDelete s c"
    unfolding handler_defs guard_defs
    by (intro g kp.frame_validated kp.frame_respond) (use p that in \<open>auto intro: keeps_cds_delete\<close>)
qed

lemma keeps_credential_routes:
  assumes "authenticated auth call rq" "caller_of t auth" "uuid_shape (en_val env)"
  shows "call = CredentialAccept s x \<Longrightarrow> keeps t own d (snd (CredentialActionController_accept env st rq s x d))"
    and "call = CredentialReject s x \<Longrightarrow> keeps t own d (snd (CredentialActionController_reject env st rq s x d))"
    and "call = CredentialRevoke s x \<Longrightarrow> keeps t own d (snd (CredentialRevokeController_revoke env st rq s x d))"
    and "call = AuditExport s a b e \<Longrightarrow> keeps t own d (snd (AuditLogController_export env st rq s a b e d))"
    and "call = AuditList s f l c \<Longrightarrow> keeps t own d (snd (AuditLogController_list env st rq s f l c d))"
    and "call = AuditFindById s a' \<Longrightarrow> keeps t own d (snd (AuditLogController_findById env st rq s a' d))"
    and "call = TenantRoleList s \<Longrightarrow> keeps t own d (snd (TenantRoleScopeController_listTenantRoles env st rq s d))"
proof -
  note p = path_tenant [OF assms(1,3)]
  note g = keeps_tenant_limited [OF assms(1,2)]
  show "keeps t own d (snd (CredentialActionController_accept env st rq s x d))" if "call = CredentialAccept s x"
    unfolding handler_defs guard_defs
    by (intro g kp.frame_validated kp.frame_respond_st) (use p that in \<open>auto intro!: keeps_for\<close>)
  show "keeps t own d (snd (CredentialActionController_reject env st rq s x d))" if "call = CredentialReject s x"
    unfolding handler_defs guard_defs
    by (intro g kp.frame_validated kp.frame_respond_st) (use p that in \<open>auto intro!: keeps_for\<close>)
  show "keeps t own d (snd (CredentialRevokeController_revoke env st rq s x d))" if "call = CredentialRevoke s x"
    unfolding handler_defs guard_defs
    by (intro g kp.frame_validated kp.frame_respond_st) (use p that in \<open>auto intro!: keeps_for\<close>)
  show "keeps t own d (snd (AuditLogController_export env st rq s a b e d))" if "call = AuditExport s a b e"
    unfolding handler_defs guard_defs
    by (intro g kp.frame_validated kp.frame_respond_read)
  show "keeps t own d (snd (AuditLogController_list env st rq s f l c d))" if "call = AuditList s f l c"
    unfolding handler_defs guard_defs
    by (intro g kp.frame_validated kp.frame_respond_read)
  show "keeps t own d (snd (AuditLogController_findById env st rq s a' d))" if "call = AuditFindById s a'"
    unfolding handler_defs guard_defs
    by (intro g kp.frame_validated kp.frame_respond_read)
  show "keeps t own d (snd (TenantRoleScopeController_listTenantRoles env st rq s d))" if "call = TenantRoleList s"
    unfolding handler_defs guard_defs
    by (intro g kp.frame_validated kp.frame_respond_read)
qed

lemma keeps_operation_route:
  assumes "authenticated auth (OperationFindById s x) rq" "caller_of t auth" "uuid_shape (en_val env)"
  shows "keeps t own d (snd (OperationController_findById env st rq s x d))"
  unfolding handler_defs
proof (rule kp.frame_guarded)
  fix rq' assume "rbind (TenantGuard rq) (TenantStatusGuard d) = Inr rq'"
  then obtain rq1 where g: "TenantGuard rq = Inr rq1" "rq' = rq1" using TenantStatusGuard_Ok by (fastforce simp: rbind_eq_Inr)
  then have r: "called_for t auth rq'" "\<And>s. resolveRouteTenantId rq = Some s \<Longrightarrow> s = t"
    using TenantGuard_caller [OF g(1) _ assms(2)] assms(1) by (auto simp: authenticated_def)
  have p: "uuid env s \<Longrightarrow> s = t" using path_tenant [OF assms(1,3) r(2)] by simp
  show "keeps t own d (snd (tier_limited env st ''OperationController'' ''findById'' (\<lambda>rq. validated (uuid env s \<and> uuid env x)
      (respond (\<lambda>x. R_Operation 200 (operation_fromEntity x)) (getForTenant (sm_now st) s x))) rq' d))"
    by (rule keeps_tier [OF r(1)], intro kp.frame_validated kp.frame_respond) (use p in \<open>auto intro: keeps_getForTenant\<close>)
qed

lemma keeps_role_routes:
  assumes "authenticated auth call rq" "caller_of t auth" "uuid_shape (en_val env)" "\<And>m. tenant_models t d m \<Longrightarrow> own m"
  shows "call = RoleScopesUpdate s role scopes \<Longrightarrow> keeps t own d (snd (TenantRoleScopeController_updateRoleScopes env st rq s role scopes d))"
    and "call = RoleScopesReset s role \<Longrightarrow> keeps t own d (snd (TenantRoleScopeController_resetRoleScopes env st rq s role d))"
proof -
  note p = path_tenant [OF assms(1,3)]
  note g = keeps_tenant_limited [OF assms(1,2)]
  have m: "own m" if "tenant_models t d' m" "tenant_users d' = tenant_users d" "oidc_models d' = oidc_models d" for d' m
    using assms(4) [OF tenant_models_mono [OF that(1,2)]] that(3) by simp
  show "keeps t own d (snd (TenantRoleScopeController_updateRoleScopes env st rq s role scopes d))" if "call = RoleScopesUpdate s role scopes"
    unfolding handler_defs guard_defs
    by (intro g kp.frame_validated kp.frame_with_auth kp.frame_respond_st keeps_replaceRoleScopes)
      (use p that m in \<open>auto simp: role_request_def valid_role_param_def\<close>)
  show "keeps t own d (snd (TenantRoleScopeController_resetRoleScopes env st rq s role d))" if "call = RoleScopesReset s role"
    unfolding handler_defs guard_defs
    by (intro g kp.frame_validated kp.frame_with_auth kp.frame_respond_st keeps_resetRoleScopes)
      (use p that m in \<open>auto simp: role_request_def valid_role_param_def\<close>)
qed

lemma keeps_global_routes:
  assumes "authenticated auth call rq" "caller_of t auth"
  shows "keeps t own d (snd (TenantController_create env st rq dto d))"
    and "keeps t own d (snd (TenantController_updateStatus env st rq s status d))"
    and "keeps t own d (snd (TenantController_delete env st rq s d))"
    and "keeps t own d (snd (TenantController_restore env st rq s d))"
    and "keeps t own d (snd (AdminOperationsController_getStats rq d))"
    and "keeps t own d (snd (AdminRateLimitController_getStatus env st rq s d))"
    and "keeps t own d (snd (AdminRateLimitController_reset env st rq s d))"
    and "keeps t own d (snd (AdminSessionsController_revokeSessions env st rq s d))"
    and "keeps t own d (snd (RoleController_listRoles d))"
    and "keeps t own d (snd (ScopeController_listScopes d))"
    and "keeps t own d (snd (AuthController_listTenants rq d))"
  unfolding handler_defs by (intro keeps_platform_guards [OF assms] kp.frame_respond_read kp.frame_with_auth)+

lemma handle_keeps:
  assumes "authenticated auth call rq" "caller_of t auth" "uuid_shape (en_val env)" "\<And>m. tenant_models t d m \<Longrightarrow> own m"
    and "\<forall>s. call \<noteq> AuthSwitchTenant s"
  shows "keeps t own d (snd (handle env st rq call d))"
  using assms(1,5) keeps_tenant_routes [OF assms(1,2)] keeps_user_routes [OF assms(1-3)] keeps_client_routes [OF assms(1-3)]
    keeps_connection_routes [OF assms(1-3)] keeps_connector_routes [OF assms(1-3)] keeps_definition_routes [OF assms(1-3)]
    keeps_credential_routes [OF assms(1-3)] keeps_role_routes [OF assms(1-3)] keeps_global_routes [OF assms(1,2)]
    keeps_operation_route [OF _ assms(2,3)] assms(4)
  by (cases call) simp_all

section \<open>Isolation\<close>

lemma JwtGuard_authenticated:
  assumes "JwtGuard lib jenv iss aud j (incoming hdr call) = (Inr rq, j')"
  shows "\<exists>auth. validateAuthorizationHeader lib jenv iss aud j (case hdr of [] \<Rightarrow> None | h # _ \<Rightarrow> Some h) = (Inr auth, j')
     \<and> authenticated auth call rq"
proof -
  let ?v = "validateAuthorizationHeader lib jenv iss aud j (case hdr of [] \<Rightarrow> None | h # _ \<Rightarrow> Some h)"
  obtain r j1 where v: "?v = (r, j1)" by force
  show ?thesis
  proof (cases r)
    case (Inl e)
    then show ?thesis using assms v by (cases e) (auto simp: JwtGuard_def incoming_def)
  next
    case (Inr auth)
    then show ?thesis using assms v by (auto simp: JwtGuard_def incoming_def authenticated_def Let_def split: if_splits)
  qed
qed

text \<open>A mutating route the interceptor records was reached with the tenant of its path.\<close>

lemma ok_tenant_limited:
  assumes "is_ok (fst (tenant_limited env st meta cls hdl rq k d))" "authenticated auth call rq" "caller_of t auth"
    "path_tenantId call = Some s"
  shows "js_trim s = t \<or> js_trim s = []"
proof -
  obtain rq' where r: "tenant_route meta d rq = Inr rq'" using assms(1) by (auto simp: tenant_limited_def guarded_def split: sum.splits)
  have "\<forall>x. resolveRouteTenantId rq = Some x \<longrightarrow> x = t" using tenant_route_caller [OF r _ assms(3)] assms(2) by (auto simp: authenticated_def)
  moreover have "rq_paramTenantId rq = Some s" using assms(2,4) by (simp add: authenticated_def)
  ultimately show ?thesis by (auto simp: resolveRouteTenantId_def Let_def split: if_splits)
qed

lemma admin_refused:
  "authenticated auth call rq \<Longrightarrow> caller_of t auth \<Longrightarrow> \<not> is_ok (fst (admin_guards rq k d))"
  using platform_refused [of t auth rq] by (auto simp: admin_guards_def guarded_def authenticated_def)

lemma auto_tenant:
  assumes "auto_audited call = Some hr" "auto_resolveTenantId hr = Some x" "\<And>u b. call \<noteq> AdminRevokeSessions u b"
  shows "path_tenantId call = Some x"
  using assms by (cases call) (auto simp: auto_request_def auto_resolveTenantId_def param_def split: option.splits if_splits json.splits)

lemma audited_tenant:
  assumes "auto_audited call = Some hr" "is_ok (fst (handle env st rq call d))" "auto_resolveTenantId hr = Some x"
    "authenticated auth call rq" "caller_of t auth"
  shows "js_trim x = t \<or> js_trim x = []"
proof -
  have n: "call \<noteq> AdminRevokeSessions u b" "call \<noteq> AdminRateReset v" for u b v
    using assms(2) admin_refused [OF assms(4,5)] by (auto simp: handler_defs)
  have "path_tenantId call = Some x" using auto_tenant [OF assms(1,3)] n(1) by blast
  moreover have "\<exists>meta cls hdl k. handle env st rq call d = tenant_limited env st meta cls hdl rq k d"
    using assms(1) n by (cases call; simp only: handle.simps handler_defs guard_defs; blast?) simp_all
  ultimately show ?thesis using ok_tenant_limited [OF _ assms(4,5)] assms(2) by metis
qed

lemma route_keeps:
  assumes "authenticated auth call rq" "caller_of t auth" "uuid_shape (en_val env)" "\<forall>s. call \<noteq> AuthSwitchTenant s"
  shows "keeps t (tenant_models t d) d (snd (route env st rq call d))"
  unfolding route_def
proof (rule kp.frame_audited)
  show "keeps t (tenant_models t d) d (snd (handle env st rq call d))" using handle_keeps [OF assms(1-3) _ assms(4)] by blast
  show "keeps t (tenant_models t d) d' (d'\<lparr>audit_jobs := audit_jobs d' @ [ev]\<rparr>)"
    if "auto_audited call = Some hr" "is_ok (fst (handle env st rq call d))" "auto_resolveTenantId hr = Some (ae_tenantId ev)" for hr ev d'
    using audited_tenant [OF that assms(1,2)] by (auto intro: keeps_job)
qed

abbreviation checked_token :: "token_check \<Rightarrow> jwks_service \<Rightarrow> string list \<Rightarrow> auth_context result \<times> jwks_service" where
  "checked_token tk j hdr \<equiv>
     validateAuthorizationHeader (tk_jose tk) (tk_jwks tk) (tk_issuer tk) (tk_audience tk) j (case hdr of [] \<Rightarrow> None | h # _ \<Rightarrow> Some h)"

lemma api_cases:
  assumes "api env tk st hdr call (j, d) = (r, j', d')"
  obtains (refused) e where "r = Inl e" "d' = d"
  | (passed) auth rq where "checked_token tk j hdr = (Inr auth, j')" "authenticated auth call rq" "route env st rq call d = (r, d')"
proof (cases "fst (JwtGuard (tk_jose tk) (tk_jwks tk) (tk_issuer tk) (tk_audience tk) j (incoming hdr call))")
  case (Inl e)
  then show ?thesis using assms refused by (auto simp: api_def split: prod.splits)
next
  case (Inr rq)
  then have g: "JwtGuard (tk_jose tk) (tk_jwks tk) (tk_issuer tk) (tk_audience tk) j (incoming hdr call) = (Inr rq, j')"
    and o: "route env st rq call d = (r, d')" using assms by (auto simp: api_def Let_def prod_eq_iff split: prod.splits)
  show ?thesis using JwtGuard_authenticated [OF g] passed o by blast
qed

text \<open>C1. Isolation of tenants across the REST interface. Let the bearer token of a request be anything that is not a platform
  administrator's and names no tenant but \<open>t\<close>, or no valid token at all. Whatever route the request takes, except the exchange of the
  token for one of another tenant, and whatever its parameters and its body, every table afterwards holds exactly the same rows of the
  other tenants as before, the sessions and tokens of their users included, in the same order; and the primary keys remain unique.\<close>

theorem api_isolation:
  assumes "api env tk st hdr call (j, d) = (r, j', d')"
    and "\<And>auth j1. checked_token tk j hdr = (Inr auth, j1) \<Longrightarrow> caller_of t auth"
    and "\<forall>s. call \<noteq> AuthSwitchTenant s" and "uuid_shape (en_val env)" and "db_keys d"
  shows "others t (tenant_models t d) d' = others t (tenant_models t d) d \<and> db_keys d'"
  using assms(1)
proof (cases rule: api_cases)
  case refused
  then show ?thesis using assms(5) by simp
next
  case (passed auth rq)
  have "keeps t (tenant_models t d) d d'"
    using route_keeps [OF passed(2) assms(2) [OF passed(1)] assms(4,3), of d st] passed(3) by simp
  then show ?thesis using assms(5) by (simp add: keeps_def)
qed

text \<open>A concrete service with one token: an owner of tenant \<^verbatim>\<open>t1\<close>, beside another tenant.\<close>

definition demo_api_env :: api_env where
  "demo_api_env = \<lparr>en_val = \<lparr>vl_isEmail = (\<lambda>s. CHR ''@'' \<in> set s), vl_isUUID = (\<lambda>s. s \<in> {''t1'', ''t2'', ''c1''}), vl_isUrl = (\<lambda>s. True),
       vl_parseUUID = (\<lambda>s. s \<in> {''t1'', ''t2'', ''c1''})\<rparr>,
     en_oidc = demo_cfg, en_argon = demo_argon, en_show = (\<lambda>n. ''0''), en_registry = shipped_registry, en_agent = demo_agent_env,
     en_auth = demo_switch_env,
     en_limits = \<lparr>rlc_RATE_LIMIT_ENABLED = None, rlc_WINDOW_MS = None, rlc_STANDARD_PER_MINUTE = Some 1, rlc_PREMIUM_PER_MINUTE = None\<rparr>,
     en_parseCursor = (\<lambda>s. None), en_castCursor = (\<lambda>c. None), en_isoDay = (\<lambda>t. ''1970-01-01''), en_autoAudit = True\<rparr>"

definition demo_token_check :: "string \<Rightarrow> string \<Rightarrow> token_check" where
  "demo_token_check tenant scope =
     \<lparr>tk_jose = \<lparr>jose_header = jose_header demo_jose, jose_verify = (\<lambda>t k i a. if t = ''tok'' \<and> k = demo_jwk \<and> i = ''iss'' \<and> a = ''api''
          then Inr (demo_payload\<lparr>pl_sub := Some ''kc-a'', pl_client_id := JStr ''spa'', pl_scope := JStr scope, pl_tenant_id := JStr tenant\<rparr>) else Inl (''ERR'', ''bad''))\<rparr>,
      tk_jwks = demo_net, tk_issuer = ''iss'', tk_audience = ''api''\<rparr>"

definition demo_api_stamp :: api_stamp where
  "demo_api_stamp = \<lparr>sm_now = 5000, sm_created = 5000000, sm_id = ''n1'', sm_id2 = ''n2'', sm_hit = (''h1'', 5000000), sm_iv = (\<lambda>n. ''iv''),
     sm_ivs = (\<lambda>i. ''iv''), sm_hex = ''ab'', sm_secret = ''s'', sm_salt = ''x'', sm_audit = ((''a1'', 5000000), (''a2'', 5000000)),
     sm_issue = demo_switch_stamp\<rparr>"

definition demo_two_db :: db where
  "demo_two_db = demo_db\<lparr>tenants := [demo_tenant, demo_tenant\<lparr>t_id := ''t2'', t_slug := ''other''\<rparr>],
     tenant_users := tenant_users demo_db @ [(demo_user ''z'' OWNER 4000)\<lparr>u_tenantId := ''t2''\<rparr>],
     oidc_models := [demo_session ''z'' 1000]\<rparr>"

abbreviation demo_jwks :: jwks_service where
  "demo_jwks \<equiv> \<lparr>js_cache = None, js_fetches = 0\<rparr>"

lemma demo_api_setup: "uuid_shape (en_val demo_api_env)" "db_keys demo_two_db"
proof -
  have "js_trim s = s \<and> s \<noteq> []" if "s = ''t1'' \<or> s = ''t2'' \<or> s = ''c1''" for s using that by (elim disjE) (simp_all add: js_trim_def is_ws_def)
  then show "uuid_shape (en_val demo_api_env)" by (auto simp: uuid_shape_def demo_api_env_def)
  show "db_keys demo_two_db"
    by (simp add: db_keys_def demo_two_db_def demo_db_def empty_db_def demo_tenant_def demo_user_def tbl_keys_def)
qed

definition demo_api_auth :: "string \<Rightarrow> auth_context" where
  "demo_api_auth scope = \<lparr>ac_sub = ''kc-a'', ac_tokenType = ClientToken, ac_clientId = Some ''spa'', ac_tenantId = Some ''t1'', ac_roles = [],
     ac_scope = scope, ac_scopes = [scope], ac_iss = ''iss'', ac_aud = AudOne ''api'', ac_exp = 10, ac_iat = 1, ac_jti = None\<rparr>"

definition demo_api_rq :: "string \<Rightarrow> api_call \<Rightarrow> request" where
  "demo_api_rq scope call = (incoming [''Bearer tok''] call)\<lparr>rq_auth := Some (demo_api_auth scope), rq_client := Some (demo_api_auth scope)\<rparr>"

abbreviation demo_invite :: invite_dto where
  "demo_invite \<equiv> \<lparr>inv_email = ''new@x.ca'', inv_role = MEMBER\<rparr>"

lemma demo_users_token:
  "fst (checked_token (demo_token_check ''t1'' ''users:manage'') demo_jwks [''Bearer tok'']) = Inr (demo_api_auth ''users:manage'')"
  by code_simp

lemma demo_users_route:
  "tenant_user_route users_meta demo_two_db (demo_api_rq ''users:manage'' (UserCreate ''t1'' demo_invite))
     = Inr ((demo_api_rq ''users:manage'' (UserCreate ''t1'' demo_invite))\<lparr>rq_tenantId := Some ''t1'',
          rq_callerTenantUser := Some (demo_user ''a'' OWNER 1000)\<rparr>)"
  by code_simp

lemma demo_users_invite: "\<exists>u d'. tus_invite ''n1'' 5000000 5000 False ''t1'' demo_invite demo_two_db = Inr (u, d') \<and> length (tenant_users d') = 5"
  by (simp add: tus_invite_def tu_findByTenantAndEmail_def demo_two_db_def demo_db_def empty_db_def demo_user_def demo_tenant_def
      tu_create_def tu_admissible_def tu_conflict_def tbl_insert_def Let_def)

lemma demo_JwtGuard:
  assumes "fst (checked_token tk j [''Bearer tok'']) = Inr (demo_api_auth scope)"
  shows "fst (JwtGuard (tk_jose tk) (tk_jwks tk) (tk_issuer tk) (tk_audience tk) j (incoming [''Bearer tok''] call)) = Inr (demo_api_rq scope call)"
proof -
  obtain j1 where "checked_token tk j [''Bearer tok''] = (Inr (demo_api_auth scope), j1)" using assms by (metis prod.collapse)
  then show ?thesis by (simp add: JwtGuard_def incoming_def demo_api_rq_def demo_api_auth_def)
qed

lemma demo_caller: "caller_of ''t1'' (demo_api_auth scope)"
  by (simp add: caller_of_def demo_api_auth_def)

lemma demo_api_run:
  assumes "fst (checked_token tk j [''Bearer tok'']) = Inr (demo_api_auth scope)"
  shows "\<exists>j'. api env tk st [''Bearer tok''] call (j, d)
     = (fst (route env st (demo_api_rq scope call) call d), j', snd (route env st (demo_api_rq scope call) call d))"
  using demo_JwtGuard [OF assms, of call] by (auto simp: api_def Let_def split: prod.splits)

theorem api_isolation_witness:
  "\<exists>r j' d'. api demo_api_env (demo_token_check ''t1'' ''users:manage'') demo_api_stamp [''Bearer tok'']
       (UserCreate ''t1'' demo_invite) (demo_jwks, demo_two_db) = (Ok r, j', d')
     \<and> length (tenant_users d') = 5
     \<and> others ''t1'' (tenant_models ''t1'' demo_two_db) d' = others ''t1'' (tenant_models ''t1'' demo_two_db) demo_two_db"
proof -
  let ?tk = "demo_token_check ''t1'' ''users:manage''" and ?call = "UserCreate ''t1'' demo_invite"
  obtain u d' where i: "tus_invite ''n1'' 5000000 5000 False ''t1'' demo_invite demo_two_db = Inr (u, d')" "length (tenant_users d') = 5"
    using demo_users_invite by blast
  have "route demo_api_env demo_api_stamp (demo_api_rq ''users:manage'' ?call) ?call demo_two_db = (Ok (R_User (tenant_user_fromEntity u)), d')"
    by (simp add: route_def audited_def TenantUserController_create_def user_guards_def guarded_def demo_users_route validated_def
        demo_api_env_def valid_invite_def respond_def demo_api_stamp_def i)
  then obtain j' where a: "api demo_api_env ?tk demo_api_stamp [''Bearer tok''] ?call (demo_jwks, demo_two_db)
      = (Ok (R_User (tenant_user_fromEntity u)), j', d')"
    using demo_api_run [OF demo_users_token, of demo_api_env demo_api_stamp ?call demo_two_db] by auto
  have "caller_of ''t1'' auth" if "checked_token ?tk demo_jwks [''Bearer tok''] = (Inr auth, j1)" for auth j1
    using that demo_users_token demo_caller by simp
  from api_isolation [OF a this _ demo_api_setup] show ?thesis using a i(2) by auto
qed

end
