(* ===== verification/Api_Disclosure.thy ===== *)
theory Api_Disclosure
  imports Api_Isolation
begin

text \<open>
  What a response shows: every object of a successful response to a caller of a tenant is the image of a row of that tenant, as
  the database holds it when the request is done. \<open>yields\<close> is a postcondition of a handler; it passes through the
  combinators of the routes like the frame of \<open>Tenant_Frame\<close>.
\<close>

section \<open>Postconditions of a handler\<close>

definition yields :: "(api_response \<Rightarrow> db \<Rightarrow> bool) \<Rightarrow> api_response result \<times> db \<Rightarrow> bool" where
  "yields Q out = (\<forall>r. fst out = Inr r \<longrightarrow> Q r (snd out))"

lemma yields_guarded: "(\<And>rq. g = Inr rq \<Longrightarrow> yields Q (k rq d)) \<Longrightarrow> yields Q (guarded g k d)"
  by (auto simp: guarded_def yields_def split: sum.split)

lemma yields_validated: "(ok \<Longrightarrow> yields Q (h d)) \<Longrightarrow> yields Q (validated ok h d)"
  by (simp add: validated_def yields_def)

lemma yields_respond: "(\<And>x d'. call d = Inr (x, d') \<Longrightarrow> Q (f x) d') \<Longrightarrow> yields Q (respond f call d)"
  by (auto simp: respond_def yields_def split: sum.split prod.split)

lemma yields_respond_st: "(\<And>x d'. call d = (Inr x, d') \<Longrightarrow> Q (f x) d') \<Longrightarrow> yields Q (respond_st f call d)"
  by (auto simp: respond_st_def yields_def split: sum.splits prod.splits)

lemma yields_respond_read: "(\<And>x. call d = Inr x \<Longrightarrow> Q (f x) d) \<Longrightarrow> yields Q (respond_read f call d)"
  by (auto simp: respond_read_def yields_def split: sum.split)

lemma yields_with_auth: "(\<And>auth. rq_auth rq = Some auth \<Longrightarrow> yields Q (k auth d)) \<Longrightarrow> yields Q (with_auth rq k d)"
  by (auto simp: with_auth_def yields_def split: option.split)

lemma yields_tier_limited:
  assumes "\<And>d'. hit_step rq d d' \<Longrightarrow> yields Q (k rq d')"
  shows "yields Q (tier_limited env st cls hdl k rq d)"
  using assms [OF tier_guard_hit, of "en_limits env" "sm_now st" "sm_hit st" cls hdl]
  by (auto simp: tier_limited_def yields_def split: sum.split prod.split)

lemmas yields_steps = yields_validated yields_respond yields_respond_st yields_respond_read yields_with_auth

lemma hit_step_keys: "hit_step rq d d' \<Longrightarrow> db_keys d \<Longrightarrow> db_keys d'"
  by (auto simp: hit_step_def recordHit_def db_keys_def)

section \<open>What a tenant may be shown\<close>

text \<open>The object is the view of a stored row of the tenant.\<close>

definition stored :: "('r \<Rightarrow> string) \<Rightarrow> ('r \<Rightarrow> 'a) \<Rightarrow> string \<Rightarrow> 'r list \<Rightarrow> 'a \<Rightarrow> bool" where
  "stored ten view t rows a = (\<exists>x\<in>set rows. ten x = t \<and> view x = a)"

text \<open>A connector is read before its key is rotated, an operation before its first view is noted: the identifying columns are those
  of the stored row.\<close>

definition connector_core :: "connector_response \<Rightarrow> string \<times> string \<times> connector_type \<times> string \<times> bool" where
  "connector_core r = (ctr_id r, ctr_tenantId r, ctr_connectorType r, ctr_endpointUrl r, ctr_active r)"

abbreviation shows_connector :: "string \<Rightarrow> db \<Rightarrow> connector_response \<Rightarrow> bool" where
  "shows_connector t d r \<equiv>
     stored cc_tenantId (\<lambda>c. connector_core (connector_fromEntity c)) t (connector_credentials d) (connector_core r)"

fun discloses_only :: "string \<Rightarrow> api_response \<Rightarrow> db \<Rightarrow> bool" where
  "discloses_only t (R_Tenant r) d = stored t_id tenant_fromEntity t (tenants d) r"
| "discloses_only t (R_Tenants rs _) d = list_all (stored t_id tenant_fromEntity t (tenants d)) rs"
| "discloses_only t (R_User r) d = stored u_tenantId tenant_user_fromEntity t (tenant_users d) r"
| "discloses_only t (R_Users rs _) d = list_all (stored u_tenantId tenant_user_fromEntity t (tenant_users d)) rs"
| "discloses_only t (R_ClientSecret r) d = stored oc_tenantId oauth_client_fromEntity t (oauth_clients d) (ccr_client r)"
| "discloses_only t (R_Client r) d = stored oc_tenantId oauth_client_fromEntity t (oauth_clients d) r"
| "discloses_only t (R_Clients rs) d = list_all (stored oc_tenantId oauth_client_fromEntity t (oauth_clients d)) rs"
| "discloses_only t (R_Connection r) d = stored cn_tenantId connection_fromEntity t (connections d) r"
| "discloses_only t (R_Connections rs) d = list_all (stored cn_tenantId connection_fromEntity t (connections d)) rs"
| "discloses_only t (R_Connector r) d = shows_connector t d r"
| "discloses_only t (R_Connectors rs) d = list_all (shows_connector t d) rs"
| "discloses_only t (R_Health _) d = True"
| "discloses_only t (R_Definition r) d = stored cd_tenantId definition_fromEntity t (credential_definitions d) r"
| "discloses_only t (R_Definitions rs) d = list_all (stored cd_tenantId definition_fromEntity t (credential_definitions d)) rs"
| "discloses_only t (R_AuditLog r) d = stored (\<lambda>a. ae_tenantId (al_event a)) audit_log_fromEntity t (audit_logs d) r"
| "discloses_only t (R_AuditLogs rs _) d =
     list_all (stored (\<lambda>a. ae_tenantId (al_event a)) audit_log_fromEntity t (audit_logs d)) rs"
| "discloses_only t (R_Csv _ csv) d =
     (\<exists>num rows. set rows \<subseteq> {a \<in> set (audit_logs d). ae_tenantId (al_event a) = t}
        \<and> csv = js_join [CHR 0x0A] (js_join '','' export_header # map (\<lambda>a. js_join '','' (map csvEscape (export_cells num a))) rows))"
| "discloses_only t (R_Operation _ r) d = stored op_tenantId operation_fromEntity t (operations d) r"
| "discloses_only t (R_Roles es) d = (es = getDefaultRoleMapping d \<or> es = getTenantRoleMapping t d)"
| "discloses_only t (R_RoleScopes r) d = (rsp_scopes r = role_scopes t (rsp_role r) d)"
| "discloses_only t (R_Scopes _) d = True"
| "discloses_only t R_Empty d = True"
| "discloses_only t _ d = False"

lemma storedI: "x \<in> set rows \<Longrightarrow> ten x = t \<Longrightarrow> stored ten view t rows (view x)"
  by (auto simp: stored_def)

lemma stored_all: "(\<And>x. x \<in> set xs \<Longrightarrow> x \<in> set rows \<and> ten x = t) \<Longrightarrow> list_all (stored ten view t rows) (map view xs)"
  by (auto simp: list_all_iff stored_def)

lemma in_insert: "tbl_insert key r rows = Some rows' \<Longrightarrow> r \<in> set rows'"
  by (auto simp: tbl_insert_def split: if_splits)

section \<open>What the services return\<close>

lemma shows_tns_update: assumes "tns_update now t dto d = Inr (x, d')" shows "x \<in> set (tenants d') \<and> t_id x = t"
proof -
  have "\<exists>(y :: tenant) z d1. tns_findById t d = Inr y \<and> tn_update now z d = Some d1 \<and> t_id z = t_id y \<and> x = z\<lparr>t_updatedAt := now\<rparr>
      \<and> tenants d' = tenants d1"
    using assms unfolding tns_update_def success_simps by (elim exE conjE) (auto simp: domain_audit_emit_def intro!: exI)
  then show ?thesis by (auto simp: tn_update_def tns_findById_def tn_findById_def find_Some_iff in_save split: option.splits if_splits)
qed

lemma shows_tns_updateConfig: assumes "tns_updateConfig env iv now t dto auth d = (Inr x, d')" shows "x \<in> set (tenants d') \<and> t_id x = t"
proof -
  have "\<exists>(y :: tenant) z d1 d2. tn_findById t d = Some y \<and> tn_update now z d1 = Some d2 \<and> t_id z = t_id y \<and> x = z\<lparr>t_updatedAt := now\<rparr>
      \<and> tenants d' = tenants d2"
    using assms unfolding tns_updateConfig_def Let_def
    by (auto simp: domain_audit_emit_def split: option.splits sum.splits prod.splits if_splits intro!: exI)
  then show ?thesis by (auto simp: tn_update_def tn_findById_def find_Some_iff in_save split: if_splits)
qed

lemma shows_tns_find:
  "tns_findById s d = Inr x \<Longrightarrow> x \<in> set (tenants d)" "tns_findBySlug s d = Inr x \<Longrightarrow> x \<in> set (tenants d)"
  by (auto simp: tns_findById_def tns_findBySlug_def tn_findById_def tn_findBySlug_def find_Some_iff split: option.splits)

lemma shows_invite: "tus_invite i c now b t dto d = Inr (x, d') \<Longrightarrow> x \<in> set (tenant_users d') \<and> u_tenantId x = t"
  by (auto simp: tus_invite_def tu_create_def Let_def domain_audit_emit_def dest!: in_insert split: if_splits option.splits)

lemma shows_page: "x \<in> set (fst (page_of key crop limit (after_cursor key' c rows))) \<Longrightarrow> x \<in> set rows"
  by (auto simp: page_of_def after_cursor_def Let_def split: option.splits if_splits dest!: in_set_takeD)

lemma shows_tus_update:
  assumes "tus_update now t i dto caller d = Inr (x, d')" shows "x \<in> set (tenant_users d') \<and> u_tenantId x = t"
proof -
  obtain u where u: "tus_update_check t i dto caller d = Inr u" "tus_update_write now dto u d = Inr (x, d')"
    using assms by (auto simp: tus_update_def rbind_eq_Inr)
  have "u_tenantId u = t" using u(1) tu_found by (auto simp: tus_update_check_def split: option.splits if_splits)
  moreover have "tenant_users d' = tbl_save u_id x (tenant_users d)" "u_tenantId x = u_tenantId u"
    using u(2) by (auto simp: tus_update_write_def tu_update_def Let_def domain_audit_emit_def update_fields_def split: option.splits if_splits)
  ultimately show ?thesis by (simp add: in_save)
qed

lemma shows_oc_update: "oc_update c d = Some d' \<Longrightarrow> c \<in> set (oauth_clients d')"
  by (auto simp: oc_update_def in_save split: if_splits)

lemma shows_createClient:
  assumes "createClient cfg ar i hex s sa c t dto auth d = Inr ((x, sec), d')" shows "x \<in> set (oauth_clients d') \<and> oc_tenantId x = t"
proof -
  have "oc_create x d = Some d' \<and> oc_tenantId x = t"
    using assms unfolding createClient_def success_simps by (elim exE conjE) auto
  then show ?thesis by (auto simp: oc_create_def dest!: in_insert split: if_splits)
qed

lemma shows_ocs_update:
  assumes "ocs_update cfg t i dto auth d = Inr (x, d')" shows "x \<in> set (oauth_clients d') \<and> oc_tenantId x = t"
proof -
  have "\<exists>c :: oauth_client. requireTenantClient t i True d = Inr c \<and> oc_update x d = Some d' \<and> oc_tenantId x = oc_tenantId c"
    using assms unfolding ocs_update_def success_simps by (elim exE conjE) (auto intro!: exI)
  then show ?thesis using oc_found shows_oc_update by metis
qed

lemma shows_rotateSecret:
  assumes "rotateSecret ar s sa t i d = Inr ((x, sec), d')" shows "x \<in> set (oauth_clients d') \<and> oc_tenantId x = t"
proof -
  have "\<exists>c :: oauth_client. requireTenantClient t i True d = Inr c \<and> oc_update x d = Some d' \<and> oc_tenantId x = oc_tenantId c"
    using assms unfolding rotateSecret_def success_simps by (elim exE conjE) (auto intro!: exI)
  then show ?thesis using oc_found shows_oc_update by metis
qed

lemma shows_cns_create:
  assumes "cns_create i c now dto (Some auth) d = Inr (x, d')" "caller_of t auth" shows "x \<in> set (connections d') \<and> cn_tenantId x = t"
proof -
  have "\<exists>u d1. assertTenantAccess (Some auth) (cn_tenantId x) = Inr u \<and> cn_create x d = Some d1 \<and> connections d' = connections d1"
    using assms unfolding cns_create_def success_simps by (elim exE conjE) (auto simp: domain_audit_emit_def intro!: exI)
  then show ?thesis using caller_access [OF assms(2)] by (auto simp: cn_create_def dest!: in_insert split: if_splits)
qed

lemma shows_cns_find:
  assumes "caller_of t auth"
  shows "cns_findById i (Some auth) d = Inr x \<Longrightarrow> x \<in> set (connections d) \<and> cn_tenantId x = t"
    and "cns_findByExternalConnectionId e (Some auth) d = Inr x \<Longrightarrow> x \<in> set (connections d) \<and> cn_tenantId x = t"
  by (auto simp: cns_findById_def cns_findByExternalConnectionId_def cn_findById_def cn_findByExternalConnectionId_def Let_def rbind_eq_Inr
      split: option.splits dest: tbl_find_Some caller_resource [OF assms])

lemma shows_cns_update:
  assumes "cns_update now i dto (Some auth) d = Inr (x, d')" "caller_of t auth" shows "x \<in> set (connections d') \<and> cn_tenantId x = t"
proof -
  have "\<exists>c :: connection. cns_findById i (Some auth) d = Inr c \<and> connections d' = tbl_save cn_id x (connections d) \<and> cn_tenantId x = cn_tenantId c"
    using assms unfolding cns_update_def success_simps by (elim exE conjE) (auto simp: domain_audit_emit_def cn_update_def intro!: exI)
  then show ?thesis using shows_cns_find(1) [OF assms(2)] by (auto simp: in_save)
qed

lemma shows_cds_create:
  assumes "cds_create num reg i c now t dto auth d = Inr (x, d')" shows "x \<in> set (credential_definitions d') \<and> cd_tenantId x = t"
proof -
  have "\<exists>d1. cd_create x d = Some d1 \<and> credential_definitions d' = credential_definitions d1 \<and> cd_tenantId x = t"
    using assms unfolding cds_create_def success_simps by (elim exE conjE) (auto simp: domain_audit_emit_def intro!: exI)
  then show ?thesis by (auto simp: cd_create_def dest!: in_insert split: if_splits)
qed

lemma shows_cds_find: "cds_findById t i auth d = Inr x \<Longrightarrow> x \<in> set (credential_definitions d) \<and> cd_tenantId x = t"
  by (auto simp: find_Some_iff cds_findById_def cd_findById_def Let_def rbind_eq_Inr split: option.splits if_splits)

lemma shows_cds_update:
  assumes "cds_update now t i dto auth d = Inr (x, d')" shows "x \<in> set (credential_definitions d') \<and> cd_tenantId x = t"
proof -
  have "\<exists>(c :: credential_definition) c' d1. cds_findById t i auth d = Inr c \<and> cd_update now c' d = Some d1 \<and> x = c'\<lparr>cd_updatedAt := now\<rparr>
      \<and> credential_definitions d' = credential_definitions d1 \<and> cd_tenantId c' = cd_tenantId c"
    using assms unfolding cds_update_def success_simps by (elim exE conjE) (auto simp: domain_audit_emit_def intro!: exI)
  then show ?thesis using shows_cds_find by (auto simp: cd_update_def Let_def in_save split: if_splits)
qed

text \<open>Operations.\<close>

lemma shows_transition:
  assumes "transitionState now i state res d = Inr (x, d')" "op_owned t i d"
  shows "x \<in> set (operations d') \<and> op_tenantId x = t"
proof -
  have "\<exists>(y :: operation) z. op_findById i d = Some y \<and> op_save now z d = (x, d') \<and> op_tenantId z = op_tenantId y"
    using assms(1) unfolding transitionState_def success_simps by (elim exE conjE) (auto intro!: exI)
  then obtain y z where y: "op_findById i d = Some y" and z: "op_save now z d = (x, d')" "op_tenantId z = op_tenantId y" by blast
  have "y \<in> set (operations d)" "op_id y = i" using y tbl_find_Some [of op_id i "operations d" y] by (simp_all add: op_findById_def)
  then have "op_tenantId y = t" using assms(2) by (simp add: owned_def)
  then show ?thesis using z by (auto simp: op_save_def Let_def in_save)
qed

lemma emits_operations [simp]: "operations (emit_hold t x a s d) = operations d" "operations (emit_revoke t c s d) = operations d"
  by (simp_all add: emit_hold_def emit_revoke_def domain_audit_emit_def)

lemma shows_catch:
  assumes "catch_adapter_error now i emit e d = (Inr x, d')" "op_owned t i d" "\<And>s d. operations (emit s d) = operations d"
  shows "x \<in> set (operations d') \<and> op_tenantId x = t"
  using assms shows_transition [OF _ assms(2)] by (auto simp: catch_adapter_error_def split: call_error.splits sum.splits)

lemma shows_try_action:
  assumes "try_action env now action t xid ext y d = (Inr x, d')" "op_owned t (op_id y) d"
  shows "x \<in> set (operations d') \<and> op_tenantId x = t"
proof -
  obtain r d2 where r: "ar_resolve (ag_show env) (ag_ar env) (ag_adapters env) now t None no_options d = (r, d2)" by force
  have o: "op_owned t (op_id y) d2"
    using resolve_op_owned [OF assms(2), of "ag_show env" "ag_ar env" "ag_adapters env" now t None no_options] r by simp
  show ?thesis using assms(1) shows_transition [OF _ o] shows_catch [OF _ o, of now "emit_hold t xid action"]
    unfolding try_action_def Let_def r by (auto split: sum.splits prod.splits)
qed

lemma shows_perform: assumes "perform env st action t xid d = (Inr x, d')" shows "x \<in> set (operations d') \<and> op_tenantId x = t"
proof -
  have "\<exists>ext y d1. createOperation (os_id st) (os_created st) (os_now st) (action_input action t xid ext) d = Inr (y, d1)
      \<and> try_action env (os_now st) action t xid ext y d1 = (Inr x, d')"
    using assms by (auto simp: perform_def Let_def split: option.splits sum.splits if_splits)
  then show ?thesis using keeps_createOperation [where t = t] shows_try_action by (fastforce simp: action_input_def)
qed

lemma cr_updateState_operations [simp]: "operations (cr_updateState now i s a b d) = operations d"
  by (simp add: cr_updateState_def)

lemma shows_settle:
  assumes "settle_revoke now t c y r d = (Inr x, d')" "op_owned t (op_id y) d"
  shows "x \<in> set (operations d') \<and> op_tenantId x = t"
  using assms shows_transition [of now "op_id y"] by (auto simp: settle_revoke_def Let_def split: sum.splits if_splits)

lemma shows_try_revoke:
  assumes "try_revoke env now t c ext y d = (Inr x, d')" "op_owned t (op_id y) d"
  shows "x \<in> set (operations d') \<and> op_tenantId x = t"
proof -
  obtain r d2 where r: "ar_resolve (ag_show env) (ag_ar env) (ag_adapters env) now t None (revoke_options c) d = (r, d2)" by force
  have o: "op_owned t (op_id y) d2"
    using resolve_op_owned [OF assms(2), of "ag_show env" "ag_ar env" "ag_adapters env" now t None "revoke_options c"] r by simp
  show ?thesis using assms(1) shows_settle [OF _ o] shows_catch [OF _ o, of now "emit_revoke t (cr_id c)"]
    unfolding try_revoke_def Let_def r by (auto split: sum.splits prod.splits)
qed

lemma shows_revoke: assumes "crs_revoke env st t i d = (Inr x, d')" shows "x \<in> set (operations d') \<and> op_tenantId x = t"
proof -
  have "\<exists>c ext y d1. createOperation (os_id st) (os_created st) (os_now st) (revoke_input t i ext) d = Inr (y, d1)
      \<and> try_revoke env (os_now st) t c ext y d1 = (Inr x, d')"
    using assms by (fastforce simp: crs_revoke_def split: sum.splits)
  then show ?thesis using keeps_createOperation [where t = t] shows_try_revoke by (fastforce simp: revoke_input_def)
qed

text \<open>Connectors: a rotation changes no identifying column of any row.\<close>

definition cores :: "db \<Rightarrow> (string \<times> string \<times> connector_type \<times> string \<times> bool) set" where
  "cores d = (\<lambda>c. connector_core (connector_fromEntity c)) ` set (connector_credentials d)"

lemma core_eq: "same_connector c c' \<longleftrightarrow> connector_core (connector_fromEntity c) = connector_core (connector_fromEntity c')"
  by (simp add: same_connector_def connector_core_def connector_fromEntity_def)

lemma shows_connectorI: "connector_core (connector_fromEntity c) \<in> cores d \<Longrightarrow> cc_tenantId c = t \<Longrightarrow> shows_connector t d (connector_fromEntity c)"
  by (force simp: stored_def cores_def connector_core_def connector_fromEntity_def)

lemma cores_update:
  assumes "\<And>c. connector_core (connector_fromEntity ((f c)\<lparr>cc_updatedAt := now\<rparr>)) = connector_core (connector_fromEntity c)"
  shows "cores (snd (cc_update now i f d)) = cores d"
proof -
  let ?v = "\<lambda>c. connector_core (connector_fromEntity c)"
  have "map ?v (connector_credentials (snd (cc_update now i f d))) = map ?v (connector_credentials d)"
    by (simp add: cc_update_def Let_def tbl_update_def assms)
  then show ?thesis unfolding cores_def by (metis set_map)
qed

lemma lazyRotate_cores: "lazyRotateKeyIfNeeded env iv now c d = Inr (c', d') \<Longrightarrow> cores d' = cores d"
  by (auto simp: lazyRotateKeyIfNeeded_def connector_core_def connector_fromEntity_def split: sum.splits bool.split_asm intro!: cores_update)

lemma rotate_all_cores: "cores (snd (rotate_all env ivs now cs d)) = cores d"
proof (induction env ivs now cs d rule: rotate_all.induct)
  case (2 env ivs now c cs d)
  show ?case
  proof (cases "lazyRotateKeyIfNeeded env (ivs (cc_id c)) now c d")
    case (Inl e)
    then show ?thesis using 2(1) by simp
  next
    case (Inr p)
    obtain c' d' where p: "p = (c', d')" by force
    have "lazyRotateKeyIfNeeded env (ivs (cc_id c)) now c d = Inr (c', d')" using Inr p by simp
    from 2(2) [OF Inr p [symmetric]] lazyRotate_cores [OF this]
    have "cores (snd (rotate_all env ivs now cs d')) = cores d" by (rule trans)
    moreover have "snd (rotate_all env ivs now (c # cs) d) = snd (rotate_all env ivs now cs d')"
      unfolding rotate_all.simps Inr p by (simp split: sum.split prod.split)
    ultimately show ?thesis by simp
  qed
qed simp

lemma shows_rotated:
  assumes "lazyRotateKeyIfNeeded env iv now c d = Inr (c', d')" "c \<in> set (connector_credentials d)" "cc_tenantId c = t"
  shows "shows_connector t d' (connector_fromEntity c')"
proof (rule shows_connectorI)
  have "same_connector c c'" by (rule lazyRotate_same [OF assms(1)])
  then show "cc_tenantId c' = t" using assms(3) by (simp add: same_connector_def)
  have "connector_core (connector_fromEntity c') = connector_core (connector_fromEntity c)"
    using \<open>same_connector c c'\<close> by (simp add: core_eq)
  then show "connector_core (connector_fromEntity c') \<in> cores d'"
    using assms(2) lazyRotate_cores [OF assms(1)] unfolding cores_def by auto
qed

lemma shows_ccs_find:
  assumes "ccs_findById env iv now i (Some auth) d = Inr (c, d')" "caller_of t auth"
  shows "shows_connector t d' (connector_fromEntity c)"
proof -
  obtain c0 where c0: "cc_find i d = Some c0" "lazyRotateKeyIfNeeded env iv now c0 d = Inr (c, d')" "cc_tenantId c0 = t"
    using assms(1) by (auto simp: ccs_findById_def rbind_eq_Inr split: option.splits dest: caller_resource [OF assms(2)])
  show ?thesis using shows_rotated [OF c0(2) _ c0(3)] c0(1) tbl_find_Some by (fastforce simp: cc_find_def)
qed

lemma shows_ccs_findByTenant:
  assumes "ccs_findByTenant env ivs now t d = (Inr cs, d')"
  shows "list_all (shows_connector t d') (map connector_fromEntity cs)"
proof -
  let ?rows = "cc_findWhere (\<lambda>c. cc_tenantId c = t) d"
  have r: "rotate_all env ivs now ?rows d = (Inr cs, d')" using assms by (simp add: ccs_findByTenant_def)
  have "cores d' = cores d" using rotate_all_cores [of env ivs now ?rows d] r by simp
  moreover have "shows_connector t d' (connector_fromEntity c)" if c: "c \<in> set cs" for c
  proof -
    obtain x where x: "x \<in> set ?rows" "same_connector x c"
      using rotate_all_same [OF r] c by (metis in_set_conv_nth list_all2_conv_all_nth)
    have m: "x \<in> set (connector_credentials d)" "cc_tenantId x = t" using x(1) by (auto simp: cc_findWhere_def)
    have "connector_core (connector_fromEntity c) = connector_core (connector_fromEntity x)" using x(2) by (simp add: core_eq)
    then have "connector_core (connector_fromEntity c) \<in> cores d'" using m(1) \<open>cores d' = cores d\<close> unfolding cores_def by auto
    then show ?thesis using m(2) x(2) by (intro shows_connectorI) (simp_all add: same_connector_def)
  qed
  ultimately show ?thesis by (simp add: list_all_iff)
qed

lemma shows_ccs_create:
  assumes "ccs_create env iv i cr now t ty url creds auth d = Inr (c, d')"
  shows "shows_connector t d' (connector_fromEntity c)"
proof -
  have "\<exists>rows. tbl_insert cc_id c (connector_credentials d) = Some rows \<and> d' = d\<lparr>connector_credentials := rows\<rparr> \<and> cc_tenantId c = t"
    using assms unfolding ccs_create_def success_simps by (elim exE conjE) (auto split: sum.splits option.splits)
  then show ?thesis by (auto simp: stored_def dest!: in_insert)
qed

lemma shows_ccs_update:
  assumes "ccs_update env iv iv2 iv3 now i dto (Some auth) d = (Inr c, d')" "caller_of t auth" "db_keys d"
  shows "shows_connector t d' (connector_fromEntity c)"
proof (cases "ccs_findById env iv now i (Some auth) d")
  case (Inl e)
  then show ?thesis using assms(1) by (simp add: ccs_update_def)
next
  case (Inr p)
  obtain c0 d1 where p: "ccs_findById env iv now i (Some auth) d = Inr (c0, d1)" using Inr by (cases p) auto
  have "\<exists>enc c1 d2. cc_update now i (cc_updates dto enc) d1 = (Some c1, d2) \<and> lazyRotateKeyIfNeeded env iv3 now c1 d2 = Inr (c, d')"
    using assms(1) unfolding ccs_update_def p Let_def by (auto split: sum.splits option.splits prod.splits)
  then obtain enc c1 d2 where u: "cc_update now i (cc_updates dto enc) d1 = (Some c1, d2)"
    and l: "lazyRotateKeyIfNeeded env iv3 now c1 d2 = Inr (c, d')" by blast
  have o: "cc_owned t i d2"
    using cc_owned_update [of "cc_updates dto enc" t i d1 now i] cc_updates_same ccs_find_parts [OF p assms(2)] assms(3) u by simp
  have "cc_find i d2 = Some c1" using u by (auto simp: cc_update_def Let_def)
  then have "c1 \<in> set (connector_credentials d2)" "cc_id c1 = i" using tbl_find_Some [of cc_id i "connector_credentials d2" c1] by (simp_all add: cc_find_def)
  then show ?thesis using shows_rotated [OF l] o by (simp add: owned_def)
qed

text \<open>An operation that is polled, and the scopes of a role after a write.\<close>

lemma shows_getForTenant:
  assumes "getForTenant now t i d = Inr (x, d')" "db_keys d"
  shows "stored op_tenantId operation_fromEntity t (operations d') (operation_fromEntity x)"
proof -
  obtain y where y: "op_findByIdForTenant i t d = Some y" and v: "x = y \<and> d' = d \<or> op_viewedAt y = None \<and> applyViewed now y d = Inr (x, d')"
    using assms(1) by (auto simp: getForTenant_def split: option.splits if_splits)
  have r: "y \<in> set (operations d)" "op_tenantId y = t" using y by (auto simp: op_findByIdForTenant_def find_Some_iff)
  from v show ?thesis
  proof (elim disjE conjE)
    assume n: "op_viewedAt y = None" and a: "applyViewed now y d = Inr (x, d')"
    have "list_ex (\<lambda>z. op_id z = op_id y \<and> op_viewedAt z = None) (operations d)" using r n by (auto simp: list_ex_iff)
    then obtain e where "x = y\<lparr>op_viewedAt := Some now, op_expiresAt := e\<rparr>" "d' = d\<lparr>operations := tbl_update (\<lambda>z. op_id z = op_id y \<and> op_viewedAt z = None)
         (\<lambda>z. z\<lparr>op_viewedAt := Some now, op_expiresAt := e\<rparr>) (operations d)\<rparr>"
      using a by (auto simp: applyViewed_def markFirstView_def rbind_eq_Inr split: option.splits)
    then show ?thesis using r n unfolding stored_def by (intro bexI [of _ x]) (auto simp: set_tbl_update)
  qed (use r in \<open>auto intro: storedI\<close>)
qed

lemma shows_writeMapping:
  assumes "writeMapping stamps id rq source action w d = (Inr res, d')" "wr_tenantId rq = t"
    and "\<And>scopes d1. w d = Some (scopes, d1) \<Longrightarrow> role_scopes t (wr_role rq) d1 = scopes"
  shows "wres_scopes res = role_scopes t (wres_role res) d'"
proof -
  obtain res0 narrowed d1 where tx: "writeMapping_tx (fst (fst stamps)) (snd (fst stamps)) rq source action w d = Inr ((res0, narrowed), d1)"
    and sw: "writeMapping_sweep (fst (snd stamps)) (snd (snd stamps)) rq res0 narrowed d1 = (Inr res, d')"
    using assms(1) by (auto simp: writeMapping_def split: sum.splits prod.splits)
  have role: "wres_role res0 = wr_role rq"
    using tx unfolding writeMapping_tx_def Let_def
    by (auto simp: rbind_eq_Inr case_prod_beta split: option.splits if_splits)
  have s: "tenant_role_scopes d' = tenant_role_scopes d1" "role_scope_defaults d' = role_scope_defaults d1"
    "wres_scopes res = wres_scopes res0" "wres_role res = wres_role res0"
  proof -
    have r: "tenant_role_scopes d2 = tenant_role_scopes d1 \<and> role_scope_defaults d2 = role_scope_defaults d1"
      if "revokeAffectedSessions a b d1 = (n, d2)" for a b n d2
      using that unfolding revokeAffectedSessions_def deleteAllForTenantRole_def om_delete_where_def Let_def by auto
    show "tenant_role_scopes d' = tenant_role_scopes d1" "role_scope_defaults d' = role_scope_defaults d1"
      "wres_scopes res = wres_scopes res0" "wres_role res = wres_role res0"
      using sw by (auto simp: writeMapping_sweep_def Let_def split: if_splits prod.splits sum.splits dest!: r al_insert_frame)
  qed
  have same: "role_scopes t r a = role_scopes t r b"
    if "tenant_role_scopes a = tenant_role_scopes b" "role_scope_defaults a = role_scope_defaults b" for r a b
    using that by (simp add: role_scopes_def findTenantOverride_def default_scopes_def split: option.split)
  obtain scopes d0 where "w d = Some (scopes, d0)" "wres_scopes res0 = scopes"
    "tenant_role_scopes d1 = tenant_role_scopes d0" "role_scope_defaults d1 = role_scope_defaults d0"
    using writeMapping_tx_ok [OF tx] by blast
  then show ?thesis using assms(3) s role same [of d' d0 "wr_role rq"] by simp
qed

lemma shows_replaceRoleScopes:
  assumes "replaceRoleScopes stamps id rq scopes d = (Inr res, d')" "wr_tenantId rq = t"
  shows "wres_scopes res = role_scopes t (wres_role res) d'"
  using assms upsert_role_scopes(1)
  by (auto simp: replaceRoleScopes_def Let_def split: sum.splits intro!: shows_writeMapping)

lemma shows_resetRoleScopes:
  assumes "resetRoleScopes stamps id rq d = (Inr res, d')" "wr_tenantId rq = t"
  shows "wres_scopes res = role_scopes t (wres_role res) d'"
  using assms reset_role_scopes(1,3)
  by (auto simp: resetRoleScopes_def lookup_default default_scopes_def split: sum.splits intro!: shows_writeMapping)

section \<open>Through the guards\<close>

lemma yields_tenant_limited:
  assumes "authenticated auth call rq" "caller_of t auth" "db_keys d"
    and "\<And>rq' d'. called_for t auth rq' \<Longrightarrow> (\<And>s. resolveRouteTenantId rq = Some s \<Longrightarrow> s = t) \<Longrightarrow> db_keys d' \<Longrightarrow> yields Q (k rq' d')"
  shows "yields Q (tenant_limited env st meta cls hdl rq k d)"
  unfolding tenant_limited_def
proof (rule yields_guarded, rule yields_tier_limited)
  fix rq' d' assume r: "tenant_route meta d rq = Inr rq'" and h: "hit_step rq' d d'"
  from tenant_route_caller [OF r _ assms(2)] assms(1)
  show "yields Q (k rq' d')" by (auto simp: authenticated_def intro: assms(4) hit_step_keys [OF h assms(3)])
qed

lemma yields_user_guards:
  assumes "authenticated auth call rq" "caller_of t auth"
    and "\<And>rq'. called_for t auth rq' \<Longrightarrow> (\<And>s. resolveRouteTenantId rq = Some s \<Longrightarrow> s = t) \<Longrightarrow> yields Q (k rq' d)"
  shows "yields Q (user_guards rq k d)"
  unfolding user_guards_def
proof (rule yields_guarded)
  fix rq' assume r: "tenant_user_route users_meta d rq = Inr rq'"
  from tenant_user_route_caller [OF r _ assms(2)] assms(1)
  show "yields Q (k rq' d)" by (auto simp: authenticated_def intro: assms(3))
qed

lemma yields_tenant_guards:
  assumes "authenticated auth call rq" "\<And>rq'. rq_auth rq' = Some auth \<Longrightarrow> yields Q (k rq' d)"
  shows "yields Q (tenant_guards meta rq k d)"
  unfolding tenant_guards_def
proof (rule yields_guarded)
  fix rq' assume "rbind (ScopeGuard meta rq) (TenantStatusGuard d) = Inr rq'"
  then have "rq' = rq" using ScopeGuard_Ok TenantStatusGuard_Ok by (fastforce simp: rbind_eq_Inr)
  then show "yields Q (k rq' d)" using assms by (auto simp: authenticated_def)
qed

lemma yields_platform_guards:
  assumes "authenticated auth call rq" "caller_of t auth"
  shows "yields Q (tenant_guards platform_only rq k d)" "yields Q (admin_guards rq k d)"
  using platform_refused [OF assms(2), of rq] assms(1)
  by (auto simp: tenant_guards_def admin_guards_def guarded_def authenticated_def yields_def)

text \<open>On a route with a tenant in its path, a path that the pipe accepts names the tenant of the caller.\<close>

lemma path_names_tenant:
  assumes "authenticated auth call rq" "uuid_shape (en_val env)" "path_tenantId call = Some s" "\<And>x. resolveRouteTenantId rq = Some x \<Longrightarrow> x = t"
  shows "uuid env s \<or> vl_isUUID (en_val env) s \<longrightarrow> s = t"
  using path_tenant [OF assms(1,2,4,3)] by blast

lemma yields_path_limited:
  assumes "authenticated auth call rq" "caller_of t auth" "uuid_shape (en_val env)" "db_keys d" "path_tenantId call = Some s"
    and "\<And>rq' d'. rq_auth rq' = Some auth \<Longrightarrow> uuid env s \<or> vl_isUUID (en_val env) s \<longrightarrow> s = t \<Longrightarrow> db_keys d' \<Longrightarrow> yields Q (k rq' d')"
  shows "yields Q (tenant_limited env st meta cls hdl rq k d)"
proof (rule yields_tenant_limited [OF assms(1,2,4)])
  fix rq' d' assume "called_for t auth rq'" "db_keys d'" and p: "\<And>s. resolveRouteTenantId rq = Some s \<Longrightarrow> s = t"
  then show "yields Q (k rq' d')" using assms(6) path_names_tenant [OF assms(1,3,5) p] by (simp add: called_for_def)
qed

lemma yields_path_users:
  assumes "authenticated auth call rq" "caller_of t auth" "uuid_shape (en_val env)" "path_tenantId call = Some s"
    and "\<And>rq'. rq_auth rq' = Some auth \<Longrightarrow> uuid env s \<or> vl_isUUID (en_val env) s \<longrightarrow> s = t \<Longrightarrow> yields Q (k rq' d)"
  shows "yields Q (user_guards rq k d)"
proof (rule yields_user_guards [OF assms(1,2)])
  fix rq' assume "called_for t auth rq'" and p: "\<And>s. resolveRouteTenantId rq = Some s \<Longrightarrow> s = t"
  then show "yields Q (k rq' d)" using assms(5) path_names_tenant [OF assms(1,3,4) p] by (simp add: called_for_def)
qed

section \<open>Disclosure by the routes\<close>

lemma shows_tenant_routes:
  assumes "authenticated auth call rq" "caller_of t auth"
  shows "yields (discloses_only t) (TenantController_update env st rq s dto d)"
    and "yields (discloses_only t) (TenantController_updateConfig env st rq s dto' d)"
    and "yields (discloses_only t) (TenantController_list env rq l c d)"
    and "yields (discloses_only t) (TenantController_findById env rq s d)"
    and "yields (discloses_only t) (TenantController_findBySlug rq s d)"
proof -
  note g = yields_tenant_guards [OF assms(1)]
  show "yields (discloses_only t) (TenantController_update env st rq s dto d)" unfolding handler_defs
    by (intro g yields_validated yields_respond)
      (auto simp: rbind_eq_Inr dest!: caller_access [OF assms(2)] shows_tns_update intro: storedI)
  show "yields (discloses_only t) (TenantController_updateConfig env st rq s dto' d)" unfolding handler_defs
    by (intro g yields_validated yields_respond_st)
      (auto split: sum.splits dest!: caller_access [OF assms(2)] shows_tns_updateConfig intro: storedI)
  show "yields (discloses_only t) (TenantController_list env rq l c d)" unfolding handler_defs
  proof (intro g yields_validated yields_respond_read)
    fix rq' x assume rq': "rq_auth rq' = Some auth" and x: "(let empty = R_Tenants [] (pagination_from None False) in
          case rq_auth rq' of None \<Rightarrow> Ok empty
          | Some auth \<Rightarrow> if PLATFORM_ADMIN_ROLE \<in> set (ac_roles auth)
              then rbind (resolve_cursor env c) (\<lambda>c. Ok (tenant_page (tns_list l c d)))
              else (case ac_tenantId auth of None \<Rightarrow> Ok empty
                | Some t \<Rightarrow> if t = [] then Ok empty
                    else rbind (tns_findById t d) (\<lambda>tn. Ok (R_Tenants [tenant_fromEntity tn] (pagination_from None False))))) = Inr x"
    have "PLATFORM_ADMIN_ROLE \<notin> set (ac_roles auth)" "\<And>s. ac_tenantId auth = Some s \<Longrightarrow> s = t"
      using assms(2) by (auto simp: caller_of_def)
    then show "discloses_only t (id x) d" using x rq'
      by (auto simp: Let_def rbind_eq_Inr tns_findById_def tn_findById_def find_Some_iff split: option.splits if_splits intro!: storedI)
  qed
  show "yields (discloses_only t) (TenantController_findById env rq s d)"
    and "yields (discloses_only t) (TenantController_findBySlug rq s d)" unfolding handler_defs
    by (intro g yields_validated yields_respond_read; auto simp: rbind_eq_Inr dest!: caller_access [OF assms(2)] dest: shows_tns_find intro: storedI)+
qed

lemma shows_user_routes:
  assumes "authenticated auth call rq" "caller_of t auth" "uuid_shape (en_val env)"
  shows "call = UserCreate s dto1 \<Longrightarrow> yields (discloses_only t) (TenantUserController_create env st rq s dto1 d)"
    and "call = UserList s l c \<Longrightarrow> yields (discloses_only t) (TenantUserController_list env rq s l c d)"
    and "call = UserUpdate s u dto2 \<Longrightarrow> yields (discloses_only t) (TenantUserController_update env st rq s u dto2 d)"
    and "call = UserDelete s u \<Longrightarrow> yields (discloses_only t) (TenantUserController_delete env rq s u d)"
proof -
  note g = yields_path_users [OF assms(1,2,3), of s]
  have page: "list_all (stored u_tenantId tenant_user_fromEntity t (tenant_users d)) (map tenant_user_fromEntity (fst (tus_list t l c d)))" for l c
    by (rule stored_all) (auto simp: tus_list_def tu_findPageForTenant_def dest!: shows_page)
  show "yields (discloses_only t) (TenantUserController_create env st rq s dto1 d)" if "call = UserCreate s dto1" unfolding handler_defs
    by (intro g yields_validated yields_respond) (use that in \<open>auto dest!: shows_invite intro: storedI\<close>)
  show "yields (discloses_only t) (TenantUserController_list env rq s l c d)" if "call = UserList s l c" unfolding handler_defs
    by (intro g yields_validated yields_respond_read) (use that page in \<open>auto simp: rbind_eq_Inr Let_def\<close>)
  show "yields (discloses_only t) (TenantUserController_update env st rq s u dto2 d)" if "call = UserUpdate s u dto2" unfolding handler_defs
    by (intro g yields_validated yields_respond) (use that in \<open>auto dest!: shows_tus_update intro: storedI\<close>)
  show "yields (discloses_only t) (TenantUserController_delete env rq s u d)" if "call = UserDelete s u" unfolding handler_defs
    by (intro g yields_validated yields_respond) (use that in auto)
qed

lemma shows_client_routes:
  assumes "authenticated auth call rq" "caller_of t auth" "uuid_shape (en_val env)" "db_keys d"
  shows "call = ClientCreate s dto1 \<Longrightarrow> yields (discloses_only t) (OAuthClientController_createClient env st rq s dto1 d)"
    and "call = ClientFindByTenant s \<Longrightarrow> yields (discloses_only t) (OAuthClientController_findByTenant env st rq s d)"
    and "call = ClientUpdate s c dto2 \<Longrightarrow> yields (discloses_only t) (OAuthClientController_update env st rq s c dto2 d)"
    and "call = ClientRevoke s c \<Longrightarrow> yields (discloses_only t) (OAuthClientController_revokeClient env st rq s c d)"
    and "call = ClientRotateSecret s c \<Longrightarrow> yields (discloses_only t) (OAuthClientController_rotateSecret env st rq s c d)"
proof -
  note g = yields_path_limited [OF assms(1-4), of s]
  show "yields (discloses_only t) (OAuthClientController_createClient env st rq s dto1 d)" if "call = ClientCreate s dto1"
    unfolding handler_defs guard_defs
    by (intro g yields_validated yields_respond) (use that in \<open>auto simp: create_client_from_def dest!: shows_createClient intro: storedI\<close>)
  show "yields (discloses_only t) (OAuthClientController_findByTenant env st rq s d)" if "call = ClientFindByTenant s"
    unfolding handler_defs guard_defs
    by (intro g yields_validated yields_respond_read) (use that in \<open>auto simp: oc_findByTenant_def intro!: stored_all\<close>)
  show "yields (discloses_only t) (OAuthClientController_update env st rq s c dto2 d)" if "call = ClientUpdate s c dto2"
    unfolding handler_defs guard_defs
    by (intro g yields_validated yields_respond) (use that in \<open>auto dest!: shows_ocs_update intro: storedI\<close>)
  show "yields (discloses_only t) (OAuthClientController_revokeClient env st rq s c d)" if "call = ClientRevoke s c"
    unfolding handler_defs guard_defs by (intro g yields_validated yields_respond) (use that in auto)
  show "yields (discloses_only t) (OAuthClientController_rotateSecret env st rq s c d)" if "call = ClientRotateSecret s c"
    unfolding handler_defs guard_defs
    by (intro g yields_validated yields_respond) (use that in \<open>auto simp: create_client_from_def dest!: shows_rotateSecret intro: storedI\<close>)
qed

lemma shows_connection_routes:
  assumes "authenticated auth call rq" "caller_of t auth" "uuid_shape (en_val env)" "db_keys d"
  shows "call = ConnCreate dto1 \<Longrightarrow> yields (discloses_only t) (ConnectionController_create env st rq dto1 d)"
    and "call = ConnFindByTenant s cs \<Longrightarrow> yields (discloses_only t) (ConnectionController_findByTenantId env st rq s cs d)"
    and "call = ConnFindByExternal e \<Longrightarrow> yields (discloses_only t) (ConnectionController_findByExternalConnectionId env st rq e d)"
    and "call = ConnFindById c \<Longrightarrow> yields (discloses_only t) (ConnectionController_findById env st rq c d)"
    and "call = ConnUpdate c dto2 \<Longrightarrow> yields (discloses_only t) (ConnectionController_update env st rq c dto2 d)"
    and "call = ConnDelete c \<Longrightarrow> yields (discloses_only t) (ConnectionController_delete env st rq c d)"
proof -
  note g = yields_path_limited [OF assms(1-4), of s]
  note h = yields_tenant_limited [OF assms(1,2,4)]
  show "yields (discloses_only t) (ConnectionController_create env st rq dto1 d)" if "call = ConnCreate dto1"
    unfolding handler_defs guard_defs by (intro h yields_validated yields_respond) (use that in \<open>auto simp: called_for_def dest!: shows_cns_create [OF _ assms(2)] intro: storedI\<close>)
  show "yields (discloses_only t) (ConnectionController_findByTenantId env st rq s cs d)" if "call = ConnFindByTenant s cs"
    unfolding handler_defs guard_defs by (intro g yields_validated yields_respond_read) (use that in \<open>auto simp: cn_findByTenantId_def cn_findByTenantIdAndState_def split: option.splits intro!: stored_all\<close>)
  show "yields (discloses_only t) (ConnectionController_findByExternalConnectionId env st rq e d)" if "call = ConnFindByExternal e"
    unfolding handler_defs guard_defs by (intro h yields_respond_read) (use that in \<open>auto simp: called_for_def dest!: shows_cns_find(2) [OF assms(2)] intro: storedI\<close>)
  show "yields (discloses_only t) (ConnectionController_findById env st rq c d)" if "call = ConnFindById c"
    unfolding handler_defs guard_defs by (intro h yields_validated yields_respond_read) (use that in \<open>auto simp: called_for_def dest!: shows_cns_find(1) [OF assms(2)] intro: storedI\<close>)
  show "yields (discloses_only t) (ConnectionController_update env st rq c dto2 d)" if "call = ConnUpdate c dto2"
    unfolding handler_defs guard_defs by (intro h yields_validated yields_respond) (use that in \<open>auto simp: called_for_def dest!: shows_cns_update [OF _ assms(2)] intro: storedI\<close>)
  show "yields (discloses_only t) (ConnectionController_delete env st rq c d)" if "call = ConnDelete c"
    unfolding handler_defs guard_defs by (intro h yields_validated yields_respond) (use that in \<open>auto\<close>)
qed

lemma shows_connector_routes:
  assumes "authenticated auth call rq" "caller_of t auth" "uuid_shape (en_val env)" "db_keys d"
  shows "call = ConnectorCreate s ty url cr \<Longrightarrow> yields (discloses_only t) (ConnectorCredentialController_create env st rq s ty url cr d)"
    and "call = ConnectorFindByTenant s \<Longrightarrow> yields (discloses_only t) (ConnectorCredentialController_findByTenant env st rq s d)"
    and "call = ConnectorFindById s c \<Longrightarrow> yields (discloses_only t) (ConnectorCredentialController_findById env st rq c d)"
    and "call = ConnectorUpdate s c dto1 \<Longrightarrow> yields (discloses_only t) (ConnectorCredentialController_update env st rq c dto1 d)"
    and "call = ConnectorDelete s c \<Longrightarrow> yields (discloses_only t) (ConnectorCredentialController_delete env st rq c d)"
    and "call = ConnectorTest s c \<Longrightarrow> yields (discloses_only t) (ConnectorCredentialController_test env st rq c d)"
proof -
  note g = yields_path_limited [OF assms(1-4), of s]
  note h = yields_tenant_limited [OF assms(1,2,4)]
  show "yields (discloses_only t) (ConnectorCredentialController_create env st rq s ty url cr d)" if "call = ConnectorCreate s ty url cr"
    unfolding handler_defs guard_defs by (intro g yields_validated yields_respond) (use that in \<open>auto dest!: shows_ccs_create\<close>)
  show "yields (discloses_only t) (ConnectorCredentialController_findByTenant env st rq s d)" if "call = ConnectorFindByTenant s"
    unfolding handler_defs guard_defs by (intro g yields_validated yields_respond_st) (use that in \<open>auto dest!: shows_ccs_findByTenant\<close>)
  show "yields (discloses_only t) (ConnectorCredentialController_findById env st rq c d)" if "call = ConnectorFindById s c"
    unfolding handler_defs guard_defs by (intro h yields_validated yields_respond) (use that in \<open>auto simp: called_for_def dest!: shows_ccs_find [OF _ assms(2)]\<close>)
  show "yields (discloses_only t) (ConnectorCredentialController_update env st rq c dto1 d)" if "call = ConnectorUpdate s c dto1"
    unfolding handler_defs guard_defs by (intro h yields_validated yields_respond_st) (use that in \<open>auto simp: called_for_def intro: shows_ccs_update [OF _ assms(2)]\<close>)
  show "yields (discloses_only t) (ConnectorCredentialController_delete env st rq c d)" if "call = ConnectorDelete s c"
    unfolding handler_defs guard_defs by (intro h yields_validated yields_respond_st) (use that in \<open>auto\<close>)
  show "yields (discloses_only t) (ConnectorCredentialController_test env st rq c d)" if "call = ConnectorTest s c"
    unfolding handler_defs guard_defs by (intro h yields_validated yields_respond_st) (use that in \<open>auto\<close>)
qed

lemma shows_definition_routes:
  assumes "authenticated auth call rq" "caller_of t auth" "uuid_shape (en_val env)" "db_keys d"
  shows "call = DefinitionCreate s dto1 \<Longrightarrow> yields (discloses_only t) (CredentialDefinitionController_create env st rq s dto1 d)"
    and "call = DefinitionFindByTenant s \<Longrightarrow> yields (discloses_only t) (CredentialDefinitionController_findByTenantId env st rq s d)"
    and "call = DefinitionFindByFormat s f \<Longrightarrow> yields (discloses_only t) (CredentialDefinitionController_findByFormat env st rq s f d)"
    and "call = DefinitionFindByConnector s ty \<Longrightarrow> yields (discloses_only t) (CredentialDefinitionController_findByConnector env st rq s ty d)"
    and "call = DefinitionFindById s c \<Longrightarrow> yields (discloses_only t) (CredentialDefinitionController_findById env st rq s c d)"
    and "call = DefinitionUpdate s c dto2 \<Longrightarrow> yields (discloses_only t) (CredentialDefinitionController_update env st rq s c dto2 d)"
    and "call = DefinitionDelete s c \<Longrightarrow> yields (discloses_only t) (CredentialDefinitionController_delete env st rq s c d)"
proof -
  note g = yields_path_limited [OF assms(1-4), of s]
  show "yields (discloses_only t) (CredentialDefinitionController_create env st rq s dto1 d)" if "call = DefinitionCreate s dto1"
    unfolding handler_defs guard_defs by (intro g yields_validated yields_respond) (use that in \<open>auto dest!: shows_cds_create intro: storedI\<close>)
  show "yields (discloses_only t) (CredentialDefinitionController_findByTenantId env st rq s d)" if "call = DefinitionFindByTenant s"
    unfolding handler_defs guard_defs by (intro g yields_validated yields_respond_read) (use that in \<open>auto simp: cd_findByTenantId_def intro!: stored_all\<close>)
  show "yields (discloses_only t) (CredentialDefinitionController_findByFormat env st rq s f d)" if "call = DefinitionFindByFormat s f"
    unfolding handler_defs guard_defs by (intro g yields_validated yields_respond_read) (use that in \<open>auto simp: cds_findByFormat_def cd_findByFormat_def intro!: stored_all\<close>)
  show "yields (discloses_only t) (CredentialDefinitionController_findByConnector env st rq s ty d)" if "call = DefinitionFindByConnector s ty"
    unfolding handler_defs guard_defs by (intro g yields_validated yields_respond_read) (use that in \<open>auto simp: cds_findByConnector_def cd_findByConnector_def intro!: stored_all\<close>)
  show "yields (discloses_only t) (CredentialDefinitionController_findById env st rq s c d)" if "call = DefinitionFindById s c"
    unfolding handler_defs guard_defs by (intro g yields_validated yields_respond_read) (use that in \<open>auto dest!: shows_cds_find intro: storedI\<close>)
  show "yields (discloses_only t) (CredentialDefinitionController_update env st rq s c dto2 d)" if "call = DefinitionUpdate s c dto2"
    unfolding handler_defs guard_defs by (intro g yields_validated yields_respond) (use that in \<open>auto dest!: shows_cds_update intro: storedI\<close>)
  show "yields (discloses_only t) (CredentialDefinitionController_delete env st rq s c d)" if "call = DefinitionDelete s c"
    unfolding handler_defs guard_defs by (intro g yields_validated yields_respond) (use that in \<open>auto\<close>)
qed

lemma shows_credential_routes:
  assumes "authenticated auth call rq" "caller_of t auth" "uuid_shape (en_val env)" "db_keys d"
  shows "call = CredentialAccept s x \<Longrightarrow> yields (discloses_only t) (CredentialActionController_accept env st rq s x d)"
    and "call = CredentialReject s x \<Longrightarrow> yields (discloses_only t) (CredentialActionController_reject env st rq s x d)"
    and "call = CredentialRevoke s x \<Longrightarrow> yields (discloses_only t) (CredentialRevokeController_revoke env st rq s x d)"
    and "call = AuditExport s a b e \<Longrightarrow> yields (discloses_only t) (AuditLogController_export env st rq s a b e d)"
    and "call = AuditList s f l c \<Longrightarrow> yields (discloses_only t) (AuditLogController_list env st rq s f l c d)"
    and "call = AuditFindById s a' \<Longrightarrow> yields (discloses_only t) (AuditLogController_findById env st rq s a' d)"
    and "call = TenantRoleList s \<Longrightarrow> yields (discloses_only t) (TenantRoleScopeController_listTenantRoles env st rq s d)"
    and "call = RoleScopesUpdate s role scopes \<Longrightarrow> yields (discloses_only t) (TenantRoleScopeController_updateRoleScopes env st rq s role scopes d)"
    and "call = RoleScopesReset s role \<Longrightarrow> yields (discloses_only t) (TenantRoleScopeController_resetRoleScopes env st rq s role d)"
proof -
  note g = yields_path_limited [OF assms(1-4), of s]
  have page: "list_all (stored (\<lambda>a. ae_tenantId (al_event a)) audit_log_fromEntity t (audit_logs d')) (map audit_log_fromEntity (fst (als_list t f l c d')))" for f l c d'
    by (rule stored_all) (auto simp: als_list_def al_findPageForTenant_def baseFilterQuery_def dest!: shows_page)
  have export: "discloses_only t (R_Csv name (exportCsv num t f d')) d'" for name num f d'
  proof -
    have "set (al_findForExport t f n d') \<subseteq> {a \<in> set (audit_logs d'). ae_tenantId (al_event a) = t}" for n
      by (auto simp: al_findForExport_def baseFilterQuery_def dest!: in_set_takeD)
    then show ?thesis unfolding discloses_only.simps exportCsv_def Let_def by blast
  qed
  show "yields (discloses_only t) (CredentialActionController_accept env st rq s x d)" if "call = CredentialAccept s x"
    unfolding handler_defs guard_defs by (intro g yields_validated yields_respond_st) (use that in \<open>auto dest!: shows_perform intro: storedI\<close>)
  show "yields (discloses_only t) (CredentialActionController_reject env st rq s x d)" if "call = CredentialReject s x"
    unfolding handler_defs guard_defs by (intro g yields_validated yields_respond_st) (use that in \<open>auto dest!: shows_perform intro: storedI\<close>)
  show "yields (discloses_only t) (CredentialRevokeController_revoke env st rq s x d)" if "call = CredentialRevoke s x"
    unfolding handler_defs guard_defs by (intro g yields_validated yields_respond_st) (use that in \<open>auto dest!: shows_revoke intro: storedI\<close>)
  show "yields (discloses_only t) (AuditLogController_export env st rq s a b e d)" if "call = AuditExport s a b e"
    unfolding handler_defs guard_defs by (intro g yields_validated yields_respond_read) (use that in \<open>auto simp del: discloses_only.simps intro: export\<close>)
  show "yields (discloses_only t) (AuditLogController_list env st rq s f l c d)" if "call = AuditList s f l c"
    unfolding handler_defs guard_defs by (intro g yields_validated yields_respond_read) (use that in \<open>auto simp: rbind_eq_Inr Let_def intro: page\<close>)
  show "yields (discloses_only t) (AuditLogController_findById env st rq s a' d)" if "call = AuditFindById s a'"
    unfolding handler_defs guard_defs by (intro g yields_validated yields_respond_read) (use that in \<open>auto simp: als_findById_def al_findByIdForTenant_def find_Some_iff split: option.splits intro!: storedI\<close>)
  show "yields (discloses_only t) (TenantRoleScopeController_listTenantRoles env st rq s d)" if "call = TenantRoleList s"
    unfolding handler_defs guard_defs by (intro g yields_validated yields_respond_read) (use that in \<open>auto\<close>)
  show "yields (discloses_only t) (TenantRoleScopeController_updateRoleScopes env st rq s role scopes d)" if "call = RoleScopesUpdate s role scopes"
    unfolding handler_defs guard_defs by (intro g yields_validated yields_with_auth yields_respond_st) (use that in \<open>auto simp: role_request_def role_scopes_from_def valid_role_param_def dest!: shows_replaceRoleScopes\<close>)
  show "yields (discloses_only t) (TenantRoleScopeController_resetRoleScopes env st rq s role d)" if "call = RoleScopesReset s role"
    unfolding handler_defs guard_defs by (intro g yields_validated yields_with_auth yields_respond_st) (use that in \<open>auto simp: role_request_def role_scopes_from_def valid_role_param_def dest!: shows_resetRoleScopes\<close>)
qed

lemma shows_operation_route:
  assumes "authenticated auth (OperationFindById s x) rq" "caller_of t auth" "uuid_shape (en_val env)" "db_keys d"
  shows "yields (discloses_only t) (OperationController_findById env st rq s x d)"
  unfolding handler_defs
proof (rule yields_guarded, rule yields_tier_limited, intro yields_validated yields_respond)
  fix rq' d1 y d2
  assume g: "rbind (TenantGuard rq) (TenantStatusGuard d) = Inr rq'" and h: "hit_step rq' d d1" "uuid env s \<and> uuid env x"
    and y: "getForTenant (sm_now st) s x d1 = Inr (y, d2)"
  obtain rq1 where g: "TenantGuard rq = Inr rq1" using g by (auto simp: rbind_eq_Inr)
  have "s = t" using path_tenant [OF assms(1,3), of t s] TenantGuard_caller [OF g _ assms(2)] assms(1) h(2) by (auto simp: authenticated_def)
  then show "discloses_only t (R_Operation 200 (operation_fromEntity y)) d2" using shows_getForTenant [OF y] hit_step_keys [OF h(1) assms(4)] by simp
qed

lemma shows_global_routes:
  assumes "authenticated auth call rq" "caller_of t auth"
  shows "yields (discloses_only t) (TenantController_create env st rq dto d)"
    and "yields (discloses_only t) (TenantController_updateStatus env st rq s status d)"
    and "yields (discloses_only t) (TenantController_delete env st rq s d)"
    and "yields (discloses_only t) (TenantController_restore env st rq s d)"
    and "yields (discloses_only t) (AdminOperationsController_getStats rq d)"
    and "yields (discloses_only t) (AdminRateLimitController_getStatus env st rq s d)"
    and "yields (discloses_only t) (AdminRateLimitController_reset env st rq s d)"
    and "yields (discloses_only t) (AdminSessionsController_revokeSessions env st rq s d)"
    and "yields (discloses_only t) (RoleController_listRoles d)"
    and "yields (discloses_only t) (ScopeController_listScopes d)"
  unfolding handler_defs by (intro yields_platform_guards [OF assms] yields_respond_read; auto)+

lemma handle_discloses:
  assumes "authenticated auth call rq" "caller_of t auth" "uuid_shape (en_val env)" "db_keys d"
    and "\<forall>s. call \<noteq> AuthSwitchTenant s" "call \<noteq> AuthListTenants"
  shows "yields (discloses_only t) (handle env st rq call d)"
  using assms(1,5,6) shows_tenant_routes [OF assms(1,2)] shows_user_routes [OF assms(1-3)] shows_client_routes [OF assms(1-4)]
    shows_connection_routes [OF assms(1-4)] shows_connector_routes [OF assms(1-4)] shows_definition_routes [OF assms(1-4)]
    shows_credential_routes [OF assms(1-4)] shows_global_routes [OF assms(1,2)] shows_operation_route [OF _ assms(2-4)]
  by (cases call) simp_all

lemma discloses_job: "discloses_only t r (d\<lparr>audit_jobs := jobs\<rparr>) = discloses_only t r d"
  by (cases r) (simp_all add: getDefaultRoleMapping_def getTenantRoleMapping_def findDefaultRoleScopes_def findTenantOverrides_def
      default_scopes_def role_scopes_def findTenantOverride_def cong: option.case_cong)

lemma route_discloses:
  assumes "authenticated auth call rq" "caller_of t auth" "uuid_shape (en_val env)" "db_keys d"
    and "\<forall>s. call \<noteq> AuthSwitchTenant s" "call \<noteq> AuthListTenants" "route env st rq call d = (Inr r, d')"
  shows "discloses_only t r d'"
proof -
  have "yields (discloses_only t) (handle env st rq call d)" by (rule handle_discloses [OF assms(1-6)])
  then have "yields (discloses_only t) (route env st rq call d)"
    unfolding route_def audited_def yields_def by (auto simp: intercept_def Let_def discloses_job split: option.split)
  then show ?thesis using assms(7) by (simp add: yields_def)
qed

section \<open>Confidentiality\<close>

text \<open>C2. Confidentiality across the REST interface. Let the bearer token of a request be anything that is not a platform
  administrator's and names no tenant but \<open>t\<close>. Whatever route the request takes, except the list of the caller's own memberships and
  the exchange of the token, a successful response shows only data of tenant \<open>t\<close>: each tenant, user, client, connection, credential
  definition, audit entry and operation in it is exactly the view of a row that the database holds for tenant \<open>t\<close> when the request is
  done; a connector agrees with such a row in all but its time stamps; an export is made of audit rows of \<open>t\<close>; role scopes are the
  defaults or the tenant's own. No response holds the statistics, rate limits or session counts of the administration routes.\<close>

theorem api_discloses_own:
  assumes "api env tk st hdr call (j, d) = (Ok r, j', d')"
    and "\<And>auth j1. checked_token tk j hdr = (Inr auth, j1) \<Longrightarrow> caller_of t auth"
    and "\<forall>s. call \<noteq> AuthSwitchTenant s" and "call \<noteq> AuthListTenants" and "uuid_shape (en_val env)" and "db_keys d"
  shows "discloses_only t r d'"
  using assms(1)
proof (cases rule: api_cases)
  case refused
  then show ?thesis by simp
next
  case (passed auth rq)
  then show ?thesis using route_discloses [OF passed(2) assms(2) [OF passed(1)] assms(5,6,3,4)] by simp
qed

lemma demo_list_route:
  "tenant_user_route users_meta demo_two_db (demo_api_rq ''users:manage'' (UserList ''t1'' None None))
     = Inr ((demo_api_rq ''users:manage'' (UserList ''t1'' None None))\<lparr>rq_tenantId := Some ''t1'',
          rq_callerTenantUser := Some (demo_user ''a'' OWNER 1000)\<rparr>)"
  by code_simp

lemma demo_list_length: "length (fst (tus_list ''t1'' None None demo_two_db)) = 3" "length (tenant_users demo_two_db) = 4"
  by code_simp+

theorem api_discloses_own_witness:
  "\<exists>rs pg j' d'. api demo_api_env (demo_token_check ''t1'' ''users:manage'') demo_api_stamp [''Bearer tok'']
       (UserList ''t1'' None None) (demo_jwks, demo_two_db) = (Ok (R_Users rs pg), j', d')
     \<and> length rs = 3 \<and> length (tenant_users d') = 4
     \<and> list_all (stored u_tenantId tenant_user_fromEntity ''t1'' (tenant_users d')) rs"
proof -
  let ?tk = "demo_token_check ''t1'' ''users:manage''" and ?call = "UserList ''t1'' None None"
  obtain us pg where l: "tus_list ''t1'' None None demo_two_db = (us, pg)" by (rule prod.exhaust)
  have "route demo_api_env demo_api_stamp (demo_api_rq ''users:manage'' ?call) ?call demo_two_db
      = (Ok (R_Users (map tenant_user_fromEntity us) (pagination_from (fst pg) (snd pg))), demo_two_db)"
    by (simp add: route_def audited_def TenantUserController_list_def user_guards_def guarded_def demo_list_route validated_def
        demo_api_env_def valid_limit_def optional_def respond_read_def resolve_cursor_def l)
  then obtain j' where a: "api demo_api_env ?tk demo_api_stamp [''Bearer tok''] ?call (demo_jwks, demo_two_db)
      = (Ok (R_Users (map tenant_user_fromEntity us) (pagination_from (fst pg) (snd pg))), j', demo_two_db)"
    using demo_api_run [OF demo_users_token, of demo_api_env demo_api_stamp ?call demo_two_db] by auto
  have "caller_of ''t1'' auth" if "checked_token ?tk demo_jwks [''Bearer tok''] = (Inr auth, j1)" for auth j1
    using that demo_users_token demo_caller by simp
  from api_discloses_own [OF a this _ _ demo_api_setup] show ?thesis using a l demo_list_length by auto
qed

end
