(* ===== verification/Api_Policy.thy ===== *)
theory Api_Policy
  imports Api_Isolation
begin

text \<open>
  Who may call what, as a table that is independent of the guards: a route is for platform administrators, needs a scope, or only
  a valid token; its tenant is the caller's; the user routes need an active owner or administrator of the tenant. A request
  that succeeds satisfies the table. Where the controllers leave gaps, the gap is shown by a run.
\<close>

section \<open>The policy\<close>

fun platform_route :: "api_call \<Rightarrow> bool" where
  "platform_route (TenantCreate _) = True"
| "platform_route (TenantUpdateStatus _ _) = True"
| "platform_route (TenantDelete _) = True"
| "platform_route (TenantRestore _) = True"
| "platform_route AdminStats = True"
| "platform_route (AdminRateStatus _) = True"
| "platform_route (AdminRateReset _) = True"
| "platform_route (AdminRevokeSessions _ _) = True"
| "platform_route _ = False"

fun required_scope :: "api_call \<Rightarrow> string option" where
  "required_scope (TenantUpdate _ _) = Some ''tenants:admin''"
| "required_scope (TenantUpdateConfig _ _) = Some ''tenants:admin''"
| "required_scope (UserCreate _ _) = Some ''users:manage''"
| "required_scope (UserList _ _ _) = Some ''users:manage''"
| "required_scope (UserUpdate _ _ _) = Some ''users:manage''"
| "required_scope (UserDelete _ _) = Some ''users:manage''"
| "required_scope (ClientCreate _ _) = Some ''clients:manage''"
| "required_scope (ClientFindByTenant _) = Some ''clients:manage''"
| "required_scope (ClientUpdate _ _ _) = Some ''clients:manage''"
| "required_scope (ClientRevoke _ _) = Some ''clients:manage''"
| "required_scope (ClientRotateSecret _ _) = Some ''clients:manage''"
| "required_scope (ConnCreate _) = Some ''connections:manage''"
| "required_scope (ConnFindByTenant _ _) = Some ''connections:manage''"
| "required_scope (ConnFindByExternal _) = Some ''connections:manage''"
| "required_scope (ConnFindById _) = Some ''connections:manage''"
| "required_scope (ConnUpdate _ _) = Some ''connections:manage''"
| "required_scope (ConnDelete _) = Some ''connections:manage''"
| "required_scope (ConnectorCreate _ _ _ _) = Some ''tenants:admin''"
| "required_scope (ConnectorFindByTenant _) = Some ''tenants:admin''"
| "required_scope (ConnectorFindById _ _) = Some ''tenants:admin''"
| "required_scope (ConnectorUpdate _ _ _) = Some ''tenants:admin''"
| "required_scope (ConnectorDelete _ _) = Some ''tenants:admin''"
| "required_scope (ConnectorTest _ _) = Some ''tenants:admin''"
| "required_scope (DefinitionCreate _ _) = Some ''tenants:admin''"
| "required_scope (DefinitionFindByTenant _) = Some ''tenants:admin''"
| "required_scope (DefinitionFindByFormat _ _) = Some ''tenants:admin''"
| "required_scope (DefinitionFindByConnector _ _) = Some ''tenants:admin''"
| "required_scope (DefinitionFindById _ _) = Some ''tenants:admin''"
| "required_scope (DefinitionUpdate _ _ _) = Some ''tenants:admin''"
| "required_scope (DefinitionDelete _ _) = Some ''tenants:admin''"
| "required_scope (CredentialAccept _ _) = Some ''credentials:hold''"
| "required_scope (CredentialReject _ _) = Some ''credentials:hold''"
| "required_scope (CredentialRevoke _ _) = Some ''credentials:revoke''"
| "required_scope (AuditExport _ _ _ _) = Some ''audit:read''"
| "required_scope (AuditList _ _ _ _) = Some ''audit:read''"
| "required_scope (AuditFindById _ _) = Some ''audit:read''"
| "required_scope (RoleScopesUpdate _ _ _) = Some ''tenants:admin''"
| "required_scope (RoleScopesReset _ _) = Some ''tenants:admin''"
| "required_scope _ = None"

fun member_route :: "api_call \<Rightarrow> bool" where
  "member_route (UserCreate _ _) = True"
| "member_route (UserList _ _ _) = True"
| "member_route (UserUpdate _ _ _) = True"
| "member_route (UserDelete _ _) = True"
| "member_route _ = False"

text \<open>The catalogs and the caller's own memberships are open to every valid token, also when its tenant is not active.\<close>

fun status_free :: "api_call \<Rightarrow> bool" where
  "status_free RoleList = True"
| "status_free ScopeList = True"
| "status_free AuthListTenants = True"
| "status_free (AuthSwitchTenant _) = True"
| "status_free _ = False"

text \<open>The tenant a route addresses: the one of its path, or the tenant that the route is about.\<close>

fun target_tenant :: "api_call \<Rightarrow> string option" where
  "target_tenant (TenantUpdate t _) = Some t"
| "target_tenant (TenantUpdateConfig t _) = Some t"
| "target_tenant (TenantFindById t) = Some t"
| "target_tenant (ConnCreate dto) = Some (ccn_tenantId dto)"
| "target_tenant call = map_option js_trim (path_tenantId call)"

definition active_tenant :: "db \<Rightarrow> string \<Rightarrow> bool" where
  "active_tenant d t = (\<exists>tn\<in>set (tenants d). t_id tn = t \<and> t_deletedAt tn = None \<and> t_status tn = T_ACTIVE)"

definition manages_users :: "db \<Rightarrow> string \<Rightarrow> string \<Rightarrow> bool" where
  "manages_users d t sub =
     (\<exists>u\<in>set (tenant_users d). u_tenantId u = t \<and> u_externalUserId u = Some sub \<and> u_status u = U_ACTIVE \<and> u_role u \<in> {OWNER, ADMIN})"

definition authorized :: "db \<Rightarrow> auth_context \<Rightarrow> api_call \<Rightarrow> bool" where
  "authorized d auth call =
     (PLATFORM_ADMIN_ROLE \<in> set (ac_roles auth)
      \<or> \<not> platform_route call
        \<and> (\<forall>s. required_scope call = Some s \<longrightarrow> s \<in> expandEffectiveScopes (ac_scopes auth))
        \<and> (\<forall>t. target_tenant call = Some t \<longrightarrow> t \<noteq> [] \<longrightarrow> ac_tenantId auth = Some t)
        \<and> (\<not> status_free call \<longrightarrow> (\<forall>t. ac_tenantId auth = Some t \<longrightarrow> t \<noteq> [] \<longrightarrow> active_tenant d t))
        \<and> (member_route call \<longrightarrow> (\<forall>t. target_tenant call = Some t \<longrightarrow> t \<noteq> [] \<longrightarrow> manages_users d t (ac_sub auth))))"

section \<open>The guards implement the policy\<close>

lemma status_active:
  assumes "TenantStatusGuard d rq = Inr rq'" "rq_auth rq = Some auth" "PLATFORM_ADMIN_ROLE \<notin> set (ac_roles auth)"
    "ac_tenantId auth = Some t" "t \<noteq> []"
  shows "active_tenant d t"
  using assms by (auto simp: TenantStatusGuard_def active_tenant_def rbind_eq_Inr assertTenantActive_ok dest!: tn_findById_Some)

lemma ok_guarded: "is_ok (fst (guarded g k d)) \<Longrightarrow> \<exists>rq. g = Inr rq \<and> is_ok (fst (k rq d))"
  by (auto simp: guarded_def split: sum.splits)

lemma tenant_route_policy:
  assumes "tenant_route meta d rq = Inr rq'" "authenticated auth call rq" "PLATFORM_ADMIN_ROLE \<notin> set (ac_roles auth)"
  shows "set (case rm_scopes meta of None \<Rightarrow> [] | Some s \<Rightarrow> s) \<subseteq> expandEffectiveScopes (ac_scopes auth)
     \<and> (\<forall>t. map_option js_trim (path_tenantId call) = Some t \<longrightarrow> t \<noteq> [] \<longrightarrow> ac_tenantId auth = Some t)
     \<and> (\<forall>t. ac_tenantId auth = Some t \<longrightarrow> t \<noteq> [] \<longrightarrow> active_tenant d t)
     \<and> rq_auth rq' = Some auth"
proof -
  obtain rq1 rq2 where g: "ScopeGuard meta rq = Inr rq1" "TenantGuard rq1 = Inr rq2" "TenantStatusGuard d rq2 = Inr rq'"
    using assms(1) by (auto simp: tenant_route_def rbind_eq_Inr)
  have a: "rq_auth rq = Some auth" "rq_paramTenantId rq = path_tenantId call" using assms(2) by (simp_all add: authenticated_def)
  have 1: "rq1 = rq" and s: "set (case rm_scopes meta of None \<Rightarrow> [] | Some s \<Rightarrow> s) \<subseteq> expandEffectiveScopes (ac_scopes auth)"
    using ScopeGuard_Ok [OF g(1)] a(1) assms(3) by auto
  have 2: "rq_auth rq2 = Some auth" and t: "\<And>t. resolveRouteTenantId rq = Some t \<Longrightarrow> ac_tenantId auth = Some t"
    using TenantGuard_Ok [OF g(2)] 1 a(1) assms(3) by auto
  have "rq_auth rq' = Some auth" using TenantStatusGuard_Ok [OF g(3)] 2 by simp
  then show ?thesis using s t status_active [OF g(3) 2 assms(3)] a(2) by (auto simp: resolveRouteTenantId_def Let_def)
qed

lemma policy_limited:
  assumes "is_ok (fst (tenant_limited env st meta cls hdl rq k d))" "authenticated auth call rq"
    and "required_scope call = None \<or> (\<exists>s. required_scope call = Some s \<and> rm_scopes meta = Some [s])"
    and "\<not> platform_route call" "\<not> member_route call"
    and "target_tenant call = map_option js_trim (path_tenantId call)"
  shows "authorized d auth call"
proof -
  obtain rq' where "tenant_route meta d rq = Inr rq'" using ok_guarded [OF assms(1) [unfolded tenant_limited_def]] by blast
  from tenant_route_policy [OF this assms(2)] show ?thesis using assms(3-6) by (auto simp: authorized_def)
qed

lemma policy_platform:
  assumes "is_ok (fst (tenant_guards platform_only rq k d)) \<or> is_ok (fst (admin_guards rq k d))" "authenticated auth call rq"
  shows "authorized d auth call"
proof -
  have "\<exists>rq'. ScopeGuard platform_only rq = Inr rq'" using assms(1) ok_guarded unfolding tenant_guards_def admin_guards_def
    by (fastforce simp: rbind_eq_Inr)
  then show ?thesis using ScopeGuard_Ok [of platform_only rq] assms(2)
    by (auto simp: authorized_def authenticated_def platform_only_def no_meta_def)
qed

lemma policy_tenant:
  assumes "is_ok (fst (tenant_guards meta rq k d))" "authenticated auth call rq"
    and "required_scope call = None \<or> (\<exists>s. required_scope call = Some s \<and> rm_scopes meta = Some [s])"
    and "\<not> platform_route call" "\<not> member_route call" "path_tenantId call = None"
    and "\<And>t. is_ok (fst (k rq d)) \<Longrightarrow> target_tenant call = Some t \<Longrightarrow> \<exists>u. assertTenantAccess (Some auth) t = Inr u"
  shows "authorized d auth call"
proof -
  obtain rq' where g: "rbind (ScopeGuard meta rq) (TenantStatusGuard d) = Inr rq'" "is_ok (fst (k rq' d))"
    using ok_guarded [OF assms(1) [unfolded tenant_guards_def]] by blast
  obtain rq1 where s: "ScopeGuard meta rq = Inr rq1" "TenantStatusGuard d rq1 = Inr rq'" using g(1) by (auto simp: rbind_eq_Inr)
  have a: "rq_auth rq = Some auth" and e: "rq1 = rq" "rq' = rq"
    using assms(2) ScopeGuard_Ok [OF s(1)] TenantStatusGuard_Ok [OF s(2)] by (auto simp: authenticated_def)
  have "set (case rm_scopes meta of None \<Rightarrow> [] | Some s \<Rightarrow> s) \<subseteq> expandEffectiveScopes (ac_scopes auth)"
    if "PLATFORM_ADMIN_ROLE \<notin> set (ac_roles auth)" using ScopeGuard_Ok [OF s(1)] a that by auto
  moreover have "ac_tenantId auth = Some t" if "target_tenant call = Some t" "PLATFORM_ADMIN_ROLE \<notin> set (ac_roles auth)" for t
    using assms(7) [OF g(2) [unfolded e] that(1)] that(2) by (auto simp: assertTenantAccess_def split: option.splits if_splits)
  ultimately show ?thesis using status_active [OF s(2)] assms(3-5) a e by (auto simp: authorized_def)
qed

lemma policy_users:
  assumes "is_ok (fst (user_guards rq k d))" "authenticated auth call rq"
    and "required_scope call = Some ''users:manage''" "\<not> platform_route call" "target_tenant call = map_option js_trim (path_tenantId call)"
  shows "authorized d auth call"
proof (cases "PLATFORM_ADMIN_ROLE \<in> set (ac_roles auth)")
  case True
  then show ?thesis by (simp add: authorized_def)
next
  case False
  obtain rq' where "tenant_user_route users_meta d rq = Inr rq'" using ok_guarded [OF assms(1) [unfolded user_guards_def]] by blast
  then obtain rq1 where g: "tenant_route users_meta d rq = Inr rq1" "TenantMembershipGuard users_meta d rq1 = Inr rq'"
    by (auto simp: tenant_user_route_def rbind_eq_Inr)
  note p = tenant_route_policy [OF g(1) assms(2) False]
  have "rq_paramTenantId rq1 = path_tenantId call"
    using g(1) assms(2) ScopeGuard_Ok [of users_meta rq] TenantGuard_Ok [of rq] TenantStatusGuard_Ok
    by (fastforce simp: tenant_route_def rbind_eq_Inr authenticated_def)
  then have "manages_users d t (ac_sub auth)" if "map_option js_trim (path_tenantId call) = Some t" "t \<noteq> []" for t
    using g(2) p False that
    by (auto simp: TenantMembershipGuard_def users_meta_def with_scope_def no_meta_def Let_def resolveRouteTenantId_def manages_users_def
        split: option.splits if_splits dest!: tu_findByTenantAndExternalUserId_Some)
  moreover have "USERS_MANAGE_SCOPE = ''users:manage''" by (simp add: scope_consts)
  ultimately show ?thesis using p assms(3-5) by (auto simp: authorized_def users_meta_def with_scope_def no_meta_def)
qed

lemma ok_respond: "is_ok (fst (validated ok (respond f call) d)) \<Longrightarrow> \<exists>x d'. call d = Inr (x, d')"
  by (auto simp: validated_def respond_def split: sum.splits prod.splits if_splits)

lemma ok_respond_read: "is_ok (fst (validated ok (respond_read f call) d)) \<Longrightarrow> \<exists>x. call d = Inr x"
  by (auto simp: validated_def respond_read_def split: sum.splits if_splits)

lemma policy_tenant_routes:
  assumes "authenticated auth call rq"
  shows "call = TenantUpdate s dto \<Longrightarrow> is_ok (fst (TenantController_update env st rq s dto d)) \<Longrightarrow> authorized d auth call"
    and "call = TenantUpdateConfig s dto' \<Longrightarrow> is_ok (fst (TenantController_updateConfig env st rq s dto' d)) \<Longrightarrow> authorized d auth call"
    and "call = TenantList l c \<Longrightarrow> is_ok (fst (TenantController_list env rq l c d)) \<Longrightarrow> authorized d auth call"
    and "call = TenantFindById s \<Longrightarrow> is_ok (fst (TenantController_findById env rq s d)) \<Longrightarrow> authorized d auth call"
    and "call = TenantFindBySlug s \<Longrightarrow> is_ok (fst (TenantController_findBySlug rq s d)) \<Longrightarrow> authorized d auth call"
proof -
  have a: "rq_auth rq = Some auth" using assms by (simp add: authenticated_def)
  note p = policy_tenant [OF _ assms]
  show "authorized d auth call" if "call = TenantUpdate s dto" "is_ok (fst (TenantController_update env st rq s dto d))"
    by (rule p [OF that(2) [unfolded handler_defs]])
      (use that(1) a in \<open>auto simp: with_scope_def TENANT_SUPERUSER_SCOPE_def rbind_eq_Inr dest!: ok_respond\<close>)
  show "authorized d auth call" if "call = TenantUpdateConfig s dto'" "is_ok (fst (TenantController_updateConfig env st rq s dto' d))"
    by (rule p [OF that(2) [unfolded handler_defs]])
      (use that(1) a in \<open>auto simp: with_scope_def TENANT_SUPERUSER_SCOPE_def validated_def respond_st_def split: sum.splits prod.splits if_splits\<close>)
  show "authorized d auth call" if "call = TenantList l c" "is_ok (fst (TenantController_list env rq l c d))"
    by (rule p [OF that(2) [unfolded handler_defs]]) (use that(1) in \<open>auto simp: no_meta_def\<close>)
  show "authorized d auth call" if "call = TenantFindById s" "is_ok (fst (TenantController_findById env rq s d))"
    by (rule p [OF that(2) [unfolded handler_defs]])
      (use that(1) a in \<open>auto simp: no_meta_def rbind_eq_Inr tns_findById_def split: option.splits dest!: ok_respond_read tn_findById_Some\<close>)
  show "authorized d auth call" if "call = TenantFindBySlug s" "is_ok (fst (TenantController_findBySlug rq s d))"
    by (rule p [OF that(2) [unfolded handler_defs]]) (use that(1) in \<open>auto simp: no_meta_def\<close>)
qed

lemma policy_create_connection:
  assumes "authenticated auth (ConnCreate dto) rq" "is_ok (fst (ConnectionController_create env st rq dto d))"
  shows "authorized d auth (ConnCreate dto)"
proof (cases "PLATFORM_ADMIN_ROLE \<in> set (ac_roles auth)")
  case True
  then show ?thesis by (simp add: authorized_def)
next
  case False
  note ok = assms(2) [unfolded handler_defs guard_defs tenant_limited_def]
  obtain rq' where r: "tenant_route (with_scope CONNECTIONS_MANAGE_SCOPE) d rq = Inr rq'"
    and k: "is_ok (fst (tier_limited env st ''ConnectionController'' ''create'' (\<lambda>rq. validated (valid_create_connection (en_val env) dto)
       (respond R_Conn (cns_create (sm_id st) (sm_created st) (sm_now st) dto (rq_auth rq)))) rq' d))"
    using ok_guarded [OF ok] by blast
  note p = tenant_route_policy [OF r assms(1) False]
  obtain d1 x d2 where "cns_create (sm_id st) (sm_created st) (sm_now st) dto (Some auth) d1 = Inr (x, d2)"
    using k p by (auto simp: tier_limited_def dest!: ok_respond split: sum.splits prod.splits)
  then have "ac_tenantId auth = Some (ccn_tenantId dto)"
    using False by (auto simp: cns_create_def rbind_eq_Inr assertTenantAccess_def split: option.splits if_splits)
  then show ?thesis using p by (auto simp: authorized_def with_scope_def CONNECTIONS_MANAGE_SCOPE_def)
qed

lemma policy_operation:
  assumes "authenticated auth (OperationFindById s x) rq" "is_ok (fst (OperationController_findById env st rq s x d))"
  shows "authorized d auth (OperationFindById s x)"
proof -
  obtain rq' where "rbind (TenantGuard rq) (TenantStatusGuard d) = Inr rq'" using ok_guarded [OF assms(2) [unfolded handler_defs]] by blast
  moreover have "ScopeGuard no_meta rq = Inr rq" using assms(1) by (simp add: ScopeGuard_def no_meta_def authenticated_def)
  ultimately have "tenant_route no_meta d rq = Inr rq'" by (simp add: tenant_route_def)
  from tenant_route_policy [OF this assms(1)] show ?thesis by (auto simp: authorized_def)
qed

lemma authorized_free: "status_free call \<Longrightarrow> authorized d auth call"
  by (cases call) (simp_all add: authorized_def)

lemmas declared_scopes = with_scope_def no_meta_def TENANT_SUPERUSER_SCOPE_def CONNECTIONS_MANAGE_SCOPE_def AUDIT_READ_SCOPE_def

lemma policy_client_routes:
  assumes "authenticated auth call rq"
  shows "call = ClientCreate s dto1 \<Longrightarrow> is_ok (fst (OAuthClientController_createClient env st rq s dto1 d)) \<Longrightarrow> authorized d auth call"
    and "call = ClientFindByTenant s \<Longrightarrow> is_ok (fst (OAuthClientController_findByTenant env st rq s d)) \<Longrightarrow> authorized d auth call"
    and "call = ClientUpdate s c dto2 \<Longrightarrow> is_ok (fst (OAuthClientController_update env st rq s c dto2 d)) \<Longrightarrow> authorized d auth call"
    and "call = ClientRevoke s c \<Longrightarrow> is_ok (fst (OAuthClientController_revokeClient env st rq s c d)) \<Longrightarrow> authorized d auth call"
    and "call = ClientRotateSecret s c \<Longrightarrow> is_ok (fst (OAuthClientController_rotateSecret env st rq s c d)) \<Longrightarrow> authorized d auth call"
  unfolding handler_defs guard_defs by (erule policy_limited [OF _ assms]; simp add: declared_scopes)+

lemma policy_connection_routes:
  assumes "authenticated auth call rq"
  shows "call = ConnFindByTenant s cs \<Longrightarrow> is_ok (fst (ConnectionController_findByTenantId env st rq s cs d)) \<Longrightarrow> authorized d auth call"
    and "call = ConnFindByExternal e \<Longrightarrow> is_ok (fst (ConnectionController_findByExternalConnectionId env st rq e d)) \<Longrightarrow> authorized d auth call"
    and "call = ConnFindById c \<Longrightarrow> is_ok (fst (ConnectionController_findById env st rq c d)) \<Longrightarrow> authorized d auth call"
    and "call = ConnUpdate c dto2 \<Longrightarrow> is_ok (fst (ConnectionController_update env st rq c dto2 d)) \<Longrightarrow> authorized d auth call"
    and "call = ConnDelete c \<Longrightarrow> is_ok (fst (ConnectionController_delete env st rq c d)) \<Longrightarrow> authorized d auth call"
  unfolding handler_defs guard_defs by (erule policy_limited [OF _ assms]; simp add: declared_scopes)+

lemma policy_connector_routes:
  assumes "authenticated auth call rq"
  shows "call = ConnectorCreate s ty url cr \<Longrightarrow> is_ok (fst (ConnectorCredentialController_create env st rq s ty url cr d)) \<Longrightarrow> authorized d auth call"
    and "call = ConnectorFindByTenant s \<Longrightarrow> is_ok (fst (ConnectorCredentialController_findByTenant env st rq s d)) \<Longrightarrow> authorized d auth call"
    and "call = ConnectorFindById s c \<Longrightarrow> is_ok (fst (ConnectorCredentialController_findById env st rq c d)) \<Longrightarrow> authorized d auth call"
    and "call = ConnectorUpdate s c dto1 \<Longrightarrow> is_ok (fst (ConnectorCredentialController_update env st rq c dto1 d)) \<Longrightarrow> authorized d auth call"
    and "call = ConnectorDelete s c \<Longrightarrow> is_ok (fst (ConnectorCredentialController_delete env st rq c d)) \<Longrightarrow> authorized d auth call"
    and "call = ConnectorTest s c \<Longrightarrow> is_ok (fst (ConnectorCredentialController_test env st rq c d)) \<Longrightarrow> authorized d auth call"
  unfolding handler_defs guard_defs by (erule policy_limited [OF _ assms]; simp add: declared_scopes)+

lemma policy_definition_routes:
  assumes "authenticated auth call rq"
  shows "call = DefinitionCreate s dto1 \<Longrightarrow> is_ok (fst (CredentialDefinitionController_create env st rq s dto1 d)) \<Longrightarrow> authorized d auth call"
    and "call = DefinitionFindByTenant s \<Longrightarrow> is_ok (fst (CredentialDefinitionController_findByTenantId env st rq s d)) \<Longrightarrow> authorized d auth call"
    and "call = DefinitionFindByFormat s f \<Longrightarrow> is_ok (fst (CredentialDefinitionController_findByFormat env st rq s f d)) \<Longrightarrow> authorized d auth call"
    and "call = DefinitionFindByConnector s ty \<Longrightarrow> is_ok (fst (CredentialDefinitionController_findByConnector env st rq s ty d)) \<Longrightarrow> authorized d auth call"
    and "call = DefinitionFindById s c \<Longrightarrow> is_ok (fst (CredentialDefinitionController_findById env st rq s c d)) \<Longrightarrow> authorized d auth call"
    and "call = DefinitionUpdate s c dto2 \<Longrightarrow> is_ok (fst (CredentialDefinitionController_update env st rq s c dto2 d)) \<Longrightarrow> authorized d auth call"
    and "call = DefinitionDelete s c \<Longrightarrow> is_ok (fst (CredentialDefinitionController_delete env st rq s c d)) \<Longrightarrow> authorized d auth call"
  unfolding handler_defs guard_defs by (erule policy_limited [OF _ assms]; simp add: declared_scopes)+

lemma policy_credential_routes:
  assumes "authenticated auth call rq"
  shows "call = CredentialAccept s x \<Longrightarrow> is_ok (fst (CredentialActionController_accept env st rq s x d)) \<Longrightarrow> authorized d auth call"
    and "call = CredentialReject s x \<Longrightarrow> is_ok (fst (CredentialActionController_reject env st rq s x d)) \<Longrightarrow> authorized d auth call"
    and "call = CredentialRevoke s x \<Longrightarrow> is_ok (fst (CredentialRevokeController_revoke env st rq s x d)) \<Longrightarrow> authorized d auth call"
    and "call = AuditExport s a b e \<Longrightarrow> is_ok (fst (AuditLogController_export env st rq s a b e d)) \<Longrightarrow> authorized d auth call"
    and "call = AuditList s f l c \<Longrightarrow> is_ok (fst (AuditLogController_list env st rq s f l c d)) \<Longrightarrow> authorized d auth call"
    and "call = AuditFindById s a' \<Longrightarrow> is_ok (fst (AuditLogController_findById env st rq s a' d)) \<Longrightarrow> authorized d auth call"
    and "call = TenantRoleList s \<Longrightarrow> is_ok (fst (TenantRoleScopeController_listTenantRoles env st rq s d)) \<Longrightarrow> authorized d auth call"
    and "call = RoleScopesUpdate s role scopes \<Longrightarrow> is_ok (fst (TenantRoleScopeController_updateRoleScopes env st rq s role scopes d)) \<Longrightarrow> authorized d auth call"
    and "call = RoleScopesReset s role \<Longrightarrow> is_ok (fst (TenantRoleScopeController_resetRoleScopes env st rq s role d)) \<Longrightarrow> authorized d auth call"
  unfolding handler_defs guard_defs by (erule policy_limited [OF _ assms]; simp add: declared_scopes)+

lemma policy_user_routes:
  assumes "authenticated auth call rq"
  shows "call = UserCreate s dto1 \<Longrightarrow> is_ok (fst (TenantUserController_create env st rq s dto1 d)) \<Longrightarrow> authorized d auth call"
    and "call = UserList s l c \<Longrightarrow> is_ok (fst (TenantUserController_list env rq s l c d)) \<Longrightarrow> authorized d auth call"
    and "call = UserUpdate s u dto2 \<Longrightarrow> is_ok (fst (TenantUserController_update env st rq s u dto2 d)) \<Longrightarrow> authorized d auth call"
    and "call = UserDelete s u \<Longrightarrow> is_ok (fst (TenantUserController_delete env rq s u d)) \<Longrightarrow> authorized d auth call"
  unfolding handler_defs guard_defs by (erule policy_users [OF _ assms]; simp add: declared_scopes)+

lemma policy_platform_routes:
  assumes "authenticated auth call rq"
  shows "is_ok (fst (TenantController_create env st rq dto d)) \<Longrightarrow> authorized d auth call"
    and "is_ok (fst (TenantController_updateStatus env st rq s status d)) \<Longrightarrow> authorized d auth call"
    and "is_ok (fst (TenantController_delete env st rq s d)) \<Longrightarrow> authorized d auth call"
    and "is_ok (fst (TenantController_restore env st rq s d)) \<Longrightarrow> authorized d auth call"
    and "is_ok (fst (AdminOperationsController_getStats rq d)) \<Longrightarrow> authorized d auth call"
    and "is_ok (fst (AdminRateLimitController_getStatus env st rq s d)) \<Longrightarrow> authorized d auth call"
    and "is_ok (fst (AdminRateLimitController_reset env st rq s d)) \<Longrightarrow> authorized d auth call"
    and "is_ok (fst (AdminSessionsController_revokeSessions env st rq s d)) \<Longrightarrow> authorized d auth call"
  unfolding handler_defs by (rule policy_platform [OF _ assms], blast)+

lemma handle_authorized:
  assumes "authenticated auth call rq" "is_ok (fst (handle env st rq call d))"
  shows "authorized d auth call"
  using assms policy_tenant_routes [OF assms(1)] policy_client_routes [OF assms(1)] policy_connection_routes [OF assms(1)]
    policy_connector_routes [OF assms(1)] policy_definition_routes [OF assms(1)] policy_credential_routes [OF assms(1)]
    policy_user_routes [OF assms(1)] policy_platform_routes [OF assms(1)] policy_create_connection policy_operation authorized_free
  by (cases call) simp_all

section \<open>Authorization\<close>

text \<open>C3. Authorization of the whole REST interface. A request that is answered with success carries a token that passed the
  check, and its claims satisfy the policy table: platform routes only for a platform administrator; otherwise the scope of
  the route is among the effective scopes of the token, the tenant the route addresses (unless the path is blank) is the tenant of
  the token, this tenant exists and is active on every route but the catalogs and the caller's own memberships, and for the user routes
  the caller is an active owner or administrator of the tenant.\<close>

theorem api_authorized:
  assumes "api env tk st hdr call (j, d) = (Ok r, j', d')"
  shows "\<exists>auth. checked_token tk j hdr = (Inr auth, j') \<and> authorized d auth call"
  using assms
proof (cases rule: api_cases)
  case refused
  then show ?thesis by simp
next
  case (passed auth rq)
  have "is_ok (fst (handle env st rq call d))"
    using passed(3) by (auto simp: route_def audited_def split: option.splits)
  then show ?thesis using passed(1) handle_authorized [OF passed(2)] by blast
qed

theorem api_authorized_witness:
  "\<exists>r j' d' auth. api demo_api_env (demo_token_check ''t1'' ''users:manage'') demo_api_stamp [''Bearer tok'']
       (UserCreate ''t1'' demo_invite) (demo_jwks, demo_two_db) = (Ok r, j', d')
     \<and> authorized demo_two_db auth (UserCreate ''t1'' demo_invite) \<and> PLATFORM_ADMIN_ROLE \<notin> set (ac_roles auth)"
proof -
  let ?tk = "demo_token_check ''t1'' ''users:manage''" and ?call = "UserCreate ''t1'' demo_invite"
  obtain u d' where i: "tus_invite ''n1'' 5000000 5000 False ''t1'' demo_invite demo_two_db = Inr (u, d')"
    using demo_users_invite by blast
  have "route demo_api_env demo_api_stamp (demo_api_rq ''users:manage'' ?call) ?call demo_two_db = (Ok (R_User (tenant_user_fromEntity u)), d')"
    by (simp add: route_def audited_def TenantUserController_create_def user_guards_def guarded_def demo_users_route validated_def
        demo_api_env_def valid_invite_def respond_def demo_api_stamp_def i)
  then obtain j' where a: "api demo_api_env ?tk demo_api_stamp [''Bearer tok''] ?call (demo_jwks, demo_two_db)
      = (Ok (R_User (tenant_user_fromEntity u)), j', d')"
    using demo_api_run [OF demo_users_token, of demo_api_env demo_api_stamp ?call demo_two_db] by auto
  obtain auth where "checked_token ?tk demo_jwks [''Bearer tok''] = (Inr auth, j')" "authorized demo_two_db auth ?call"
    using api_authorized [OF a] by blast
  moreover have "auth = demo_api_auth ''users:manage''" using calculation(1) demo_users_token by simp
  ultimately show ?thesis using a by (auto simp: demo_api_auth_def)
qed

section \<open>Gaps\<close>

text \<open>The connector routes by identifier do not validate the tenant of their path. A blank one names no tenant, so the tenant
  guard sets none and the limiter of the tenant has nothing to count: the handler runs without a hit being recorded, however many
  requests the tenant has made. The service still checks that the connector belongs to the tenant of the token.\<close>

lemma blank_path_unlimited:
  assumes "authenticated auth call rq" "path_tenantId call = Some s" "js_trim s = []" "tenant_route meta d rq = Inr rq'"
  shows "tenant_limited env st meta cls hdl rq k d = k rq' d"
proof -
  have "resolveRouteTenantId rq = None" using assms(1-3) by (simp add: resolveRouteTenantId_def authenticated_def)
  then have "rq' = rq" using assms(4) ScopeGuard_Ok [of meta rq] TenantStatusGuard_Ok [of d] assms(1)
    by (fastforce simp: tenant_route_def rbind_eq_Inr TenantGuard_def authenticated_def)
  then have "rq_tenantId rq' = None" using assms(1) by (simp add: authenticated_def)
  then show ?thesis using assms(4) by (simp add: tenant_limited_def guarded_def tier_limited_def TenantTierRateLimitGuard_def)
qed

text \<open>The route that merges keys into the configuration leaves the rate limits and life times of the tenant alone; the route that
  updates the tenant replaces the whole configuration by what the same caller sends.\<close>

lemma tenant_update_replaces_config:
  assumes "handle env st rq (TenantUpdate t dto) d = (Ok r, d')" "ut_config dto = Some config"
  shows "\<exists>x\<in>set (tenants d'). t_id x = t \<and> t_config x = config"
proof -
  have "\<exists>(x :: tenant) y d1. tns_findById t d = Inr y \<and> tn_update (sm_now st) x d = Some d1 \<and> tenants d' = tenants d1 \<and> t_id x = t_id y
      \<and> t_config x = config"
    using assms unfolding handle.simps TenantController_update_def tenant_guards_def guarded_def validated_def respond_def
    by (auto simp: rbind_eq_Inr tns_update_def Let_def domain_audit_emit_def split: sum.splits option.splits if_splits intro!: exI)
  then obtain x y d1 where x: "tns_findById t d = Inr y" "tn_update (sm_now st) x d = Some d1" "tenants d' = tenants d1" "t_id x = t_id y"
    "t_config x = config" by blast
  have "x\<lparr>t_updatedAt := sm_now st\<rparr> \<in> set (tenants d')" using x(2,3) by (auto simp: tn_update_def in_save split: if_splits)
  moreover have "t_id y = t" using x(1) by (auto simp: tns_findById_def split: option.splits dest!: tn_findById_Some)
  ultimately show ?thesis using x(4,5) by (intro bexI [of _ "x\<lparr>t_updatedAt := sm_now st\<rparr>"]) simp_all
qed

end
