(* ===== verification/Bootstrap.thy ===== *)
theory Bootstrap
  imports Tenant OAuth_Client
begin

text \<open>
  \<^verbatim>\<open>EnvironmentBootstrapService\<close> and the check of the arguments of \<^verbatim>\<open>run-bootstrap\<close>: the operator's tenant, the public client of
  the web interface and the machine client of the platform administrator, created or brought up to date.

  Each repository call commits on its own: an error leaves what was written before it. Parameters: the origin of a URL
  (\<open>None\<close> where \<^verbatim>\<open>new URL\<close> throws), argon2, and the identifiers, instants, salt and random secret that a run draws.
\<close>

section \<open>Arguments\<close>

definition slug_pattern :: "string \<Rightarrow> bool" where
  "slug_pattern s = (1 \<le> length s \<and> length s \<le> 100
     \<and> list_all (\<lambda>c. CHR ''a'' \<le> c \<and> c \<le> CHR ''z'' \<or> CHR ''0'' \<le> c \<and> c \<le> CHR ''9'' \<or> c = CHR ''-'') s)"

definition bootstrap_arguments :: "string option \<Rightarrow> string option \<Rightarrow> (string \<times> string) option" where
  "bootstrap_arguments tenant_slug tenant_name =
     (let slug = (case tenant_slug of None \<Rightarrow> [] | Some s \<Rightarrow> s); name = (case tenant_name of None \<Rightarrow> [] | Some n \<Rightarrow> n) in
      if \<not> slug_pattern slug \<or> name = [] \<or> length name > 255 then None else Some (slug, name))"

section \<open>The service\<close>

definition UI_CLIENT_ID :: string where
  "UI_CLIENT_ID = ''dtsc-ui''"

definition ADMIN_CLIENT_ID :: string where
  "ADMIN_CLIENT_ID = ''dtsc-platform-admin''"

definition UI_CALLBACK_PATH :: string where
  "UI_CALLBACK_PATH = ''/auth/callback''"

definition UI_POST_LOGOUT_PATH :: string where
  "UI_POST_LOGOUT_PATH = ''/login''"

record bootstrap_result =
  br_tenantId :: string
  br_redirectUris :: "string list"
  br_adminClientSecret :: "string option"

record bootstrap_env =
  be_issuer :: string
  be_origin :: "string \<Rightarrow> string option"
  be_argon :: argon2

record bootstrap_stamp =
  bs_tenantId :: string
  bs_uiId :: string
  bs_adminId :: string
  bs_created :: micros
  bs_now :: time
  bs_secret :: string
  bs_salt :: string

text \<open>\<^verbatim>\<open>new OAuthClient()\<close> with the defaults of the columns.\<close>

definition new_client :: "string \<Rightarrow> micros \<Rightarrow> oauth_client" where
  "new_client newid created =
     \<lparr>oc_id = newid, oc_tenantId = [], oc_clientId = [], oc_clientSecretHash = None, oc_isPublic = False, oc_name = [], oc_scopes = [],
      oc_roles = [], oc_redirectUris = [], oc_postLogoutRedirectUris = [], oc_grantTypes = [MACHINE_GRANT_TYPE], oc_createdBy = None,
      oc_createdAt = created, oc_refreshTokenTtlSeconds = None, oc_revokedAt = None, oc_revokedReason = None\<rparr>"

text \<open>\<open>assign\<close> sets the given properties; an insertion under an identifier in use is refused by the primary key.\<close>

definition upsertClient :: "string \<Rightarrow> micros \<Rightarrow> string \<Rightarrow> (oauth_client \<Rightarrow> oauth_client) \<Rightarrow> db \<Rightarrow> db option" where
  "upsertClient newid created clientId assign d =
     (case oc_findByClientId clientId d of
        Some client \<Rightarrow> oc_update ((assign client)\<lparr>oc_clientId := clientId, oc_revokedAt := None\<rparr>) d
      | None \<Rightarrow>
          if newid \<in> oc_id ` set (oauth_clients d) then None
          else oc_update ((assign (new_client newid created))\<lparr>oc_clientId := clientId, oc_revokedAt := None\<rparr>) d)"

definition ui_fields :: "string \<Rightarrow> string \<Rightarrow> oauth_client \<Rightarrow> oauth_client" where
  "ui_fields tenantId origin c =
     c\<lparr>oc_tenantId := tenantId, oc_name := ''Digital Trust Common Service UI'', oc_isPublic := True, oc_clientSecretHash := None,
       oc_scopes := [''openid'', ''profile'', ''email'', ''tenant'', ''offline_access''],
       oc_grantTypes := [''authorization_code'', ''refresh_token''], oc_redirectUris := [origin @ UI_CALLBACK_PATH],
       oc_postLogoutRedirectUris := [origin @ UI_POST_LOGOUT_PATH]\<rparr>"

definition admin_fields :: "string \<Rightarrow> string \<Rightarrow> oauth_client \<Rightarrow> oauth_client" where
  "admin_fields tenantId secretHash c =
     c\<lparr>oc_tenantId := tenantId, oc_name := ''Platform administration'', oc_clientSecretHash := Some secretHash,
       oc_scopes := [TENANT_SUPERUSER_SCOPE], oc_roles := [PLATFORM_ADMIN_ROLE], oc_grantTypes := [''client_credentials''], oc_redirectUris := []\<rparr>"

definition bootstrap_tenant :: "bootstrap_stamp \<Rightarrow> string \<Rightarrow> string \<Rightarrow> db \<Rightarrow> (tenant \<times> db) option" where
  "bootstrap_tenant st slug name d =
     (case tn_findBySlug slug False d of
        Some t \<Rightarrow> Some (t, d)
      | None \<Rightarrow>
          let t = \<lparr>t_id = bs_tenantId st, t_name = name, t_slug = slug, t_description = None, t_status = T_ACTIVE, t_config = [],
                   t_createdAt = bs_created st, t_updatedAt = bs_now st, t_deletedAt = None, t_deactivatedAt = None\<rparr>
          in if bs_tenantId st \<in> t_id ` set (tenants d) then None
             else map_option (\<lambda>d'. (t, d')) (tn_update (bs_now st) t d))"

definition bootstrap_run ::
  "bootstrap_env \<Rightarrow> bootstrap_stamp \<Rightarrow> string \<Rightarrow> string \<Rightarrow> bool \<Rightarrow> db \<Rightarrow> bootstrap_result result \<times> db" where
  "bootstrap_run env st slug name rotateAdminSecret d =
     (case bootstrap_tenant st slug name d of
        None \<Rightarrow> (Err db_error, d)
      | Some (tenant, d1) \<Rightarrow>
          (case be_origin env (be_issuer env) of
             None \<Rightarrow> (Err (InternalError ''Invalid URL''), d1)
           | Some origin \<Rightarrow>
               let redirectUris = [origin @ UI_CALLBACK_PATH] in
               (case upsertClient (bs_uiId st) (bs_created st) UI_CLIENT_ID (ui_fields (t_id tenant) origin) d1 of
                  None \<Rightarrow> (Err db_error, d1)
                | Some d2 \<Rightarrow>
                    if rotateAdminSecret \<or> oc_findByClientId ADMIN_CLIENT_ID d2 = None
                    then (case upsertClient (bs_adminId st) (bs_created st) ADMIN_CLIENT_ID
                              (admin_fields (t_id tenant) (argon_hash (be_argon env) (bs_salt st) (bs_secret st))) d2 of
                            None \<Rightarrow> (Err db_error, d2)
                          | Some d3 \<Rightarrow> (Ok \<lparr>br_tenantId = t_id tenant, br_redirectUris = redirectUris, br_adminClientSecret = Some (bs_secret st)\<rparr>, d3))
                    else (Ok \<lparr>br_tenantId = t_id tenant, br_redirectUris = redirectUris, br_adminClientSecret = None\<rparr>, d2))))"

section \<open>What an upsert leaves behind\<close>

lemma find_saved:
  "(\<And>x. x \<in> set rows \<Longrightarrow> key x \<noteq> key r \<Longrightarrow> alt x \<noteq> alt r) \<Longrightarrow> tbl_find alt (alt r) (tbl_save key r rows) = Some r"
  by (induction key r rows rule: tbl_save.induct) auto

lemma find_unsaved:
  "alt r \<noteq> k \<Longrightarrow> (\<And>x. x \<in> set rows \<Longrightarrow> key x = key r \<Longrightarrow> alt x \<noteq> k) \<Longrightarrow> tbl_find alt k (tbl_save key r rows) = tbl_find alt k rows"
  by (induction key r rows rule: tbl_save.induct) auto

lemma save_present: "tbl_keys key rows \<Longrightarrow> r \<in> set rows \<Longrightarrow> tbl_save key r rows = rows"
  by (induction key r rows rule: tbl_save.induct) (auto simp: tbl_keys_def)

definition client_keys :: "db \<Rightarrow> bool" where
  "client_keys d = (tbl_keys oc_id (oauth_clients d) \<and> tbl_keys oc_clientId (oauth_clients d))"

lemma upsert_parts:
  assumes "upsertClient newid created cid f d = Some d'" "\<And>c. oc_id (f c) = oc_id c" "client_keys d"
  obtains c c0 where "c = (f c0)\<lparr>oc_clientId := cid, oc_revokedAt := None\<rparr>" "oc_findByClientId cid d' = Some c"
    "oc_findByClientId cid d = Some c0 \<or> oc_findByClientId cid d = None \<and> c0 = new_client newid created"
    "d' = d\<lparr>oauth_clients := tbl_save oc_id c (oauth_clients d)\<rparr>" "oc_admissible c d" "client_keys d'"
    "\<And>k. k \<noteq> cid \<Longrightarrow> oc_findByClientId k d' = oc_findByClientId k d"
proof -
  obtain c0 where c0: "oc_update ((f c0)\<lparr>oc_clientId := cid, oc_revokedAt := None\<rparr>) d = Some d'"
    "oc_findByClientId cid d = Some c0 \<or> oc_findByClientId cid d = None \<and> c0 = new_client newid created \<and> newid \<notin> oc_id ` set (oauth_clients d)"
    using assms(1) by (auto simp: upsertClient_def split: option.splits if_splits)
  define c where "c = (f c0)\<lparr>oc_clientId := cid, oc_revokedAt := None\<rparr>"
  have u: "oc_admissible c d" "d' = d\<lparr>oauth_clients := tbl_save oc_id c (oauth_clients d)\<rparr>"
    using c0(1) by (auto simp: oc_update_def c_def split: if_splits)
  have i: "oc_id c = oc_id c0" "oc_clientId c = cid" by (simp_all add: c_def assms(2))
  have other: "oc_clientId x \<noteq> cid" if "x \<in> set (oauth_clients d)" "oc_id x \<noteq> oc_id c" for x
    using u(1) that i(2) by (auto simp: oc_admissible_def list_all_iff)
  have same: "oc_clientId x = cid" if "x \<in> set (oauth_clients d)" "oc_id x = oc_id c" for x
  proof (cases "oc_findByClientId cid d")
    case (Some y)
    then have "c0 \<in> set (oauth_clients d)" "oc_clientId c0 = cid"
      using c0(2) tbl_find_Some [of oc_clientId cid "oauth_clients d" c0] by (simp_all add: oc_findByClientId_def)
    then show ?thesis using that i(1) assms(3) tbl_keys_inj [of oc_id "oauth_clients d" x c0] by (auto simp: client_keys_def)
  next
    case None
    then show ?thesis using c0(2) that i(1) by (auto simp: new_client_def)
  qed
  have "tbl_keys oc_clientId (tbl_save oc_id c (oauth_clients d))"
    using assms(3) other i(2) by (intro tbl_keys_save_other) (auto simp: client_keys_def)
  then have k: "client_keys d'" using assms(3) u(2) by (simp add: client_keys_def tbl_keys_save)
  have "oc_findByClientId cid d' = Some c"
    using find_saved [of "oauth_clients d" oc_id c oc_clientId] other i(2) u(2) by (simp add: oc_findByClientId_def)
  moreover have "oc_findByClientId k d' = oc_findByClientId k d" if "k \<noteq> cid" for k
    using find_unsaved [of oc_clientId c k "oauth_clients d" oc_id] same i(2) u(2) that by (auto simp: oc_findByClientId_def)
  ultimately show ?thesis using that c_def c0(2) u k by blast
qed

lemma upsert_again:
  assumes "oc_findByClientId cid d = Some c" "client_keys d" "oc_admissible c d" "(f c)\<lparr>oc_clientId := cid, oc_revokedAt := None\<rparr> = c"
  shows "upsertClient newid created cid f d = Some d"
proof -
  have "c \<in> set (oauth_clients d)" using assms(1) tbl_find_Some by (fastforce simp: oc_findByClientId_def)
  then have "tbl_save oc_id c (oauth_clients d) = oauth_clients d" using assms(2) by (intro save_present) (simp add: client_keys_def)
  then show ?thesis using assms by (simp add: upsertClient_def oc_update_def)
qed

lemma admissible_stored:
  "client_keys d \<Longrightarrow> c \<in> set (oauth_clients d) \<Longrightarrow> secret_matches_kind c \<Longrightarrow> oc_tenantId c \<in> t_id ` set (tenants d) \<Longrightarrow> oc_admissible c d"
  using tbl_keys_inj [of oc_clientId "oauth_clients d"] by (auto simp: oc_admissible_def list_all_iff client_keys_def)

lemma find_last: "(\<And>x. x \<in> set xs \<Longrightarrow> \<not> P x) \<Longrightarrow> P y \<Longrightarrow> List.find P (xs @ [y]) = Some y"
  by (induction xs) auto

lemma tenant_parts:
  assumes "bootstrap_tenant st slug name d = Some (t, d1)"
  shows "oauth_clients d1 = oauth_clients d \<and> t_slug t = slug \<and> t_id t \<in> t_id ` set (tenants d1)
     \<and> (\<exists>t'. tn_findBySlug slug False d1 = Some t' \<and> t_id t' = t_id t)"
proof (cases "tn_findBySlug slug False d")
  case (Some t')
  then have "t = t'" "d1 = d" using assms by (simp_all add: bootstrap_tenant_def)
  moreover have "t' \<in> set (tenants d)" "t_slug t' = slug" using Some by (auto simp: tn_findBySlug_def find_Some_iff)
  ultimately show ?thesis using Some by simp
next
  case None
  then have n: "\<And>x. x \<in> set (tenants d) \<Longrightarrow> \<not> (t_slug x = slug \<and> t_deletedAt x = None)"
    by (auto simp: tn_findBySlug_def find_None_iff)
  from None assms have t: "t_id t = bs_tenantId st" "t_slug t = slug" "t_deletedAt t = None" "bs_tenantId st \<notin> t_id ` set (tenants d)"
    and u: "tn_update (bs_now st) t d = Some d1"
    by (auto simp: bootstrap_tenant_def Let_def split: if_splits)
  have d1: "d1 = d\<lparr>tenants := tenants d @ [t\<lparr>t_updatedAt := bs_now st\<rparr>]\<rparr>"
    using u t(1,4) by (auto simp: tn_update_def tbl_save_new split: if_splits)
  have "tn_findBySlug slug False d1 = Some (t\<lparr>t_updatedAt := bs_now st\<rparr>)"
    using n t(2,3) find_last [of "tenants d" "\<lambda>x. t_slug x = slug \<and> t_deletedAt x = None"] by (simp add: d1 tn_findBySlug_def)
  then show ?thesis using t d1 by auto
qed

lemma ui_fields_id: "oc_id (ui_fields t o' c) = oc_id c" and admin_fields_id: "oc_id (admin_fields t h c) = oc_id c"
  by (simp_all add: ui_fields_def admin_fields_def)

lemma ui_admin_distinct: "UI_CLIENT_ID \<noteq> ADMIN_CLIENT_ID" "ADMIN_CLIENT_ID \<noteq> UI_CLIENT_ID"
  by (simp_all add: UI_CLIENT_ID_def ADMIN_CLIENT_ID_def)

text \<open>The parts of a run that succeeds: the tenant, the client of the web interface, and the administrator's client.\<close>

lemma run_parts:
  assumes "bootstrap_run env st slug name rotated d = (Ok res, d')" "client_keys d"
  obtains t d1 origin d2 c c0 where "bootstrap_tenant st slug name d = Some (t, d1)" "be_origin env (be_issuer env) = Some origin"
    "br_tenantId res = t_id t" "br_redirectUris res = [origin @ UI_CALLBACK_PATH]"
    "upsertClient (bs_uiId st) (bs_created st) UI_CLIENT_ID (ui_fields (t_id t) origin) d1 = Some d2"
    "c = (ui_fields (t_id t) origin c0)\<lparr>oc_clientId := UI_CLIENT_ID, oc_revokedAt := None\<rparr>"
    "oc_findByClientId UI_CLIENT_ID d' = Some c" "client_keys d2" "client_keys d'" "tenants d' = tenants d1"
    "oc_findByClientId ADMIN_CLIENT_ID d2 = oc_findByClientId ADMIN_CLIENT_ID d"
    "if rotated \<or> oc_findByClientId ADMIN_CLIENT_ID d = None
     then br_adminClientSecret res = Some (bs_secret st) \<and> upsertClient (bs_adminId st) (bs_created st) ADMIN_CLIENT_ID
         (admin_fields (t_id t) (argon_hash (be_argon env) (bs_salt st) (bs_secret st))) d2 = Some d'
     else br_adminClientSecret res = None \<and> d' = d2"
proof -
  obtain t d1 origin d2 where r: "bootstrap_tenant st slug name d = Some (t, d1)" "be_origin env (be_issuer env) = Some origin"
      "upsertClient (bs_uiId st) (bs_created st) UI_CLIENT_ID (ui_fields (t_id t) origin) d1 = Some d2"
      "br_tenantId res = t_id t" "br_redirectUris res = [origin @ UI_CALLBACK_PATH]"
      "if rotated \<or> oc_findByClientId ADMIN_CLIENT_ID d2 = None
       then br_adminClientSecret res = Some (bs_secret st) \<and> upsertClient (bs_adminId st) (bs_created st) ADMIN_CLIENT_ID
           (admin_fields (t_id t) (argon_hash (be_argon env) (bs_salt st) (bs_secret st))) d2 = Some d'
       else br_adminClientSecret res = None \<and> d' = d2"
    using assms(1) by (auto simp: bootstrap_run_def Let_def split: option.splits if_splits)
  have k1: "client_keys d1" and f1: "oc_findByClientId k d1 = oc_findByClientId k d" for k
    using tenant_parts [OF r(1)] assms(2) by (simp_all add: client_keys_def oc_findByClientId_def)
  show ?thesis
  proof (rule upsert_parts [OF r(3) ui_fields_id k1])
    fix c c0
    assume c: "c = (ui_fields (t_id t) origin c0)\<lparr>oc_clientId := UI_CLIENT_ID, oc_revokedAt := None\<rparr>"
      "oc_findByClientId UI_CLIENT_ID d2 = Some c" "d2 = d1\<lparr>oauth_clients := tbl_save oc_id c (oauth_clients d1)\<rparr>" "client_keys d2"
      and o: "\<And>k. k \<noteq> UI_CLIENT_ID \<Longrightarrow> oc_findByClientId k d2 = oc_findByClientId k d1"
    have a: "oc_findByClientId ADMIN_CLIENT_ID d2 = oc_findByClientId ADMIN_CLIENT_ID d" using o [OF ui_admin_distinct(2)] f1 by simp
    have "client_keys d' \<and> oc_findByClientId UI_CLIENT_ID d' = Some c \<and> tenants d' = tenants d1"
    proof (cases "rotated \<or> oc_findByClientId ADMIN_CLIENT_ID d2 = None")
      case True
      then have up: "upsertClient (bs_adminId st) (bs_created st) ADMIN_CLIENT_ID
          (admin_fields (t_id t) (argon_hash (be_argon env) (bs_salt st) (bs_secret st))) d2 = Some d'" using r(6) by simp
      show ?thesis by (rule upsert_parts [OF up admin_fields_id c(4)]) (use c ui_admin_distinct in simp)
    next
      case False
      then show ?thesis using r(6) c by simp
    qed
    then show ?thesis using that [OF r(1,2,4,5,3) c(1)] c(4) a r(6) by simp
  qed
qed

section \<open>Properties\<close>

text \<open>C15. A bootstrap that succeeds leaves an environment that can be used: there is a tenant with the requested slug that is not
  deleted; the client of the web interface belongs to it, is public, holds no secret, is not revoked and has the redirect
  URI that is reported; when a secret is reported the platform-admin client holds the platform role, belongs to the tenant and
  authenticates with exactly that secret, and when none is reported it is the client that was there before.\<close>

theorem bootstrap_ready:
  assumes run: "bootstrap_run env st slug name rotated d = (Ok res, d')" and "client_keys d"
    and argon: "\<forall>salt s s'. argon_verify (be_argon env) (argon_hash (be_argon env) salt s) s' = (s = s') \<and> argon_hash (be_argon env) salt s \<noteq> []"
  shows "(\<exists>t\<in>set (tenants d'). t_slug t = slug \<and> t_deletedAt t = None \<and> t_id t = br_tenantId res)
     \<and> (\<exists>c. oc_findByClientId UI_CLIENT_ID d' = Some c \<and> oc_tenantId c = br_tenantId res \<and> oc_isPublic c \<and> oc_clientSecretHash c = None
          \<and> oc_revokedAt c = None \<and> oc_redirectUris c = br_redirectUris res)
     \<and> (case br_adminClientSecret res of
          Some s \<Rightarrow> (\<exists>c. oc_findByClientId ADMIN_CLIENT_ID d' = Some c \<and> oc_tenantId c = br_tenantId res \<and> oc_roles c = [PLATFORM_ADMIN_ROLE])
             \<and> (\<forall>s'. verifyClientSecret (be_argon env) ADMIN_CLIENT_ID s' d' = Ok (s' = s))
        | None \<Rightarrow> oc_findByClientId ADMIN_CLIENT_ID d \<noteq> None \<and> oc_findByClientId ADMIN_CLIENT_ID d' = oc_findByClientId ADMIN_CLIENT_ID d)"
proof (rule run_parts [OF run assms(2)], intro conjI)
  fix t d1 origin d2 c c0
  assume t: "bootstrap_tenant st slug name d = Some (t, d1)" "br_tenantId res = t_id t" "tenants d' = tenants d1"
    and u: "br_redirectUris res = [origin @ UI_CALLBACK_PATH]" "c = (ui_fields (t_id t) origin c0)\<lparr>oc_clientId := UI_CLIENT_ID, oc_revokedAt := None\<rparr>"
      "oc_findByClientId UI_CLIENT_ID d' = Some c"
    and k: "client_keys d2" "oc_findByClientId ADMIN_CLIENT_ID d2 = oc_findByClientId ADMIN_CLIENT_ID d"
    and a: "if rotated \<or> oc_findByClientId ADMIN_CLIENT_ID d = None
     then br_adminClientSecret res = Some (bs_secret st) \<and> upsertClient (bs_adminId st) (bs_created st) ADMIN_CLIENT_ID
         (admin_fields (t_id t) (argon_hash (be_argon env) (bs_salt st) (bs_secret st))) d2 = Some d'
     else br_adminClientSecret res = None \<and> d' = d2"
  obtain t' where t': "tn_findBySlug slug False d1 = Some t'" "t_id t' = t_id t" using tenant_parts [OF t(1)] by blast
  then have "t' \<in> set (tenants d1)" "t_slug t' = slug" "t_deletedAt t' = None" by (auto simp: tn_findBySlug_def find_Some_iff)
  then show "\<exists>t\<in>set (tenants d'). t_slug t = slug \<and> t_deletedAt t = None \<and> t_id t = br_tenantId res" using t(2,3) t'(2) by (intro bexI [of _ t']) simp_all
  show "\<exists>c. oc_findByClientId UI_CLIENT_ID d' = Some c \<and> oc_tenantId c = br_tenantId res \<and> oc_isPublic c \<and> oc_clientSecretHash c = None
          \<and> oc_revokedAt c = None \<and> oc_redirectUris c = br_redirectUris res"
    using u t(2) by (simp add: ui_fields_def)
  show "case br_adminClientSecret res of
          Some s \<Rightarrow> (\<exists>c. oc_findByClientId ADMIN_CLIENT_ID d' = Some c \<and> oc_tenantId c = br_tenantId res \<and> oc_roles c = [PLATFORM_ADMIN_ROLE])
             \<and> (\<forall>s'. verifyClientSecret (be_argon env) ADMIN_CLIENT_ID s' d' = Ok (s' = s))
        | None \<Rightarrow> oc_findByClientId ADMIN_CLIENT_ID d \<noteq> None \<and> oc_findByClientId ADMIN_CLIENT_ID d' = oc_findByClientId ADMIN_CLIENT_ID d"
  proof (cases "rotated \<or> oc_findByClientId ADMIN_CLIENT_ID d = None")
    case True
    then have up: "upsertClient (bs_adminId st) (bs_created st) ADMIN_CLIENT_ID
          (admin_fields (t_id t) (argon_hash (be_argon env) (bs_salt st) (bs_secret st))) d2 = Some d'" and s: "br_adminClientSecret res = Some (bs_secret st)"
      using a by simp_all
    show ?thesis
      by (rule upsert_parts [OF up admin_fields_id k(1)])
        (use s t(2) argon in \<open>auto simp: admin_fields_def verifyClientSecret_def ocs_findByClientId_def\<close>)
  next
    case False
    then show ?thesis using a k(2) by simp
  qed
qed

text \<open>C16. The bootstrap can be run again. After a run that succeeded, a second run for the same slug without rotation, with any
  fresh identifiers, secret, time and tenant name, succeeds, reports the same tenant and redirect URI and no secret, and leaves
  every table as it is.\<close>

theorem bootstrap_idempotent:
  assumes "bootstrap_run env st slug name rotated d = (Ok res, d')" and "client_keys d"
  shows "bootstrap_run env st' slug name' False d' = (Ok (res\<lparr>br_adminClientSecret := None\<rparr>), d')"
proof (rule run_parts [OF assms])
  fix t d1 origin d2 c c0
  assume t: "bootstrap_tenant st slug name d = Some (t, d1)" "be_origin env (be_issuer env) = Some origin"
      "br_tenantId res = t_id t" "br_redirectUris res = [origin @ UI_CALLBACK_PATH]" "tenants d' = tenants d1"
    and c: "c = (ui_fields (t_id t) origin c0)\<lparr>oc_clientId := UI_CLIENT_ID, oc_revokedAt := None\<rparr>" "oc_findByClientId UI_CLIENT_ID d' = Some c"
    and k: "client_keys d2" "client_keys d'" "oc_findByClientId ADMIN_CLIENT_ID d2 = oc_findByClientId ADMIN_CLIENT_ID d"
    and a: "if rotated \<or> oc_findByClientId ADMIN_CLIENT_ID d = None
     then br_adminClientSecret res = Some (bs_secret st) \<and> upsertClient (bs_adminId st) (bs_created st) ADMIN_CLIENT_ID
         (admin_fields (t_id t) (argon_hash (be_argon env) (bs_salt st) (bs_secret st))) d2 = Some d'
     else br_adminClientSecret res = None \<and> d' = d2"
  have p: "t_id t \<in> t_id ` set (tenants d')" using tenant_parts [OF t(1)] t(5) by simp
  obtain t' where t': "tn_findBySlug slug False d' = Some t'" "t_id t' = t_id t"
    using tenant_parts [OF t(1)] t(5) by (auto simp: tn_findBySlug_def)
  have m: "c \<in> set (oauth_clients d')" using c(2) tbl_find_Some by (fastforce simp: oc_findByClientId_def)
  have "upsertClient (bs_uiId st') (bs_created st') UI_CLIENT_ID (ui_fields (t_id t) origin) d' = Some d'"
  proof (rule upsert_again [OF c(2) k(2)])
    show "oc_admissible c d'" by (rule admissible_stored [OF k(2) m]) (use c(1) p in \<open>simp_all add: ui_fields_def secret_matches_kind_def\<close>)
    show "(ui_fields (t_id t) origin c)\<lparr>oc_clientId := UI_CLIENT_ID, oc_revokedAt := None\<rparr> = c" by (simp add: c(1) ui_fields_def)
  qed
  moreover have "oc_findByClientId ADMIN_CLIENT_ID d' \<noteq> None"
  proof (cases "rotated \<or> oc_findByClientId ADMIN_CLIENT_ID d = None")
    case True
    then have up: "upsertClient (bs_adminId st) (bs_created st) ADMIN_CLIENT_ID
          (admin_fields (t_id t) (argon_hash (be_argon env) (bs_salt st) (bs_secret st))) d2 = Some d'" using a by simp
    show ?thesis by (rule upsert_parts [OF up admin_fields_id k(1)]) simp
  next
    case False
    then show ?thesis using a k(3) by simp
  qed
  moreover have "bootstrap_tenant st' slug name' d' = Some (t', d')" using t'(1) by (simp add: bootstrap_tenant_def)
  ultimately show ?thesis using t(2-4) t'(2) by (cases res) (auto simp: bootstrap_run_def Let_def)
qed

definition demo_bootstrap_env :: bootstrap_env where
  "demo_bootstrap_env = \<lparr>be_issuer = ''https://app/oidc'', be_origin = (\<lambda>s. if s = ''https://app/oidc'' then Some ''https://app'' else None), be_argon = demo_argon\<rparr>"

definition demo_bootstrap_stamp :: bootstrap_stamp where
  "demo_bootstrap_stamp = \<lparr>bs_tenantId = ''t'', bs_uiId = ''u'', bs_adminId = ''a'', bs_created = 1000, bs_now = 1, bs_secret = ''sec'', bs_salt = ''x''\<rparr>"

definition demo_bootstrap_result :: bootstrap_result where
  "demo_bootstrap_result = \<lparr>br_tenantId = ''t'', br_redirectUris = [''https://app/auth/callback''], br_adminClientSecret = Some ''sec''\<rparr>"

lemma demo_bootstrap: "fst (bootstrap_run demo_bootstrap_env demo_bootstrap_stamp ''ops'' ''Operator'' False empty_db) = Ok demo_bootstrap_result"
  by code_simp

lemma demo_bootstrap_keys: "client_keys empty_db"
  by (simp add: client_keys_def empty_db_def tbl_keys_def)

theorem bootstrap_ready_witness:
  "\<exists>d'. bootstrap_run demo_bootstrap_env demo_bootstrap_stamp ''ops'' ''Operator'' False empty_db = (Ok demo_bootstrap_result, d')
     \<and> verifyClientSecret demo_argon ADMIN_CLIENT_ID ''sec'' d' = Ok True \<and> verifyClientSecret demo_argon ADMIN_CLIENT_ID ''other'' d' = Ok False"
proof -
  obtain d' where d': "bootstrap_run demo_bootstrap_env demo_bootstrap_stamp ''ops'' ''Operator'' False empty_db = (Ok demo_bootstrap_result, d')"
    using demo_bootstrap by (metis prod.collapse)
  have e: "be_argon demo_bootstrap_env = demo_argon" by (simp add: demo_bootstrap_env_def)
  show ?thesis using d' bootstrap_ready [OF d' demo_bootstrap_keys] by (simp add: e demo_argon_def demo_bootstrap_result_def)
qed

theorem bootstrap_idempotent_witness:
  "\<exists>d'. bootstrap_run demo_bootstrap_env demo_bootstrap_stamp ''ops'' ''Operator'' False empty_db = (Ok demo_bootstrap_result, d')
     \<and> bootstrap_run demo_bootstrap_env (demo_bootstrap_stamp\<lparr>bs_tenantId := ''t9'', bs_secret := ''new''\<rparr>) ''ops'' ''Renamed'' False d'
         = (Ok (demo_bootstrap_result\<lparr>br_adminClientSecret := None\<rparr>), d')"
proof -
  obtain d' where d': "bootstrap_run demo_bootstrap_env demo_bootstrap_stamp ''ops'' ''Operator'' False empty_db = (Ok demo_bootstrap_result, d')"
    using demo_bootstrap by (metis prod.collapse)
  then show ?thesis using bootstrap_idempotent [OF d' demo_bootstrap_keys] by blast
qed

end
