(* ===== verification/Profile.thy ===== *)
theory Profile
  imports Connector_Credential Credential_Definition
begin

text \<open>
  Issuance and verification profiles (\<^verbatim>\<open>issuance-profile\<close>, \<^verbatim>\<open>verification-profile\<close>): the two tables with the constraints of
  migration 000010, and the methods of their repositories. A profile is identified by its tenant, name and version; both
  repositories keep this promise, which is the locale \<open>versioned_table\<close>.
\<close>

section \<open>Entities\<close>

datatype issuance_protocol_hint = IPH_DIDCOMM | IPH_OID4VCI | IPH_AUTO
datatype verification_protocol_hint = VPH_DIDCOMM | VPH_OID4VP | VPH_AUTO
datatype issuance_profile_status = IPS_DRAFT | IPS_PUBLISHED | IPS_DEPRECATED
datatype verification_profile_status = VPS_DRAFT | VPS_PUBLISHED | VPS_DEPRECATED

record issuance_profile =
  isp_id :: string
  isp_tenantId :: string
  isp_name :: string
  isp_version :: string
  isp_description :: "string option"
  isp_credentialDefinitionId :: string
  isp_format :: cd_format
  isp_connectorId :: "string option"
  isp_attributeSchema :: json
  isp_defaults :: "json option"
  isp_display :: "json option"
  isp_metadata :: "(string \<times> json) list"
  isp_protocolHint :: issuance_protocol_hint
  isp_status :: issuance_profile_status
  isp_createdAt :: micros
  isp_updatedAt :: time

record verification_profile =
  vp_id :: string
  vp_tenantId :: string
  vp_issuanceProfileId :: string
  vp_name :: string
  vp_version :: string
  vp_description :: "string option"
  vp_presentationDefinition :: json
  vp_requestedAttributes :: "string list option"
  vp_predicates :: "json list option"
  vp_metadata :: "(string \<times> json) list"
  vp_isPublic :: bool
  vp_protocolHint :: verification_protocol_hint
  vp_status :: verification_profile_status
  vp_createdAt :: micros
  vp_updatedAt :: time

record profile_store =
  issuance_profiles :: "issuance_profile list"
  verification_profiles :: "verification_profile list"

definition isp_vkey :: "issuance_profile \<Rightarrow> string \<times> string \<times> string" where
  "isp_vkey p = (isp_tenantId p, isp_name p, isp_version p)"

definition vp_vkey :: "verification_profile \<Rightarrow> string \<times> string \<times> string" where
  "vp_vkey p = (vp_tenantId p, vp_name p, vp_version p)"

section \<open>Issuance profiles\<close>

text \<open>The constraints of the table: lengths, foreign keys, and one row for each tenant, name and version.\<close>

definition isp_admissible :: "db \<Rightarrow> issuance_profile \<Rightarrow> profile_store \<Rightarrow> bool" where
  "isp_admissible d p ps =
     (length (isp_name p) \<le> 100 \<and> length (isp_version p) \<le> 20 \<and> isp_tenantId p \<in> t_id ` set (tenants d)
      \<and> isp_credentialDefinitionId p \<in> cd_id ` set (credential_definitions d)
      \<and> (case isp_connectorId p of None \<Rightarrow> True | Some c \<Rightarrow> c \<in> cc_id ` set (connector_credentials d))
      \<and> list_all (\<lambda>x. isp_id x = isp_id p \<or> isp_vkey x \<noteq> isp_vkey p) (issuance_profiles ps))"

definition isp_create :: "db \<Rightarrow> issuance_profile \<Rightarrow> profile_store \<Rightarrow> (issuance_profile \<times> profile_store) option" where
  "isp_create d p ps =
     (if isp_admissible d p ps
      then map_option (\<lambda>rows. (p, ps\<lparr>issuance_profiles := rows\<rparr>)) (tbl_insert isp_id p (issuance_profiles ps))
      else None)"

definition isp_findById :: "string \<Rightarrow> profile_store \<Rightarrow> issuance_profile option" where
  "isp_findById i ps = tbl_find isp_id i (issuance_profiles ps)"

definition isp_findByTenant :: "string \<Rightarrow> profile_store \<Rightarrow> issuance_profile list" where
  "isp_findByTenant tenantId ps = sort_key isp_createdAt (filter (\<lambda>p. isp_tenantId p = tenantId) (issuance_profiles ps))"

definition isp_findPublished :: "string \<Rightarrow> profile_store \<Rightarrow> issuance_profile list" where
  "isp_findPublished tenantId ps =
     sort_key isp_createdAt (filter (\<lambda>p. isp_tenantId p = tenantId \<and> isp_status p = IPS_PUBLISHED) (issuance_profiles ps))"

definition isp_findByNameAndVersion :: "string \<Rightarrow> string \<Rightarrow> string \<Rightarrow> profile_store \<Rightarrow> issuance_profile option" where
  "isp_findByNameAndVersion tenantId name version ps =
     List.find (\<lambda>p. isp_tenantId p = tenantId \<and> isp_name p = name \<and> isp_version p = version) (issuance_profiles ps)"

definition isp_updateStatus :: "time \<Rightarrow> string \<Rightarrow> issuance_profile_status \<Rightarrow> profile_store \<Rightarrow> profile_store" where
  "isp_updateStatus now i st ps =
     ps\<lparr>issuance_profiles := tbl_update (\<lambda>p. isp_id p = i) (\<lambda>p. p\<lparr>isp_status := st, isp_updatedAt := now\<rparr>) (issuance_profiles ps)\<rparr>"

definition isp_save :: "time \<Rightarrow> db \<Rightarrow> issuance_profile \<Rightarrow> profile_store \<Rightarrow> (issuance_profile \<times> profile_store) option" where
  "isp_save now d p ps =
     (let p' = p\<lparr>isp_updatedAt := now\<rparr> in
      if isp_admissible d p' ps then Some (p', ps\<lparr>issuance_profiles := tbl_save isp_id p' (issuance_profiles ps)\<rparr>) else None)"

section \<open>Verification profiles\<close>

definition vp_admissible :: "db \<Rightarrow> verification_profile \<Rightarrow> profile_store \<Rightarrow> bool" where
  "vp_admissible d p ps =
     (length (vp_name p) \<le> 100 \<and> length (vp_version p) \<le> 20 \<and> vp_tenantId p \<in> t_id ` set (tenants d)
      \<and> vp_issuanceProfileId p \<in> isp_id ` set (issuance_profiles ps)
      \<and> list_all (\<lambda>x. vp_id x = vp_id p \<or> vp_vkey x \<noteq> vp_vkey p) (verification_profiles ps))"

definition vp_create :: "db \<Rightarrow> verification_profile \<Rightarrow> profile_store \<Rightarrow> (verification_profile \<times> profile_store) option" where
  "vp_create d p ps =
     (if vp_admissible d p ps
      then map_option (\<lambda>rows. (p, ps\<lparr>verification_profiles := rows\<rparr>)) (tbl_insert vp_id p (verification_profiles ps))
      else None)"

definition vp_findById :: "string \<Rightarrow> profile_store \<Rightarrow> verification_profile option" where
  "vp_findById i ps = tbl_find vp_id i (verification_profiles ps)"

definition vp_findByTenant :: "string \<Rightarrow> profile_store \<Rightarrow> verification_profile list" where
  "vp_findByTenant tenantId ps = sort_key vp_createdAt (filter (\<lambda>p. vp_tenantId p = tenantId) (verification_profiles ps))"

definition vp_findPublicByTenant :: "string \<Rightarrow> profile_store \<Rightarrow> verification_profile list" where
  "vp_findPublicByTenant tenantId ps =
     sort_key vp_createdAt (filter (\<lambda>p. vp_tenantId p = tenantId \<and> vp_isPublic p) (verification_profiles ps))"

definition vp_findByNameAndVersion :: "string \<Rightarrow> string \<Rightarrow> string \<Rightarrow> profile_store \<Rightarrow> verification_profile option" where
  "vp_findByNameAndVersion tenantId name version ps =
     List.find (\<lambda>p. vp_tenantId p = tenantId \<and> vp_name p = name \<and> vp_version p = version) (verification_profiles ps)"

definition vp_updateStatus :: "time \<Rightarrow> string \<Rightarrow> verification_profile_status \<Rightarrow> profile_store \<Rightarrow> profile_store" where
  "vp_updateStatus now i st ps =
     ps\<lparr>verification_profiles := tbl_update (\<lambda>p. vp_id p = i) (\<lambda>p. p\<lparr>vp_status := st, vp_updatedAt := now\<rparr>) (verification_profiles ps)\<rparr>"

definition vp_save :: "time \<Rightarrow> db \<Rightarrow> verification_profile \<Rightarrow> profile_store \<Rightarrow> (verification_profile \<times> profile_store) option" where
  "vp_save now d p ps =
     (let p' = p\<lparr>vp_updatedAt := now\<rparr> in
      if vp_admissible d p' ps then Some (p', ps\<lparr>verification_profiles := tbl_save vp_id p' (verification_profiles ps)\<rparr>) else None)"

section \<open>The steps of the two repositories\<close>

datatype profile_step =
    ISP_Create issuance_profile
  | ISP_Save time issuance_profile
  | ISP_UpdateStatus time string issuance_profile_status
  | VP_Create verification_profile
  | VP_Save time verification_profile
  | VP_UpdateStatus time string verification_profile_status

text \<open>A call that is refused leaves the tables as they are; \<open>d\<close> are the other tables at the time of the call.\<close>

fun profile_exec :: "db \<times> profile_step \<Rightarrow> profile_store \<Rightarrow> profile_store" where
  "profile_exec (d, ISP_Create p) ps = (case isp_create d p ps of None \<Rightarrow> ps | Some (_, ps') \<Rightarrow> ps')"
| "profile_exec (d, ISP_Save now p) ps = (case isp_save now d p ps of None \<Rightarrow> ps | Some (_, ps') \<Rightarrow> ps')"
| "profile_exec (d, ISP_UpdateStatus now i st) ps = isp_updateStatus now i st ps"
| "profile_exec (d, VP_Create p) ps = (case vp_create d p ps of None \<Rightarrow> ps | Some (_, ps') \<Rightarrow> ps')"
| "profile_exec (d, VP_Save now p) ps = (case vp_save now d p ps of None \<Rightarrow> ps | Some (_, ps') \<Rightarrow> ps')"
| "profile_exec (d, VP_UpdateStatus now i st) ps = vp_updateStatus now i st ps"

section \<open>What the repositories promise\<close>

text \<open>A table with a primary key and a second key that is unique: what is stored is found under its second key, in the
  form in which it was stored, until it is stored again.\<close>

locale versioned_table =
  fixes ident :: "'r \<Rightarrow> 'i" and vkey :: "'r \<Rightarrow> 'v"
    and rows :: "'s \<Rightarrow> 'r list"
    and insert_row :: "'r \<Rightarrow> 's \<Rightarrow> ('r \<times> 's) option"
    and save_row :: "'r \<Rightarrow> 's \<Rightarrow> ('r \<times> 's) option"
    and lookup :: "'v \<Rightarrow> 's \<Rightarrow> 'r option"
  assumes insert_row: "insert_row r s = Some (r', s') \<Longrightarrow> rows s' = rows s @ [r'] \<and> ident r' \<notin> ident ` set (rows s) \<and> r' = r
      \<and> (\<forall>x\<in>set (rows s). ident x = ident r' \<or> vkey x \<noteq> vkey r')"
    and save_row: "save_row r s = Some (r', s') \<Longrightarrow> rows s' = tbl_save ident r' (rows s) \<and> ident r' = ident r \<and> vkey r' = vkey r
      \<and> (\<forall>x\<in>set (rows s). ident x = ident r' \<or> vkey x \<noteq> vkey r')"
    and lookup: "lookup v s = tbl_find vkey v (rows s)"
begin

definition unique_rows :: "'s \<Rightarrow> bool" where
  "unique_rows s = (tbl_keys ident (rows s) \<and> tbl_keys vkey (rows s))"

lemma insert_unique: "insert_row r s = Some (r', s') \<Longrightarrow> unique_rows s \<Longrightarrow> unique_rows s'"
  using insert_row [of r s r' s'] unfolding unique_rows_def tbl_keys_def by (simp, metis (no_types, lifting) imageE image_eqI)

lemma save_unique: "save_row r s = Some (r', s') \<Longrightarrow> unique_rows s \<Longrightarrow> unique_rows s'"
  using save_row [of r s r' s'] by (auto simp: unique_rows_def intro: tbl_keys_save tbl_keys_save_other)

lemma lookup_unique: "unique_rows s \<Longrightarrow> r \<in> set (rows s) \<Longrightarrow> lookup (vkey r) s = Some r"
  by (simp add: lookup unique_rows_def tbl_find_mem)

lemma lookup_inserted: "insert_row r s = Some (r', s') \<Longrightarrow> unique_rows s \<Longrightarrow> lookup (vkey r) s' = Some r'"
  using insert_row [of r s r' s'] lookup_unique [OF insert_unique, of r s r' s' r'] by simp

lemma lookup_saved: "save_row r s = Some (r', s') \<Longrightarrow> unique_rows s \<Longrightarrow> lookup (vkey r) s' = Some r'"
  using save_row [of r s r' s'] lookup_unique [OF save_unique, of r s r' s' r'] by simp

end

interpretation isp: versioned_table isp_id isp_vkey issuance_profiles "isp_create d" "isp_save now d"
  "\<lambda>(t, n, v). isp_findByNameAndVersion t n v" for d now
  by unfold_locales
    (auto simp: isp_create_def isp_save_def isp_admissible_def isp_vkey_def isp_findByNameAndVersion_def tbl_insert_def tbl_find_def
      list_all_iff Let_def split: if_splits)

interpretation vp: versioned_table vp_id vp_vkey verification_profiles "vp_create d" "vp_save now d"
  "\<lambda>(t, n, v). vp_findByNameAndVersion t n v" for d now
  by unfold_locales
    (auto simp: vp_create_def vp_save_def vp_admissible_def vp_vkey_def vp_findByNameAndVersion_def tbl_insert_def tbl_find_def
      list_all_iff Let_def split: if_splits)

text \<open>Both tables have unique rows, and every verification profile refers to an issuance profile.\<close>

definition profile_inv :: "profile_store \<Rightarrow> bool" where
  "profile_inv ps = (isp.unique_rows ps \<and> vp.unique_rows ps
     \<and> vp_issuanceProfileId ` set (verification_profiles ps) \<subseteq> isp_id ` set (issuance_profiles ps))"

lemma map_patch: "(\<And>r. g (f r) = g r) \<Longrightarrow> map g (tbl_update p f rows) = map g rows"
  by (simp add: tbl_update_def)

lemma update_status_keys:
  "map isp_id (issuance_profiles (isp_updateStatus now i st ps)) = map isp_id (issuance_profiles ps)"
  "map isp_vkey (issuance_profiles (isp_updateStatus now i st ps)) = map isp_vkey (issuance_profiles ps)"
  "map vp_id (verification_profiles (vp_updateStatus now i vst ps)) = map vp_id (verification_profiles ps)"
  "map vp_vkey (verification_profiles (vp_updateStatus now i vst ps)) = map vp_vkey (verification_profiles ps)"
  "map vp_issuanceProfileId (verification_profiles (vp_updateStatus now i vst ps)) = map vp_issuanceProfileId (verification_profiles ps)"
  "verification_profiles (isp_updateStatus now i st ps) = verification_profiles ps"
  "issuance_profiles (vp_updateStatus now i vst ps) = issuance_profiles ps"
  by (simp_all add: isp_updateStatus_def vp_updateStatus_def isp_vkey_def vp_vkey_def map_patch)

lemma profile_inv_alt:
  "profile_inv ps = (distinct (map isp_id (issuance_profiles ps)) \<and> distinct (map isp_vkey (issuance_profiles ps))
     \<and> distinct (map vp_id (verification_profiles ps)) \<and> distinct (map vp_vkey (verification_profiles ps))
     \<and> set (map vp_issuanceProfileId (verification_profiles ps)) \<subseteq> set (map isp_id (issuance_profiles ps)))"
  by (auto simp: profile_inv_def isp.unique_rows_def vp.unique_rows_def tbl_keys_def)

lemma unique_rows_cong:
  "issuance_profiles ps = issuance_profiles ps' \<Longrightarrow> isp.unique_rows ps = isp.unique_rows ps'"
  "verification_profiles ps = verification_profiles ps' \<Longrightarrow> vp.unique_rows ps = vp.unique_rows ps'"
  by (simp_all add: isp.unique_rows_def vp.unique_rows_def)

lemma isp_write_inv:
  assumes "isp_create d p ps = Some (p', ps') \<or> isp_save now d p ps = Some (p', ps')" "profile_inv ps"
  shows "profile_inv ps'"
proof -
  have u: "isp.unique_rows ps'" using assms isp.insert_unique [of d p ps p' ps'] isp.save_unique [of now d p ps p' ps']
    by (auto simp: profile_inv_def)
  have "verification_profiles ps' = verification_profiles ps"
    using assms(1) by (auto simp: isp_create_def isp_save_def Let_def split: if_splits)
  moreover have "isp_id ` set (issuance_profiles ps) \<subseteq> isp_id ` set (issuance_profiles ps')"
    using assms(1) isp.insert_row [of d p ps p' ps'] isp.save_row [of now d p ps p' ps'] by (auto simp: keys_tbl_save)
  ultimately show ?thesis using u assms(2) unique_rows_cong(2) [of ps' ps] unfolding profile_inv_def by (metis subset_trans)
qed

lemma vp_write_inv:
  assumes "vp_create d p ps = Some (p', ps') \<or> vp_save now d p ps = Some (p', ps')" "profile_inv ps"
  shows "profile_inv ps'"
proof -
  have u: "vp.unique_rows ps'" using assms vp.insert_unique [of d p ps p' ps'] vp.save_unique [of now d p ps p' ps']
    by (auto simp: profile_inv_def)
  have s: "issuance_profiles ps' = issuance_profiles ps" "vp_issuanceProfileId p' \<in> isp_id ` set (issuance_profiles ps)"
    using assms(1) by (auto simp: vp_create_def vp_save_def vp_admissible_def Let_def split: if_splits)
  have "set (verification_profiles ps') \<subseteq> insert p' (set (verification_profiles ps))"
    using assms(1) vp.insert_row [of d p ps p' ps'] vp.save_row [of now d p ps p' ps'] set_tbl_save [of vp_id p' "verification_profiles ps"] by auto
  then show ?thesis using u s assms(2) unique_rows_cong(1) [of ps' ps] by (auto simp: profile_inv_def)
qed

lemma profile_exec_inv: "profile_inv ps \<Longrightarrow> profile_inv (profile_exec x ps)"
proof (cases x)
  case (Pair d st)
  assume i: "profile_inv ps"
  show ?thesis
  proof (cases st)
    case (ISP_UpdateStatus now i st')
    then show ?thesis using i Pair by (simp only: profile_inv_alt profile_exec.simps update_status_keys)
  next
    case (VP_UpdateStatus now i st')
    then show ?thesis using i Pair by (simp only: profile_inv_alt profile_exec.simps update_status_keys)
  qed (use i Pair in \<open>auto split: option.splits elim: isp_write_inv [OF disjI1] isp_write_inv [OF disjI2] vp_write_inv [OF disjI1] vp_write_inv [OF disjI2]\<close>)
qed

definition empty_profiles :: profile_store where
  "empty_profiles = \<lparr>issuance_profiles = [], verification_profiles = []\<rparr>"

interpretation pf: invariant_system "\<lambda>ps. ps = empty_profiles" profile_exec profile_inv
  by unfold_locales (simp add: profile_inv_alt empty_profiles_def, rule profile_exec_inv)

section \<open>Properties\<close>

text \<open>C22. A published version is what a lookup by name and version returns. After any history of the two repositories, with any
  changes of the other tables in between, an issuance or a verification profile that is created or saved is the one found
  under its tenant, name and version, and no two profiles of a kind share these three.\<close>

theorem profile_versions:
  assumes "ps = fold profile_exec steps empty_profiles"
  shows "distinct (map isp_vkey (issuance_profiles ps)) \<and> distinct (map vp_vkey (verification_profiles ps))
     \<and> (\<forall>d now p p' ps'. isp_create d p ps = Some (p', ps') \<or> isp_save now d p ps = Some (p', ps')
          \<longrightarrow> isp_findByNameAndVersion (isp_tenantId p) (isp_name p) (isp_version p) ps' = Some p')
     \<and> (\<forall>d now p p' ps'. vp_create d p ps = Some (p', ps') \<or> vp_save now d p ps = Some (p', ps')
          \<longrightarrow> vp_findByNameAndVersion (vp_tenantId p) (vp_name p) (vp_version p) ps' = Some p')"
proof -
  have "profile_inv ps" using pf.reachable_inv [of empty_profiles steps] assms by simp
  then have u: "isp.unique_rows ps" "vp.unique_rows ps" by (simp_all add: profile_inv_def)
  then show ?thesis
    using isp.lookup_inserted [OF _ u(1)] isp.lookup_saved [OF _ u(1)] vp.lookup_inserted [OF _ u(2)] vp.lookup_saved [OF _ u(2)]
    by (auto simp: isp.unique_rows_def vp.unique_rows_def tbl_keys_def isp_vkey_def vp_vkey_def)
qed

definition demo_profile :: issuance_profile where
  "demo_profile = \<lparr>isp_id = ''p1'', isp_tenantId = ''t1'', isp_name = ''person'', isp_version = ''1.0'', isp_description = None,
     isp_credentialDefinitionId = ''c1'', isp_format = F_ANONCREDS, isp_connectorId = None, isp_attributeSchema = JObj [], isp_defaults = None,
     isp_display = None, isp_metadata = [], isp_protocolHint = IPH_AUTO, isp_status = IPS_DRAFT, isp_createdAt = 1, isp_updatedAt = 1\<rparr>"

definition demo_profile_db :: db where
  "demo_profile_db = demo_db\<lparr>credential_definitions := [\<lparr>cd_id = ''c1'', cd_tenantId = ''t1'', cd_name = ''n'', cd_format = F_ANONCREDS,
     cd_schemaDefinition = JNull, cd_externalId = ''e'', cd_connectorType = TRACTION, cd_metadata = None, cd_isActive = True, cd_createdAt = 1,
     cd_updatedAt = 1\<rparr>]\<rparr>"

lemma demo_profile_steps:
  "\<exists>x. isp_save 9 demo_profile_db (demo_profile\<lparr>isp_status := IPS_PUBLISHED\<rparr>)
       (fold profile_exec [(demo_profile_db, ISP_Create demo_profile)] empty_profiles)
     = Some (demo_profile\<lparr>isp_status := IPS_PUBLISHED, isp_updatedAt := 9\<rparr>, x)"
  by (simp add: isp_save_def isp_create_def isp_admissible_def isp_vkey_def demo_profile_def demo_profile_db_def empty_profiles_def demo_db_def
      demo_tenant_def tbl_insert_def Let_def)

theorem profile_versions_witness:
  "\<exists>ps'. isp_findByNameAndVersion ''t1'' ''person'' ''1.0'' ps' = Some (demo_profile\<lparr>isp_status := IPS_PUBLISHED, isp_updatedAt := 9\<rparr>)"
  using profile_versions [OF refl, of "[(demo_profile_db, ISP_Create demo_profile)]"] demo_profile_steps
  by (fastforce simp: demo_profile_def)

end
