(* ===== verification/Ui_Client.thy ===== *)
theory Ui_Client
  imports Prelude
begin

text \<open>
  The HTTP layer of the web interface (\<^verbatim>\<open>ui/src/lib/api\<close>): the normal form of errors, the shape of lists, and the
  interceptors of the API client, which renew the access token when a request is answered with 401. The renewal is shared by
  all requests that need one; the interleaving of requests, answers and the renewal is a state machine.

  Parameters: the text of a number in JavaScript. The library axios is seen through the interceptors it calls: a request
  reads the token when it is sent, and an answer is a value or an error that may carry a response.
\<close>

section \<open>Errors\<close>

text \<open>The text of a value in a template literal or in \<^verbatim>\<open>join\<close>; \<open>num\<close> prints a number.\<close>

fun js_text :: "(rat \<Rightarrow> string) \<Rightarrow> json \<Rightarrow> string" where
  "js_text num JUndef = ''undefined''"
| "js_text num JNull = ''null''"
| "js_text num (JBool b) = (if b then ''true'' else ''false'')"
| "js_text num (JNum q) = num q"
| "js_text num (JStr s) = s"
| "js_text num (JArr vs) = js_join '','' (map (\<lambda>v. if v = JNull \<or> v = JUndef then [] else js_text num v) vs)"
| "js_text num (JObj _) = ''[object Object]''"

record api_error =
  ae_code :: json
  ae_message :: json
  ae_status :: "rat option"
  ae_details :: json
  ae_requestId :: json

datatype thrown =
    ApiErrorThrown api_error
  | AxiosError string "(rat \<times> json) option" bool
  | ErrorThrown string
  | NoError

fun has_key :: "json \<Rightarrow> string \<Rightarrow> bool" where
  "has_key (JObj kvs) k = (map_of kvs k \<noteq> None)"
| "has_key _ _ = False"

definition isSpecErrorBody :: "json \<Rightarrow> bool" where
  "isSpecErrorBody body = (has_key body ''error'' \<and> has_key (jget body ''error'') ''message'')"

definition isNestErrorBody :: "json \<Rightarrow> bool" where
  "isNestErrorBody body = (has_key body ''statusCode'' \<and> has_key body ''message'')"

fun normalizeApiError :: "(rat \<Rightarrow> string) \<Rightarrow> thrown \<Rightarrow> api_error" where
  "normalizeApiError num (ApiErrorThrown e) = e"
| "normalizeApiError num (AxiosError message response _) =
     (let status = map_option fst response; body = (case response of None \<Rightarrow> JUndef | Some (_, b) \<Rightarrow> b) in
      if isSpecErrorBody body
      then \<lparr>ae_code = jget (jget body ''error'') ''code'', ae_message = jget (jget body ''error'') ''message'', ae_status = status,
            ae_details = jget (jget body ''error'') ''details'', ae_requestId = jget (jget body ''error'') ''request_id''\<rparr>
      else if isNestErrorBody body
      then \<lparr>ae_code = (if jget body ''error'' \<in> {JNull, JUndef} then JStr (''HTTP_'' @ js_text num (jget body ''statusCode'')) else jget body ''error''),
            ae_message = (case jget body ''message'' of
                JArr vs \<Rightarrow> JStr (js_join ''; '' (map (\<lambda>v. if v = JNull \<or> v = JUndef then [] else js_text num v) vs))
              | m \<Rightarrow> m),
            ae_status = status, ae_details = JUndef, ae_requestId = JUndef\<rparr>
      else (case response of
              Some (st, _) \<Rightarrow> \<lparr>ae_code = JStr (''HTTP_'' @ num st), ae_message = JStr message, ae_status = Some st, ae_details = JUndef, ae_requestId = JUndef\<rparr>
            | None \<Rightarrow> \<lparr>ae_code = JStr ''NETWORK_ERROR'', ae_message = JStr message, ae_status = None, ae_details = JUndef, ae_requestId = JUndef\<rparr>))"
| "normalizeApiError num (ErrorThrown m) = \<lparr>ae_code = JStr ''UNKNOWN'', ae_message = JStr m, ae_status = None, ae_details = JUndef, ae_requestId = JUndef\<rparr>"
| "normalizeApiError num NoError = \<lparr>ae_code = JStr ''UNKNOWN'', ae_message = JStr ''Unknown error'', ae_status = None, ae_details = JUndef, ae_requestId = JUndef\<rparr>"

section \<open>Lists\<close>

record ui_page =
  pg_data :: "json list"
  pg_next_cursor :: json
  pg_has_more :: json
  pg_total_count :: json

definition or_else :: "json \<Rightarrow> json \<Rightarrow> json" where
  "or_else v w = (if v = JNull \<or> v = JUndef then w else v)"

definition normalizePage :: "json \<Rightarrow> string + ui_page" where
  "normalizePage body =
     (case body of
        JArr xs \<Rightarrow> Inr \<lparr>pg_data = xs, pg_next_cursor = JNull, pg_has_more = JBool False, pg_total_count = JUndef\<rparr>
      | JObj _ \<Rightarrow>
          (case jget body ''data'' of
             JArr xs \<Rightarrow>
               Inr \<lparr>pg_data = xs, pg_next_cursor = or_else (jget (jget body ''pagination'') ''next_cursor'') JNull,
                    pg_has_more = or_else (jget (jget body ''pagination'') ''has_more'') (JBool False),
                    pg_total_count = jget (jget body ''pagination'') ''total_count''\<rparr>
           | _ \<Rightarrow> Inl ''Unexpected list response shape'')
      | _ \<Rightarrow> Inl ''Unexpected list response shape'')"

section \<open>The API client\<close>

text \<open>\<^verbatim>\<open>refreshInFlight\<close>: none, waiting for the provider, or settled with its reactions (\<^verbatim>\<open>finally\<close> and the waiting requests)
  still to run.\<close>

datatype flight = NoFlight | Refreshing | Settled "string option"

text \<open>A request: on the wire (retried or not, with its \<^verbatim>\<open>Authorization\<close> token), waiting for a renewal with the error that
  made it wait, answered, or failed.\<close>

datatype request_phase =
    Sent bool "string option"
  | Waiting nat thrown "string option"
  | Answered json
  | Failed api_error

record ui_request =
  rq_id :: nat
  rq_phase :: request_phase
  rq_sends :: nat

record api_client =
  ac_handlers :: bool
  ac_flight :: flight
  ac_results :: "string option list"
  ac_requests :: "ui_request list"
  ac_refreshes :: nat
  ac_failures :: nat

definition init_client :: api_client where
  "init_client = \<lparr>ac_handlers = False, ac_flight = NoFlight, ac_results = [], ac_requests = [], ac_refreshes = 0, ac_failures = 0\<rparr>"

text \<open>A renewal that resolves to no token or to an empty one has failed.\<close>

definition truthy_token :: "string option \<Rightarrow> bool" where
  "truthy_token t = (t \<noteq> None \<and> t \<noteq> Some [])"

definition attach_token :: "bool \<Rightarrow> string option \<Rightarrow> string option \<Rightarrow> string option" where
  "attach_token handlers token header = (if handlers \<and> truthy_token token then token else header)"

definition set_phase :: "nat \<Rightarrow> request_phase \<Rightarrow> api_client \<Rightarrow> api_client" where
  "set_phase r p c = c\<lparr>ac_requests := tbl_update (\<lambda>q. rq_id q = r) (\<lambda>q. q\<lparr>rq_phase := p\<rparr>) (ac_requests c)\<rparr>"

definition phase_of :: "nat \<Rightarrow> api_client \<Rightarrow> request_phase option" where
  "phase_of r c = map_option rq_phase (tbl_find rq_id r (ac_requests c))"

definition is_unauthorized :: "thrown \<Rightarrow> bool" where
  "is_unauthorized e = (case e of AxiosError _ (Some (st, _)) _ \<Rightarrow> st = 401 | _ \<Rightarrow> False)"

definition has_config :: "thrown \<Rightarrow> bool" where
  "has_config e = (case e of AxiosError _ _ b \<Rightarrow> b | _ \<Rightarrow> False)"

text \<open>The error interceptor for a request on the wire. The number of a flight is its position among all flights.\<close>

definition on_rejected :: "(rat \<Rightarrow> string) \<Rightarrow> nat \<Rightarrow> bool \<Rightarrow> string option \<Rightarrow> thrown \<Rightarrow> api_client \<Rightarrow> api_client" where
  "on_rejected num r retried header e c =
     (if \<not> is_unauthorized e \<or> \<not> ac_handlers c then set_phase r (Failed (normalizeApiError num e)) c
      else if \<not> has_config e \<or> retried
      then set_phase r (Failed (normalizeApiError num e)) (c\<lparr>ac_failures := ac_failures c + 1\<rparr>)
      else set_phase r (Waiting (length (ac_results c)) e header)
             (if ac_flight c = NoFlight then c\<lparr>ac_flight := Refreshing, ac_refreshes := ac_refreshes c + 1\<rparr> else c))"

datatype client_event =
    SetHandlers bool
  | Request nat "string option"
  | Answer nat json
  | Reject nat thrown
  | RefreshSettles "string option"
  | Finally
  | Resume nat "string option"

text \<open>What can happen next; \<open>None\<close> when an event is not possible. \<open>Request\<close> and \<open>Resume\<close> carry the token that
  \<^verbatim>\<open>getAccessToken\<close> returns at that moment.\<close>

fun client_step :: "(rat \<Rightarrow> string) \<Rightarrow> client_event \<Rightarrow> api_client \<Rightarrow> api_client option" where
  "client_step num (SetHandlers b) c = Some (c\<lparr>ac_handlers := b\<rparr>)"
| "client_step num (Request r tok) c =
     (if r \<in> rq_id ` set (ac_requests c) then None
      else Some (c\<lparr>ac_requests := ac_requests c @ [\<lparr>rq_id = r, rq_phase = Sent False (attach_token (ac_handlers c) tok None), rq_sends = 1\<rparr>]\<rparr>))"
| "client_step num (Answer r v) c =
     (case phase_of r c of Some (Sent _ _) \<Rightarrow> Some (set_phase r (Answered v) c) | _ \<Rightarrow> None)"
| "client_step num (Reject r e) c =
     (case phase_of r c of Some (Sent retried header) \<Rightarrow> Some (on_rejected num r retried header e c) | _ \<Rightarrow> None)"
| "client_step num (RefreshSettles tok) c =
     (if ac_flight c = Refreshing
      then Some (c\<lparr>ac_flight := Settled tok, ac_failures := ac_failures c + (if \<not> truthy_token tok \<and> ac_handlers c then 1 else 0)\<rparr>)
      else None)"
| "client_step num Finally c =
     (case ac_flight c of Settled tok \<Rightarrow> Some (c\<lparr>ac_flight := NoFlight, ac_results := ac_results c @ [tok]\<rparr>) | _ \<Rightarrow> None)"
| "client_step num (Resume r tok) c =
     (case phase_of r c of
        Some (Waiting n e header) \<Rightarrow>
          if n < length (ac_results c)
          then Some (if truthy_token (ac_results c ! n)
                     then c\<lparr>ac_requests := tbl_update (\<lambda>q. rq_id q = r)
                              (\<lambda>q. q\<lparr>rq_phase := Sent True (attach_token (ac_handlers c) tok header), rq_sends := rq_sends q + 1\<rparr>) (ac_requests c)\<rparr>
                     else set_phase r (Failed (normalizeApiError num e)) c)
          else None
      | _ \<Rightarrow> None)"

fun client_run :: "(rat \<Rightarrow> string) \<Rightarrow> client_event list \<Rightarrow> api_client \<Rightarrow> api_client option" where
  "client_run num [] c = Some c"
| "client_run num (e # es) c = (case client_step num e c of None \<Rightarrow> None | Some c' \<Rightarrow> client_run num es c')"

section \<open>The invariant of the client\<close>

definition failed_flights :: "api_client \<Rightarrow> nat" where
  "failed_flights c = length (filter (\<lambda>t. \<not> truthy_token t) (ac_results c))
     + (case ac_flight c of Settled t \<Rightarrow> if truthy_token t then 0 else 1 | _ \<Rightarrow> 0)"

fun refused_again :: "ui_request \<Rightarrow> bool" where
  "refused_again q = (rq_sends q = 2 \<and> (case rq_phase q of Failed _ \<Rightarrow> True | _ \<Rightarrow> False))"

definition request_ok :: "nat \<Rightarrow> bool \<Rightarrow> ui_request \<Rightarrow> bool" where
  "request_ok settled flying q =
     (case rq_phase q of
        Sent retried _ \<Rightarrow> rq_sends q = (if retried then 2 else 1)
      | Waiting n _ _ \<Rightarrow> rq_sends q = 1 \<and> (n < settled \<or> n = settled \<and> flying)
      | _ \<Rightarrow> rq_sends q \<in> {1, 2})"

definition client_inv :: "api_client \<Rightarrow> bool" where
  "client_inv c = (tbl_keys rq_id (ac_requests c)
     \<and> ac_refreshes c = length (ac_results c) + (if ac_flight c = NoFlight then 0 else 1)
     \<and> list_all (request_ok (length (ac_results c)) (ac_flight c \<noteq> NoFlight)) (ac_requests c)
     \<and> ac_failures c \<le> failed_flights c + length (filter refused_again (ac_requests c)))"

lemma keys_update: "tbl_keys key rows \<Longrightarrow> (\<And>r. key (f r) = key r) \<Longrightarrow> tbl_keys key (tbl_update p f rows)"
proof -
  assume k: "tbl_keys key rows" "\<And>r. key (f r) = key r"
  have "map key (tbl_update p f rows) = map key rows" by (simp add: tbl_update_def k(2))
  then show "tbl_keys key (tbl_update p f rows)" using k(1) by (simp only: tbl_keys_def)
qed

lemma phase_of_Some:
  "phase_of r c = Some p \<Longrightarrow> \<exists>q. q \<in> set (ac_requests c) \<and> rq_id q = r \<and> rq_phase q = p"
  by (auto simp: phase_of_def dest: tbl_find_Some)

text \<open>Replacing the one request with a given identifier.\<close>

lemma update_one:
  assumes "tbl_keys rq_id qs" "q \<in> set qs"
  shows "\<exists>as bs. qs = as @ q # bs \<and> tbl_update (\<lambda>x. rq_id x = rq_id q) f qs = as @ f q # bs"
proof -
  obtain as bs where s: "qs = as @ q # bs" using split_list [OF assms(2)] by blast
  have n: "\<forall>x\<in>set as \<union> set bs. rq_id x \<noteq> rq_id q" using assms(1) unfolding s tbl_keys_def by (auto simp: rev_image_eqI)
  have "tbl_update (\<lambda>x. rq_id x = rq_id q) f as = as" "tbl_update (\<lambda>x. rq_id x = rq_id q) f bs = bs"
    using n unfolding tbl_update_def by (simp_all add: map_idI)
  then show ?thesis using s by (auto simp: tbl_update_def)
qed

lemma request_ok_mono: "request_ok n b q \<Longrightarrow> n \<le> n' \<Longrightarrow> (b \<Longrightarrow> n = n' \<Longrightarrow> b') \<Longrightarrow> request_ok n' b' q"
  by (auto simp: request_ok_def split: request_phase.splits)

lemma list_ok_mono:
  "list_all (request_ok n b) qs \<Longrightarrow> n \<le> n' \<Longrightarrow> (b \<Longrightarrow> n = n' \<Longrightarrow> b') \<Longrightarrow> list_all (request_ok n' b') qs"
  by (auto simp: list_all_iff intro: request_ok_mono)

text \<open>Changing one request of a good client.\<close>

lemma inv_update:
  assumes "client_inv c" "q \<in> set (ac_requests c)"
    and "rq_id (f q) = rq_id q" "request_ok (length (ac_results c)) (fl \<noteq> NoFlight) (f q)" "\<not> refused_again q"
    and "\<And>x. rq_id (f x) = rq_id x"
    and "fl = ac_flight c \<and> rf = ac_refreshes c \<or> ac_flight c = NoFlight \<and> fl = Refreshing \<and> rf = ac_refreshes c + 1"
    and "fa \<le> ac_failures c + (if refused_again (f q) then 1 else 0)"
  shows "client_inv (c\<lparr>ac_flight := fl, ac_refreshes := rf, ac_failures := fa, ac_requests := tbl_update (\<lambda>x. rq_id x = rq_id q) f (ac_requests c)\<rparr>)"
proof -
  have k: "tbl_keys rq_id (ac_requests c)" using assms(1) by (simp add: client_inv_def)
  obtain as bs where s: "ac_requests c = as @ q # bs" "tbl_update (\<lambda>x. rq_id x = rq_id q) f (ac_requests c) = as @ f q # bs"
    using update_one [OF k assms(2)] by blast
  have ok: "list_all (request_ok (length (ac_results c)) (fl \<noteq> NoFlight)) (as @ bs)"
    using assms(1,7) s(1) by (auto simp: client_inv_def intro: list_ok_mono)
  have ff: "failed_flights (c\<lparr>ac_flight := fl, ac_refreshes := rf, ac_failures := fa, ac_requests := x\<rparr>) = failed_flights c" for x
    using assms(7) by (auto simp: failed_flights_def)
  have kk: "tbl_keys rq_id (tbl_update (\<lambda>x. rq_id x = rq_id q) f (ac_requests c))" by (rule keys_update [OF k assms(6)])
  show ?thesis
    using assms(1,4,5,7,8) ok kk s unfolding client_inv_def ff by (auto simp: list_all_iff)
qed

lemma client_step_inv:
  assumes "client_step num ev c = Some c'" "client_inv c" "\<And>r e. ev = Reject r e \<Longrightarrow> is_unauthorized e \<Longrightarrow> has_config e"
  shows "client_inv c'"
proof (cases ev)
  case (Request r tok)
  then show ?thesis using assms(1,2)
    by (auto simp: client_inv_def tbl_keys_def failed_flights_def request_ok_def split: if_splits)
next
  case (Answer r v)
  then obtain b h where p: "phase_of r c = Some (Sent b h)" and c': "c' = set_phase r (Answered v) c"
    using assms(1) by (auto split: option.splits request_phase.splits)
  from phase_of_Some [OF p] obtain q where q: "q \<in> set (ac_requests c)" "rq_id q = r" "rq_phase q = Sent b h" by blast
  then have "request_ok (length (ac_results c)) (ac_flight c \<noteq> NoFlight) q" using assms(2) by (auto simp: client_inv_def list_all_iff)
  then show ?thesis
    using inv_update [OF assms(2) q(1), of "\<lambda>x. x\<lparr>rq_phase := Answered v\<rparr>" "ac_flight c" "ac_refreshes c" "ac_failures c"] q c'
    by (auto simp: set_phase_def request_ok_def split: if_splits)
next
  case (Reject r e)
  then obtain b h where p: "phase_of r c = Some (Sent b h)" and c': "c' = on_rejected num r b h e c"
    using assms(1) by (auto split: option.splits request_phase.splits)
  from phase_of_Some [OF p] obtain q where q: "q \<in> set (ac_requests c)" "rq_id q = r" "rq_phase q = Sent b h" by blast
  then have ok: "request_ok (length (ac_results c)) (ac_flight c \<noteq> NoFlight) q" using assms(2) by (auto simp: client_inv_def list_all_iff)
  have hc: "is_unauthorized e \<Longrightarrow> has_config e" using assms(3) Reject by blast
  have fail: "client_inv (set_phase r (Failed er) (c\<lparr>ac_failures := fa\<rparr>))"
    if "fa \<le> ac_failures c + (if b then 1 else 0)" for er fa
    using inv_update [OF assms(2) q(1), of "\<lambda>x. x\<lparr>rq_phase := Failed er\<rparr>" "ac_flight c" "ac_refreshes c" fa] q ok that
    by (auto simp: set_phase_def request_ok_def split: if_splits)
  have wait: "client_inv (set_phase r (Waiting (length (ac_results c)) e h)
       (if ac_flight c = NoFlight then c\<lparr>ac_flight := Refreshing, ac_refreshes := ac_refreshes c + 1\<rparr> else c))" if "\<not> b"
    using inv_update [OF assms(2) q(1), of "\<lambda>x. x\<lparr>rq_phase := Waiting (length (ac_results c)) e h\<rparr>"
        "if ac_flight c = NoFlight then Refreshing else ac_flight c" "if ac_flight c = NoFlight then ac_refreshes c + 1 else ac_refreshes c" "ac_failures c"]
      q ok that
    by (auto simp: set_phase_def request_ok_def split: if_splits)
  show ?thesis using c' hc fail [of "ac_failures c"] fail [of "ac_failures c + 1"] wait by (auto simp: on_rejected_def)
next
  case (RefreshSettles tok)
  then show ?thesis using assms(1,2)
    by (auto simp: client_inv_def failed_flights_def split: if_splits)
next
  case Finally
  then obtain t where "ac_flight c = Settled t" "c' = c\<lparr>ac_flight := NoFlight, ac_results := ac_results c @ [t]\<rparr>"
    using assms(1) by (auto split: flight.splits)
  moreover have "list_all (request_ok (Suc (length (ac_results c))) False) (ac_requests c)"
    by (rule list_ok_mono [of "length (ac_results c)" "ac_flight c \<noteq> NoFlight"]) (use assms(2) in \<open>simp_all add: client_inv_def\<close>)
  ultimately show ?thesis using assms(2) by (cases "truthy_token t") (simp_all add: client_inv_def failed_flights_def)
next
  case (Resume r tok)
  then obtain n e h where p: "phase_of r c = Some (Waiting n e h)" and n: "n < length (ac_results c)"
    and c': "c' = (if truthy_token (ac_results c ! n)
       then c\<lparr>ac_requests := tbl_update (\<lambda>q. rq_id q = r)
              (\<lambda>q. q\<lparr>rq_phase := Sent True (attach_token (ac_handlers c) tok h), rq_sends := rq_sends q + 1\<rparr>) (ac_requests c)\<rparr>
       else set_phase r (Failed (normalizeApiError num e)) c)"
    using assms(1) by (auto split: option.splits request_phase.splits if_splits)
  from phase_of_Some [OF p] obtain q where q: "q \<in> set (ac_requests c)" "rq_id q = r" "rq_phase q = Waiting n e h" by blast
  then have ok: "rq_sends q = 1" using assms(2) by (auto simp: client_inv_def list_all_iff request_ok_def)
  show ?thesis
    using inv_update [OF assms(2) q(1), of "\<lambda>q. q\<lparr>rq_phase := Sent True (attach_token (ac_handlers c) tok h), rq_sends := rq_sends q + 1\<rparr>"
        "ac_flight c" "ac_refreshes c" "ac_failures c"]
      inv_update [OF assms(2) q(1), of "\<lambda>q. q\<lparr>rq_phase := Failed (normalizeApiError num e)\<rparr>" "ac_flight c" "ac_refreshes c" "ac_failures c"]
      q ok c'
    by (auto simp: set_phase_def request_ok_def)
qed (use assms in \<open>auto simp: client_inv_def failed_flights_def\<close>)

lemma init_client_inv: "client_inv init_client"
  by (simp add: client_inv_def init_client_def tbl_keys_def failed_flights_def)

lemma client_run_inv:
  "client_run num evs c = Some c' \<Longrightarrow> client_inv c \<Longrightarrow> (\<And>r e. Reject r e \<in> set evs \<Longrightarrow> is_unauthorized e \<Longrightarrow> has_config e) \<Longrightarrow> client_inv c'"
proof (induction evs arbitrary: c)
  case (Cons ev evs)
  then obtain c1 where c1: "client_step num ev c = Some c1" "client_run num evs c1 = Some c'" by (auto split: option.splits)
  have "client_inv c1" by (rule client_step_inv [OF c1(1) Cons.prems(2)]) (use Cons.prems(3) in auto)
  then show ?case using Cons.IH [OF c1(2)] Cons.prems(3) by auto
qed simp

section \<open>Every request is settled\<close>

fun request_weight :: "request_phase \<Rightarrow> nat" where
  "request_weight (Sent retried _) = (if retried then 1 else 6)"
| "request_weight (Waiting _ _ _) = 2"
| "request_weight _ = 0"

definition client_weight :: "api_client \<Rightarrow> nat" where
  "client_weight c = sum_list (map (request_weight \<circ> rq_phase) (ac_requests c))
     + (case ac_flight c of NoFlight \<Rightarrow> 0 | Refreshing \<Rightarrow> 2 | Settled _ \<Rightarrow> 1)"

text \<open>The events that do not come from the application: no new request, no change of the handlers.\<close>

fun reaction :: "client_event \<Rightarrow> bool" where
  "reaction (SetHandlers _) = False"
| "reaction (Request _ _) = False"
| "reaction _ = True"

lemma weight_update:
  assumes "tbl_keys rq_id qs" "q \<in> set qs"
  shows "sum_list (map (request_weight \<circ> rq_phase) (tbl_update (\<lambda>x. rq_id x = rq_id q) f qs)) + request_weight (rq_phase q)
     = sum_list (map (request_weight \<circ> rq_phase) qs) + request_weight (rq_phase (f q))"
proof -
  obtain as bs where s: "qs = as @ q # bs" "tbl_update (\<lambda>x. rq_id x = rq_id q) f qs = as @ f q # bs"
    using update_one [OF assms] by blast
  show ?thesis unfolding s(2) unfolding s(1) by simp
qed

lemma reaction_decreases:
  assumes "client_step num ev c = Some c'" "client_inv c" "reaction ev"
  shows "client_weight c' < client_weight c"
proof (cases ev)
  case (Answer r v)
  then obtain b h where p: "phase_of r c = Some (Sent b h)" and c': "c' = set_phase r (Answered v) c"
    using assms(1) by (auto split: option.splits request_phase.splits)
  from phase_of_Some [OF p] obtain q where q: "q \<in> set (ac_requests c)" "rq_id q = r" "rq_phase q = Sent b h" by blast
  show ?thesis using weight_update [of "ac_requests c" q "\<lambda>x. x\<lparr>rq_phase := Answered v\<rparr>"] assms(2) q c'
    by (auto simp: client_inv_def client_weight_def set_phase_def split: if_splits)
next
  case (Reject r e)
  then obtain b h where p: "phase_of r c = Some (Sent b h)" and c': "c' = on_rejected num r b h e c"
    using assms(1) by (auto split: option.splits request_phase.splits)
  from phase_of_Some [OF p] obtain q where q: "q \<in> set (ac_requests c)" "rq_id q = r" "rq_phase q = Sent b h" by blast
  have w: "sum_list (map (request_weight \<circ> rq_phase) (tbl_update (\<lambda>x. rq_id x = r) (\<lambda>x. x\<lparr>rq_phase := ph\<rparr>) (ac_requests c))) + (if b then 1 else 6)
      = sum_list (map (request_weight \<circ> rq_phase) (ac_requests c)) + request_weight ph" for ph
    using weight_update [of "ac_requests c" q "\<lambda>x. x\<lparr>rq_phase := ph\<rparr>"] assms(2) q by (simp add: client_inv_def)
  show ?thesis
    using c' w [of "Failed (normalizeApiError num e)"] w [of "Waiting (length (ac_results c)) e h"]
    by (auto simp: on_rejected_def client_weight_def set_phase_def split: if_splits flight.splits)
next
  case (Resume r tok)
  then obtain n e h where p: "phase_of r c = Some (Waiting n e h)"
    and c': "c' = (if truthy_token (ac_results c ! n)
       then c\<lparr>ac_requests := tbl_update (\<lambda>q. rq_id q = r)
              (\<lambda>q. q\<lparr>rq_phase := Sent True (attach_token (ac_handlers c) tok h), rq_sends := rq_sends q + 1\<rparr>) (ac_requests c)\<rparr>
       else set_phase r (Failed (normalizeApiError num e)) c)"
    using assms(1) by (auto split: option.splits request_phase.splits if_splits)
  from phase_of_Some [OF p] obtain q where q: "q \<in> set (ac_requests c)" "rq_id q = r" "rq_phase q = Waiting n e h" by blast
  show ?thesis
    using weight_update [of "ac_requests c" q "\<lambda>q. q\<lparr>rq_phase := Sent True (attach_token (ac_handlers c) tok h), rq_sends := rq_sends q + 1\<rparr>"]
      weight_update [of "ac_requests c" q "\<lambda>q. q\<lparr>rq_phase := Failed (normalizeApiError num e)\<rparr>"] assms(2) q c'
    by (auto simp: client_inv_def client_weight_def set_phase_def split: if_splits)
qed (use assms in \<open>auto simp: client_weight_def split: if_splits flight.splits\<close>)

lemma reactions_bounded:
  assumes "client_run num evs c = Some c'" "client_inv c" "list_all reaction evs"
    "\<And>r e. Reject r e \<in> set evs \<Longrightarrow> is_unauthorized e \<Longrightarrow> has_config e"
  shows "client_weight c' + length evs \<le> client_weight c"
  using assms
proof (induction evs arbitrary: c)
  case (Cons ev evs)
  then obtain c1 where c1: "client_step num ev c = Some c1" "client_run num evs c1 = Some c'" by (auto split: option.splits)
  have i: "client_inv c1" by (rule client_step_inv [OF c1(1) Cons.prems(2)]) (use Cons.prems(4) in auto)
  have "client_weight c1 < client_weight c" using reaction_decreases [OF c1(1) Cons.prems(2)] Cons.prems(3) by simp
  moreover have "client_weight c' + length evs \<le> client_weight c1" by (rule Cons.IH [OF c1(2) i]) (use Cons.prems in auto)
  ultimately show ?case by simp
qed simp

definition is_settled :: "ui_request \<Rightarrow> bool" where
  "is_settled q = (case rq_phase q of Answered _ \<Rightarrow> True | Failed _ \<Rightarrow> True | _ \<Rightarrow> False)"

lemma phase_found: "tbl_keys rq_id (ac_requests c) \<Longrightarrow> q \<in> set (ac_requests c) \<Longrightarrow> phase_of (rq_id q) c = Some (rq_phase q)"
  by (simp add: phase_of_def tbl_find_mem)

lemma unsettled_progress:
  assumes "client_inv c" "\<not> list_all is_settled (ac_requests c)"
  shows "\<exists>ev. reaction ev \<and> client_step num ev c \<noteq> None \<and> (\<forall>r e. ev \<noteq> Reject r e)"
proof -
  obtain q where q: "q \<in> set (ac_requests c)" "\<not> is_settled q" using assms(2) by (auto simp: list_all_iff)
  have p: "phase_of (rq_id q) c = Some (rq_phase q)" using phase_found [OF _ q(1)] assms(1) by (simp add: client_inv_def)
  show ?thesis
  proof (cases "rq_phase q")
    case (Sent b h)
    then show ?thesis using p by (intro exI [of _ "Answer (rq_id q) JNull"]) simp
  next
    case (Waiting n e h)
    then have "n < length (ac_results c) \<or> n = length (ac_results c) \<and> ac_flight c \<noteq> NoFlight"
      using assms(1) q(1) by (auto simp: client_inv_def list_all_iff request_ok_def)
    then show ?thesis
    proof
      assume "n < length (ac_results c)"
      then show ?thesis using p Waiting by (intro exI [of _ "Resume (rq_id q) None"]) simp
    next
      assume f: "n = length (ac_results c) \<and> ac_flight c \<noteq> NoFlight"
      show ?thesis
      proof (cases "ac_flight c")
        case Refreshing
        then show ?thesis by (intro exI [of _ "RefreshSettles None"]) simp
      next
        case (Settled t)
        then show ?thesis by (intro exI [of _ Finally]) simp
      qed (use f in simp)
    qed
  qed (use q(2) in \<open>auto simp: is_settled_def\<close>)
qed

section \<open>Properties\<close>

text \<open>C17. One renewal at a time, one retry, one sign-out. In every interleaving of requests, answers and renewals: at most one
  call of \<^verbatim>\<open>refresh\<close> is outstanding, however many requests are refused at once; no request is sent more than twice; and the
  session is given up at most once for each renewal that failed and once for each request that was refused again after its
  retry. The hypothesis says that the library attaches its configuration to the errors it raises.\<close>

theorem single_flight:
  assumes "client_run num evs init_client = Some c"
    and "\<forall>r e. Reject r e \<in> set evs \<longrightarrow> is_unauthorized e \<longrightarrow> has_config e"
  shows "ac_refreshes c = length (ac_results c) + (if ac_flight c = NoFlight then 0 else 1)
     \<and> (\<forall>q\<in>set (ac_requests c). rq_sends q \<le> 2)
     \<and> ac_failures c \<le> failed_flights c + length (filter refused_again (ac_requests c))"
proof -
  have i: "client_inv c" using client_run_inv [OF assms(1) init_client_inv] assms(2) by blast
  have "rq_sends q \<le> 2" if "q \<in> set (ac_requests c)" for q
  proof -
    have "request_ok (length (ac_results c)) (ac_flight c \<noteq> NoFlight) q" using i that by (simp add: client_inv_def list_all_iff)
    then show ?thesis by (auto simp: request_ok_def split: request_phase.splits if_splits)
  qed
  then show ?thesis using i by (simp add: client_inv_def)
qed

text \<open>C18. No request hangs. From any state the client can reach, when no new requests come in, the answers, the renewal and the
  resumptions end after at most six steps for each request and two more, and as long as a request is neither answered nor failed
  there is a next step.\<close>

theorem requests_settle:
  assumes "client_run num evs init_client = Some c"
    and "\<forall>r e. Reject r e \<in> set (evs @ evs') \<longrightarrow> is_unauthorized e \<longrightarrow> has_config e"
    and "client_run num evs' c = Some c'" and "list_all reaction evs'"
  shows "length evs' \<le> 6 * length (ac_requests c) + 2
     \<and> (list_all is_settled (ac_requests c') \<or> (\<exists>ev. reaction ev \<and> client_step num ev c' \<noteq> None))"
proof -
  have i: "client_inv c" using client_run_inv [OF assms(1) init_client_inv] assms(2) by auto
  have i': "client_inv c'" using client_run_inv [OF assms(3) i] assms(2) by auto
  have "request_weight p \<le> 6" for p by (cases p) simp_all
  then have "sum_list (map (request_weight \<circ> rq_phase) qs) \<le> 6 * length qs" for qs :: "ui_request list"
    by (induction qs) (simp_all add: add_mono)
  from this [of "ac_requests c"] have "client_weight c \<le> 6 * length (ac_requests c) + 2"
    by (auto simp: client_weight_def split: flight.splits)
  moreover have "client_weight c' + length evs' \<le> client_weight c" using reactions_bounded [OF assms(3) i assms(4)] assms(2) by auto
  ultimately show ?thesis using unsettled_progress [OF i'] by fastforce
qed

text \<open>Two requests are refused at once, the shared renewal fails, and both fail: the session is given up once.\<close>

definition demo_401 :: thrown where
  "demo_401 = AxiosError ''Request failed'' (Some (401, JObj [(''statusCode'', JNum 401), (''message'', JStr ''Unauthorized'')])) True"

definition demo_client_events :: "client_event list" where
  "demo_client_events = [SetHandlers True, Request 1 (Some ''a''), Request 2 (Some ''a''), Reject 1 demo_401, Reject 2 demo_401]"

definition demo_client_reactions :: "client_event list" where
  "demo_client_reactions = [RefreshSettles None, Finally, Resume 1 None, Resume 2 None]"

lemma demo_client_run:
  "map_option (\<lambda>c. (ac_refreshes c, map rq_id (ac_requests c))) (client_run (\<lambda>_. ''n'') demo_client_events init_client) = Some (1, [1, 2])"
  "map_option (\<lambda>c. (failed_flights c, length (filter refused_again (ac_requests c)), list_all is_settled (ac_requests c)))
     (client_run (\<lambda>_. ''n'') (demo_client_events @ demo_client_reactions) init_client) = Some (1, 0, True)"
  by code_simp+

lemma demo_client_config:
  "\<forall>r e. Reject r e \<in> set (demo_client_events @ demo_client_reactions) \<longrightarrow> is_unauthorized e \<longrightarrow> has_config e"
  by (auto simp: demo_client_events_def demo_client_reactions_def demo_401_def has_config_def)

lemma client_run_append:
  "client_run num (evs @ evs') c = (case client_run num evs c of None \<Rightarrow> None | Some c' \<Rightarrow> client_run num evs' c')"
  by (induction evs arbitrary: c) (auto split: option.splits)

theorem single_flight_witness:
  "\<exists>c. client_run (\<lambda>_. ''n'') (demo_client_events @ demo_client_reactions) init_client = Some c \<and> list_all is_settled (ac_requests c)
     \<and> ac_failures c \<le> 1"
proof -
  obtain c where c: "client_run (\<lambda>_. ''n'') (demo_client_events @ demo_client_reactions) init_client = Some c"
      "failed_flights c = 1" "length (filter refused_again (ac_requests c)) = 0" "list_all is_settled (ac_requests c)"
    using demo_client_run(2) by auto
  have "ac_failures c \<le> failed_flights c + length (filter refused_again (ac_requests c))"
    using single_flight [OF c(1) demo_client_config] by blast
  then show ?thesis using c by simp
qed

theorem requests_settle_witness:
  "\<exists>c. client_run (\<lambda>_. ''n'') demo_client_events init_client = Some c
     \<and> length demo_client_reactions \<le> 6 * length (ac_requests c) + 2 \<and> length (ac_requests c) = 2"
proof -
  obtain c where c: "client_run (\<lambda>_. ''n'') demo_client_events init_client = Some c" "map rq_id (ac_requests c) = [1, 2]"
    using demo_client_run(1) by auto
  obtain c' where c': "client_run (\<lambda>_. ''n'') demo_client_reactions c = Some c'"
    using demo_client_run(2) c(1) by (auto simp: client_run_append)
  have r: "list_all reaction demo_client_reactions" by (simp add: demo_client_reactions_def)
  have "length (ac_requests c) = 2" using arg_cong [OF c(2), of length] by simp
  then show ?thesis using c(1) requests_settle [OF c(1) demo_client_config c' r] by blast
qed

end
