(* ===== verification/Ui_Session.thy ===== *)
theory Ui_Session
  imports Ui_Client
begin

text \<open>
  The session of the web interface (\<^verbatim>\<open>ui/src/lib/auth\<close>): the claims it reads from a token, the client of the OIDC provider with
  its silent renewals and tenant switches, which run one at a time in a queue, and the mock client of local development. Both
  clients keep the contract of \<^verbatim>\<open>AuthClient\<close>, the locale \<open>auth_client\<close>.

  The library \<^verbatim>\<open>oidc-client-ts\<close> is a parameter: the answer to a silent renewal and to the callback of a log-in. Reading a JWT
  uses \<^verbatim>\<open>atob\<close> and \<^verbatim>\<open>JSON.parse\<close>, which are parameters as well.
\<close>

section \<open>Claims\<close>

record auth_user =
  au_sub :: string
  au_name :: "string option"
  au_email :: "string option"
  au_tenantId :: "string option"
  au_roles :: "string list"

definition str_claim :: "(string \<times> json) list \<Rightarrow> string \<Rightarrow> string option" where
  "str_claim profile k = (case jget (JObj profile) k of JStr s \<Rightarrow> Some s | _ \<Rightarrow> None)"

definition toRoles :: "(string \<times> json) list \<Rightarrow> string list" where
  "toRoles profile =
     (case jget (JObj profile) ''roles'' of
        JArr vs \<Rightarrow> jstrings vs
      | _ \<Rightarrow> (case str_claim profile ''tenant_role'' of Some r \<Rightarrow> [r] | None \<Rightarrow> []))"

definition toAuthUserFromProfile :: "(string \<times> json) list \<Rightarrow> auth_user" where
  "toAuthUserFromProfile profile =
     \<lparr>au_sub = (case str_claim profile ''sub'' of Some s \<Rightarrow> s | None \<Rightarrow> []), au_name = str_claim profile ''name'',
      au_email = str_claim profile ''email'', au_tenantId = str_claim profile ''tenant_id'', au_roles = toRoles profile\<rparr>"

definition pad4 :: "string \<Rightarrow> string" where
  "pad4 s = s @ replicate ((4 - length s mod 4) mod 4) (CHR ''='')"

text \<open>A value that is no object has no claims the interface reads; \<^verbatim>\<open>atob\<close> and \<^verbatim>\<open>JSON.parse\<close> are \<open>None\<close> where they throw.\<close>

definition decodeJwtPayload :: "(string \<Rightarrow> string option) \<Rightarrow> (string \<Rightarrow> json option) \<Rightarrow> string \<Rightarrow> (string \<times> json) list" where
  "decodeJwtPayload atob parse token =
     (case split_on (CHR ''.'') token of
        _ # segment # _ \<Rightarrow>
          if segment = [] then []
          else (case atob (pad4 (map (\<lambda>c. if c = CHR ''-'' then CHR ''+'' else if c = CHR ''_'' then CHR ''/'' else c) segment)) of
                  None \<Rightarrow> []
                | Some txt \<Rightarrow> (case parse txt of Some (JObj kvs) \<Rightarrow> kvs | _ \<Rightarrow> []))
      | _ \<Rightarrow> [])"

text \<open>\<^verbatim>\<open>{ ...a, ...b }\<close>: the entries of \<open>b\<close> win.\<close>

definition spread :: "(string \<times> json) list \<Rightarrow> (string \<times> json) list \<Rightarrow> (string \<times> json) list" where
  "spread a b = b @ a"

section \<open>The session\<close>

record ui_user =
  uu_access_token :: string
  uu_refresh_token :: "string option"
  uu_token_type :: string
  uu_expires_at :: int
  uu_profile :: "(string \<times> json) list"
  uu_id_token :: "string option"
  uu_session_state :: "string option"
  uu_scope :: "string option"

record switch_tokens =
  st_access_token :: string
  st_refresh_token :: string
  st_token_type :: string
  st_expires_in :: int

datatype auth_state = Loading | Authenticated auth_user | Unauthenticated

text \<open>The operations that \<^verbatim>\<open>serialize\<close> runs one after the other: the renewal of a caller, and the store phase of a switch.\<close>

datatype token_op = Renew nat | Store switch_tokens

datatype refresh_phase = Queued | AwaitStore nat | Replied "string option"

datatype switch_phase = NoSwitch | Posting string | Storing

record ui_session =
  us_stored :: "ui_user option"
  us_user :: "ui_user option"
  us_state :: auth_state
  us_ops :: "token_op list"
  us_started :: "ui_user option option"
  us_stores :: nat
  us_switch :: switch_phase
  us_refreshes :: "(nat \<times> refresh_phase) list"
  us_restoring :: bool

record ui_oidc =
  ul_renew :: "nat \<Rightarrow> ui_user option \<Rightarrow> string + ui_user option"
  ul_atob :: "string \<Rightarrow> string option"
  ul_parse :: "string \<Rightarrow> json option"

definition setCurrentUser :: "ui_user option \<Rightarrow> ui_session \<Rightarrow> ui_session" where
  "setCurrentUser u s =
     s\<lparr>us_user := u, us_state := (case u of Some x \<Rightarrow> Authenticated (toAuthUserFromProfile (uu_profile x)) | None \<Rightarrow> Unauthenticated)\<rparr>"

definition createOidcAuthClient :: "ui_user option \<Rightarrow> ui_session" where
  "createOidcAuthClient stored =
     \<lparr>us_stored = stored, us_user = None, us_state = Loading, us_ops = [], us_started = None, us_stores = 0, us_switch = NoSwitch,
      us_refreshes = [], us_restoring = True\<rparr>"

definition ui_getAccessToken :: "ui_session \<Rightarrow> string option" where
  "ui_getAccessToken s = map_option uu_access_token (us_user s)"

text \<open>The library keeps the user in the session storage and raises \<^verbatim>\<open>userLoaded\<close> or \<^verbatim>\<open>userUnloaded\<close>.\<close>

definition load_user :: "ui_user \<Rightarrow> ui_session \<Rightarrow> ui_session" where
  "load_user u s = setCurrentUser (Some u) (s\<lparr>us_stored := Some u\<rparr>)"

definition remove_user :: "ui_session \<Rightarrow> ui_session" where
  "remove_user s = setCurrentUser None (s\<lparr>us_stored := None\<rparr>)"

definition set_refresh :: "nat \<Rightarrow> refresh_phase \<Rightarrow> ui_session \<Rightarrow> ui_session" where
  "set_refresh c p s = s\<lparr>us_refreshes := tbl_update (\<lambda>x. fst x = c) (\<lambda>x. (c, p)) (us_refreshes s)\<rparr>"

text \<open>The end of a renewal and the rest of \<^verbatim>\<open>refresh\<close> up to its next \<^verbatim>\<open>await\<close>: the continuation of the caller runs before the
  next operation of the queue starts.\<close>

definition refresh_settled :: "nat \<Rightarrow> string option \<Rightarrow> ui_session \<Rightarrow> ui_session" where
  "refresh_settled c token s =
     set_refresh c (if truthy_token token then Replied token else if us_switch s = Storing then AwaitStore (us_stores s) else Replied None) s"

definition finish_renew :: "nat \<Rightarrow> string + ui_user option \<Rightarrow> ui_session \<Rightarrow> ui_session" where
  "finish_renew c answer s =
     (let s' = s\<lparr>us_ops := tl (us_ops s), us_started := None\<rparr> in
      case answer of
        Inl _ \<Rightarrow> refresh_settled c None s'
      | Inr None \<Rightarrow> refresh_settled c None (setCurrentUser None s')
      | Inr (Some u) \<Rightarrow> refresh_settled c (Some (uu_access_token u)) (load_user u s'))"

definition switched_user :: "ui_oidc \<Rightarrow> int \<Rightarrow> switch_tokens \<Rightarrow> ui_user option \<Rightarrow> ui_user" where
  "switched_user lib now tk cur =
     \<lparr>uu_access_token = st_access_token tk, uu_refresh_token = Some (st_refresh_token tk), uu_token_type = st_token_type tk,
      uu_expires_at = now div 1000 + st_expires_in tk,
      uu_profile = spread (case cur of Some u \<Rightarrow> uu_profile u | None \<Rightarrow> []) (decodeJwtPayload (ul_atob lib) (ul_parse lib) (st_access_token tk)),
      uu_id_token = Option.bind cur uu_id_token, uu_session_state = Option.bind cur uu_session_state, uu_scope = Option.bind cur uu_scope\<rparr>"

definition finish_store :: "ui_session \<Rightarrow> ui_session" where
  "finish_store s = s\<lparr>us_ops := tl (us_ops s), us_stores := us_stores s + 1, us_switch := NoSwitch\<rparr>"

datatype session_event =
    Restore bool
  | CompleteLogin ui_user
  | Refresh nat
  | RenewStart
  | RenewAnswer nat
  | SwitchCall string
  | SwitchAnswer "switch_tokens option"
  | StoreRun int
  | StoreFail
  | RefreshResume nat
  | ClearSession
  | Logout

text \<open>What can happen next. \<open>Logout\<close> is the moment at which \<^verbatim>\<open>logout\<close>, after the attempt to revoke the refresh token, removes the
  user: both outcomes of the redirect to the provider do so. \<open>CompleteLogin\<close> is a callback that the library accepts; one that
  it refuses changes nothing. A second switch while one is in flight is rejected.\<close>

fun session_step :: "ui_oidc \<Rightarrow> session_event \<Rightarrow> ui_session \<Rightarrow> ui_session option" where
  "session_step lib (Restore ok) s =
     (if us_restoring s then Some (setCurrentUser (if ok then us_stored s else None) (s\<lparr>us_restoring := False\<rparr>)) else None)"
| "session_step lib (CompleteLogin u) s = Some (load_user u s)"
| "session_step lib (Refresh c) s =
     (if c \<in> fst ` set (us_refreshes s) then None
      else Some (s\<lparr>us_ops := us_ops s @ [Renew c], us_refreshes := us_refreshes s @ [(c, Queued)]\<rparr>))"
| "session_step lib RenewStart s =
     (case us_ops s of Renew c # _ \<Rightarrow> if us_started s = None then Some (s\<lparr>us_started := Some (us_stored s)\<rparr>) else None | _ \<Rightarrow> None)"
| "session_step lib (RenewAnswer k) s =
     (case (us_ops s, us_started s) of
        (Renew c # _, Some u) \<Rightarrow> Some (finish_renew c (ul_renew lib k u) s)
      | _ \<Rightarrow> None)"
| "session_step lib (SwitchCall tid) s = (if us_switch s = NoSwitch then Some (s\<lparr>us_switch := Posting tid\<rparr>) else Some s)"
| "session_step lib (SwitchAnswer answer) s =
     (case us_switch s of
        Posting _ \<Rightarrow> Some (case answer of None \<Rightarrow> s\<lparr>us_switch := NoSwitch\<rparr> | Some tk \<Rightarrow> s\<lparr>us_ops := us_ops s @ [Store tk], us_switch := Storing\<rparr>)
      | _ \<Rightarrow> None)"
| "session_step lib (StoreRun now) s =
     (case us_ops s of Store tk # _ \<Rightarrow> Some (finish_store (load_user (switched_user lib now tk (us_user s)) s)) | _ \<Rightarrow> None)"
| "session_step lib StoreFail s = (case us_ops s of Store tk # _ \<Rightarrow> Some (finish_store s) | _ \<Rightarrow> None)"
| "session_step lib (RefreshResume c) s =
     (case map_of (us_refreshes s) c of
        Some (AwaitStore n) \<Rightarrow> if n < us_stores s then Some (set_refresh c (Replied (ui_getAccessToken s)) s) else None
      | _ \<Rightarrow> None)"
| "session_step lib ClearSession s = Some (remove_user s)"
| "session_step lib Logout s = Some (remove_user s)"

fun session_run :: "ui_oidc \<Rightarrow> session_event list \<Rightarrow> ui_session \<Rightarrow> ui_session option" where
  "session_run lib [] s = Some s"
| "session_run lib (e # es) s = (case session_step lib e s of None \<Rightarrow> None | Some s' \<Rightarrow> session_run lib es s')"

section \<open>The queue\<close>

fun renew_ids :: "token_op list \<Rightarrow> nat list" where
  "renew_ids [] = []"
| "renew_ids (Renew c # ops) = c # renew_ids ops"
| "renew_ids (Store _ # ops) = renew_ids ops"

text \<open>Only the first operation of the queue runs, and every queued renewal has a caller of its own that waits for it.\<close>

definition session_inv :: "ui_session \<Rightarrow> bool" where
  "session_inv s = ((us_started s \<noteq> None \<longrightarrow> (\<exists>c ops. us_ops s = Renew c # ops))
     \<and> distinct (map fst (us_refreshes s)) \<and> distinct (renew_ids (us_ops s))
     \<and> list_all (\<lambda>c. map_of (us_refreshes s) c = Some Queued) (renew_ids (us_ops s)))"

lemma renew_ids_append [simp]: "renew_ids (xs @ ys) = renew_ids xs @ renew_ids ys"
  by (induction xs rule: renew_ids.induct) auto

lemma session_fields [simp]:
  "us_ops (setCurrentUser u s) = us_ops s" "us_started (setCurrentUser u s) = us_started s" "us_refreshes (setCurrentUser u s) = us_refreshes s"
  "us_stored (setCurrentUser u s) = us_stored s" "us_user (setCurrentUser u s) = u" "us_stores (setCurrentUser u s) = us_stores s"
  "us_switch (setCurrentUser u s) = us_switch s"
  "us_ops (load_user v s) = us_ops s" "us_started (load_user v s) = us_started s" "us_refreshes (load_user v s) = us_refreshes s"
  "us_stored (load_user v s) = Some v" "us_user (load_user v s) = Some v" "us_stores (load_user v s) = us_stores s" "us_switch (load_user v s) = us_switch s"
  "us_ops (remove_user s) = us_ops s" "us_started (remove_user s) = us_started s" "us_refreshes (remove_user s) = us_refreshes s"
  "us_user (remove_user s) = None" "us_stores (remove_user s) = us_stores s"
  "us_ops (set_refresh c p s) = us_ops s" "us_started (set_refresh c p s) = us_started s" "us_user (set_refresh c p s) = us_user s"
  "us_stored (set_refresh c p s) = us_stored s" "us_state (set_refresh c p s) = us_state s" "us_stores (set_refresh c p s) = us_stores s"
  by (simp_all add: setCurrentUser_def load_user_def remove_user_def set_refresh_def)

lemma set_refresh_map:
  "distinct (map fst (us_refreshes s)) \<Longrightarrow> map_of (us_refreshes (set_refresh c p s)) c' =
     (if c' = c \<and> c \<in> fst ` set (us_refreshes s) then Some p else map_of (us_refreshes s) c')"
proof -
  have "map_of (tbl_update (\<lambda>x. fst x = c) (\<lambda>x. (c, p)) xs) c' = (if c' = c \<and> c \<in> fst ` set xs then Some p else map_of xs c')"
    for xs :: "(nat \<times> refresh_phase) list"
    by (induction xs) (auto simp: tbl_update_def rev_image_eqI)
  then show ?thesis by (simp add: set_refresh_def)
qed

lemma set_refresh_keys: "map fst (us_refreshes (set_refresh c p s)) = map fst (us_refreshes s)"
  by (simp add: set_refresh_def tbl_update_def)

lemma finish_renew_parts:
  "us_ops (finish_renew c a s) = tl (us_ops s)" "us_started (finish_renew c a s) = None" "us_stores (finish_renew c a s) = us_stores s"
  "\<exists>p. us_refreshes (finish_renew c a s) = us_refreshes (set_refresh c p s) \<and> p \<noteq> Queued"
  by (auto simp: finish_renew_def refresh_settled_def set_refresh_def Let_def split: sum.splits option.splits)

lemma session_step_inv:
  assumes "session_step lib ev s = Some s'" "session_inv s"
  shows "session_inv s'"
proof (cases ev)
  case (Refresh c)
  then have c: "c \<notin> fst ` set (us_refreshes s)" and s': "s' = s\<lparr>us_ops := us_ops s @ [Renew c], us_refreshes := us_refreshes s @ [(c, Queued)]\<rparr>"
    using assms(1) by (auto split: if_splits)
  have n: "map_of (us_refreshes s) c = None" using c by (simp add: map_of_eq_None_iff)
  then have "c \<notin> set (renew_ids (us_ops s))" using assms(2) by (auto simp: session_inv_def list_all_iff)
  then show ?thesis using assms(2) c n s' by (auto simp: session_inv_def list_all_iff map_add_def split: option.splits)
next
  case (RenewAnswer k)
  then obtain c ops u where r: "us_ops s = Renew c # ops" "us_started s = Some u" "s' = finish_renew c (ul_renew lib k u) s"
    using assms(1) by (auto split: list.splits token_op.splits option.splits)
  obtain p where p: "us_refreshes s' = us_refreshes (set_refresh c p s)" using finish_renew_parts(4) r(3) by blast
  show ?thesis using assms(2) r p
    by (auto simp: session_inv_def finish_renew_parts set_refresh_map set_refresh_keys list_all_iff)
next
  case (StoreRun now)
  then show ?thesis using assms by (auto simp: session_inv_def finish_store_def split: list.splits token_op.splits)
next
  case StoreFail
  then show ?thesis using assms by (auto simp: session_inv_def finish_store_def split: list.splits token_op.splits)
next
  case (RefreshResume c)
  then obtain n where r: "map_of (us_refreshes s) c = Some (AwaitStore n)" "s' = set_refresh c (Replied (ui_getAccessToken s)) s"
    using assms(1) by (auto split: option.splits refresh_phase.splits if_splits)
  then show ?thesis using assms(2) by (auto simp: session_inv_def set_refresh_map set_refresh_keys list_all_iff)
qed (use assms in \<open>auto simp: session_inv_def split: if_splits list.splits token_op.splits switch_phase.splits option.splits\<close>)

lemma session_run_inv: "session_run lib evs s = Some s' \<Longrightarrow> session_inv s \<Longrightarrow> session_inv s'"
  by (induction evs arbitrary: s) (auto split: option.splits intro: session_step_inv)

lemma session_start_inv: "session_inv (createOidcAuthClient stored)"
  by (simp add: session_inv_def createOidcAuthClient_def)

section \<open>The contract of the clients\<close>

text \<open>\<^verbatim>\<open>AuthClient\<close>: a token is presented exactly when the user is signed in, and clearing the session signs out.\<close>

locale auth_client =
  fixes getState :: "'s \<Rightarrow> auth_state" and getAccessToken :: "'s \<Rightarrow> string option" and clearSession :: "'s \<Rightarrow> 's" and well :: "'s \<Rightarrow> bool"
  assumes token_iff: "well s \<Longrightarrow> getAccessToken s \<noteq> None \<longleftrightarrow> (\<exists>u. getState s = Authenticated u)"
    and clear: "well s \<Longrightarrow> well (clearSession s) \<and> getState (clearSession s) = Unauthenticated"
begin

lemma cleared_sends_no_token: "well s \<Longrightarrow> attach_token b (getAccessToken (clearSession s)) None = None"
  using token_iff [of "clearSession s"] clear [of s] by (auto simp: attach_token_def truthy_token_def)

end

definition session_well :: "ui_session \<Rightarrow> bool" where
  "session_well s = (case us_user s of
      Some u \<Rightarrow> us_state s = Authenticated (toAuthUserFromProfile (uu_profile u))
    | None \<Rightarrow> us_state s \<in> {Loading, Unauthenticated})"

lemma well_setCurrentUser [simp]: "session_well (setCurrentUser u s)"
  by (simp add: session_well_def setCurrentUser_def split: option.splits)

interpretation oidc: auth_client us_state ui_getAccessToken remove_user session_well
proof unfold_locales
  show "session_well s \<Longrightarrow> ui_getAccessToken s \<noteq> None \<longleftrightarrow> (\<exists>u. us_state s = Authenticated u)" for s
    by (auto simp: session_well_def ui_getAccessToken_def split: option.splits)
  show "session_well s \<Longrightarrow> session_well (remove_user s) \<and> us_state (remove_user s) = Unauthenticated" for s
    by (simp add: remove_user_def) (simp add: setCurrentUser_def)
qed

lemma well_cong: "us_user s = us_user s' \<Longrightarrow> us_state s = us_state s' \<Longrightarrow> session_well s = session_well s'"
  by (cases "us_user s'") (simp_all add: session_well_def)

lemma session_step_well:
  assumes "session_step lib ev s = Some s'" "session_well s"
  shows "session_well s'"
proof (cases ev)
  case (RenewAnswer k)
  then obtain c ops u where r: "us_ops s = Renew c # ops" "s' = finish_renew c (ul_renew lib k u) s"
    using assms(1) by (auto split: list.splits token_op.splits option.splits)
  have w: "session_well (refresh_settled c t x) = session_well x" for t x
    by (rule well_cong) (simp_all add: refresh_settled_def)
  have "session_well (s\<lparr>us_ops := tl (us_ops s), us_started := None\<rparr>) = session_well s" by (rule well_cong) simp_all
  then have i: "session_well (s\<lparr>us_ops := tl (us_ops s), us_started := None\<rparr>)" using assms(2) by simp
  show ?thesis using i unfolding r(2) finish_renew_def Let_def by (simp add: w load_user_def split: sum.splits option.splits)
qed (use assms in \<open>auto simp: finish_store_def load_user_def remove_user_def set_refresh_def session_well_def setCurrentUser_def
    split: if_splits list.splits token_op.splits switch_phase.splits option.splits refresh_phase.splits\<close>)

section \<open>The mock client\<close>

record ui_tenant =
  at_id :: string
  at_name :: string
  at_slug :: string
  at_status :: string
  at_role :: string

definition MOCK_AUTH_TENANTS :: "ui_tenant list" where
  "MOCK_AUTH_TENANTS =
    [\<lparr>at_id = ''11111111-1111-4111-8111-111111111111'', at_name = ''Acme Ministry'', at_slug = ''acme-ministry'', at_status = ''active'', at_role = ''owner''\<rparr>,
     \<lparr>at_id = ''22222222-2222-4222-8222-222222222222'', at_name = ''Example Agency'', at_slug = ''example-agency'', at_status = ''active'', at_role = ''admin''\<rparr>,
     \<lparr>at_id = ''33333333-3333-4333-8333-333333333333'', at_name = ''Suspended Society'', at_slug = ''suspended-society'', at_status = ''suspended'', at_role = ''member''\<rparr>]"

definition MOCK_USER :: auth_user where
  "MOCK_USER = \<lparr>au_sub = ''mock-user'', au_name = Some ''Mock User'', au_email = Some ''mock.user@example.com'',
     au_tenantId = Some (at_id (hd MOCK_AUTH_TENANTS)), au_roles = [''owner'']\<rparr>"

record mock_session =
  ms_user :: auth_user
  ms_accessToken :: string

record mock_client =
  mk_session :: "mock_session option"
  mk_state :: auth_state
  mk_storage :: "string option"

text \<open>The session storage holds the text of the session; \<open>pr\<close> and \<open>ps\<close> are \<^verbatim>\<open>JSON.stringify\<close> and \<^verbatim>\<open>JSON.parse\<close>, the latter
  \<open>None\<close> where it throws.\<close>

definition readSession :: "(string \<Rightarrow> mock_session option) \<Rightarrow> string option \<Rightarrow> mock_session option" where
  "readSession ps raw = (case raw of None \<Rightarrow> None | Some r \<Rightarrow> if r = [] then None else ps r)"

definition mock_state :: "mock_session option \<Rightarrow> auth_state" where
  "mock_state s = (case s of Some x \<Rightarrow> Authenticated (ms_user x) | None \<Rightarrow> Unauthenticated)"

definition createMockAuthClient :: "(string \<Rightarrow> mock_session option) \<Rightarrow> string option \<Rightarrow> mock_client" where
  "createMockAuthClient ps storage =
     (let s = readSession ps storage in \<lparr>mk_session = s, mk_state = mock_state s, mk_storage = storage\<rparr>)"

definition setSession :: "(mock_session \<Rightarrow> string) \<Rightarrow> mock_session option \<Rightarrow> mock_client \<Rightarrow> mock_client" where
  "setSession pr s c = c\<lparr>mk_session := s, mk_state := mock_state s, mk_storage := map_option pr s\<rparr>"

definition mock_getAccessToken :: "mock_client \<Rightarrow> string option" where
  "mock_getAccessToken c = map_option ms_accessToken (mk_session c)"

definition mock_login :: "(mock_session \<Rightarrow> string) \<Rightarrow> string \<Rightarrow> mock_client \<Rightarrow> mock_client" where
  "mock_login pr uuid = setSession pr (Some \<lparr>ms_user = MOCK_USER, ms_accessToken = ''mock-token-'' @ uuid\<rparr>)"

definition mock_logout :: "(mock_session \<Rightarrow> string) \<Rightarrow> mock_client \<Rightarrow> mock_client" where
  "mock_logout pr = setSession pr None"

definition mock_refresh :: "(mock_session \<Rightarrow> string) \<Rightarrow> string \<Rightarrow> mock_client \<Rightarrow> string option \<times> mock_client" where
  "mock_refresh pr uuid c =
     (case mk_session c of
        None \<Rightarrow> (None, c)
      | Some s \<Rightarrow> let token = ''mock-token-'' @ uuid in (Some token, setSession pr (Some (s\<lparr>ms_accessToken := token\<rparr>)) c))"

definition mock_switchTenant :: "(mock_session \<Rightarrow> string) \<Rightarrow> string \<Rightarrow> string \<Rightarrow> mock_client \<Rightarrow> api_error + mock_client" where
  "mock_switchTenant pr uuid tenantId c =
     (case mk_session c of
        None \<Rightarrow> Inr c
      | Some s \<Rightarrow>
          let membership = List.find (\<lambda>t. at_id t = tenantId) MOCK_AUTH_TENANTS in
          if (case membership of Some m \<Rightarrow> at_status m \<noteq> ''active'' | None \<Rightarrow> False)
          then Inl \<lparr>ae_code = JStr ''TENANT_NOT_ACTIVE'',
                    ae_message = JStr (''Tenant is '' @ at_status (the membership) @ '' and cannot perform this action''),
                    ae_status = Some 403, ae_details = JUndef, ae_requestId = JUndef\<rparr>
          else Inr (setSession pr (Some \<lparr>ms_user = (ms_user s)\<lparr>au_tenantId := Some tenantId,
                       au_roles := (case membership of Some m \<Rightarrow> [at_role m] | None \<Rightarrow> au_roles (ms_user s))\<rparr>,
                     ms_accessToken = ''mock-token-'' @ uuid\<rparr>) c))"

interpretation mock: auth_client mk_state mock_getAccessToken "mock_logout pr" "\<lambda>c. mk_state c = mock_state (mk_session c)" for pr
  by unfold_locales (auto simp: mock_getAccessToken_def mock_logout_def setSession_def mock_state_def split: option.splits)

text \<open>A reload finds the session that was set last.\<close>

lemma mock_survives_reload:
  "(\<And>x. ps (pr x) = Some x) \<Longrightarrow> (\<And>x. pr x \<noteq> []) \<Longrightarrow> createMockAuthClient ps (mk_storage (setSession pr s c)) = setSession pr s c"
  by (cases s) (simp_all add: createMockAuthClient_def setSession_def readSession_def mock_state_def Let_def)

section \<open>A switch is not undone\<close>

abbreviation tenant_claim :: "ui_user \<Rightarrow> string option" where
  "tenant_claim u \<equiv> str_claim (uu_profile u) ''tenant_id''"

text \<open>What the provider promises of a silent renewal: a user, of the tenant of the user that was renewed, or an error.\<close>

definition renew_keeps_tenant :: "ui_oidc \<Rightarrow> bool" where
  "renew_keeps_tenant lib = (\<forall>k u. case ul_renew lib k u of
      Inl _ \<Rightarrow> True | Inr None \<Rightarrow> False | Inr (Some u') \<Rightarrow> (\<forall>u0. u = Some u0 \<longrightarrow> tenant_claim u' = tenant_claim u0))"

lemma renew_keeps_tenantD:
  "renew_keeps_tenant lib \<Longrightarrow> case ul_renew lib k u of
      Inl _ \<Rightarrow> True | Inr None \<Rightarrow> False | Inr (Some u') \<Rightarrow> (\<forall>u0. u = Some u0 \<longrightarrow> tenant_claim u' = tenant_claim u0)"
  unfolding renew_keeps_tenant_def by blast

text \<open>No other log-in, log-out or switch.\<close>

fun undisturbed :: "session_event \<Rightarrow> bool" where
  "undisturbed (CompleteLogin _) = False"
| "undisturbed ClearSession = False"
| "undisturbed Logout = False"
| "undisturbed (StoreRun _) = False"
| "undisturbed (Restore ok) = ok"
| "undisturbed _ = True"

definition bound_to :: "string \<Rightarrow> ui_session \<Rightarrow> bool" where
  "bound_to t s = (session_inv s \<and> session_well s
     \<and> (\<exists>u. us_stored s = Some u \<and> us_user s = Some u \<and> tenant_claim u = Some t)
     \<and> (us_started s \<noteq> None \<longrightarrow> (\<exists>u. us_started s = Some (Some u) \<and> tenant_claim u = Some t)))"

lemma finish_renew_user:
  "us_user (finish_renew c a s) = (case a of Inl _ \<Rightarrow> us_user s | Inr x \<Rightarrow> x)"
  "us_stored (finish_renew c a s) = (case a of Inr (Some u) \<Rightarrow> Some u | _ \<Rightarrow> us_stored s)"
  by (simp_all add: finish_renew_def refresh_settled_def Let_def split: sum.splits option.splits)

lemma bound_to_step:
  assumes "session_step lib ev s = Some s'" "bound_to t s" "undisturbed ev" "renew_keeps_tenant lib"
  shows "bound_to t s'"
proof -
  have i: "session_inv s'" "session_well s'"
    using assms session_step_inv [OF assms(1)] session_step_well [OF assms(1)] by (simp_all add: bound_to_def)
  show ?thesis
  proof (cases ev)
    case (RenewAnswer k)
    then obtain c ops x where r: "us_ops s = Renew c # ops" "us_started s = Some x" "s' = finish_renew c (ul_renew lib k x) s"
      using assms(1) by (auto split: list.splits token_op.splits option.splits)
    then obtain u where u: "x = Some u" "tenant_claim u = Some t" using assms(2) by (auto simp: bound_to_def)
    have "case ul_renew lib k x of Inl _ \<Rightarrow> True | Inr None \<Rightarrow> False | Inr (Some u') \<Rightarrow> tenant_claim u' = Some t"
      using renew_keeps_tenantD [OF assms(4), of x k] u by (simp split: sum.splits option.splits)
    then show ?thesis using i assms(2) r(3)
      by (auto simp: bound_to_def finish_renew_user finish_renew_parts split: sum.splits option.splits)
  next
    case RenewStart
    then have "s' = s\<lparr>us_started := Some (us_stored s)\<rparr>" using assms(1) by (auto split: list.splits token_op.splits if_splits)
    then show ?thesis using i assms(2) by (simp add: bound_to_def) metis
  qed (use assms i in \<open>auto simp: bound_to_def finish_store_def set_refresh_def
      split: if_splits list.splits token_op.splits switch_phase.splits option.splits refresh_phase.splits\<close>)
qed

lemma bound_to_run:
  "session_run lib evs s = Some s' \<Longrightarrow> bound_to t s \<Longrightarrow> list_all undisturbed evs \<Longrightarrow> renew_keeps_tenant lib \<Longrightarrow> bound_to t s'"
  by (induction evs arbitrary: s) (auto split: option.splits dest: bound_to_step)

text \<open>C19. A switch of the tenant is not undone. When the store phase of a switch has run, the interface is signed in to the tenant
  of the new token, and stays so through every interleaving of renewals and restored state that follows, renewals that were queued
  or requested before the switch included, until the next log-in, log-out or switch. The hypothesis is that a silent renewal
  yields a user of the same tenant or an error.\<close>

theorem switch_not_undone:
  assumes "session_run lib evs (createOidcAuthClient stored) = Some s" and "us_ops s = Store tk # rest"
    and "str_claim (decodeJwtPayload (ul_atob lib) (ul_parse lib) (st_access_token tk)) ''tenant_id'' = Some t"
    and "session_run lib (StoreRun now # evs') s = Some s'" and "list_all undisturbed evs'" and "renew_keeps_tenant lib"
  shows "\<exists>u. us_state s' = Authenticated u \<and> au_tenantId u = Some t \<and> ui_getAccessToken s' \<noteq> None"
proof -
  have i: "session_inv s" by (rule session_run_inv [OF assms(1) session_start_inv])
  define s1 where "s1 = finish_store (load_user (switched_user lib now tk (us_user s)) s)"
  have st: "session_step lib (StoreRun now) s = Some s1" "session_run lib evs' s1 = Some s'" using assms(2,4) by (simp_all add: s1_def)
  have w: "session_well s1" by (subst s1_def, subst well_cong [of _ "load_user (switched_user lib now tk (us_user s)) s"])
      (simp_all add: finish_store_def load_user_def)
  have "tenant_claim (switched_user lib now tk (us_user s)) = Some t"
    using assms(3) by (auto simp: switched_user_def spread_def str_claim_def map_add_def split: option.splits json.splits)
  moreover have "us_started s = None" using i assms(2) by (auto simp: session_inv_def)
  ultimately have "bound_to t s1"
    using session_step_inv [OF st(1) i] w by (simp add: bound_to_def) (simp add: s1_def finish_store_def)
  then have b: "bound_to t s'" by (rule bound_to_run [OF st(2) _ assms(5,6)])
  then obtain u where "us_user s' = Some u" "tenant_claim u = Some t" by (auto simp: bound_to_def)
  then show ?thesis using b by (auto simp: bound_to_def session_well_def toAuthUserFromProfile_def ui_getAccessToken_def)
qed

section \<open>A renewal that fails during a switch\<close>

fun keeps_user :: "session_event \<Rightarrow> bool" where
  "keeps_user ClearSession = False"
| "keeps_user Logout = False"
| "keeps_user StoreFail = False"
| "keeps_user (Restore ok) = ok"
| "keeps_user _ = True"

text \<open>A caller that has left the queue waits for the store phase, after which there is a user, or has its token.\<close>

definition covered :: "nat \<Rightarrow> ui_session \<Rightarrow> bool" where
  "covered c s = (session_inv s \<and> \<not> us_restoring s \<and> c \<notin> set (renew_ids (us_ops s))
     \<and> (case map_of (us_refreshes s) c of
          Some (AwaitStore n) \<Rightarrow> n < us_stores s \<longrightarrow> us_user s \<noteq> None
        | Some (Replied a) \<Rightarrow> a \<noteq> None
        | _ \<Rightarrow> False))"

lemma map_of_key: "map_of xs c = Some p \<Longrightarrow> c \<in> fst ` set xs"
  by (metis map_of_SomeD image_eqI fst_conv)

lemma covered_other:
  assumes "covered c s" "session_inv s'" "\<not> us_restoring s'" "c \<notin> set (renew_ids (us_ops s'))"
    "map_of (us_refreshes s') c = map_of (us_refreshes s) c" "us_stores s' = us_stores s" "us_user s \<noteq> None \<Longrightarrow> us_user s' \<noteq> None"
  shows "covered c s'"
  using assms by (auto simp: covered_def split: option.splits refresh_phase.splits)

lemma restoring_step: "session_step lib ev s = Some s' \<Longrightarrow> \<not> us_restoring s \<Longrightarrow> \<not> us_restoring s'"
  by (cases ev) (auto simp: finish_renew_def refresh_settled_def Let_def finish_store_def set_refresh_def load_user_def remove_user_def setCurrentUser_def
      split: if_splits list.splits token_op.splits switch_phase.splits option.splits refresh_phase.splits sum.splits)

lemma covered_step:
  assumes st: "session_step lib ev s = Some s'" and c: "covered c s" and "keeps_user ev" "renew_keeps_tenant lib"
  shows "covered c s'"
proof -
  have i: "session_inv s'" "\<not> us_restoring s'" "\<not> us_restoring s"
    using session_step_inv [OF st] restoring_step [OF st] c by (simp_all add: covered_def)
  have d: "distinct (map fst (us_refreshes s))" using c by (simp add: covered_def session_inv_def)
  show ?thesis
  proof (cases ev)
    case (Refresh c')
    then have s': "c' \<notin> fst ` set (us_refreshes s)" "s' = s\<lparr>us_ops := us_ops s @ [Renew c'], us_refreshes := us_refreshes s @ [(c', Queued)]\<rparr>"
      using st by (auto split: if_splits)
    have "c' \<noteq> c" using c s'(1) map_of_key [of "us_refreshes s" c] by (auto simp: covered_def split: option.splits)
    then show ?thesis using s'(2) c i by (intro covered_other [OF c]) (auto simp: covered_def map_add_def split: option.splits)
  next
    case (RenewAnswer k)
    then obtain c' ops u where r: "us_ops s = Renew c' # ops" "us_started s = Some u" "s' = finish_renew c' (ul_renew lib k u) s"
      using st by (auto split: list.splits token_op.splits option.splits)
    obtain p where p: "us_refreshes s' = us_refreshes (set_refresh c' p s)" using finish_renew_parts(4) r(3) by blast
    have "c \<noteq> c'" "c \<notin> set (renew_ids ops)" using c r(1) by (auto simp: covered_def)
    moreover have "us_user s' \<noteq> None" if "us_user s \<noteq> None"
      using that renew_keeps_tenantD [OF assms(4), of u k] r(3) by (simp add: finish_renew_user split: sum.splits option.splits)
    ultimately show ?thesis using i r p d by (intro covered_other [OF c]) (simp_all add: finish_renew_parts set_refresh_map)
  next
    case (StoreRun now)
    then show ?thesis using st c i
      by (auto simp: covered_def finish_store_def split: list.splits token_op.splits option.splits refresh_phase.splits)
  next
    case (RefreshResume c')
    then obtain n where r: "map_of (us_refreshes s) c' = Some (AwaitStore n)" "n < us_stores s" "s' = set_refresh c' (Replied (ui_getAccessToken s)) s"
      using st by (auto split: option.splits refresh_phase.splits if_splits)
    then have "c' \<in> fst ` set (us_refreshes s)" by (auto dest: map_of_key)
    then have m: "map_of (us_refreshes s') x = (if x = c' then Some (Replied (ui_getAccessToken s)) else map_of (us_refreshes s) x)" for x
      using set_refresh_map [OF d] r(3) by simp
    show ?thesis
    proof (cases "c' = c")
      case True
      then have "us_user s \<noteq> None" using c r(1,2) by (simp add: covered_def)
      then show ?thesis using True c i m [of c] r(3) by (simp add: covered_def ui_getAccessToken_def)
    next
      case False
      then show ?thesis using c i m [of c] r(3) by (intro covered_other [OF c]) (simp_all add: covered_def)
    qed
  next
    case (SwitchAnswer a)
    then show ?thesis using st c i
      by (intro covered_other [OF c]) (auto simp: covered_def split: switch_phase.splits option.splits)
  next
    case (SwitchCall a)
    then show ?thesis using st c i by (intro covered_other [OF c]) (auto simp: covered_def split: if_splits)
  next
    case RenewStart
    then show ?thesis using st c i
      by (intro covered_other [OF c]) (auto simp: covered_def split: if_splits list.splits token_op.splits)
  next
    case (CompleteLogin u)
    then show ?thesis using st c i by (intro covered_other [OF c]) (auto simp: covered_def)
  qed (use assms i in auto)
qed

lemma covered_run:
  "session_run lib evs s = Some s' \<Longrightarrow> covered c s \<Longrightarrow> list_all keeps_user evs \<Longrightarrow> renew_keeps_tenant lib \<Longrightarrow> covered c s'"
  by (induction evs arbitrary: s) (auto split: option.splits dest: covered_step)


section \<open>Concrete runs\<close>

definition demo_ui_user :: "string \<Rightarrow> string \<Rightarrow> ui_user" where
  "demo_ui_user token tenant = \<lparr>uu_access_token = token, uu_refresh_token = Some ''r'', uu_token_type = ''Bearer'', uu_expires_at = 0,
     uu_profile = [(''sub'', JStr ''p''), (''tenant_id'', JStr tenant)], uu_id_token = Some ''id'', uu_session_state = None, uu_scope = None\<rparr>"

text \<open>The provider answers the renewals with odd numbers and refuses the others.\<close>

definition demo_ui_oidc :: ui_oidc where
  "demo_ui_oidc = \<lparr>ul_renew = (\<lambda>k u. case u of None \<Rightarrow> Inl ''login_required'' | Some x \<Rightarrow> if odd k then Inr (Some (x\<lparr>uu_access_token := ''renewed''\<rparr>)) else Inl ''invalid_grant''),
     ul_atob = Some, ul_parse = (\<lambda>txt. if txt = ''pay2'' then Some (JObj [(''tenant_id'', JStr ''t2'')]) else None)\<rparr>"

definition demo_switch_tokens :: switch_tokens where
  "demo_switch_tokens = \<lparr>st_access_token = ''h.pay2.s'', st_refresh_token = ''r2'', st_token_type = ''Bearer'', st_expires_in = 300\<rparr>"

lemma demo_renew_keeps: "renew_keeps_tenant demo_ui_oidc"
  by (auto simp: renew_keeps_tenant_def demo_ui_oidc_def split: option.splits)

definition demo_switch_events :: "session_event list" where
  "demo_switch_events = [Restore True, SwitchCall ''t2'', Refresh 1, RenewStart, SwitchAnswer (Some demo_switch_tokens)]"

definition demo_ui_session :: ui_session where
  "demo_ui_session = the (session_run demo_ui_oidc demo_switch_events (createOidcAuthClient (Some (demo_ui_user ''a'' ''t1''))))"

lemma demo_ui_session_run: "session_run demo_ui_oidc demo_switch_events (createOidcAuthClient (Some (demo_ui_user ''a'' ''t1''))) = Some demo_ui_session"
  by code_simp

text \<open>The renewal is answered with the old tenant after the server has switched; the store phase comes after it.\<close>

definition demo_session_stored :: ui_session where
  "demo_session_stored = the (session_run demo_ui_oidc [RenewAnswer 1] demo_ui_session)"

lemma demo_session_stored_run:
  "session_run demo_ui_oidc (demo_switch_events @ [RenewAnswer 1]) (createOidcAuthClient (Some (demo_ui_user ''a'' ''t1''))) = Some demo_session_stored"
  "us_ops demo_session_stored = Store demo_switch_tokens # []"
  "str_claim (decodeJwtPayload (ul_atob demo_ui_oidc) (ul_parse demo_ui_oidc) (st_access_token demo_switch_tokens)) ''tenant_id'' = Some ''t2''"
  "session_run demo_ui_oidc (StoreRun 0 # [Refresh 2, RenewStart, RenewAnswer 3]) demo_session_stored
     = Some (the (session_run demo_ui_oidc (StoreRun 0 # [Refresh 2, RenewStart, RenewAnswer 3]) demo_session_stored))"
  by code_simp+

theorem switch_not_undone_witness:
  "\<exists>s u. session_run demo_ui_oidc (StoreRun 0 # [Refresh 2, RenewStart, RenewAnswer 3]) demo_session_stored = Some s
     \<and> us_state s = Authenticated u \<and> au_tenantId u = Some ''t2''"
  using switch_not_undone [OF demo_session_stored_run(1-4) _ demo_renew_keeps] demo_session_stored_run(4) by auto

lemma demo_session_state:
  "us_restoring demo_ui_session = False" "us_switch demo_ui_session = Storing" "us_ops demo_ui_session = Renew 1 # [Store demo_switch_tokens]"
  "us_started demo_ui_session = Some (Some (demo_ui_user ''a'' ''t1''))" "ul_renew demo_ui_oidc 0 (Some (demo_ui_user ''a'' ''t1'')) = Inl ''invalid_grant''"
  "session_run demo_ui_oidc (RenewAnswer 0 # [StoreRun 0, RefreshResume 1]) demo_ui_session
     = Some (the (session_run demo_ui_oidc (RenewAnswer 0 # [StoreRun 0, RefreshResume 1]) demo_ui_session))"
  "map_of (us_refreshes (the (session_run demo_ui_oidc (RenewAnswer 0 # [StoreRun 0, RefreshResume 1]) demo_ui_session))) 1
     = Some (Replied (Some ''h.pay2.s''))"
  by code_simp+


text \<open>Log-out does not wait for the queue: a renewal that is under way when the user is removed puts the user back.\<close>

lemma logout_undone_by_renewal:
  "map_option (\<lambda>s. (us_stored s = None, us_state s))
     (session_run demo_ui_oidc [Restore True, Refresh 1, RenewStart, Logout, RenewAnswer 1] (createOidcAuthClient (Some (demo_ui_user ''a'' ''t1''))))
   = Some (False, Authenticated \<lparr>au_sub = ''p'', au_name = None, au_email = None, au_tenantId = Some ''t1'', au_roles = []\<rparr>)"
  by code_simp

text \<open>Between the revocation at the server and the arrival of the answer of the switch a refused renewal is answered with no token.\<close>

lemma renewal_before_switch_answer:
  "map_option (\<lambda>s. map_of (us_refreshes s) 1)
     (session_run demo_ui_oidc [Restore True, SwitchCall ''t2'', Refresh 1, RenewStart, RenewAnswer 0] (createOidcAuthClient (Some (demo_ui_user ''a'' ''t1''))))
   = Some (Some (Replied None))"
  by code_simp

end
