(* ===== verification/Ui_Pages.thy ===== *)
theory Ui_Pages
  imports Ui_Session
begin

text \<open>
  What the web interface decides around its pages (\<^verbatim>\<open>ui/src/lib/config\<close>, \<^verbatim>\<open>lib/env\<close>, \<^verbatim>\<open>lib/tenant\<close>, \<^verbatim>\<open>routes\<close>, \<^verbatim>\<open>pages\<close>,
  \<^verbatim>\<open>layouts\<close>): its configuration, the guard of the routes, the way back after a log-in, the tenant of a path and the messages of a
  failed switch; and the bodies of the errors of the API, which the interface reads. The markup of the pages is left out.
\<close>

section \<open>Errors on their way to the interface\<close>

text \<open>The bodies of the exceptions of the API. The default filter of NestJS answers its own exceptions with their message, name and
  status, and everything else with a generic body.\<close>

definition strs :: "string list \<Rightarrow> json" where
  "strs xs = JArr (map JStr xs)"

definition AuthenticationRequiredException_body :: json where
  "AuthenticationRequiredException_body =
     JObj [(''error'', JObj [(''code'', JStr ''AUTHENTICATION_REQUIRED''), (''message'', JStr ''Bearer token is missing, expired, or invalid'')])]"

definition InsufficientScopeException_body :: "string \<Rightarrow> string list \<Rightarrow> string list \<Rightarrow> json" where
  "InsufficientScopeException_body message requiredScopes requiredRoles =
     JObj [(''error'', JObj ([(''code'', JStr ''INSUFFICIENT_SCOPE''), (''message'', JStr message)]
       @ (if requiredScopes \<noteq> [] then [(''required_scopes'', strs requiredScopes)] else [])
       @ (if requiredRoles \<noteq> [] then [(''required_roles'', strs requiredRoles)] else [])))]"

text \<open>A missing property is \<open>None\<close>; the tenant of the token may also be \<^verbatim>\<open>null\<close>.\<close>

definition TenantAccessDeniedException_body :: "string \<Rightarrow> string option \<Rightarrow> string option option \<Rightarrow> json" where
  "TenantAccessDeniedException_body message requiredTenantId tokenTenantId =
     JObj [(''error'', JObj ([(''code'', JStr ''TENANT_ACCESS_DENIED''), (''message'', JStr message)]
       @ (case requiredTenantId of Some t \<Rightarrow> if t \<noteq> [] then [(''required_tenant_id'', JStr t)] else [] | None \<Rightarrow> [])
       @ (case tokenTenantId of Some t \<Rightarrow> [(''token_tenant_id'', case t of Some x \<Rightarrow> JStr x | None \<Rightarrow> JNull)] | None \<Rightarrow> [])))]"

definition TenantNotActiveException_body :: "string \<Rightarrow> string \<Rightarrow> json" where
  "TenantNotActiveException_body message status =
     JObj [(''error'', JObj [(''code'', JStr ''TENANT_NOT_ACTIVE''), (''message'', JStr message), (''tenant_status'', JStr status)])]"

definition InsufficientTenantRoleException_body :: "string \<Rightarrow> string list \<Rightarrow> json" where
  "InsufficientTenantRoleException_body message requiredTenantRoles =
     JObj [(''error'', JObj ([(''code'', JStr ''INSUFFICIENT_TENANT_ROLE''), (''message'', JStr message)]
       @ (if requiredTenantRoles \<noteq> [] then [(''required_tenant_roles'', strs requiredTenantRoles)] else [])))]"

definition nest_body :: "rat \<Rightarrow> string \<Rightarrow> string \<Rightarrow> rat \<times> json" where
  "nest_body st name m = (st, JObj [(''message'', JStr m), (''error'', JStr name), (''statusCode'', JNum st)])"

fun error_response :: "http_error \<Rightarrow> rat \<times> json" where
  "error_response (BadRequest m) = nest_body 400 ''Bad Request'' m"
| "error_response (Unauthorized m) = nest_body 401 ''Unauthorized'' m"
| "error_response (Forbidden m) = nest_body 403 ''Forbidden'' m"
| "error_response (NotFound m) = nest_body 404 ''Not Found'' m"
| "error_response (Conflict m) = nest_body 409 ''Conflict'' m"
| "error_response (UnprocessableEntity m) = nest_body 422 ''Unprocessable Entity'' m"
| "error_response (NotImplemented m) = nest_body 501 ''Not Implemented'' m"
| "error_response (ServiceUnavailable m) = nest_body 503 ''Service Unavailable'' m"
| "error_response (InternalError _) = (500, JObj [(''statusCode'', JNum 500), (''message'', JStr ''Internal server error'')])"
| "error_response (AuthenticationRequired _ _) = (401, AuthenticationRequiredException_body)"
| "error_response (InsufficientScope m scopes roles) = (403, InsufficientScopeException_body m scopes roles)"
| "error_response (TenantAccessDenied m required token) = (403, TenantAccessDeniedException_body m required token)"
| "error_response (TenantNotActive m st) = (403, TenantNotActiveException_body m st)"
| "error_response (InsufficientTenantRole m roles) = (403, InsufficientTenantRoleException_body m roles)"
| "error_response (TooManyRequests _) = (429, JObj [(''statusCode'', JNum 429), (''message'', JStr ''ThrottlerException: Too Many Requests'')])"

text \<open>\<^verbatim>\<open>switchErrorMessage\<close> of the tenant switcher.\<close>

definition switchErrorMessage :: "(rat \<Rightarrow> string) \<Rightarrow> thrown \<Rightarrow> string" where
  "switchErrorMessage num e =
     (case e of
        ApiErrorThrown a \<Rightarrow>
          if ae_code a = JStr ''TENANT_NOT_ACTIVE'' then ''Couldn't switch tenant: it isn't active.''
          else if ae_code a = JStr ''TENANT_ACCESS_DENIED'' then ''Couldn't switch tenant: you're not a member.''
          else ''Couldn't switch tenant: '' @ (if ae_message a = JUndef then [] else js_text num (ae_message a))
      | _ \<Rightarrow> ''Couldn't switch tenant. Please try again.'')"

section \<open>Configuration\<close>

record app_config =
  cf_oidcClientId :: string
  cf_oidcScopes :: string

datatype config_error = ConfigStatus rat | ConfigNotJson | ConfigInvalid "string list"

definition REQUIRED_SCOPES :: "string list" where
  "REQUIRED_SCOPES = [''openid'', ''tenant'', ''offline_access'']"

text \<open>The schema; an error names the properties that do not fit.\<close>

definition appConfigSchema :: "json \<Rightarrow> string list + app_config" where
  "appConfigSchema raw =
     (case raw of
        JObj _ \<Rightarrow>
          (case (jget raw ''oidcClientId'', jget raw ''oidcScopes'') of
             (JStr c, JStr v) \<Rightarrow>
               let bad = (if c = [] then [''oidcClientId''] else [])
                 @ (if v = [] \<or> \<not> list_all (\<lambda>sc. sc \<in> set (split_ws v)) REQUIRED_SCOPES then [''oidcScopes''] else [])
               in if bad = [] then Inr \<lparr>cf_oidcClientId = c, cf_oidcScopes = v\<rparr> else Inl bad
           | (JStr c, _) \<Rightarrow> Inl ((if c = [] then [''oidcClientId''] else []) @ [''oidcScopes''])
           | (_, JStr v) \<Rightarrow> Inl (''oidcClientId'' #
               (if v = [] \<or> \<not> list_all (\<lambda>sc. sc \<in> set (split_ws v)) REQUIRED_SCOPES then [''oidcScopes''] else []))
           | _ \<Rightarrow> Inl [''oidcClientId'', ''oidcScopes''])
      | _ \<Rightarrow> Inl [[]])"

text \<open>The response is its status with the value of its body, \<open>None\<close> where that is no JSON; the second component is the loaded
  configuration.\<close>

definition loadAppConfig :: "rat \<Rightarrow> json option \<Rightarrow> app_config option \<Rightarrow> (config_error + app_config) \<times> app_config option" where
  "loadAppConfig status body loaded =
     (if \<not> (200 \<le> status \<and> status \<le> 299) then (Inl (ConfigStatus status), loaded)
      else case body of
        None \<Rightarrow> (Inl ConfigNotJson, loaded)
      | Some raw \<Rightarrow> (case appConfigSchema raw of Inl issues \<Rightarrow> (Inl (ConfigInvalid issues), loaded) | Inr cfg \<Rightarrow> (Inr cfg, Some cfg)))"

definition getAppConfig :: "app_config option \<Rightarrow> string + app_config" where
  "getAppConfig loaded = (case loaded of None \<Rightarrow> Inl ''App config read before loadAppConfig() resolved'' | Some c \<Rightarrow> Inr c)"

datatype auth_mode = MockMode | OidcMode

definition envSchema :: "string option \<Rightarrow> auth_mode option" where
  "envSchema v = (if v = None \<or> v = Some [] \<or> v = Some ''mock'' then Some MockMode else if v = Some ''oidc'' then Some OidcMode else None)"

section \<open>The tenant of a path\<close>

definition replaceTenantInPath :: "string \<Rightarrow> string \<Rightarrow> string \<Rightarrow> string" where
  "replaceTenantInPath pathname from to =
     (let pre = ''/tenants/'' @ from in
      if pathname \<noteq> pre \<and> \<not> prefix (pre @ ''/'') pathname then pathname
      else ''/tenants/'' @ to @ drop (length pre) pathname)"

datatype list_status = ListLoading | ListError | ListReady

definition useActiveTenant :: "string option \<Rightarrow> ui_tenant list option \<Rightarrow> bool \<Rightarrow> bool \<Rightarrow> ui_tenant option \<times> ui_tenant list \<times> list_status" where
  "useActiveTenant userTenant dat isPending isError =
     (let memberships = (case dat of Some ms \<Rightarrow> ms | None \<Rightarrow> []) in
      (List.find (\<lambda>m. Some (at_id m) = userTenant) memberships, memberships,
       if isPending then ListLoading else if isError then ListError else ListReady))"

text \<open>After a switch: the path to go to, if any, and the cached queries: those outside \<^verbatim>\<open>auth\<close> are reset, the others only marked as
  stale.\<close>

definition switch_navigation :: "string option \<Rightarrow> string \<Rightarrow> string \<Rightarrow> string option" where
  "switch_navigation from pathname tenantId =
     (let target = (case from of Some f \<Rightarrow> if f \<noteq> [] then replaceTenantInPath pathname f tenantId else pathname | None \<Rightarrow> pathname) in
      if target \<noteq> pathname then Some target else None)"

definition switch_cache :: "(string list \<times> json option \<times> bool) list \<Rightarrow> (string list \<times> json option \<times> bool) list" where
  "switch_cache cache = map (\<lambda>(key, v, stale). if key \<noteq> [] \<and> hd key = ''auth'' then (key, v, True) else (key, None, True)) cache"

section \<open>Pages\<close>

definition POST_LOGIN_PATH :: string where
  "POST_LOGIN_PATH = ''/tenants''"

definition POST_LOGOUT_PATH :: string where
  "POST_LOGOUT_PATH = ''/login''"

datatype ui_view = ShowStatus | Redirect string "string option" | ShowPage | ShowError string

definition RequireAuth :: "auth_state \<Rightarrow> string \<Rightarrow> string \<Rightarrow> ui_view" where
  "RequireAuth st pathname search =
     (case st of Loading \<Rightarrow> ShowStatus | Unauthenticated \<Rightarrow> Redirect ''/login'' (Some (pathname @ search)) | Authenticated _ \<Rightarrow> ShowPage)"

text \<open>The page shows its form, a redirect, or that the session is being restored; \<open>LoginPage_login\<close> is the path given to \<^verbatim>\<open>login\<close>.\<close>

definition LoginPage_login :: "string option \<Rightarrow> string" where
  "LoginPage_login from = (case from of Some f \<Rightarrow> f | None \<Rightarrow> POST_LOGIN_PATH)"

definition LoginPage :: "auth_state \<Rightarrow> string option \<Rightarrow> ui_view" where
  "LoginPage st from =
     (case st of Loading \<Rightarrow> ShowStatus | Authenticated _ \<Rightarrow> Redirect (LoginPage_login from) None | Unauthenticated \<Rightarrow> ShowPage)"

text \<open>How a callback ends: with the user and the path given to \<^verbatim>\<open>login\<close>, with a refusal of the provider, or otherwise.\<close>

datatype login_outcome = LoginDone "string option" | ProviderRefused string "string option" | ExchangeFailed

definition AuthCallbackPage :: "login_outcome option \<Rightarrow> ui_view" where
  "AuthCallbackPage res =
     (case res of
        None \<Rightarrow> ShowStatus
      | Some (LoginDone returnTo) \<Rightarrow> Redirect (case returnTo of Some p \<Rightarrow> p | None \<Rightarrow> POST_LOGIN_PATH) None
      | Some (ProviderRefused code description) \<Rightarrow>
          ShowError (case description of Some m \<Rightarrow> m | None \<Rightarrow> ''Sign-in was refused ('' @ code @ '').'')
      | Some ExchangeFailed \<Rightarrow> ShowError ''We could not complete your sign-in. Please try again.'')"

text \<open>\<^verbatim>\<open>redirectTo\<close> of the layout of a tenant's pages; the router decodes the parameter of the path and leaves the path as it is.\<close>

definition TenantLayout_redirect :: "string option \<Rightarrow> string \<Rightarrow> string option \<Rightarrow> string option" where
  "TenantLayout_redirect tenantId pathname userTenant =
     (if truthy_token tenantId \<and> truthy_token userTenant \<and> tenantId \<noteq> userTenant
      then Some (replaceTenantInPath pathname (the tenantId) (the userTenant)) else None)"

definition canSwitch :: "ui_tenant list \<Rightarrow> string option \<Rightarrow> bool" where
  "canSwitch memberships userTenant = list_ex (\<lambda>m. Some (at_id m) \<noteq> userTenant) memberships"

section \<open>Properties\<close>

text \<open>What an error of the API is called in the interface, and the text it shows.\<close>

fun client_code :: "(rat \<Rightarrow> string) \<Rightarrow> http_error \<Rightarrow> string" where
  "client_code num (BadRequest _) = ''Bad Request''"
| "client_code num (Unauthorized _) = ''Unauthorized''"
| "client_code num (Forbidden _) = ''Forbidden''"
| "client_code num (NotFound _) = ''Not Found''"
| "client_code num (Conflict _) = ''Conflict''"
| "client_code num (UnprocessableEntity _) = ''Unprocessable Entity''"
| "client_code num (NotImplemented _) = ''Not Implemented''"
| "client_code num (ServiceUnavailable _) = ''Service Unavailable''"
| "client_code num (InternalError _) = ''HTTP_'' @ num 500"
| "client_code num (AuthenticationRequired _ _) = ''AUTHENTICATION_REQUIRED''"
| "client_code num (InsufficientScope _ _ _) = ''INSUFFICIENT_SCOPE''"
| "client_code num (TenantAccessDenied _ _ _) = ''TENANT_ACCESS_DENIED''"
| "client_code num (TenantNotActive _ _) = ''TENANT_NOT_ACTIVE''"
| "client_code num (InsufficientTenantRole _ _) = ''INSUFFICIENT_TENANT_ROLE''"
| "client_code num (TooManyRequests _) = ''HTTP_'' @ num 429"

fun client_text :: "http_error \<Rightarrow> string" where
  "client_text (BadRequest m) = m"
| "client_text (Unauthorized m) = m"
| "client_text (Forbidden m) = m"
| "client_text (NotFound m) = m"
| "client_text (Conflict m) = m"
| "client_text (UnprocessableEntity m) = m"
| "client_text (NotImplemented m) = m"
| "client_text (ServiceUnavailable m) = m"
| "client_text (InternalError _) = ''Internal server error''"
| "client_text (AuthenticationRequired _ _) = ''Bearer token is missing, expired, or invalid''"
| "client_text (InsufficientScope m _ _) = m"
| "client_text (TenantAccessDenied m _ _) = m"
| "client_text (TenantNotActive m _) = m"
| "client_text (InsufficientTenantRole m _) = m"
| "client_text (TooManyRequests _) = ''ThrottlerException: Too Many Requests''"

fun is_auth_error :: "http_error \<Rightarrow> bool" where
  "is_auth_error (Unauthorized _) = True"
| "is_auth_error (AuthenticationRequired _ _) = True"
| "is_auth_error _ = False"

lemmas error_body_defs = nest_body_def AuthenticationRequiredException_body_def InsufficientScopeException_body_def
  TenantAccessDeniedException_body_def TenantNotActiveException_body_def InsufficientTenantRoleException_body_def
  isSpecErrorBody_def isNestErrorBody_def is_unauthorized_def


text \<open>An accepted configuration asks for the scopes the interface cannot do without.\<close>

lemma config_scopes:
  "loadAppConfig status body loaded = (Inr cfg, loaded') \<Longrightarrow>
     set REQUIRED_SCOPES \<subseteq> set (split_ws (cf_oidcScopes cfg)) \<and> cf_oidcClientId cfg \<noteq> [] \<and> getAppConfig loaded' = Inr cfg"
  by (auto simp: loadAppConfig_def appConfigSchema_def getAppConfig_def list_all_iff Let_def
      split: if_splits option.splits sum.splits json.splits)

text \<open>The path a user asked for survives the log-in: through the guard, the log-in page, the provider and the callback.\<close>

lemma deep_link_kept:
  "RequireAuth Unauthenticated pathname search = Redirect POST_LOGOUT_PATH from \<Longrightarrow>
     AuthCallbackPage (Some (LoginDone (Some (LoginPage_login from)))) = Redirect (pathname @ search) None
     \<and> LoginPage (Authenticated u) from = Redirect (pathname @ search) None"
  by (auto simp: RequireAuth_def AuthCallbackPage_def LoginPage_def LoginPage_login_def POST_LOGOUT_PATH_def)

lemma replace_under:
  assumes "rest = [] \<or> hd rest = CHR ''/''"
  shows "replaceTenantInPath (''/tenants/'' @ a @ rest) a b = ''/tenants/'' @ b @ rest"
proof (cases rest)
  case (Cons c cs)
  then have "prefix ((''/tenants/'' @ a) @ ''/'') (''/tenants/'' @ a @ rest)" using assms by (intro prefixI [of _ _ cs]) simp
  then show ?thesis by (simp add: replaceTenantInPath_def)
qed (simp add: replaceTenantInPath_def)

lemma replace_elsewhere:
  "pathname \<noteq> ''/tenants/'' @ a \<Longrightarrow> \<not> prefix (''/tenants/'' @ a @ ''/'') pathname \<Longrightarrow> replaceTenantInPath pathname a b = pathname"
  by (simp add: replaceTenantInPath_def)

text \<open>A page of another tenant redirects once, to the same section of the tenant of the token, when the router has nothing to
  decode; where it has, the layout redirects to the path it is on and the page stays empty.\<close>

lemma tenant_redirect_once:
  assumes "rest = [] \<or> hd rest = CHR ''/''" "seg \<noteq> []" "t \<noteq> []" "seg \<noteq> t"
  shows "TenantLayout_redirect (Some seg) (''/tenants/'' @ seg @ rest) (Some t) = Some (''/tenants/'' @ t @ rest)
     \<and> TenantLayout_redirect (Some t) (''/tenants/'' @ t @ rest) (Some t) = None"
  using assms replace_under [OF assms(1)] by (simp add: TenantLayout_redirect_def truthy_token_def)

lemma tenant_redirect_stuck:
  "TenantLayout_redirect (Some ''a b'') ''/tenants/a%20b/users'' (Some ''t1'') = Some ''/tenants/a%20b/users''"
  by code_simp

text \<open>No data of the tenant that was left stays in the cache, outside the list of memberships.\<close>

lemma switch_cache_reset:
  "(key, v, stale) \<in> set (switch_cache cache) \<Longrightarrow> v \<noteq> None \<Longrightarrow> key \<noteq> [] \<and> hd key = ''auth'' \<and> stale"
  by (auto simp: switch_cache_def split: if_splits)

end
