(* ===== verification/Spec2Isabelle.thy ===== *)
theory Spec2Isabelle
  imports Api_Disclosure Api_Policy Bootstrap Profile Ui_Pages
begin

text \<open>
  A verification library for the digital trust common service (\<^verbatim>\<open>src/apps/digital-trust-common-service\<close> with its
  libraries under \<^verbatim>\<open>src/libs\<close>): a multi-tenant service that issues access tokens, guards its routes by scope, tenant
  and role, keeps tenants with their users, OAuth clients, connections, encrypted connector credentials and
  operations in a database, and records what it does in an audit log.

  \<^bold>\<open>How the parts interact.\<close> A request passes the guards (bearer token, scopes, tenant of the route, tenant
  status, membership), then a service method reads and writes the database, emits audit events into a queue and,
  for a change of a tenant's status, a job. Workers take the queued events and jobs, in any order, and apply them.
  Periodic jobs purge what has expired. The OIDC provider stores sessions, grants and tokens through an adapter in
  one table of the same database; the services revoke them when a role is narrowed, a session limit is reached, a person
  switches to another tenant or an administrator ends the sessions. A person signs in at an upstream identity provider;
  the interaction and callback routes hand the log-in over and back.

  \<^bold>\<open>Modelling conventions.\<close> The database is the record \<^typ>\<open>db\<close> of theory \<open>Database\<close>: one field per table, a table a
  list of rows in insertion order, with the columns of the TypeORM entities as record fields. A repository method
  is a function of the database that checks the constraints the migrations declare (keys, foreign keys, check
  constraints) and returns \<^verbatim>\<open>db_error\<close> when one fails. A service method returns a \<^verbatim>\<open>result\<close> (an HTTP error or
  a value) with the database that remains; a transaction that throws leaves the database as it was. Generated
  identifiers and the clock are arguments. Time stamps of the program count milliseconds, those the database
  generates count microseconds, which matters for cursors. A service's operations are collected in a datatype with a
  step function, and its invariants are proved for every sequence of steps through the locale \<open>invariant_system\<close>.
  Third-party code is a parameter: \<^verbatim>\<open>jose\<close> (signature verification), \<^verbatim>\<open>argon2\<close>, AES-GCM of \<^verbatim>\<open>node:crypto\<close>, DNS, HTTP, the
  random source, \<^verbatim>\<open>openid-client\<close> and \<^verbatim>\<open>oidc-provider\<close>.

  \<^bold>\<open>Theories.\<close>
  \<^item> \<open>Prelude\<close>: errors and results, JavaScript string functions, JSON values, keyed tables, the locales
    \<open>invariant_system\<close> and \<open>tenant_scoped\<close>.
  \<^item> \<open>Scopes\<close> (\<^verbatim>\<open>libs/auth\<close>, scope constants and \<^verbatim>\<open>ScopeAuthorizationService\<close>): effective scopes are a closure operator.
  \<^item> \<open>Jwt_Auth\<close> (\<^verbatim>\<open>JwtValidationService\<close>, \<^verbatim>\<open>JwksCacheService\<close>): a request is authenticated only by a token whose
    signature, issuer, audience and time were verified; every failure is a challenge with an error code.
  \<^item> \<open>Database\<close>: all entities, the empty database, the audit events.
  \<^item> \<open>Keyset_Pagination\<close> (\<^verbatim>\<open>common/pagination\<close>): cursors, and the locale \<open>keyset_source\<close> with what following the
    cursors visits.
  \<^item> \<open>Tenant_User\<close>, \<open>Tenant\<close>, \<open>OAuth_Client\<close>, \<open>Connection\<close>, \<open>Connector_Credential\<close>: repository and service of
    each, with invariants (owners, life cycle, well-formed clients, isolation of tenants) and the status worker.
  \<^item> \<open>Access\<close>: the guards and their composition on tenant routes.
  \<^item> \<open>Crypto\<close>, \<open>Uri\<close>: envelope encryption with key versions; percent encoding.
  \<^item> \<open>Js_Date\<close>: the calendar arithmetic of \<^verbatim>\<open>Date.UTC\<close> and \<^verbatim>\<open>toISOString\<close>, and the monthly partitions of the audit log.
  \<^item> \<open>Audit_Log\<close>: listing, CSV export, the queue worker, the automatic interceptor.
  \<^item> \<open>Purge\<close>, \<open>Operation\<close>: the batched deletion of expired rows as the locale \<open>expiring_store\<close>; operations with their
    life times, first view and state changes.
  \<^item> \<open>Oidc_Store\<close>: the \<^verbatim>\<open>oidc_model\<close> table behind the adapter, proved to implement a map of live payloads (locale
    \<open>model_store\<close>), session limits, rebinding and bulk deletion.
  \<^item> \<open>Role_Scope\<close>: role defaults, tenant overrides, hierarchy, escalation check, revocation on narrowing.
  \<^item> \<open>Upstream_Oidc\<close> (\<^verbatim>\<open>upstream-oidc\<close>): the hand-over of a log-in to the upstream identity provider and back, the link between
    its session and the local one, the log-out, and the purge of all three tables; the staged identity token is the one sent
    at log-out.
  \<^item> \<open>Oidc_Provider\<close> (\<^verbatim>\<open>oidc-config.service\<close>, \<^verbatim>\<open>oidc-keys.service\<close>, \<^verbatim>\<open>oidc-provider.service\<close>): what the provider library is
    configured with; accepted configurations are well formed, rotation of refresh tokens is bounded.
  \<^item> \<open>Oidc_Login\<close> (\<^verbatim>\<open>OidcInteractionController\<close>): the interaction and callback routes; who is logged in, with which scopes, and
    the invariant of the whole login state.
  \<^item> \<open>Auth_Service\<close> (\<^verbatim>\<open>auth.service\<close>, \<^verbatim>\<open>admin-sessions.service\<close>): the tenant switch and the forced log-out.
  \<^item> \<open>Rate_Limit\<close> (\<^verbatim>\<open>rate-limit\<close>, \<^verbatim>\<open>admin-rate-limit\<close>): keys of the counters, the table of hits, the sliding window, tiers,
    the tenant guard and the prune job; a window admits at most the limit, and tenants do not use up each other's quota.
  \<^item> \<open>Json\<close>: which kind of value \<^verbatim>\<open>JSON.parse\<close> reads from a text.
  \<^item> \<open>Format_Validators\<close> (\<^verbatim>\<open>libs/credential-ports\<close>): the validators of the credential formats behind the locale
    \<open>format_validator\<close>, their registry, and the request validators.
  \<^item> \<open>Credential_Definition\<close>: repository and service; the stored definitions keep the unique active names and pass the
    schema check.
  \<^item> \<open>Adapter_Registry\<close>: the agent adapters, the resolution of a tenant's connector to an adapter and its context, and the
    token cache of Traction.
  \<^item> \<open>Credential\<close>: the answer to an offer and revocation, which tie operations, connectors and adapters together.
  \<^item> \<open>Api_Dto\<close> (\<^verbatim>\<open>dto\<close> of each component): the validation rules of the request bodies and queries, and the response objects with
    their \<^verbatim>\<open>fromEntity\<close> functions.
  \<^item> \<open>Api\<close> (the REST controllers, \<^verbatim>\<open>app.config\<close>, \<^verbatim>\<open>app.module\<close>): one definition for each controller method, with its guards in
    the order of the decorators, its validation, its service call and its response; all routes as one datatype, and the
    whole handling of a request from its bearer token to its response, the audit interceptor included.
  \<^item> \<open>Tenant_Frame\<close>: what an operation leaves alone. \<^verbatim>\<open>keeps t own\<close> says that the rows of all tenants but \<open>t\<close> are as before;
    a lemma for each service method, and the locale \<open>db_frame\<close> that lifts such a relation through the combinators of the routes.
  \<^item> \<open>Api_Isolation\<close>: the isolation of tenants for the whole API: no request of a tenant changes a row of another.
  \<^item> \<open>Api_Disclosure\<close>: the dual for responses: what a request of a tenant is answered with are views of rows of that tenant.
  \<^item> \<open>Api_Policy\<close>: a table of who may call what, and that every request that succeeds satisfies it.
  \<^item> \<open>Bootstrap\<close> (\<^verbatim>\<open>bootstrap\<close>): the first run in an environment; what it leaves behind, and that it can be run again.
  \<^item> \<open>Profile\<close> (\<^verbatim>\<open>issuance-profile\<close>, \<^verbatim>\<open>verification-profile\<close>): the two tables and their repositories behind the locale
    \<open>versioned_table\<close>; a version is what a lookup by name and version finds.
  \<^item> \<open>Ui_Client\<close> (\<^verbatim>\<open>apps/ui/src/lib/api\<close>): errors and lists in the web interface, and the API client as a state machine of
    requests, refusals and the one shared renewal; one renewal at a time, at most one retry, and no request hangs.
  \<^item> \<open>Ui_Session\<close> (\<^verbatim>\<open>apps/ui/src/lib/auth\<close>): the session with its queue of renewals and tenant switches, and the mock client,
    both behind the locale \<open>auth_client\<close>; a switch is not undone, and a renewal that fails during it is answered with a token.
  \<^item> \<open>Ui_Pages\<close> (the rest of \<^verbatim>\<open>apps/ui/src\<close> that decides something): configuration, route guard, log-in pages, tenant paths,
    and how the errors of the API reach the user.

  \<^bold>\<open>Bounds and fuel.\<close> Following a cursor takes fuel (\<open>follow\<close>); the exactness theorems give fuel in terms of the number
  of rows and page size. The JSON recogniser takes fuel twice the length of the text plus two, which every nesting
  fits in. The purge runs at most 50 batches of 500 rows, as the code does. Key caches, retries and page sizes keep the
  constants of the code.

  \<^bold>\<open>Hypotheses of the whole-API theorems.\<close> \<^verbatim>\<open>uuid_shape\<close>: the test behind \<^verbatim>\<open>ParseUUIDPipe\<close> and \<^verbatim>\<open>IsUUID\<close> (a library) accepts
  no text that is blank. \<^verbatim>\<open>db_keys\<close>: the tables have distinct primary keys, which every operation keeps.

  \<^bold>\<open>Not modelled.\<close> The matching of a URL to its route, and the Swagger texts; the writing of a response object as JSON;
  the throttler of the library that counts requests by address; logging and telemetry; the
  interior of \<^verbatim>\<open>oidc-provider\<close>, TypeORM, pg-boss and PostgreSQL beyond the documented behaviour that the code uses; the
  markup of the web interface; generated API types; the registration of queues and the sample data of development.
\<close>

end
